(* ===== verification/Py_Float.thy ===== *)
theory Py_Float
  imports Complex_Main
begin

text \<open>
  A Python float: a finite value, an infinity or \<open>nan\<close>. Finite values are rationals, without
  rounding; \<open>nan\<close> makes every comparison false.
\<close>

datatype py_float = Fin rat | PosInf | NegInf | NaN

fun float_sub :: "py_float \<Rightarrow> py_float \<Rightarrow> py_float" where
  "float_sub NaN y = NaN"
| "float_sub x NaN = NaN"
| "float_sub (Fin a) (Fin b) = Fin (a - b)"
| "float_sub (Fin a) PosInf = NegInf"
| "float_sub (Fin a) NegInf = PosInf"
| "float_sub PosInf PosInf = NaN"
| "float_sub PosInf y = PosInf"
| "float_sub NegInf NegInf = NaN"
| "float_sub NegInf y = NegInf"

fun float_abs :: "py_float \<Rightarrow> py_float" where
  "float_abs NaN = NaN"
| "float_abs (Fin a) = Fin \<bar>a\<bar>"
| "float_abs y = PosInf"

fun float_gt :: "py_float \<Rightarrow> py_float \<Rightarrow> bool" where
  "float_gt NaN y = False"
| "float_gt x NaN = False"
| "float_gt (Fin a) (Fin b) = (a > b)"
| "float_gt (Fin a) NegInf = True"
| "float_gt (Fin a) PosInf = False"
| "float_gt PosInf PosInf = False"
| "float_gt PosInf y = True"
| "float_gt NegInf y = False"

definition float_le :: "py_float \<Rightarrow> py_float \<Rightarrow> bool" where
  "float_le x y \<longleftrightarrow> x \<noteq> NaN \<and> y \<noteq> NaN \<and> \<not> float_gt x y"

text \<open>\<open>x + n\<close> for a small integer \<open>n\<close>.\<close>

fun float_shift :: "py_float \<Rightarrow> int \<Rightarrow> py_float" where
  "float_shift (Fin a) n = Fin (a + of_int n)"
| "float_shift y n = y"

text \<open>\<open>math.isfinite\<close>.\<close>

fun is_finite :: "py_float \<Rightarrow> bool" where
  "is_finite (Fin a) = True"
| "is_finite y = False"

end
