(* ===== verification/Prelude.thy ===== *)
theory Prelude
  imports Main "HOL-Library.Char_ord" "HOL-Library.List_Lexorder"
begin

text \<open>
  Shared vocabulary of the development: Python dictionaries kept in insertion order as
  association lists, results that are either an exception or a value, the text tests the
  code performs with \<open>str\<close> methods and fixed regular expressions, and the generic lemmas
  about them.

  Text is \<open>string\<close>, a list of characters, one character per Python code point: the model
  covers code points below 256.
\<close>

named_theorems dict_simps
  \<comment> \<open>rewriting of lookups and updates of insertion-ordered dictionaries\<close>

named_theorems ok_defs
  \<comment> \<open>the \<open>__post_init__\<close> predicates of the transaction data classes\<close>

section \<open>Results\<close>

text \<open>An operation on a mutable object returns the exception or value and the object's new state.\<close>

type_synonym ('e, 'a, 's) outcome = "('e + 'a) \<times> 's"

definition succeeded :: "('e, 'a, 's) outcome \<Rightarrow> bool" where
  "succeeded r \<longleftrightarrow> (\<exists>a. fst r = Inr a)"

lemma succeeded_simps [simp]:
  "succeeded (Inr a, s)" "\<not> succeeded (Inl e, s)"
  by (simp_all add: succeeded_def)

section \<open>Insertion-ordered dictionaries\<close>

type_synonym ('k, 'v) dict = "('k \<times> 'v) list"

text \<open>\<open>d[k] = v\<close>: an existing key keeps its place, a new key goes to the end.\<close>

fun dict_put :: "('k, 'v) dict \<Rightarrow> 'k \<Rightarrow> 'v \<Rightarrow> ('k, 'v) dict" where
  "dict_put [] k v = [(k, v)]"
| "dict_put (p # d) k v = (if fst p = k then (k, v) # d else p # dict_put d k v)"

text \<open>\<open>del d[k]\<close> and \<open>d.pop(k, None)\<close>.\<close>

definition dict_del :: "('k, 'v) dict \<Rightarrow> 'k \<Rightarrow> ('k, 'v) dict" where
  "dict_del d k = filter (\<lambda>p. fst p \<noteq> k) d"

definition dict_ok :: "('k, 'v) dict \<Rightarrow> bool" where
  "dict_ok d \<longleftrightarrow> distinct (map fst d)"

lemma map_of_dict_put [simp, dict_simps]: "map_of (dict_put d k v) = (map_of d)(k \<mapsto> v)"
  by (induction d) (auto simp: fun_eq_iff)

lemma keys_dict_put [dict_simps]:
  "map fst (dict_put d k v) = (if k \<in> set (map fst d) then map fst d else map fst d @ [k])"
  by (induction d) auto

lemma set_keys_dict_put [simp]: "fst ` set (dict_put d k v) = insert k (fst ` set d)"
  by (induction d) auto

lemma dict_ok_put [simp, intro]: "dict_ok d \<Longrightarrow> dict_ok (dict_put d k v)"
  by (auto simp: dict_ok_def keys_dict_put)

lemma dict_ok_Nil [simp]: "dict_ok []"
  by (simp add: dict_ok_def)

lemma set_dict_put:
  "dict_ok d \<Longrightarrow> set (dict_put d k v) = insert (k, v) {p \<in> set d. fst p \<noteq> k}"
  by (induction d) (auto simp: dict_ok_def image_iff)

lemma dict_put_same [simp]: "map_of d k = Some v \<Longrightarrow> dict_put d k v = d"
  by (induction d) auto

lemma map_of_dict_del [simp, dict_simps]: "map_of (dict_del d k) = (map_of d)(k := None)"
  by (induction d) (auto simp: dict_del_def fun_eq_iff)

lemma dict_ok_del [simp, intro]: "dict_ok d \<Longrightarrow> dict_ok (dict_del d k)"
  unfolding dict_ok_def dict_del_def by (rule distinct_map_filter)

lemma map_of_dict_ok: "dict_ok d \<Longrightarrow> (map_of d k = Some v) = ((k, v) \<in> set d)"
  by (simp add: dict_ok_def)

lemma dict_values: "dict_ok d \<Longrightarrow> v \<in> snd ` set d \<longleftrightarrow> (\<exists>k. map_of d k = Some v)"
  by (force simp: map_of_dict_ok)

lemma length_dict_put_notin:
  "k \<notin> fst ` set d \<Longrightarrow> dict_put d k v = d @ [(k, v)]"
  by (induction d) auto

section \<open>Text\<close>

definition starts_with :: "string \<Rightarrow> string \<Rightarrow> bool" where
  "starts_with p s \<longleftrightarrow> take (length p) s = p"

lemma starts_with_append [simp]: "starts_with p (p @ s)"
  by (simp add: starts_with_def)

lemma starts_with_ex: "starts_with p s \<longleftrightarrow> (\<exists>r. s = p @ r)"
  unfolding starts_with_def by (metis append_eq_conv_conj append_take_drop_id)

text \<open>\<open>[0-9a-f]\<close> and \<open>[a-z0-9_]\<close>.\<close>

definition hex_digit :: "char \<Rightarrow> bool" where
  "hex_digit c \<longleftrightarrow> c \<in> set ''0123456789abcdef''"

definition word_char :: "char \<Rightarrow> bool" where
  "word_char c \<longleftrightarrow> c \<in> set ''abcdefghijklmnopqrstuvwxyz0123456789_''"

definition hex_text :: "nat \<Rightarrow> string \<Rightarrow> bool" where
  "hex_text n s \<longleftrightarrow> length s = n \<and> list_all hex_digit s"

lemma hex_text_take: "hex_text n s \<Longrightarrow> k \<le> n \<Longrightarrow> hex_text k (take k s)"
  by (auto simp: hex_text_def list_all_iff dest: in_set_takeD)

text \<open>\<open>prefix\<close> followed by \<open>n\<close> lower-case hex digits: the shape of every identity pattern.\<close>

definition hex_suffixed :: "string \<Rightarrow> nat \<Rightarrow> string \<Rightarrow> bool" where
  "hex_suffixed p n s \<longleftrightarrow> starts_with p s \<and> hex_text n (drop (length p) s)"

lemma hex_suffixed_append [simp]: "hex_suffixed p n (p @ s) \<longleftrightarrow> hex_text n s"
  by (simp add: hex_suffixed_def)

text \<open>The code points \<open>str.strip\<close> removes, restricted to code points below 256.\<close>

definition py_space :: "char \<Rightarrow> bool" where
  "py_space c \<longleftrightarrow> (let n = of_char c :: nat in
     (9 \<le> n \<and> n \<le> 13) \<or> (28 \<le> n \<and> n \<le> 32) \<or> n = 133 \<or> n = 160)"

definition py_strip :: "string \<Rightarrow> string" where
  "py_strip s = rev (dropWhile py_space (rev (dropWhile py_space s)))"

definition char_code :: "char \<Rightarrow> nat" where
  "char_code c = of_char c"

section \<open>Lists\<close>

lemma find_Some_in: "List.find P xs = Some x \<Longrightarrow> x \<in> set xs \<and> P x"
  by (induction xs) (auto split: if_splits)

lemma find_None_all: "List.find P xs = None \<longleftrightarrow> (\<forall>x \<in> set xs. \<not> P x)"
  by (induction xs) auto

lemma nth_in_update:
  "x \<in> set (xs[i := y]) \<Longrightarrow> x = y \<or> (\<exists>k < length xs. k \<noteq> i \<and> x = xs ! k)"
  by (metis in_set_conv_nth length_list_update nth_list_update_eq nth_list_update_neq)

text \<open>
  A loop over a list whose body tests each element against what the loop has already seen: the
  dictionaries and sets such a loop fills are functions of the elements before the current one.
\<close>

fun each_after :: "('a list \<Rightarrow> 'a \<Rightarrow> bool) \<Rightarrow> 'a list \<Rightarrow> 'a list \<Rightarrow> bool" where
  "each_after P seen [] = True"
| "each_after P seen (x # xs) = (P seen x \<and> each_after P (seen @ [x]) xs)"

lemma each_after_append [simp]:
  "each_after P seen (xs @ ys) = (each_after P seen xs \<and> each_after P (seen @ xs) ys)"
  by (induction xs arbitrary: seen) auto

lemma each_after_split:
  assumes "each_after P [] (xs @ y # ys)"
  shows "P xs y"
  using assms by simp

lemma each_after_in:
  assumes "each_after P [] xs" "x \<in> set xs"
  obtains ys zs where "xs = ys @ x # zs" "P ys x" "each_after P [] ys"
  using assms by (metis each_after_append each_after_split split_list)

lemma each_after_mono:
  assumes "each_after P seen xs" "\<And>ys x. P ys x \<Longrightarrow> x \<in> set xs \<Longrightarrow> Q ys x"
  shows "each_after Q seen xs"
  using assms by (induction xs arbitrary: seen) auto

text \<open>A loop over the pairs of neighbours of a list.\<close>

fun successive :: "('a \<Rightarrow> 'a \<Rightarrow> bool) \<Rightarrow> 'a list \<Rightarrow> bool" where
  "successive P (x # y # zs) = (P x y \<and> successive P (y # zs))"
| "successive P _ = True"

lemma successive_append:
  "successive P (xs @ y # z # zs) \<Longrightarrow> P y z"
  by (induction P xs rule: successive.induct) auto

lemma successive_snoc:
  "successive P (xs @ [y]) \<longleftrightarrow> successive P xs \<and> (xs \<noteq> [] \<longrightarrow> P (last xs) y)"
  by (induction P xs rule: successive.induct) auto

definition last_option :: "'a list \<Rightarrow> 'a option" where
  "last_option xs = (if xs = [] then None else Some (last xs))"

lemma last_option_simps [simp]:
  "last_option [] = None" "last_option (xs @ [x]) = Some x"
  "last_option xs = None \<longleftrightarrow> xs = []"
  by (auto simp: last_option_def)

lemma last_option_in: "last_option xs = Some x \<Longrightarrow> x \<in> set xs"
  by (auto simp: last_option_def split: if_splits)

end
