(* ===== verification/Prototype_Engine.thy ===== *)
theory Prototype_Engine
  imports Py_Float Canonical_Json
begin

text \<open>
  The phase-one prototype under \<open>src/backend/\<close>: the data models (\<open>models.py\<close>), the
  Zigbee2MQTT message shapes (\<open>z2m_protocol.py\<close>) and the guarded in-memory replacement
  engine (\<open>replacement.py\<close>).

  A \<open>StrEnum\<close> is a datatype, a data class a record. The engine's two dictionaries are
  insertion-ordered association lists. An f-string message is a constructor of \<open>message\<close>
  with the values it interpolates. Every method returns the exception or the value together
  with the new engine, because some methods change a session before they raise.
\<close>

section \<open>Data models (models.py)\<close>

datatype phase =
    AWAITING_PAIRING | INTERVIEWING | READY_TO_COMMIT | TESTING | COMPLETE | FAILED | ROLLED_BACK

record device_binding =
  db_registry_entry_id :: string
  db_climate_entity_id :: string
  db_ieee_address :: string
  db_model :: json
  db_manufacturer :: json
  db_friendly_name :: string

record room_slot =
  rm_room_id :: string
  rm_display_name :: string
  rm_allowed_models :: "string list"
  rm_binding :: device_binding
  rm_revision :: int

text \<open>\<open>model\<close>, \<open>manufacturer\<close> and \<open>supported\<close> hold whatever the event carried; \<open>None\<close> is \<open>JNull\<close>.\<close>

record device_identity =
  di_ieee_address :: string
  di_friendly_name :: string
  di_model :: json
  di_manufacturer :: json
  di_supported :: json

record command_intent =
  ci_topic :: string
  ci_payload :: json

datatype message =
    M_started string
  | M_one_candidate_joined
  | M_interview_started
  | M_candidate_verified json
  | M_committed
  | M_completed
  | M_failed message
  | M_restored message
  | M_window_expired
  | M_more_than_one_device
  | M_interview_failed
  | M_not_supported
  | M_model_not_approved json
  | M_room_changed
  | M_identity_incomplete
  | M_no_climate_entity
  | M_already_bound
  | M_wrong_entity
  | M_target_not_confirmed
  | M_caller string

text \<open>A \<open>datetime\<close>: microseconds on the UTC time line, or a wall-clock time without a zone.\<close>

datatype py_datetime = Naive int | Aware int

fun instant :: "py_datetime \<Rightarrow> int" where
  "instant (Naive t) = t"
| "instant (Aware t) = t"

fun aware :: "py_datetime \<Rightarrow> bool" where
  "aware (Aware t) = True"
| "aware (Naive t) = False"

record session =
  ss_session_id :: string
  ss_room_id :: string
  ss_expected_revision :: int
  ss_started_at :: int
  ss_pairing_deadline :: int
  ss_old_binding :: device_binding
  ss_phase :: phase
  ss_candidate :: "device_identity option"
  ss_candidate_entity_id :: "string option"
  ss_failure_reason :: "message option"
  ss_join_closed :: bool
  ss_audit :: "message list"

definition record_message :: "message \<Rightarrow> session \<Rightarrow> session" where
  "record_message m s = s\<lparr>ss_audit := ss_audit s @ [m]\<rparr>"

datatype engine_error =
    ValueErr | TypeErr | KeyErr | BridgeEventErr | ReplacementErr | StaleRevisionErr

section \<open>Zigbee2MQTT message shapes (z2m\_protocol.py)\<close>

definition PERMIT_JOIN_REQUEST_TOPIC :: string where
  "PERMIT_JOIN_REQUEST_TOPIC = ''zigbee2mqtt/bridge/request/permit_join''"

definition DEVICE_RENAME_REQUEST_TOPIC :: string where
  "DEVICE_RENAME_REQUEST_TOPIC = ''zigbee2mqtt/bridge/request/device/rename''"

definition permit_join_intent :: "int \<Rightarrow> string \<Rightarrow> engine_error + command_intent" where
  "permit_join_intent seconds transaction =
     (if seconds < 0 \<or> seconds > 254 then Inl ValueErr
      else Inr \<lparr>ci_topic = PERMIT_JOIN_REQUEST_TOPIC,
                ci_payload = JObj [(''time'', JInt seconds), (''transaction'', JStr transaction)]\<rparr>)"

text \<open>\<open>close_join_intent\<close> is \<open>permit_join_intent(0, transaction)\<close>, which cannot raise.\<close>

definition close_join_intent :: "string \<Rightarrow> command_intent" where
  "close_join_intent transaction =
     \<lparr>ci_topic = PERMIT_JOIN_REQUEST_TOPIC,
      ci_payload = JObj [(''time'', JInt 0), (''transaction'', JStr transaction)]\<rparr>"

definition rename_device_intent ::
  "string \<Rightarrow> string \<Rightarrow> string \<Rightarrow> engine_error + command_intent" where
  "rename_device_intent source destination transaction =
     (if source = [] \<or> destination = [] then Inl ValueErr
      else Inr \<lparr>ci_topic = DEVICE_RENAME_REQUEST_TOPIC,
                ci_payload = JObj [(''from'', JStr source), (''to'', JStr destination),
                  (''homeassistant_rename'', JBool False), (''transaction'', JStr transaction)]\<rparr>)"

record bridge_event =
  be_event_type :: string
  be_ieee_address :: string
  be_friendly_name :: string
  be_interview_status :: json
  be_supported :: json
  be_model :: json
  be_manufacturer :: json

text \<open>
  A payload is text that \<open>json.loads\<close> decodes, or a mapping. \<open>loads\<close>, the decoder of the
  runtime, is an argument: \<open>None\<close> is \<open>JSONDecodeError\<close>. Bytes are decoded to text first.
\<close>

datatype payload = PText string | PMap "(string \<times> json) list"

definition event_types :: "string list" where
  "event_types = [''device_joined'', ''device_interview'', ''device_announce'']"

text \<open>
  \<open>event_type not in {...}\<close> hashes its left operand, so a list or an object raises
  \<open>TypeError\<close> there instead of \<open>BridgeEventError\<close>.
\<close>

definition normalize_event :: "(string \<times> json) list \<Rightarrow> engine_error + bridge_event" where
  "normalize_event decoded =
     (case obj_get decoded ''type'' JNull of
        JArr _ \<Rightarrow> Inl TypeErr
      | JObj _ \<Rightarrow> Inl TypeErr
      | JStr event_type \<Rightarrow>
          (if event_type \<notin> set event_types then Inl BridgeEventErr
           else case obj_get decoded ''data'' JNull of
             JObj data \<Rightarrow>
               (case obj_get data ''ieee_address'' JNull of
                  JStr ieee \<Rightarrow>
                    (if \<not> starts_with ''0x'' ieee then Inl BridgeEventErr
                     else case obj_get data ''friendly_name'' (JStr ieee) of
                       JStr name \<Rightarrow>
                         (if name = [] then Inl BridgeEventErr
                          else let build = (\<lambda>definition. Inr
                                 \<lparr>be_event_type = event_type, be_ieee_address = ieee,
                                  be_friendly_name = name,
                                  be_interview_status = obj_get data ''status'' JNull,
                                  be_supported = obj_get data ''supported'' JNull,
                                  be_model = obj_get definition ''model'' JNull,
                                  be_manufacturer = obj_get definition ''vendor'' JNull\<rparr>);
                                 raw = obj_get data ''definition'' JNull
                               in if \<not> json_truthy raw then build []
                                  else case raw of JObj definition \<Rightarrow> build definition
                                       | _ \<Rightarrow> Inl BridgeEventErr)
                     | _ \<Rightarrow> Inl BridgeEventErr)
                | _ \<Rightarrow> Inl BridgeEventErr)
           | _ \<Rightarrow> Inl BridgeEventErr)
      | _ \<Rightarrow> Inl BridgeEventErr)"

fun parse_bridge_event :: "(string \<Rightarrow> json option) \<Rightarrow> payload \<Rightarrow> engine_error + bridge_event" where
  "parse_bridge_event loads (PText text) =
     (case loads text of
        None \<Rightarrow> Inl BridgeEventErr
      | Some (JObj decoded) \<Rightarrow> normalize_event decoded
      | Some _ \<Rightarrow> Inl BridgeEventErr)"
| "parse_bridge_event loads (PMap decoded) = normalize_event decoded"

section \<open>The replacement engine (replacement.py)\<close>

record engine =
  en_rooms :: "(string, room_slot) dict"
  en_sessions :: "(string, session) dict"

definition engine_init :: "room_slot list \<Rightarrow> engine_error + engine" where
  "engine_init rooms =
     (if card (set (map rm_room_id rooms)) \<noteq> length rooms then Inl ValueErr
      else Inr \<lparr>en_rooms = map (\<lambda>r. (rm_room_id r, r)) rooms, en_sessions = []\<rparr>)"

definition active_phase :: "phase \<Rightarrow> bool" where
  "active_phase p \<longleftrightarrow> p \<in> set [AWAITING_PAIRING, INTERVIEWING, READY_TO_COMMIT, TESTING]"

definition pairing_phase :: "phase \<Rightarrow> bool" where
  "pairing_phase p \<longleftrightarrow> p \<in> set [AWAITING_PAIRING, INTERVIEWING]"

definition active_session :: "engine \<Rightarrow> session option" where
  "active_session e = List.find (\<lambda>s. active_phase (ss_phase s)) (map snd (en_sessions e))"

definition put_session :: "session \<Rightarrow> engine \<Rightarrow> engine" where
  "put_session s e = e\<lparr>en_sessions := dict_put (en_sessions e) (ss_session_id s) s\<rparr>"

definition put_room :: "room_slot \<Rightarrow> engine \<Rightarrow> engine" where
  "put_room r e = e\<lparr>en_rooms := dict_put (en_rooms e) (rm_room_id r) r\<rparr>"

definition fail_session :: "session \<Rightarrow> message \<Rightarrow> session \<times> command_intent list" where
  "fail_session s reason =
     (let s' = record_message (M_failed reason)
                 (s\<lparr>ss_phase := FAILED, ss_failure_reason := Some reason\<rparr>)
      in if ss_join_closed s then (s', [])
         else (s'\<lparr>ss_join_closed := True\<rparr>, [close_join_intent (ss_session_id s)]))"

definition start ::
  "string \<Rightarrow> string \<Rightarrow> py_datetime \<Rightarrow> int \<Rightarrow> engine
     \<Rightarrow> (engine_error, session \<times> command_intent list, engine) outcome" where
  "start sid room_id now pairing_seconds e =
     (if \<not> aware now then (Inl ValueErr, e)
      else if pairing_seconds < 15 \<or> pairing_seconds > 60 then (Inl ReplacementErr, e)
      else if active_session e \<noteq> None then (Inl ReplacementErr, e)
      else case map_of (en_rooms e) room_id of
        None \<Rightarrow> (Inl ReplacementErr, e)
      | Some room \<Rightarrow>
          (let s = record_message (M_started (rm_display_name room))
                 \<lparr>ss_session_id = sid, ss_room_id = room_id,
                  ss_expected_revision = rm_revision room, ss_started_at = instant now,
                  ss_pairing_deadline = instant now + pairing_seconds * 1000000,
                  ss_old_binding = rm_binding room, ss_phase = AWAITING_PAIRING,
                  ss_candidate = None, ss_candidate_entity_id = None,
                  ss_failure_reason = None, ss_join_closed = False, ss_audit = []\<rparr>;
               e' = put_session s e
           in case permit_join_intent pairing_seconds sid of
                Inl err \<Rightarrow> (Inl err, e')
              | Inr intent \<Rightarrow> (Inr (s, [intent]), e')))"

text \<open>\<open>self._fail(session, reason)\<close> as a statement of an engine method that then returns its intents.\<close>

definition fail_return ::
  "session \<Rightarrow> message \<Rightarrow> engine \<Rightarrow> (engine_error, command_intent list, engine) outcome" where
  "fail_return s reason e =
     (case fail_session s reason of (s', intents) \<Rightarrow> (Inr intents, put_session s' e))"

definition handle_joined ::
  "session \<Rightarrow> bridge_event \<Rightarrow> engine \<Rightarrow> (engine_error, command_intent list, engine) outcome" where
  "handle_joined s ev e =
     (Inr [], put_session (record_message M_one_candidate_joined
        (s\<lparr>ss_candidate := Some \<lparr>di_ieee_address = be_ieee_address ev,
             di_friendly_name = be_friendly_name ev, di_model = JNull,
             di_manufacturer = JNull, di_supported = JNull\<rparr>,
           ss_phase := INTERVIEWING\<rparr>)) e)"

definition handle_interview ::
  "session \<Rightarrow> bridge_event \<Rightarrow> engine \<Rightarrow> (engine_error, command_intent list, engine) outcome" where
  "handle_interview s0 ev e =
     (let s = s0\<lparr>ss_candidate := (case ss_candidate s0 of
                   Some c \<Rightarrow> Some c
                 | None \<Rightarrow> Some \<lparr>di_ieee_address = be_ieee_address ev,
                     di_friendly_name = be_friendly_name ev, di_model = JNull,
                     di_manufacturer = JNull, di_supported = JNull\<rparr>),
                 ss_phase := INTERVIEWING\<rparr>
      in if be_interview_status ev = JStr ''started''
         then (Inr [], put_session (record_message M_interview_started s) e)
         else if be_interview_status ev \<noteq> JStr ''successful''
         then fail_return s M_interview_failed e
         else let s2 = s\<lparr>ss_candidate := Some \<lparr>di_ieee_address = be_ieee_address ev,
                     di_friendly_name = be_friendly_name ev, di_model = be_model ev,
                     di_manufacturer = be_manufacturer ev, di_supported = be_supported ev\<rparr>\<rparr>
           in case map_of (en_rooms e) (ss_room_id s2) of
                None \<Rightarrow> (Inl KeyErr, put_session s2 e)
              | Some room \<Rightarrow>
                  (if be_supported ev \<noteq> JBool True then fail_return s2 M_not_supported e
                   else if be_model ev \<notin> set (map JStr (rm_allowed_models room))
                   then fail_return s2 (M_model_not_approved (be_model ev)) e
                   else (Inr [close_join_intent (ss_session_id s2)],
                         put_session (record_message (M_candidate_verified (be_model ev))
                           (s2\<lparr>ss_phase := READY_TO_COMMIT, ss_join_closed := True\<rparr>)) e)))"

definition handle_bridge_event ::
  "bridge_event \<Rightarrow> py_datetime \<Rightarrow> engine
     \<Rightarrow> (engine_error, command_intent list, engine) outcome" where
  "handle_bridge_event ev now e =
     (if \<not> aware now then (Inl ValueErr, e)
      else case active_session e of
        None \<Rightarrow> (Inr [], e)
      | Some s \<Rightarrow>
          (if pairing_phase (ss_phase s) \<and> ss_pairing_deadline s \<le> instant now
           then fail_return s M_window_expired e
           else if be_event_type ev = ''device_announce'' then (Inr [], e)
           else if (case ss_candidate s of
                      None \<Rightarrow> False
                    | Some c \<Rightarrow> di_ieee_address c \<noteq> be_ieee_address ev)
           then fail_return s M_more_than_one_device e
           else if be_event_type ev = ''device_joined'' then handle_joined s ev e
           else if be_event_type ev \<noteq> ''device_interview'' then (Inr [], e)
           else handle_interview s ev e))"

definition tick ::
  "py_datetime \<Rightarrow> engine \<Rightarrow> (engine_error, command_intent list, engine) outcome" where
  "tick now e =
     (if \<not> aware now then (Inl ValueErr, e)
      else case active_session e of
        None \<Rightarrow> (Inr [], e)
      | Some s \<Rightarrow>
          (if pairing_phase (ss_phase s) \<and> ss_pairing_deadline s \<le> instant now
           then fail_return s M_window_expired e
           else (Inr [], e)))"

text \<open>\<open>self._fail(session, reason)\<close> followed by \<open>raise\<close>: the close intent is dropped.\<close>

definition fail_raise ::
  "session \<Rightarrow> message \<Rightarrow> engine_error \<Rightarrow> engine \<Rightarrow> (engine_error, 'a, engine) outcome" where
  "fail_raise s reason err e = (Inl err, put_session (fst (fail_session s reason)) e)"

definition allocated_elsewhere :: "string \<Rightarrow> string \<Rightarrow> string \<Rightarrow> engine \<Rightarrow> bool" where
  "allocated_elsewhere room_id registry_entry_id ieee e \<longleftrightarrow>
     list_ex (\<lambda>r. rm_room_id r \<noteq> room_id \<and>
        (db_registry_entry_id (rm_binding r) = registry_entry_id \<or>
         db_ieee_address (rm_binding r) = ieee)) (map snd (en_rooms e))"

definition commit ::
  "string \<Rightarrow> string \<Rightarrow> string \<Rightarrow> engine \<Rightarrow> (engine_error, session, engine) outcome" where
  "commit session_id registry_entry_id climate_entity_id e =
     (case map_of (en_sessions e) session_id of
        None \<Rightarrow> (Inl ReplacementErr, e)
      | Some s \<Rightarrow>
          (if ss_phase s \<noteq> READY_TO_COMMIT then (Inl ReplacementErr, e)
           else case map_of (en_rooms e) (ss_room_id s) of
             None \<Rightarrow> (Inl KeyErr, e)
           | Some room \<Rightarrow>
               (if rm_revision room \<noteq> ss_expected_revision s
                then fail_raise s M_room_changed StaleRevisionErr e
                else case ss_candidate s of
                  None \<Rightarrow> fail_raise s M_identity_incomplete ReplacementErr e
                | Some c \<Rightarrow>
                    (if di_model c = JNull then fail_raise s M_identity_incomplete ReplacementErr e
                     else if \<not> starts_with ''climate.'' climate_entity_id
                     then fail_raise s M_no_climate_entity ReplacementErr e
                     else if allocated_elsewhere (rm_room_id room) registry_entry_id
                               (di_ieee_address c) e
                     then fail_raise s M_already_bound ReplacementErr e
                     else let room' = room\<lparr>rm_binding :=
                                \<lparr>db_registry_entry_id = registry_entry_id,
                                 db_climate_entity_id = climate_entity_id,
                                 db_ieee_address = di_ieee_address c,
                                 db_model = di_model c,
                                 db_manufacturer = (if json_truthy (di_manufacturer c)
                                   then di_manufacturer c else JStr ''Unknown''),
                                 db_friendly_name = di_friendly_name c\<rparr>,
                              rm_revision := rm_revision room + 1\<rparr>;
                              s' = record_message M_committed
                                (s\<lparr>ss_candidate_entity_id := Some climate_entity_id,
                                   ss_phase := TESTING\<rparr>)
                       in (Inr s', put_session s' (put_room room' e))))))"

definition rollback ::
  "string \<Rightarrow> message \<Rightarrow> engine \<Rightarrow> (engine_error, session, engine) outcome" where
  "rollback session_id reason e =
     (case map_of (en_sessions e) session_id of
        None \<Rightarrow> (Inl ReplacementErr, e)
      | Some s \<Rightarrow>
          (if ss_phase s \<notin> set [TESTING, COMPLETE] then (Inl ReplacementErr, e)
           else case map_of (en_rooms e) (ss_room_id s) of
             None \<Rightarrow> (Inl KeyErr, e)
           | Some room \<Rightarrow>
               (let room' = room\<lparr>rm_binding := ss_old_binding s,
                                 rm_revision := rm_revision room + 1\<rparr>;
                    s' = record_message (M_restored reason)
                      (s\<lparr>ss_failure_reason := Some reason, ss_phase := ROLLED_BACK\<rparr>)
                in (Inr s', put_session s' (put_room room' e)))))"

definition out_of_tolerance :: "py_float \<Rightarrow> py_float \<Rightarrow> py_float \<Rightarrow> bool" where
  "out_of_tolerance reported expected tolerance =
     float_gt (float_abs (float_sub reported expected)) tolerance"

definition as_bool :: "(engine_error, session, engine) outcome \<Rightarrow> bool
    \<Rightarrow> (engine_error, bool, engine) outcome" where
  "as_bool r b = (case r of (Inl err, e) \<Rightarrow> (Inl err, e) | (Inr _, e) \<Rightarrow> (Inr b, e))"

definition confirm_readback ::
  "string \<Rightarrow> string \<Rightarrow> py_float \<Rightarrow> py_float \<Rightarrow> py_float \<Rightarrow> engine
     \<Rightarrow> (engine_error, bool, engine) outcome" where
  "confirm_readback session_id entity_id expected reported tolerance e =
     (case map_of (en_sessions e) session_id of
        None \<Rightarrow> (Inl ReplacementErr, e)
      | Some s \<Rightarrow>
          (if ss_phase s \<noteq> TESTING then (Inl ReplacementErr, e)
           else if Some entity_id \<noteq> ss_candidate_entity_id s
           then as_bool (rollback session_id M_wrong_entity e) False
           else if out_of_tolerance reported expected tolerance
           then as_bool (rollback session_id M_target_not_confirmed e) False
           else (Inr True, put_session (record_message M_completed (s\<lparr>ss_phase := COMPLETE\<rparr>)) e)))"

section \<open>Elementary facts\<close>

lemma active_phase_simps [simp]:
  "active_phase AWAITING_PAIRING" "active_phase INTERVIEWING" "active_phase READY_TO_COMMIT"
  "active_phase TESTING" "\<not> active_phase COMPLETE" "\<not> active_phase FAILED"
  "\<not> active_phase ROLLED_BACK"
  by (simp_all add: active_phase_def)

lemma pairing_phase_simps [simp]:
  "pairing_phase AWAITING_PAIRING" "pairing_phase INTERVIEWING" "\<not> pairing_phase READY_TO_COMMIT"
  "\<not> pairing_phase TESTING" "\<not> pairing_phase COMPLETE" "\<not> pairing_phase FAILED"
  "\<not> pairing_phase ROLLED_BACK"
  by (simp_all add: pairing_phase_def)

lemma record_message_simps [simp]:
  "ss_session_id (record_message m s) = ss_session_id s"
  "ss_room_id (record_message m s) = ss_room_id s"
  "ss_expected_revision (record_message m s) = ss_expected_revision s"
  "ss_old_binding (record_message m s) = ss_old_binding s"
  "ss_pairing_deadline (record_message m s) = ss_pairing_deadline s"
  "ss_phase (record_message m s) = ss_phase s"
  "ss_candidate (record_message m s) = ss_candidate s"
  "ss_candidate_entity_id (record_message m s) = ss_candidate_entity_id s"
  "ss_failure_reason (record_message m s) = ss_failure_reason s"
  "ss_join_closed (record_message m s) = ss_join_closed s"
  by (simp_all add: record_message_def)

lemma put_session_simps [simp]:
  "en_rooms (put_session s e) = en_rooms e"
  "en_sessions (put_session s e) = dict_put (en_sessions e) (ss_session_id s) s"
  "en_rooms (put_room r e) = dict_put (en_rooms e) (rm_room_id r) r"
  "en_sessions (put_room r e) = en_sessions e"
  by (simp_all add: put_session_def put_room_def)

lemma fail_session_fst [simp]:
  "ss_session_id (fst (fail_session s m)) = ss_session_id s"
  "ss_room_id (fst (fail_session s m)) = ss_room_id s"
  "ss_expected_revision (fst (fail_session s m)) = ss_expected_revision s"
  "ss_old_binding (fst (fail_session s m)) = ss_old_binding s"
  "ss_phase (fst (fail_session s m)) = FAILED"
  "ss_failure_reason (fst (fail_session s m)) = Some m"
  "ss_candidate (fst (fail_session s m)) = ss_candidate s"
  "ss_join_closed (fst (fail_session s m))"
  by (auto simp: fail_session_def Let_def)

lemma fail_session_intents:
  "snd (fail_session s m) = (if ss_join_closed s then [] else [close_join_intent (ss_session_id s)])"
  by (simp add: fail_session_def Let_def)

lemma fail_return_eq:
  "fail_return s m e = (Inr (snd (fail_session s m)), put_session (fst (fail_session s m)) e)"
  by (simp add: fail_return_def split: prod.split)

lemma fail_raise_eq:
  "fail_raise s m err e = (Inl err, put_session (fst (fail_session s m)) e)"
  by (simp add: fail_raise_def)

lemma active_session_Some:
  assumes "dict_ok (en_sessions e)" and "\<And>k s. map_of (en_sessions e) k = Some s \<Longrightarrow> ss_session_id s = k"
    and "active_session e = Some s"
  shows "map_of (en_sessions e) (ss_session_id s) = Some s" and "active_phase (ss_phase s)"
proof -
  from assms(3) have "s \<in> snd ` set (en_sessions e)" and a: "active_phase (ss_phase s)"
    by (auto simp: active_session_def dest!: find_Some_in)
  then obtain k where "map_of (en_sessions e) k = Some s"
    using assms(1) by (auto simp: dict_values)
  with assms(2) show "map_of (en_sessions e) (ss_session_id s) = Some s" by fastforce
  show "active_phase (ss_phase s)" by (rule a)
qed

lemma active_session_None:
  "active_session e = None \<Longrightarrow> map_of (en_sessions e) k = Some s \<Longrightarrow> \<not> active_phase (ss_phase s)"
  by (force simp: active_session_def find_None_all dest: map_of_SomeD)

section \<open>What the committing methods can do\<close>

definition new_binding :: "string \<Rightarrow> string \<Rightarrow> device_identity \<Rightarrow> device_binding" where
  "new_binding reg cl c =
     \<lparr>db_registry_entry_id = reg, db_climate_entity_id = cl, db_ieee_address = di_ieee_address c,
      db_model = di_model c,
      db_manufacturer = (if json_truthy (di_manufacturer c) then di_manufacturer c else JStr ''Unknown''),
      db_friendly_name = di_friendly_name c\<rparr>"

lemma commit_cases:
  obtains (rejected) err where "commit sid reg cl e = (Inl err, e)"
  | (failed) s m err where "map_of (en_sessions e) sid = Some s" "ss_phase s = READY_TO_COMMIT"
      "commit sid reg cl e = (Inl err, put_session (fst (fail_session s m)) e)"
  | (committed) s room c where "map_of (en_sessions e) sid = Some s" "ss_phase s = READY_TO_COMMIT"
      "map_of (en_rooms e) (ss_room_id s) = Some room" "rm_revision room = ss_expected_revision s"
      "ss_candidate s = Some c" "di_model c \<noteq> JNull" "starts_with ''climate.'' cl"
      "\<not> allocated_elsewhere (rm_room_id room) reg (di_ieee_address c) e"
      "commit sid reg cl e =
        (Inr (record_message M_committed (s\<lparr>ss_candidate_entity_id := Some cl, ss_phase := TESTING\<rparr>)),
         put_session (record_message M_committed (s\<lparr>ss_candidate_entity_id := Some cl, ss_phase := TESTING\<rparr>))
          (put_room (room\<lparr>rm_binding := new_binding reg cl c, rm_revision := rm_revision room + 1\<rparr>) e))"
proof -
  note [simp] = commit_def fail_raise_eq
  show thesis
  proof (cases "map_of (en_sessions e) sid")
    case None
    then show thesis by (intro rejected) simp
  next
    case s: (Some s)
    show thesis
    proof (cases "ss_phase s = READY_TO_COMMIT")
      case False
      with s show thesis by (intro rejected) simp
    next
      case ready: True
      show thesis
      proof (cases "map_of (en_rooms e) (ss_room_id s)")
        case None
        with s ready show thesis by (intro rejected) simp
      next
        case room: (Some room)
        show thesis
        proof (cases "ss_candidate s")
          case None
          with s ready room show thesis
            by (cases "rm_revision room = ss_expected_revision s") (auto intro: failed)
        next
          case c: (Some c)
          show thesis
          proof (cases "rm_revision room = ss_expected_revision s \<and> di_model c \<noteq> JNull \<and>
              starts_with ''climate.'' cl \<and> \<not> allocated_elsewhere (rm_room_id room) reg (di_ieee_address c) e")
            case True
            with s ready room c show thesis
              by (intro committed[of s room c]) (simp_all add: Let_def new_binding_def)
          next
            case False
            with s ready room c
            have "\<exists>m err. commit sid reg cl e = (Inl err, put_session (fst (fail_session s m)) e)"
              by auto
            with s ready show thesis by (blast intro: failed)
          qed
        qed
      qed
    qed
  qed
qed

lemma rollback_cases:
  obtains (rejected) err where "rollback sid m e = (Inl err, e)"
  | (restored) s room where "map_of (en_sessions e) sid = Some s" "ss_phase s \<in> {TESTING, COMPLETE}"
      "map_of (en_rooms e) (ss_room_id s) = Some room"
      "rollback sid m e =
        (Inr (record_message (M_restored m) (s\<lparr>ss_failure_reason := Some m, ss_phase := ROLLED_BACK\<rparr>)),
         put_session (record_message (M_restored m) (s\<lparr>ss_failure_reason := Some m, ss_phase := ROLLED_BACK\<rparr>))
          (put_room (room\<lparr>rm_binding := ss_old_binding s, rm_revision := rm_revision room + 1\<rparr>) e))"
proof (cases "map_of (en_sessions e) sid")
  case None
  with rejected show thesis by (simp add: rollback_def)
next
  case s: (Some s)
  show thesis
  proof (cases "map_of (en_rooms e) (ss_room_id s)")
    case None
    with s rejected show thesis by (cases "ss_phase s") (simp_all add: rollback_def)
  next
    case room: (Some room)
    show thesis
    proof (cases "ss_phase s \<in> {TESTING, COMPLETE}")
      case True
      with s room show thesis by (intro restored[of s room]) (auto simp: rollback_def Let_def)
    next
      case False
      with s rejected show thesis by (simp add: rollback_def)
    qed
  qed
qed

end
