(* ===== verification/Prototype_Safety.thy ===== *)
theory Prototype_Safety
  imports Prototype_Engine
begin

text \<open>
  What the prototype engine guarantees: an invariant every method keeps (one active session,
  joining open only while pairing, a session's room linked to its revision), exclusive
  allocation of physical valves, and the properties of single methods.
\<close>

section \<open>The engine invariant\<close>

text \<open>
  A session leaves joining open only while it is pairing, a committable or committed session
  has an interviewed candidate, and the room's binding is the one the session started from as
  long as the room's revision is.
\<close>

definition session_ok :: "session \<Rightarrow> bool" where
  "session_ok s \<longleftrightarrow>
     (\<not> ss_join_closed s \<longrightarrow> pairing_phase (ss_phase s)) \<and>
     (ss_phase s \<in> {READY_TO_COMMIT, TESTING, COMPLETE} \<longrightarrow>
        (\<exists>c. ss_candidate s = Some c \<and> di_model c \<noteq> JNull)) \<and>
     (ss_phase s \<in> {TESTING, COMPLETE} \<longrightarrow> ss_candidate_entity_id s \<noteq> None)"

definition room_link :: "engine \<Rightarrow> session \<Rightarrow> bool" where
  "room_link e s \<longleftrightarrow> (\<exists>room. map_of (en_rooms e) (ss_room_id s) = Some room \<and>
     ss_expected_revision s \<le> rm_revision room \<and>
     (rm_revision room = ss_expected_revision s \<longrightarrow> rm_binding room = ss_old_binding s))"

definition engine_inv :: "engine \<Rightarrow> bool" where
  "engine_inv e \<longleftrightarrow> dict_ok (en_rooms e) \<and> dict_ok (en_sessions e) \<and>
     (\<forall>k r. map_of (en_rooms e) k = Some r \<longrightarrow> rm_room_id r = k) \<and>
     (\<forall>k s. map_of (en_sessions e) k = Some s \<longrightarrow>
        ss_session_id s = k \<and> session_ok s \<and> room_link e s) \<and>
     (\<forall>k s l t. map_of (en_sessions e) k = Some s \<longrightarrow> active_phase (ss_phase s) \<longrightarrow>
        map_of (en_sessions e) l = Some t \<longrightarrow> active_phase (ss_phase t) \<longrightarrow> k = l)"

lemma engine_invD:
  assumes "engine_inv e"
  shows "dict_ok (en_rooms e)" "dict_ok (en_sessions e)"
    "map_of (en_rooms e) k = Some r \<Longrightarrow> rm_room_id r = k"
    "map_of (en_sessions e) k = Some s \<Longrightarrow> ss_session_id s = k"
    "map_of (en_sessions e) k = Some s \<Longrightarrow> session_ok s"
    "map_of (en_sessions e) k = Some s \<Longrightarrow> room_link e s"
  using assms by (auto simp: engine_inv_def)

lemma engine_inv_active:
  assumes "engine_inv e" and "active_session e = Some s"
  shows "map_of (en_sessions e) (ss_session_id s) = Some s" "active_phase (ss_phase s)"
    "session_ok s" "room_link e s"
  using active_session_Some[of e s] engine_invD[OF assms(1)] assms(2) by blast+

lemma room_link_put_session [simp]: "room_link (put_session s e) t = room_link e t"
  by (simp add: room_link_def)

lemma room_link_cong:
  "ss_room_id s' = ss_room_id s \<Longrightarrow> ss_expected_revision s' = ss_expected_revision s \<Longrightarrow>
   ss_old_binding s' = ss_old_binding s \<Longrightarrow> room_link e s' = room_link e s"
  by (simp add: room_link_def)

lemma inv_put_session:
  assumes "engine_inv e" and "session_ok s" and "room_link e s"
    and "\<And>k t. active_phase (ss_phase s) \<Longrightarrow> map_of (en_sessions e) k = Some t \<Longrightarrow>
          active_phase (ss_phase t) \<Longrightarrow> k = ss_session_id s"
  shows "engine_inv (put_session s e)"
  using assms by (auto simp: engine_inv_def)

text \<open>The common case: a session of the engine is replaced by a later version of itself.\<close>

lemma inv_update_session:
  assumes inv: "engine_inv e" and at: "map_of (en_sessions e) (ss_session_id s) = Some s"
    and ok: "session_ok s'"
    and eqs: "ss_session_id s' = ss_session_id s" "ss_room_id s' = ss_room_id s"
      "ss_expected_revision s' = ss_expected_revision s" "ss_old_binding s' = ss_old_binding s"
    and act: "active_phase (ss_phase s') \<Longrightarrow> active_phase (ss_phase s)"
  shows "engine_inv (put_session s' e)"
proof (rule inv_put_session[OF inv ok])
  show "room_link e s'" using engine_invD(6)[OF inv at] eqs by (simp add: room_link_def)
  fix k t
  assume "active_phase (ss_phase s')" "map_of (en_sessions e) k = Some t" "active_phase (ss_phase t)"
  with act at inv eqs(1) show "k = ss_session_id s'" unfolding engine_inv_def by metis
qed

lemma inv_put_room:
  assumes inv: "engine_inv e" and at: "map_of (en_rooms e) (rm_room_id r) = Some r0"
    and rev: "rm_revision r0 < rm_revision r"
  shows "engine_inv (put_room r e)"
proof -
  have "room_link (put_room r e) s" if "room_link e s" for s
    using that at rev by (auto simp: room_link_def)
  with inv show ?thesis by (auto simp: engine_inv_def)
qed

lemma session_ok_failed [simp]: "session_ok (fst (fail_session s m))"
  by (simp add: session_ok_def)

lemma inv_fail_session:
  "engine_inv e \<Longrightarrow> map_of (en_sessions e) (ss_session_id s) = Some s \<Longrightarrow>
   engine_inv (put_session (fst (fail_session s m)) e)"
  by (rule inv_update_session) simp_all

subsection \<open>Every operation keeps the invariant\<close>

lemma start_inv: "engine_inv e \<Longrightarrow> engine_inv (snd (start sid rid now secs e))"
proof -
  assume inv: "engine_inv e"
  have "engine_inv (put_session s e)"
    if "active_session e = None" "map_of (en_rooms e) rid = Some room" "ss_room_id s = rid"
      "ss_expected_revision s = rm_revision room" "ss_old_binding s = rm_binding room" "session_ok s"
    for s room
    using that inv by (intro inv_put_session) (auto simp: room_link_def dest: active_session_None)
  with inv show ?thesis
    by (auto simp: start_def Let_def session_ok_def permit_join_intent_def split: option.split sum.split)
qed

lemma handle_joined_inv:
  "engine_inv e \<Longrightarrow> map_of (en_sessions e) (ss_session_id s) = Some s \<Longrightarrow> active_phase (ss_phase s)
    \<Longrightarrow> engine_inv (snd (handle_joined s ev e))"
  unfolding handle_joined_def snd_conv
  by (rule inv_update_session) (auto simp: session_ok_def dest: engine_invD(5))

lemma handle_interview_inv:
  assumes inv: "engine_inv e" and at: "map_of (en_sessions e) (ss_session_id s) = Some s"
    and act: "active_phase (ss_phase s)"
  shows "engine_inv (snd (handle_interview s ev e))"
proof -
  have room: "map_of (en_rooms e) (ss_room_id s) \<noteq> None"
    using engine_invD(6)[OF inv at] by (auto simp: room_link_def)
  have upd: "engine_inv (put_session s' e)"
    if "session_ok s'" "ss_session_id s' = ss_session_id s" "ss_room_id s' = ss_room_id s"
      "ss_expected_revision s' = ss_expected_revision s" "ss_old_binding s' = ss_old_binding s" for s'
    using inv at act that by (auto intro: inv_update_session)
  show ?thesis
    using room
    by (auto simp: handle_interview_def Let_def fail_return_eq session_ok_def intro!: upd
        split: option.split)
qed

lemma handle_bridge_event_inv:
  "engine_inv e \<Longrightarrow> engine_inv (snd (handle_bridge_event ev now e))"
  by (auto simp: handle_bridge_event_def fail_return_eq inv_fail_session engine_inv_active
      handle_joined_inv handle_interview_inv split: option.split)

lemma tick_inv: "engine_inv e \<Longrightarrow> engine_inv (snd (tick now e))"
  by (auto simp: tick_def fail_return_eq inv_fail_session engine_inv_active split: option.split)

text \<open>Committing or rolling back writes the session's room with the next revision.\<close>

lemma inv_put_both:
  assumes inv: "engine_inv e" and at: "map_of (en_sessions e) (ss_session_id s) = Some s"
    and room: "map_of (en_rooms e) (rm_room_id r) = Some r0" "rm_revision r = rm_revision r0 + 1"
    and upd: "session_ok s'" "ss_session_id s' = ss_session_id s" "ss_room_id s' = ss_room_id s"
      "ss_expected_revision s' = ss_expected_revision s" "ss_old_binding s' = ss_old_binding s"
      "active_phase (ss_phase s') \<Longrightarrow> active_phase (ss_phase s)"
  shows "engine_inv (put_session s' (put_room r e))"
proof (rule inv_update_session[where s = s])
  show "engine_inv (put_room r e)" using inv room by (auto intro: inv_put_room)
  show "map_of (en_sessions (put_room r e)) (ss_session_id s) = Some s" using at by simp
qed (use upd in simp_all)

lemma commit_inv:
  assumes inv: "engine_inv e"
  shows "engine_inv (snd (commit sid reg cl e))"
proof (cases rule: commit_cases[of sid reg cl e])
  case (rejected err)
  with inv show ?thesis by simp
next
  case (failed s m err)
  with inv show ?thesis by (auto dest: engine_invD(4) intro: inv_fail_session)
next
  case (committed s room c)
  with inv have "ss_session_id s = sid" "session_ok s" "rm_room_id room = ss_room_id s"
    by (auto dest: engine_invD)
  with committed inv show ?thesis by (auto simp: session_ok_def intro!: inv_put_both[where s = s])
qed

lemma rollback_inv:
  assumes inv: "engine_inv e"
  shows "engine_inv (snd (rollback sid m e))"
proof (cases rule: rollback_cases[of sid m e])
  case (rejected err)
  with inv show ?thesis by simp
next
  case (restored s room)
  with inv have "ss_session_id s = sid" "session_ok s" "rm_room_id room = ss_room_id s"
    by (auto dest: engine_invD)
  with restored inv show ?thesis by (auto simp: session_ok_def intro!: inv_put_both[where s = s])
qed

lemma as_bool_snd [simp]: "snd (as_bool r b) = snd r"
  by (auto simp: as_bool_def split: prod.split sum.split)

lemma confirm_readback_inv: "engine_inv e \<Longrightarrow> engine_inv (snd (confirm_readback sid ent ex rep tol e))"
proof -
  assume inv: "engine_inv e"
  have "engine_inv (put_session (record_message M_completed (s\<lparr>ss_phase := COMPLETE\<rparr>)) e)"
    if "map_of (en_sessions e) sid = Some s" "ss_phase s = TESTING" for s
  proof (rule inv_update_session[OF inv, where s = s])
    show "map_of (en_sessions e) (ss_session_id s) = Some s"
      using that inv by (auto dest: engine_invD(4))
    show "session_ok (record_message M_completed (s\<lparr>ss_phase := COMPLETE\<rparr>))"
      using engine_invD(5)[OF inv that(1)] that(2) by (auto simp: session_ok_def)
  qed (use that in simp_all)
  with inv show ?thesis
    by (auto simp: confirm_readback_def rollback_inv split: option.split)
qed

section \<open>Runs of the engine\<close>

datatype engine_op =
    OpStart string string py_datetime int
  | OpEvent bridge_event py_datetime
  | OpTick py_datetime
  | OpCommit string string string
  | OpConfirm string string py_float py_float py_float
  | OpRollback string message

fun engine_step :: "engine \<Rightarrow> engine_op \<Rightarrow> engine" where
  "engine_step e (OpStart sid room now secs) = snd (start sid room now secs e)"
| "engine_step e (OpEvent ev now) = snd (handle_bridge_event ev now e)"
| "engine_step e (OpTick now) = snd (tick now e)"
| "engine_step e (OpCommit sid reg cl) = snd (commit sid reg cl e)"
| "engine_step e (OpConfirm sid ent ex rep tol) = snd (confirm_readback sid ent ex rep tol e)"
| "engine_step e (OpRollback sid m) = snd (rollback sid m e)"

fun engine_run :: "engine \<Rightarrow> engine_op list \<Rightarrow> engine" where
  "engine_run e [] = e"
| "engine_run e (op # ops) = engine_run (engine_step e op) ops"

lemma engine_init_inv: "engine_init rooms = Inr e \<Longrightarrow> engine_inv e"
proof -
  assume "engine_init rooms = Inr e"
  then have card: "card (set (map rm_room_id rooms)) = length (map rm_room_id rooms)"
    and e: "e = \<lparr>en_rooms = map (\<lambda>r. (rm_room_id r, r)) rooms, en_sessions = []\<rparr>"
    by (auto simp: engine_init_def split: if_splits)
  from card have "distinct (map rm_room_id rooms)" by (rule card_distinct)
  then have ok: "dict_ok (en_rooms e)" by (simp add: e dict_ok_def comp_def)
  have ids: "rm_room_id r = k" if "map_of (en_rooms e) k = Some r" for k r
    using map_of_SomeD[OF that] by (auto simp: e)
  have "en_sessions e = []" by (simp add: e)
  then show ?thesis unfolding engine_inv_def using ok by (auto intro: ids)
qed

lemma engine_step_inv: "engine_inv e \<Longrightarrow> engine_inv (engine_step e op)"
  by (cases op) (simp_all add: start_inv handle_bridge_event_inv tick_inv commit_inv rollback_inv
      confirm_readback_inv)

lemma engine_run_inv: "engine_inv e \<Longrightarrow> engine_inv (engine_run e ops)"
  by (induction ops arbitrary: e) (auto intro: engine_step_inv)

subsection \<open>Allocation of physical valves\<close>

definition unclaimed :: "engine \<Rightarrow> string \<Rightarrow> device_binding \<Rightarrow> bool" where
  "unclaimed e k b \<longleftrightarrow> (\<forall>l q. map_of (en_rooms e) l = Some q \<longrightarrow> l \<noteq> k \<longrightarrow>
     db_registry_entry_id (rm_binding q) \<noteq> db_registry_entry_id b \<and>
     db_ieee_address (rm_binding q) \<noteq> db_ieee_address b)"

definition rooms_distinct :: "engine \<Rightarrow> bool" where
  "rooms_distinct e \<longleftrightarrow> (\<forall>k r. map_of (en_rooms e) k = Some r \<longrightarrow> unclaimed e k (rm_binding r))"

definition alloc_inv :: "engine \<Rightarrow> bool" where
  "alloc_inv e \<longleftrightarrow> rooms_distinct e \<and>
     (\<forall>k s. map_of (en_sessions e) k = Some s \<longrightarrow> ss_phase s = TESTING \<longrightarrow>
        unclaimed e (ss_room_id s) (ss_old_binding s))"

text \<open>Runs in which a rollback is only asked for before the replacement has completed.\<close>

fun in_test_rollback :: "engine \<Rightarrow> engine_op \<Rightarrow> bool" where
  "in_test_rollback e (OpRollback sid m) =
     (case map_of (en_sessions e) sid of None \<Rightarrow> True | Some s \<Rightarrow> ss_phase s \<noteq> COMPLETE)"
| "in_test_rollback e op = True"

fun guarded_run :: "engine \<Rightarrow> engine_op list \<Rightarrow> bool" where
  "guarded_run e [] = True"
| "guarded_run e (op # ops) = (in_test_rollback e op \<and> guarded_run (engine_step e op) ops)"

lemma allocated_elsewhere_iff:
  assumes "engine_inv e"
  shows "allocated_elsewhere k reg ieee e \<longleftrightarrow> (\<exists>l q. map_of (en_rooms e) l = Some q \<and> l \<noteq> k \<and>
     (db_registry_entry_id (rm_binding q) = reg \<or> db_ieee_address (rm_binding q) = ieee))"
proof -
  have "r \<in> snd ` set (en_rooms e) \<longleftrightarrow> (\<exists>l. map_of (en_rooms e) l = Some r)" for r
    by (rule dict_values) (rule engine_invD(1)[OF assms])
  moreover have "map_of (en_rooms e) l = Some q \<Longrightarrow> rm_room_id q = l" for l q
    by (rule engine_invD(3)[OF assms])
  ultimately show ?thesis
    unfolding allocated_elsewhere_def list_ex_iff set_map by blast
qed

lemma unclaimed_put_session [simp]: "unclaimed (put_session s e) = unclaimed e"
  by (auto simp: unclaimed_def fun_eq_iff)

lemma alloc_inv_put_session:
  assumes "alloc_inv e" and "ss_phase s = TESTING \<Longrightarrow> unclaimed e (ss_room_id s) (ss_old_binding s)"
  shows "alloc_inv (put_session s e)"
  using assms by (auto simp: alloc_inv_def rooms_distinct_def)

lemma alloc_inv_not_testing: "alloc_inv e \<Longrightarrow> ss_phase s \<noteq> TESTING \<Longrightarrow> alloc_inv (put_session s e)"
  by (auto intro: alloc_inv_put_session)

text \<open>
  Giving one room a binding no other room holds keeps the rooms distinct; the only session that
  may be in test afterwards is the one whose room was written.
\<close>

lemma alloc_inv_put_both:
  assumes inv: "engine_inv e" and alloc: "alloc_inv e"
    and at: "map_of (en_sessions e) (ss_session_id s) = Some s" and act: "active_phase (ss_phase s)"
    and room: "rm_room_id r = ss_room_id s"
    and free: "unclaimed e (ss_room_id s) (rm_binding r)"
    and same: "ss_session_id s' = ss_session_id s" "ss_room_id s' = ss_room_id s"
    and test: "ss_phase s' = TESTING \<Longrightarrow> unclaimed e (ss_room_id s) (ss_old_binding s')"
  shows "alloc_inv (put_session s' (put_room r e))"
proof -
  have only: "\<not> (map_of (en_sessions e) k = Some t \<and> ss_phase t = TESTING)" if "k \<noteq> ss_session_id s" for k t
    using inv at act that unfolding engine_inv_def by (metis active_phase_simps(4))
  have un: "unclaimed (put_room r e) (ss_room_id s) b = unclaimed e (ss_room_id s) b" for b
    by (auto simp: unclaimed_def room)
  have "rooms_distinct (put_room r e)"
    using alloc free unfolding alloc_inv_def rooms_distinct_def unclaimed_def
    by (auto simp: room) metis+
  with only un test same show ?thesis
    by (auto simp: alloc_inv_def rooms_distinct_def)
qed

lemma handle_interview_untested:
  "\<exists>s'. snd (handle_interview s ev e) = put_session s' e \<and> ss_phase s' \<noteq> TESTING"
proof (cases "map_of (en_rooms e) (ss_room_id s)")
  case None
  then show ?thesis
    by (cases "be_interview_status ev = JStr ''started''")
      (auto simp: handle_interview_def Let_def fail_return_eq)
next
  case (Some room)
  then show ?thesis
    by (cases "be_interview_status ev = JStr ''started''";
        cases "be_interview_status ev = JStr ''successful''"; cases "be_supported ev = JBool True")
      (auto simp: handle_interview_def Let_def fail_return_eq)
qed

lemma handle_event_alloc:
  assumes alloc: "alloc_inv e"
  shows "alloc_inv (snd (handle_bridge_event ev now e))"
proof -
  have "alloc_inv (snd (handle_interview s ev e))" for s
    using handle_interview_untested[of s ev e] alloc by (auto intro: alloc_inv_not_testing)
  moreover have "alloc_inv (snd (handle_joined s ev e))" for s
    using alloc by (auto simp: handle_joined_def intro: alloc_inv_not_testing)
  ultimately show ?thesis
    using alloc
    by (auto simp: handle_bridge_event_def fail_return_eq alloc_inv_not_testing split: option.split)
qed

lemma commit_alloc:
  assumes inv: "engine_inv e" and alloc: "alloc_inv e"
  shows "alloc_inv (snd (commit sid reg cl e))"
proof (cases rule: commit_cases[of sid reg cl e])
  case (rejected err)
  with alloc show ?thesis by simp
next
  case (failed s m err)
  with alloc show ?thesis by (simp add: alloc_inv_not_testing)
next
  case (committed s room c)
  with inv have id: "ss_session_id s = sid" and link: "room_link e s"
    and rid: "rm_room_id room = ss_room_id s"
    by (auto dest: engine_invD)
  from link committed have "rm_binding room = ss_old_binding s" by (auto simp: room_link_def)
  with alloc committed have old: "unclaimed e (ss_room_id s) (ss_old_binding s)"
    by (metis alloc_inv_def rooms_distinct_def)
  from committed have free: "unclaimed e (ss_room_id s) (new_binding reg cl c)"
    by (auto simp: unclaimed_def new_binding_def allocated_elsewhere_iff[OF inv] rid)
  show ?thesis unfolding committed snd_conv
    by (rule alloc_inv_put_both[OF inv alloc, where s = s]) (use committed id rid old free in simp_all)
qed

lemma rollback_alloc:
  assumes inv: "engine_inv e" and alloc: "alloc_inv e"
    and test: "\<And>s. map_of (en_sessions e) sid = Some s \<Longrightarrow> ss_phase s \<noteq> COMPLETE"
  shows "alloc_inv (snd (rollback sid m e))"
proof (cases rule: rollback_cases[of sid m e])
  case (rejected err)
  with alloc show ?thesis by simp
next
  case (restored s room)
  with test have testing: "ss_phase s = TESTING" by blast
  from restored inv have id: "ss_session_id s = sid" and rid: "rm_room_id room = ss_room_id s"
    by (auto dest: engine_invD)
  from alloc restored testing have old: "unclaimed e (ss_room_id s) (ss_old_binding s)"
    by (auto simp: alloc_inv_def)
  show ?thesis unfolding restored snd_conv
    by (rule alloc_inv_put_both[OF inv alloc, where s = s]) (use restored testing id rid old in simp_all)
qed

lemma engine_step_alloc:
  assumes inv: "engine_inv e" and alloc: "alloc_inv e" and ok: "in_test_rollback e op"
  shows "alloc_inv (engine_step e op)"
proof (cases op)
  case (OpStart sid room now secs)
  with alloc show ?thesis
    by (auto simp: start_def Let_def permit_join_intent_def intro!: alloc_inv_not_testing
        split: option.split)
next
  case (OpTick now)
  with alloc show ?thesis
    by (auto simp: tick_def fail_return_eq intro!: alloc_inv_not_testing split: option.split)
next
  case (OpConfirm sid ent ex rep tol)
  with inv alloc show ?thesis
    by (auto simp: confirm_readback_def intro!: alloc_inv_not_testing rollback_alloc split: option.split)
next
  case (OpRollback sid m)
  with inv alloc ok show ?thesis by (auto intro!: rollback_alloc)
qed (use inv alloc in \<open>simp_all add: handle_event_alloc commit_alloc\<close>)

lemma guarded_run_alloc:
  "engine_inv e \<Longrightarrow> alloc_inv e \<Longrightarrow> guarded_run e ops \<Longrightarrow> alloc_inv (engine_run e ops)"
  by (induction ops arbitrary: e) (auto intro: engine_step_inv engine_step_alloc)

section \<open>Properties\<close>

text \<open>Sample data for the witnesses: two rooms, one candidate valve, and the events it sends.\<close>

definition sample_binding :: "string \<Rightarrow> string \<Rightarrow> device_binding" where
  "sample_binding reg ieee =
     \<lparr>db_registry_entry_id = reg, db_climate_entity_id = ''climate.valve'', db_ieee_address = ieee,
      db_model = JStr ''BRT-100-TRV'', db_manufacturer = JStr ''Moes'', db_friendly_name = ''valve''\<rparr>"

definition sample_room :: "string \<Rightarrow> string \<Rightarrow> string \<Rightarrow> room_slot" where
  "sample_room rid reg ieee =
     \<lparr>rm_room_id = rid, rm_display_name = rid, rm_allowed_models = [''BRT-100-TRV''],
      rm_binding = sample_binding reg ieee, rm_revision = 0\<rparr>"

definition sample_engine :: engine where
  "sample_engine =
     \<lparr>en_rooms = [(''a'', sample_room ''a'' ''reg1'' ''0x1''), (''b'', sample_room ''b'' ''reg2'' ''0x2'')],
      en_sessions = []\<rparr>"

definition sample_event :: "string \<Rightarrow> string \<Rightarrow> bridge_event" where
  "sample_event kind ieee =
     \<lparr>be_event_type = kind, be_ieee_address = ieee, be_friendly_name = ''new'',
      be_interview_status = JStr ''successful'', be_supported = JBool True,
      be_model = JStr ''BRT-100-TRV'', be_manufacturer = JStr ''Moes''\<rparr>"

text \<open>One room's replacement, from pairing to a committed binding under test.\<close>

definition sample_ops :: "string \<Rightarrow> string \<Rightarrow> string \<Rightarrow> string \<Rightarrow> engine_op list" where
  "sample_ops sid rid reg ieee =
     [OpStart sid rid (Aware 0) 60, OpEvent (sample_event ''device_joined'' ieee) (Aware 1),
      OpEvent (sample_event ''device_interview'' ieee) (Aware 2), OpCommit sid reg ''climate.new'']"

lemmas sample_simps = sample_engine_def sample_room_def sample_binding_def sample_event_def sample_ops_def

lemma engine_run_append: "engine_run e (xs @ ys) = engine_run (engine_run e xs) ys"
  by (induction xs arbitrary: e) auto



text \<open>
  C21. As long as a rollback is only asked for before its replacement completed, no two rooms ever
  hold the same registry entry or the same radio: committing checks the other rooms, and restoring
  a binding that was under test gives back what nobody took.
\<close>

theorem guarded_run_rooms_distinct:
  assumes "engine_init rooms = Inr e0" and "rooms_distinct e0" and "guarded_run e0 ops"
  shows "rooms_distinct (engine_run e0 ops)"
proof -
  have "en_sessions e0 = []" using assms(1) by (auto simp: engine_init_def split: if_splits)
  with assms(2) have "alloc_inv e0" by (simp add: alloc_inv_def)
  with assms(1,3) have "alloc_inv (engine_run e0 ops)"
    by (auto intro: guarded_run_alloc engine_init_inv)
  then show ?thesis by (simp add: alloc_inv_def)
qed

lemma sample_engine_distinct: "rooms_distinct sample_engine"
  by (auto simp: rooms_distinct_def unclaimed_def sample_simps split: if_splits)

theorem guarded_run_rooms_distinct_witness:
  "rooms_distinct (engine_run sample_engine (sample_ops ''s'' ''a'' ''reg9'' ''0x9'' @ [OpRollback ''s'' M_committed]))"
proof (rule guarded_run_rooms_distinct[OF _ sample_engine_distinct])
  show "engine_init [sample_room ''a'' ''reg1'' ''0x1'', sample_room ''b'' ''reg2'' ''0x2''] = Inr sample_engine"
    by (simp add: engine_init_def sample_simps)
  show "guarded_run sample_engine (sample_ops ''s'' ''a'' ''reg9'' ''0x9'' @ [OpRollback ''s'' M_committed])"
    by code_simp
qed


text \<open>
  C22. What a commit does. It succeeds exactly when the session waits for it, the room still has the
  revision the session started from, the entity is a climate entity, and no other room holds the
  registry entry or the radio; then the room gets the candidate's binding with the next revision and
  no other room changes. On every failure all rooms are unchanged.
\<close>

theorem commit_effect:
  assumes inv: "engine_inv e" and s: "map_of (en_sessions e) sid = Some s"
    and room: "map_of (en_rooms e) (ss_room_id s) = Some room" and c: "ss_candidate s = Some c"
  shows "(succeeded (commit sid reg cl e) \<longleftrightarrow>
           ss_phase s = READY_TO_COMMIT \<and> rm_revision room = ss_expected_revision s \<and>
           starts_with ''climate.'' cl \<and> \<not> allocated_elsewhere (ss_room_id s) reg (di_ieee_address c) e) \<and>
         en_rooms (snd (commit sid reg cl e)) =
           (if succeeded (commit sid reg cl e)
            then dict_put (en_rooms e) (ss_room_id s)
              (room\<lparr>rm_binding := new_binding reg cl c, rm_revision := rm_revision room + 1\<rparr>)
            else en_rooms e)"
proof -
  have rid: "rm_room_id room = ss_room_id s" using inv room by (rule engine_invD(3))
  have model: "ss_phase s = READY_TO_COMMIT \<longrightarrow> di_model c \<noteq> JNull"
    using engine_invD(5)[OF inv s] c by (auto simp: session_ok_def)
  show ?thesis
    using s room c model
    by (auto simp: commit_def fail_raise_eq Let_def new_binding_def rid)
qed

theorem commit_effect_witness:
  "\<exists>e s room c. engine_inv e \<and> map_of (en_sessions e) ''s'' = Some s \<and>
     map_of (en_rooms e) (ss_room_id s) = Some room \<and> ss_candidate s = Some c \<and>
     succeeded (commit ''s'' ''reg9'' ''climate.new'' e) \<and>
     en_rooms (snd (commit ''s'' ''reg9'' ''climate.new'' e)) =
       dict_put (en_rooms e) (ss_room_id s)
         (room\<lparr>rm_binding := new_binding ''reg9'' ''climate.new'' c, rm_revision := rm_revision room + 1\<rparr>)"
proof -
  define e where "e = engine_run sample_engine (take 3 (sample_ops ''s'' ''a'' ''reg9'' ''0x9''))"
  have "engine_init [sample_room ''a'' ''reg1'' ''0x1'', sample_room ''b'' ''reg2'' ''0x2''] = Inr sample_engine"
    by (simp add: engine_init_def sample_simps)
  then have inv: "engine_inv e" unfolding e_def by (auto intro: engine_run_inv engine_init_inv)
  have ok: "succeeded (commit ''s'' ''reg9'' ''climate.new'' e)"
  proof -
    have "(case fst (commit ''s'' ''reg9'' ''climate.new'' e) of Inl _ \<Rightarrow> False | Inr _ \<Rightarrow> True)"
      unfolding e_def by code_simp
    then show ?thesis by (auto simp: succeeded_def split: sum.splits)
  qed
  then obtain s room c where at: "map_of (en_sessions e) ''s'' = Some s"
    "map_of (en_rooms e) (ss_room_id s) = Some room" "ss_candidate s = Some c"
    by (cases rule: commit_cases[of "''s''" "''reg9''" "''climate.new''" e]) (auto simp: succeeded_def)
  with commit_effect[OF inv at, of "''reg9''" "''climate.new''"] ok inv show ?thesis
    by (auto simp: if_True intro!: exI[of _ e])
qed

text \<open>
  C24. A join event of any other device during the read-back test fails the session although the new
  binding is already committed: the rooms keep the untested binding and the rollback that should
  restore the previous one is refused from then on.
\<close>

theorem event_in_test_strands_binding:
  assumes inv: "engine_inv e" and active: "active_session e = Some s" and test: "ss_phase s = TESTING"
    and cand: "ss_candidate s = Some c" and other: "di_ieee_address c \<noteq> be_ieee_address ev"
    and kind: "be_event_type ev \<noteq> ''device_announce''"
  shows "let e' = snd (handle_bridge_event ev (Aware t) e) in
     en_rooms e' = en_rooms e \<and>
     map_option ss_phase (map_of (en_sessions e') (ss_session_id s)) = Some FAILED \<and>
     rollback (ss_session_id s) m e' = (Inl ReplacementErr, e')"
  using assms
  by (simp add: handle_bridge_event_def fail_return_eq rollback_def Let_def split: option.split)

theorem event_in_test_strands_binding_witness:
  "\<exists>e s. active_session e = Some s \<and> ss_phase s = TESTING \<and>
     rollback (ss_session_id s) M_committed
       (snd (handle_bridge_event (sample_event ''device_joined'' ''0x7'') (Aware 9) e)) =
     (Inl ReplacementErr, snd (handle_bridge_event (sample_event ''device_joined'' ''0x7'') (Aware 9) e))"
proof -
  define e where "e = engine_run sample_engine (sample_ops ''s'' ''a'' ''reg9'' ''0x9'')"
  have "engine_init [sample_room ''a'' ''reg1'' ''0x1'', sample_room ''b'' ''reg2'' ''0x2''] = Inr sample_engine"
    by (simp add: engine_init_def sample_simps)
  then have inv: "engine_inv e" unfolding e_def by (auto intro: engine_run_inv engine_init_inv)
  have "map_option ss_phase (active_session e) = Some TESTING"
    and ieee: "Option.bind (active_session e) (\<lambda>s. map_option di_ieee_address (ss_candidate s)) = Some ''0x9''"
    unfolding e_def by code_simp+
  then obtain s c where s: "active_session e = Some s" "ss_phase s = TESTING" "ss_candidate s = Some c"
    "di_ieee_address c = ''0x9''"
    by (auto simp: bind_eq_Some_conv)
  have "di_ieee_address c \<noteq> be_ieee_address (sample_event ''device_joined'' ''0x7'')"
    "be_event_type (sample_event ''device_joined'' ''0x7'') \<noteq> ''device_announce''"
    by (simp_all add: s sample_event_def)
  from event_in_test_strands_binding[OF inv s(1-3) this, of 9 M_committed] s show ?thesis
    by (auto simp: Let_def)
qed

text \<open>
  C25. The read-back test on every branch: a report from the wrong entity or outside the tolerance
  rolls the room back; a report within the tolerance completes the session, and so does \<open>nan\<close>, for
  which the comparison with the tolerance is false.
\<close>

theorem readback_branches:
  assumes inv: "engine_inv e" and s: "map_of (en_sessions e) sid = Some s" and test: "ss_phase s = TESTING"
  shows "(let passed = (Some ent = ss_candidate_entity_id s \<and> \<not> out_of_tolerance rep ex tol);
              r = confirm_readback sid ent ex rep tol e in
           fst r = Inr passed \<and>
           map_option rm_binding (map_of (en_rooms (snd r)) (ss_room_id s)) =
             (if passed then map_option rm_binding (map_of (en_rooms e) (ss_room_id s))
              else Some (ss_old_binding s)) \<and>
           map_option ss_phase (map_of (en_sessions (snd r)) sid) =
             Some (if passed then COMPLETE else ROLLED_BACK)) \<and>
         \<not> out_of_tolerance NaN ex tol"
proof -
  have id: "ss_session_id s = sid" using inv s by (rule engine_invD(4))
  obtain room where room: "map_of (en_rooms e) (ss_room_id s) = Some room" "rm_room_id room = ss_room_id s"
    using engine_invD(6)[OF inv s] engine_invD(3)[OF inv] by (auto simp: room_link_def)
  show ?thesis
    using s test id room
    by (auto simp: confirm_readback_def rollback_def as_bool_def Let_def out_of_tolerance_def)
qed

theorem readback_branches_witness:
  "fst (confirm_readback ''s'' ''climate.new'' (Fin 20) NaN (Fin (1/10))
     (engine_run sample_engine (sample_ops ''s'' ''a'' ''reg9'' ''0x9''))) = Inr True"
proof -
  define e where "e = engine_run sample_engine (sample_ops ''s'' ''a'' ''reg9'' ''0x9'')"
  have "engine_init [sample_room ''a'' ''reg1'' ''0x1'', sample_room ''b'' ''reg2'' ''0x2''] = Inr sample_engine"
    by (simp add: engine_init_def sample_simps)
  then have inv: "engine_inv e" unfolding e_def by (auto intro: engine_run_inv engine_init_inv)
  have "map_option (\<lambda>s. (ss_phase s, ss_candidate_entity_id s)) (map_of (en_sessions e) ''s'') =
      Some (TESTING, Some ''climate.new'')"
    unfolding e_def by code_simp
  then obtain s where s: "map_of (en_sessions e) ''s'' = Some s" "ss_phase s = TESTING"
    "ss_candidate_entity_id s = Some ''climate.new''" by auto
  show ?thesis
    using readback_branches[OF inv s(1,2), of "''climate.new''" NaN "Fin 20" "Fin (1/10)"] s(3)
    by (simp add: e_def Let_def)
qed


end
