(* ===== verification/Txn_Values.thy ===== *)
theory Txn_Values
  imports Canonical_Json "HOL-Library.Product_Lexorder"
begin

text \<open>
  The values of the bridge transaction records (\<open>reference_transaction.py\<close>): the enumerations,
  typed revisions, identities, UTC times, and the digests that bind every record to its canonical
  content.

  \<open>H\<close> is the hexadecimal SHA-256 of a byte string; it is an argument of every definition that
  digests. A time is a number of microseconds since 0001-01-01T00:00:00 UTC. The \<open>type(...) is\<close>
  and \<open>isinstance\<close> tests of the source are the types of the model; every other test is a
  conjunct, and \<open>ValueError\<close> is what an instance that fails one raises.
\<close>

section \<open>Enumerations\<close>

datatype operation_kind = WRITE | ROLLBACK

datatype operation_state =
  O_INTENT_RECORDED | O_DISPATCH_ARMED | O_ACKNOWLEDGED | O_VERIFIED | O_BLOCKED

datatype lifecycle_state =
  F_INTENT_RECORDED | F_DISPATCH_ARMED | F_ACKNOWLEDGED | F_NO_EFFECT | F_BLOCKED

datatype attempt_state = A_OPEN | A_COMMITTED | A_RESTORED | A_BLOCKED

datatype receipt_outcome = APPLIED | NO_EFFECT

datatype receipt_evidence = DISPATCH_ACK | OPERATION_LEDGER

datatype reconciliation_action =
  DISPATCH | QUERY_RECEIPT | VERIFY_RECEIPT | REFRESH_OBSERVATION | COMPLETE_ACTION | BLOCK

datatype block_reason =
    STALE_FENCE | EXPIRED_FENCE | STALE_OBSERVATION | OBSERVATION_MISMATCH | RECEIPT_MISMATCH
  | VERIFIED_DRIFT | LIFECYCLE_MISMATCH | INCOMPLETE_COVERAGE | EXPLICIT_ABORT

text \<open>The exceptions of the module; \<open>TransactionBlocked\<close> carries its fixed reason code.\<close>

datatype txn_error =
    ValueError | KeyError | IndexError | JournalConflict | TransitionError | CodecError
  | TransactionBlocked block_reason

fun outcome_text :: "receipt_outcome \<Rightarrow> string" where
  "outcome_text APPLIED = ''applied''"
| "outcome_text NO_EFFECT = ''no_effect''"

fun evidence_text :: "receipt_evidence \<Rightarrow> string" where
  "evidence_text DISPATCH_ACK = ''dispatch_ack''"
| "evidence_text OPERATION_LEDGER = ''operation_ledger''"

fun kind_text :: "operation_kind \<Rightarrow> string" where
  "kind_text WRITE = ''write''"
| "kind_text ROLLBACK = ''rollback''"

section \<open>Scalar validation\<close>

definition provider_manifest :: "string list" where
  "provider_manifest =
     [''active_yaml'', ''config_entry'', ''external_writers'', ''lovelace'', ''scheduler'']"

definition provider_ok :: "string \<Rightarrow> bool" where
  "provider_ok s \<longleftrightarrow> s \<in> set provider_manifest"

definition string_ok :: "string \<Rightarrow> bool" where
  "string_ok s \<longleftrightarrow> s \<noteq> [] \<and> s = py_strip s \<and> length s \<le> 1024 \<and>
     list_all (\<lambda>c. 32 \<le> char_code c \<and> char_code c \<noteq> 127) s"

text \<open>\<open>Revision = str | int\<close>; \<open>_same_revision\<close> is equality of the two typed values.\<close>

datatype revision = RInt int | RStr string

fun revision_ok :: "revision \<Rightarrow> bool" where
  "revision_ok (RInt n) = (0 \<le> n)"
| "revision_ok (RStr s) = (0 < length s \<and> length s \<le> 256 \<and>
     list_all (\<lambda>c. 33 \<le> char_code c \<and> char_code c \<le> 126) s)"

definition same_revision :: "revision \<Rightarrow> revision \<Rightarrow> bool" where
  "same_revision a b \<longleftrightarrow> a = b"

definition digest_ok :: "string \<Rightarrow> bool" where
  "digest_ok s \<longleftrightarrow> hex_text 64 s"

definition object_id_ok :: "string \<Rightarrow> bool" where
  "object_id_ok s \<longleftrightarrow> hex_suffixed ''tf-bridge-'' 24 s"

definition acquire_id_ok :: "string \<Rightarrow> bool" where
  "acquire_id_ok s \<longleftrightarrow> hex_suffixed ''tf-fence-acquire-'' 24 s"

definition release_id_ok :: "string \<Rightarrow> bool" where
  "release_id_ok s \<longleftrightarrow> hex_suffixed ''tf-fence-release-'' 24 s"

definition receipt_id_ok :: "string \<Rightarrow> bool" where
  "receipt_id_ok s \<longleftrightarrow> hex_suffixed ''tf-receipt-'' 24 s"

definition positive_ok :: "int \<Rightarrow> bool" where
  "positive_ok n \<longleftrightarrow> 1 \<le> n"

definition nonnegative_ok :: "int \<Rightarrow> bool" where
  "nonnegative_ok n \<longleftrightarrow> 0 \<le> n"

definition freshness_ok :: "int \<Rightarrow> bool" where
  "freshness_ok n \<longleftrightarrow> 1 \<le> n \<and> n \<le> 86400"

text \<open>A plan identity is derived from the plan digest.\<close>

definition plan_id_of :: "(string \<Rightarrow> string) \<Rightarrow> string \<Rightarrow> string" where
  "plan_id_of H plan_digest = ''tf-reference-'' @ take 24 (H (''reference-plan:'' @ plan_digest))"

definition plan_binding_ok :: "(string \<Rightarrow> string) \<Rightarrow> string \<Rightarrow> string \<Rightarrow> bool" where
  "plan_binding_ok H plan_id plan_digest \<longleftrightarrow>
     string_ok plan_id \<and> digest_ok plan_digest \<and> plan_id = plan_id_of H plan_digest"

text \<open>\<open>FenceTokenDigest\<close>: its brand lets only \<open>derive_fence_token_digest\<close> and the decoder build one.\<close>

datatype fence_token = FenceToken (token_value: string)

definition token_ok :: "fence_token \<Rightarrow> bool" where
  "token_ok t \<longleftrightarrow> hex_suffixed ''tf-fence-token-sha256-v1:'' 64 (token_value t)"

definition utf8 :: "string \<Rightarrow> string" where
  "utf8 s = concat (map (\<lambda>c. let n = char_code c in
     if n < 128 then [c] else [char_of (192 + n div 64), char_of (128 + n mod 64)]) s)"

fun big_endian :: "nat \<Rightarrow> nat \<Rightarrow> string" where
  "big_endian 0 n = []"
| "big_endian (Suc w) n = big_endian w (n div 256) @ [char_of (n mod 256)]"

definition derive_fence_token_digest :: "(string \<Rightarrow> string) \<Rightarrow> string \<Rightarrow> txn_error + fence_token" where
  "derive_fence_token_digest H raw =
     (if raw = [] then Inl ValueError
      else let encoded = utf8 raw;
               token = FenceToken (''tf-fence-token-sha256-v1:'' @
                 H (''true-family/reference-bridge/fence-token/v1'' @ [CHR 0x00] @
                    big_endian 8 (length encoded) @ encoded))
           in if token_ok token then Inr token else Inl ValueError)"

section \<open>Times\<close>

type_synonym time = int

fun month_day :: "nat list \<Rightarrow> nat \<Rightarrow> nat \<Rightarrow> nat \<times> nat" where
  "month_day [] m n = (m, n + 1)"
| "month_day (d # ds) m n = (if n < d then (m, n + 1) else month_day ds (m + 1) (n - d))"

text \<open>Year, month and day of a number of days since 0001-01-01, on the Gregorian calendar.\<close>

definition civil_date :: "nat \<Rightarrow> nat \<times> nat \<times> nat" where
  "civil_date days =
     (let n400 = days div 146097; r400 = days mod 146097;
          n100 = r400 div 36524; r100 = r400 mod 36524;
          n4 = r100 div 1461; r4 = r100 mod 1461;
          n1 = r4 div 365; r1 = r4 mod 365;
          year = n400 * 400 + 1 + n100 * 100 + n4 * 4 + n1;
          leap = (n1 = 3 \<and> (n4 \<noteq> 24 \<or> n100 = 3))
      in if n1 = 4 \<or> n100 = 4 then (year - 1, 12, 31)
         else (year, month_day [31, if leap then 29 else 28, 31, 30, 31, 30, 31, 31, 30, 31, 30, 31] 1 r1))"

definition encode_timestamp :: "time \<Rightarrow> string" where
  "encode_timestamp t =
     (let us = nat t; days = us div 86400000000; rest = us mod 86400000000;
          secs = rest div 1000000; micro = rest mod 1000000
      in case civil_date days of (y, m, d) \<Rightarrow>
         pad_nat 4 y @ ''-'' @ pad_nat 2 m @ ''-'' @ pad_nat 2 d @ ''T'' @
         pad_nat 2 (secs div 3600) @ '':'' @ pad_nat 2 (secs div 60 mod 60) @ '':'' @ pad_nat 2 (secs mod 60) @
         (if micro = 0 then [] else ''.'' @ pad_nat 6 micro) @ ''Z'')"

section \<open>Digests\<close>

definition digest_json :: "(string \<Rightarrow> string) \<Rightarrow> json \<Rightarrow> string" where
  "digest_json H j = H (dumps j)"

fun encode_revision :: "revision \<Rightarrow> json" where
  "encode_revision (RInt n) = JObj [(''type'', JStr ''integer''), (''value'', JInt n)]"
| "encode_revision (RStr s) = JObj [(''type'', JStr ''string''), (''value'', JStr s)]"

text \<open>The receipt ID digests the content, the receipt digest binds the ID to the same content.\<close>

definition receipt_identity :: "(string \<Rightarrow> string) \<Rightarrow> string \<Rightarrow> json \<Rightarrow> string \<times> string" where
  "receipt_identity H domain data =
     (let identity = digest_json H (JObj [(''domain'', JStr domain), (''content'', data)]);
          receipt_id = ''tf-receipt-'' @ take 24 identity
      in (receipt_id, digest_json H (JObj [(''domain'', JStr domain),
            (''receipt_id'', JStr receipt_id), (''content'', data)])))"

section \<open>The digest interface\<close>

text \<open>
  All the records need of the hash is that it yields 64 lower-case hexadecimal digits: then every
  identity and digest computed from it has its canonical shape.
\<close>

lemma py_strip_id: "list_all (\<lambda>c. \<not> py_space c) s \<Longrightarrow> py_strip s = s"
proof -
  assume s: "list_all (\<lambda>c. \<not> py_space c) s"
  have keep: "dropWhile py_space t = t" if "\<forall>c \<in> set t. \<not> py_space c" for t
    using that by (cases t) auto
  have "dropWhile py_space s = s" "dropWhile py_space (rev s) = rev s"
    using s by (auto intro!: keep simp: list_all_iff)
  then show ?thesis by (simp add: py_strip_def)
qed

definition text_char :: "char \<Rightarrow> bool" where
  "text_char c \<longleftrightarrow> \<not> py_space c \<and> 32 \<le> char_code c \<and> char_code c \<noteq> 127"

lemma hex_text_char: "hex_digit c \<Longrightarrow> text_char c"
  by (auto simp: hex_digit_def text_char_def py_space_def char_code_def Let_def)

lemma string_ok_text:
  "list_all text_char s \<Longrightarrow> s \<noteq> [] \<Longrightarrow> length s \<le> 1024 \<Longrightarrow> string_ok s"
  using py_strip_id[of s] by (auto simp: string_ok_def text_char_def list_all_iff)

locale hex_digest =
  fixes H :: "string \<Rightarrow> string"
  assumes hex64: "hex_text 64 (H bytes)"
begin

lemma digest_ok_H [simp]: "digest_ok (H bytes)"
  by (simp add: digest_ok_def hex64)

lemma digest_ok_json [simp]: "digest_ok (digest_json H j)"
  by (simp add: digest_json_def)

lemma hex24 [simp]: "hex_text 24 (take 24 (H bytes))"
  by (rule hex_text_take[OF hex64]) simp

lemma hex24_json [simp]: "hex_text 24 (take 24 (digest_json H j))"
  by (simp add: digest_json_def)

lemma receipt_identity_shape:
  "receipt_id_ok (fst (receipt_identity H domain data))"
  "digest_ok (snd (receipt_identity H domain data))"
  by (simp_all add: receipt_identity_def receipt_id_ok_def Let_def hex_suffixed_def starts_with_def)

lemma plan_binding_ok_plan_id [simp]: "plan_binding_ok H (plan_id_of H d) d \<longleftrightarrow> digest_ok d"
proof -
  have "list_all text_char (take 24 (H (''reference-plan:'' @ d)))"
    using hex24[of "''reference-plan:'' @ d"] hex_text_char by (auto simp: hex_text_def list_all_iff)
  moreover have "list_all text_char ''tf-reference-''"
    by (simp add: text_char_def py_space_def char_code_def Let_def)
  ultimately have "list_all text_char (plan_id_of H d)"
    unfolding plan_id_of_def list_all_append by blast
  then have "string_ok (plan_id_of H d)"
    by (rule string_ok_text) (simp_all add: plan_id_of_def)
  then show ?thesis by (simp add: plan_binding_ok_def)
qed

lemma derive_token:
  "raw \<noteq> [] \<Longrightarrow> \<exists>t. derive_fence_token_digest H raw = Inr t \<and> token_ok t"
  by (simp add: derive_fence_token_digest_def Let_def token_ok_def hex_suffixed_def starts_with_def hex64)

end

lemma same_revision_iff [simp]: "same_revision a b = (a = b)"
  by (simp add: same_revision_def)

end
