(* ===== verification/Sha256.thy ===== *)
theory Sha256
  imports Txn_Values "HOL-Library.Word"
begin

unbundle bit_operations_syntax

text \<open>
  \<open>hashlib.sha256(data).hexdigest()\<close> (FIPS 180-4): the function every identity and digest of the
  program is computed with, on 32-bit words with wrap-around addition. It satisfies the contract
  the records rely on, the locale \<open>hex_digest\<close>.
\<close>

type_synonym w32 = "32 word"

text \<open>
  The constants are the first 32 bits of the fractional parts of the cube roots of the first 64
  primes, and the initial state those of the square roots of the first 8. Both come from the
  integer root of \<open>p times 2^(32k)\<close>, found bit by bit.
\<close>

fun root_bits :: "nat \<Rightarrow> nat \<Rightarrow> nat \<Rightarrow> nat \<Rightarrow> nat" where
  "root_bits k n 0 r = r"
| "root_bits k n (Suc b) r = root_bits k n b (if (r + 2 ^ b) ^ k \<le> n then r + 2 ^ b else r)"

definition fraction_bits :: "nat \<Rightarrow> nat \<Rightarrow> w32" where
  "fraction_bits k p = of_nat (root_bits k (p * 2 ^ (32 * k)) 38 0)"

definition primes_below :: "nat \<Rightarrow> nat list" where
  "primes_below m = filter (\<lambda>n. 2 \<le> n \<and> list_all (\<lambda>d. n mod d \<noteq> 0) [2..<n]) [0..<m]"

definition sha_constants :: "w32 list" where
  "sha_constants = map (fraction_bits 3) (primes_below 312)"

definition sha_initial :: "w32 list" where
  "sha_initial = map (fraction_bits 2) [2, 3, 5, 7, 11, 13, 17, 19]"

definition rotr :: "nat \<Rightarrow> w32 \<Rightarrow> w32" where
  "rotr n x = (drop_bit n x) OR (push_bit (32 - n) x)"

definition small_sigma0 :: "w32 \<Rightarrow> w32" where
  "small_sigma0 x = rotr 7 x XOR rotr 18 x XOR drop_bit 3 x"

definition small_sigma1 :: "w32 \<Rightarrow> w32" where
  "small_sigma1 x = rotr 17 x XOR rotr 19 x XOR drop_bit 10 x"

definition big_sigma0 :: "w32 \<Rightarrow> w32" where
  "big_sigma0 x = rotr 2 x XOR rotr 13 x XOR rotr 22 x"

definition big_sigma1 :: "w32 \<Rightarrow> w32" where
  "big_sigma1 x = rotr 6 x XOR rotr 11 x XOR rotr 25 x"

text \<open>The message schedule, newest word first while it grows.\<close>

fun extend_schedule :: "nat \<Rightarrow> w32 list \<Rightarrow> w32 list" where
  "extend_schedule 0 ws = ws"
| "extend_schedule (Suc n) ws =
     extend_schedule n
       ((small_sigma1 (ws ! 1) + ws ! 6 + small_sigma0 (ws ! 14) + ws ! 15) # ws)"

fun sha_rounds :: "(w32 \<times> w32) list \<Rightarrow> w32 list \<Rightarrow> w32 list" where
  "sha_rounds ((k, w) # r) [a, b, c, d, e, f, g, h] =
     (let t1 = h + big_sigma1 e + ((e AND f) XOR (NOT e AND g)) + k + w;
          t2 = big_sigma0 a + ((a AND b) XOR (a AND c) XOR (b AND c))
      in sha_rounds r [t1 + t2, a, b, c, d + t1, e, f, g])"
| "sha_rounds r st = st"

definition compress :: "w32 list \<Rightarrow> w32 list \<Rightarrow> w32 list" where
  "compress st block =
     map2 (+) st (sha_rounds (zip sha_constants (rev (extend_schedule 48 (rev block)))) st)"

definition word_of_bytes :: "nat list \<Rightarrow> w32" where
  "word_of_bytes bs = of_nat (foldl (\<lambda>n b. n * 256 + b) 0 bs)"

fun words_of_bytes :: "nat \<Rightarrow> nat list \<Rightarrow> w32 list" where
  "words_of_bytes 0 bs = []"
| "words_of_bytes (Suc n) bs = word_of_bytes (take 4 bs) # words_of_bytes n (drop 4 bs)"

fun sha_blocks :: "nat \<Rightarrow> nat list \<Rightarrow> w32 list \<Rightarrow> w32 list" where
  "sha_blocks 0 bs st = st"
| "sha_blocks (Suc n) bs st = sha_blocks n (drop 64 bs) (compress st (words_of_bytes 16 (take 64 bs)))"

definition sha_padded :: "nat list \<Rightarrow> nat list" where
  "sha_padded bs = bs @ [128] @ replicate ((119 - length bs mod 64) mod 64) 0 @
     map char_code (big_endian 8 (8 * length bs))"

fun nat_hex :: "nat \<Rightarrow> nat \<Rightarrow> string" where
  "nat_hex 0 n = []"
| "nat_hex (Suc w) n = nat_hex w (n div 16) @ [hex_char (n mod 16)]"

definition sha256_hexdigest :: "string \<Rightarrow> string" where
  "sha256_hexdigest s =
     (let padded = sha_padded (map char_code s)
      in concat (map (\<lambda>w. nat_hex 8 (unat w))
           (sha_blocks (length padded div 64) padded sha_initial)))"

section \<open>The digest has the shape the records rely on\<close>

lemma hex_text_append: "hex_text m a \<Longrightarrow> hex_text n b \<Longrightarrow> hex_text (m + n) (a @ b)"
  by (simp add: hex_text_def)

lemma hex_text_nat_hex: "hex_text w (nat_hex w n)"
  by (induction w arbitrary: n) (auto simp: hex_text_def intro: hex_char_hex)

lemma length_sha_rounds: "length st = 8 \<Longrightarrow> length (sha_rounds r st) = 8"
  by (induction r st rule: sha_rounds.induct) (simp_all add: Let_def)

lemma length_compress: "length st = 8 \<Longrightarrow> length (compress st block) = 8"
  by (simp add: compress_def length_sha_rounds)

lemma length_sha_blocks: "length st = 8 \<Longrightarrow> length (sha_blocks n bs st) = 8"
  by (induction n arbitrary: bs st) (simp_all add: length_compress)

lemma hex_text_concat: "hex_text (8 * length ws) (concat (map (\<lambda>w. nat_hex 8 (unat w)) ws))"
proof (induction ws)
  case Nil
  show ?case by (simp add: hex_text_def)
next
  case (Cons w ws)
  from hex_text_append[OF hex_text_nat_hex[of 8 "unat w"] Cons.IH] show ?case by simp
qed

lemma hex_text_sha256: "hex_text 64 (sha256_hexdigest s)"
proof -
  let ?p = "sha_padded (map char_code s)"
  let ?ws = "sha_blocks (length ?p div 64) ?p sha_initial"
  have "length ?ws = 8" by (rule length_sha_blocks) (simp add: sha_initial_def)
  with hex_text_concat[of ?ws] show ?thesis by (simp add: sha256_hexdigest_def Let_def)
qed

interpretation sha256: hex_digest sha256_hexdigest
  by unfold_locales (rule hex_text_sha256)

end
