(* ===== verification/Txn_Fence.thy ===== *)
theory Txn_Fence
  imports Txn_Values
begin

text \<open>
  The fence lifecycle of \<open>reference_transaction.py\<close>: expected writes, acquisition intents and
  receipts, the binding a receipt establishes, release intents and receipts, and the two durable
  records with their transitions.

  Each \<open>_ok\<close> predicate is the \<open>__post_init__\<close> of its class; \<open>checked\<close> builds an instance, which
  raises \<open>ValueError\<close> when the predicate fails. The \<open>_data\<close> functions are the canonical JSON the
  digests are taken over; they never read the identity fields they determine.
\<close>

definition checked :: "bool \<Rightarrow> 'a \<Rightarrow> txn_error + 'a" where
  "checked ok x = (if ok then Inr x else Inl ValueError)"

lemma checked_Inr [simp]: "checked ok x = Inr y \<longleftrightarrow> ok \<and> y = x"
  by (auto simp: checked_def)

lemma checked_Inl [simp]: "checked ok x = Inl e \<longleftrightarrow> \<not> ok \<and> e = ValueError"
  by (auto simp: checked_def)

section \<open>Expected writes\<close>

record expected_write =
  ew_provider :: string
  ew_object_key :: string
  ew_expected_revision :: revision
  ew_pre_fingerprint :: string
  ew_post_fingerprint :: string

definition expected_write_ok :: "expected_write \<Rightarrow> bool" where
  "expected_write_ok w \<longleftrightarrow>
     provider_ok (ew_provider w) \<and>
     string_ok (ew_object_key w) \<and>
     revision_ok (ew_expected_revision w) \<and>
     digest_ok (ew_pre_fingerprint w) \<and>
     digest_ok (ew_post_fingerprint w) \<and>
     ew_pre_fingerprint w \<noteq> ew_post_fingerprint w"

definition ew_key :: "expected_write \<Rightarrow> string \<times> string" where
  "ew_key w = (ew_provider w, ew_object_key w)"

section \<open>Acquisition intents\<close>

record acq_intent =
  ai_operation_id :: string
  ai_intent_digest :: string
  ai_plan_id :: string
  ai_plan_digest :: string
  ai_manifest_digest :: string
  ai_attempt :: int
  ai_provider :: string
  ai_writer_id :: string
  ai_expected_inventory_revision :: revision
  ai_scope_digest :: string
  ai_epoch :: int
  ai_requested_at :: time
  ai_expires_at :: time

definition acq_intent_data :: "acq_intent \<Rightarrow> json" where
  "acq_intent_data i = JObj
    [(''schema'', JInt 1),
     (''plan_id'', JStr (ai_plan_id i)),
     (''plan_digest'', JStr (ai_plan_digest i)),
     (''manifest_digest'', JStr (ai_manifest_digest i)),
     (''attempt'', JInt (ai_attempt i)),
     (''provider'', JStr (ai_provider i)),
     (''writer_id'', JStr (ai_writer_id i)),
     (''expected_inventory_revision'', encode_revision (ai_expected_inventory_revision i)),
     (''scope_digest'', JStr (ai_scope_digest i)),
     (''epoch'', JInt (ai_epoch i)),
     (''requested_at'', JStr (encode_timestamp (ai_requested_at i))),
     (''expires_at'', JStr (encode_timestamp (ai_expires_at i)))]"

definition acq_intent_ok :: "(string \<Rightarrow> string) \<Rightarrow> acq_intent \<Rightarrow> bool" where
  "acq_intent_ok H i \<longleftrightarrow>
     acquire_id_ok (ai_operation_id i) \<and>
     digest_ok (ai_intent_digest i) \<and>
     plan_binding_ok H (ai_plan_id i) (ai_plan_digest i) \<and>
     digest_ok (ai_manifest_digest i) \<and>
     positive_ok (ai_attempt i) \<and>
     provider_ok (ai_provider i) \<and>
     string_ok (ai_writer_id i) \<and>
     revision_ok (ai_expected_inventory_revision i) \<and>
     digest_ok (ai_scope_digest i) \<and>
     nonnegative_ok (ai_epoch i) \<and>
     ai_requested_at i < ai_expires_at i \<and>
     ai_intent_digest i = digest_json H (acq_intent_data i) \<and>
     ai_operation_id i = ''tf-fence-acquire-'' @ take 24 (digest_json H (acq_intent_data i))"

text \<open>The identity a acq intent gets from its content, the way \<open>create\<close> computes it.\<close>

definition seal_acq_intent :: "(string \<Rightarrow> string) \<Rightarrow> acq_intent \<Rightarrow> acq_intent" where
  "seal_acq_intent H values =
     (let digest = digest_json H (acq_intent_data values)
      in values\<lparr>ai_operation_id := ''tf-fence-acquire-'' @ take 24 digest, ai_intent_digest := digest\<rparr>)"

definition acq_intent_create ::
  "(string \<Rightarrow> string) \<Rightarrow> string \<Rightarrow> string \<Rightarrow> string \<Rightarrow> int \<Rightarrow> string \<Rightarrow> string \<Rightarrow> revision \<Rightarrow> string \<Rightarrow>
   int \<Rightarrow> time \<Rightarrow> time \<Rightarrow> txn_error + acq_intent" where
  "acq_intent_create H plan_id plan_digest manifest_digest attempt provider writer_id
     expected_inventory_revision scope_digest epoch requested_at expires_at =
   (let values = \<lparr>ai_operation_id = [], ai_intent_digest = [], ai_plan_id = plan_id,
          ai_plan_digest = plan_digest, ai_manifest_digest = manifest_digest,
          ai_attempt = attempt, ai_provider = provider, ai_writer_id = writer_id,
          ai_expected_inventory_revision = expected_inventory_revision,
          ai_scope_digest = scope_digest, ai_epoch = epoch, ai_requested_at = requested_at,
          ai_expires_at = expires_at\<rparr>;
        i = seal_acq_intent H values
    in checked (acq_intent_ok H i) i)"

section \<open>Acquired fences and acquisition receipts\<close>

record fence_binding =
  fb_provider :: string
  fb_writer_id :: string
  fb_token_digest :: fence_token
  fb_epoch :: int
  fb_fence_revision :: revision
  fb_base_revision :: revision
  fb_scope_digest :: string
  fb_acquired_at :: time
  fb_acquisition_durable_at :: time
  fb_expires_at :: time
  fb_acquisition_operation_id :: string
  fb_acquisition_receipt_id :: string
  fb_acquisition_receipt_digest :: string

definition fence_binding_ok :: "fence_binding \<Rightarrow> bool" where
  "fence_binding_ok f \<longleftrightarrow>
     provider_ok (fb_provider f) \<and>
     string_ok (fb_writer_id f) \<and>
     token_ok (fb_token_digest f) \<and>
     nonnegative_ok (fb_epoch f) \<and>
     revision_ok (fb_fence_revision f) \<and>
     revision_ok (fb_base_revision f) \<and>
     digest_ok (fb_scope_digest f) \<and>
     fb_acquired_at f \<le> fb_acquisition_durable_at f \<and>
     fb_acquired_at f < fb_expires_at f \<and>
     acquire_id_ok (fb_acquisition_operation_id f) \<and>
     receipt_id_ok (fb_acquisition_receipt_id f) \<and>
     digest_ok (fb_acquisition_receipt_digest f)"

definition fence_data :: "fence_binding \<Rightarrow> json" where
  "fence_data f = JObj
    [(''provider'', JStr (fb_provider f)),
     (''writer_id'', JStr (fb_writer_id f)),
     (''token_digest'', JStr (token_value (fb_token_digest f))),
     (''epoch'', JInt (fb_epoch f)),
     (''fence_revision'', encode_revision (fb_fence_revision f)),
     (''base_revision'', encode_revision (fb_base_revision f)),
     (''scope_digest'', JStr (fb_scope_digest f)),
     (''acquired_at'', JStr (encode_timestamp (fb_acquired_at f))),
     (''acquisition_durable_at'', JStr (encode_timestamp (fb_acquisition_durable_at f))),
     (''expires_at'', JStr (encode_timestamp (fb_expires_at f))),
     (''acquisition_operation_id'', JStr (fb_acquisition_operation_id f)),
     (''acquisition_receipt_id'', JStr (fb_acquisition_receipt_id f)),
     (''acquisition_receipt_digest'', JStr (fb_acquisition_receipt_digest f))]"

definition fence_live_at :: "fence_binding \<Rightarrow> time \<Rightarrow> bool" where
  "fence_live_at f at \<longleftrightarrow> fb_acquired_at f \<le> at \<and> at < fb_expires_at f"

record acq_receipt =
  ar_operation_id :: string
  ar_intent_digest :: string
  ar_receipt_id :: string
  ar_provider :: string
  ar_writer_id :: string
  ar_expected_inventory_revision :: revision
  ar_acquired_inventory_revision :: revision
  ar_fence_revision :: revision
  ar_scope_digest :: string
  ar_epoch :: int
  ar_token_digest :: fence_token
  ar_acquired_at :: time
  ar_expires_at :: time
  ar_acknowledged_at :: time
  ar_durable_at :: time
  ar_receipt_digest :: string

definition acq_receipt_data :: "acq_receipt \<Rightarrow> json" where
  "acq_receipt_data r = JObj
    [(''schema'', JInt 1),
     (''operation_id'', JStr (ar_operation_id r)),
     (''intent_digest'', JStr (ar_intent_digest r)),
     (''provider'', JStr (ar_provider r)),
     (''writer_id'', JStr (ar_writer_id r)),
     (''expected_inventory_revision'', encode_revision (ar_expected_inventory_revision r)),
     (''acquired_inventory_revision'', encode_revision (ar_acquired_inventory_revision r)),
     (''fence_revision'', encode_revision (ar_fence_revision r)),
     (''scope_digest'', JStr (ar_scope_digest r)),
     (''epoch'', JInt (ar_epoch r)),
     (''token_digest'', JStr (token_value (ar_token_digest r))),
     (''acquired_at'', JStr (encode_timestamp (ar_acquired_at r))),
     (''expires_at'', JStr (encode_timestamp (ar_expires_at r))),
     (''acknowledged_at'', JStr (encode_timestamp (ar_acknowledged_at r))),
     (''durable_at'', JStr (encode_timestamp (ar_durable_at r)))]"

definition acq_receipt_ok :: "(string \<Rightarrow> string) \<Rightarrow> acq_receipt \<Rightarrow> bool" where
  "acq_receipt_ok H r \<longleftrightarrow>
     acquire_id_ok (ar_operation_id r) \<and>
     digest_ok (ar_intent_digest r) \<and>
     receipt_id_ok (ar_receipt_id r) \<and>
     provider_ok (ar_provider r) \<and>
     string_ok (ar_writer_id r) \<and>
     revision_ok (ar_expected_inventory_revision r) \<and>
     revision_ok (ar_acquired_inventory_revision r) \<and>
     revision_ok (ar_fence_revision r) \<and>
     digest_ok (ar_scope_digest r) \<and>
     nonnegative_ok (ar_epoch r) \<and>
     token_ok (ar_token_digest r) \<and>
     digest_ok (ar_receipt_digest r) \<and>
     same_revision (ar_expected_inventory_revision r) (ar_acquired_inventory_revision r) \<and>
     ar_acquired_at r \<le> ar_acknowledged_at r \<and>
     ar_acknowledged_at r < ar_expires_at r \<and>
     ar_acknowledged_at r \<le> ar_durable_at r \<and>
     (ar_receipt_id r, ar_receipt_digest r) =
       receipt_identity H ''fence-acquisition'' (acq_receipt_data r)"

text \<open>\<open>FenceAcquisitionReceipt.binding\<close>; building it never raises on a valid receipt (\<open>binding_ok\<close>).\<close>

definition acq_receipt_binding :: "acq_receipt \<Rightarrow> fence_binding" where
  "acq_receipt_binding r = \<lparr>fb_provider = ar_provider r, fb_writer_id = ar_writer_id r,
     fb_token_digest = ar_token_digest r, fb_epoch = ar_epoch r,
     fb_fence_revision = ar_fence_revision r, fb_base_revision = ar_acquired_inventory_revision r,
     fb_scope_digest = ar_scope_digest r, fb_acquired_at = ar_acquired_at r,
     fb_acquisition_durable_at = ar_durable_at r, fb_expires_at = ar_expires_at r,
     fb_acquisition_operation_id = ar_operation_id r,
     fb_acquisition_receipt_id = ar_receipt_id r,
     fb_acquisition_receipt_digest = ar_receipt_digest r\<rparr>"

text \<open>\<open>_validate_acquisition_receipt_binding\<close>, the body of \<open>validate_for\<close>.\<close>

definition acq_receipt_valid_for :: "(string \<Rightarrow> string) \<Rightarrow> acq_receipt \<Rightarrow> acq_intent \<Rightarrow> bool" where
  "acq_receipt_valid_for H r i \<longleftrightarrow>
     acq_intent_ok H i \<and>
     acq_receipt_ok H r \<and>
     ar_operation_id r = ai_operation_id i \<and>
     ar_intent_digest r = ai_intent_digest i \<and>
     ar_provider r = ai_provider i \<and>
     ar_writer_id r = ai_writer_id i \<and>
     same_revision (ar_expected_inventory_revision r) (ai_expected_inventory_revision i) \<and>
     ar_scope_digest r = ai_scope_digest i \<and>
     ar_epoch r = ai_epoch i \<and>
     ar_expires_at r = ai_expires_at i \<and>
     ai_requested_at i \<le> ar_acquired_at r \<and>
     ar_acquired_at r \<le> ar_acknowledged_at r \<and>
     ar_acknowledged_at r < ai_expires_at i \<and>
     ar_acknowledged_at r \<le> ar_durable_at r"

definition seal_acq_receipt :: "(string \<Rightarrow> string) \<Rightarrow> acq_receipt \<Rightarrow> acq_receipt" where
  "seal_acq_receipt H values =
     (let (receipt_id, receipt_digest) = receipt_identity H ''fence-acquisition'' (acq_receipt_data values)
      in values\<lparr>ar_receipt_id := receipt_id, ar_receipt_digest := receipt_digest\<rparr>)"

definition acq_receipt_create ::
  "(string \<Rightarrow> string) \<Rightarrow> acq_intent \<Rightarrow> revision \<Rightarrow> revision \<Rightarrow> fence_token \<Rightarrow> time \<Rightarrow> time \<Rightarrow> time \<Rightarrow>
   txn_error + acq_receipt" where
  "acq_receipt_create H i acquired_inventory_revision fence_revision token_digest acquired_at
     acknowledged_at durable_at =
   (let values = \<lparr>ar_operation_id = ai_operation_id i, ar_intent_digest = ai_intent_digest i,
          ar_receipt_id = [], ar_provider = ai_provider i, ar_writer_id = ai_writer_id i,
          ar_expected_inventory_revision = ai_expected_inventory_revision i,
          ar_acquired_inventory_revision = acquired_inventory_revision,
          ar_fence_revision = fence_revision, ar_scope_digest = ai_scope_digest i,
          ar_epoch = ai_epoch i, ar_token_digest = token_digest, ar_acquired_at = acquired_at,
          ar_expires_at = ai_expires_at i, ar_acknowledged_at = acknowledged_at,
          ar_durable_at = durable_at, ar_receipt_digest = []\<rparr>;
        r = seal_acq_receipt H values
    in checked (acq_receipt_valid_for H r i) r)"

record acq_no_effect =
  an_operation_id :: string
  an_intent_digest :: string
  an_receipt_id :: string
  an_provider :: string
  an_writer_id :: string
  an_expected_inventory_revision :: revision
  an_scope_digest :: string
  an_epoch :: int
  an_outcome :: receipt_outcome
  an_evidence :: receipt_evidence
  an_acknowledged_at :: time
  an_durable_at :: time
  an_durable :: bool
  an_receipt_digest :: string

definition acq_no_effect_data :: "acq_no_effect \<Rightarrow> json" where
  "acq_no_effect_data r = JObj
    [(''schema'', JInt 1),
     (''operation_id'', JStr (an_operation_id r)),
     (''intent_digest'', JStr (an_intent_digest r)),
     (''provider'', JStr (an_provider r)),
     (''writer_id'', JStr (an_writer_id r)),
     (''expected_inventory_revision'', encode_revision (an_expected_inventory_revision r)),
     (''scope_digest'', JStr (an_scope_digest r)),
     (''epoch'', JInt (an_epoch r)),
     (''outcome'', JStr (outcome_text (an_outcome r))),
     (''evidence'', JStr (evidence_text (an_evidence r))),
     (''acknowledged_at'', JStr (encode_timestamp (an_acknowledged_at r))),
     (''durable_at'', JStr (encode_timestamp (an_durable_at r))),
     (''durable'', JBool (an_durable r))]"

definition acq_no_effect_ok :: "(string \<Rightarrow> string) \<Rightarrow> acq_no_effect \<Rightarrow> bool" where
  "acq_no_effect_ok H r \<longleftrightarrow>
     acquire_id_ok (an_operation_id r) \<and>
     digest_ok (an_intent_digest r) \<and>
     receipt_id_ok (an_receipt_id r) \<and>
     provider_ok (an_provider r) \<and>
     string_ok (an_writer_id r) \<and>
     revision_ok (an_expected_inventory_revision r) \<and>
     digest_ok (an_scope_digest r) \<and>
     nonnegative_ok (an_epoch r) \<and>
     an_outcome r = NO_EFFECT \<and>
     an_evidence r = OPERATION_LEDGER \<and>
     an_durable r \<and>
     an_acknowledged_at r \<le> an_durable_at r \<and>
     digest_ok (an_receipt_digest r) \<and>
     (an_receipt_id r, an_receipt_digest r) =
       receipt_identity H ''fence-acquisition-no-effect'' (acq_no_effect_data r)"

definition acq_no_effect_valid_for :: "(string \<Rightarrow> string) \<Rightarrow> acq_no_effect \<Rightarrow> acq_intent \<Rightarrow> bool" where
  "acq_no_effect_valid_for H r i \<longleftrightarrow>
     acq_intent_ok H i \<and>
     acq_no_effect_ok H r \<and>
     an_operation_id r = ai_operation_id i \<and>
     an_intent_digest r = ai_intent_digest i \<and>
     an_provider r = ai_provider i \<and>
     an_writer_id r = ai_writer_id i \<and>
     same_revision (an_expected_inventory_revision r) (ai_expected_inventory_revision i) \<and>
     an_scope_digest r = ai_scope_digest i \<and>
     an_epoch r = ai_epoch i \<and>
     ai_expires_at i \<le> an_acknowledged_at r \<and>
     an_acknowledged_at r \<le> an_durable_at r"

definition seal_acq_no_effect :: "(string \<Rightarrow> string) \<Rightarrow> acq_no_effect \<Rightarrow> acq_no_effect" where
  "seal_acq_no_effect H values =
     (let (receipt_id, receipt_digest) = receipt_identity H ''fence-acquisition-no-effect'' (acq_no_effect_data values)
      in values\<lparr>an_receipt_id := receipt_id, an_receipt_digest := receipt_digest\<rparr>)"

definition acq_no_effect_create ::
  "(string \<Rightarrow> string) \<Rightarrow> acq_intent \<Rightarrow> time \<Rightarrow> time \<Rightarrow> txn_error + acq_no_effect" where
  "acq_no_effect_create H i acknowledged_at durable_at =
   (let values = \<lparr>an_operation_id = ai_operation_id i, an_intent_digest = ai_intent_digest i,
          an_receipt_id = [], an_provider = ai_provider i, an_writer_id = ai_writer_id i,
          an_expected_inventory_revision = ai_expected_inventory_revision i,
          an_scope_digest = ai_scope_digest i, an_epoch = ai_epoch i, an_outcome = NO_EFFECT,
          an_evidence = OPERATION_LEDGER, an_acknowledged_at = acknowledged_at,
          an_durable_at = durable_at, an_durable = True, an_receipt_digest = []\<rparr>;
        r = seal_acq_no_effect H values
    in checked (acq_no_effect_valid_for H r i) r)"

section \<open>Acquisition records\<close>

text \<open>The union \<open>FenceAcquisitionReceipt | FenceAcquisitionNoEffectReceipt\<close>.\<close>

datatype acq_evidence = AcqApplied acq_receipt | AcqNoEffect acq_no_effect

fun acq_evidence_ok :: "(string \<Rightarrow> string) \<Rightarrow> acq_evidence \<Rightarrow> bool" where
  "acq_evidence_ok H (AcqApplied r) = acq_receipt_ok H r"
| "acq_evidence_ok H (AcqNoEffect r) = acq_no_effect_ok H r"

fun acq_evidence_valid_for :: "(string \<Rightarrow> string) \<Rightarrow> acq_evidence \<Rightarrow> acq_intent \<Rightarrow> bool" where
  "acq_evidence_valid_for H (AcqApplied r) i = acq_receipt_valid_for H r i"
| "acq_evidence_valid_for H (AcqNoEffect r) i = acq_no_effect_valid_for H r i"

fun acq_evidence_receipt_id :: "acq_evidence \<Rightarrow> string" where
  "acq_evidence_receipt_id (AcqApplied r) = ar_receipt_id r"
| "acq_evidence_receipt_id (AcqNoEffect r) = an_receipt_id r"

fun acq_evidence_operation_id :: "acq_evidence \<Rightarrow> string" where
  "acq_evidence_operation_id (AcqApplied r) = ar_operation_id r"
| "acq_evidence_operation_id (AcqNoEffect r) = an_operation_id r"

record acq_record =
  ac_intent :: acq_intent
  ac_state :: lifecycle_state
  ac_receipt :: "acq_evidence option"
  ac_reason_code :: "block_reason option"
  ac_blocked_from :: "lifecycle_state option"

text \<open>The evidence each lifecycle state requires: the state part of the two record validators.\<close>

definition pre_ack :: "lifecycle_state \<Rightarrow> bool" where
  "pre_ack st \<longleftrightarrow> st = F_INTENT_RECORDED \<or> st = F_DISPATCH_ARMED"

definition acq_record_ok :: "(string \<Rightarrow> string) \<Rightarrow> acq_record \<Rightarrow> bool" where
  "acq_record_ok H c \<longleftrightarrow>
     acq_intent_ok H (ac_intent c) \<and>
     (case ac_receipt c of None \<Rightarrow> True
      | Some e \<Rightarrow> acq_evidence_ok H e \<and> acq_evidence_valid_for H e (ac_intent c)) \<and>
     (if pre_ack (ac_state c) then
        ac_receipt c = None \<and> ac_reason_code c = None \<and> ac_blocked_from c = None
      else if ac_state c = F_ACKNOWLEDGED then
        (case ac_receipt c of Some (AcqApplied r) \<Rightarrow> True | _ \<Rightarrow> False) \<and>
        ac_reason_code c = None \<and> ac_blocked_from c = None
      else if ac_state c = F_NO_EFFECT then
        (case ac_receipt c of Some (AcqNoEffect r) \<Rightarrow> True | _ \<Rightarrow> False) \<and>
        ac_reason_code c = None \<and> ac_blocked_from c = None
      else ac_receipt c = None \<and> ac_reason_code c \<noteq> None \<and>
        (case ac_blocked_from c of None \<Rightarrow> False | Some st \<Rightarrow> pre_ack st))"

definition acq_recorded :: "(string \<Rightarrow> string) \<Rightarrow> acq_intent \<Rightarrow> txn_error + acq_record" where
  "acq_recorded H i =
     (let c = \<lparr>ac_intent = i, ac_state = F_INTENT_RECORDED, ac_receipt = None,
               ac_reason_code = None, ac_blocked_from = None\<rparr>
      in checked (acq_record_ok H c) c)"

definition acq_arm :: "(string \<Rightarrow> string) \<Rightarrow> acq_record \<Rightarrow> txn_error + acq_record" where
  "acq_arm H c =
     (if ac_state c \<noteq> F_INTENT_RECORDED then Inl TransitionError
      else let c' = c\<lparr>ac_state := F_DISPATCH_ARMED\<rparr> in checked (acq_record_ok H c') c')"

definition acq_acknowledge ::
  "(string \<Rightarrow> string) \<Rightarrow> acq_record \<Rightarrow> acq_evidence \<Rightarrow> txn_error + acq_record" where
  "acq_acknowledge H c e =
     (if ac_state c \<noteq> F_DISPATCH_ARMED then Inl TransitionError
      else let st = (case e of AcqApplied r \<Rightarrow> F_ACKNOWLEDGED | AcqNoEffect r \<Rightarrow> F_NO_EFFECT);
               c' = c\<lparr>ac_state := st, ac_receipt := Some e\<rparr>
           in checked (acq_record_ok H c') c')"

definition acq_block ::
  "(string \<Rightarrow> string) \<Rightarrow> acq_record \<Rightarrow> block_reason \<Rightarrow> txn_error + acq_record" where
  "acq_block H c reason =
     (if \<not> pre_ack (ac_state c) then Inl TransitionError
      else let c' = c\<lparr>ac_state := F_BLOCKED, ac_reason_code := Some reason,
                      ac_blocked_from := Some (ac_state c)\<rparr>
           in checked (acq_record_ok H c') c')"

section \<open>Release intents and receipts\<close>

record rel_intent =
  ri_operation_id :: string
  ri_intent_digest :: string
  ri_plan_id :: string
  ri_plan_digest :: string
  ri_manifest_digest :: string
  ri_attempt :: int
  ri_release_attempt :: int
  ri_provider :: string
  ri_writer_id :: string
  ri_acquisition_operation_id :: string
  ri_acquisition_receipt_id :: string
  ri_acquisition_receipt_digest :: string
  ri_token_digest :: fence_token
  ri_scope_digest :: string
  ri_epoch :: int
  ri_expected_inventory_revision :: revision
  ri_requested_at :: time

definition rel_intent_data :: "rel_intent \<Rightarrow> json" where
  "rel_intent_data i = JObj
    [(''schema'', JInt 1),
     (''plan_id'', JStr (ri_plan_id i)),
     (''plan_digest'', JStr (ri_plan_digest i)),
     (''manifest_digest'', JStr (ri_manifest_digest i)),
     (''attempt'', JInt (ri_attempt i)),
     (''release_attempt'', JInt (ri_release_attempt i)),
     (''provider'', JStr (ri_provider i)),
     (''writer_id'', JStr (ri_writer_id i)),
     (''acquisition_operation_id'', JStr (ri_acquisition_operation_id i)),
     (''acquisition_receipt_id'', JStr (ri_acquisition_receipt_id i)),
     (''acquisition_receipt_digest'', JStr (ri_acquisition_receipt_digest i)),
     (''token_digest'', JStr (token_value (ri_token_digest i))),
     (''scope_digest'', JStr (ri_scope_digest i)),
     (''epoch'', JInt (ri_epoch i)),
     (''expected_inventory_revision'', encode_revision (ri_expected_inventory_revision i)),
     (''requested_at'', JStr (encode_timestamp (ri_requested_at i)))]"

definition rel_intent_ok :: "(string \<Rightarrow> string) \<Rightarrow> rel_intent \<Rightarrow> bool" where
  "rel_intent_ok H i \<longleftrightarrow>
     release_id_ok (ri_operation_id i) \<and>
     digest_ok (ri_intent_digest i) \<and>
     plan_binding_ok H (ri_plan_id i) (ri_plan_digest i) \<and>
     digest_ok (ri_manifest_digest i) \<and>
     positive_ok (ri_attempt i) \<and>
     positive_ok (ri_release_attempt i) \<and>
     provider_ok (ri_provider i) \<and>
     string_ok (ri_writer_id i) \<and>
     acquire_id_ok (ri_acquisition_operation_id i) \<and>
     receipt_id_ok (ri_acquisition_receipt_id i) \<and>
     digest_ok (ri_acquisition_receipt_digest i) \<and>
     token_ok (ri_token_digest i) \<and>
     digest_ok (ri_scope_digest i) \<and>
     nonnegative_ok (ri_epoch i) \<and>
     revision_ok (ri_expected_inventory_revision i) \<and>
     ri_intent_digest i = digest_json H (rel_intent_data i) \<and>
     ri_operation_id i = ''tf-fence-release-'' @ take 24 (digest_json H (rel_intent_data i))"

text \<open>A release is bound to the receipt of an acknowledged acquisition.\<close>

text \<open>The identity a rel intent gets from its content, the way \<open>create\<close> computes it.\<close>

definition seal_rel_intent :: "(string \<Rightarrow> string) \<Rightarrow> rel_intent \<Rightarrow> rel_intent" where
  "seal_rel_intent H values =
     (let digest = digest_json H (rel_intent_data values)
      in values\<lparr>ri_operation_id := ''tf-fence-release-'' @ take 24 digest, ri_intent_digest := digest\<rparr>)"

definition rel_intent_create ::
  "(string \<Rightarrow> string) \<Rightarrow> acq_record \<Rightarrow> revision \<Rightarrow> time \<Rightarrow> int \<Rightarrow> txn_error + rel_intent" where
  "rel_intent_create H acquisition expected_inventory_revision requested_at release_attempt =
   (if \<not> acq_record_ok H acquisition then Inl ValueError
    else case (ac_state acquisition, ac_receipt acquisition) of
      (F_ACKNOWLEDGED, Some (AcqApplied receipt)) \<Rightarrow>
        if requested_at < ar_durable_at receipt then Inl ValueError
        else let source = ac_intent acquisition;
             values = \<lparr>ri_operation_id = [], ri_intent_digest = [],
               ri_plan_id = ai_plan_id source, ri_plan_digest = ai_plan_digest source,
               ri_manifest_digest = ai_manifest_digest source, ri_attempt = ai_attempt source,
               ri_release_attempt = release_attempt, ri_provider = ar_provider receipt,
               ri_writer_id = ar_writer_id receipt,
               ri_acquisition_operation_id = ar_operation_id receipt,
               ri_acquisition_receipt_id = ar_receipt_id receipt,
               ri_acquisition_receipt_digest = ar_receipt_digest receipt,
               ri_token_digest = ar_token_digest receipt,
               ri_scope_digest = ar_scope_digest receipt, ri_epoch = ar_epoch receipt,
               ri_expected_inventory_revision = expected_inventory_revision,
               ri_requested_at = requested_at\<rparr>;
             i = seal_rel_intent H values
           in checked (rel_intent_ok H i) i
    | _ \<Rightarrow> Inl ValueError)"

record rel_receipt =
  rr_operation_id :: string
  rr_intent_digest :: string
  rr_receipt_id :: string
  rr_release_attempt :: int
  rr_provider :: string
  rr_writer_id :: string
  rr_acquisition_operation_id :: string
  rr_acquisition_receipt_id :: string
  rr_acquisition_receipt_digest :: string
  rr_token_digest :: fence_token
  rr_scope_digest :: string
  rr_epoch :: int
  rr_expected_inventory_revision :: revision
  rr_final_inventory_revision :: revision
  rr_released_at :: time
  rr_acknowledged_at :: time
  rr_durable_at :: time
  rr_receipt_digest :: string

definition rel_receipt_data :: "rel_receipt \<Rightarrow> json" where
  "rel_receipt_data r = JObj
    [(''schema'', JInt 1),
     (''operation_id'', JStr (rr_operation_id r)),
     (''intent_digest'', JStr (rr_intent_digest r)),
     (''release_attempt'', JInt (rr_release_attempt r)),
     (''provider'', JStr (rr_provider r)),
     (''writer_id'', JStr (rr_writer_id r)),
     (''acquisition_operation_id'', JStr (rr_acquisition_operation_id r)),
     (''acquisition_receipt_id'', JStr (rr_acquisition_receipt_id r)),
     (''acquisition_receipt_digest'', JStr (rr_acquisition_receipt_digest r)),
     (''token_digest'', JStr (token_value (rr_token_digest r))),
     (''scope_digest'', JStr (rr_scope_digest r)),
     (''epoch'', JInt (rr_epoch r)),
     (''expected_inventory_revision'', encode_revision (rr_expected_inventory_revision r)),
     (''final_inventory_revision'', encode_revision (rr_final_inventory_revision r)),
     (''released_at'', JStr (encode_timestamp (rr_released_at r))),
     (''acknowledged_at'', JStr (encode_timestamp (rr_acknowledged_at r))),
     (''durable_at'', JStr (encode_timestamp (rr_durable_at r)))]"

definition rel_receipt_ok :: "(string \<Rightarrow> string) \<Rightarrow> rel_receipt \<Rightarrow> bool" where
  "rel_receipt_ok H r \<longleftrightarrow>
     release_id_ok (rr_operation_id r) \<and>
     digest_ok (rr_intent_digest r) \<and>
     receipt_id_ok (rr_receipt_id r) \<and>
     positive_ok (rr_release_attempt r) \<and>
     provider_ok (rr_provider r) \<and>
     string_ok (rr_writer_id r) \<and>
     acquire_id_ok (rr_acquisition_operation_id r) \<and>
     receipt_id_ok (rr_acquisition_receipt_id r) \<and>
     digest_ok (rr_acquisition_receipt_digest r) \<and>
     token_ok (rr_token_digest r) \<and>
     digest_ok (rr_scope_digest r) \<and>
     nonnegative_ok (rr_epoch r) \<and>
     revision_ok (rr_expected_inventory_revision r) \<and>
     revision_ok (rr_final_inventory_revision r) \<and>
     digest_ok (rr_receipt_digest r) \<and>
     same_revision (rr_expected_inventory_revision r) (rr_final_inventory_revision r) \<and>
     rr_released_at r \<le> rr_acknowledged_at r \<and>
     rr_acknowledged_at r \<le> rr_durable_at r \<and>
     (rr_receipt_id r, rr_receipt_digest r) =
       receipt_identity H ''fence-release'' (rel_receipt_data r)"

definition rel_receipt_valid_for :: "(string \<Rightarrow> string) \<Rightarrow> rel_receipt \<Rightarrow> rel_intent \<Rightarrow> bool" where
  "rel_receipt_valid_for H r i \<longleftrightarrow>
     rel_intent_ok H i \<and>
     rel_receipt_ok H r \<and>
     rr_operation_id r = ri_operation_id i \<and>
     rr_intent_digest r = ri_intent_digest i \<and>
     rr_release_attempt r = ri_release_attempt i \<and>
     rr_provider r = ri_provider i \<and>
     rr_writer_id r = ri_writer_id i \<and>
     rr_acquisition_operation_id r = ri_acquisition_operation_id i \<and>
     rr_acquisition_receipt_id r = ri_acquisition_receipt_id i \<and>
     rr_acquisition_receipt_digest r = ri_acquisition_receipt_digest i \<and>
     rr_token_digest r = ri_token_digest i \<and>
     rr_scope_digest r = ri_scope_digest i \<and>
     rr_epoch r = ri_epoch i \<and>
     same_revision (rr_expected_inventory_revision r) (ri_expected_inventory_revision i) \<and>
     ri_requested_at i \<le> rr_released_at r \<and>
     rr_released_at r \<le> rr_acknowledged_at r \<and>
     rr_acknowledged_at r \<le> rr_durable_at r"

definition seal_rel_receipt :: "(string \<Rightarrow> string) \<Rightarrow> rel_receipt \<Rightarrow> rel_receipt" where
  "seal_rel_receipt H values =
     (let (receipt_id, receipt_digest) = receipt_identity H ''fence-release'' (rel_receipt_data values)
      in values\<lparr>rr_receipt_id := receipt_id, rr_receipt_digest := receipt_digest\<rparr>)"

definition rel_receipt_create ::
  "(string \<Rightarrow> string) \<Rightarrow> rel_intent \<Rightarrow> revision \<Rightarrow> time \<Rightarrow> time \<Rightarrow> time \<Rightarrow> txn_error + rel_receipt" where
  "rel_receipt_create H i final_inventory_revision released_at acknowledged_at durable_at =
   (let values = \<lparr>rr_operation_id = ri_operation_id i, rr_intent_digest = ri_intent_digest i,
          rr_receipt_id = [], rr_release_attempt = ri_release_attempt i,
          rr_provider = ri_provider i, rr_writer_id = ri_writer_id i,
          rr_acquisition_operation_id = ri_acquisition_operation_id i,
          rr_acquisition_receipt_id = ri_acquisition_receipt_id i,
          rr_acquisition_receipt_digest = ri_acquisition_receipt_digest i,
          rr_token_digest = ri_token_digest i, rr_scope_digest = ri_scope_digest i,
          rr_epoch = ri_epoch i,
          rr_expected_inventory_revision = ri_expected_inventory_revision i,
          rr_final_inventory_revision = final_inventory_revision,
          rr_released_at = released_at, rr_acknowledged_at = acknowledged_at,
          rr_durable_at = durable_at, rr_receipt_digest = []\<rparr>;
        r = seal_rel_receipt H values
    in checked (rel_receipt_valid_for H r i) r)"

record rel_no_effect =
  rn_operation_id :: string
  rn_intent_digest :: string
  rn_receipt_id :: string
  rn_release_attempt :: int
  rn_provider :: string
  rn_writer_id :: string
  rn_acquisition_operation_id :: string
  rn_acquisition_receipt_id :: string
  rn_acquisition_receipt_digest :: string
  rn_token_digest :: fence_token
  rn_scope_digest :: string
  rn_epoch :: int
  rn_expected_inventory_revision :: revision
  rn_outcome :: receipt_outcome
  rn_evidence :: receipt_evidence
  rn_acknowledged_at :: time
  rn_durable_at :: time
  rn_durable :: bool
  rn_receipt_digest :: string

definition rel_no_effect_data :: "rel_no_effect \<Rightarrow> json" where
  "rel_no_effect_data r = JObj
    [(''schema'', JInt 1),
     (''operation_id'', JStr (rn_operation_id r)),
     (''intent_digest'', JStr (rn_intent_digest r)),
     (''release_attempt'', JInt (rn_release_attempt r)),
     (''provider'', JStr (rn_provider r)),
     (''writer_id'', JStr (rn_writer_id r)),
     (''acquisition_operation_id'', JStr (rn_acquisition_operation_id r)),
     (''acquisition_receipt_id'', JStr (rn_acquisition_receipt_id r)),
     (''acquisition_receipt_digest'', JStr (rn_acquisition_receipt_digest r)),
     (''token_digest'', JStr (token_value (rn_token_digest r))),
     (''scope_digest'', JStr (rn_scope_digest r)),
     (''epoch'', JInt (rn_epoch r)),
     (''expected_inventory_revision'', encode_revision (rn_expected_inventory_revision r)),
     (''outcome'', JStr (outcome_text (rn_outcome r))),
     (''evidence'', JStr (evidence_text (rn_evidence r))),
     (''acknowledged_at'', JStr (encode_timestamp (rn_acknowledged_at r))),
     (''durable_at'', JStr (encode_timestamp (rn_durable_at r))),
     (''durable'', JBool (rn_durable r))]"

definition rel_no_effect_ok :: "(string \<Rightarrow> string) \<Rightarrow> rel_no_effect \<Rightarrow> bool" where
  "rel_no_effect_ok H r \<longleftrightarrow>
     release_id_ok (rn_operation_id r) \<and>
     digest_ok (rn_intent_digest r) \<and>
     receipt_id_ok (rn_receipt_id r) \<and>
     positive_ok (rn_release_attempt r) \<and>
     provider_ok (rn_provider r) \<and>
     string_ok (rn_writer_id r) \<and>
     acquire_id_ok (rn_acquisition_operation_id r) \<and>
     receipt_id_ok (rn_acquisition_receipt_id r) \<and>
     digest_ok (rn_acquisition_receipt_digest r) \<and>
     token_ok (rn_token_digest r) \<and>
     digest_ok (rn_scope_digest r) \<and>
     nonnegative_ok (rn_epoch r) \<and>
     revision_ok (rn_expected_inventory_revision r) \<and>
     rn_outcome r = NO_EFFECT \<and>
     rn_evidence r = OPERATION_LEDGER \<and>
     rn_durable r \<and>
     rn_acknowledged_at r \<le> rn_durable_at r \<and>
     digest_ok (rn_receipt_digest r) \<and>
     (rn_receipt_id r, rn_receipt_digest r) =
       receipt_identity H ''fence-release-no-effect'' (rel_no_effect_data r)"

definition rel_no_effect_valid_for :: "(string \<Rightarrow> string) \<Rightarrow> rel_no_effect \<Rightarrow> rel_intent \<Rightarrow> bool" where
  "rel_no_effect_valid_for H r i \<longleftrightarrow>
     rel_intent_ok H i \<and>
     rel_no_effect_ok H r \<and>
     rn_operation_id r = ri_operation_id i \<and>
     rn_intent_digest r = ri_intent_digest i \<and>
     rn_release_attempt r = ri_release_attempt i \<and>
     rn_provider r = ri_provider i \<and>
     rn_writer_id r = ri_writer_id i \<and>
     rn_acquisition_operation_id r = ri_acquisition_operation_id i \<and>
     rn_acquisition_receipt_id r = ri_acquisition_receipt_id i \<and>
     rn_acquisition_receipt_digest r = ri_acquisition_receipt_digest i \<and>
     rn_token_digest r = ri_token_digest i \<and>
     rn_scope_digest r = ri_scope_digest i \<and>
     rn_epoch r = ri_epoch i \<and>
     same_revision (rn_expected_inventory_revision r) (ri_expected_inventory_revision i) \<and>
     ri_requested_at i \<le> rn_acknowledged_at r \<and>
     rn_acknowledged_at r \<le> rn_durable_at r"

definition seal_rel_no_effect :: "(string \<Rightarrow> string) \<Rightarrow> rel_no_effect \<Rightarrow> rel_no_effect" where
  "seal_rel_no_effect H values =
     (let (receipt_id, receipt_digest) = receipt_identity H ''fence-release-no-effect'' (rel_no_effect_data values)
      in values\<lparr>rn_receipt_id := receipt_id, rn_receipt_digest := receipt_digest\<rparr>)"

definition rel_no_effect_create ::
  "(string \<Rightarrow> string) \<Rightarrow> rel_intent \<Rightarrow> time \<Rightarrow> time \<Rightarrow> txn_error + rel_no_effect" where
  "rel_no_effect_create H i acknowledged_at durable_at =
   (let values = \<lparr>rn_operation_id = ri_operation_id i, rn_intent_digest = ri_intent_digest i,
          rn_receipt_id = [], rn_release_attempt = ri_release_attempt i,
          rn_provider = ri_provider i, rn_writer_id = ri_writer_id i,
          rn_acquisition_operation_id = ri_acquisition_operation_id i,
          rn_acquisition_receipt_id = ri_acquisition_receipt_id i,
          rn_acquisition_receipt_digest = ri_acquisition_receipt_digest i,
          rn_token_digest = ri_token_digest i, rn_scope_digest = ri_scope_digest i,
          rn_epoch = ri_epoch i,
          rn_expected_inventory_revision = ri_expected_inventory_revision i,
          rn_outcome = NO_EFFECT, rn_evidence = OPERATION_LEDGER,
          rn_acknowledged_at = acknowledged_at, rn_durable_at = durable_at,
          rn_durable = True, rn_receipt_digest = []\<rparr>;
        r = seal_rel_no_effect H values
    in checked (rel_no_effect_valid_for H r i) r)"

section \<open>Release records\<close>

text \<open>The union \<open>FenceReleaseReceipt | FenceReleaseNoEffectReceipt\<close>.\<close>

datatype rel_evidence = RelApplied rel_receipt | RelNoEffect rel_no_effect

fun rel_evidence_ok :: "(string \<Rightarrow> string) \<Rightarrow> rel_evidence \<Rightarrow> bool" where
  "rel_evidence_ok H (RelApplied r) = rel_receipt_ok H r"
| "rel_evidence_ok H (RelNoEffect r) = rel_no_effect_ok H r"

fun rel_evidence_valid_for :: "(string \<Rightarrow> string) \<Rightarrow> rel_evidence \<Rightarrow> rel_intent \<Rightarrow> bool" where
  "rel_evidence_valid_for H (RelApplied r) i = rel_receipt_valid_for H r i"
| "rel_evidence_valid_for H (RelNoEffect r) i = rel_no_effect_valid_for H r i"

fun rel_evidence_receipt_id :: "rel_evidence \<Rightarrow> string" where
  "rel_evidence_receipt_id (RelApplied r) = rr_receipt_id r"
| "rel_evidence_receipt_id (RelNoEffect r) = rn_receipt_id r"

fun rel_evidence_operation_id :: "rel_evidence \<Rightarrow> string" where
  "rel_evidence_operation_id (RelApplied r) = rr_operation_id r"
| "rel_evidence_operation_id (RelNoEffect r) = rn_operation_id r"

record rel_record =
  rl_intent :: rel_intent
  rl_state :: lifecycle_state
  rl_receipt :: "rel_evidence option"
  rl_reason_code :: "block_reason option"
  rl_blocked_from :: "lifecycle_state option"

definition rel_record_ok :: "(string \<Rightarrow> string) \<Rightarrow> rel_record \<Rightarrow> bool" where
  "rel_record_ok H c \<longleftrightarrow>
     rel_intent_ok H (rl_intent c) \<and>
     (case rl_receipt c of None \<Rightarrow> True
      | Some e \<Rightarrow> rel_evidence_ok H e \<and> rel_evidence_valid_for H e (rl_intent c)) \<and>
     (if pre_ack (rl_state c) then
        rl_receipt c = None \<and> rl_reason_code c = None \<and> rl_blocked_from c = None
      else if rl_state c = F_ACKNOWLEDGED then
        (case rl_receipt c of Some (RelApplied r) \<Rightarrow> True | _ \<Rightarrow> False) \<and>
        rl_reason_code c = None \<and> rl_blocked_from c = None
      else if rl_state c = F_NO_EFFECT then
        (case rl_receipt c of Some (RelNoEffect r) \<Rightarrow> True | _ \<Rightarrow> False) \<and>
        rl_reason_code c = None \<and> rl_blocked_from c = None
      else rl_receipt c = None \<and> rl_reason_code c \<noteq> None \<and>
        (case rl_blocked_from c of None \<Rightarrow> False | Some st \<Rightarrow> pre_ack st))"

definition rel_recorded :: "(string \<Rightarrow> string) \<Rightarrow> rel_intent \<Rightarrow> txn_error + rel_record" where
  "rel_recorded H i =
     (let c = \<lparr>rl_intent = i, rl_state = F_INTENT_RECORDED, rl_receipt = None,
               rl_reason_code = None, rl_blocked_from = None\<rparr>
      in checked (rel_record_ok H c) c)"

definition rel_arm :: "(string \<Rightarrow> string) \<Rightarrow> rel_record \<Rightarrow> txn_error + rel_record" where
  "rel_arm H c =
     (if rl_state c \<noteq> F_INTENT_RECORDED then Inl TransitionError
      else let c' = c\<lparr>rl_state := F_DISPATCH_ARMED\<rparr> in checked (rel_record_ok H c') c')"

definition rel_acknowledge ::
  "(string \<Rightarrow> string) \<Rightarrow> rel_record \<Rightarrow> rel_evidence \<Rightarrow> txn_error + rel_record" where
  "rel_acknowledge H c e =
     (if rl_state c \<noteq> F_DISPATCH_ARMED then Inl TransitionError
      else let st = (case e of RelApplied r \<Rightarrow> F_ACKNOWLEDGED | RelNoEffect r \<Rightarrow> F_NO_EFFECT);
               c' = c\<lparr>rl_state := st, rl_receipt := Some e\<rparr>
           in checked (rel_record_ok H c') c')"

definition rel_block ::
  "(string \<Rightarrow> string) \<Rightarrow> rel_record \<Rightarrow> block_reason \<Rightarrow> txn_error + rel_record" where
  "rel_block H c reason =
     (if \<not> pre_ack (rl_state c) then Inl TransitionError
      else let c' = c\<lparr>rl_state := F_BLOCKED, rl_reason_code := Some reason,
                      rl_blocked_from := Some (rl_state c)\<rparr>
           in checked (rel_record_ok H c') c')"

section \<open>Sealed values are exactly the valid ones\<close>

text \<open>
  With a hash that yields hexadecimal digits, the identity \<open>create\<close> computes always passes the
  canonical-identity tests, so an instance is valid iff its scalar fields are.
\<close>

lemma seal_acq_intent_simps [simp]:
  "ai_plan_id (seal_acq_intent H v) = ai_plan_id v"
  "ai_plan_digest (seal_acq_intent H v) = ai_plan_digest v"
  "ai_manifest_digest (seal_acq_intent H v) = ai_manifest_digest v"
  "ai_attempt (seal_acq_intent H v) = ai_attempt v"
  "ai_provider (seal_acq_intent H v) = ai_provider v"
  "ai_writer_id (seal_acq_intent H v) = ai_writer_id v"
  "ai_expected_inventory_revision (seal_acq_intent H v) = ai_expected_inventory_revision v"
  "ai_scope_digest (seal_acq_intent H v) = ai_scope_digest v"
  "ai_epoch (seal_acq_intent H v) = ai_epoch v"
  "ai_requested_at (seal_acq_intent H v) = ai_requested_at v"
  "ai_expires_at (seal_acq_intent H v) = ai_expires_at v"
  "acq_intent_data (seal_acq_intent H v) = acq_intent_data v"
  "ai_operation_id (seal_acq_intent H v) =
     ''tf-fence-acquire-'' @ take 24 (digest_json H (acq_intent_data v))"
  "ai_intent_digest (seal_acq_intent H v) = digest_json H (acq_intent_data v)"
  by (simp_all add: seal_acq_intent_def acq_intent_data_def Let_def)

lemma seal_rel_intent_simps [simp]:
  "ri_plan_id (seal_rel_intent H v) = ri_plan_id v"
  "ri_plan_digest (seal_rel_intent H v) = ri_plan_digest v"
  "ri_manifest_digest (seal_rel_intent H v) = ri_manifest_digest v"
  "ri_attempt (seal_rel_intent H v) = ri_attempt v"
  "ri_release_attempt (seal_rel_intent H v) = ri_release_attempt v"
  "ri_provider (seal_rel_intent H v) = ri_provider v"
  "ri_writer_id (seal_rel_intent H v) = ri_writer_id v"
  "ri_acquisition_operation_id (seal_rel_intent H v) = ri_acquisition_operation_id v"
  "ri_acquisition_receipt_id (seal_rel_intent H v) = ri_acquisition_receipt_id v"
  "ri_acquisition_receipt_digest (seal_rel_intent H v) = ri_acquisition_receipt_digest v"
  "ri_token_digest (seal_rel_intent H v) = ri_token_digest v"
  "ri_scope_digest (seal_rel_intent H v) = ri_scope_digest v"
  "ri_epoch (seal_rel_intent H v) = ri_epoch v"
  "ri_expected_inventory_revision (seal_rel_intent H v) = ri_expected_inventory_revision v"
  "ri_requested_at (seal_rel_intent H v) = ri_requested_at v"
  "rel_intent_data (seal_rel_intent H v) = rel_intent_data v"
  "ri_operation_id (seal_rel_intent H v) =
     ''tf-fence-release-'' @ take 24 (digest_json H (rel_intent_data v))"
  "ri_intent_digest (seal_rel_intent H v) = digest_json H (rel_intent_data v)"
  by (simp_all add: seal_rel_intent_def rel_intent_data_def Let_def)

lemma seal_acq_receipt_eq:
  "seal_acq_receipt H v = v
     \<lparr>ar_receipt_id := fst (receipt_identity H ''fence-acquisition'' (acq_receipt_data v)),
      ar_receipt_digest := snd (receipt_identity H ''fence-acquisition'' (acq_receipt_data v))\<rparr>"
  "acq_receipt_data (seal_acq_receipt H v) = acq_receipt_data v"
  by (simp_all add: seal_acq_receipt_def acq_receipt_data_def split: prod.splits)

lemma seal_acq_no_effect_eq:
  "seal_acq_no_effect H v = v
     \<lparr>an_receipt_id := fst (receipt_identity H ''fence-acquisition-no-effect'' (acq_no_effect_data v)),
      an_receipt_digest := snd (receipt_identity H ''fence-acquisition-no-effect'' (acq_no_effect_data v))\<rparr>"
  "acq_no_effect_data (seal_acq_no_effect H v) = acq_no_effect_data v"
  by (simp_all add: seal_acq_no_effect_def acq_no_effect_data_def split: prod.splits)

lemma seal_rel_receipt_eq:
  "seal_rel_receipt H v = v
     \<lparr>rr_receipt_id := fst (receipt_identity H ''fence-release'' (rel_receipt_data v)),
      rr_receipt_digest := snd (receipt_identity H ''fence-release'' (rel_receipt_data v))\<rparr>"
  "rel_receipt_data (seal_rel_receipt H v) = rel_receipt_data v"
  by (simp_all add: seal_rel_receipt_def rel_receipt_data_def split: prod.splits)

lemma seal_rel_no_effect_eq:
  "seal_rel_no_effect H v = v
     \<lparr>rn_receipt_id := fst (receipt_identity H ''fence-release-no-effect'' (rel_no_effect_data v)),
      rn_receipt_digest := snd (receipt_identity H ''fence-release-no-effect'' (rel_no_effect_data v))\<rparr>"
  "rel_no_effect_data (seal_rel_no_effect H v) = rel_no_effect_data v"
  by (simp_all add: seal_rel_no_effect_def rel_no_effect_data_def split: prod.splits)

lemma seal_acq_receipt_simps [simp]:
  "ar_operation_id (seal_acq_receipt H v) = ar_operation_id v"
  "ar_intent_digest (seal_acq_receipt H v) = ar_intent_digest v"
  "ar_provider (seal_acq_receipt H v) = ar_provider v"
  "ar_writer_id (seal_acq_receipt H v) = ar_writer_id v"
  "ar_expected_inventory_revision (seal_acq_receipt H v) = ar_expected_inventory_revision v"
  "ar_acquired_inventory_revision (seal_acq_receipt H v) = ar_acquired_inventory_revision v"
  "ar_fence_revision (seal_acq_receipt H v) = ar_fence_revision v"
  "ar_scope_digest (seal_acq_receipt H v) = ar_scope_digest v"
  "ar_epoch (seal_acq_receipt H v) = ar_epoch v"
  "ar_token_digest (seal_acq_receipt H v) = ar_token_digest v"
  "ar_acquired_at (seal_acq_receipt H v) = ar_acquired_at v"
  "ar_expires_at (seal_acq_receipt H v) = ar_expires_at v"
  "ar_acknowledged_at (seal_acq_receipt H v) = ar_acknowledged_at v"
  "ar_durable_at (seal_acq_receipt H v) = ar_durable_at v"
  by (simp_all add: seal_acq_receipt_eq)

lemma seal_acq_no_effect_simps [simp]:
  "an_operation_id (seal_acq_no_effect H v) = an_operation_id v"
  "an_intent_digest (seal_acq_no_effect H v) = an_intent_digest v"
  "an_provider (seal_acq_no_effect H v) = an_provider v"
  "an_writer_id (seal_acq_no_effect H v) = an_writer_id v"
  "an_expected_inventory_revision (seal_acq_no_effect H v) = an_expected_inventory_revision v"
  "an_scope_digest (seal_acq_no_effect H v) = an_scope_digest v"
  "an_epoch (seal_acq_no_effect H v) = an_epoch v"
  "an_outcome (seal_acq_no_effect H v) = an_outcome v"
  "an_evidence (seal_acq_no_effect H v) = an_evidence v"
  "an_acknowledged_at (seal_acq_no_effect H v) = an_acknowledged_at v"
  "an_durable_at (seal_acq_no_effect H v) = an_durable_at v"
  "an_durable (seal_acq_no_effect H v) = an_durable v"
  by (simp_all add: seal_acq_no_effect_eq)

lemma seal_rel_receipt_simps [simp]:
  "rr_operation_id (seal_rel_receipt H v) = rr_operation_id v"
  "rr_intent_digest (seal_rel_receipt H v) = rr_intent_digest v"
  "rr_release_attempt (seal_rel_receipt H v) = rr_release_attempt v"
  "rr_provider (seal_rel_receipt H v) = rr_provider v"
  "rr_writer_id (seal_rel_receipt H v) = rr_writer_id v"
  "rr_acquisition_operation_id (seal_rel_receipt H v) = rr_acquisition_operation_id v"
  "rr_acquisition_receipt_id (seal_rel_receipt H v) = rr_acquisition_receipt_id v"
  "rr_acquisition_receipt_digest (seal_rel_receipt H v) = rr_acquisition_receipt_digest v"
  "rr_token_digest (seal_rel_receipt H v) = rr_token_digest v"
  "rr_scope_digest (seal_rel_receipt H v) = rr_scope_digest v"
  "rr_epoch (seal_rel_receipt H v) = rr_epoch v"
  "rr_expected_inventory_revision (seal_rel_receipt H v) = rr_expected_inventory_revision v"
  "rr_final_inventory_revision (seal_rel_receipt H v) = rr_final_inventory_revision v"
  "rr_released_at (seal_rel_receipt H v) = rr_released_at v"
  "rr_acknowledged_at (seal_rel_receipt H v) = rr_acknowledged_at v"
  "rr_durable_at (seal_rel_receipt H v) = rr_durable_at v"
  by (simp_all add: seal_rel_receipt_eq)

lemma seal_rel_no_effect_simps [simp]:
  "rn_operation_id (seal_rel_no_effect H v) = rn_operation_id v"
  "rn_intent_digest (seal_rel_no_effect H v) = rn_intent_digest v"
  "rn_release_attempt (seal_rel_no_effect H v) = rn_release_attempt v"
  "rn_provider (seal_rel_no_effect H v) = rn_provider v"
  "rn_writer_id (seal_rel_no_effect H v) = rn_writer_id v"
  "rn_acquisition_operation_id (seal_rel_no_effect H v) = rn_acquisition_operation_id v"
  "rn_acquisition_receipt_id (seal_rel_no_effect H v) = rn_acquisition_receipt_id v"
  "rn_acquisition_receipt_digest (seal_rel_no_effect H v) = rn_acquisition_receipt_digest v"
  "rn_token_digest (seal_rel_no_effect H v) = rn_token_digest v"
  "rn_scope_digest (seal_rel_no_effect H v) = rn_scope_digest v"
  "rn_epoch (seal_rel_no_effect H v) = rn_epoch v"
  "rn_expected_inventory_revision (seal_rel_no_effect H v) = rn_expected_inventory_revision v"
  "rn_outcome (seal_rel_no_effect H v) = rn_outcome v"
  "rn_evidence (seal_rel_no_effect H v) = rn_evidence v"
  "rn_acknowledged_at (seal_rel_no_effect H v) = rn_acknowledged_at v"
  "rn_durable_at (seal_rel_no_effect H v) = rn_durable_at v"
  "rn_durable (seal_rel_no_effect H v) = rn_durable v"
  by (simp_all add: seal_rel_no_effect_eq)

lemma acq_receipt_binding_ok:
  "acq_receipt_ok H r \<Longrightarrow> fence_binding_ok (acq_receipt_binding r)"
  by (simp add: acq_receipt_ok_def fence_binding_ok_def acq_receipt_binding_def)

context hex_digest
begin

lemma seal_acq_intent_ok:
  "acq_intent_ok H (seal_acq_intent H v) \<longleftrightarrow>
     plan_binding_ok H (ai_plan_id v) (ai_plan_digest v) \<and> digest_ok (ai_manifest_digest v) \<and>
     positive_ok (ai_attempt v) \<and> provider_ok (ai_provider v) \<and> string_ok (ai_writer_id v) \<and>
     revision_ok (ai_expected_inventory_revision v) \<and> digest_ok (ai_scope_digest v) \<and>
     nonnegative_ok (ai_epoch v) \<and> ai_requested_at v < ai_expires_at v"
  by (auto simp: acq_intent_ok_def acquire_id_ok_def hex_suffixed_def starts_with_def)

lemma seal_rel_intent_ok:
  "rel_intent_ok H (seal_rel_intent H v) \<longleftrightarrow>
     plan_binding_ok H (ri_plan_id v) (ri_plan_digest v) \<and> digest_ok (ri_manifest_digest v) \<and>
     positive_ok (ri_attempt v) \<and> positive_ok (ri_release_attempt v) \<and> provider_ok (ri_provider v) \<and>
     string_ok (ri_writer_id v) \<and> acquire_id_ok (ri_acquisition_operation_id v) \<and>
     receipt_id_ok (ri_acquisition_receipt_id v) \<and> digest_ok (ri_acquisition_receipt_digest v) \<and>
     token_ok (ri_token_digest v) \<and> digest_ok (ri_scope_digest v) \<and> nonnegative_ok (ri_epoch v) \<and>
     revision_ok (ri_expected_inventory_revision v)"
  by (auto simp: rel_intent_ok_def release_id_ok_def hex_suffixed_def starts_with_def)

lemma seal_acq_receipt_ok:
  "acq_receipt_ok H (seal_acq_receipt H v) \<longleftrightarrow>
     acquire_id_ok (ar_operation_id v) \<and> digest_ok (ar_intent_digest v) \<and>
     provider_ok (ar_provider v) \<and> string_ok (ar_writer_id v) \<and>
     revision_ok (ar_expected_inventory_revision v) \<and> revision_ok (ar_fence_revision v) \<and>
     ar_acquired_inventory_revision v = ar_expected_inventory_revision v \<and>
     digest_ok (ar_scope_digest v) \<and> nonnegative_ok (ar_epoch v) \<and> token_ok (ar_token_digest v) \<and>
     ar_acquired_at v \<le> ar_acknowledged_at v \<and> ar_acknowledged_at v < ar_expires_at v \<and>
     ar_acknowledged_at v \<le> ar_durable_at v"
  unfolding acq_receipt_ok_def seal_acq_receipt_eq(2)
  by (auto simp: seal_acq_receipt_eq(1) receipt_identity_shape)

lemma seal_acq_no_effect_ok:
  "acq_no_effect_ok H (seal_acq_no_effect H v) \<longleftrightarrow>
     acquire_id_ok (an_operation_id v) \<and> digest_ok (an_intent_digest v) \<and>
     provider_ok (an_provider v) \<and> string_ok (an_writer_id v) \<and>
     revision_ok (an_expected_inventory_revision v) \<and> digest_ok (an_scope_digest v) \<and>
     nonnegative_ok (an_epoch v) \<and> an_outcome v = NO_EFFECT \<and> an_evidence v = OPERATION_LEDGER \<and>
     an_durable v \<and> an_acknowledged_at v \<le> an_durable_at v"
  unfolding acq_no_effect_ok_def seal_acq_no_effect_eq(2)
  by (auto simp: seal_acq_no_effect_eq(1) receipt_identity_shape)

lemma seal_rel_receipt_ok:
  "rel_receipt_ok H (seal_rel_receipt H v) \<longleftrightarrow>
     release_id_ok (rr_operation_id v) \<and> digest_ok (rr_intent_digest v) \<and>
     positive_ok (rr_release_attempt v) \<and> provider_ok (rr_provider v) \<and> string_ok (rr_writer_id v) \<and>
     acquire_id_ok (rr_acquisition_operation_id v) \<and> receipt_id_ok (rr_acquisition_receipt_id v) \<and>
     digest_ok (rr_acquisition_receipt_digest v) \<and> token_ok (rr_token_digest v) \<and>
     digest_ok (rr_scope_digest v) \<and> nonnegative_ok (rr_epoch v) \<and>
     revision_ok (rr_expected_inventory_revision v) \<and>
     rr_final_inventory_revision v = rr_expected_inventory_revision v \<and>
     rr_released_at v \<le> rr_acknowledged_at v \<and> rr_acknowledged_at v \<le> rr_durable_at v"
  unfolding rel_receipt_ok_def seal_rel_receipt_eq(2)
  by (auto simp: seal_rel_receipt_eq(1) receipt_identity_shape)

lemma seal_rel_no_effect_ok:
  "rel_no_effect_ok H (seal_rel_no_effect H v) \<longleftrightarrow>
     release_id_ok (rn_operation_id v) \<and> digest_ok (rn_intent_digest v) \<and>
     positive_ok (rn_release_attempt v) \<and> provider_ok (rn_provider v) \<and> string_ok (rn_writer_id v) \<and>
     acquire_id_ok (rn_acquisition_operation_id v) \<and> receipt_id_ok (rn_acquisition_receipt_id v) \<and>
     digest_ok (rn_acquisition_receipt_digest v) \<and> token_ok (rn_token_digest v) \<and>
     digest_ok (rn_scope_digest v) \<and> nonnegative_ok (rn_epoch v) \<and>
     revision_ok (rn_expected_inventory_revision v) \<and>
     rn_outcome v = NO_EFFECT \<and> rn_evidence v = OPERATION_LEDGER \<and> rn_durable v \<and>
     rn_acknowledged_at v \<le> rn_durable_at v"
  unfolding rel_no_effect_ok_def seal_rel_no_effect_eq(2)
  by (auto simp: seal_rel_no_effect_eq(1) receipt_identity_shape)

text \<open>A host acknowledgement of a valid intent yields a receipt exactly when it is inside the lease.\<close>

lemma acq_receipt_create_iff:
  assumes "acq_intent_ok H i"
  shows "(\<exists>r. acq_receipt_create H i revision frev token acquired acked durable = Inr r) \<longleftrightarrow>
     revision = ai_expected_inventory_revision i \<and> revision_ok frev \<and> token_ok token \<and>
     ai_requested_at i \<le> acquired \<and> acquired \<le> acked \<and> acked < ai_expires_at i \<and> acked \<le> durable"
proof -
  have "acq_intent_ok H i \<longleftrightarrow> acquire_id_ok (ai_operation_id i) \<and> digest_ok (ai_intent_digest i) \<and>
      provider_ok (ai_provider i) \<and> string_ok (ai_writer_id i) \<and> nonnegative_ok (ai_epoch i) \<and>
      revision_ok (ai_expected_inventory_revision i) \<and> digest_ok (ai_scope_digest i) \<and> acq_intent_ok H i"
    by (auto simp: acq_intent_ok_def)
  with assms show ?thesis
    by (auto simp: acq_receipt_create_def Let_def acq_receipt_valid_for_def seal_acq_receipt_ok)
qed

end

end
