(* ===== verification/Txn_Object.thy ===== *)
theory Txn_Object
  imports Txn_Fence
begin

text \<open>
  The object operations of \<open>reference_transaction.py\<close>: intents bound to an acquired fence,
  receipts, observations, dispatch authorizations, read-back verifications, and the operation
  record with its transition matrix.
\<close>

section \<open>Operation intents\<close>

record obj_intent =
  oi_operation_id :: string
  oi_intent_digest :: string
  oi_plan_id :: string
  oi_plan_digest :: string
  oi_manifest_digest :: string
  oi_attempt :: int
  oi_sequence :: int
  oi_kind :: operation_kind
  oi_provider :: string
  oi_object_key :: string
  oi_expected_revision :: revision
  oi_pre_fingerprint :: string
  oi_post_fingerprint :: string
  oi_fence :: fence_binding
  oi_parent_operation_id :: "string option"

definition json_option :: "string option \<Rightarrow> json" where
  "json_option o' = (case o' of None \<Rightarrow> JNull | Some s \<Rightarrow> JStr s)"

definition obj_intent_data :: "obj_intent \<Rightarrow> json" where
  "obj_intent_data i = JObj
    [(''schema'', JInt 1),
     (''plan_id'', JStr (oi_plan_id i)),
     (''plan_digest'', JStr (oi_plan_digest i)),
     (''manifest_digest'', JStr (oi_manifest_digest i)),
     (''attempt'', JInt (oi_attempt i)),
     (''sequence'', JInt (oi_sequence i)),
     (''kind'', JStr (kind_text (oi_kind i))),
     (''provider'', JStr (oi_provider i)),
     (''object_key'', JStr (oi_object_key i)),
     (''expected_revision'', encode_revision (oi_expected_revision i)),
     (''pre_fingerprint'', JStr (oi_pre_fingerprint i)),
     (''post_fingerprint'', JStr (oi_post_fingerprint i)),
     (''fence'', fence_data (oi_fence i)),
     (''parent_operation_id'', json_option (oi_parent_operation_id i))]"

definition obj_intent_fields_ok :: "(string \<Rightarrow> string) \<Rightarrow> obj_intent \<Rightarrow> bool" where
  "obj_intent_fields_ok H i \<longleftrightarrow>
     plan_binding_ok H (oi_plan_id i) (oi_plan_digest i) \<and>
     digest_ok (oi_manifest_digest i) \<and>
     positive_ok (oi_attempt i) \<and>
     positive_ok (oi_sequence i) \<and>
     provider_ok (oi_provider i) \<and>
     string_ok (oi_object_key i) \<and>
     revision_ok (oi_expected_revision i) \<and>
     digest_ok (oi_pre_fingerprint i) \<and>
     digest_ok (oi_post_fingerprint i) \<and>
     oi_pre_fingerprint i \<noteq> oi_post_fingerprint i \<and>
     fence_binding_ok (oi_fence i) \<and>
     fb_provider (oi_fence i) = oi_provider i \<and>
     (case oi_kind i of
        WRITE \<Rightarrow> oi_parent_operation_id i = None
      | ROLLBACK \<Rightarrow> (case oi_parent_operation_id i of None \<Rightarrow> False | Some p \<Rightarrow> object_id_ok p))"

definition obj_intent_ok :: "(string \<Rightarrow> string) \<Rightarrow> obj_intent \<Rightarrow> bool" where
  "obj_intent_ok H i \<longleftrightarrow>
     object_id_ok (oi_operation_id i) \<and>
     digest_ok (oi_intent_digest i) \<and>
     obj_intent_fields_ok H i \<and>
     oi_intent_digest i = digest_json H (obj_intent_data i) \<and>
     oi_operation_id i = ''tf-bridge-'' @ take 24 (digest_json H (obj_intent_data i))"

text \<open>The identity a obj intent gets from its content, the way \<open>create\<close> computes it.\<close>

definition seal_obj_intent :: "(string \<Rightarrow> string) \<Rightarrow> obj_intent \<Rightarrow> obj_intent" where
  "seal_obj_intent H values =
     (let digest = digest_json H (obj_intent_data values)
      in values\<lparr>oi_operation_id := ''tf-bridge-'' @ take 24 digest, oi_intent_digest := digest\<rparr>)"

definition obj_intent_create ::
  "(string \<Rightarrow> string) \<Rightarrow> string \<Rightarrow> string \<Rightarrow> string \<Rightarrow> int \<Rightarrow> int \<Rightarrow> operation_kind \<Rightarrow> string \<Rightarrow> string \<Rightarrow>
   revision \<Rightarrow> string \<Rightarrow> string \<Rightarrow> fence_binding \<Rightarrow> string option \<Rightarrow> txn_error + obj_intent" where
  "obj_intent_create H plan_id plan_digest manifest_digest attempt sequence kind provider
     object_key expected_revision pre_fingerprint post_fingerprint fence parent_operation_id =
   (let values = \<lparr>oi_operation_id = [], oi_intent_digest = [], oi_plan_id = plan_id,
          oi_plan_digest = plan_digest, oi_manifest_digest = manifest_digest,
          oi_attempt = attempt, oi_sequence = sequence, oi_kind = kind, oi_provider = provider,
          oi_object_key = object_key, oi_expected_revision = expected_revision,
          oi_pre_fingerprint = pre_fingerprint, oi_post_fingerprint = post_fingerprint,
          oi_fence = fence, oi_parent_operation_id = parent_operation_id\<rparr>;
        i = seal_obj_intent H values
    in checked (obj_intent_ok H i) i)"

section \<open>Observations and dispatch authorizations\<close>

record observation =
  ob_provider :: string
  ob_object_key :: string
  ob_revision :: revision
  ob_fingerprint :: string
  ob_observed_at :: time

definition observation_ok :: "observation \<Rightarrow> bool" where
  "observation_ok v \<longleftrightarrow>
     provider_ok (ob_provider v) \<and>
     string_ok (ob_object_key v) \<and>
     revision_ok (ob_revision v) \<and>
     digest_ok (ob_fingerprint v)"

record authorization =
  da_operation_id :: string
  da_intent_digest :: string
  da_provider :: string
  da_object_key :: string
  da_fence_acquisition_operation_id :: string
  da_fence_acquisition_receipt_id :: string
  da_fence_acquisition_receipt_digest :: string
  da_revision :: revision
  da_fingerprint :: string
  da_observed_at :: time
  da_authorized_at :: time
  da_authorization_digest :: string

definition authorization_data :: "authorization \<Rightarrow> json" where
  "authorization_data a = JObj
    [(''schema'', JInt 1),
     (''operation_id'', JStr (da_operation_id a)),
     (''intent_digest'', JStr (da_intent_digest a)),
     (''provider'', JStr (da_provider a)),
     (''object_key'', JStr (da_object_key a)),
     (''fence_acquisition_operation_id'', JStr (da_fence_acquisition_operation_id a)),
     (''fence_acquisition_receipt_id'', JStr (da_fence_acquisition_receipt_id a)),
     (''fence_acquisition_receipt_digest'', JStr (da_fence_acquisition_receipt_digest a)),
     (''revision'', encode_revision (da_revision a)),
     (''fingerprint'', JStr (da_fingerprint a)),
     (''observed_at'', JStr (encode_timestamp (da_observed_at a))),
     (''authorized_at'', JStr (encode_timestamp (da_authorized_at a)))]"

definition authorization_ok :: "(string \<Rightarrow> string) \<Rightarrow> authorization \<Rightarrow> bool" where
  "authorization_ok H a \<longleftrightarrow>
     object_id_ok (da_operation_id a) \<and>
     digest_ok (da_intent_digest a) \<and>
     provider_ok (da_provider a) \<and>
     string_ok (da_object_key a) \<and>
     acquire_id_ok (da_fence_acquisition_operation_id a) \<and>
     receipt_id_ok (da_fence_acquisition_receipt_id a) \<and>
     digest_ok (da_fence_acquisition_receipt_digest a) \<and>
     revision_ok (da_revision a) \<and>
     digest_ok (da_fingerprint a) \<and>
     da_observed_at a \<le> da_authorized_at a \<and>
     digest_ok (da_authorization_digest a) \<and>
     da_authorization_digest a = digest_json H (authorization_data a)"

definition authorization_valid_for :: "(string \<Rightarrow> string) \<Rightarrow> authorization \<Rightarrow> obj_intent \<Rightarrow> bool" where
  "authorization_valid_for H a i \<longleftrightarrow>
     obj_intent_ok H i \<and>
     authorization_ok H a \<and>
     da_operation_id a = oi_operation_id i \<and>
     da_intent_digest a = oi_intent_digest i \<and>
     da_provider a = oi_provider i \<and>
     da_object_key a = oi_object_key i \<and>
     da_fence_acquisition_operation_id a = fb_acquisition_operation_id (oi_fence i) \<and>
     da_fence_acquisition_receipt_id a = fb_acquisition_receipt_id (oi_fence i) \<and>
     da_fence_acquisition_receipt_digest a = fb_acquisition_receipt_digest (oi_fence i) \<and>
     same_revision (da_revision a) (oi_expected_revision i) \<and>
     da_fingerprint a = oi_pre_fingerprint i \<and>
     fb_acquisition_durable_at (oi_fence i) \<le> da_observed_at a \<and>
     da_observed_at a \<le> da_authorized_at a \<and>
     da_authorized_at a < fb_expires_at (oi_fence i)"

definition seal_authorization :: "(string \<Rightarrow> string) \<Rightarrow> authorization \<Rightarrow> authorization" where
  "seal_authorization H values =
     values\<lparr>da_authorization_digest := digest_json H (authorization_data values)\<rparr>"

definition authorization_create ::
  "(string \<Rightarrow> string) \<Rightarrow> obj_intent \<Rightarrow> observation \<Rightarrow> time \<Rightarrow> txn_error + authorization" where
  "authorization_create H i v authorized_at =
   (if \<not> (obj_intent_ok H i \<and> observation_ok v) then Inl ValueError
    else let values = \<lparr>da_operation_id = oi_operation_id i, da_intent_digest = oi_intent_digest i,
          da_provider = oi_provider i, da_object_key = oi_object_key i,
          da_fence_acquisition_operation_id = fb_acquisition_operation_id (oi_fence i),
          da_fence_acquisition_receipt_id = fb_acquisition_receipt_id (oi_fence i),
          da_fence_acquisition_receipt_digest = fb_acquisition_receipt_digest (oi_fence i),
          da_revision = ob_revision v, da_fingerprint = ob_fingerprint v,
          da_observed_at = ob_observed_at v, da_authorized_at = authorized_at,
          da_authorization_digest = []\<rparr>;
        a = seal_authorization H values
    in checked (authorization_valid_for H a i) a)"

section \<open>Operation receipts\<close>

record obj_receipt =
  oc_operation_id :: string
  oc_intent_digest :: string
  oc_receipt_id :: string
  oc_kind :: operation_kind
  oc_provider :: string
  oc_object_key :: string
  oc_fence_token_digest :: fence_token
  oc_fence_epoch :: int
  oc_fence_scope_digest :: string
  oc_fence_writer_id :: string
  oc_fence_acquisition_operation_id :: string
  oc_fence_acquisition_receipt_id :: string
  oc_fence_acquisition_receipt_digest :: string
  oc_authorization_digest :: string
  oc_authorization_observed_at :: time
  oc_authorized_at :: time
  oc_previous_revision :: revision
  oc_result_revision :: revision
  oc_pre_fingerprint :: string
  oc_post_fingerprint :: string
  oc_outcome :: receipt_outcome
  oc_evidence :: receipt_evidence
  oc_effect_at :: "time option"
  oc_acknowledged_at :: time
  oc_durable_at :: time
  oc_durable :: bool
  oc_receipt_digest :: string

definition obj_receipt_data :: "obj_receipt \<Rightarrow> json" where
  "obj_receipt_data r = JObj
    [(''schema'', JInt 1),
     (''operation_id'', JStr (oc_operation_id r)),
     (''intent_digest'', JStr (oc_intent_digest r)),
     (''kind'', JStr (kind_text (oc_kind r))),
     (''provider'', JStr (oc_provider r)),
     (''object_key'', JStr (oc_object_key r)),
     (''fence_token_digest'', JStr (token_value (oc_fence_token_digest r))),
     (''fence_epoch'', JInt (oc_fence_epoch r)),
     (''fence_scope_digest'', JStr (oc_fence_scope_digest r)),
     (''fence_writer_id'', JStr (oc_fence_writer_id r)),
     (''fence_acquisition_operation_id'', JStr (oc_fence_acquisition_operation_id r)),
     (''fence_acquisition_receipt_id'', JStr (oc_fence_acquisition_receipt_id r)),
     (''fence_acquisition_receipt_digest'', JStr (oc_fence_acquisition_receipt_digest r)),
     (''authorization_digest'', JStr (oc_authorization_digest r)),
     (''authorization_observed_at'', JStr (encode_timestamp (oc_authorization_observed_at r))),
     (''authorized_at'', JStr (encode_timestamp (oc_authorized_at r))),
     (''previous_revision'', encode_revision (oc_previous_revision r)),
     (''result_revision'', encode_revision (oc_result_revision r)),
     (''pre_fingerprint'', JStr (oc_pre_fingerprint r)),
     (''post_fingerprint'', JStr (oc_post_fingerprint r)),
     (''outcome'', JStr (outcome_text (oc_outcome r))),
     (''evidence'', JStr (evidence_text (oc_evidence r))),
     (''effect_at'', json_option (map_option encode_timestamp (oc_effect_at r))),
     (''acknowledged_at'', JStr (encode_timestamp (oc_acknowledged_at r))),
     (''durable_at'', JStr (encode_timestamp (oc_durable_at r))),
     (''durable'', JBool (oc_durable r))]"

text \<open>The authorization content a receipt repeats, over which its authorization digest is taken.\<close>

definition obj_receipt_authorization_data :: "obj_receipt \<Rightarrow> json" where
  "obj_receipt_authorization_data r = authorization_data
     \<lparr>da_operation_id = oc_operation_id r, da_intent_digest = oc_intent_digest r,
      da_provider = oc_provider r, da_object_key = oc_object_key r,
      da_fence_acquisition_operation_id = oc_fence_acquisition_operation_id r,
      da_fence_acquisition_receipt_id = oc_fence_acquisition_receipt_id r,
      da_fence_acquisition_receipt_digest = oc_fence_acquisition_receipt_digest r,
      da_revision = oc_previous_revision r, da_fingerprint = oc_pre_fingerprint r,
      da_observed_at = oc_authorization_observed_at r, da_authorized_at = oc_authorized_at r,
      da_authorization_digest = []\<rparr>"

definition obj_receipt_ok :: "(string \<Rightarrow> string) \<Rightarrow> obj_receipt \<Rightarrow> bool" where
  "obj_receipt_ok H r \<longleftrightarrow>
     object_id_ok (oc_operation_id r) \<and>
     digest_ok (oc_intent_digest r) \<and>
     receipt_id_ok (oc_receipt_id r) \<and>
     provider_ok (oc_provider r) \<and>
     string_ok (oc_object_key r) \<and>
     token_ok (oc_fence_token_digest r) \<and>
     nonnegative_ok (oc_fence_epoch r) \<and>
     digest_ok (oc_fence_scope_digest r) \<and>
     string_ok (oc_fence_writer_id r) \<and>
     acquire_id_ok (oc_fence_acquisition_operation_id r) \<and>
     receipt_id_ok (oc_fence_acquisition_receipt_id r) \<and>
     digest_ok (oc_fence_acquisition_receipt_digest r) \<and>
     digest_ok (oc_authorization_digest r) \<and>
     oc_authorization_observed_at r \<le> oc_authorized_at r \<and>
     revision_ok (oc_previous_revision r) \<and>
     revision_ok (oc_result_revision r) \<and>
     digest_ok (oc_pre_fingerprint r) \<and>
     digest_ok (oc_post_fingerprint r) \<and>
     oc_pre_fingerprint r \<noteq> oc_post_fingerprint r \<and>
     oc_authorization_digest r = digest_json H (obj_receipt_authorization_data r) \<and>
     oc_durable r \<and>
     oc_acknowledged_at r \<le> oc_durable_at r \<and>
     digest_ok (oc_receipt_digest r) \<and>
     (case oc_outcome r of
        APPLIED \<Rightarrow>
          oc_evidence r = DISPATCH_ACK \<and>
          (case oc_effect_at r of None \<Rightarrow> False
           | Some effect_at \<Rightarrow> max (oc_authorization_observed_at r) (oc_authorized_at r) \<le> effect_at) \<and>
          \<not> same_revision (oc_previous_revision r) (oc_result_revision r)
      | NO_EFFECT \<Rightarrow>
          oc_evidence r = OPERATION_LEDGER \<and>
          oc_effect_at r = None \<and>
          same_revision (oc_previous_revision r) (oc_result_revision r)) \<and>
     (oc_receipt_id r, oc_receipt_digest r) =
       receipt_identity H ''object-operation'' (obj_receipt_data r)"

definition result_fingerprint :: "obj_receipt \<Rightarrow> string" where
  "result_fingerprint r =
     (if oc_outcome r = APPLIED then oc_post_fingerprint r else oc_pre_fingerprint r)"

definition obj_receipt_valid_for :: "(string \<Rightarrow> string) \<Rightarrow> obj_receipt \<Rightarrow> obj_intent \<Rightarrow> bool" where
  "obj_receipt_valid_for H r i \<longleftrightarrow>
     obj_intent_ok H i \<and>
     obj_receipt_ok H r \<and>
     oc_operation_id r = oi_operation_id i \<and>
     oc_intent_digest r = oi_intent_digest i \<and>
     oc_kind r = oi_kind i \<and>
     oc_provider r = oi_provider i \<and>
     oc_object_key r = oi_object_key i \<and>
     oc_fence_token_digest r = fb_token_digest (oi_fence i) \<and>
     oc_fence_epoch r = fb_epoch (oi_fence i) \<and>
     oc_fence_scope_digest r = fb_scope_digest (oi_fence i) \<and>
     oc_fence_writer_id r = fb_writer_id (oi_fence i) \<and>
     oc_fence_acquisition_operation_id r = fb_acquisition_operation_id (oi_fence i) \<and>
     oc_fence_acquisition_receipt_id r = fb_acquisition_receipt_id (oi_fence i) \<and>
     oc_fence_acquisition_receipt_digest r = fb_acquisition_receipt_digest (oi_fence i) \<and>
     fb_acquisition_durable_at (oi_fence i) \<le> oc_authorization_observed_at r \<and>
     oc_authorization_observed_at r \<le> oc_authorized_at r \<and>
     oc_authorized_at r < fb_expires_at (oi_fence i) \<and>
     same_revision (oc_previous_revision r) (oi_expected_revision i) \<and>
     oc_pre_fingerprint r = oi_pre_fingerprint i \<and>
     oc_post_fingerprint r = oi_post_fingerprint i \<and>
     oc_acknowledged_at r \<le> oc_durable_at r \<and>
     (case oc_outcome r of
        APPLIED \<Rightarrow> (case oc_effect_at r of None \<Rightarrow> False
          | Some effect_at \<Rightarrow>
              fb_acquisition_durable_at (oi_fence i) \<le> effect_at \<and>
              oc_authorized_at r \<le> effect_at \<and>
              effect_at \<le> oc_acknowledged_at r \<and>
              oc_acknowledged_at r < fb_expires_at (oi_fence i))
      | NO_EFFECT \<Rightarrow> fb_expires_at (oi_fence i) \<le> oc_acknowledged_at r)"

definition obj_receipt_authorized_by :: "(string \<Rightarrow> string) \<Rightarrow> obj_receipt \<Rightarrow> authorization \<Rightarrow> bool" where
  "obj_receipt_authorized_by H r a \<longleftrightarrow>
     authorization_ok H a \<and>
     oc_operation_id r = da_operation_id a \<and>
     oc_intent_digest r = da_intent_digest a \<and>
     oc_provider r = da_provider a \<and>
     oc_object_key r = da_object_key a \<and>
     oc_fence_acquisition_operation_id r = da_fence_acquisition_operation_id a \<and>
     oc_fence_acquisition_receipt_id r = da_fence_acquisition_receipt_id a \<and>
     oc_fence_acquisition_receipt_digest r = da_fence_acquisition_receipt_digest a \<and>
     same_revision (oc_previous_revision r) (da_revision a) \<and>
     oc_pre_fingerprint r = da_fingerprint a \<and>
     oc_authorization_observed_at r = da_observed_at a \<and>
     oc_authorized_at r = da_authorized_at a \<and>
     oc_authorization_digest r = da_authorization_digest a"

definition seal_obj_receipt :: "(string \<Rightarrow> string) \<Rightarrow> obj_receipt \<Rightarrow> obj_receipt" where
  "seal_obj_receipt H values =
     (let (receipt_id, receipt_digest) = receipt_identity H ''object-operation'' (obj_receipt_data values)
      in values\<lparr>oc_receipt_id := receipt_id, oc_receipt_digest := receipt_digest\<rparr>)"

definition obj_receipt_create ::
  "(string \<Rightarrow> string) \<Rightarrow> obj_intent \<Rightarrow> authorization \<Rightarrow> revision \<Rightarrow> revision \<Rightarrow> receipt_outcome \<Rightarrow>
   receipt_evidence \<Rightarrow> time option \<Rightarrow> time \<Rightarrow> time \<Rightarrow> txn_error + obj_receipt" where
  "obj_receipt_create H i a previous_revision result_revision outcome evidence effect_at
     acknowledged_at durable_at =
   (if \<not> (obj_intent_ok H i \<and> authorization_ok H a \<and> authorization_valid_for H a i) then Inl ValueError
    else let values = \<lparr>oc_operation_id = oi_operation_id i, oc_intent_digest = oi_intent_digest i,
          oc_receipt_id = [], oc_kind = oi_kind i, oc_provider = oi_provider i,
          oc_object_key = oi_object_key i, oc_fence_token_digest = fb_token_digest (oi_fence i),
          oc_fence_epoch = fb_epoch (oi_fence i),
          oc_fence_scope_digest = fb_scope_digest (oi_fence i),
          oc_fence_writer_id = fb_writer_id (oi_fence i),
          oc_fence_acquisition_operation_id = fb_acquisition_operation_id (oi_fence i),
          oc_fence_acquisition_receipt_id = fb_acquisition_receipt_id (oi_fence i),
          oc_fence_acquisition_receipt_digest = fb_acquisition_receipt_digest (oi_fence i),
          oc_authorization_digest = da_authorization_digest a,
          oc_authorization_observed_at = da_observed_at a,
          oc_authorized_at = da_authorized_at a, oc_previous_revision = previous_revision,
          oc_result_revision = result_revision, oc_pre_fingerprint = oi_pre_fingerprint i,
          oc_post_fingerprint = oi_post_fingerprint i, oc_outcome = outcome,
          oc_evidence = evidence, oc_effect_at = effect_at,
          oc_acknowledged_at = acknowledged_at, oc_durable_at = durable_at,
          oc_durable = True, oc_receipt_digest = []\<rparr>;
        r = seal_obj_receipt H values
    in checked (obj_receipt_ok H r \<and> obj_receipt_valid_for H r i \<and>
                obj_receipt_authorized_by H r a) r)"

section \<open>Verifications\<close>

record verification =
  ve_operation_id :: string
  ve_intent_digest :: string
  ve_receipt_id :: string
  ve_receipt_digest :: string
  ve_provider :: string
  ve_object_key :: string
  ve_revision :: revision
  ve_fingerprint :: string
  ve_observed_at :: time
  ve_verified_at :: time

definition verification_ok :: "verification \<Rightarrow> bool" where
  "verification_ok v \<longleftrightarrow>
     object_id_ok (ve_operation_id v) \<and>
     digest_ok (ve_intent_digest v) \<and>
     receipt_id_ok (ve_receipt_id v) \<and>
     digest_ok (ve_receipt_digest v) \<and>
     provider_ok (ve_provider v) \<and>
     string_ok (ve_object_key v) \<and>
     revision_ok (ve_revision v) \<and>
     digest_ok (ve_fingerprint v) \<and>
     ve_observed_at v \<le> ve_verified_at v"

definition verification_valid_for ::
  "(string \<Rightarrow> string) \<Rightarrow> verification \<Rightarrow> obj_intent \<Rightarrow> obj_receipt \<Rightarrow> bool" where
  "verification_valid_for H v i r \<longleftrightarrow>
     obj_receipt_valid_for H r i \<and>
     verification_ok v \<and>
     ve_operation_id v = oi_operation_id i \<and>
     ve_intent_digest v = oi_intent_digest i \<and>
     ve_receipt_id v = oc_receipt_id r \<and>
     ve_receipt_digest v = oc_receipt_digest r \<and>
     ve_provider v = oi_provider i \<and>
     ve_object_key v = oi_object_key i \<and>
     same_revision (ve_revision v) (oc_result_revision r) \<and>
     ve_fingerprint v = result_fingerprint r \<and>
     oc_durable_at r \<le> ve_observed_at v"

definition verification_create ::
  "(string \<Rightarrow> string) \<Rightarrow> obj_intent \<Rightarrow> obj_receipt \<Rightarrow> observation \<Rightarrow> time \<Rightarrow> txn_error + verification" where
  "verification_create H i r v verified_at =
   (if \<not> (obj_receipt_valid_for H r i \<and> observation_ok v) then Inl ValueError
    else let x = \<lparr>ve_operation_id = oi_operation_id i, ve_intent_digest = oi_intent_digest i,
          ve_receipt_id = oc_receipt_id r, ve_receipt_digest = oc_receipt_digest r,
          ve_provider = oi_provider i, ve_object_key = oi_object_key i,
          ve_revision = ob_revision v, ve_fingerprint = ob_fingerprint v,
          ve_observed_at = ob_observed_at v, ve_verified_at = verified_at\<rparr>
    in checked (verification_valid_for H x i r) x)"

section \<open>Operation records\<close>

record op_record =
  op_intent :: obj_intent
  op_state :: operation_state
  op_authorization :: "authorization option"
  op_receipt :: "obj_receipt option"
  op_verifications :: "verification list"
  op_reason_code :: "block_reason option"
  op_blocked_from :: "operation_state option"

definition op_verification :: "op_record \<Rightarrow> verification option" where
  "op_verification p = last_option (op_verifications p)"

text \<open>Each verification was observed strictly after, and verified not before, the previous one.\<close>

definition causally_ordered :: "verification list \<Rightarrow> bool" where
  "causally_ordered = successive (\<lambda>previous v.
     ve_observed_at previous < ve_observed_at v \<and> ve_verified_at previous \<le> ve_verified_at v)"

text \<open>Which of authorization, receipt and verifications a state carries.\<close>

definition evidence_shape :: "bool \<Rightarrow> bool \<Rightarrow> bool \<Rightarrow> op_record \<Rightarrow> bool" where
  "evidence_shape a r v p \<longleftrightarrow>
     (op_authorization p \<noteq> None) = a \<and> (op_receipt p \<noteq> None) = r \<and> (op_verifications p \<noteq> []) = v"

fun state_shape :: "operation_state \<Rightarrow> op_record \<Rightarrow> bool" where
  "state_shape O_INTENT_RECORDED p = evidence_shape False False False p"
| "state_shape O_DISPATCH_ARMED p = evidence_shape True False False p"
| "state_shape O_ACKNOWLEDGED p = evidence_shape True True False p"
| "state_shape O_VERIFIED p = evidence_shape True True True p"
| "state_shape O_BLOCKED p = False"

definition op_record_ok :: "(string \<Rightarrow> string) \<Rightarrow> op_record \<Rightarrow> bool" where
  "op_record_ok H p \<longleftrightarrow>
     obj_intent_ok H (op_intent p) \<and>
     (case op_authorization p of None \<Rightarrow> True
      | Some a \<Rightarrow> authorization_ok H a \<and> authorization_valid_for H a (op_intent p)) \<and>
     (case op_receipt p of None \<Rightarrow> op_verifications p = []
      | Some r \<Rightarrow>
          obj_receipt_ok H r \<and> obj_receipt_valid_for H r (op_intent p) \<and>
          (case op_authorization p of None \<Rightarrow> False | Some a \<Rightarrow> obj_receipt_authorized_by H r a) \<and>
          list_all (\<lambda>v. verification_ok v \<and> verification_valid_for H v (op_intent p) r)
            (op_verifications p)) \<and>
     causally_ordered (op_verifications p) \<and>
     (if op_state p = O_BLOCKED then
        op_reason_code p \<noteq> None \<and>
        (case op_blocked_from p of None \<Rightarrow> False | Some st \<Rightarrow> state_shape st p)
      else op_reason_code p = None \<and> op_blocked_from p = None \<and> state_shape (op_state p) p)"

definition op_recorded :: "(string \<Rightarrow> string) \<Rightarrow> obj_intent \<Rightarrow> txn_error + op_record" where
  "op_recorded H i =
     (let p = \<lparr>op_intent = i, op_state = O_INTENT_RECORDED, op_authorization = None,
               op_receipt = None, op_verifications = [], op_reason_code = None,
               op_blocked_from = None\<rparr>
      in checked (op_record_ok H p) p)"

text \<open>\<open>_OBJECT_TRANSITIONS\<close>.\<close>

fun object_transitions :: "operation_state \<Rightarrow> operation_state list" where
  "object_transitions O_INTENT_RECORDED = [O_DISPATCH_ARMED, O_BLOCKED]"
| "object_transitions O_DISPATCH_ARMED = [O_ACKNOWLEDGED, O_BLOCKED]"
| "object_transitions O_ACKNOWLEDGED = [O_VERIFIED, O_BLOCKED]"
| "object_transitions O_VERIFIED = [O_BLOCKED]"
| "object_transitions O_BLOCKED = []"

definition op_transition ::
  "(string \<Rightarrow> string) \<Rightarrow> op_record \<Rightarrow> operation_state \<Rightarrow> authorization option \<Rightarrow> obj_receipt option \<Rightarrow>
   verification option \<Rightarrow> block_reason option \<Rightarrow> txn_error + op_record" where
  "op_transition H p state authorization receipt verification reason_code =
     (if state \<notin> set (object_transitions (op_state p)) then Inl TransitionError
      else case state of
        O_DISPATCH_ARMED \<Rightarrow>
          if authorization = None \<or> receipt \<noteq> None \<or> verification \<noteq> None \<or> reason_code \<noteq> None
          then Inl TransitionError
          else let p' = p\<lparr>op_state := state, op_authorization := authorization\<rparr>
               in checked (op_record_ok H p') p'
      | O_ACKNOWLEDGED \<Rightarrow>
          if authorization \<noteq> None \<or> receipt = None \<or> verification \<noteq> None \<or> reason_code \<noteq> None
          then Inl TransitionError
          else let p' = p\<lparr>op_state := state, op_receipt := receipt\<rparr>
               in checked (op_record_ok H p') p'
      | O_VERIFIED \<Rightarrow>
          (if authorization \<noteq> None \<or> receipt \<noteq> None \<or> reason_code \<noteq> None then Inl TransitionError
           else case verification of None \<Rightarrow> Inl TransitionError
           | Some v \<Rightarrow> let p' = p\<lparr>op_state := state, op_verifications := [v]\<rparr>
               in checked (op_record_ok H p') p')
      | _ \<Rightarrow>
          if reason_code = None \<or> authorization \<noteq> None \<or> receipt \<noteq> None \<or> verification \<noteq> None
          then Inl TransitionError
          else let p' = p\<lparr>op_state := state, op_reason_code := reason_code,
                          op_blocked_from := Some (op_state p)\<rparr>
               in checked (op_record_ok H p') p')"

definition op_arm :: "(string \<Rightarrow> string) \<Rightarrow> op_record \<Rightarrow> authorization \<Rightarrow> txn_error + op_record" where
  "op_arm H p a = op_transition H p O_DISPATCH_ARMED (Some a) None None None"

definition op_acknowledge :: "(string \<Rightarrow> string) \<Rightarrow> op_record \<Rightarrow> obj_receipt \<Rightarrow> txn_error + op_record" where
  "op_acknowledge H p r = op_transition H p O_ACKNOWLEDGED None (Some r) None None"

definition op_verify :: "(string \<Rightarrow> string) \<Rightarrow> op_record \<Rightarrow> verification \<Rightarrow> txn_error + op_record" where
  "op_verify H p v = op_transition H p O_VERIFIED None None (Some v) None"

definition op_block :: "(string \<Rightarrow> string) \<Rightarrow> op_record \<Rightarrow> block_reason \<Rightarrow> txn_error + op_record" where
  "op_block H p reason = op_transition H p O_BLOCKED None None None (Some reason)"

definition op_refresh_verification ::
  "(string \<Rightarrow> string) \<Rightarrow> op_record \<Rightarrow> verification \<Rightarrow> txn_error + op_record" where
  "op_refresh_verification H p v =
     (if op_state p \<noteq> O_VERIFIED then Inl TransitionError
      else case op_verification p of None \<Rightarrow> Inl TransitionError
      | Some latest \<Rightarrow>
          if ve_observed_at v \<le> ve_observed_at latest \<or> ve_verified_at v < ve_verified_at latest
          then Inl TransitionError
          else let p' = p\<lparr>op_verifications := op_verifications p @ [v]\<rparr>
               in checked (op_record_ok H p') p')"

section \<open>Observation predicates\<close>

definition observation_identity_matches :: "observation \<Rightarrow> obj_intent \<Rightarrow> bool" where
  "observation_identity_matches v i \<longleftrightarrow>
     ob_provider v = oi_provider i \<and> ob_object_key v = oi_object_key i"

definition observation_is_preimage :: "observation \<Rightarrow> obj_intent \<Rightarrow> bool" where
  "observation_is_preimage v i \<longleftrightarrow>
     observation_identity_matches v i \<and>
     same_revision (ob_revision v) (oi_expected_revision i) \<and>
     ob_fingerprint v = oi_pre_fingerprint i"

definition observation_is_postimage :: "observation \<Rightarrow> obj_intent \<Rightarrow> bool" where
  "observation_is_postimage v i \<longleftrightarrow>
     observation_identity_matches v i \<and> ob_fingerprint v = oi_post_fingerprint i"

definition observation_matches_receipt :: "observation \<Rightarrow> obj_receipt \<Rightarrow> bool" where
  "observation_matches_receipt v r \<longleftrightarrow>
     ob_provider v = oc_provider r \<and>
     ob_object_key v = oc_object_key r \<and>
     same_revision (ob_revision v) (oc_result_revision r) \<and>
     ob_fingerprint v = result_fingerprint r \<and>
     oc_durable_at r \<le> ob_observed_at v"

section \<open>Facts the attempt and the recorder use\<close>

lemma op_transition_cases:
  assumes "op_transition H p st a r v c = Inr p'"
  shows "st \<in> set (object_transitions (op_state p))" "op_record_ok H p'" "op_state p' = st"
    "op_intent p' = op_intent p"
  using assms by (auto simp: op_transition_def Let_def split: if_splits operation_state.splits option.splits)

lemmas op_step_defs = op_arm_def op_acknowledge_def op_verify_def op_block_def

lemma op_transition_simps:
  "op_arm H p a = Inr p' \<longleftrightarrow> op_state p = O_INTENT_RECORDED \<and> op_record_ok H p' \<and>
     p' = p\<lparr>op_state := O_DISPATCH_ARMED, op_authorization := Some a\<rparr>"
  "op_acknowledge H p r = Inr p' \<longleftrightarrow> op_state p = O_DISPATCH_ARMED \<and> op_record_ok H p' \<and>
     p' = p\<lparr>op_state := O_ACKNOWLEDGED, op_receipt := Some r\<rparr>"
  "op_verify H p v = Inr p' \<longleftrightarrow> op_state p = O_ACKNOWLEDGED \<and> op_record_ok H p' \<and>
     p' = p\<lparr>op_state := O_VERIFIED, op_verifications := [v]\<rparr>"
  "op_block H p reason = Inr p' \<longleftrightarrow> op_state p \<noteq> O_BLOCKED \<and> op_record_ok H p' \<and>
     p' = p\<lparr>op_state := O_BLOCKED, op_reason_code := Some reason, op_blocked_from := Some (op_state p)\<rparr>"
  by (cases "op_state p"; auto simp: op_step_defs op_transition_def Let_def)+

lemma op_refresh_simps:
  "op_refresh_verification H p v = Inr p' \<longleftrightarrow> op_state p = O_VERIFIED \<and> op_verifications p \<noteq> [] \<and>
     ve_observed_at (last (op_verifications p)) < ve_observed_at v \<and>
     ve_verified_at (last (op_verifications p)) \<le> ve_verified_at v \<and> op_record_ok H p' \<and>
     p' = p\<lparr>op_verifications := op_verifications p @ [v]\<rparr>"
  by (auto simp: op_refresh_verification_def op_verification_def last_option_def Let_def not_le not_less)

section \<open>Sealed intents, authorizations and receipts\<close>

lemma seal_obj_intent_simps [simp]:
  "oi_plan_id (seal_obj_intent H v) = oi_plan_id v"
  "oi_plan_digest (seal_obj_intent H v) = oi_plan_digest v"
  "oi_manifest_digest (seal_obj_intent H v) = oi_manifest_digest v"
  "oi_attempt (seal_obj_intent H v) = oi_attempt v"
  "oi_sequence (seal_obj_intent H v) = oi_sequence v"
  "oi_kind (seal_obj_intent H v) = oi_kind v"
  "oi_provider (seal_obj_intent H v) = oi_provider v"
  "oi_object_key (seal_obj_intent H v) = oi_object_key v"
  "oi_expected_revision (seal_obj_intent H v) = oi_expected_revision v"
  "oi_pre_fingerprint (seal_obj_intent H v) = oi_pre_fingerprint v"
  "oi_post_fingerprint (seal_obj_intent H v) = oi_post_fingerprint v"
  "oi_fence (seal_obj_intent H v) = oi_fence v"
  "oi_parent_operation_id (seal_obj_intent H v) = oi_parent_operation_id v"
  "obj_intent_data (seal_obj_intent H v) = obj_intent_data v"
  "oi_operation_id (seal_obj_intent H v) = ''tf-bridge-'' @ take 24 (digest_json H (obj_intent_data v))"
  "oi_intent_digest (seal_obj_intent H v) = digest_json H (obj_intent_data v)"
  by (simp_all add: seal_obj_intent_def obj_intent_data_def Let_def)

lemma seal_authorization_simps [simp]:
  "da_operation_id (seal_authorization H v) = da_operation_id v"
  "da_intent_digest (seal_authorization H v) = da_intent_digest v"
  "da_provider (seal_authorization H v) = da_provider v"
  "da_object_key (seal_authorization H v) = da_object_key v"
  "da_fence_acquisition_operation_id (seal_authorization H v) = da_fence_acquisition_operation_id v"
  "da_fence_acquisition_receipt_id (seal_authorization H v) = da_fence_acquisition_receipt_id v"
  "da_fence_acquisition_receipt_digest (seal_authorization H v) = da_fence_acquisition_receipt_digest v"
  "da_revision (seal_authorization H v) = da_revision v"
  "da_fingerprint (seal_authorization H v) = da_fingerprint v"
  "da_observed_at (seal_authorization H v) = da_observed_at v"
  "da_authorized_at (seal_authorization H v) = da_authorized_at v"
  "authorization_data (seal_authorization H v) = authorization_data v"
  "da_authorization_digest (seal_authorization H v) = digest_json H (authorization_data v)"
  by (simp_all add: seal_authorization_def authorization_data_def)

lemma seal_obj_receipt_eq:
  "seal_obj_receipt H v = v
     \<lparr>oc_receipt_id := fst (receipt_identity H ''object-operation'' (obj_receipt_data v)),
      oc_receipt_digest := snd (receipt_identity H ''object-operation'' (obj_receipt_data v))\<rparr>"
  "obj_receipt_data (seal_obj_receipt H v) = obj_receipt_data v"
  "obj_receipt_authorization_data (seal_obj_receipt H v) = obj_receipt_authorization_data v"
  by (simp_all add: seal_obj_receipt_def obj_receipt_data_def obj_receipt_authorization_data_def
      split: prod.splits)

lemma seal_obj_receipt_simps [simp]:
  "oc_operation_id (seal_obj_receipt H v) = oc_operation_id v"
  "oc_intent_digest (seal_obj_receipt H v) = oc_intent_digest v"
  "oc_kind (seal_obj_receipt H v) = oc_kind v"
  "oc_provider (seal_obj_receipt H v) = oc_provider v"
  "oc_object_key (seal_obj_receipt H v) = oc_object_key v"
  "oc_fence_token_digest (seal_obj_receipt H v) = oc_fence_token_digest v"
  "oc_fence_epoch (seal_obj_receipt H v) = oc_fence_epoch v"
  "oc_fence_scope_digest (seal_obj_receipt H v) = oc_fence_scope_digest v"
  "oc_fence_writer_id (seal_obj_receipt H v) = oc_fence_writer_id v"
  "oc_fence_acquisition_operation_id (seal_obj_receipt H v) = oc_fence_acquisition_operation_id v"
  "oc_fence_acquisition_receipt_id (seal_obj_receipt H v) = oc_fence_acquisition_receipt_id v"
  "oc_fence_acquisition_receipt_digest (seal_obj_receipt H v) = oc_fence_acquisition_receipt_digest v"
  "oc_authorization_digest (seal_obj_receipt H v) = oc_authorization_digest v"
  "oc_authorization_observed_at (seal_obj_receipt H v) = oc_authorization_observed_at v"
  "oc_authorized_at (seal_obj_receipt H v) = oc_authorized_at v"
  "oc_previous_revision (seal_obj_receipt H v) = oc_previous_revision v"
  "oc_result_revision (seal_obj_receipt H v) = oc_result_revision v"
  "oc_pre_fingerprint (seal_obj_receipt H v) = oc_pre_fingerprint v"
  "oc_post_fingerprint (seal_obj_receipt H v) = oc_post_fingerprint v"
  "oc_outcome (seal_obj_receipt H v) = oc_outcome v"
  "oc_evidence (seal_obj_receipt H v) = oc_evidence v"
  "oc_effect_at (seal_obj_receipt H v) = oc_effect_at v"
  "oc_acknowledged_at (seal_obj_receipt H v) = oc_acknowledged_at v"
  "oc_durable_at (seal_obj_receipt H v) = oc_durable_at v"
  "oc_durable (seal_obj_receipt H v) = oc_durable v"
  by (simp_all add: seal_obj_receipt_eq)

lemma authorization_data_digest_irrelevant:
  "authorization_data (v\<lparr>da_authorization_digest := d\<rparr>) = authorization_data v"
  by (simp add: authorization_data_def)

context hex_digest
begin

lemma seal_obj_intent_ok:
  "obj_intent_ok H (seal_obj_intent H v) \<longleftrightarrow> obj_intent_fields_ok H v"
  by (cases "oi_kind v")
    (auto simp: obj_intent_ok_def obj_intent_fields_ok_def object_id_ok_def hex_suffixed_def starts_with_def)

lemma seal_authorization_ok:
  "authorization_ok H (seal_authorization H v) \<longleftrightarrow>
     object_id_ok (da_operation_id v) \<and> digest_ok (da_intent_digest v) \<and> provider_ok (da_provider v) \<and>
     string_ok (da_object_key v) \<and> acquire_id_ok (da_fence_acquisition_operation_id v) \<and>
     receipt_id_ok (da_fence_acquisition_receipt_id v) \<and>
     digest_ok (da_fence_acquisition_receipt_digest v) \<and> revision_ok (da_revision v) \<and>
     digest_ok (da_fingerprint v) \<and> da_observed_at v \<le> da_authorized_at v"
  by (auto simp: authorization_ok_def)

text \<open>
  An observation authorizes the dispatch of a valid intent exactly when it is the intent's preimage
  and both it and the authorization fall between the fence's durability and its expiry.
\<close>

lemma authorization_create_iff:
  assumes "obj_intent_ok H i" "observation_ok v" "ob_provider v = oi_provider i"
    "ob_object_key v = oi_object_key i"
  shows "(\<exists>a. authorization_create H i v at = Inr a) \<longleftrightarrow>
     observation_is_preimage v i \<and> fb_acquisition_durable_at (oi_fence i) \<le> ob_observed_at v \<and>
     ob_observed_at v \<le> at \<and> at < fb_expires_at (oi_fence i)"
proof -
  have "object_id_ok (oi_operation_id i)" "digest_ok (oi_intent_digest i)"
    "acquire_id_ok (fb_acquisition_operation_id (oi_fence i))"
    "receipt_id_ok (fb_acquisition_receipt_id (oi_fence i))"
    "digest_ok (fb_acquisition_receipt_digest (oi_fence i))" "provider_ok (oi_provider i)"
    "string_ok (oi_object_key i)"
    using assms(1) by (auto simp: obj_intent_ok_def obj_intent_fields_ok_def fence_binding_ok_def)
  with assms show ?thesis
    by (auto simp: authorization_create_def Let_def authorization_valid_for_def
        seal_authorization_ok observation_is_preimage_def observation_identity_matches_def
        observation_ok_def)
qed

end

end
