(* ===== verification/Txn_Attempt.thy ===== *)
theory Txn_Attempt
  imports Txn_Object
begin

text \<open>
  One transaction attempt (\<open>BridgeOperationAttempt\<close>) and \<open>_validate_attempt\<close>, split as the function
  runs: header, acquisitions, operations, release phase, releases, release chains, acquisition
  chains, and the checks of each attempt state. The dictionaries the function fills while it walks
  the histories are lookups in the part of the history already seen.
\<close>

record attempt =
  at_plan_id :: string
  at_plan_digest :: string
  at_manifest_digest :: string
  at_attempt :: int
  at_state :: attempt_state
  at_max_observation_age_seconds :: int
  at_expected_writes :: "expected_write list"
  at_acquisitions :: "acq_record list"
  at_operations :: "op_record list"
  at_releases :: "rel_record list"
  at_release_phase_sequence :: "int option"
  at_reason_code :: "block_reason option"
  at_terminal_at :: "time option"

section \<open>Predicates on operations and acquisitions\<close>

definition is_write :: "op_record \<Rightarrow> bool" where
  "is_write p \<longleftrightarrow> oi_kind (op_intent p) = WRITE"

definition op_key :: "op_record \<Rightarrow> string \<times> string" where
  "op_key p = (oi_provider (op_intent p), oi_object_key (op_intent p))"

definition op_id :: "op_record \<Rightarrow> string" where
  "op_id p = oi_operation_id (op_intent p)"

definition acq_id :: "acq_record \<Rightarrow> string" where
  "acq_id c = ai_operation_id (ac_intent c)"

definition rel_id :: "rel_record \<Rightarrow> string" where
  "rel_id c = ri_operation_id (rl_intent c)"

definition observation_fresh :: "time \<Rightarrow> time \<Rightarrow> attempt \<Rightarrow> bool" where
  "observation_fresh observed_at at a \<longleftrightarrow>
     observed_at \<le> at \<and> at - observed_at \<le> at_max_observation_age_seconds a * 1000000"

definition intent_matches_expected :: "obj_intent \<Rightarrow> expected_write \<Rightarrow> bool" where
  "intent_matches_expected i w \<longleftrightarrow>
     oi_kind i = WRITE \<and>
     oi_provider i = ew_provider w \<and>
     oi_object_key i = ew_object_key w \<and>
     same_revision (oi_expected_revision i) (ew_expected_revision w) \<and>
     oi_pre_fingerprint i = ew_pre_fingerprint w \<and>
     oi_post_fingerprint i = ew_post_fingerprint w"

definition eligible_rollback_parent :: "op_record \<Rightarrow> bool" where
  "eligible_rollback_parent p \<longleftrightarrow>
     (op_state p = O_VERIFIED \<or> op_state p = O_BLOCKED \<and> op_blocked_from p = Some O_VERIFIED) \<and>
     (case op_receipt p of None \<Rightarrow> False | Some r \<Rightarrow>
        op_verification p \<noteq> None \<and> oc_outcome r = APPLIED)"

definition verified_outcome :: "op_record \<Rightarrow> receipt_outcome \<Rightarrow> bool" where
  "verified_outcome p outcome \<longleftrightarrow>
     op_state p = O_VERIFIED \<and>
     (case op_receipt p of None \<Rightarrow> False | Some r \<Rightarrow>
        op_verification p \<noteq> None \<and> oc_outcome r = outcome)"

definition proven_undispatched :: "op_record \<Rightarrow> bool" where
  "proven_undispatched p \<longleftrightarrow>
     op_state p = O_BLOCKED \<and> op_blocked_from p = Some O_INTENT_RECORDED \<and>
     op_authorization p = None \<and> op_receipt p = None \<and> op_verifications p = []"

definition rollback_proven_no_effect :: "op_record \<Rightarrow> bool" where
  "rollback_proven_no_effect p \<longleftrightarrow> proven_undispatched p \<or> verified_outcome p NO_EFFECT"

definition operation_effect_resolved :: "op_record \<Rightarrow> bool" where
  "operation_effect_resolved p \<longleftrightarrow>
     (if op_state p = O_VERIFIED then True
      else if op_state p \<noteq> O_BLOCKED then False
      else if proven_undispatched p then True
      else op_blocked_from p = Some O_VERIFIED \<and> op_receipt p \<noteq> None \<and> op_verifications p \<noteq> [])"

definition acquisition_proven_undispatched :: "acq_record \<Rightarrow> bool" where
  "acquisition_proven_undispatched c \<longleftrightarrow>
     ac_state c = F_BLOCKED \<and> ac_blocked_from c = Some F_INTENT_RECORDED \<and> ac_receipt c = None"

text \<open>The applied receipt of an acknowledged acquisition, the test five checks repeat.\<close>

definition acknowledged_receipt :: "acq_record \<Rightarrow> acq_receipt option" where
  "acknowledged_receipt c =
     (case ac_receipt c of Some (AcqApplied r) \<Rightarrow> if ac_state c = F_ACKNOWLEDGED then Some r else None
      | _ \<Rightarrow> None)"

definition released_receipt :: "rel_record \<Rightarrow> rel_receipt option" where
  "released_receipt c =
     (case rl_receipt c of Some (RelApplied r) \<Rightarrow> if rl_state c = F_ACKNOWLEDGED then Some r else None
      | _ \<Rightarrow> None)"

definition acquisition_tombstone :: "acq_record \<Rightarrow> acq_no_effect option" where
  "acquisition_tombstone c =
     (case ac_receipt c of Some (AcqNoEffect r) \<Rightarrow> if ac_state c = F_NO_EFFECT then Some r else None
      | _ \<Rightarrow> None)"

definition release_tombstone :: "rel_record \<Rightarrow> rel_no_effect option" where
  "release_tombstone c =
     (case rl_receipt c of Some (RelNoEffect r) \<Rightarrow> if rl_state c = F_NO_EFFECT then Some r else None
      | _ \<Rightarrow> None)"

section \<open>Header\<close>

definition acquisition_sort_key :: "acq_record \<Rightarrow> string \<times> int \<times> string" where
  "acquisition_sort_key c = (ai_provider (ac_intent c), ai_epoch (ac_intent c), acq_id c)"

definition release_sort_key :: "rel_record \<Rightarrow> string \<times> int \<times> int \<times> string" where
  "release_sort_key c =
     (ri_provider (rl_intent c), ri_epoch (rl_intent c), ri_release_attempt (rl_intent c), rel_id c)"

definition expected_writes_ok :: "expected_write list \<Rightarrow> bool" where
  "expected_writes_ok ws \<longleftrightarrow>
     ws \<noteq> [] \<and> list_all expected_write_ok ws \<and> sorted (map ew_key ws) \<and> distinct (map ew_key ws)"

definition attempt_header_ok :: "(string \<Rightarrow> string) \<Rightarrow> attempt \<Rightarrow> bool" where
  "attempt_header_ok H a \<longleftrightarrow>
     plan_binding_ok H (at_plan_id a) (at_plan_digest a) \<and>
     digest_ok (at_manifest_digest a) \<and>
     positive_ok (at_attempt a) \<and>
     freshness_ok (at_max_observation_age_seconds a) \<and>
     expected_writes_ok (at_expected_writes a) \<and>
     (case at_release_phase_sequence a of None \<Rightarrow> True
      | Some n \<Rightarrow> nonnegative_ok n \<and> n \<le> int (length (at_operations a))) \<and>
     ((at_releases a \<noteq> []) = (at_release_phase_sequence a \<noteq> None))"

section \<open>Histories\<close>

definition acq_receipt_ids :: "acq_record list \<Rightarrow> string list" where
  "acq_receipt_ids cs = concat (map (\<lambda>c. case ac_receipt c of None \<Rightarrow> []
     | Some e \<Rightarrow> [acq_evidence_receipt_id e]) cs)"

definition op_receipt_ids :: "op_record list \<Rightarrow> string list" where
  "op_receipt_ids ps = concat (map (\<lambda>p. case op_receipt p of None \<Rightarrow> []
     | Some r \<Rightarrow> [oc_receipt_id r]) ps)"

definition rel_receipt_ids :: "rel_record list \<Rightarrow> string list" where
  "rel_receipt_ids cs = concat (map (\<lambda>c. case rl_receipt c of None \<Rightarrow> []
     | Some e \<Rightarrow> [rel_evidence_receipt_id e]) cs)"

text \<open>One turn of the acquisition loop; \<open>seen\<close> are the acquisitions of the earlier turns.\<close>

definition acquisition_step_ok ::
  "(string \<Rightarrow> string) \<Rightarrow> attempt \<Rightarrow> acq_record list \<Rightarrow> acq_record \<Rightarrow> bool" where
  "acquisition_step_ok H a seen c \<longleftrightarrow>
     acq_record_ok H c \<and>
     ai_plan_id (ac_intent c) = at_plan_id a \<and>
     ai_plan_digest (ac_intent c) = at_plan_digest a \<and>
     ai_manifest_digest (ac_intent c) = at_manifest_digest a \<and>
     ai_attempt (ac_intent c) = at_attempt a \<and>
     (case last_option (filter (\<lambda>d. ai_provider (ac_intent d) = ai_provider (ac_intent c)) seen) of
        None \<Rightarrow> True | Some d \<Rightarrow> ai_epoch (ac_intent d) < ai_epoch (ac_intent c)) \<and>
     acq_id c \<notin> set (map acq_id seen) \<and>
     (case ac_receipt c of None \<Rightarrow> True
      | Some e \<Rightarrow> acq_evidence_receipt_id e \<notin> set (acq_receipt_ids seen))"

definition acquisitions_ok :: "(string \<Rightarrow> string) \<Rightarrow> attempt \<Rightarrow> bool" where
  "acquisitions_ok H a \<longleftrightarrow>
     sorted (map acquisition_sort_key (at_acquisitions a)) \<and>
     each_after (acquisition_step_ok H a) [] (at_acquisitions a)"

definition acquisition_by_id :: "attempt \<Rightarrow> string \<Rightarrow> acq_record option" where
  "acquisition_by_id a i = List.find (\<lambda>c. acq_id c = i) (at_acquisitions a)"

definition write_by_id :: "op_record list \<Rightarrow> string \<Rightarrow> op_record option" where
  "write_by_id seen i = List.find (\<lambda>p. is_write p \<and> op_id p = i) seen"

definition parent_id :: "op_record \<Rightarrow> string" where
  "parent_id p = (case oi_parent_operation_id (op_intent p) of None \<Rightarrow> [] | Some i \<Rightarrow> i)"

definition rollback_chain :: "op_record list \<Rightarrow> string \<Rightarrow> op_record list" where
  "rollback_chain seen i = filter (\<lambda>p. \<not> is_write p \<and> parent_id p = i) seen"

definition write_step_ok :: "attempt \<Rightarrow> op_record list \<Rightarrow> op_record \<Rightarrow> bool" where
  "write_step_ok a seen p \<longleftrightarrow>
     (case List.find (\<lambda>w. ew_key w = op_key p) (at_expected_writes a) of None \<Rightarrow> False
      | Some spec \<Rightarrow> intent_matches_expected (op_intent p) spec \<and>
          ew_key spec \<notin> set (map op_key (filter is_write seen)))"

definition rollback_step_ok :: "op_record list \<Rightarrow> op_record \<Rightarrow> bool" where
  "rollback_step_ok seen p \<longleftrightarrow>
     (case write_by_id seen (parent_id p) of None \<Rightarrow> False
      | Some parent \<Rightarrow>
          eligible_rollback_parent parent \<and>
          (let previous = last_option (rollback_chain seen (op_id parent));
               required_epoch = (case previous of
                   None \<Rightarrow> fb_epoch (oi_fence (op_intent parent))
                 | Some b \<Rightarrow> fb_epoch (oi_fence (op_intent b)))
           in (case previous of None \<Rightarrow> True | Some b \<Rightarrow> rollback_proven_no_effect b) \<and>
              oi_provider (op_intent p) = oi_provider (op_intent parent) \<and>
              oi_object_key (op_intent p) = oi_object_key (op_intent parent) \<and>
              oi_pre_fingerprint (op_intent p) = oi_post_fingerprint (op_intent parent) \<and>
              oi_post_fingerprint (op_intent p) = oi_pre_fingerprint (op_intent parent) \<and>
              (case op_receipt parent of None \<Rightarrow> False | Some r \<Rightarrow>
                 same_revision (oi_expected_revision (op_intent p)) (oc_result_revision r)) \<and>
              required_epoch < fb_epoch (oi_fence (op_intent p))))"

text \<open>One turn of the operation loop.\<close>

definition operation_step_ok ::
  "(string \<Rightarrow> string) \<Rightarrow> attempt \<Rightarrow> op_record list \<Rightarrow> op_record \<Rightarrow> bool" where
  "operation_step_ok H a seen p \<longleftrightarrow>
     op_record_ok H p \<and>
     oi_plan_id (op_intent p) = at_plan_id a \<and>
     oi_plan_digest (op_intent p) = at_plan_digest a \<and>
     oi_manifest_digest (op_intent p) = at_manifest_digest a \<and>
     oi_attempt (op_intent p) = at_attempt a \<and>
     oi_sequence (op_intent p) = int (length seen) + 1 \<and>
     op_id p \<notin> set (map acq_id (at_acquisitions a)) \<and>
     op_id p \<notin> set (map op_id seen) \<and>
     (case acquisition_by_id a (fb_acquisition_operation_id (oi_fence (op_intent p))) of
        None \<Rightarrow> False
      | Some c \<Rightarrow> (case acknowledged_receipt c of None \<Rightarrow> False
          | Some r \<Rightarrow> acq_receipt_binding r = oi_fence (op_intent p))) \<and>
     (case last_option (filter (\<lambda>q. oi_provider (op_intent q) = oi_provider (op_intent p)) seen) of
        None \<Rightarrow> True
      | Some q \<Rightarrow> fb_epoch (oi_fence (op_intent q)) \<le> fb_epoch (oi_fence (op_intent p))) \<and>
     (case op_receipt p of None \<Rightarrow> True
      | Some r \<Rightarrow> oc_receipt_id r \<notin> set (acq_receipt_ids (at_acquisitions a)) \<and>
                   oc_receipt_id r \<notin> set (op_receipt_ids seen)) \<and>
     (case op_authorization p of None \<Rightarrow> True
      | Some z \<Rightarrow> observation_fresh (da_observed_at z) (da_authorized_at z) a) \<and>
     (if is_write p then write_step_ok a seen p else rollback_step_ok seen p)"

definition operations_ok :: "(string \<Rightarrow> string) \<Rightarrow> attempt \<Rightarrow> bool" where
  "operations_ok H a \<longleftrightarrow> each_after (operation_step_ok H a) [] (at_operations a)"

definition release_phase_ok :: "attempt \<Rightarrow> bool" where
  "release_phase_ok a \<longleftrightarrow>
     (case at_release_phase_sequence a of None \<Rightarrow> True
      | Some n \<Rightarrow>
          list_all operation_effect_resolved (take (nat n) (at_operations a)) \<and>
          list_all is_write (take (nat n) (at_operations a)) \<and>
          list_all (\<lambda>p. \<not> is_write p) (drop (nat n) (at_operations a)))"

definition release_intent_acquisition_ok :: "rel_intent \<Rightarrow> acq_record \<Rightarrow> bool" where
  "release_intent_acquisition_ok i c \<longleftrightarrow>
     (case acknowledged_receipt c of None \<Rightarrow> False
      | Some r \<Rightarrow>
          ri_plan_id i = ai_plan_id (ac_intent c) \<and>
          ri_plan_digest i = ai_plan_digest (ac_intent c) \<and>
          ri_manifest_digest i = ai_manifest_digest (ac_intent c) \<and>
          ri_attempt i = ai_attempt (ac_intent c) \<and>
          ri_provider i = ar_provider r \<and>
          ri_writer_id i = ar_writer_id r \<and>
          ri_acquisition_operation_id i = ar_operation_id r \<and>
          ri_acquisition_receipt_id i = ar_receipt_id r \<and>
          ri_acquisition_receipt_digest i = ar_receipt_digest r \<and>
          ri_token_digest i = ar_token_digest r \<and>
          ri_scope_digest i = ar_scope_digest r \<and>
          ri_epoch i = ar_epoch r \<and>
          ar_durable_at r \<le> ri_requested_at i)"

text \<open>One turn of the release loop.\<close>

definition release_step_ok ::
  "(string \<Rightarrow> string) \<Rightarrow> attempt \<Rightarrow> rel_record list \<Rightarrow> rel_record \<Rightarrow> bool" where
  "release_step_ok H a seen c \<longleftrightarrow>
     rel_record_ok H c \<and>
     ri_plan_id (rl_intent c) = at_plan_id a \<and>
     ri_plan_digest (rl_intent c) = at_plan_digest a \<and>
     ri_manifest_digest (rl_intent c) = at_manifest_digest a \<and>
     ri_attempt (rl_intent c) = at_attempt a \<and>
     rel_id c \<notin> set (map acq_id (at_acquisitions a)) \<and>
     rel_id c \<notin> set (map op_id (at_operations a)) \<and>
     rel_id c \<notin> set (map rel_id seen) \<and>
     (case acquisition_by_id a (ri_acquisition_operation_id (rl_intent c)) of None \<Rightarrow> False
      | Some d \<Rightarrow> release_intent_acquisition_ok (rl_intent c) d) \<and>
     (case rl_receipt c of None \<Rightarrow> True
      | Some e \<Rightarrow> rel_evidence_receipt_id e \<notin> set (acq_receipt_ids (at_acquisitions a)) \<and>
                   rel_evidence_receipt_id e \<notin> set (op_receipt_ids (at_operations a)) \<and>
                   rel_evidence_receipt_id e \<notin> set (rel_receipt_ids seen))"

definition releases_ok :: "(string \<Rightarrow> string) \<Rightarrow> attempt \<Rightarrow> bool" where
  "releases_ok H a \<longleftrightarrow>
     sorted (map release_sort_key (at_releases a)) \<and>
     each_after (release_step_ok H a) [] (at_releases a)"

section \<open>Chains\<close>

definition release_chain :: "attempt \<Rightarrow> string \<Rightarrow> rel_record list" where
  "release_chain a i = filter (\<lambda>c. ri_acquisition_operation_id (rl_intent c) = i) (at_releases a)"

text \<open>One turn of the inner loop over the releases of one acquisition.\<close>

definition release_retry_ok :: "rel_record list \<Rightarrow> rel_record \<Rightarrow> bool" where
  "release_retry_ok seen c \<longleftrightarrow>
     ri_release_attempt (rl_intent c) = int (length seen) + 1 \<and>
     (case last_option seen of None \<Rightarrow> True
      | Some previous \<Rightarrow>
          (case release_tombstone previous of None \<Rightarrow> False
           | Some t \<Rightarrow> rn_durable_at t \<le> ri_requested_at (rl_intent c)) \<and>
          same_revision (ri_expected_inventory_revision (rl_intent c))
            (ri_expected_inventory_revision (rl_intent previous)))"

definition fenced_operations :: "attempt \<Rightarrow> string \<Rightarrow> op_record list" where
  "fenced_operations a i =
     filter (\<lambda>p. fb_acquisition_operation_id (oi_fence (op_intent p)) = i) (at_operations a)"

definition release_chain_ok :: "attempt \<Rightarrow> string \<Rightarrow> bool" where
  "release_chain_ok a i \<longleftrightarrow>
     each_after release_retry_ok [] (release_chain a i) \<and>
     list_all operation_effect_resolved (fenced_operations a i) \<and>
     list_all (\<lambda>p. proven_undispatched p \<or>
         list_ex (\<lambda>v. ve_verified_at v \<le> ri_requested_at (rl_intent (hd (release_chain a i))))
           (op_verifications p))
       (fenced_operations a i)"

definition release_chains_ok :: "attempt \<Rightarrow> bool" where
  "release_chains_ok a \<longleftrightarrow>
     list_all (\<lambda>c. release_chain_ok a (ri_acquisition_operation_id (rl_intent c))) (at_releases a)"

text \<open>A newer fence of a provider starts after the previous one is durably gone.\<close>

definition fence_succession_ok :: "attempt \<Rightarrow> acq_record \<Rightarrow> acq_record \<Rightarrow> bool" where
  "fence_succession_ok a previous current \<longleftrightarrow>
     (if acquisition_proven_undispatched previous then True
      else if ac_state previous = F_NO_EFFECT then
        (case acquisition_tombstone previous of None \<Rightarrow> False
         | Some t \<Rightarrow> an_durable_at t \<le> ai_requested_at (ac_intent current))
      else acknowledged_receipt previous \<noteq> None \<and>
        (case last_option (release_chain a (acq_id previous)) of None \<Rightarrow> False
         | Some c \<Rightarrow> (case released_receipt c of None \<Rightarrow> False
             | Some r \<Rightarrow> rr_durable_at r \<le> ai_requested_at (ac_intent current))))"

definition provider_acquisitions :: "attempt \<Rightarrow> string \<Rightarrow> acq_record list" where
  "provider_acquisitions a q = filter (\<lambda>c. ai_provider (ac_intent c) = q) (at_acquisitions a)"

definition acquisition_chains_ok :: "attempt \<Rightarrow> bool" where
  "acquisition_chains_ok a \<longleftrightarrow>
     list_all (\<lambda>c. successive (fence_succession_ok a)
       (provider_acquisitions a (ai_provider (ac_intent c)))) (at_acquisitions a)"

section \<open>Attempt states\<close>

definition blocked_evidence :: "attempt \<Rightarrow> bool" where
  "blocked_evidence a \<longleftrightarrow>
     list_ex (\<lambda>c. ac_state c = F_BLOCKED) (at_acquisitions a) \<or>
     list_ex (\<lambda>p. op_state p = O_BLOCKED) (at_operations a) \<or>
     list_ex (\<lambda>c. rl_state c = F_BLOCKED) (at_releases a)"

definition no_effect_acquisition_evidence :: "attempt \<Rightarrow> bool" where
  "no_effect_acquisition_evidence a \<longleftrightarrow>
     list_ex (\<lambda>c. ac_state c = F_NO_EFFECT) (at_acquisitions a)"

definition terminal_acquisition_ok :: "attempt \<Rightarrow> time \<Rightarrow> acq_record \<Rightarrow> bool" where
  "terminal_acquisition_ok a terminal_at c \<longleftrightarrow>
     (let chain = release_chain a (acq_id c) in
      if ac_state c = F_NO_EFFECT then
        (case acquisition_tombstone c of None \<Rightarrow> False
         | Some t \<Rightarrow> an_durable_at t \<le> terminal_at \<and> chain = [])
      else if ac_state c = F_BLOCKED then acquisition_proven_undispatched c \<and> chain = []
      else
        (case acknowledged_receipt c of None \<Rightarrow> False | Some r \<Rightarrow> ar_durable_at r \<le> terminal_at) \<and>
        chain \<noteq> [] \<and>
        list_all (\<lambda>x. case release_tombstone x of None \<Rightarrow> False
          | Some t \<Rightarrow> rn_durable_at t \<le> terminal_at) (butlast chain) \<and>
        (case released_receipt (last chain) of None \<Rightarrow> False
         | Some r \<Rightarrow> rr_durable_at r \<le> terminal_at))"

definition terminal_lifecycle_ok :: "attempt \<Rightarrow> bool" where
  "terminal_lifecycle_ok a \<longleftrightarrow>
     (case at_terminal_at a of None \<Rightarrow> False
      | Some terminal_at \<Rightarrow>
          at_acquisitions a \<noteq> [] \<and>
          list_all (terminal_acquisition_ok a terminal_at) (at_acquisitions a) \<and>
          list_all (\<lambda>c. acquisition_by_id a (ri_acquisition_operation_id (rl_intent c)) \<noteq> None)
            (at_releases a))"

definition terminal_verification_ok :: "attempt \<Rightarrow> op_record \<Rightarrow> bool" where
  "terminal_verification_ok a p \<longleftrightarrow>
     (case (op_verification p, at_terminal_at a) of
        (Some v, Some terminal_at) \<Rightarrow>
          observation_fresh (ve_observed_at v) terminal_at a \<and> ve_verified_at v \<le> terminal_at
      | _ \<Rightarrow> False)"

definition attempt_writes :: "attempt \<Rightarrow> op_record list" where
  "attempt_writes a = filter is_write (at_operations a)"

definition missing_expected :: "attempt \<Rightarrow> expected_write list" where
  "missing_expected a =
     filter (\<lambda>w. ew_key w \<notin> set (map op_key (attempt_writes a))) (at_expected_writes a)"

definition committed_ok :: "attempt \<Rightarrow> bool" where
  "committed_ok a \<longleftrightarrow>
     at_reason_code a = None \<and> \<not> blocked_evidence a \<and>
     missing_expected a = [] \<and>
     list_all (\<lambda>p. op_key p \<in> set (map ew_key (at_expected_writes a))) (attempt_writes a) \<and>
     terminal_lifecycle_ok a \<and>
     list_all is_write (at_operations a) \<and>
     list_all (\<lambda>p. verified_outcome p APPLIED \<and> terminal_verification_ok a p) (attempt_writes a)"

text \<open>One turn of the final loop over the writes of a restored attempt.\<close>

definition restored_write_ok :: "attempt \<Rightarrow> op_record \<Rightarrow> bool" where
  "restored_write_ok a p \<longleftrightarrow>
     (let chain = rollback_chain (at_operations a) (op_id p) in
      if proven_undispatched p then chain = []
      else case (op_receipt p, op_verification p) of
        (Some r, Some v) \<Rightarrow>
          (if oc_outcome r = NO_EFFECT then
             op_state p = O_VERIFIED \<and> chain = [] \<and> terminal_verification_ok a p
           else
             eligible_rollback_parent p \<and> chain \<noteq> [] \<and>
             list_all rollback_proven_no_effect (butlast chain) \<and>
             verified_outcome (last chain) APPLIED \<and>
             terminal_verification_ok a (last chain))
      | _ \<Rightarrow> False)"

definition restored_ok :: "attempt \<Rightarrow> bool" where
  "restored_ok a \<longleftrightarrow>
     blocked_evidence a = (at_reason_code a \<noteq> None) \<and>
     (missing_expected a \<noteq> [] \<longrightarrow> blocked_evidence a \<or> no_effect_acquisition_evidence a) \<and>
     terminal_lifecycle_ok a \<and>
     list_all (restored_write_ok a) (attempt_writes a)"

definition attempt_state_ok :: "attempt \<Rightarrow> bool" where
  "attempt_state_ok a \<longleftrightarrow>
     (case at_state a of
        A_OPEN \<Rightarrow> at_reason_code a = None \<and> at_terminal_at a = None \<and> \<not> blocked_evidence a
      | A_BLOCKED \<Rightarrow> at_reason_code a \<noteq> None \<and> blocked_evidence a \<and> at_terminal_at a = None
      | A_COMMITTED \<Rightarrow> at_terminal_at a \<noteq> None \<and> committed_ok a
      | A_RESTORED \<Rightarrow> at_terminal_at a \<noteq> None \<and> restored_ok a)"

text \<open>\<open>_validate_attempt\<close>: what every constructed attempt satisfies.\<close>

definition attempt_ok :: "(string \<Rightarrow> string) \<Rightarrow> attempt \<Rightarrow> bool" where
  "attempt_ok H a \<longleftrightarrow>
     attempt_header_ok H a \<and> acquisitions_ok H a \<and> operations_ok H a \<and> release_phase_ok a \<and>
     releases_ok H a \<and> release_chains_ok a \<and> acquisition_chains_ok a \<and> attempt_state_ok a"

definition attempt_open ::
  "(string \<Rightarrow> string) \<Rightarrow> string \<Rightarrow> string \<Rightarrow> string \<Rightarrow> int \<Rightarrow> int \<Rightarrow> expected_write list \<Rightarrow>
   txn_error + attempt" where
  "attempt_open H plan_id plan_digest manifest_digest attempt max_age expected_writes =
   (let a = \<lparr>at_plan_id = plan_id, at_plan_digest = plan_digest,
          at_manifest_digest = manifest_digest, at_attempt = attempt, at_state = A_OPEN,
          at_max_observation_age_seconds = max_age, at_expected_writes = expected_writes,
          at_acquisitions = [], at_operations = [], at_releases = [],
          at_release_phase_sequence = None, at_reason_code = None, at_terminal_at = None\<rparr>
    in checked (attempt_ok H a) a)"

section \<open>Coverage digest, compensation and retry\<close>

definition expected_write_data :: "expected_write \<Rightarrow> json" where
  "expected_write_data w = JObj
    [(''provider'', JStr (ew_provider w)),
     (''object_key'', JStr (ew_object_key w)),
     (''expected_revision'', encode_revision (ew_expected_revision w)),
     (''pre_fingerprint'', JStr (ew_pre_fingerprint w)),
     (''post_fingerprint'', JStr (ew_post_fingerprint w))]"

definition coverage_digest :: "(string \<Rightarrow> string) \<Rightarrow> expected_write list \<Rightarrow> txn_error + string" where
  "coverage_digest H ws = checked (expected_writes_ok ws)
     (digest_json H (JObj
       [(''domain'', JStr ''true-family/reference-bridge/expected-write-coverage/v1''),
        (''expected_writes'', JArr (map expected_write_data ws))]))"

definition provider_needs_compensation :: "attempt \<Rightarrow> string \<Rightarrow> bool" where
  "provider_needs_compensation a q \<longleftrightarrow>
     list_ex (\<lambda>p. oi_provider (op_intent p) = q \<and> is_write p \<and> eligible_rollback_parent p \<and>
       (case last_option (rollback_chain (at_operations a) (op_id p)) of None \<Rightarrow> True
        | Some b \<Rightarrow> rollback_proven_no_effect b)) (at_operations a)"

definition retry_revision :: "attempt \<Rightarrow> expected_write \<Rightarrow> txn_error + revision" where
  "retry_revision a w =
     (case map_of (rev (map (\<lambda>p. (op_key p, p)) (attempt_writes a))) (ew_key w) of
        None \<Rightarrow> Inr (ew_expected_revision w)
      | Some p \<Rightarrow>
          if proven_undispatched p then Inr (ew_expected_revision w)
          else (case op_receipt p of None \<Rightarrow> Inl ValueError
            | Some r \<Rightarrow>
                if oc_outcome r = NO_EFFECT then Inr (oc_result_revision r)
                else (case last_option (rollback_chain (at_operations a) (op_id p)) of
                    None \<Rightarrow> Inl ValueError
                  | Some b \<Rightarrow> (case op_receipt b of None \<Rightarrow> Inl ValueError
                      | Some r' \<Rightarrow> Inr (oc_result_revision r')))))"

fun retry_writes :: "attempt \<Rightarrow> expected_write list \<Rightarrow> txn_error + expected_write list" where
  "retry_writes a [] = Inr []"
| "retry_writes a (w # ws) =
     (case retry_revision a w of Inl e \<Rightarrow> Inl e
      | Inr revision \<Rightarrow>
          (let w' = w\<lparr>ew_expected_revision := revision\<rparr> in
           if \<not> expected_write_ok w' then Inl ValueError
           else (case retry_writes a ws of Inl e \<Rightarrow> Inl e | Inr ws' \<Rightarrow> Inr (w' # ws'))))"

definition retry_expected_writes :: "attempt \<Rightarrow> txn_error + expected_write list" where
  "retry_expected_writes a =
     (if at_state a \<noteq> A_RESTORED then Inl ValueError else retry_writes a (at_expected_writes a))"

end
