(* ===== verification/Txn_Journal.thy ===== *)
theory Txn_Journal
  imports Txn_Attempt
begin

text \<open>
  \<open>InMemoryBridgeOperationJournal\<close>: the append-only journal of transaction attempts with its
  indexes. Every mutator returns the exception or value together with the journal it leaves behind.
\<close>

section \<open>State\<close>

text \<open>Where a record lives: plan, attempt number, position in the attempt.\<close>

type_synonym location = "string \<times> int \<times> nat"

record journal =
  j_attempts :: "(string, attempt list) dict"
  j_object_index :: "string \<Rightarrow> location option"
  j_acquisition_index :: "string \<Rightarrow> location option"
  j_release_index :: "string \<Rightarrow> location option"
  j_identity_index :: "string \<Rightarrow> string option"
  j_receipt_index :: "string \<Rightarrow> string option"

definition journal_empty :: journal where
  "journal_empty = \<lparr>j_attempts = [], j_object_index = Map.empty, j_acquisition_index = Map.empty,
     j_release_index = Map.empty, j_identity_index = Map.empty, j_receipt_index = Map.empty\<rparr>"

section \<open>Reading\<close>

text \<open>\<open>xs[n]\<close>, where a negative index counts from the end.\<close>

definition py_at :: "'a list \<Rightarrow> int \<Rightarrow> 'a option" where
  "py_at xs n =
     (if 0 \<le> n \<and> n < int (length xs) then Some (xs ! nat n)
      else if n < 0 \<and> - int (length xs) \<le> n then Some (xs ! nat (int (length xs) + n))
      else None)"

definition attempts_for :: "journal \<Rightarrow> string \<Rightarrow> txn_error + attempt list" where
  "attempts_for j plan_id = checked (string_ok plan_id)
     (case map_of (j_attempts j) plan_id of None \<Rightarrow> [] | Some as \<Rightarrow> as)"

text \<open>The acquisition intents of one provider, over all plans and attempts.\<close>

definition provider_intents :: "journal \<Rightarrow> string \<Rightarrow> acq_intent list" where
  "provider_intents j q =
     [ac_intent c. (_, as) \<leftarrow> j_attempts j, a \<leftarrow> as, c \<leftarrow> at_acquisitions a, ai_provider (ac_intent c) = q]"

definition provider_epoch_high_water :: "journal \<Rightarrow> string \<Rightarrow> txn_error + int option" where
  "provider_epoch_high_water j q = checked (provider_ok q)
     (let epochs = map ai_epoch (provider_intents j q) in
      if epochs = [] then None else Some (Max (set epochs)))"

definition get_attempt :: "journal \<Rightarrow> string \<Rightarrow> int \<Rightarrow> txn_error + attempt" where
  "get_attempt j plan_id n =
     (if \<not> string_ok plan_id \<or> \<not> positive_ok n then Inl ValueError
      else case map_of (j_attempts j) plan_id of None \<Rightarrow> Inl KeyError
        | Some as \<Rightarrow> (case py_at as (n - 1) of None \<Rightarrow> Inl KeyError | Some a \<Rightarrow> Inr a))"

definition object_location :: "journal \<Rightarrow> string \<Rightarrow> txn_error + location" where
  "object_location j i =
     (if \<not> object_id_ok i then Inl ValueError
      else case j_object_index j i of None \<Rightarrow> Inl KeyError | Some l \<Rightarrow> Inr l)"

definition acquisition_location :: "journal \<Rightarrow> string \<Rightarrow> txn_error + location" where
  "acquisition_location j i =
     (if \<not> acquire_id_ok i then Inl ValueError
      else case j_acquisition_index j i of None \<Rightarrow> Inl KeyError | Some l \<Rightarrow> Inr l)"

definition release_location :: "journal \<Rightarrow> string \<Rightarrow> txn_error + location" where
  "release_location j i =
     (if \<not> release_id_ok i then Inl ValueError
      else case j_release_index j i of None \<Rightarrow> Inl KeyError | Some l \<Rightarrow> Inr l)"

text \<open>\<open>self._attempts[plan_id][attempt - 1]\<close> and an item of one of its histories.\<close>

definition raw_attempt :: "journal \<Rightarrow> string \<Rightarrow> int \<Rightarrow> txn_error + attempt" where
  "raw_attempt j plan_id n =
     (case map_of (j_attempts j) plan_id of None \<Rightarrow> Inl KeyError
      | Some as \<Rightarrow> (case py_at as (n - 1) of None \<Rightarrow> Inl IndexError | Some a \<Rightarrow> Inr a))"

definition located :: "(attempt \<Rightarrow> 'a list) \<Rightarrow> journal \<Rightarrow> txn_error + location \<Rightarrow> txn_error + 'a" where
  "located items j loc =
     (case loc of Inl e \<Rightarrow> Inl e
      | Inr (plan_id, n, k) \<Rightarrow> (case raw_attempt j plan_id n of Inl e \<Rightarrow> Inl e
          | Inr a \<Rightarrow> if k < length (items a) then Inr (items a ! k) else Inl IndexError))"

definition get_operation :: "journal \<Rightarrow> string \<Rightarrow> txn_error + op_record" where
  "get_operation j i = located at_operations j (object_location j i)"

definition get_acquisition :: "journal \<Rightarrow> string \<Rightarrow> txn_error + acq_record" where
  "get_acquisition j i = located at_acquisitions j (acquisition_location j i)"

definition get_release :: "journal \<Rightarrow> string \<Rightarrow> txn_error + rel_record" where
  "get_release j i = located at_releases j (release_location j i)"

section \<open>Storing\<close>

text \<open>\<open>self._attempts[attempt.plan_id][attempt.attempt - 1] = attempt\<close>.\<close>

definition store_attempt ::
  "(string \<Rightarrow> string) \<Rightarrow> attempt \<Rightarrow> journal \<Rightarrow> (txn_error, unit, journal) outcome" where
  "store_attempt H a j =
     (if \<not> attempt_ok H a then (Inl ValueError, j)
      else case map_of (j_attempts j) (at_plan_id a) of None \<Rightarrow> (Inl KeyError, j)
        | Some as \<Rightarrow>
            if at_attempt a \<le> int (length as)
            then (Inr (), j\<lparr>j_attempts := dict_put (j_attempts j) (at_plan_id a)
                    (as[nat (at_attempt a - 1) := a])\<rparr>)
            else (Inl IndexError, j))"

definition claim_identity :: "string \<Rightarrow> string \<Rightarrow> journal \<Rightarrow> (txn_error, unit, journal) outcome" where
  "claim_identity i kind j =
     (case j_identity_index j i of
        Some k \<Rightarrow> if k \<noteq> kind then (Inl JournalConflict, j)
                  else (Inr (), j\<lparr>j_identity_index := (j_identity_index j)(i \<mapsto> kind)\<rparr>)
      | None \<Rightarrow> (Inr (), j\<lparr>j_identity_index := (j_identity_index j)(i \<mapsto> kind)\<rparr>))"

definition receipt_unclaimed :: "journal \<Rightarrow> string \<Rightarrow> string \<Rightarrow> bool" where
  "receipt_unclaimed j receipt_id i \<longleftrightarrow>
     (case j_receipt_index j receipt_id of None \<Rightarrow> True | Some k \<Rightarrow> k = i)"

text \<open>The loops of \<open>_reindex_acquisitions\<close> and \<open>_reindex_releases\<close>: position \<open>k\<close> onwards.\<close>

fun reindex :: "string \<Rightarrow> int \<Rightarrow> nat \<Rightarrow> string list \<Rightarrow> (string \<Rightarrow> location option) \<Rightarrow>
  (string \<Rightarrow> location option)" where
  "reindex plan_id n k [] ix = ix"
| "reindex plan_id n k (i # is) ix = reindex plan_id n (Suc k) is (ix(i \<mapsto> (plan_id, n, k)))"

definition reindex_acquisitions :: "attempt \<Rightarrow> journal \<Rightarrow> journal" where
  "reindex_acquisitions a j = j\<lparr>j_acquisition_index :=
     reindex (at_plan_id a) (at_attempt a) 0 (map acq_id (at_acquisitions a)) (j_acquisition_index j)\<rparr>"

definition reindex_releases :: "attempt \<Rightarrow> journal \<Rightarrow> journal" where
  "reindex_releases a j = j\<lparr>j_release_index :=
     reindex (at_plan_id a) (at_attempt a) 0 (map rel_id (at_releases a)) (j_release_index j)\<rparr>"

definition list_index :: "'a list \<Rightarrow> 'a \<Rightarrow> nat" where
  "list_index xs x = length (takeWhile (\<lambda>y. y \<noteq> x) xs)"

definition replace_acquisition ::
  "(string \<Rightarrow> string) \<Rightarrow> acq_record \<Rightarrow> journal \<Rightarrow> (txn_error, unit, journal) outcome" where
  "replace_acquisition H c j =
     (case acquisition_location j (acq_id c) of Inl e \<Rightarrow> (Inl e, j)
      | Inr (plan_id, n, k) \<Rightarrow> (case get_attempt j plan_id n of Inl e \<Rightarrow> (Inl e, j)
          | Inr a \<Rightarrow> if length (at_acquisitions a) \<le> k then (Inl IndexError, j)
              else store_attempt H (a\<lparr>at_acquisitions := (at_acquisitions a)[k := c]\<rparr>) j))"

definition replace_release ::
  "(string \<Rightarrow> string) \<Rightarrow> rel_record \<Rightarrow> journal \<Rightarrow> (txn_error, unit, journal) outcome" where
  "replace_release H c j =
     (case release_location j (rel_id c) of Inl e \<Rightarrow> (Inl e, j)
      | Inr (plan_id, n, k) \<Rightarrow> (case get_attempt j plan_id n of Inl e \<Rightarrow> (Inl e, j)
          | Inr a \<Rightarrow> if length (at_releases a) \<le> k then (Inl IndexError, j)
              else store_attempt H (a\<lparr>at_releases := (at_releases a)[k := c]\<rparr>) j))"

definition replace_object ::
  "(string \<Rightarrow> string) \<Rightarrow> op_record \<Rightarrow> bool \<Rightarrow> journal \<Rightarrow> (txn_error, unit, journal) outcome" where
  "replace_object H p allow_recovery j =
     (case object_location j (op_id p) of Inl e \<Rightarrow> (Inl e, j)
      | Inr (plan_id, n, k) \<Rightarrow> (case get_attempt j plan_id n of Inl e \<Rightarrow> (Inl e, j)
          | Inr a \<Rightarrow>
              if at_state a = A_BLOCKED \<and> \<not> allow_recovery \<and> is_write p then (Inl JournalConflict, j)
              else if length (at_operations a) \<le> k then (Inl IndexError, j)
              else store_attempt H (a\<lparr>at_operations := (at_operations a)[k := p]\<rparr>) j))"

text \<open>The value a mutator returns once its store succeeded.\<close>

definition then_return :: "('e, unit, 's) outcome \<Rightarrow> 'a \<Rightarrow> ('e, 'a, 's) outcome" where
  "then_return r x = (case r of (Inl e, s) \<Rightarrow> (Inl e, s) | (Inr _, s) \<Rightarrow> (Inr x, s))"

section \<open>Acquisitions\<close>

text \<open>\<open>_assert_new_epoch\<close>.\<close>

definition new_epoch :: "journal \<Rightarrow> string \<Rightarrow> int \<Rightarrow> time \<Rightarrow> txn_error + unit" where
  "new_epoch j q epoch requested_at =
     (case provider_epoch_high_water j q of Inl e \<Rightarrow> Inl e
      | Inr high_water \<Rightarrow>
          if (case high_water of None \<Rightarrow> False | Some m \<Rightarrow> epoch \<le> m) then Inl JournalConflict
          else let prior_requests = map ai_requested_at (provider_intents j q) in
            if prior_requests \<noteq> [] \<and> requested_at < Max (set prior_requests) then Inl JournalConflict
            else Inr ())"

definition record_acquisition_intent ::
  "(string \<Rightarrow> string) \<Rightarrow> acq_intent \<Rightarrow> journal \<Rightarrow> (txn_error, acq_record, journal) outcome" where
  "record_acquisition_intent H i j =
     (if \<not> acq_intent_ok H i then (Inl ValueError, j)
      else case j_identity_index j (ai_operation_id i) of
        Some kind \<Rightarrow>
          (if kind = ''acquisition'' then
             (case get_acquisition j (ai_operation_id i) of Inl e \<Rightarrow> (Inl e, j)
              | Inr existing \<Rightarrow> if ac_intent existing = i then (Inr existing, j)
                               else (Inl JournalConflict, j))
           else (Inl JournalConflict, j))
      | None \<Rightarrow> (case get_attempt j (ai_plan_id i) (ai_attempt i) of Inl e \<Rightarrow> (Inl e, j)
        | Inr a \<Rightarrow>
            if at_state a = A_BLOCKED \<and> \<not> provider_needs_compensation a (ai_provider i)
            then (Inl JournalConflict, j)
            else if at_state a \<noteq> A_BLOCKED \<and> at_state a \<noteq> A_OPEN then (Inl JournalConflict, j)
            else (case new_epoch j (ai_provider i) (ai_epoch i) (ai_requested_at i) of Inl e \<Rightarrow> (Inl e, j)
            | Inr _ \<Rightarrow> (case acq_recorded H i of Inl e \<Rightarrow> (Inl e, j)
            | Inr c \<Rightarrow>
                let acquisitions = sort_key acquisition_sort_key (at_acquisitions a @ [c]);
                    updated = a\<lparr>at_acquisitions := acquisitions\<rparr> in
                (case store_attempt H updated j of (Inl e, j1) \<Rightarrow> (Inl e, j1)
                 | (Inr _, j1) \<Rightarrow> (case claim_identity (ai_operation_id i) ''acquisition'' j1 of
                     (Inl e, j2) \<Rightarrow> (Inl e, j2)
                   | (Inr _, j2) \<Rightarrow>
                       (Inr c, reindex_acquisitions updated (j2\<lparr>j_acquisition_index :=
                          (j_acquisition_index j2)(ai_operation_id i \<mapsto>
                            (ai_plan_id i, ai_attempt i, list_index acquisitions c))\<rparr>))))))))"

definition arm_acquisition ::
  "(string \<Rightarrow> string) \<Rightarrow> string \<Rightarrow> journal \<Rightarrow> (txn_error, acq_record, journal) outcome" where
  "arm_acquisition H i j =
     (case get_acquisition j i of Inl e \<Rightarrow> (Inl e, j)
      | Inr c \<Rightarrow>
          if ac_state c = F_DISPATCH_ARMED then (Inr c, j)
          else (case acq_arm H c of Inl e \<Rightarrow> (Inl e, j)
            | Inr c' \<Rightarrow> then_return (replace_acquisition H c' j) c'))"

text \<open>A transition error of \<open>acknowledge\<close> or \<open>verify\<close> is reported as a journal conflict.\<close>

definition as_conflict :: "txn_error \<Rightarrow> txn_error" where
  "as_conflict e = (if e = TransitionError then JournalConflict else e)"

definition record_acquisition_receipt ::
  "(string \<Rightarrow> string) \<Rightarrow> acq_evidence \<Rightarrow> journal \<Rightarrow> (txn_error, acq_record, journal) outcome" where
  "record_acquisition_receipt H r j =
     (if \<not> acq_evidence_ok H r then (Inl ValueError, j)
      else case get_acquisition j (acq_evidence_operation_id r) of Inl e \<Rightarrow> (Inl e, j)
      | Inr c \<Rightarrow> (case ac_receipt c of
          Some r' \<Rightarrow> if r' = r then (Inr c, j) else (Inl JournalConflict, j)
        | None \<Rightarrow>
            if \<not> receipt_unclaimed j (acq_evidence_receipt_id r) (acq_evidence_operation_id r)
            then (Inl JournalConflict, j)
            else if \<not> acq_evidence_valid_for H r (ac_intent c) then (Inl JournalConflict, j)
            else (case acq_acknowledge H c r of Inl e \<Rightarrow> (Inl (as_conflict e), j)
            | Inr c' \<Rightarrow> (case replace_acquisition H c' j of (Inl e, j1) \<Rightarrow> (Inl e, j1)
              | (Inr _, j1) \<Rightarrow> (Inr c', j1\<lparr>j_receipt_index := (j_receipt_index j1)
                  (acq_evidence_receipt_id r \<mapsto> acq_evidence_operation_id r)\<rparr>)))))"

text \<open>\<open>attempt.reason_code or reason_code\<close>.\<close>

definition first_reason :: "block_reason option \<Rightarrow> block_reason \<Rightarrow> block_reason option" where
  "first_reason old new = (case old of None \<Rightarrow> Some new | Some r \<Rightarrow> Some r)"

definition block_acquisition ::
  "(string \<Rightarrow> string) \<Rightarrow> string \<Rightarrow> block_reason \<Rightarrow> journal \<Rightarrow> (txn_error, acq_record, journal) outcome" where
  "block_acquisition H i reason j =
     (case get_acquisition j i of Inl e \<Rightarrow> (Inl e, j)
      | Inr c \<Rightarrow>
          if ac_state c = F_BLOCKED then
            (if ac_reason_code c = Some reason then (Inr c, j) else (Inl JournalConflict, j))
          else (case acquisition_location j i of Inl e \<Rightarrow> (Inl e, j)
          | Inr (plan_id, n, k) \<Rightarrow> (case get_attempt j plan_id n of Inl e \<Rightarrow> (Inl e, j)
          | Inr a \<Rightarrow> (case acq_block H c reason of Inl e \<Rightarrow> (Inl e, j)
          | Inr blocked \<Rightarrow>
              if length (at_acquisitions a) \<le> k then (Inl IndexError, j)
              else then_return (store_attempt H (a\<lparr>at_state := A_BLOCKED,
                     at_acquisitions := (at_acquisitions a)[k := blocked],
                     at_reason_code := first_reason (at_reason_code a) reason,
                     at_terminal_at := None\<rparr>) j) blocked))))"

section \<open>Releases\<close>

text \<open>The prior releases of the fence, in the order of their release attempts.\<close>

definition prior_releases :: "attempt \<Rightarrow> string \<Rightarrow> rel_record list" where
  "prior_releases a i = sort_key (\<lambda>c. ri_release_attempt (rl_intent c)) (release_chain a i)"

text \<open>The attempt a release intent grows into.\<close>

definition with_release :: "attempt \<Rightarrow> rel_record \<Rightarrow> attempt" where
  "with_release a c = a\<lparr>at_releases := sort_key release_sort_key (at_releases a @ [c]),
     at_release_phase_sequence := (if at_releases a = [] then Some (int (length (at_operations a)))
       else at_release_phase_sequence a)\<rparr>"

definition record_release_intent ::
  "(string \<Rightarrow> string) \<Rightarrow> rel_intent \<Rightarrow> journal \<Rightarrow> (txn_error, rel_record, journal) outcome" where
  "record_release_intent H i j =
     (if \<not> rel_intent_ok H i then (Inl ValueError, j)
      else case j_identity_index j (ri_operation_id i) of
        Some kind \<Rightarrow>
          (if kind = ''release'' then
             (case get_release j (ri_operation_id i) of Inl e \<Rightarrow> (Inl e, j)
              | Inr existing \<Rightarrow> if rl_intent existing = i then (Inr existing, j)
                               else (Inl JournalConflict, j))
           else (Inl JournalConflict, j))
      | None \<Rightarrow> (case get_attempt j (ri_plan_id i) (ri_attempt i) of Inl e \<Rightarrow> (Inl e, j)
        | Inr a \<Rightarrow>
            if at_state a \<noteq> A_OPEN \<and> at_state a \<noteq> A_BLOCKED then (Inl JournalConflict, j)
            else (case acquisition_by_id a (ri_acquisition_operation_id i) of None \<Rightarrow> (Inl JournalConflict, j)
            | Some acquisition \<Rightarrow>
                if \<not> release_intent_acquisition_ok i acquisition then (Inl ValueError, j)
                else if at_releases a = [] \<and>
                  (at_release_phase_sequence a \<noteq> None \<or>
                   \<not> list_all operation_effect_resolved (at_operations a))
                then (Inl JournalConflict, j)
                else if at_releases a \<noteq> [] \<and> at_release_phase_sequence a = None
                then (Inl JournalConflict, j)
                else if \<not> list_all operation_effect_resolved
                  (fenced_operations a (ri_acquisition_operation_id i))
                then (Inl JournalConflict, j)
                else let prior = prior_releases a (ri_acquisition_operation_id i) in
                  if ri_release_attempt i \<noteq> int (length prior) + 1 then (Inl JournalConflict, j)
                  else if prior \<noteq> [] \<and>
                    (case release_tombstone (last prior) of None \<Rightarrow> True
                     | Some t \<Rightarrow> ri_requested_at i < rn_durable_at t \<or>
                         \<not> same_revision (ri_expected_inventory_revision i)
                             (ri_expected_inventory_revision (rl_intent (last prior))))
                  then (Inl JournalConflict, j)
                  else (case rel_recorded H i of Inl e \<Rightarrow> (Inl e, j)
                  | Inr c \<Rightarrow>
                      let updated = with_release a c in
                      (case store_attempt H updated j of (Inl e, j1) \<Rightarrow> (Inl e, j1)
                       | (Inr _, j1) \<Rightarrow> (case claim_identity (ri_operation_id i) ''release'' j1 of
                           (Inl e, j2) \<Rightarrow> (Inl e, j2)
                         | (Inr _, j2) \<Rightarrow>
                             (Inr c, reindex_releases updated (j2\<lparr>j_release_index :=
                                (j_release_index j2)(ri_operation_id i \<mapsto>
                                  (ri_plan_id i, ri_attempt i, list_index (at_releases updated) c))\<rparr>))))))))"

definition arm_release ::
  "(string \<Rightarrow> string) \<Rightarrow> string \<Rightarrow> journal \<Rightarrow> (txn_error, rel_record, journal) outcome" where
  "arm_release H i j =
     (case get_release j i of Inl e \<Rightarrow> (Inl e, j)
      | Inr c \<Rightarrow>
          if rl_state c = F_DISPATCH_ARMED then (Inr c, j)
          else (case rel_arm H c of Inl e \<Rightarrow> (Inl e, j)
            | Inr c' \<Rightarrow> then_return (replace_release H c' j) c'))"

definition record_release_receipt ::
  "(string \<Rightarrow> string) \<Rightarrow> rel_evidence \<Rightarrow> journal \<Rightarrow> (txn_error, rel_record, journal) outcome" where
  "record_release_receipt H r j =
     (if \<not> rel_evidence_ok H r then (Inl ValueError, j)
      else case get_release j (rel_evidence_operation_id r) of Inl e \<Rightarrow> (Inl e, j)
      | Inr c \<Rightarrow> (case rl_receipt c of
          Some r' \<Rightarrow> if r' = r then (Inr c, j) else (Inl JournalConflict, j)
        | None \<Rightarrow>
            if \<not> receipt_unclaimed j (rel_evidence_receipt_id r) (rel_evidence_operation_id r)
            then (Inl JournalConflict, j)
            else if \<not> rel_evidence_valid_for H r (rl_intent c) then (Inl JournalConflict, j)
            else (case rel_acknowledge H c r of Inl e \<Rightarrow> (Inl (as_conflict e), j)
            | Inr c' \<Rightarrow> (case replace_release H c' j of (Inl e, j1) \<Rightarrow> (Inl e, j1)
              | (Inr _, j1) \<Rightarrow> (Inr c', j1\<lparr>j_receipt_index := (j_receipt_index j1)
                  (rel_evidence_receipt_id r \<mapsto> rel_evidence_operation_id r)\<rparr>)))))"

section \<open>Operations\<close>

text \<open>The provider's epochs in the earlier attempts of the plan.\<close>

definition prior_epochs :: "journal \<Rightarrow> string \<Rightarrow> int \<Rightarrow> string \<Rightarrow> int list" where
  "prior_epochs j plan_id n q =
     [ai_epoch (ac_intent c).
        a \<leftarrow> (case map_of (j_attempts j) plan_id of None \<Rightarrow> [] | Some as \<Rightarrow> as), at_attempt a < n,
        c \<leftarrow> at_acquisitions a, ai_provider (ac_intent c) = q]"

definition record_intent ::
  "(string \<Rightarrow> string) \<Rightarrow> obj_intent \<Rightarrow> journal \<Rightarrow> (txn_error, op_record, journal) outcome" where
  "record_intent H i j =
     (if \<not> obj_intent_ok H i then (Inl ValueError, j)
      else case j_identity_index j (oi_operation_id i) of
        Some kind \<Rightarrow>
          (if kind = ''object'' then
             (case get_operation j (oi_operation_id i) of Inl e \<Rightarrow> (Inl e, j)
              | Inr existing \<Rightarrow> if op_intent existing = i then (Inr existing, j)
                               else (Inl JournalConflict, j))
           else (Inl JournalConflict, j))
      | None \<Rightarrow> (case get_attempt j (oi_plan_id i) (oi_attempt i) of Inl e \<Rightarrow> (Inl e, j)
        | Inr a \<Rightarrow>
            if at_state a = A_BLOCKED \<and> oi_kind i \<noteq> ROLLBACK then (Inl JournalConflict, j)
            else if at_state a \<noteq> A_BLOCKED \<and> at_state a \<noteq> A_OPEN then (Inl JournalConflict, j)
            else if (case acquisition_by_id a (fb_acquisition_operation_id (oi_fence i)) of None \<Rightarrow> True
              | Some c \<Rightarrow> (case acknowledged_receipt c of None \<Rightarrow> True
                  | Some r \<Rightarrow> acq_receipt_binding r \<noteq> oi_fence i))
            then (Inl JournalConflict, j)
            else if release_chain a (fb_acquisition_operation_id (oi_fence i)) \<noteq> []
            then (Inl JournalConflict, j)
            else if oi_kind i = WRITE \<and> at_release_phase_sequence a \<noteq> None
            then (Inl JournalConflict, j)
            else let epochs = prior_epochs j (oi_plan_id i) (oi_attempt i) (oi_provider i) in
              if epochs \<noteq> [] \<and> fb_epoch (oi_fence i) \<le> Max (set epochs) then (Inl JournalConflict, j)
              else if oi_sequence i \<noteq> int (length (at_operations a)) + 1 then (Inl JournalConflict, j)
              else (case op_recorded H i of Inl e \<Rightarrow> (Inl e, j)
              | Inr p \<Rightarrow>
                  (case store_attempt H (a\<lparr>at_operations := at_operations a @ [p]\<rparr>) j of
                     (Inl e, j1) \<Rightarrow> (Inl e, j1)
                   | (Inr _, j1) \<Rightarrow> (case claim_identity (oi_operation_id i) ''object'' j1 of
                       (Inl e, j2) \<Rightarrow> (Inl e, j2)
                     | (Inr _, j2) \<Rightarrow>
                         (Inr p, j2\<lparr>j_object_index := (j_object_index j2)(oi_operation_id i \<mapsto>
                            (oi_plan_id i, oi_attempt i, nat (oi_sequence i - 1)))\<rparr>))))))"

definition arm_operation ::
  "(string \<Rightarrow> string) \<Rightarrow> string \<Rightarrow> authorization \<Rightarrow> journal \<Rightarrow> (txn_error, op_record, journal) outcome" where
  "arm_operation H i z j =
     (if \<not> authorization_ok H z then (Inl ValueError, j)
      else case get_operation j i of Inl e \<Rightarrow> (Inl e, j)
      | Inr p \<Rightarrow>
          if op_state p = O_DISPATCH_ARMED then
            (if op_authorization p = Some z then (Inr p, j) else (Inl JournalConflict, j))
          else if \<not> authorization_valid_for H z (op_intent p) then (Inl JournalConflict, j)
          else (case object_location j i of Inl e \<Rightarrow> (Inl e, j)
          | Inr (plan_id, n, _) \<Rightarrow> (case get_attempt j plan_id n of Inl e \<Rightarrow> (Inl e, j)
          | Inr a \<Rightarrow>
              if \<not> observation_fresh (da_observed_at z) (da_authorized_at z) a
              then (Inl JournalConflict, j)
              else if (case at_release_phase_sequence a of None \<Rightarrow> False
                | Some m \<Rightarrow> oi_sequence (op_intent p) \<le> m) then (Inl JournalConflict, j)
              else if at_state a = A_BLOCKED \<and> is_write p then (Inl JournalConflict, j)
              else if (case acquisition_by_id a (fb_acquisition_operation_id (oi_fence (op_intent p))) of
                None \<Rightarrow> True | Some c \<Rightarrow> acknowledged_receipt c = None) then (Inl JournalConflict, j)
              else if release_chain a (fb_acquisition_operation_id (oi_fence (op_intent p))) \<noteq> []
              then (Inl JournalConflict, j)
              else (case op_arm H p z of Inl e \<Rightarrow> (Inl e, j)
                | Inr p' \<Rightarrow> then_return (replace_object H p' False j) p'))))"

definition record_receipt ::
  "(string \<Rightarrow> string) \<Rightarrow> obj_receipt \<Rightarrow> journal \<Rightarrow> (txn_error, op_record, journal) outcome" where
  "record_receipt H r j =
     (if \<not> obj_receipt_ok H r then (Inl ValueError, j)
      else case get_operation j (oc_operation_id r) of Inl e \<Rightarrow> (Inl e, j)
      | Inr p \<Rightarrow> (case op_receipt p of
          Some r' \<Rightarrow> if r' = r then (Inr p, j) else (Inl JournalConflict, j)
        | None \<Rightarrow>
            if \<not> receipt_unclaimed j (oc_receipt_id r) (oc_operation_id r) then (Inl JournalConflict, j)
            else if \<not> obj_receipt_valid_for H r (op_intent p) then (Inl JournalConflict, j)
            else if (case op_authorization p of None \<Rightarrow> True
              | Some z \<Rightarrow> \<not> obj_receipt_authorized_by H r z) then (Inl JournalConflict, j)
            else (case op_acknowledge H p r of Inl e \<Rightarrow> (Inl (as_conflict e), j)
            | Inr p' \<Rightarrow> (case replace_object H p' True j of (Inl e, j1) \<Rightarrow> (Inl e, j1)
              | (Inr _, j1) \<Rightarrow> (Inr p', j1\<lparr>j_receipt_index := (j_receipt_index j1)
                  (oc_receipt_id r \<mapsto> oc_operation_id r)\<rparr>)))))"

definition record_verification ::
  "(string \<Rightarrow> string) \<Rightarrow> verification \<Rightarrow> journal \<Rightarrow> (txn_error, op_record, journal) outcome" where
  "record_verification H v j =
     (if \<not> verification_ok v then (Inl ValueError, j)
      else case get_operation j (ve_operation_id v) of Inl e \<Rightarrow> (Inl e, j)
      | Inr p \<Rightarrow>
          if v \<in> set (op_verifications p) then (Inr p, j)
          else (case get_attempt j (oi_plan_id (op_intent p)) (oi_attempt (op_intent p)) of
            Inl e \<Rightarrow> (Inl e, j)
          | Inr a \<Rightarrow>
              if at_state a = A_COMMITTED \<or> at_state a = A_RESTORED then (Inl JournalConflict, j)
              else (case op_receipt p of None \<Rightarrow> (Inl JournalConflict, j)
              | Some r \<Rightarrow>
                  if \<not> verification_valid_for H v (op_intent p) r then (Inl JournalConflict, j)
                  else (case (if op_state p = O_ACKNOWLEDGED then op_verify H p v
                         else if op_state p = O_VERIFIED then op_refresh_verification H p v
                         else Inl TransitionError) of
                    Inl e \<Rightarrow> (Inl (as_conflict e), j)
                  | Inr p' \<Rightarrow> then_return (replace_object H p' True j) p'))))"

definition block_operation ::
  "(string \<Rightarrow> string) \<Rightarrow> string \<Rightarrow> block_reason \<Rightarrow> journal \<Rightarrow> (txn_error, op_record, journal) outcome" where
  "block_operation H i reason j =
     (case get_operation j i of Inl e \<Rightarrow> (Inl e, j)
      | Inr p \<Rightarrow>
          if op_state p = O_BLOCKED then
            (if op_reason_code p = Some reason then (Inr p, j) else (Inl JournalConflict, j))
          else (case object_location j i of Inl e \<Rightarrow> (Inl e, j)
          | Inr (plan_id, n, k) \<Rightarrow> (case get_attempt j plan_id n of Inl e \<Rightarrow> (Inl e, j)
          | Inr a \<Rightarrow>
              if at_state a \<noteq> A_OPEN \<and> at_state a \<noteq> A_BLOCKED then (Inl JournalConflict, j)
              else (case op_block H p reason of Inl e \<Rightarrow> (Inl e, j)
              | Inr blocked \<Rightarrow>
                  if length (at_operations a) \<le> k then (Inl IndexError, j)
                  else then_return (store_attempt H (a\<lparr>at_state := A_BLOCKED,
                         at_operations := (at_operations a)[k := blocked],
                         at_reason_code := first_reason (at_reason_code a) reason,
                         at_terminal_at := None\<rparr>) j) blocked))))"

section \<open>Attempts\<close>

definition set_attempt_state ::
  "(string \<Rightarrow> string) \<Rightarrow> string \<Rightarrow> int \<Rightarrow> attempt_state \<Rightarrow> block_reason option \<Rightarrow> time option \<Rightarrow> journal \<Rightarrow>
   (txn_error, attempt, journal) outcome" where
  "set_attempt_state H plan_id n state reason terminal_at j =
     (case get_attempt j plan_id n of Inl e \<Rightarrow> (Inl e, j)
      | Inr current \<Rightarrow>
          if at_state current = state \<and> at_terminal_at current = terminal_at \<and>
            (at_reason_code current = reason \<or>
             state = A_RESTORED \<and> reason = None \<and> at_reason_code current \<noteq> None)
          then (Inr current, j)
          else if at_state current = A_BLOCKED \<and> state \<noteq> A_RESTORED then (Inl JournalConflict, j)
          else if at_state current \<noteq> A_BLOCKED \<and> at_state current \<noteq> A_OPEN then (Inl JournalConflict, j)
          else if state = A_OPEN then (Inl JournalConflict, j)
          else let updated = current\<lparr>at_state := state,
                 at_reason_code := (if at_state current = A_BLOCKED then at_reason_code current else reason),
                 at_terminal_at := terminal_at\<rparr>
            in then_return (store_attempt H updated j) updated)"

text \<open>\<open>_attempt_identity_rows\<close> and the loop of \<open>_assert_unclaimed_attempt\<close> over them.\<close>

definition identity_rows :: "attempt \<Rightarrow> (string \<times> string \<times> string option) list" where
  "identity_rows a =
     map (\<lambda>c. (acq_id c, ''acquisition'', map_option acq_evidence_receipt_id (ac_receipt c))) (at_acquisitions a) @
     map (\<lambda>p. (op_id p, ''object'', map_option oc_receipt_id (op_receipt p))) (at_operations a) @
     map (\<lambda>c. (rel_id c, ''release'', map_option rel_evidence_receipt_id (rl_receipt c))) (at_releases a)"

fun unclaimed_rows :: "journal \<Rightarrow> string list \<Rightarrow> string list \<Rightarrow> (string \<times> string \<times> string option) list \<Rightarrow> bool" where
  "unclaimed_rows j ids receipts [] = True"
| "unclaimed_rows j ids receipts ((i, _, r) # rows) =
     (i \<notin> set ids \<and> j_identity_index j i = None \<and>
      (case r of None \<Rightarrow> unclaimed_rows j (i # ids) receipts rows
       | Some x \<Rightarrow> x \<notin> set receipts \<and> j_receipt_index j x = None \<and>
           unclaimed_rows j (i # ids) (x # receipts) rows))"

definition unclaimed_attempt :: "journal \<Rightarrow> attempt \<Rightarrow> bool" where
  "unclaimed_attempt j a \<longleftrightarrow> unclaimed_rows j [] [] (identity_rows a)"

text \<open>\<open>_assert_prepopulated_retry_epochs\<close>.\<close>

definition attempt_epochs :: "attempt \<Rightarrow> string \<Rightarrow> int list" where
  "attempt_epochs a q = map (\<lambda>c. ai_epoch (ac_intent c)) (provider_acquisitions a q)"

definition retry_epochs_ok :: "attempt \<Rightarrow> attempt list \<Rightarrow> bool" where
  "retry_epochs_ok a previous \<longleftrightarrow>
     list_all (\<lambda>q.
       let prior = concat (map (\<lambda>b. attempt_epochs b q) previous); current = attempt_epochs a q in
       \<not> (prior \<noteq> [] \<and> current \<noteq> [] \<and> Min (set current) \<le> Max (set prior)))
     provider_manifest"

text \<open>\<open>_assert_global_epoch_history\<close>: per provider, epochs rise in the order of the requests.\<close>

definition history_key :: "acq_intent \<Rightarrow> time \<times> int \<times> string" where
  "history_key i = (ai_requested_at i, ai_epoch i, ai_operation_id i)"

definition epoch_history_ok :: "journal \<Rightarrow> attempt \<Rightarrow> bool" where
  "epoch_history_ok j a \<longleftrightarrow>
     (let all_intents = [ac_intent c. (_, as) \<leftarrow> j_attempts j, b \<leftarrow> as, c \<leftarrow> at_acquisitions b] @
            map ac_intent (at_acquisitions a) in
      list_all (\<lambda>q. successive (\<lambda>x y. ai_epoch x < ai_epoch y)
          (sort_key history_key (filter (\<lambda>i. ai_provider i = q) all_intents)))
        (map ai_provider all_intents))"

text \<open>\<open>_index_attempt\<close>: one loop per history.\<close>

definition index_receipt :: "string option \<Rightarrow> string \<Rightarrow> journal \<Rightarrow> journal" where
  "index_receipt r i j = (case r of None \<Rightarrow> j
     | Some x \<Rightarrow> j\<lparr>j_receipt_index := (j_receipt_index j)(x \<mapsto> i)\<rparr>)"

fun index_rows ::
  "string \<Rightarrow> (location \<Rightarrow> string \<Rightarrow> journal \<Rightarrow> journal) \<Rightarrow> string \<Rightarrow> int \<Rightarrow> nat \<Rightarrow> (string \<times> string option) list \<Rightarrow>
   journal \<Rightarrow> (txn_error, unit, journal) outcome" where
  "index_rows kind put plan_id n k [] j = (Inr (), j)"
| "index_rows kind put plan_id n k ((i, r) # rows) j =
     (case claim_identity i kind j of (Inl e, j1) \<Rightarrow> (Inl e, j1)
      | (Inr _, j1) \<Rightarrow> index_rows kind put plan_id n (Suc k) rows
          (index_receipt r i (put (plan_id, n, k) i j1)))"

definition put_acquisition :: "location \<Rightarrow> string \<Rightarrow> journal \<Rightarrow> journal" where
  "put_acquisition l i j = j\<lparr>j_acquisition_index := (j_acquisition_index j)(i \<mapsto> l)\<rparr>"

definition put_object :: "location \<Rightarrow> string \<Rightarrow> journal \<Rightarrow> journal" where
  "put_object l i j = j\<lparr>j_object_index := (j_object_index j)(i \<mapsto> l)\<rparr>"

definition put_release :: "location \<Rightarrow> string \<Rightarrow> journal \<Rightarrow> journal" where
  "put_release l i j = j\<lparr>j_release_index := (j_release_index j)(i \<mapsto> l)\<rparr>"

definition index_attempt :: "attempt \<Rightarrow> journal \<Rightarrow> (txn_error, unit, journal) outcome" where
  "index_attempt a j =
     (case index_rows ''acquisition'' put_acquisition (at_plan_id a) (at_attempt a) 0
        (map (\<lambda>c. (acq_id c, map_option acq_evidence_receipt_id (ac_receipt c))) (at_acquisitions a)) j of
      (Inl e, j1) \<Rightarrow> (Inl e, j1)
    | (Inr _, j1) \<Rightarrow> (case index_rows ''object'' put_object (at_plan_id a) (at_attempt a) 0
        (map (\<lambda>p. (op_id p, map_option oc_receipt_id (op_receipt p))) (at_operations a)) j1 of
      (Inl e, j2) \<Rightarrow> (Inl e, j2)
    | (Inr _, j2) \<Rightarrow> index_rows ''release'' put_release (at_plan_id a) (at_attempt a) 0
        (map (\<lambda>c. (rel_id c, map_option rel_evidence_receipt_id (rl_receipt c))) (at_releases a)) j2))"

text \<open>The retry scope tests: what the next attempt must share with the last one.\<close>

definition retry_scope :: "attempt \<Rightarrow> attempt \<Rightarrow> attempt list \<Rightarrow> txn_error + unit" where
  "retry_scope previous a attempts =
     (if at_state previous \<noteq> A_RESTORED then Inl JournalConflict
      else if at_plan_digest previous \<noteq> at_plan_digest a \<or>
        at_manifest_digest previous \<noteq> at_manifest_digest a then Inl JournalConflict
      else (case retry_expected_writes previous of Inl e \<Rightarrow> Inl e
      | Inr ws \<Rightarrow>
          if ws \<noteq> at_expected_writes a \<or>
            at_max_observation_age_seconds previous \<noteq> at_max_observation_age_seconds a
          then Inl JournalConflict
          else if \<not> retry_epochs_ok a attempts then Inl JournalConflict
          else Inr ()))"

definition append_attempt ::
  "(string \<Rightarrow> string) \<Rightarrow> attempt \<Rightarrow> journal \<Rightarrow> (txn_error, attempt, journal) outcome" where
  "append_attempt H a j =
     (if \<not> attempt_ok H a then (Inl ValueError, j)
      else let attempts = (case map_of (j_attempts j) (at_plan_id a) of None \<Rightarrow> [] | Some as \<Rightarrow> as);
               j0 = j\<lparr>j_attempts := dict_put (j_attempts j) (at_plan_id a) attempts\<rparr> in
        if at_attempt a \<le> int (length attempts) then
          (case py_at attempts (at_attempt a - 1) of None \<Rightarrow> (Inl IndexError, j0)
           | Some existing \<Rightarrow> if existing = a then (Inr existing, j0) else (Inl JournalConflict, j0))
        else if at_attempt a \<noteq> int (length attempts) + 1 then (Inl JournalConflict, j0)
        else (case (case last_option attempts of
              None \<Rightarrow> if at_attempt a \<noteq> 1 then Inl JournalConflict else Inr ()
            | Some previous \<Rightarrow> retry_scope previous a attempts) of
          Inl e \<Rightarrow> (Inl e, j0)
        | Inr _ \<Rightarrow>
            if \<not> unclaimed_attempt j0 a then (Inl JournalConflict, j0)
            else if \<not> epoch_history_ok j0 a then (Inl JournalConflict, j0)
            else then_return (index_attempt a
              (j0\<lparr>j_attempts := dict_put (j_attempts j0) (at_plan_id a) (attempts @ [a])\<rparr>)) a))"

end
