(* ===== verification/Write_Once.thy ===== *)
theory Write_Once
  imports Prelude
begin

text \<open>
  The contract of a ledger: a step never changes an entry that is present. The authority's receipt
  ledgers and the journal's evidence both satisfy it.
\<close>

locale write_once =
  fixes entry :: "'s \<Rightarrow> 'k \<Rightarrow> 'v option"
    and step :: "'s \<Rightarrow> 'o \<Rightarrow> 's"
    and ok :: "'s \<Rightarrow> bool"
  assumes ok_step: "ok s \<Longrightarrow> ok (step s x)"
    and keep: "ok s \<Longrightarrow> entry s k = Some v \<Longrightarrow> entry (step s x) k = Some v"
begin

lemma ok_run: "ok s \<Longrightarrow> ok (foldl step s xs)"
  by (induction xs arbitrary: s) (simp_all add: ok_step)

lemma run_keep: "ok s \<Longrightarrow> entry s k = Some v \<Longrightarrow> entry (foldl step s xs) k = Some v"
  by (induction xs arbitrary: s) (simp_all add: ok_step keep)

text \<open>Two observations of one entry in a run agree.\<close>

lemma run_agree:
  assumes "ok s" "entry (foldl step s xs) k = Some v" "entry (foldl step s (xs @ ys)) k = Some w"
  shows "v = w"
  using run_keep[OF ok_run[OF assms(1)] assms(2), of ys] assms(3) by simp

end

end
