(* ===== verification/Txn_Authority.thy ===== *)
theory Txn_Authority
  imports Txn_Fence Write_Once
begin

text \<open>
  \<open>InMemoryFenceAuthority\<close>: the host side of the fences, with the binding each provider currently
  holds, the epoch high-water mark per provider, and the ledgers of acquisition and release
  receipts.
\<close>

record authority =
  fa_bindings :: "string \<Rightarrow> fence_binding option"
  fa_high_water :: "string \<Rightarrow> int option"
  fa_acquisitions :: "string \<Rightarrow> acq_evidence option"
  fa_releases :: "string \<Rightarrow> rel_evidence option"
  fa_receipt_ids :: "string \<Rightarrow> string option"

definition authority_empty :: authority where
  "authority_empty = \<lparr>fa_bindings = Map.empty, fa_high_water = Map.empty,
     fa_acquisitions = Map.empty, fa_releases = Map.empty, fa_receipt_ids = Map.empty\<rparr>"

definition high_water :: "authority \<Rightarrow> string \<Rightarrow> int" where
  "high_water s q = (case fa_high_water s q of None \<Rightarrow> -1 | Some e \<Rightarrow> e)"

definition authority_put :: "fence_binding \<Rightarrow> authority \<Rightarrow> (txn_error, unit, authority) outcome" where
  "authority_put b s =
     (if \<not> fence_binding_ok b then (Inl ValueError, s)
      else if fa_bindings s (fb_provider b) = Some b then (Inr (), s)
      else if fb_epoch b \<le> high_water s (fb_provider b) then (Inl JournalConflict, s)
      else (Inr (), s\<lparr>fa_bindings := (fa_bindings s)(fb_provider b \<mapsto> b),
              fa_high_water := (fa_high_water s)(fb_provider b \<mapsto> fb_epoch b)\<rparr>))"

text \<open>The constructor: an authority that holds the given bindings.\<close>

fun authority_put_all :: "fence_binding list \<Rightarrow> authority \<Rightarrow> txn_error + authority" where
  "authority_put_all [] s = Inr s"
| "authority_put_all (b # bs) s =
     (case authority_put b s of (Inl e, _) \<Rightarrow> Inl e | (Inr _, s') \<Rightarrow> authority_put_all bs s')"

definition authority_init :: "fence_binding list \<Rightarrow> txn_error + authority" where
  "authority_init bs = authority_put_all bs authority_empty"

definition current_binding :: "authority \<Rightarrow> string \<Rightarrow> txn_error + fence_binding option" where
  "current_binding s q = checked (provider_ok q) (fa_bindings s q)"

definition acquisition_receipt :: "authority \<Rightarrow> string \<Rightarrow> txn_error + acq_evidence option" where
  "acquisition_receipt s i = checked (acquire_id_ok i) (fa_acquisitions s i)"

definition release_receipt :: "authority \<Rightarrow> string \<Rightarrow> txn_error + rel_evidence option" where
  "release_receipt s i = checked (release_id_ok i) (fa_releases s i)"

definition receipt_claimable :: "string \<Rightarrow> string \<Rightarrow> authority \<Rightarrow> bool" where
  "receipt_claimable receipt_id operation_id s \<longleftrightarrow>
     (case fa_receipt_ids s receipt_id of None \<Rightarrow> True | Some i \<Rightarrow> i = operation_id)"

definition authority_acquire ::
  "(string \<Rightarrow> string) \<Rightarrow> acq_intent \<Rightarrow> revision \<Rightarrow> revision \<Rightarrow> fence_token \<Rightarrow> time \<Rightarrow> time \<Rightarrow> time \<Rightarrow>
   authority \<Rightarrow> (txn_error, acq_receipt, authority) outcome" where
  "authority_acquire H i acquired_revision fence_revision token acquired_at acknowledged_at durable_at s =
     (if \<not> acq_intent_ok H i then (Inl ValueError, s)
      else case fa_acquisitions s (ai_operation_id i) of
        Some (AcqApplied r) \<Rightarrow>
          if acq_receipt_valid_for H r i then (Inr r, s) else (Inl ValueError, s)
      | Some (AcqNoEffect r) \<Rightarrow> (Inl JournalConflict, s)
      | None \<Rightarrow>
          if fa_bindings s (ai_provider i) \<noteq> None then (Inl JournalConflict, s)
          else if ai_epoch i \<le> high_water s (ai_provider i) then (Inl JournalConflict, s)
          else (case acq_receipt_create H i acquired_revision fence_revision token acquired_at
                  acknowledged_at durable_at of
              Inl e \<Rightarrow> (Inl e, s)
            | Inr r \<Rightarrow>
                if \<not> receipt_claimable (ar_receipt_id r) (ai_operation_id i) s
                then (Inl JournalConflict, s)
                else (Inr r, s\<lparr>
                  fa_receipt_ids := (fa_receipt_ids s)(ar_receipt_id r \<mapsto> ai_operation_id i),
                  fa_acquisitions := (fa_acquisitions s)(ai_operation_id i \<mapsto> AcqApplied r),
                  fa_bindings := (fa_bindings s)(ai_provider i \<mapsto> acq_receipt_binding r),
                  fa_high_water := (fa_high_water s)(ai_provider i \<mapsto> ai_epoch i)\<rparr>)))"

definition authority_tombstone_acquisition ::
  "(string \<Rightarrow> string) \<Rightarrow> acq_intent \<Rightarrow> time \<Rightarrow> time \<Rightarrow> authority \<Rightarrow>
   (txn_error, acq_no_effect, authority) outcome" where
  "authority_tombstone_acquisition H i acknowledged_at durable_at s =
     (if \<not> acq_intent_ok H i then (Inl ValueError, s)
      else case fa_acquisitions s (ai_operation_id i) of
        Some (AcqNoEffect r) \<Rightarrow>
          if acq_no_effect_valid_for H r i then (Inr r, s) else (Inl ValueError, s)
      | Some (AcqApplied r) \<Rightarrow> (Inl JournalConflict, s)
      | None \<Rightarrow>
          if (case fa_bindings s (ai_provider i) of None \<Rightarrow> False
              | Some b \<Rightarrow> fb_acquisition_operation_id b = ai_operation_id i)
          then (Inl JournalConflict, s)
          else (case acq_no_effect_create H i acknowledged_at durable_at of
              Inl e \<Rightarrow> (Inl e, s)
            | Inr r \<Rightarrow>
                if \<not> receipt_claimable (an_receipt_id r) (ai_operation_id i) s
                then (Inl JournalConflict, s)
                else (Inr r, s\<lparr>
                  fa_receipt_ids := (fa_receipt_ids s)(an_receipt_id r \<mapsto> ai_operation_id i),
                  fa_acquisitions := (fa_acquisitions s)(ai_operation_id i \<mapsto> AcqNoEffect r),
                  fa_high_water := (fa_high_water s)
                    (ai_provider i \<mapsto> max (ai_epoch i) (high_water s (ai_provider i)))\<rparr>)))"

text \<open>The two ownership tests of a release and of its tombstone.\<close>

definition release_owns :: "fence_binding option \<Rightarrow> rel_intent \<Rightarrow> bool" where
  "release_owns current i \<longleftrightarrow>
     (case current of None \<Rightarrow> False
      | Some b \<Rightarrow>
          fb_acquisition_operation_id b = ri_acquisition_operation_id i \<and>
          fb_acquisition_receipt_id b = ri_acquisition_receipt_id i \<and>
          fb_acquisition_receipt_digest b = ri_acquisition_receipt_digest i \<and>
          fb_token_digest b = ri_token_digest i \<and>
          fb_epoch b = ri_epoch i)"

definition binding_matches_release :: "fence_binding option \<Rightarrow> rel_intent \<Rightarrow> bool" where
  "binding_matches_release current i \<longleftrightarrow>
     (case current of None \<Rightarrow> False
      | Some b \<Rightarrow>
          fb_provider b = ri_provider i \<and>
          fb_writer_id b = ri_writer_id i \<and>
          fb_token_digest b = ri_token_digest i \<and>
          fb_epoch b = ri_epoch i \<and>
          fb_scope_digest b = ri_scope_digest i \<and>
          fb_acquisition_operation_id b = ri_acquisition_operation_id i \<and>
          fb_acquisition_receipt_id b = ri_acquisition_receipt_id i \<and>
          fb_acquisition_receipt_digest b = ri_acquisition_receipt_digest i)"

definition authority_release ::
  "(string \<Rightarrow> string) \<Rightarrow> rel_intent \<Rightarrow> revision \<Rightarrow> time \<Rightarrow> time \<Rightarrow> time \<Rightarrow> authority \<Rightarrow>
   (txn_error, rel_receipt, authority) outcome" where
  "authority_release H i final_revision released_at acknowledged_at durable_at s =
     (if \<not> rel_intent_ok H i then (Inl ValueError, s)
      else case fa_releases s (ri_operation_id i) of
        Some (RelApplied r) \<Rightarrow>
          if rel_receipt_valid_for H r i then (Inr r, s) else (Inl ValueError, s)
      | Some (RelNoEffect r) \<Rightarrow> (Inl JournalConflict, s)
      | None \<Rightarrow>
          if \<not> release_owns (fa_bindings s (ri_provider i)) i then (Inl JournalConflict, s)
          else if (case fa_bindings s (ri_provider i) of None \<Rightarrow> False
                   | Some b \<Rightarrow> ri_requested_at i < fb_acquired_at b)
          then (Inl JournalConflict, s)
          else (case rel_receipt_create H i final_revision released_at acknowledged_at durable_at of
              Inl e \<Rightarrow> (Inl e, s)
            | Inr r \<Rightarrow>
                if \<not> receipt_claimable (rr_receipt_id r) (ri_operation_id i) s
                then (Inl JournalConflict, s)
                else (Inr r, s\<lparr>
                  fa_receipt_ids := (fa_receipt_ids s)(rr_receipt_id r \<mapsto> ri_operation_id i),
                  fa_releases := (fa_releases s)(ri_operation_id i \<mapsto> RelApplied r),
                  fa_bindings := (fa_bindings s)(ri_provider i := None)\<rparr>)))"

definition authority_tombstone_release ::
  "(string \<Rightarrow> string) \<Rightarrow> rel_intent \<Rightarrow> time \<Rightarrow> time \<Rightarrow> authority \<Rightarrow>
   (txn_error, rel_no_effect, authority) outcome" where
  "authority_tombstone_release H i acknowledged_at durable_at s =
     (if \<not> rel_intent_ok H i then (Inl ValueError, s)
      else case fa_releases s (ri_operation_id i) of
        Some (RelNoEffect r) \<Rightarrow>
          if rel_no_effect_valid_for H r i then (Inr r, s) else (Inl ValueError, s)
      | Some (RelApplied r) \<Rightarrow> (Inl JournalConflict, s)
      | None \<Rightarrow>
          if \<not> binding_matches_release (fa_bindings s (ri_provider i)) i then (Inl JournalConflict, s)
          else (case rel_no_effect_create H i acknowledged_at durable_at of
              Inl e \<Rightarrow> (Inl e, s)
            | Inr r \<Rightarrow>
                if \<not> receipt_claimable (rn_receipt_id r) (ri_operation_id i) s
                then (Inl JournalConflict, s)
                else (Inr r, s\<lparr>
                  fa_receipt_ids := (fa_receipt_ids s)(rn_receipt_id r \<mapsto> ri_operation_id i),
                  fa_releases := (fa_releases s)(ri_operation_id i \<mapsto> RelNoEffect r)\<rparr>)))"

section \<open>Runs\<close>

datatype authority_op =
    Acquire acq_intent revision revision fence_token time time time
  | TombstoneAcquisition acq_intent time time
  | Release rel_intent revision time time time
  | TombstoneRelease rel_intent time time

fun authority_step :: "(string \<Rightarrow> string) \<Rightarrow> authority \<Rightarrow> authority_op \<Rightarrow> authority" where
  "authority_step H s (Acquire i v f t x y z) = snd (authority_acquire H i v f t x y z s)"
| "authority_step H s (TombstoneAcquisition i y z) = snd (authority_tombstone_acquisition H i y z s)"
| "authority_step H s (Release i v x y z) = snd (authority_release H i v x y z s)"
| "authority_step H s (TombstoneRelease i y z) = snd (authority_tombstone_release H i y z s)"

abbreviation authority_run :: "(string \<Rightarrow> string) \<Rightarrow> authority_op list \<Rightarrow> authority" where
  "authority_run H ops \<equiv> foldl (authority_step H) authority_empty ops"

section \<open>The ledgers are write-once\<close>

lemma acquire_cases:
  obtains (same) "snd (authority_acquire H i v f t x y z s) = s"
  | (new) r where "authority_acquire H i v f t x y z s = (Inr r, s\<lparr>
        fa_receipt_ids := (fa_receipt_ids s)(ar_receipt_id r \<mapsto> ai_operation_id i),
        fa_acquisitions := (fa_acquisitions s)(ai_operation_id i \<mapsto> AcqApplied r),
        fa_bindings := (fa_bindings s)(ai_provider i \<mapsto> acq_receipt_binding r),
        fa_high_water := (fa_high_water s)(ai_provider i \<mapsto> ai_epoch i)\<rparr>)"
      "fa_acquisitions s (ai_operation_id i) = None" "fa_bindings s (ai_provider i) = None"
      "high_water s (ai_provider i) < ai_epoch i" "acq_receipt_valid_for H r i"
proof (cases "authority_acquire H i v f t x y z s")
  case (Pair res s')
  with same new show ?thesis
    by (auto simp: authority_acquire_def acq_receipt_create_def Let_def not_le
        split: if_splits option.splits acq_evidence.splits sum.splits)
qed

lemma tombstone_acquisition_cases:
  obtains (same) "snd (authority_tombstone_acquisition H i y z s) = s"
  | (new) r where "snd (authority_tombstone_acquisition H i y z s) = s\<lparr>
        fa_receipt_ids := (fa_receipt_ids s)(an_receipt_id r \<mapsto> ai_operation_id i),
        fa_acquisitions := (fa_acquisitions s)(ai_operation_id i \<mapsto> AcqNoEffect r),
        fa_high_water := (fa_high_water s)
          (ai_provider i \<mapsto> max (ai_epoch i) (high_water s (ai_provider i)))\<rparr>"
      "fa_acquisitions s (ai_operation_id i) = None"
proof (cases "authority_tombstone_acquisition H i y z s")
  case (Pair res s')
  with same new show ?thesis
    by (auto simp: authority_tombstone_acquisition_def acq_no_effect_create_def Let_def
        split: if_splits option.splits acq_evidence.splits sum.splits)
qed

lemma release_cases:
  obtains (same) "snd (authority_release H i v x y z s) = s"
  | (new) r b where "snd (authority_release H i v x y z s) = s\<lparr>
        fa_receipt_ids := (fa_receipt_ids s)(rr_receipt_id r \<mapsto> ri_operation_id i),
        fa_releases := (fa_releases s)(ri_operation_id i \<mapsto> RelApplied r),
        fa_bindings := (fa_bindings s)(ri_provider i := None)\<rparr>"
      "fa_releases s (ri_operation_id i) = None" "fa_bindings s (ri_provider i) = Some b"
      "fb_acquisition_operation_id b = ri_acquisition_operation_id i" "rel_receipt_valid_for H r i"
proof (cases "authority_release H i v x y z s")
  case (Pair res s')
  with same new show ?thesis
    by (auto simp: authority_release_def rel_receipt_create_def release_owns_def Let_def
        split: if_splits option.splits rel_evidence.splits sum.splits)
qed

lemma tombstone_release_cases:
  obtains (same) "snd (authority_tombstone_release H i y z s) = s"
  | (new) r where "snd (authority_tombstone_release H i y z s) = s\<lparr>
        fa_receipt_ids := (fa_receipt_ids s)(rn_receipt_id r \<mapsto> ri_operation_id i),
        fa_releases := (fa_releases s)(ri_operation_id i \<mapsto> RelNoEffect r)\<rparr>"
      "fa_releases s (ri_operation_id i) = None"
proof (cases "authority_tombstone_release H i y z s")
  case (Pair res s')
  with same new show ?thesis
    by (auto simp: authority_tombstone_release_def rel_no_effect_create_def Let_def
        split: if_splits option.splits rel_evidence.splits sum.splits)
qed

lemma step_keeps_acquisitions:
  "fa_acquisitions s k = Some e \<Longrightarrow> fa_acquisitions (authority_step H s x) k = Some e"
proof (cases x)
  case (Acquire i v f t a b c)
  assume "fa_acquisitions s k = Some e"
  then show ?thesis
    unfolding Acquire authority_step.simps by (cases rule: acquire_cases[of H i v f t a b c s]) auto
next
  case (TombstoneAcquisition i a b)
  assume "fa_acquisitions s k = Some e"
  then show ?thesis unfolding TombstoneAcquisition authority_step.simps
    by (cases rule: tombstone_acquisition_cases[of H i a b s]) auto
next
  case (Release i v a b c)
  assume "fa_acquisitions s k = Some e"
  then show ?thesis unfolding Release authority_step.simps
    by (cases rule: release_cases[of H i v a b c s]) auto
next
  case (TombstoneRelease i a b)
  assume "fa_acquisitions s k = Some e"
  then show ?thesis unfolding TombstoneRelease authority_step.simps
    by (cases rule: tombstone_release_cases[of H i a b s]) auto
qed

lemma step_keeps_releases:
  "fa_releases s k = Some e \<Longrightarrow> fa_releases (authority_step H s x) k = Some e"
proof (cases x)
  case (Acquire i v f t a b c)
  assume "fa_releases s k = Some e"
  then show ?thesis
    unfolding Acquire authority_step.simps by (cases rule: acquire_cases[of H i v f t a b c s]) auto
next
  case (TombstoneAcquisition i a b)
  assume "fa_releases s k = Some e"
  then show ?thesis unfolding TombstoneAcquisition authority_step.simps
    by (cases rule: tombstone_acquisition_cases[of H i a b s]) auto
next
  case (Release i v a b c)
  assume "fa_releases s k = Some e"
  then show ?thesis unfolding Release authority_step.simps
    by (cases rule: release_cases[of H i v a b c s]) auto
next
  case (TombstoneRelease i a b)
  assume "fa_releases s k = Some e"
  then show ?thesis unfolding TombstoneRelease authority_step.simps
    by (cases rule: tombstone_release_cases[of H i a b s]) auto
qed

interpretation acquisition_ledger: write_once fa_acquisitions "authority_step H" "\<lambda>_. True" for H
  by unfold_locales (simp_all add: step_keeps_acquisitions)

interpretation release_ledger: write_once fa_releases "authority_step H" "\<lambda>_. True" for H
  by unfold_locales (simp_all add: step_keeps_releases)

section \<open>One owner per provider\<close>

definition released :: "authority \<Rightarrow> string \<Rightarrow> bool" where
  "released s i \<longleftrightarrow> (\<exists>j q. fa_releases s j = Some (RelApplied q) \<and> rr_acquisition_operation_id q = i)"

text \<open>A held binding is the receipt of an applied acquisition that no release has undone.\<close>

definition bindings_inv :: "authority \<Rightarrow> bool" where
  "bindings_inv s \<longleftrightarrow> (\<forall>q b. fa_bindings s q = Some b \<longrightarrow>
     (\<exists>r. fa_acquisitions s (fb_acquisition_operation_id b) = Some (AcqApplied r) \<and>
        acq_receipt_binding r = b \<and> ar_provider r = q) \<and>
     \<not> released s (fb_acquisition_operation_id b))"

text \<open>Every applied acquisition is held or released, under the high-water mark.\<close>

definition acquisitions_inv :: "authority \<Rightarrow> bool" where
  "acquisitions_inv s \<longleftrightarrow> (\<forall>i r. fa_acquisitions s i = Some (AcqApplied r) \<longrightarrow>
     ar_operation_id r = i \<and> ar_epoch r \<le> high_water s (ar_provider r) \<and>
     (fa_bindings s (ar_provider r) = Some (acq_receipt_binding r) \<or> released s i))"

definition releases_inv :: "authority \<Rightarrow> bool" where
  "releases_inv s \<longleftrightarrow> (\<forall>j q. fa_releases s j = Some (RelApplied q) \<longrightarrow>
     (\<exists>r. fa_acquisitions s (rr_acquisition_operation_id q) = Some (AcqApplied r)))"

definition release_unique :: "authority \<Rightarrow> bool" where
  "release_unique s \<longleftrightarrow> (\<forall>j j' q q'. fa_releases s j = Some (RelApplied q) \<longrightarrow>
     fa_releases s j' = Some (RelApplied q') \<longrightarrow>
     rr_acquisition_operation_id q = rr_acquisition_operation_id q' \<longrightarrow> j = j')"

definition epoch_unique :: "authority \<Rightarrow> bool" where
  "epoch_unique s \<longleftrightarrow> (\<forall>i i' r r'. fa_acquisitions s i = Some (AcqApplied r) \<longrightarrow>
     fa_acquisitions s i' = Some (AcqApplied r') \<longrightarrow>
     ar_provider r = ar_provider r' \<longrightarrow> ar_epoch r = ar_epoch r' \<longrightarrow> i = i')"

definition authority_inv :: "authority \<Rightarrow> bool" where
  "authority_inv s \<longleftrightarrow> bindings_inv s \<and> acquisitions_inv s \<and> releases_inv s \<and> release_unique s \<and>
     epoch_unique s"

lemmas authority_inv_defs = bindings_inv_def acquisitions_inv_def releases_inv_def release_unique_def
  epoch_unique_def

lemma binding_fields [simp]:
  "fb_acquisition_operation_id (acq_receipt_binding r) = ar_operation_id r"
  "fb_provider (acq_receipt_binding r) = ar_provider r" "fb_epoch (acq_receipt_binding r) = ar_epoch r"
  by (simp_all add: acq_receipt_binding_def)

lemma inv_empty: "authority_inv authority_empty"
  by (simp add: authority_inv_def authority_inv_defs authority_empty_def)

lemma inv_acquire:
  assumes inv: "authority_inv s"
  shows "authority_inv (snd (authority_acquire H i v f t x y z s))"
proof (cases rule: acquire_cases[of H i v f t x y z s])
  case (new r)
  define s' where "s' = snd (authority_acquire H i v f t x y z s)"
  have s': "fa_acquisitions s' = (fa_acquisitions s)(ai_operation_id i \<mapsto> AcqApplied r)"
    "fa_bindings s' = (fa_bindings s)(ai_provider i \<mapsto> acq_receipt_binding r)"
    "fa_releases s' = fa_releases s"
    "high_water s' q = (if q = ai_provider i then ai_epoch i else high_water s q)" for q
    by (simp_all add: s'_def new(1) high_water_def)
  have r: "ar_operation_id r = ai_operation_id i" "ar_provider r = ai_provider i" "ar_epoch r = ai_epoch i"
    using new(5) by (auto simp: acq_receipt_valid_for_def)
  have rel: "released s' = released s" by (simp add: fun_eq_iff released_def s'(3))
  have b: "bindings_inv s" "acquisitions_inv s" "releases_inv s" "release_unique s" "epoch_unique s"
    using inv by (simp_all add: authority_inv_def)
  have fresh: "\<not> released s (ai_operation_id i)"
    using b(3) new(2) by (force simp: releases_inv_def released_def)
  have "bindings_inv s'"
    unfolding bindings_inv_def
  proof (intro allI impI)
    fix q d assume d: "fa_bindings s' q = Some d"
    show "(\<exists>r. fa_acquisitions s' (fb_acquisition_operation_id d) = Some (AcqApplied r) \<and>
        acq_receipt_binding r = d \<and> ar_provider r = q) \<and> \<not> released s' (fb_acquisition_operation_id d)"
    proof (cases "q = ai_provider i")
      case True
      then show ?thesis using d r fresh by (auto simp: s' rel)
    next
      case False
      then obtain w where w: "fa_acquisitions s (fb_acquisition_operation_id d) = Some (AcqApplied w)"
          "acq_receipt_binding w = d" "ar_provider w = q" "\<not> released s (fb_acquisition_operation_id d)"
        using b(1) d by (auto simp: bindings_inv_def s'(2))
      moreover have "fb_acquisition_operation_id d \<noteq> ai_operation_id i" using w(1) new(2) by auto
      ultimately show ?thesis by (simp add: s'(1) rel)
    qed
  qed
  moreover have "acquisitions_inv s'"
    unfolding acquisitions_inv_def
  proof (intro allI impI)
    fix k w assume k: "fa_acquisitions s' k = Some (AcqApplied w)"
    show "ar_operation_id w = k \<and> ar_epoch w \<le> high_water s' (ar_provider w) \<and>
        (fa_bindings s' (ar_provider w) = Some (acq_receipt_binding w) \<or> released s' k)"
    proof (cases "k = ai_operation_id i")
      case True
      then show ?thesis using k r by (auto simp: s' rel)
    next
      case False
      then have "fa_acquisitions s k = Some (AcqApplied w)" using k by (simp add: s'(1))
      then have "ar_operation_id w = k" "ar_epoch w \<le> high_water s (ar_provider w)"
          "fa_bindings s (ar_provider w) = Some (acq_receipt_binding w) \<or> released s k"
        using b(2) by (auto simp: acquisitions_inv_def)
      then show ?thesis using new(3,4) by (auto simp: s' rel)
    qed
  qed
  moreover have "releases_inv s'" using b(3) by (auto simp: releases_inv_def s')
  moreover have "release_unique s'" using b(4) by (simp add: release_unique_def s')
  moreover have "epoch_unique s'"
    using b(5) b(2) r new(4) by (fastforce simp: epoch_unique_def acquisitions_inv_def s')
  ultimately show ?thesis by (simp add: authority_inv_def s'_def)
qed (use assms in simp)

lemma inv_tombstone_acquisition:
  assumes inv: "authority_inv s"
  shows "authority_inv (snd (authority_tombstone_acquisition H i y z s))"
proof (cases rule: tombstone_acquisition_cases[of H i y z s])
  case (new r)
  define s' where "s' = snd (authority_tombstone_acquisition H i y z s)"
  have s': "fa_acquisitions s' = (fa_acquisitions s)(ai_operation_id i \<mapsto> AcqNoEffect r)"
    "fa_bindings s' = fa_bindings s" "fa_releases s' = fa_releases s"
    "high_water s q \<le> high_water s' q" for q
    by (simp_all add: s'_def new(1) high_water_def)
  have rel: "released s' = released s" by (simp add: fun_eq_iff released_def s'(3))
  have applied: "fa_acquisitions s' k = Some (AcqApplied u) \<longleftrightarrow> fa_acquisitions s k = Some (AcqApplied u)" for k u
    using new(2) by (auto simp: s'(1))
  have b: "bindings_inv s" "acquisitions_inv s" "releases_inv s" "release_unique s" "epoch_unique s"
    using inv by (simp_all add: authority_inv_def)
  have "acquisitions_inv s'"
    using b(2) s'(4) by (auto simp: acquisitions_inv_def applied s'(2) rel intro: order_trans)
  with b show ?thesis unfolding s'_def[symmetric]
    by (simp add: authority_inv_def bindings_inv_def releases_inv_def release_unique_def epoch_unique_def
        applied s'(2,3) rel)
qed (use assms in simp)

lemma inv_release:
  assumes inv: "authority_inv s"
  shows "authority_inv (snd (authority_release H i v x y z s))"
proof (cases rule: release_cases[of H i v x y z s])
  case (new r b)
  define s' where "s' = snd (authority_release H i v x y z s)"
  let ?a = "fb_acquisition_operation_id b"
  have s': "fa_acquisitions s' = fa_acquisitions s"
    "fa_bindings s' = (fa_bindings s)(ri_provider i := None)"
    "fa_releases s' = (fa_releases s)(ri_operation_id i \<mapsto> RelApplied r)" "high_water s' = high_water s"
    by (simp_all add: s'_def new(1) high_water_def fun_eq_iff)
  have r: "rr_acquisition_operation_id r = ?a"
    using new(4,5) by (simp add: rel_receipt_valid_for_def)
  have rel: "released s' k \<longleftrightarrow> released s k \<or> k = ?a" for k
  proof
    assume "released s' k" then show "released s k \<or> k = ?a"
      using r by (auto simp: released_def s'(3) split: if_splits)
  next
    assume "released s k \<or> k = ?a"
    then show "released s' k"
    proof
      assume "released s k"
      then obtain j q where "fa_releases s j = Some (RelApplied q)" "rr_acquisition_operation_id q = k"
        by (auto simp: released_def)
      moreover from this have "j \<noteq> ri_operation_id i" using new(2) by auto
      ultimately show ?thesis unfolding released_def s'(3) by (intro exI[of _ j] exI[of _ q]) simp
    next
      assume "k = ?a"
      then show ?thesis unfolding released_def s'(3)
        using r by (intro exI[of _ "ri_operation_id i"] exI[of _ r]) simp
    qed
  qed
  have c: "bindings_inv s" "acquisitions_inv s" "releases_inv s" "release_unique s" "epoch_unique s"
    using inv by (simp_all add: authority_inv_def)
  obtain u where u: "fa_acquisitions s ?a = Some (AcqApplied u)" "acq_receipt_binding u = b"
      "ar_provider u = ri_provider i" "\<not> released s ?a"
    using c(1) new(3) by (auto simp: bindings_inv_def)
  have "bindings_inv s'"
    unfolding bindings_inv_def
  proof (intro allI impI)
    fix q d assume d: "fa_bindings s' q = Some d"
    then have q: "q \<noteq> ri_provider i" "fa_bindings s q = Some d" by (auto simp: s'(2) split: if_splits)
    then obtain w where w: "fa_acquisitions s (fb_acquisition_operation_id d) = Some (AcqApplied w)"
        "acq_receipt_binding w = d" "ar_provider w = q" "\<not> released s (fb_acquisition_operation_id d)"
      using c(1) by (auto simp: bindings_inv_def)
    have "fb_acquisition_operation_id d \<noteq> ?a" using w(1,3) u(1,3) q(1) by auto
    with w show "(\<exists>r. fa_acquisitions s' (fb_acquisition_operation_id d) = Some (AcqApplied r) \<and>
        acq_receipt_binding r = d \<and> ar_provider r = q) \<and> \<not> released s' (fb_acquisition_operation_id d)"
      by (simp add: s'(1) rel)
  qed
  moreover have "acquisitions_inv s'"
    unfolding acquisitions_inv_def
  proof (intro allI impI)
    fix k w assume "fa_acquisitions s' k = Some (AcqApplied w)"
    then have w: "ar_operation_id w = k" "ar_epoch w \<le> high_water s (ar_provider w)"
        "fa_bindings s (ar_provider w) = Some (acq_receipt_binding w) \<or> released s k"
      using c(2) by (auto simp: acquisitions_inv_def s'(1))
    moreover have "k = ?a" if "ar_provider w = ri_provider i" "fa_bindings s (ar_provider w) = Some (acq_receipt_binding w)"
      using that new(3) w(1) by (metis binding_fields(1) option.inject)
    ultimately show "ar_operation_id w = k \<and> ar_epoch w \<le> high_water s' (ar_provider w) \<and>
        (fa_bindings s' (ar_provider w) = Some (acq_receipt_binding w) \<or> released s' k)"
      by (auto simp: s'(2,4) rel)
  qed
  moreover have "releases_inv s'" using c(3) u(1) r by (auto simp: releases_inv_def s')
  moreover have "release_unique s'"
  proof -
    have "rr_acquisition_operation_id q \<noteq> ?a" if "fa_releases s j = Some (RelApplied q)" for j q
      using u(4) that by (auto simp: released_def)
    then show ?thesis using c(4) r by (simp add: release_unique_def s'(3)) metis
  qed
  moreover have "epoch_unique s'" using c(5) by (simp add: epoch_unique_def s'(1))
  ultimately show ?thesis by (simp add: authority_inv_def s'_def)
qed (use assms in simp)

lemma inv_tombstone_release:
  assumes inv: "authority_inv s"
  shows "authority_inv (snd (authority_tombstone_release H i y z s))"
proof (cases rule: tombstone_release_cases[of H i y z s])
  case (new r)
  define s' where "s' = snd (authority_tombstone_release H i y z s)"
  have s': "fa_acquisitions s' = fa_acquisitions s" "fa_bindings s' = fa_bindings s"
    "fa_releases s' = (fa_releases s)(ri_operation_id i \<mapsto> RelNoEffect r)" "high_water s' = high_water s"
    by (simp_all add: s'_def new(1) high_water_def fun_eq_iff)
  have applied: "fa_releases s' k = Some (RelApplied u) \<longleftrightarrow> fa_releases s k = Some (RelApplied u)" for k u
    using new(2) by (auto simp: s'(3))
  have rel: "released s' = released s" by (simp add: fun_eq_iff released_def applied)
  from inv show ?thesis unfolding s'_def[symmetric]
    by (simp add: authority_inv_def authority_inv_defs applied s'(1,2,4) rel)
qed (use assms in simp)

lemma authority_inv_run: "authority_inv (authority_run H ops)"
proof -
  have step: "authority_inv s \<Longrightarrow> authority_inv (authority_step H s x)" for s x
    by (cases x) (simp_all add: inv_acquire inv_tombstone_acquisition inv_release inv_tombstone_release)
  have "authority_inv s \<Longrightarrow> authority_inv (foldl (authority_step H) s ops)" for s
    by (induction ops arbitrary: s) (simp_all add: step)
  with inv_empty show ?thesis by blast
qed

lemma authority_acquisitionD:
  assumes "authority_inv s" "fa_acquisitions s i = Some (AcqApplied r)"
  shows "ar_operation_id r = i" "ar_epoch r \<le> high_water s (ar_provider r)"
    "fa_bindings s (ar_provider r) = Some (acq_receipt_binding r) \<or> released s i"
  using assms unfolding authority_inv_def acquisitions_inv_def by blast+

lemma authority_heldD:
  assumes "authority_inv s" "fa_bindings s q = Some b"
  shows "\<not> released s (fb_acquisition_operation_id b)"
  using assms unfolding authority_inv_def bindings_inv_def by blast

end
