(* ===== verification/Txn_Recorder.thy ===== *)
theory Txn_Recorder
  imports Txn_Journal Txn_Authority
begin

text \<open>
  \<open>BridgeTransactionRecorder\<close>: the client of the journal and of the fence authority that decides
  when an effect may be dispatched. Every method takes the freshness bound of the recorder
  (\<open>max_age\<close>, in seconds), reads the authority \<open>s\<close> and threads the journal \<open>j\<close>; the authority is
  never changed here.
\<close>

text \<open>\<open>_freshness_seconds\<close>: the constructor's \<open>timedelta\<close>, in microseconds.\<close>

definition freshness_seconds :: "int \<Rightarrow> txn_error + int" where
  "freshness_seconds us =
     (if us mod 1000000 \<noteq> 0 then Inl ValueError
      else checked (freshness_ok (us div 1000000)) (us div 1000000))"

section \<open>Shared guards\<close>

definition attempt_for_intent :: "int \<Rightarrow> obj_intent \<Rightarrow> journal \<Rightarrow> txn_error + attempt" where
  "attempt_for_intent max_age i j =
     (case get_attempt j (oi_plan_id i) (oi_attempt i) of Inl e \<Rightarrow> Inl e
      | Inr a \<Rightarrow> if at_max_observation_age_seconds a \<noteq> max_age
          then Inl (TransactionBlocked LIFECYCLE_MISMATCH) else Inr a)"

definition require_current_live_fence :: "authority \<Rightarrow> fence_binding \<Rightarrow> time \<Rightarrow> txn_error + unit" where
  "require_current_live_fence s fence at =
     (case current_binding s (fb_provider fence) of Inl e \<Rightarrow> Inl e
      | Inr b \<Rightarrow>
          if b \<noteq> Some fence then Inl (TransactionBlocked STALE_FENCE)
          else if \<not> fence_live_at fence at then Inl (TransactionBlocked EXPIRED_FENCE)
          else Inr ())"

text \<open>\<open>_block\<close>, and its counterpart that raises the reason it has recorded.\<close>

definition recorder_block ::
  "(string \<Rightarrow> string) \<Rightarrow> string \<Rightarrow> block_reason \<Rightarrow> journal \<Rightarrow> (txn_error, reconciliation_action, journal) outcome" where
  "recorder_block H i reason j =
     (case block_operation H i reason j of (Inl e, j1) \<Rightarrow> (Inl e, j1) | (Inr _, j1) \<Rightarrow> (Inr BLOCK, j1))"

definition block_and_raise ::
  "(string \<Rightarrow> string) \<Rightarrow> string \<Rightarrow> block_reason \<Rightarrow> journal \<Rightarrow> (txn_error, 'a, journal) outcome" where
  "block_and_raise H i reason j =
     (case block_operation H i reason j of (Inl e, j1) \<Rightarrow> (Inl e, j1)
      | (Inr _, j1) \<Rightarrow> (Inl (TransactionBlocked reason), j1))"

section \<open>Attempts\<close>

definition begin_attempt ::
  "(string \<Rightarrow> string) \<Rightarrow> int \<Rightarrow> string \<Rightarrow> string \<Rightarrow> string \<Rightarrow> int \<Rightarrow> expected_write list \<Rightarrow> journal \<Rightarrow>
   (txn_error, attempt, journal) outcome" where
  "begin_attempt H max_age plan_id plan_digest manifest_digest attempt expected_writes j =
     (case attempt_open H plan_id plan_digest manifest_digest attempt max_age expected_writes of
        Inl e \<Rightarrow> (Inl e, j)
      | Inr a \<Rightarrow> append_attempt H a j)"

definition finish_attempt ::
  "(string \<Rightarrow> string) \<Rightarrow> int \<Rightarrow> string \<Rightarrow> int \<Rightarrow> attempt_state \<Rightarrow> time \<Rightarrow> journal \<Rightarrow>
   (txn_error, attempt, journal) outcome" where
  "finish_attempt H max_age plan_id attempt state at j =
     (if state \<noteq> A_COMMITTED \<and> state \<noteq> A_RESTORED then (Inl ValueError, j)
      else case get_attempt j plan_id attempt of Inl e \<Rightarrow> (Inl e, j)
      | Inr current \<Rightarrow>
          if at_max_observation_age_seconds current \<noteq> max_age
          then (Inl (TransactionBlocked LIFECYCLE_MISMATCH), j)
          else set_attempt_state H plan_id attempt state None (Some at) j)"

section \<open>Fences\<close>

definition prepare_acquisition ::
  "(string \<Rightarrow> string) \<Rightarrow> acq_intent \<Rightarrow> journal \<Rightarrow> (txn_error, acq_record, journal) outcome" where
  "prepare_acquisition H i j = record_acquisition_intent H i j"

definition reconcile_acquisition ::
  "(string \<Rightarrow> string) \<Rightarrow> authority \<Rightarrow> string \<Rightarrow> time \<Rightarrow> journal \<Rightarrow>
   (txn_error, reconciliation_action, journal) outcome" where
  "reconcile_acquisition H s i at j =
     (case get_acquisition j i of Inl e \<Rightarrow> (Inl e, j)
      | Inr c \<Rightarrow>
          if ac_state c = F_BLOCKED then (Inr BLOCK, j)
          else if ac_state c = F_ACKNOWLEDGED \<or> ac_state c = F_NO_EFFECT then (Inr COMPLETE_ACTION, j)
          else if ac_state c = F_DISPATCH_ARMED then (Inr QUERY_RECEIPT, j)
          else if at < ai_requested_at (ac_intent c) then (Inl (TransactionBlocked LIFECYCLE_MISMATCH), j)
          else if ai_expires_at (ac_intent c) \<le> at then
            (case block_acquisition H i EXPIRED_FENCE j of (Inl e, j1) \<Rightarrow> (Inl e, j1)
             | (Inr _, j1) \<Rightarrow> (Inr BLOCK, j1))
          else (case acquisition_receipt s i of Inl e \<Rightarrow> (Inl e, j)
          | Inr known \<Rightarrow> (case current_binding s (ai_provider (ac_intent c)) of Inl e \<Rightarrow> (Inl e, j)
          | Inr current \<Rightarrow> (case arm_acquisition H i j of (Inl e, j1) \<Rightarrow> (Inl e, j1)
              | (Inr _, j1) \<Rightarrow>
                  (Inr (if known \<noteq> None \<or> current \<noteq> None then QUERY_RECEIPT else DISPATCH), j1)))))"

definition acknowledge_acquisition ::
  "(string \<Rightarrow> string) \<Rightarrow> acq_evidence \<Rightarrow> journal \<Rightarrow> (txn_error, acq_record, journal) outcome" where
  "acknowledge_acquisition H r j = record_acquisition_receipt H r j"

definition prepare_release ::
  "(string \<Rightarrow> string) \<Rightarrow> rel_intent \<Rightarrow> journal \<Rightarrow> (txn_error, rel_record, journal) outcome" where
  "prepare_release H i j = record_release_intent H i j"

definition reconcile_release ::
  "(string \<Rightarrow> string) \<Rightarrow> authority \<Rightarrow> string \<Rightarrow> time \<Rightarrow> journal \<Rightarrow>
   (txn_error, reconciliation_action, journal) outcome" where
  "reconcile_release H s i at j =
     (case get_release j i of Inl e \<Rightarrow> (Inl e, j)
      | Inr c \<Rightarrow>
          if rl_state c = F_BLOCKED then (Inr BLOCK, j)
          else if rl_state c = F_ACKNOWLEDGED \<or> rl_state c = F_NO_EFFECT then (Inr COMPLETE_ACTION, j)
          else if rl_state c = F_DISPATCH_ARMED then (Inr QUERY_RECEIPT, j)
          else if at < ri_requested_at (rl_intent c) then (Inl (TransactionBlocked LIFECYCLE_MISMATCH), j)
          else (case release_receipt s i of Inl e \<Rightarrow> (Inl e, j)
          | Inr known \<Rightarrow> (case current_binding s (ri_provider (rl_intent c)) of Inl e \<Rightarrow> (Inl e, j)
          | Inr current \<Rightarrow> (case arm_release H i j of (Inl e, j1) \<Rightarrow> (Inl e, j1)
              | (Inr _, j1) \<Rightarrow>
                  (Inr (if known \<noteq> None \<or> \<not> binding_matches_release current (rl_intent c)
                        then QUERY_RECEIPT else DISPATCH), j1)))))"

definition acknowledge_release ::
  "(string \<Rightarrow> string) \<Rightarrow> rel_evidence \<Rightarrow> journal \<Rightarrow> (txn_error, rel_record, journal) outcome" where
  "acknowledge_release H r j = record_release_receipt H r j"

section \<open>Object operations\<close>

definition prepare ::
  "(string \<Rightarrow> string) \<Rightarrow> authority \<Rightarrow> obj_intent \<Rightarrow> time \<Rightarrow> journal \<Rightarrow> (txn_error, op_record, journal) outcome" where
  "prepare H s i at j =
     (if \<not> obj_intent_ok H i then (Inl ValueError, j)
      else case require_current_live_fence s (oi_fence i) at of Inl e \<Rightarrow> (Inl e, j)
      | Inr _ \<Rightarrow> record_intent H i j)"

definition arm ::
  "(string \<Rightarrow> string) \<Rightarrow> int \<Rightarrow> authority \<Rightarrow> string \<Rightarrow> observation \<Rightarrow> time \<Rightarrow> journal \<Rightarrow>
   (txn_error, op_record, journal) outcome" where
  "arm H max_age s i v at j =
     (if \<not> observation_ok v then (Inl ValueError, j)
      else case get_operation j i of Inl e \<Rightarrow> (Inl e, j)
      | Inr p \<Rightarrow>
          if op_state p \<noteq> O_INTENT_RECORDED then (Inl TransitionError, j)
          else (case attempt_for_intent max_age (op_intent p) j of Inl e \<Rightarrow> (Inl e, j)
          | Inr a \<Rightarrow>
              if \<not> observation_fresh (ob_observed_at v) at a \<or>
                ob_observed_at v < fb_acquisition_durable_at (oi_fence (op_intent p))
              then (Inl (TransactionBlocked STALE_OBSERVATION), j)
              else if observation_is_postimage v (op_intent p) then block_and_raise H i LIFECYCLE_MISMATCH j
              else if \<not> observation_is_preimage v (op_intent p)
              then block_and_raise H i OBSERVATION_MISMATCH j
              else (case require_current_live_fence s (oi_fence (op_intent p)) at of
                Inl (TransactionBlocked reason) \<Rightarrow> block_and_raise H i reason j
              | Inl e \<Rightarrow> (Inl e, j)
              | Inr _ \<Rightarrow> (case authorization_create H (op_intent p) v at of Inl e \<Rightarrow> (Inl e, j)
                  | Inr z \<Rightarrow> arm_operation H i z j))))"

definition acknowledge ::
  "(string \<Rightarrow> string) \<Rightarrow> obj_receipt \<Rightarrow> journal \<Rightarrow> (txn_error, op_record, journal) outcome" where
  "acknowledge H r j = record_receipt H r j"

text \<open>The three live states of \<open>reconcile\<close>, each on an observation of the object's identity.\<close>

definition reconcile_recorded ::
  "(string \<Rightarrow> string) \<Rightarrow> authority \<Rightarrow> string \<Rightarrow> op_record \<Rightarrow> observation \<Rightarrow> time \<Rightarrow> journal \<Rightarrow>
   (txn_error, reconciliation_action, journal) outcome" where
  "reconcile_recorded H s i p v at j =
     (if ob_observed_at v < fb_acquisition_durable_at (oi_fence (op_intent p))
      then (Inr REFRESH_OBSERVATION, j)
      else if observation_is_postimage v (op_intent p) then recorder_block H i LIFECYCLE_MISMATCH j
      else if \<not> observation_is_preimage v (op_intent p) then recorder_block H i OBSERVATION_MISMATCH j
      else (case require_current_live_fence s (oi_fence (op_intent p)) at of
        Inl (TransactionBlocked reason) \<Rightarrow> recorder_block H i reason j
      | Inl e \<Rightarrow> (Inl e, j)
      | Inr _ \<Rightarrow> (case authorization_create H (op_intent p) v at of Inl e \<Rightarrow> (Inl e, j)
          | Inr z \<Rightarrow> (case arm_operation H i z j of (Inl e, j1) \<Rightarrow> (Inl e, j1)
              | (Inr _, j1) \<Rightarrow> (Inr DISPATCH, j1)))))"

definition reconcile_acknowledged ::
  "(string \<Rightarrow> string) \<Rightarrow> string \<Rightarrow> op_record \<Rightarrow> observation \<Rightarrow> journal \<Rightarrow>
   (txn_error, reconciliation_action, journal) outcome" where
  "reconcile_acknowledged H i p v j =
     (case op_receipt p of None \<Rightarrow> recorder_block H i RECEIPT_MISMATCH j
      | Some r \<Rightarrow> if observation_matches_receipt v r then (Inr VERIFY_RECEIPT, j)
                 else recorder_block H i OBSERVATION_MISMATCH j)"

definition reconcile_verified ::
  "(string \<Rightarrow> string) \<Rightarrow> string \<Rightarrow> op_record \<Rightarrow> attempt \<Rightarrow> observation \<Rightarrow> time \<Rightarrow> journal \<Rightarrow>
   (txn_error, reconciliation_action, journal) outcome" where
  "reconcile_verified H i p a v at j =
     (case (op_receipt p, op_verification p) of
        (Some r, Some w) \<Rightarrow>
          if observation_matches_receipt v r then
            (if ve_observed_at w < ob_observed_at v then (Inr VERIFY_RECEIPT, j)
             else if observation_fresh (ve_observed_at w) at a then (Inr COMPLETE_ACTION, j)
             else (Inr REFRESH_OBSERVATION, j))
          else recorder_block H i VERIFIED_DRIFT j
      | _ \<Rightarrow> recorder_block H i VERIFIED_DRIFT j)"

definition reconcile ::
  "(string \<Rightarrow> string) \<Rightarrow> int \<Rightarrow> authority \<Rightarrow> string \<Rightarrow> observation option \<Rightarrow> time \<Rightarrow> journal \<Rightarrow>
   (txn_error, reconciliation_action, journal) outcome" where
  "reconcile H max_age s i observation at j =
     (case get_operation j i of Inl e \<Rightarrow> (Inl e, j)
      | Inr p \<Rightarrow>
          if op_state p = O_BLOCKED then (Inr BLOCK, j)
          else if op_state p = O_DISPATCH_ARMED then (Inr QUERY_RECEIPT, j)
          else (case observation of None \<Rightarrow> (Inr REFRESH_OBSERVATION, j)
          | Some v \<Rightarrow>
              if \<not> observation_ok v then (Inl ValueError, j)
              else (case attempt_for_intent max_age (op_intent p) j of Inl e \<Rightarrow> (Inl e, j)
              | Inr a \<Rightarrow>
                  if \<not> observation_fresh (ob_observed_at v) at a then (Inr REFRESH_OBSERVATION, j)
                  else if \<not> observation_identity_matches v (op_intent p) then
                    recorder_block H i
                      (if op_state p = O_VERIFIED then VERIFIED_DRIFT else OBSERVATION_MISMATCH) j
                  else if op_state p = O_INTENT_RECORDED then reconcile_recorded H s i p v at j
                  else if op_state p = O_ACKNOWLEDGED then reconcile_acknowledged H i p v j
                  else reconcile_verified H i p a v at j)))"

definition verify_receipt ::
  "(string \<Rightarrow> string) \<Rightarrow> int \<Rightarrow> string \<Rightarrow> observation \<Rightarrow> time \<Rightarrow> journal \<Rightarrow>
   (txn_error, op_record, journal) outcome" where
  "verify_receipt H max_age i v at j =
     (if \<not> observation_ok v then (Inl ValueError, j)
      else case get_operation j i of Inl e \<Rightarrow> (Inl e, j)
      | Inr p \<Rightarrow>
          if op_state p \<noteq> O_ACKNOWLEDGED \<and> op_state p \<noteq> O_VERIFIED then (Inl TransitionError, j)
          else (case attempt_for_intent max_age (op_intent p) j of Inl e \<Rightarrow> (Inl e, j)
          | Inr a \<Rightarrow>
              if \<not> observation_fresh (ob_observed_at v) at a
              then (Inl (TransactionBlocked STALE_OBSERVATION), j)
              else (case op_receipt p of None \<Rightarrow> block_and_raise H i RECEIPT_MISMATCH j
              | Some r \<Rightarrow>
                  let verify = (case verification_create H (op_intent p) r v at of
                      Inl _ \<Rightarrow> block_and_raise H i OBSERVATION_MISMATCH j
                    | Inr w \<Rightarrow> record_verification H w j) in
                  (case op_verification p of None \<Rightarrow> verify
                  | Some latest \<Rightarrow>
                      if ve_observed_at latest < ob_observed_at v then verify
                      else if ob_observed_at v = ve_observed_at latest \<and>
                        same_revision (ob_revision v) (ve_revision latest) \<and>
                        ob_fingerprint v = ve_fingerprint latest \<and>
                        observation_identity_matches v (op_intent p)
                      then (Inr p, j)
                      else (Inl TransitionError, j)))))"

end
