(* ===== verification/Txn_Sample.thy ===== *)
theory Txn_Sample
  imports Txn_Attempt
begin

text \<open>
  Two concrete attempts, one committed and one restored, at which the theorems on valid attempts
  are applied. They are sealed with a hash that only looks at the length of its input: it yields 64
  hexadecimal digits, as the interface asks, and keeps the sample's identities apart.
\<close>

section \<open>A hash of lengths\<close>

definition sample_hash :: "string \<Rightarrow> string" where
  "sample_hash s = hex_char (length s div 16 mod 16) # hex_char (length s mod 16) # replicate 62 (CHR ''0'')"

lemma hex_char_inj: "m < 16 \<Longrightarrow> n < 16 \<Longrightarrow> hex_char m = hex_char n \<longleftrightarrow> m = n"
  unfolding hex_char_def by (subst nth_eq_iff_index_eq) simp_all

lemma sample_hash_hex: "hex_text 64 (sample_hash s)"
  by (simp add: hex_text_def sample_hash_def hex_char_hex list_all_iff) (simp add: hex_digit_def)

interpretation sample: hex_digest sample_hash
  by unfold_locales (rule sample_hash_hex)

lemma length_sample_hash [simp]: "length (sample_hash s) = 64"
  by (simp add: sample_hash_def)

lemma sample_hash_neq:
  "length s mod 256 \<noteq> length t mod 256 \<Longrightarrow> take 24 (sample_hash s) \<noteq> take 24 (sample_hash t)"
proof
  assume neq: "length s mod 256 \<noteq> length t mod 256" and eq: "take 24 (sample_hash s) = take 24 (sample_hash t)"
  have split: "n mod 256 = 16 * (n div 16 mod 16) + n mod 16" for n :: nat
    using mod_mult2_eq[of n 16 16] by simp
  have "length s div 16 mod 16 = length t div 16 mod 16" "length s mod 16 = length t mod 16"
    using eq by (simp_all add: sample_hash_def hex_char_inj)
  then have "length s mod 256 = length t mod 256"
    unfolding split[of "length s"] split[of "length t"] by simp
  with neq show False ..
qed

section \<open>Lengths of canonical text\<close>

definition plain_char :: "char \<Rightarrow> bool" where
  "plain_char c \<longleftrightarrow> escape_char c = [c]"

definition plain :: "string \<Rightarrow> bool" where
  "plain s \<longleftrightarrow> list_all plain_char s"

lemma plain_simps [simp]:
  "plain []" "plain (c # s) \<longleftrightarrow> plain_char c \<and> plain s" "plain (s @ t) \<longleftrightarrow> plain s \<and> plain t"
  "plain (replicate (Suc n) c) \<longleftrightarrow> plain_char c"
  by (auto simp: plain_def list_all_iff)

lemma plain_take: "plain s \<Longrightarrow> plain (take n s)"
  by (auto simp: plain_def list_all_iff dest: in_set_takeD)

lemma length_quote [simp]: "plain s \<Longrightarrow> length (quote_text s) = length s + 2"
  by (induction s) (simp_all add: quote_text_def plain_char_def)

fun json_length :: "json \<Rightarrow> nat" where
  "json_length (JObj kvs) = 2 + sum_list (map (\<lambda>(k, v). length (quote_text k) + 1 + json_length v) kvs)
     + (length kvs - 1)"
| "json_length j = length (dumps j)"

lemma length_join: "length (join_with [c] ss) = sum_list (map length ss) + (length ss - 1)"
  by (induction "[c]" ss rule: join_with.induct) simp_all

lemma sum_list_insort_key: "sum_list (map f (insort_key g x xs)) = (f x + sum_list (map f xs) :: nat)"
  by (induction xs) simp_all

lemma sum_list_sort_key: "sum_list (map f (sort_key g xs)) = (sum_list (map f xs) :: nat)"
  by (induction xs) (simp_all add: sum_list_insort_key)

lemma length_dumps: "length (dumps j) = json_length j"
proof (induction j)
  case (JObj kvs)
  have "sum_list (map (\<lambda>(k, v). length (quote_text k) + 1 + length (dumps v)) kvs) =
      sum_list (map (\<lambda>(k, v). length (quote_text k) + 1 + json_length v) kvs)"
    by (rule arg_cong[where f = sum_list], rule map_cong) (auto simp: JObj)
  then show ?case
    by (simp add: length_join sum_list_sort_key comp_def case_prod_unfold)
qed simp_all

lemma plain_hex: "hex_digit c \<Longrightarrow> plain_char c"
  by (auto simp: hex_digit_def plain_char_def escape_char_def char_code_def Let_def)

lemma plain_sample_hash [simp]: "plain (sample_hash s)" "plain (take n (sample_hash s))"
proof -
  show "plain (sample_hash s)"
    using sample_hash_hex[of s] by (auto simp: plain_def hex_text_def list_all_iff plain_hex)
  then show "plain (take n (sample_hash s))" by (rule plain_take)
qed

lemma digit_char_plain: "n < 10 \<Longrightarrow> plain_char (digit_char n)"
  by (rule plain_hex) (rule digit_char_hex)

lemma plain_pad [simp]: "plain (pad_nat w n)"
  by (induction w arbitrary: n) (simp_all add: digit_char_plain)

lemma plain_timestamp [simp]: "plain (encode_timestamp t)"
  by (simp add: encode_timestamp_def Let_def plain_char_def escape_char_def char_code_def
      split: prod.split)

lemma length_timestamp [simp]:
  "t mod 1000000 = 0 \<Longrightarrow> 0 \<le> t \<Longrightarrow> length (encode_timestamp t) = 20"
proof -
  assume t: "t mod 1000000 = 0" "0 \<le> t"
  then have "nat t mod 1000000 = 0" by (metis nat_0 nat_mod_distrib nat_numeral zero_le_numeral)
  then have "nat t mod 86400000000 mod 1000000 = 0"
    by (simp add: mod_mod_cancel)
  then show ?thesis by (simp add: encode_timestamp_def Let_def split: prod.split)
qed

lemma sample_receipt_neq:
  assumes "plain d" "plain d'" "(24 + (length d + json_length j)) mod 256 \<noteq> (24 + (length d' + json_length j')) mod 256"
  shows "fst (receipt_identity sample_hash d j) \<noteq> fst (receipt_identity sample_hash d' j')"
proof -
  let ?o = "\<lambda>d j. JObj [(''domain'', JStr d), (''content'', j)]"
  have len: "json_length (?o d j) = 24 + (length d + json_length j)" if "plain d" for d j
    using that by (simp add: plain_char_def escape_char_def char_code_def Let_def)
  have "length (dumps (?o d j)) mod 256 \<noteq> length (dumps (?o d' j')) mod 256"
    unfolding length_dumps len[OF assms(1)] len[OF assms(2)] by (rule assms(3))
  then show ?thesis
    using sample_hash_neq by (simp add: receipt_identity_def digest_json_def Let_def del: dumps.simps)
qed

section \<open>Parts\<close>

definition secs :: "int \<Rightarrow> time" where
  "secs n = n * 1000000"

definition sample_digest :: string where
  "sample_digest = replicate 64 (CHR ''a'')"

definition sample_pre :: string where
  "sample_pre = replicate 64 (CHR ''b'')"

definition sample_post :: string where
  "sample_post = replicate 64 (CHR ''c'')"

definition sample_plan :: string where
  "sample_plan = plan_id_of sample_hash sample_digest"

definition sample_token :: fence_token where
  "sample_token = FenceToken (''tf-fence-token-sha256-v1:'' @ sample_digest)"

definition sample_acq_intent :: "int \<Rightarrow> int \<Rightarrow> acq_intent" where
  "sample_acq_intent epoch t = seal_acq_intent sample_hash
     \<lparr>ai_operation_id = [], ai_intent_digest = [], ai_plan_id = sample_plan,
      ai_plan_digest = sample_digest, ai_manifest_digest = sample_digest, ai_attempt = 1,
      ai_provider = ''lovelace'', ai_writer_id = ''writer'', ai_expected_inventory_revision = RInt 1,
      ai_scope_digest = sample_digest, ai_epoch = epoch, ai_requested_at = secs t,
      ai_expires_at = secs (t + 100)\<rparr>"

definition sample_acq_receipt :: "int \<Rightarrow> int \<Rightarrow> acq_receipt" where
  "sample_acq_receipt epoch t = seal_acq_receipt sample_hash
     \<lparr>ar_operation_id = ai_operation_id (sample_acq_intent epoch t),
      ar_intent_digest = ai_intent_digest (sample_acq_intent epoch t), ar_receipt_id = [],
      ar_provider = ''lovelace'', ar_writer_id = ''writer'',
      ar_expected_inventory_revision = RInt 1, ar_acquired_inventory_revision = RInt 1,
      ar_fence_revision = RInt 1, ar_scope_digest = sample_digest, ar_epoch = epoch,
      ar_token_digest = sample_token, ar_acquired_at = secs (t + 1), ar_expires_at = secs (t + 100),
      ar_acknowledged_at = secs (t + 2), ar_durable_at = secs (t + 3), ar_receipt_digest = []\<rparr>"

definition sample_acq :: "int \<Rightarrow> int \<Rightarrow> acq_record" where
  "sample_acq epoch t = \<lparr>ac_intent = sample_acq_intent epoch t, ac_state = F_ACKNOWLEDGED,
     ac_receipt = Some (AcqApplied (sample_acq_receipt epoch t)), ac_reason_code = None,
     ac_blocked_from = None\<rparr>"

definition sample_rel_intent :: "int \<Rightarrow> int \<Rightarrow> int \<Rightarrow> rel_intent" where
  "sample_rel_intent epoch t0 t = seal_rel_intent sample_hash
     \<lparr>ri_operation_id = [], ri_intent_digest = [], ri_plan_id = sample_plan,
      ri_plan_digest = sample_digest, ri_manifest_digest = sample_digest, ri_attempt = 1,
      ri_release_attempt = 1, ri_provider = ''lovelace'', ri_writer_id = ''writer'',
      ri_acquisition_operation_id = ai_operation_id (sample_acq_intent epoch t0),
      ri_acquisition_receipt_id = ar_receipt_id (sample_acq_receipt epoch t0),
      ri_acquisition_receipt_digest = ar_receipt_digest (sample_acq_receipt epoch t0),
      ri_token_digest = sample_token, ri_scope_digest = sample_digest, ri_epoch = epoch,
      ri_expected_inventory_revision = RInt 1, ri_requested_at = secs t\<rparr>"

definition sample_rel_receipt :: "int \<Rightarrow> int \<Rightarrow> int \<Rightarrow> rel_receipt" where
  "sample_rel_receipt epoch t0 t = seal_rel_receipt sample_hash
     \<lparr>rr_operation_id = ri_operation_id (sample_rel_intent epoch t0 t),
      rr_intent_digest = ri_intent_digest (sample_rel_intent epoch t0 t), rr_receipt_id = [],
      rr_release_attempt = 1, rr_provider = ''lovelace'', rr_writer_id = ''writer'',
      rr_acquisition_operation_id = ai_operation_id (sample_acq_intent epoch t0),
      rr_acquisition_receipt_id = ar_receipt_id (sample_acq_receipt epoch t0),
      rr_acquisition_receipt_digest = ar_receipt_digest (sample_acq_receipt epoch t0),
      rr_token_digest = sample_token, rr_scope_digest = sample_digest, rr_epoch = epoch,
      rr_expected_inventory_revision = RInt 1, rr_final_inventory_revision = RInt 1,
      rr_released_at = secs (t + 1), rr_acknowledged_at = secs (t + 2),
      rr_durable_at = secs (t + 3), rr_receipt_digest = []\<rparr>"

definition sample_rel :: "int \<Rightarrow> int \<Rightarrow> int \<Rightarrow> rel_record" where
  "sample_rel epoch t0 t = \<lparr>rl_intent = sample_rel_intent epoch t0 t, rl_state = F_ACKNOWLEDGED,
     rl_receipt = Some (RelApplied (sample_rel_receipt epoch t0 t)), rl_reason_code = None,
     rl_blocked_from = None\<rparr>"

definition sample_obj_intent ::
  "int \<Rightarrow> int \<Rightarrow> int \<Rightarrow> operation_kind \<Rightarrow> string option \<Rightarrow> int \<Rightarrow> string \<Rightarrow> string \<Rightarrow> obj_intent" where
  "sample_obj_intent epoch t0 sequence kind parent revision pre post = seal_obj_intent sample_hash
     \<lparr>oi_operation_id = [], oi_intent_digest = [], oi_plan_id = sample_plan,
      oi_plan_digest = sample_digest, oi_manifest_digest = sample_digest, oi_attempt = 1,
      oi_sequence = sequence, oi_kind = kind, oi_provider = ''lovelace'', oi_object_key = ''key'',
      oi_expected_revision = RInt revision, oi_pre_fingerprint = pre, oi_post_fingerprint = post,
      oi_fence = acq_receipt_binding (sample_acq_receipt epoch t0), oi_parent_operation_id = parent\<rparr>"

text \<open>The operation of an intent, applied and verified from second \<open>t\<close> on.\<close>

definition sample_authorization :: "obj_intent \<Rightarrow> int \<Rightarrow> authorization" where
  "sample_authorization i t = seal_authorization sample_hash
     \<lparr>da_operation_id = oi_operation_id i, da_intent_digest = oi_intent_digest i,
      da_provider = oi_provider i, da_object_key = oi_object_key i,
      da_fence_acquisition_operation_id = fb_acquisition_operation_id (oi_fence i),
      da_fence_acquisition_receipt_id = fb_acquisition_receipt_id (oi_fence i),
      da_fence_acquisition_receipt_digest = fb_acquisition_receipt_digest (oi_fence i),
      da_revision = oi_expected_revision i, da_fingerprint = oi_pre_fingerprint i,
      da_observed_at = secs t, da_authorized_at = secs (t + 1), da_authorization_digest = []\<rparr>"

definition sample_obj_receipt :: "obj_intent \<Rightarrow> int \<Rightarrow> int \<Rightarrow> obj_receipt" where
  "sample_obj_receipt i revision t = seal_obj_receipt sample_hash
     \<lparr>oc_operation_id = oi_operation_id i, oc_intent_digest = oi_intent_digest i,
      oc_receipt_id = [], oc_kind = oi_kind i, oc_provider = oi_provider i,
      oc_object_key = oi_object_key i, oc_fence_token_digest = fb_token_digest (oi_fence i),
      oc_fence_epoch = fb_epoch (oi_fence i), oc_fence_scope_digest = fb_scope_digest (oi_fence i),
      oc_fence_writer_id = fb_writer_id (oi_fence i),
      oc_fence_acquisition_operation_id = fb_acquisition_operation_id (oi_fence i),
      oc_fence_acquisition_receipt_id = fb_acquisition_receipt_id (oi_fence i),
      oc_fence_acquisition_receipt_digest = fb_acquisition_receipt_digest (oi_fence i),
      oc_authorization_digest = da_authorization_digest (sample_authorization i t),
      oc_authorization_observed_at = secs t, oc_authorized_at = secs (t + 1),
      oc_previous_revision = oi_expected_revision i, oc_result_revision = RInt revision,
      oc_pre_fingerprint = oi_pre_fingerprint i, oc_post_fingerprint = oi_post_fingerprint i,
      oc_outcome = APPLIED, oc_evidence = DISPATCH_ACK, oc_effect_at = Some (secs (t + 2)),
      oc_acknowledged_at = secs (t + 3), oc_durable_at = secs (t + 4), oc_durable = True,
      oc_receipt_digest = []\<rparr>"

definition sample_verification :: "obj_intent \<Rightarrow> int \<Rightarrow> int \<Rightarrow> verification" where
  "sample_verification i revision t =
     (let r = sample_obj_receipt i revision t in
      \<lparr>ve_operation_id = oi_operation_id i, ve_intent_digest = oi_intent_digest i,
       ve_receipt_id = oc_receipt_id r, ve_receipt_digest = oc_receipt_digest r,
       ve_provider = oi_provider i, ve_object_key = oi_object_key i, ve_revision = RInt revision,
       ve_fingerprint = oi_post_fingerprint i, ve_observed_at = secs (t + 5),
       ve_verified_at = secs (t + 6)\<rparr>)"

definition sample_op :: "obj_intent \<Rightarrow> int \<Rightarrow> int \<Rightarrow> op_record" where
  "sample_op i revision t = \<lparr>op_intent = i, op_state = O_VERIFIED,
     op_authorization = Some (sample_authorization i t),
     op_receipt = Some (sample_obj_receipt i revision t),
     op_verifications = [sample_verification i revision t], op_reason_code = None,
     op_blocked_from = None\<rparr>"

section \<open>The parts are valid\<close>

lemma hex_replicate [simp]: "hex_text n (replicate m c) \<longleftrightarrow> n = m \<and> (hex_digit c \<or> m = 0)"
  by (auto simp: hex_text_def list_all_iff)

lemma sample_scalars [simp]:
  "digest_ok sample_digest" "digest_ok sample_pre" "digest_ok sample_post"
  "token_ok sample_token" "provider_ok ''lovelace''" "string_ok ''writer''" "string_ok ''key''"
  "sample_pre \<noteq> sample_post" "sample_post \<noteq> sample_pre"
  by (simp_all add: digest_ok_def sample_digest_def sample_pre_def sample_post_def hex_digit_def
      token_ok_def sample_token_def hex_suffixed_def starts_with_def provider_ok_def
      provider_manifest_def string_ok_def py_strip_def py_space_def char_code_def Let_def)

lemma sample_plan_ok [simp]: "plan_binding_ok sample_hash sample_plan sample_digest"
  by (simp add: sample_plan_def)

lemma secs_simps [simp]:
  "secs m < secs n \<longleftrightarrow> m < n" "secs m \<le> secs n \<longleftrightarrow> m \<le> n" "secs m mod 1000000 = 0"
  "0 \<le> n \<Longrightarrow> 0 \<le> secs n" "secs m = secs n \<longleftrightarrow> m = n" "secs m - secs n = secs (m - n)"
  by (simp_all add: secs_def left_diff_distrib)

lemmas scalar_defs = positive_ok_def nonnegative_ok_def acquire_id_ok_def release_id_ok_def
  object_id_ok_def hex_suffixed_def starts_with_def

lemma sample_acq_intent_ok:
  "0 \<le> e \<Longrightarrow> acq_intent_ok sample_hash (sample_acq_intent e t)"
  by (simp add: sample_acq_intent_def sample.seal_acq_intent_ok positive_ok_def nonnegative_ok_def)

lemma sample_acq_id:
  "acquire_id_ok (ai_operation_id (sample_acq_intent e t))"
  "digest_ok (ai_intent_digest (sample_acq_intent e t))"
  by (simp_all add: sample_acq_intent_def scalar_defs)

lemma sample_acq_receipt_ok:
  "0 \<le> e \<Longrightarrow> acq_receipt_ok sample_hash (sample_acq_receipt e t)"
  by (simp add: sample_acq_receipt_def sample.seal_acq_receipt_ok sample_acq_id nonnegative_ok_def)

lemma sample_acq_receipt_valid:
  assumes "0 \<le> e"
  shows "acq_receipt_valid_for sample_hash (sample_acq_receipt e t) (sample_acq_intent e t)"
  using sample_acq_intent_ok[OF assms, of t] sample_acq_receipt_ok[OF assms, of t]
  by (simp add: acq_receipt_valid_for_def) (simp add: sample_acq_receipt_def, simp add: sample_acq_intent_def)

lemma sample_acq_ok:
  "0 \<le> e \<Longrightarrow> acq_record_ok sample_hash (sample_acq e t)"
  by (simp add: acq_record_ok_def sample_acq_def sample_acq_intent_ok sample_acq_receipt_ok
      sample_acq_receipt_valid pre_ack_def)

lemma sample_acq_receipt_id:
  "receipt_id_ok (ar_receipt_id (sample_acq_receipt e t))"
  "digest_ok (ar_receipt_digest (sample_acq_receipt e t))"
  by (simp_all add: sample_acq_receipt_def seal_acq_receipt_eq(1) sample.receipt_identity_shape)

lemma sample_rel_intent_ok:
  "0 \<le> e \<Longrightarrow> rel_intent_ok sample_hash (sample_rel_intent e t0 t)"
  by (simp add: sample_rel_intent_def sample.seal_rel_intent_ok sample_acq_id sample_acq_receipt_id
      positive_ok_def nonnegative_ok_def)

lemma sample_rel_id:
  "release_id_ok (ri_operation_id (sample_rel_intent e t0 t))"
  "digest_ok (ri_intent_digest (sample_rel_intent e t0 t))"
  by (simp_all add: sample_rel_intent_def scalar_defs)

lemma sample_rel_receipt_ok:
  "0 \<le> e \<Longrightarrow> rel_receipt_ok sample_hash (sample_rel_receipt e t0 t)"
  by (simp add: sample_rel_receipt_def sample.seal_rel_receipt_ok sample_acq_id sample_acq_receipt_id
      sample_rel_id positive_ok_def nonnegative_ok_def)

lemma sample_rel_receipt_valid:
  assumes "0 \<le> e"
  shows "rel_receipt_valid_for sample_hash (sample_rel_receipt e t0 t) (sample_rel_intent e t0 t)"
  using sample_rel_intent_ok[OF assms, of t0 t] sample_rel_receipt_ok[OF assms, of t0 t]
  by (simp add: rel_receipt_valid_for_def) (simp add: sample_rel_receipt_def, simp add: sample_rel_intent_def)

lemma sample_rel_ok:
  "0 \<le> e \<Longrightarrow> rel_record_ok sample_hash (sample_rel e t0 t)"
  by (simp add: rel_record_ok_def sample_rel_def sample_rel_intent_ok sample_rel_receipt_ok
      sample_rel_receipt_valid pre_ack_def)

lemma sample_obj_intent_ok:
  assumes "0 \<le> e" "1 \<le> n" "0 \<le> v" "digest_ok pre" "digest_ok post" "pre \<noteq> post"
    "kind = WRITE \<and> parent = None \<or> kind = ROLLBACK \<and> (\<exists>p. parent = Some p \<and> object_id_ok p)"
  shows "obj_intent_ok sample_hash (sample_obj_intent e t0 n kind parent v pre post)"
proof -
  have "fence_binding_ok (acq_receipt_binding (sample_acq_receipt e t0))"
    by (rule acq_receipt_binding_ok[OF sample_acq_receipt_ok[OF assms(1)]])
  moreover have "fb_provider (acq_receipt_binding (sample_acq_receipt e t0)) = ''lovelace''"
    by (simp add: acq_receipt_binding_def sample_acq_receipt_def)
  ultimately show ?thesis
    using assms
    by (auto simp: sample_obj_intent_def sample.seal_obj_intent_ok obj_intent_fields_ok_def
        positive_ok_def)
qed

lemma obj_intent_facts:
  assumes "obj_intent_ok H i"
  shows "object_id_ok (oi_operation_id i)" "digest_ok (oi_intent_digest i)" "provider_ok (oi_provider i)"
    "string_ok (oi_object_key i)" "revision_ok (oi_expected_revision i)"
    "digest_ok (oi_pre_fingerprint i)" "digest_ok (oi_post_fingerprint i)"
    "oi_pre_fingerprint i \<noteq> oi_post_fingerprint i" "fence_binding_ok (oi_fence i)"
  using assms unfolding obj_intent_ok_def obj_intent_fields_ok_def by blast+

lemma fence_binding_facts:
  assumes "fence_binding_ok f"
  shows "token_ok (fb_token_digest f)" "nonnegative_ok (fb_epoch f)" "digest_ok (fb_scope_digest f)"
    "string_ok (fb_writer_id f)" "acquire_id_ok (fb_acquisition_operation_id f)"
    "receipt_id_ok (fb_acquisition_receipt_id f)" "digest_ok (fb_acquisition_receipt_digest f)"
  using assms by (simp_all add: fence_binding_ok_def)

lemma sample_op_ok:
  assumes i: "obj_intent_ok sample_hash i" and t: "fb_acquisition_durable_at (oi_fence i) \<le> secs t"
    "secs (t + 3) < fb_expires_at (oi_fence i)" and v: "0 \<le> v" "oi_expected_revision i \<noteq> RInt v"
  shows "op_record_ok sample_hash (sample_op i v t)"
proof -
  note facts = obj_intent_facts[OF i] fence_binding_facts[OF obj_intent_facts(9)[OF i]]
  have expiry: "secs (t + 1) < fb_expires_at (oi_fence i)"
    using t(2) by (simp add: secs_def)
  have durable: "fb_acquisition_durable_at (oi_fence i) \<le> secs (t + 2)"
    using t(1) by (simp add: secs_def)
  have a: "authorization_ok sample_hash (sample_authorization i t)"
    using facts by (simp add: sample_authorization_def sample.seal_authorization_ok)
  have av: "authorization_valid_for sample_hash (sample_authorization i t) i"
    using a i t(1) expiry by (simp add: authorization_valid_for_def) (simp add: sample_authorization_def)
  have adata: "authorization_data (sample_authorization i t) =
      obj_receipt_authorization_data (sample_obj_receipt i v t)"
    by (simp add: sample_authorization_def sample_obj_receipt_def obj_receipt_authorization_data_def
        authorization_data_def)
  have r: "obj_receipt_ok sample_hash (sample_obj_receipt i v t)"
    unfolding obj_receipt_ok_def adata[symmetric]
    using facts v by (simp add: sample_obj_receipt_def seal_obj_receipt_eq(2))
      (simp add: seal_obj_receipt_eq(1) sample.receipt_identity_shape sample_authorization_def)
  have rv: "obj_receipt_valid_for sample_hash (sample_obj_receipt i v t) i"
    using r i t durable expiry
    by (simp add: obj_receipt_valid_for_def) (simp add: sample_obj_receipt_def)
  have ra: "obj_receipt_authorized_by sample_hash (sample_obj_receipt i v t) (sample_authorization i t)"
    using a by (simp add: obj_receipt_authorized_by_def)
      (simp add: sample_obj_receipt_def, simp add: sample_authorization_def)
  have rid: "receipt_id_ok (oc_receipt_id (sample_obj_receipt i v t))"
      "digest_ok (oc_receipt_digest (sample_obj_receipt i v t))"
    using r by (simp_all add: obj_receipt_ok_def)
  have v: "verification_ok (sample_verification i v t)"
    using facts rid v by (simp add: sample_verification_def verification_ok_def Let_def)
  have vv: "verification_valid_for sample_hash (sample_verification i v t) i (sample_obj_receipt i v t)"
    using rv v by (simp add: verification_valid_for_def)
      (simp add: sample_verification_def Let_def sample_obj_receipt_def result_fingerprint_def)
  show ?thesis
    using i a av r rv ra v vv
    by (simp add: op_record_ok_def sample_op_def causally_ordered_def evidence_shape_def)
qed

section \<open>Two attempts\<close>

definition sample_expected :: expected_write where
  "sample_expected = \<lparr>ew_provider = ''lovelace'', ew_object_key = ''key'',
     ew_expected_revision = RInt 5, ew_pre_fingerprint = sample_pre, ew_post_fingerprint = sample_post\<rparr>"

definition sample_write_intent :: obj_intent where
  "sample_write_intent = sample_obj_intent 1 100 1 WRITE None 5 sample_pre sample_post"

definition sample_write :: op_record where
  "sample_write = sample_op sample_write_intent 6 104"

definition sample_rollback_intent :: obj_intent where
  "sample_rollback_intent = sample_obj_intent 10 115 2 ROLLBACK
     (Some (oi_operation_id sample_write_intent)) 6 sample_post sample_pre"

definition sample_rollback :: op_record where
  "sample_rollback = sample_op sample_rollback_intent 7 119"

definition sample_committed :: attempt where
  "sample_committed = \<lparr>at_plan_id = sample_plan, at_plan_digest = sample_digest,
     at_manifest_digest = sample_digest, at_attempt = 1, at_state = A_COMMITTED,
     at_max_observation_age_seconds = 60, at_expected_writes = [sample_expected],
     at_acquisitions = [sample_acq 1 100], at_operations = [sample_write],
     at_releases = [sample_rel 1 100 111], at_release_phase_sequence = Some 1,
     at_reason_code = None, at_terminal_at = Some (secs 115)\<rparr>"

definition sample_restored :: attempt where
  "sample_restored = \<lparr>at_plan_id = sample_plan, at_plan_digest = sample_digest,
     at_manifest_digest = sample_digest, at_attempt = 1, at_state = A_RESTORED,
     at_max_observation_age_seconds = 60, at_expected_writes = [sample_expected],
     at_acquisitions = [sample_acq 1 100, sample_acq 10 115],
     at_operations = [sample_write, sample_rollback],
     at_releases = [sample_rel 1 100 111, sample_rel 10 115 126],
     at_release_phase_sequence = Some 1, at_reason_code = None,
     at_terminal_at = Some (secs 130)\<rparr>"

lemma sample_fence_times:
  "fb_acquisition_durable_at (oi_fence (sample_obj_intent e t n k p v a b)) = secs (t + 3)"
  "fb_expires_at (oi_fence (sample_obj_intent e t n k p v a b)) = secs (t + 100)"
  "oi_expected_revision (sample_obj_intent e t n k p v a b) = RInt v"
  by (simp_all add: sample_obj_intent_def acq_receipt_binding_def sample_acq_receipt_def)

lemma sample_write_ok: "op_record_ok sample_hash sample_write"
  unfolding sample_write_def
  by (rule sample_op_ok) (simp_all add: sample_write_intent_def sample_obj_intent_ok sample_fence_times)

lemma sample_write_id: "object_id_ok (oi_operation_id sample_write_intent)"
  by (simp add: sample_write_intent_def sample_obj_intent_def scalar_defs)

lemma sample_rollback_ok: "op_record_ok sample_hash sample_rollback"
  unfolding sample_rollback_def
  by (rule sample_op_ok)
    (simp_all add: sample_rollback_intent_def sample_obj_intent_ok sample_fence_times sample_write_id)

lemma plain_text [simp]:
  "plain ''lovelace''" "plain ''writer''" "plain ''key''" "plain sample_digest" "plain sample_pre"
  "plain sample_post" "plain sample_plan"
  by (simp_all add: sample_digest_def sample_pre_def sample_post_def sample_plan_def plan_id_of_def
     plain_char_def escape_char_def char_code_def Let_def numeral_eq_Suc)
lemma plain_hex_text: "hex_text n s \<Longrightarrow> plain s \<and> length s = n"
  by (auto simp: hex_text_def plain_def list_all_iff plain_hex)
lemma hex_suffixed_len: "hex_suffixed p n s \<Longrightarrow> plain p \<Longrightarrow> plain s \<and> length s = length p + n"
  using plain_hex_text[of n "drop (length p) s"]
  by (auto simp: hex_suffixed_def starts_with_ex)
lemma ids_plain:
  "digest_ok s \<Longrightarrow> plain s \<and> length s = 64"
  "acquire_id_ok s \<Longrightarrow> plain s \<and> length s = 41"
  "release_id_ok s \<Longrightarrow> plain s \<and> length s = 41"
  "object_id_ok s \<Longrightarrow> plain s \<and> length s = 34"
  "receipt_id_ok s \<Longrightarrow> plain s \<and> length s = 35"
  "token_ok t \<Longrightarrow> plain (token_value t) \<and> length (token_value t) = 89"
  by (auto simp: digest_ok_def acquire_id_ok_def release_id_ok_def object_id_ok_def receipt_id_ok_def token_ok_def
     dest!: plain_hex_text hex_suffixed_len simp: plain_char_def escape_char_def char_code_def Let_def)

section \<open>Their receipts are distinct\<close>

lemma sample_lengths [simp]:
  "length sample_plan = 37" "length sample_digest = 64" "length sample_pre = 64" "length sample_post = 64"
  "plain (token_value sample_token)" "length (token_value sample_token) = 89"
  by (simp_all add: sample_plan_def plan_id_of_def sample_digest_def sample_pre_def sample_post_def ids_plain)

lemma show_small [simp]: "show_int 1 = ''1''" "show_int 10 = ''10''" "show_int 5 = ''5''" "show_int 6 = ''6''"
  "show_int 7 = ''7''" "show_int 2 = ''2''"
  by (simp_all add: show_int_def show_nat.simps digit_char_def)

lemma revision_length: "json_length (encode_revision (RInt n)) = 27 + length (show_int n)"
  by (simp add: plain_char_def escape_char_def char_code_def Let_def)

lemmas length_simps = revision_length plain_char_def escape_char_def char_code_def Let_def

lemma sample_acq_length:
  assumes "0 \<le> t"
  shows "json_length (acq_receipt_data (sample_acq_receipt e t)) = 709 + length (show_int e)"
  using assms ids_plain(2)[OF sample_acq_id(1), of e t] ids_plain(1)[OF sample_acq_id(2), of e t]
  by (simp add: acq_receipt_data_def sample_acq_receipt_def length_simps del: encode_revision.simps)

lemma sample_rel_length:
  assumes "0 \<le> t"
  shows "json_length (rel_receipt_data (sample_rel_receipt e t0 t)) = 874 + length (show_int e)"
  using assms ids_plain(3)[OF sample_rel_id(1), of e t0 t] ids_plain(1)[OF sample_rel_id(2), of e t0 t]
    ids_plain(2)[OF sample_acq_id(1), of e t0] ids_plain(5)[OF sample_acq_receipt_id(1), of e t0]
    ids_plain(1)[OF sample_acq_receipt_id(2), of e t0]
  by (simp add: rel_receipt_data_def sample_rel_receipt_def length_simps del: encode_revision.simps)

lemma sample_obj_length:
  assumes i: "i = sample_obj_intent e t0 n k p v pre post" "obj_intent_ok sample_hash i" and t: "0 \<le> t"
  shows "json_length (obj_receipt_data (sample_obj_receipt i v' t)) =
    1307 + length (kind_text k) + length (show_int e) + length (show_int v) + length (show_int v')"
proof -
  note facts = obj_intent_facts[OF i(2)] fence_binding_facts[OF obj_intent_facts(9)[OF i(2)]]
  have i': "oi_kind i = k" "oi_provider i = ''lovelace''" "oi_object_key i = ''key''"
    "oi_expected_revision i = RInt v" "fb_epoch (oi_fence i) = e" "fb_writer_id (oi_fence i) = ''writer''"
    by (simp_all add: i(1) sample_obj_intent_def acq_receipt_binding_def sample_acq_receipt_def)
  have "digest_ok (da_authorization_digest (sample_authorization i t))"
    by (simp add: sample_authorization_def)
  then show ?thesis
    using t facts
    by (cases k) (simp_all add: obj_receipt_data_def sample_obj_receipt_def i' ids_plain length_simps
        json_option_def del: encode_revision.simps)
qed

lemma sample_intents_ok:
  "obj_intent_ok sample_hash sample_write_intent" "obj_intent_ok sample_hash sample_rollback_intent"
  using sample_write_ok sample_rollback_ok
  by (simp_all add: op_record_ok_def sample_write_def sample_rollback_def sample_op_def)

lemma valid_receipt_ids:
  "acq_receipt_ok H r \<Longrightarrow> ar_receipt_id r = fst (receipt_identity H ''fence-acquisition'' (acq_receipt_data r))"
  "rel_receipt_ok H q \<Longrightarrow> rr_receipt_id q = fst (receipt_identity H ''fence-release'' (rel_receipt_data q))"
  "obj_receipt_ok H z \<Longrightarrow> oc_receipt_id z = fst (receipt_identity H ''object-operation'' (obj_receipt_data z))"
  unfolding acq_receipt_ok_def rel_receipt_ok_def obj_receipt_ok_def by (metis fst_conv)+

lemma sample_obj_receipts_ok:
  "obj_receipt_ok sample_hash (sample_obj_receipt sample_write_intent 6 104)"
  "obj_receipt_ok sample_hash (sample_obj_receipt sample_rollback_intent 7 119)"
  using sample_write_ok sample_rollback_ok
  by (simp_all add: op_record_ok_def sample_write_def sample_rollback_def sample_op_def)

lemmas sample_receipt_ids =
  valid_receipt_ids(1)[OF sample_acq_receipt_ok[of 1 100]]
  valid_receipt_ids(1)[OF sample_acq_receipt_ok[of 10 115]]
  valid_receipt_ids(2)[OF sample_rel_receipt_ok[of 1 100 111]]
  valid_receipt_ids(2)[OF sample_rel_receipt_ok[of 10 115 126]]
  valid_receipt_ids(3)[OF sample_obj_receipts_ok(1)] valid_receipt_ids(3)[OF sample_obj_receipts_ok(2)]

lemma sample_obj_lengths:
  "json_length (obj_receipt_data (sample_obj_receipt sample_write_intent 6 104)) = 1315"
  "json_length (obj_receipt_data (sample_obj_receipt sample_rollback_intent 7 119)) = 1319"
  using sample_obj_length[OF sample_write_intent_def sample_intents_ok(1)]
    sample_obj_length[OF sample_rollback_intent_def sample_intents_ok(2)] by simp_all

lemma plain_domains:
  "plain ''fence-acquisition''" "plain ''fence-release''" "plain ''object-operation''"
  by (simp_all add: plain_char_def escape_char_def char_code_def Let_def)

lemma sample_ids_distinct:
  "distinct [ar_receipt_id (sample_acq_receipt 1 100), ar_receipt_id (sample_acq_receipt 10 115),
     oc_receipt_id (sample_obj_receipt sample_write_intent 6 104),
     oc_receipt_id (sample_obj_receipt sample_rollback_intent 7 119),
     rr_receipt_id (sample_rel_receipt 1 100 111), rr_receipt_id (sample_rel_receipt 10 115 126)]"
  unfolding sample_receipt_ids[simplified]
  by (simp only: distinct.simps list.set insert_iff empty_iff de_Morgan_disj not_False_eq_True simp_thms,
      intro conjI sample_receipt_neq plain_domains)
    (simp_all add: sample_acq_length sample_rel_length sample_obj_lengths)


lemma sample_digest_neq:
  assumes "json_length j mod 256 \<noteq> json_length j' mod 256"
  shows "take 24 (digest_json sample_hash j) \<noteq> take 24 (digest_json sample_hash j')"
  unfolding digest_json_def by (rule sample_hash_neq) (simp add: length_dumps assms del: json_length.simps)

lemma sample_acq_intent_length:
  "0 \<le> t \<Longrightarrow> json_length (acq_intent_data (sample_acq_intent e t)) = 507 + length (show_int e)"
  by (simp add: acq_intent_data_def sample_acq_intent_def length_simps del: encode_revision.simps)

lemma sample_rel_intent_length:
  assumes "0 \<le> t"
  shows "json_length (rel_intent_data (sample_rel_intent e t0 t)) = 828 + length (show_int e)"
  unfolding sample_rel_intent_def
  using assms ids_plain(2)[OF sample_acq_id(1), of e t0] ids_plain(5)[OF sample_acq_receipt_id(1), of e t0]
    ids_plain(1)[OF sample_acq_receipt_id(2), of e t0]
  by (simp add: rel_intent_data_def length_simps del: encode_revision.simps)

lemma sample_obj_intent_length:
  assumes ok: "obj_intent_ok sample_hash (sample_obj_intent e t n k p v pre post)" "0 \<le> t"
  shows "json_length (obj_intent_data (sample_obj_intent e t n k p v pre post)) =
    1238 + length (kind_text k) + length (show_int e) + length (show_int n) + length (show_int v) +
    json_length (json_option p)"
proof -
  define f where "f = acq_receipt_binding (sample_acq_receipt e t)"
  have f: "fb_provider f = ''lovelace''" "fb_writer_id f = ''writer''" "fb_epoch f = e" "fb_fence_revision f = RInt 1"
    "fb_base_revision f = RInt 1" "fb_acquired_at f = secs (t + 1)" "fb_acquisition_durable_at f = secs (t + 3)"
    "fb_expires_at f = secs (t + 100)" "fb_scope_digest f = sample_digest" "fb_token_digest f = sample_token"
    by (simp_all add: f_def acq_receipt_binding_def sample_acq_receipt_def)
  have "fence_binding_ok f" using obj_intent_facts(9)[OF ok(1)] by (simp add: sample_obj_intent_def f_def)
  note facts = fence_binding_facts[OF this]
  have fl: "json_length (fence_data f) = 684 + length (show_int e)"
    using facts ok(2) by (simp add: fence_data_def f ids_plain length_simps del: encode_revision.simps)
  have "plain pre" "plain post" "length pre = 64" "length post = 64"
    using obj_intent_facts(6,7)[OF ok(1)] ids_plain(1) by (auto simp: sample_obj_intent_def)
  then show ?thesis
    unfolding sample_obj_intent_def f_def[symmetric]
    using fl by (cases k) (simp_all add: obj_intent_data_def length_simps del: encode_revision.simps)
qed

lemma json_option_length: "json_length (json_option None) = 4"
  "object_id_ok i \<Longrightarrow> json_length (json_option (Some i)) = 36"
  by (simp_all add: json_option_def ids_plain)

lemma sample_operation_ids:
  "acq_id (sample_acq 1 100) \<noteq> acq_id (sample_acq 10 115)"
  "rel_id (sample_rel 1 100 111) \<noteq> rel_id (sample_rel 10 115 126)"
  "op_id sample_write \<noteq> op_id sample_rollback"
proof -
  have "json_length (acq_intent_data (sample_acq_intent 1 100)) mod 256 \<noteq>
      json_length (acq_intent_data (sample_acq_intent 10 115)) mod 256"
    by (simp add: sample_acq_intent_length del: json_length.simps)
  from sample_digest_neq[OF this] show "acq_id (sample_acq 1 100) \<noteq> acq_id (sample_acq 10 115)"
    by (simp add: acq_id_def sample_acq_def sample_acq_intent_def)
  have "json_length (rel_intent_data (sample_rel_intent 1 100 111)) mod 256 \<noteq>
      json_length (rel_intent_data (sample_rel_intent 10 115 126)) mod 256"
    by (simp add: sample_rel_intent_length del: json_length.simps)
  from sample_digest_neq[OF this] show "rel_id (sample_rel 1 100 111) \<noteq> rel_id (sample_rel 10 115 126)"
    by (simp add: rel_id_def sample_rel_def sample_rel_intent_def)
  have "json_length (obj_intent_data sample_write_intent) mod 256 \<noteq>
      json_length (obj_intent_data sample_rollback_intent) mod 256"
    using sample_intents_ok
    by (simp add: sample_write_intent_def sample_rollback_intent_def sample_obj_intent_length
        json_option_length sample_write_id[unfolded sample_write_intent_def] del: json_length.simps)
  from sample_digest_neq[OF this] show "op_id sample_write \<noteq> op_id sample_rollback"
    by (simp add: op_id_def sample_write_def sample_rollback_def sample_op_def
        sample_write_intent_def sample_rollback_intent_def sample_obj_intent_def)
qed


lemmas sample_ids_distinct_rev = sample_ids_distinct[THEN distinct_rev[THEN iffD2]]

lemma sample_header:
  "attempt_header_ok sample_hash sample_committed" "attempt_header_ok sample_hash sample_restored"
  by (simp_all add: attempt_header_ok_def sample_committed_def sample_restored_def positive_ok_def
      freshness_ok_def expected_writes_ok_def expected_write_ok_def sample_expected_def nonnegative_ok_def)

lemma sample_acq_fields:
  "ac_intent (sample_acq e t) = sample_acq_intent e t" "ac_state (sample_acq e t) = F_ACKNOWLEDGED"
  "ac_receipt (sample_acq e t) = Some (AcqApplied (sample_acq_receipt e t))"
  "acknowledged_receipt (sample_acq e t) = Some (sample_acq_receipt e t)"
  "ai_plan_id (sample_acq_intent e t) = sample_plan" "ai_plan_digest (sample_acq_intent e t) = sample_digest"
  "ai_manifest_digest (sample_acq_intent e t) = sample_digest" "ai_attempt (sample_acq_intent e t) = 1"
  "ai_provider (sample_acq_intent e t) = ''lovelace''" "ai_epoch (sample_acq_intent e t) = e"
  "ai_requested_at (sample_acq_intent e t) = secs t"
  "ar_durable_at (sample_acq_receipt e t) = secs (t + 3)"
  "ar_operation_id (sample_acq_receipt e t) = acq_id (sample_acq e t)"
  by (simp_all add: sample_acq_def acknowledged_receipt_def sample_acq_intent_def sample_acq_receipt_def acq_id_def)

lemma sample_acquisitions:
  "acquisitions_ok sample_hash sample_committed" "acquisitions_ok sample_hash sample_restored"
  using sample_ids_distinct_rev sample_operation_ids(1)[symmetric]
  by (simp_all add: acquisitions_ok_def sample_committed_def sample_restored_def acquisition_step_ok_def
      sample_acq_ok sample_acq_fields acquisition_sort_key_def acq_receipt_ids_def last_option_def)

lemma sample_op_fields:
  "op_intent sample_write = sample_write_intent" "op_intent sample_rollback = sample_rollback_intent"
  "op_receipt sample_write = Some (sample_obj_receipt sample_write_intent 6 104)"
  "op_receipt sample_rollback = Some (sample_obj_receipt sample_rollback_intent 7 119)"
  "op_state sample_write = O_VERIFIED" "op_state sample_rollback = O_VERIFIED"
  "op_authorization sample_write = Some (sample_authorization sample_write_intent 104)"
  "op_authorization sample_rollback = Some (sample_authorization sample_rollback_intent 119)"
  "op_verifications sample_write = [sample_verification sample_write_intent 6 104]"
  "op_verifications sample_rollback = [sample_verification sample_rollback_intent 7 119]"
  "is_write sample_write" "\<not> is_write sample_rollback"
  "op_key sample_write = (''lovelace'', ''key'')" "op_key sample_rollback = (''lovelace'', ''key'')"
  "parent_id sample_rollback = op_id sample_write"
  by (simp_all add: sample_write_def sample_rollback_def sample_op_def is_write_def op_key_def parent_id_def op_id_def
      sample_write_intent_def sample_rollback_intent_def sample_obj_intent_def)

lemma sample_intent_fields:
  "oi_plan_id (sample_obj_intent e t n k p v a b) = sample_plan"
  "oi_plan_digest (sample_obj_intent e t n k p v a b) = sample_digest"
  "oi_manifest_digest (sample_obj_intent e t n k p v a b) = sample_digest"
  "oi_attempt (sample_obj_intent e t n k p v a b) = 1"
  "oi_sequence (sample_obj_intent e t n k p v a b) = n"
  "oi_kind (sample_obj_intent e t n k p v a b) = k"
  "oi_provider (sample_obj_intent e t n k p v a b) = ''lovelace''"
  "oi_object_key (sample_obj_intent e t n k p v a b) = ''key''"
  "oi_expected_revision (sample_obj_intent e t n k p v a b) = RInt v"
  "oi_pre_fingerprint (sample_obj_intent e t n k p v a b) = a"
  "oi_post_fingerprint (sample_obj_intent e t n k p v a b) = b"
  "oi_fence (sample_obj_intent e t n k p v a b) = acq_receipt_binding (sample_acq_receipt e t)"
  "fb_epoch (acq_receipt_binding (sample_acq_receipt e t)) = e"
  "fb_acquisition_operation_id (acq_receipt_binding (sample_acq_receipt e t)) = acq_id (sample_acq e t)"
  by (simp_all add: sample_obj_intent_def acq_receipt_binding_def sample_acq_receipt_def acq_id_def sample_acq_def)

lemma sample_evidence_fields:
  "da_observed_at (sample_authorization i t) = secs t" "da_authorized_at (sample_authorization i t) = secs (t + 1)"
  "oc_outcome (sample_obj_receipt i v t) = APPLIED" "oc_result_revision (sample_obj_receipt i v t) = RInt v"
  "ve_observed_at (sample_verification i v t) = secs (t + 5)"
  "ve_verified_at (sample_verification i v t) = secs (t + 6)"
  by (simp_all add: sample_authorization_def sample_obj_receipt_def sample_verification_def Let_def seal_obj_receipt_eq)

lemma id_prefixes:
  "acquire_id_ok i \<Longrightarrow> object_id_ok j \<Longrightarrow> i \<noteq> j"
  "acquire_id_ok i \<Longrightarrow> release_id_ok j \<Longrightarrow> i \<noteq> j"
  "object_id_ok i \<Longrightarrow> release_id_ok j \<Longrightarrow> i \<noteq> j"
  by (auto simp: acquire_id_ok_def object_id_ok_def release_id_ok_def hex_suffixed_def starts_with_ex)

lemma sample_ids_ok:
  "acquire_id_ok (acq_id (sample_acq e t))" "release_id_ok (rel_id (sample_rel e t0 t))"
  "object_id_ok (op_id sample_write)" "object_id_ok (op_id sample_rollback)"
  by (simp_all add: acq_id_def sample_acq_def sample_acq_id rel_id_def sample_rel_def sample_rel_id op_id_def
      sample_op_fields obj_intent_facts(1)[OF sample_intents_ok(1)] obj_intent_facts(1)[OF sample_intents_ok(2)])

lemmas sample_ids = id_prefixes(1)[OF sample_ids_ok(1) sample_ids_ok(3)] id_prefixes(1)[OF sample_ids_ok(1) sample_ids_ok(4)]
  id_prefixes(2)[OF sample_ids_ok(1) sample_ids_ok(2)]
  id_prefixes(3)[OF sample_ids_ok(3) sample_ids_ok(2)] id_prefixes(3)[OF sample_ids_ok(4) sample_ids_ok(2)]

lemma sample_resolved:
  "eligible_rollback_parent sample_write" "operation_effect_resolved sample_write"
  "operation_effect_resolved sample_rollback" "\<not> proven_undispatched sample_write"
  "\<not> proven_undispatched sample_rollback"
  "verified_outcome sample_write APPLIED" "verified_outcome sample_rollback APPLIED"
  "op_verification sample_write = Some (sample_verification sample_write_intent 6 104)"
  "op_verification sample_rollback = Some (sample_verification sample_rollback_intent 7 119)"
  by (simp_all add: eligible_rollback_parent_def operation_effect_resolved_def proven_undispatched_def
      verified_outcome_def op_verification_def sample_op_fields sample_evidence_fields last_option_def)


lemma sample_acquisition_lookup:
  "acquisition_by_id sample_committed (acq_id (sample_acq 1 100)) = Some (sample_acq 1 100)"
  "acquisition_by_id sample_restored (acq_id (sample_acq 1 100)) = Some (sample_acq 1 100)"
  "acquisition_by_id sample_restored (acq_id (sample_acq 10 115)) = Some (sample_acq 10 115)"
  using sample_operation_ids(1)
  by (simp_all add: acquisition_by_id_def sample_committed_def sample_restored_def)

lemma sample_attempt_fields:
  "at_plan_id sample_committed = sample_plan" "at_plan_id sample_restored = sample_plan"
  "at_plan_digest sample_committed = sample_digest" "at_plan_digest sample_restored = sample_digest"
  "at_manifest_digest sample_committed = sample_digest" "at_manifest_digest sample_restored = sample_digest"
  "at_attempt sample_committed = 1" "at_attempt sample_restored = 1"
  "at_max_observation_age_seconds sample_committed = 60" "at_max_observation_age_seconds sample_restored = 60"
  "at_expected_writes sample_committed = [sample_expected]" "at_expected_writes sample_restored = [sample_expected]"
  "at_acquisitions sample_committed = [sample_acq 1 100]"
  "at_acquisitions sample_restored = [sample_acq 1 100, sample_acq 10 115]"
  "at_operations sample_committed = [sample_write]"
  "at_operations sample_restored = [sample_write, sample_rollback]"
  "at_releases sample_committed = [sample_rel 1 100 111]"
  "at_releases sample_restored = [sample_rel 1 100 111, sample_rel 10 115 126]"
  "at_release_phase_sequence sample_committed = Some 1" "at_release_phase_sequence sample_restored = Some 1"
  "at_terminal_at sample_committed = Some (secs 115)" "at_terminal_at sample_restored = Some (secs 130)"
  by (simp_all add: sample_committed_def sample_restored_def)

lemma sample_write_step:
  assumes "a = sample_committed \<or> a = sample_restored"
  shows "operation_step_ok sample_hash a [] sample_write"
proof -
  have "write_step_ok a [] sample_write"
    using assms by (auto simp: write_step_ok_def sample_attempt_fields sample_op_fields sample_expected_def
        ew_key_def intent_matches_expected_def sample_write_intent_def sample_intent_fields)
  moreover have "acquisition_by_id a (acq_id (sample_acq 1 100)) = Some (sample_acq 1 100)"
    using assms sample_acquisition_lookup by auto
  moreover have "op_id sample_write \<notin> set (map acq_id (at_acquisitions a))"
    using assms by (auto simp: sample_attempt_fields sample_ids[symmetric])
  moreover have "oc_receipt_id (sample_obj_receipt sample_write_intent 6 104) \<notin>
      set (acq_receipt_ids (at_acquisitions a))"
    using assms sample_ids_distinct by (auto simp: sample_attempt_fields acq_receipt_ids_def sample_acq_fields)
  moreover have "observation_fresh (secs 104) (secs 105) a"
    using assms by (auto simp: observation_fresh_def sample_attempt_fields) (simp_all add: secs_def)
  ultimately show ?thesis
    using assms sample_write_ok
    by (auto simp: operation_step_ok_def sample_op_fields sample_attempt_fields sample_evidence_fields
        sample_write_intent_def sample_intent_fields sample_acq_fields op_receipt_ids_def)
qed

lemma sample_rollback_step: "operation_step_ok sample_hash sample_restored [sample_write] sample_rollback"
proof -
  have "write_by_id [sample_write] (op_id sample_write) = Some sample_write"
    by (simp add: write_by_id_def sample_op_fields)
  moreover have "rollback_chain [sample_write] (op_id sample_write) = []"
    by (simp add: rollback_chain_def sample_op_fields)
  ultimately have "rollback_step_ok [sample_write] sample_rollback"
    by (simp add: rollback_step_ok_def sample_op_fields sample_resolved sample_evidence_fields)
       (simp add: sample_write_intent_def sample_rollback_intent_def sample_intent_fields)
  moreover have "op_id sample_rollback \<notin> set (map acq_id (at_acquisitions sample_restored))"
    by (auto simp: sample_attempt_fields sample_ids[symmetric])
  moreover have "oc_receipt_id (sample_obj_receipt sample_rollback_intent 7 119) \<notin>
      set (acq_receipt_ids (at_acquisitions sample_restored))"
      "oc_receipt_id (sample_obj_receipt sample_rollback_intent 7 119) \<notin> set (op_receipt_ids [sample_write])"
    using sample_ids_distinct by (auto simp: sample_attempt_fields acq_receipt_ids_def sample_acq_fields
        op_receipt_ids_def sample_op_fields)
  moreover have "observation_fresh (secs 119) (secs 120) sample_restored"
    by (simp add: observation_fresh_def sample_attempt_fields) (simp add: secs_def)
  ultimately show ?thesis
    using sample_rollback_ok sample_operation_ids(3)[symmetric]
    by (simp add: operation_step_ok_def sample_op_fields sample_attempt_fields sample_evidence_fields)
      (simp add: sample_rollback_intent_def sample_write_intent_def sample_intent_fields sample_acq_fields
        sample_acquisition_lookup last_option_def sample_op_fields)
qed

lemma sample_operations:
  "operations_ok sample_hash sample_committed" "operations_ok sample_hash sample_restored"
  using sample_write_step sample_rollback_step
  by (simp_all add: operations_ok_def sample_attempt_fields)

lemma sample_release_phase:
  "release_phase_ok sample_committed" "release_phase_ok sample_restored"
  by (simp_all add: release_phase_ok_def sample_attempt_fields sample_resolved sample_op_fields)

lemma sample_rel_fields:
  "ri_plan_id (sample_rel_intent e t0 t) = sample_plan" "ri_plan_digest (sample_rel_intent e t0 t) = sample_digest"
  "ri_manifest_digest (sample_rel_intent e t0 t) = sample_digest" "ri_attempt (sample_rel_intent e t0 t) = 1"
  "ri_provider (sample_rel_intent e t0 t) = ''lovelace''" "ri_epoch (sample_rel_intent e t0 t) = e"
  "ri_release_attempt (sample_rel_intent e t0 t) = 1" "ri_requested_at (sample_rel_intent e t0 t) = secs t"
  "ri_acquisition_operation_id (sample_rel_intent e t0 t) = acq_id (sample_acq e t0)"
  "rl_intent (sample_rel e t0 t) = sample_rel_intent e t0 t" "rl_state (sample_rel e t0 t) = F_ACKNOWLEDGED"
  "rl_receipt (sample_rel e t0 t) = Some (RelApplied (sample_rel_receipt e t0 t))"
  "released_receipt (sample_rel e t0 t) = Some (sample_rel_receipt e t0 t)"
  "rr_durable_at (sample_rel_receipt e t0 t) = secs (t + 3)"
  by (simp_all add: sample_rel_intent_def sample_rel_def released_receipt_def sample_rel_receipt_def acq_id_def
      sample_acq_def)

lemma sample_release_acquisition:
  "t0 + 3 \<le> t \<Longrightarrow> release_intent_acquisition_ok (sample_rel_intent e t0 t) (sample_acq e t0)"
  by (simp add: release_intent_acquisition_ok_def sample_acq_fields sample_rel_fields)
    (simp add: sample_rel_intent_def sample_acq_receipt_def)

lemma sample_releases:
  "releases_ok sample_hash sample_committed" "releases_ok sample_hash sample_restored"
  using sample_ids_distinct sample_ids_distinct_rev sample_operation_ids(2)[symmetric]
  by (simp_all add: sample_ids[symmetric] releases_ok_def sample_attempt_fields release_step_ok_def release_sort_key_def sample_rel_ok
      sample_rel_fields sample_acquisition_lookup sample_release_acquisition acq_receipt_ids_def op_receipt_ids_def
      rel_receipt_ids_def sample_acq_fields sample_op_fields)

lemma sample_chains:
  "release_chain sample_committed (acq_id (sample_acq 1 100)) = [sample_rel 1 100 111]"
  "release_chain sample_restored (acq_id (sample_acq 1 100)) = [sample_rel 1 100 111]"
  "release_chain sample_restored (acq_id (sample_acq 10 115)) = [sample_rel 10 115 126]"
  "fenced_operations sample_committed (acq_id (sample_acq 1 100)) = [sample_write]"
  "fenced_operations sample_restored (acq_id (sample_acq 1 100)) = [sample_write]"
  "fenced_operations sample_restored (acq_id (sample_acq 10 115)) = [sample_rollback]"
  "rollback_chain [sample_write, sample_rollback] (op_id sample_write) = [sample_rollback]"
  using sample_operation_ids(1) sample_operation_ids(1)[symmetric]
  by (simp_all add: release_chain_def fenced_operations_def rollback_chain_def sample_attempt_fields
      sample_rel_fields sample_op_fields)
    (simp_all add: sample_write_intent_def sample_rollback_intent_def sample_intent_fields)

lemma sample_release_chains:
  "release_chains_ok sample_committed" "release_chains_ok sample_restored"
  by (simp_all add: release_chains_ok_def sample_attempt_fields release_chain_ok_def sample_rel_fields
      sample_chains sample_resolved release_retry_ok_def sample_op_fields sample_evidence_fields)

lemma sample_acquisition_chains:
  "acquisition_chains_ok sample_committed" "acquisition_chains_ok sample_restored"
  by (simp_all add: acquisition_chains_ok_def sample_attempt_fields provider_acquisitions_def sample_acq_fields
      fence_succession_ok_def acquisition_proven_undispatched_def sample_chains last_option_def
      sample_rel_fields)

lemma sample_terminal:
  "terminal_lifecycle_ok sample_committed" "terminal_lifecycle_ok sample_restored"
  "terminal_verification_ok sample_committed sample_write"
  "terminal_verification_ok sample_restored sample_rollback"
  by (simp_all add: terminal_lifecycle_ok_def sample_attempt_fields terminal_acquisition_ok_def sample_acq_fields
      sample_chains sample_rel_fields sample_acquisition_lookup terminal_verification_ok_def sample_resolved
      sample_evidence_fields observation_fresh_def) (simp_all add: secs_def)

lemma sample_states:
  "attempt_state_ok sample_committed" "attempt_state_ok sample_restored"
proof -
  have keys: "ew_key sample_expected = (''lovelace'', ''key'')"
    by (simp add: ew_key_def sample_expected_def)
  have st: "at_state sample_committed = A_COMMITTED" "at_state sample_restored = A_RESTORED"
    "at_reason_code sample_committed = None" "at_reason_code sample_restored = None"
    by (simp_all add: sample_committed_def sample_restored_def)
  have nb: "\<not> blocked_evidence sample_committed" "\<not> blocked_evidence sample_restored"
    by (simp_all add: blocked_evidence_def sample_attempt_fields sample_acq_fields sample_op_fields sample_rel_fields)
  have m: "missing_expected sample_committed = []" "missing_expected sample_restored = []"
    by (simp_all add: missing_expected_def attempt_writes_def sample_attempt_fields sample_op_fields keys)
  show "attempt_state_ok sample_committed"
    by (simp add: attempt_state_ok_def st committed_ok_def nb m sample_terminal attempt_writes_def sample_attempt_fields
        sample_op_fields sample_resolved keys)
  show "attempt_state_ok sample_restored"
    by (simp add: attempt_state_ok_def st restored_ok_def nb m sample_terminal attempt_writes_def sample_attempt_fields
        sample_op_fields restored_write_ok_def sample_resolved sample_evidence_fields sample_chains)
qed

theorem sample_attempts_ok:
  "attempt_ok sample_hash sample_committed" "attempt_ok sample_hash sample_restored"
  by (simp_all add: attempt_ok_def sample_header sample_acquisitions sample_operations sample_release_phase
      sample_releases sample_release_chains sample_acquisition_chains sample_states)

definition sample_store :: "string \<times> string \<Rightarrow> revision \<times> string" where
  "sample_store k = (RInt 5, sample_pre)"


end
