(* ===== verification/Txn_Replay.thy ===== *)
theory Txn_Replay
  imports Txn_Sample
begin

text \<open>
  What the histories of a valid attempt mean for the providers. A provider object holds a typed
  revision and a content fingerprint; an applied receipt is a conditional write that expects the
  previous pair and installs the result. \<open>replay\<close> runs the receipts of the operations in sequence
  order. The lemmas show that a valid attempt always replays, that a committed one leaves every
  expected object at its postimage, and that a restored one leaves every object at its preimage.
\<close>

type_synonym store = "string \<times> string \<Rightarrow> revision \<times> string"

definition apply_receipt :: "obj_receipt \<Rightarrow> store \<Rightarrow> store option" where
  "apply_receipt r s =
     (let k = (oc_provider r, oc_object_key r) in
      if oc_outcome r = NO_EFFECT then Some s
      else if s k = (oc_previous_revision r, oc_pre_fingerprint r)
      then Some (s(k := (oc_result_revision r, oc_post_fingerprint r)))
      else None)"

fun replay :: "op_record list \<Rightarrow> store \<Rightarrow> store option" where
  "replay [] s = Some s"
| "replay (p # ps) s =
     (case op_receipt p of None \<Rightarrow> replay ps s
      | Some r \<Rightarrow> Option.bind (apply_receipt r s) (replay ps))"

text \<open>Every expected object is where the plan found it.\<close>

definition at_preimages :: "expected_write list \<Rightarrow> store \<Rightarrow> bool" where
  "at_preimages ws s \<longleftrightarrow>
     (\<forall>w \<in> set ws. s (ew_key w) = (ew_expected_revision w, ew_pre_fingerprint w))"

lemma replay_append [simp]: "replay (ps @ qs) s = Option.bind (replay ps s) (replay qs)"
proof (induction ps arbitrary: s)
  case (Cons p ps)
  have "replay (ps @ qs) = (\<lambda>y. Option.bind (replay ps y) (replay qs))"
    using Cons by blast
  then show ?case by (cases "op_receipt p") simp_all
qed simp

definition applied_receipt :: "op_record \<Rightarrow> obj_receipt option" where
  "applied_receipt p = (case op_receipt p of None \<Rightarrow> None
     | Some r \<Rightarrow> if oc_outcome r = APPLIED then Some r else None)"

definition compensation :: "op_record list \<Rightarrow> op_record \<Rightarrow> obj_receipt option" where
  "compensation seen p = Option.bind (last_option (rollback_chain seen (op_id p))) applied_receipt"

text \<open>Where the operations seen so far leave the object of the write \<open>p\<close>.\<close>

definition object_after :: "op_record list \<Rightarrow> store \<Rightarrow> op_record \<Rightarrow> revision \<times> string" where
  "object_after seen s0 p =
     (case applied_receipt p of None \<Rightarrow> s0 (op_key p)
      | Some r \<Rightarrow> (case compensation seen p of
            None \<Rightarrow> (oc_result_revision r, oi_post_fingerprint (op_intent p))
          | Some r' \<Rightarrow> (oc_result_revision r', oi_pre_fingerprint (op_intent p))))"

section \<open>Facts of single operations\<close>

lemma op_receipt_facts:
  assumes "op_record_ok H p" "op_receipt p = Some r"
  shows "oc_provider r = oi_provider (op_intent p)" "oc_object_key r = oi_object_key (op_intent p)"
    "oc_previous_revision r = oi_expected_revision (op_intent p)"
    "oc_pre_fingerprint r = oi_pre_fingerprint (op_intent p)"
    "oc_post_fingerprint r = oi_post_fingerprint (op_intent p)"
    "obj_receipt_valid_for H r (op_intent p)"
  using assms by (auto simp: op_record_ok_def obj_receipt_valid_for_def)

lemma no_effect_not_applied [simp]:
  "rollback_proven_no_effect p \<Longrightarrow> applied_receipt p = None"
  by (auto simp: rollback_proven_no_effect_def proven_undispatched_def verified_outcome_def
      applied_receipt_def split: option.splits)

lemma eligible_applied:
  "eligible_rollback_parent p \<Longrightarrow> \<exists>r. op_receipt p = Some r \<and> applied_receipt p = Some r"
  by (auto simp: eligible_rollback_parent_def applied_receipt_def split: option.splits)

lemma verified_applied:
  "verified_outcome p APPLIED \<Longrightarrow> \<exists>r. op_receipt p = Some r \<and> applied_receipt p = Some r"
  by (auto simp: verified_outcome_def applied_receipt_def split: option.splits)

lemma apply_op_receipt:
  assumes "op_record_ok H p" "op_receipt p = Some r"
  shows "apply_receipt r s = (if applied_receipt p = None then Some s
     else if s (op_key p) = (oi_expected_revision (op_intent p), oi_pre_fingerprint (op_intent p))
     then Some (s(op_key p := (oc_result_revision r, oi_post_fingerprint (op_intent p)))) else None)"
  using op_receipt_facts[OF assms] assms(2)
  by (cases "oc_outcome r")
    (simp_all add: apply_receipt_def applied_receipt_def op_key_def Let_def)

lemma replay_single:
  assumes "op_record_ok H p"
    "applied_receipt p \<noteq> None \<Longrightarrow>
       s (op_key p) = (oi_expected_revision (op_intent p), oi_pre_fingerprint (op_intent p))"
  shows "replay [p] s = Some (case applied_receipt p of None \<Rightarrow> s
     | Some r \<Rightarrow> s(op_key p := (oc_result_revision r, oi_post_fingerprint (op_intent p))))"
proof (cases "op_receipt p")
  case None
  then show ?thesis by (simp add: applied_receipt_def)
next
  case (Some r)
  have "applied_receipt p = None \<or> applied_receipt p = Some r"
    using Some by (simp add: applied_receipt_def)
  with assms apply_op_receipt[OF assms(1) Some, of s] Some show ?thesis by auto
qed

section \<open>The invariant of the operation loop\<close>

definition written_keys :: "op_record list \<Rightarrow> (string \<times> string) set" where
  "written_keys seen = set (map op_key (filter is_write seen))"

lemma written_keys_append [simp]:
  "written_keys (ps @ [q]) = (if is_write q then insert (op_key q) (written_keys ps) else written_keys ps)"
  by (simp add: written_keys_def)

lemma written_keys_in: "p \<in> set ps \<Longrightarrow> is_write p \<Longrightarrow> op_key p \<in> written_keys ps"
  by (simp add: written_keys_def)

definition history_inv :: "store \<Rightarrow> op_record list \<Rightarrow> store \<Rightarrow> bool" where
  "history_inv s0 seen s \<longleftrightarrow>
     (\<forall>q \<in> set seen. \<not> is_write q \<longrightarrow>
        (\<exists>p \<in> set seen. is_write p \<and> op_id p = parent_id q \<and> op_key p = op_key q)) \<and>
     distinct (map op_id seen) \<and>
     distinct (map op_key (filter is_write seen)) \<and>
     (\<forall>k. k \<notin> written_keys seen \<longrightarrow> s k = s0 k) \<and>
     (\<forall>p \<in> set seen. is_write p \<longrightarrow> s (op_key p) = object_after seen s0 p)"

lemma rollback_chain_append:
  "rollback_chain (ps @ [q]) i =
     rollback_chain ps i @ (if \<not> is_write q \<and> parent_id q = i then [q] else [])"
  by (simp add: rollback_chain_def)

lemma object_after_append:
  "is_write q \<or> parent_id q \<noteq> op_id p \<Longrightarrow> object_after (ps @ [q]) s0 p = object_after ps s0 p"
  by (auto simp: object_after_def compensation_def rollback_chain_append split: option.splits)

lemma history_inv_no_chain:
  "history_inv s0 seen s \<Longrightarrow> i \<notin> set (map op_id seen) \<Longrightarrow> rollback_chain seen i = []"
  unfolding history_inv_def rollback_chain_def filter_empty_conv by (metis image_eqI list.set_map)

lemma history_inv_Nil [simp]: "history_inv s0 [] s0"
  by (simp add: history_inv_def)

lemma history_inv_outside:
  "history_inv s0 seen s \<Longrightarrow> k \<notin> written_keys seen \<Longrightarrow> s k = s0 k"
  by (simp add: history_inv_def del: split_paired_All)

lemma history_inv_write:
  assumes inv: "history_inv s0 seen s" and ok: "op_record_ok H q" "is_write q"
    and new: "op_id q \<notin> set (map op_id seen)" "op_key q \<notin> set (map op_key (filter is_write seen))"
    and pre: "s0 (op_key q) = (oi_expected_revision (op_intent q), oi_pre_fingerprint (op_intent q))"
  shows "\<exists>s'. replay [q] s = Some s' \<and> history_inv s0 (seen @ [q]) s'"
proof -
  have here: "s (op_key q) = s0 (op_key q)"
    using new(2) by (intro history_inv_outside[OF inv]) (simp add: written_keys_def)
  define s' where "s' = (case applied_receipt q of None \<Rightarrow> s
     | Some r \<Rightarrow> s(op_key q := (oc_result_revision r, oi_post_fingerprint (op_intent q))))"
  have run: "replay [q] s = Some s'"
    unfolding s'_def using replay_single[OF ok(1)] here pre by simp
  have fresh: "rollback_chain seen (op_id q) = []"
    using history_inv_no_chain[OF inv new(1)] .
  have same: "object_after (seen @ [q]) s0 p = object_after seen s0 p" for p
    using ok(2) by (simp add: object_after_append)
  have other: "p \<in> set seen \<Longrightarrow> is_write p \<Longrightarrow> s' (op_key p) = s (op_key p)" for p
    using new(2) written_keys_in[of p seen]
    by (cases "op_key p = op_key q") (auto simp: s'_def written_keys_def split: option.splits)
  have mine: "s' (op_key q) = object_after (seen @ [q]) s0 q"
    using fresh here unfolding same unfolding object_after_def compensation_def
    by (simp add: s'_def split: option.splits)
  have "s' k = s0 k" if "k \<notin> written_keys (seen @ [q])" for k
    using that ok(2) history_inv_outside[OF inv, of k] by (simp add: s'_def split: option.splits)
  moreover have "\<forall>p \<in> set (seen @ [q]). is_write p \<longrightarrow> s' (op_key p) = object_after (seen @ [q]) s0 p"
    using inv other mine by (auto simp: history_inv_def same)
  moreover have "distinct (map op_id (seen @ [q]))" "distinct (map op_key (filter is_write (seen @ [q])))"
    using inv new ok(2) by (auto simp: history_inv_def)
  moreover have "\<forall>x \<in> set (seen @ [q]). \<not> is_write x \<longrightarrow>
        (\<exists>p \<in> set (seen @ [q]). is_write p \<and> op_id p = parent_id x \<and> op_key p = op_key x)"
    using inv ok(2) by (auto simp: history_inv_def)
  ultimately have "history_inv s0 (seen @ [q]) s'"
    unfolding history_inv_def by blast
  with run show ?thesis by blast
qed

lemma write_by_id_Some:
  "write_by_id seen i = Some p \<Longrightarrow> p \<in> set seen \<and> is_write p \<and> op_id p = i"
  by (auto simp: write_by_id_def dest: find_Some_in)

lemma rollback_step_facts:
  assumes "rollback_step_ok seen q"
  obtains p r where "p \<in> set seen" "is_write p" "op_id p = parent_id q" "op_key q = op_key p"
    "applied_receipt p = Some r" "oi_expected_revision (op_intent q) = oc_result_revision r"
    "oi_pre_fingerprint (op_intent q) = oi_post_fingerprint (op_intent p)"
    "oi_post_fingerprint (op_intent q) = oi_pre_fingerprint (op_intent p)"
    "compensation seen p = None"
proof -
  from assms obtain p where p: "write_by_id seen (parent_id q) = Some p" "eligible_rollback_parent p"
    by (auto simp: rollback_step_ok_def split: option.splits)
  obtain r where r: "op_receipt p = Some r" "applied_receipt p = Some r"
    using eligible_applied[OF p(2)] by blast
  have "compensation seen p = None"
    using assms p by (auto simp: rollback_step_ok_def compensation_def Let_def split: option.splits)
  with that[of p r] write_by_id_Some[OF p(1)] assms p r show ?thesis
    by (auto simp: rollback_step_ok_def op_key_def Let_def split: option.splits)
qed

lemma history_inv_rollback:
  assumes inv: "history_inv s0 seen s" and ok: "op_record_ok H q" "\<not> is_write q"
    and new: "op_id q \<notin> set (map op_id seen)" and step: "rollback_step_ok seen q"
  shows "\<exists>s'. replay [q] s = Some s' \<and> history_inv s0 (seen @ [q]) s'"
proof -
  obtain p r where p: "p \<in> set seen" "is_write p" "op_id p = parent_id q" "op_key q = op_key p"
      and r: "applied_receipt p = Some r" "oi_expected_revision (op_intent q) = oc_result_revision r"
      and fp: "oi_pre_fingerprint (op_intent q) = oi_post_fingerprint (op_intent p)"
        "oi_post_fingerprint (op_intent q) = oi_pre_fingerprint (op_intent p)"
      and none: "compensation seen p = None"
    using rollback_step_facts[OF step] by blast
  have here: "s (op_key q) = (oi_expected_revision (op_intent q), oi_pre_fingerprint (op_intent q))"
    using inv p r fp none by (simp add: history_inv_def object_after_def)
  define s' where "s' = (case applied_receipt q of None \<Rightarrow> s
     | Some r \<Rightarrow> s(op_key q := (oc_result_revision r, oi_post_fingerprint (op_intent q))))"
  have run: "replay [q] s = Some s'"
    unfolding s'_def using replay_single[OF ok(1)] here by simp
  have ids: "op_id x \<noteq> op_id p" if "x \<in> set seen" "x \<noteq> p" for x
    using inv p(1) that by (auto simp: history_inv_def distinct_map dest: inj_onD)
  have keys: "op_key x \<noteq> op_key p" if "x \<in> set seen" "is_write x" "x \<noteq> p" for x
    using inv p(1,2) that by (auto simp: history_inv_def distinct_map dest: inj_onD)
  have "s' (op_key x) = object_after (seen @ [q]) s0 x" if x: "x \<in> set seen" "is_write x" for x
  proof (cases "x = p")
    case True
    have "compensation (seen @ [q]) p = applied_receipt q"
      using ok(2) p(3) by (simp add: compensation_def rollback_chain_append)
    then show ?thesis
      using True p r fp here by (simp add: s'_def object_after_def split: option.splits)
  next
    case False
    have "s' (op_key x) = s (op_key x)"
      using keys[OF x False] p(4) by (simp add: s'_def split: option.splits)
    also have "\<dots> = object_after seen s0 x"
      using inv x by (simp add: history_inv_def)
    also have "\<dots> = object_after (seen @ [q]) s0 x"
      using ids[OF x(1) False] p(3)
      by (simp add: object_after_append)
    finally show ?thesis .
  qed
  moreover have "s' k = s0 k" if "k \<notin> written_keys (seen @ [q])" for k
  proof -
    have "k \<noteq> op_key q" using that ok(2) p written_keys_in[of p seen] by auto
    with that ok(2) history_inv_outside[OF inv, of k] show ?thesis
      by (simp add: s'_def split: option.splits)
  qed
  moreover have "distinct (map op_id (seen @ [q]))" "distinct (map op_key (filter is_write (seen @ [q])))"
    using inv new ok(2) by (auto simp: history_inv_def)
  moreover have "\<forall>x \<in> set (seen @ [q]). \<not> is_write x \<longrightarrow>
        (\<exists>p \<in> set (seen @ [q]). is_write p \<and> op_id p = parent_id x \<and> op_key p = op_key x)"
    using inv p by (auto simp: history_inv_def)
  ultimately have "history_inv s0 (seen @ [q]) s'"
    using ok(2) unfolding history_inv_def by auto
  with run show ?thesis by blast
qed

lemma history_inv_step:
  assumes inv: "history_inv s0 seen s" and step: "operation_step_ok H a seen q"
    and pre: "at_preimages (at_expected_writes a) s0"
  shows "\<exists>s'. replay [q] s = Some s' \<and> history_inv s0 (seen @ [q]) s'"
proof (cases "is_write q")
  case True
  then obtain w where w: "w \<in> set (at_expected_writes a)" "intent_matches_expected (op_intent q) w"
      "ew_key w = op_key q" "op_key q \<notin> set (map op_key (filter is_write seen))"
    using step by (auto simp: operation_step_ok_def write_step_ok_def split: option.splits
        dest!: find_Some_in)
  have "s0 (op_key q) = (oi_expected_revision (op_intent q), oi_pre_fingerprint (op_intent q))"
    using w pre by (auto simp: at_preimages_def intent_matches_expected_def)
  then show ?thesis
    using history_inv_write[OF inv _ True] step w(4) by (auto simp: operation_step_ok_def)
next
  case False
  then show ?thesis
    using history_inv_rollback[OF inv _ False] step by (auto simp: operation_step_ok_def)
qed

lemma history_replays:
  assumes "each_after (operation_step_ok H a) seen ps" "history_inv s0 seen s"
    "at_preimages (at_expected_writes a) s0"
  shows "\<exists>s'. replay ps s = Some s' \<and> history_inv s0 (seen @ ps) s'"
  using assms
proof (induction ps arbitrary: seen s)
  case (Cons q ps)
  then obtain s' where s': "replay [q] s = Some s'" "history_inv s0 (seen @ [q]) s'"
    using history_inv_step by (metis each_after.simps(2))
  with Cons obtain s'' where "replay ps s' = Some s''" "history_inv s0 (seen @ q # ps) s''"
    by (metis append.assoc append_Cons append_Nil each_after.simps(2))
  moreover have "replay (q # ps) s = Option.bind (replay [q] s) (replay ps)"
    using replay_append[of "[q]" ps s] by simp
  ultimately show ?case using s' by simp
qed simp

lemma attempt_replays:
  assumes "attempt_ok H a" "at_preimages (at_expected_writes a) s0"
  obtains s where "replay (at_operations a) s0 = Some s" "history_inv s0 (at_operations a) s"
  using history_replays[of H a "[]" "at_operations a" s0 s0] assms
  by (auto simp: attempt_ok_def operations_ok_def)

section \<open>Writes, expected coverage, and the outcome of a terminal attempt\<close>

lemma attempt_okD:
  assumes "attempt_ok H a"
  shows "attempt_header_ok H a" "acquisitions_ok H a" "operations_ok H a" "release_phase_ok a"
    "releases_ok H a" "release_chains_ok a" "acquisition_chains_ok a" "attempt_state_ok a"
  using assms by (simp_all add: attempt_ok_def)

lemma operation_in:
  assumes "attempt_ok H a" "p \<in> set (at_operations a)"
  shows "op_record_ok H p"
  using attempt_okD(3)[OF assms(1)] assms(2) unfolding operations_ok_def
  by (metis each_after_in operation_step_ok_def)

lemma write_in:
  assumes "attempt_ok H a" "p \<in> set (at_operations a)" "is_write p"
  obtains w where "w \<in> set (at_expected_writes a)" "intent_matches_expected (op_intent p) w"
    "ew_key w = op_key p"
proof -
  from each_after_in attempt_okD(3)[OF assms(1)] assms(2)
  obtain seen where "operation_step_ok H a seen p" unfolding operations_ok_def by metis
  with assms(3) that show ?thesis
    by (auto simp: operation_step_ok_def write_step_ok_def split: option.splits dest!: find_Some_in)
qed

lemma written_expected:
  assumes "attempt_ok H a"
  shows "written_keys (at_operations a) \<subseteq> ew_key ` set (at_expected_writes a)"
proof
  fix k assume "k \<in> written_keys (at_operations a)"
  then obtain p where "p \<in> set (at_operations a)" "is_write p" "k = op_key p"
    by (auto simp: written_keys_def)
  with write_in[OF assms] show "k \<in> ew_key ` set (at_expected_writes a)" by (metis image_eqI)
qed

lemma expected_keys:
  assumes "attempt_ok H a"
  shows "distinct (map ew_key (at_expected_writes a))" "sorted (map ew_key (at_expected_writes a))"
    "at_expected_writes a \<noteq> []" "w \<in> set (at_expected_writes a) \<Longrightarrow> expected_write_ok w"
  using attempt_okD(1)[OF assms]
  by (auto simp: attempt_header_ok_def expected_writes_ok_def list_all_iff)

lemma write_matches:
  assumes "attempt_ok H a" "p \<in> set (at_operations a)" "is_write p"
    "w \<in> set (at_expected_writes a)" "ew_key w = op_key p"
  shows "intent_matches_expected (op_intent p) w"
proof -
  obtain w' where "w' \<in> set (at_expected_writes a)" "intent_matches_expected (op_intent p) w'"
    "ew_key w' = op_key p" using write_in[OF assms(1-3)] .
  with assms(4,5) expected_keys(1)[OF assms(1)] show ?thesis
    by (metis distinct_map inj_onD)
qed

lemma applied_revision_changes:
  assumes "op_record_ok H p" "applied_receipt p = Some r"
  shows "oc_result_revision r \<noteq> oi_expected_revision (op_intent p)"
    "oc_result_revision r = oi_expected_revision (op_intent p) \<Longrightarrow> False" "revision_ok (oc_result_revision r)"
proof -
  have r: "op_receipt p = Some r" "oc_outcome r = APPLIED"
    using assms(2) by (auto simp: applied_receipt_def split: option.splits if_splits)
  have "obj_receipt_ok H r" using assms(1) r(1) by (simp add: op_record_ok_def)
  then show "oc_result_revision r \<noteq> oi_expected_revision (op_intent p)"
    "oc_result_revision r = oi_expected_revision (op_intent p) \<Longrightarrow> False" "revision_ok (oc_result_revision r)"
    using op_receipt_facts(3)[OF assms(1) r(1)] r(2) by (auto simp: obj_receipt_ok_def)
qed

lemma object_after_no_effect [simp]:
  "applied_receipt p = None \<Longrightarrow> object_after seen s0 p = s0 (op_key p)"
  by (simp add: object_after_def)

lemma attempt_replay_outcome:
  assumes "attempt_ok H a" "at_preimages (at_expected_writes a) s0"
  obtains s where "replay (at_operations a) s0 = Some s"
    "\<And>p. p \<in> set (at_operations a) \<Longrightarrow> is_write p \<Longrightarrow>
       s (op_key p) = object_after (at_operations a) s0 p"
    "\<And>k. k \<notin> written_keys (at_operations a) \<Longrightarrow> s k = s0 k"
    "\<And>k. k \<notin> ew_key ` set (at_expected_writes a) \<Longrightarrow> s k = s0 k"
proof -
  from attempt_replays[OF assms] obtain s where s: "replay (at_operations a) s0 = Some s"
      "history_inv s0 (at_operations a) s" .
  show ?thesis
  proof (rule that[OF s(1)])
    show "s (op_key p) = object_after (at_operations a) s0 p"
      if "p \<in> set (at_operations a)" "is_write p" for p
      using s(2) that by (simp add: history_inv_def)
    show "s k = s0 k" if "k \<notin> written_keys (at_operations a)" for k
      using history_inv_outside[OF s(2) that] .
    show "s k = s0 k" if "k \<notin> ew_key ` set (at_expected_writes a)" for k
      using that written_expected[OF assms(1)] by (intro history_inv_outside[OF s(2)]) blast
  qed
qed

lemma committed_write:
  assumes "attempt_ok H a" "at_state a = A_COMMITTED" "w \<in> set (at_expected_writes a)"
  obtains p r where "p \<in> set (at_operations a)" "is_write p" "op_key p = ew_key w"
    "applied_receipt p = Some r" "rollback_chain (at_operations a) (op_id p) = []"
    "verified_outcome p APPLIED" "terminal_verification_ok a p"
proof -
  have c: "committed_ok a" using attempt_okD(8)[OF assms(1)] assms(2) by (simp add: attempt_state_ok_def)
  then have "ew_key w \<in> set (map op_key (attempt_writes a))"
    using assms(3) by (auto simp: committed_ok_def missing_expected_def filter_empty_conv)
  then obtain p where p: "p \<in> set (at_operations a)" "is_write p" "op_key p = ew_key w"
    by (auto simp: attempt_writes_def)
  then have "verified_outcome p APPLIED" "terminal_verification_ok a p"
    using c by (auto simp: committed_ok_def attempt_writes_def list_all_iff)
  moreover have "rollback_chain (at_operations a) i = []" for i
    using c by (auto simp: committed_ok_def list_all_iff rollback_chain_def filter_empty_conv)
  ultimately show ?thesis using that p verified_applied by blast
qed

lemma restored_write:
  assumes "attempt_ok H a" "at_state a = A_RESTORED" "p \<in> set (at_operations a)" "is_write p"
  obtains (untouched) "applied_receipt p = None" "proven_undispatched p \<or> (\<exists>r. op_receipt p = Some r \<and>
      oc_outcome r = NO_EFFECT \<and> \<not> proven_undispatched p)"
  | (compensated) r q r' where "applied_receipt p = Some r" "\<not> proven_undispatched p"
      "last_option (rollback_chain (at_operations a) (op_id p)) = Some q"
      "applied_receipt q = Some r'" "terminal_verification_ok a q"
proof -
  have ok: "restored_write_ok a p"
    using attempt_okD(8)[OF assms(1)] assms
    by (auto simp: attempt_state_ok_def restored_ok_def list_all_iff attempt_writes_def)
  show ?thesis
  proof (cases "proven_undispatched p")
    case True
    then show ?thesis using untouched by (auto simp: proven_undispatched_def applied_receipt_def)
  next
    case False
    with ok obtain r where r: "op_receipt p = Some r"
      by (auto simp: restored_write_ok_def Let_def split: option.splits)
    show ?thesis
    proof (cases "oc_outcome r")
      case NO_EFFECT
      with r False show ?thesis using untouched by (auto simp: applied_receipt_def)
    next
      case APPLIED
      let ?chain = "rollback_chain (at_operations a) (op_id p)"
      have c: "?chain \<noteq> []" "verified_outcome (last ?chain) APPLIED" "terminal_verification_ok a (last ?chain)"
        using ok r False APPLIED by (auto simp: restored_write_ok_def Let_def split: option.splits)
      moreover have "applied_receipt p = Some r" using r APPLIED by (simp add: applied_receipt_def)
      moreover have "last_option ?chain = Some (last ?chain)" using c by (simp add: last_option_def)
      ultimately show ?thesis using compensated False verified_applied[OF c(2)] by metis
    qed
  qed
qed

lemma sample_at_preimages:
  "at_preimages (at_expected_writes sample_committed) sample_store"
  "at_preimages (at_expected_writes sample_restored) sample_store"
  by (simp_all add: at_preimages_def sample_attempt_fields sample_store_def sample_expected_def)

lemma sample_attempt_states:
  "at_state sample_committed = A_COMMITTED" "at_state sample_restored = A_RESTORED"
  by (simp_all add: sample_committed_def sample_restored_def)

text \<open>
  C1. Commit installs the plan. Whatever history of write and rollback receipts a committed attempt
  carries, running it as conditional writes from the state the plan expects never meets a revision
  or fingerprint conflict, and leaves every expected object at its planned postimage under a new
  revision, with no other object touched.
\<close>

theorem committed_attempt_installs_postimages:
  assumes "attempt_ok H a" "at_state a = A_COMMITTED" "at_preimages (at_expected_writes a) s0"
  shows "\<exists>s. replay (at_operations a) s0 = Some s \<and>
    (\<forall>w \<in> set (at_expected_writes a).
       snd (s (ew_key w)) = ew_post_fingerprint w \<and> fst (s (ew_key w)) \<noteq> ew_expected_revision w) \<and>
    (\<forall>k. k \<notin> ew_key ` set (at_expected_writes a) \<longrightarrow> s k = s0 k)"
proof -
  obtain s where s: "replay (at_operations a) s0 = Some s"
    "\<And>p. p \<in> set (at_operations a) \<Longrightarrow> is_write p \<Longrightarrow>
       s (op_key p) = object_after (at_operations a) s0 p"
    "\<And>k. k \<notin> ew_key ` set (at_expected_writes a) \<Longrightarrow> s k = s0 k"
    using attempt_replay_outcome[OF assms(1,3)] by metis
  have "snd (s (ew_key w)) = ew_post_fingerprint w \<and> fst (s (ew_key w)) \<noteq> ew_expected_revision w"
    if w: "w \<in> set (at_expected_writes a)" for w
  proof -
    obtain p r where p: "p \<in> set (at_operations a)" "is_write p" "op_key p = ew_key w"
      "applied_receipt p = Some r" "rollback_chain (at_operations a) (op_id p) = []"
      using committed_write[OF assms(1,2) w] by metis
    have "s (ew_key w) = (oc_result_revision r, oi_post_fingerprint (op_intent p))"
      using s(2)[OF p(1,2)] p by (simp add: object_after_def compensation_def)
    then show ?thesis
      using write_matches[OF assms(1) p(1,2) w p(3)[symmetric]]
        applied_revision_changes(1)[OF operation_in[OF assms(1) p(1)] p(4)]
      by (simp add: intent_matches_expected_def)
  qed
  with s(1,3) show ?thesis by blast
qed

lemma committed_attempt_installs_postimages_witness:
  "\<exists>s. replay (at_operations sample_committed) sample_store = Some s \<and>
     snd (s (ew_key sample_expected)) = sample_post"
  using committed_attempt_installs_postimages[OF sample_attempts_ok(1) sample_attempt_states(1)
      sample_at_preimages(1)]
  by (auto simp: sample_attempt_fields sample_expected_def)

text \<open>
  C2. Restore undoes the plan. A restored attempt, however far its writes got and however often its
  rollbacks were retried, replays without conflict and leaves every expected object with the
  fingerprint it had before the attempt, and every other object untouched.
\<close>

theorem restored_attempt_keeps_preimages:
  assumes "attempt_ok H a" "at_state a = A_RESTORED" "at_preimages (at_expected_writes a) s0"
  shows "\<exists>s. replay (at_operations a) s0 = Some s \<and>
    (\<forall>w \<in> set (at_expected_writes a). snd (s (ew_key w)) = ew_pre_fingerprint w) \<and>
    (\<forall>k. k \<notin> ew_key ` set (at_expected_writes a) \<longrightarrow> s k = s0 k)"
proof -
  obtain s where s: "replay (at_operations a) s0 = Some s"
    "\<And>p. p \<in> set (at_operations a) \<Longrightarrow> is_write p \<Longrightarrow>
       s (op_key p) = object_after (at_operations a) s0 p"
    "\<And>k. k \<notin> written_keys (at_operations a) \<Longrightarrow> s k = s0 k"
    "\<And>k. k \<notin> ew_key ` set (at_expected_writes a) \<Longrightarrow> s k = s0 k"
    using attempt_replay_outcome[OF assms(1,3)] by metis
  have "snd (s (ew_key w)) = ew_pre_fingerprint w" if w: "w \<in> set (at_expected_writes a)" for w
  proof (cases "ew_key w \<in> written_keys (at_operations a)")
    case True
    then obtain p where p: "p \<in> set (at_operations a)" "is_write p" "op_key p = ew_key w"
      by (auto simp: written_keys_def)
    have m: "oi_pre_fingerprint (op_intent p) = ew_pre_fingerprint w"
      using write_matches[OF assms(1) p(1,2) w] p(3) by (simp add: intent_matches_expected_def)
    from assms(1,2) p(1,2) show ?thesis
    proof (cases rule: restored_write)
      case untouched
      then show ?thesis using s(2)[OF p(1,2)] p(3) assms(3) w by (simp add: at_preimages_def)
    next
      case compensated
      then show ?thesis using s(2)[OF p(1,2)] p(3) m by (simp add: object_after_def compensation_def)
    qed
  next
    case False
    with s(3) assms(3) w show ?thesis by (simp add: at_preimages_def)
  qed
  with s(1,4) show ?thesis by blast
qed

lemma restored_attempt_keeps_preimages_witness:
  "\<exists>s. replay (at_operations sample_restored) sample_store = Some s \<and>
     snd (s (ew_key sample_expected)) = sample_pre"
  using restored_attempt_keeps_preimages[OF sample_attempts_ok(2) sample_attempt_states(2)
      sample_at_preimages(2)]
  by (auto simp: sample_attempt_fields sample_expected_def)

lemma retry_revision_current:
  assumes a: "attempt_ok H a" "at_state a = A_RESTORED" "at_preimages (at_expected_writes a) s0"
    and w: "w \<in> set (at_expected_writes a)"
    and s: "\<And>p. p \<in> set (at_operations a) \<Longrightarrow> is_write p \<Longrightarrow>
       s (op_key p) = object_after (at_operations a) s0 p"
    "\<And>k. k \<notin> written_keys (at_operations a) \<Longrightarrow> s k = s0 k"
  shows "\<exists>v. retry_revision a w = Inr v \<and> revision_ok v \<and> s (ew_key w) = (v, ew_pre_fingerprint w)"
proof (cases "map_of (rev (map (\<lambda>p. (op_key p, p)) (attempt_writes a))) (ew_key w)")
  case None
  then have "ew_key w \<notin> written_keys (at_operations a)"
    by (auto simp: map_of_eq_None_iff attempt_writes_def written_keys_def image_image)
  then show ?thesis
    using None s(2) a(3) w expected_keys(4)[OF a(1) w]
    by (simp add: retry_revision_def at_preimages_def expected_write_ok_def)
next
  case (Some p)
  then have p: "p \<in> set (at_operations a)" "is_write p" "op_key p = ew_key w"
    by (auto dest!: map_of_SomeD simp: attempt_writes_def)
  have pok: "op_record_ok H p" by (rule operation_in[OF a(1) p(1)])
  have m: "oi_expected_revision (op_intent p) = ew_expected_revision w"
      "oi_pre_fingerprint (op_intent p) = ew_pre_fingerprint w"
    using write_matches[OF a(1) p(1,2) w] p(3) by (simp_all add: intent_matches_expected_def)
  have wr: "revision_ok (ew_expected_revision w)"
    using expected_keys(4)[OF a(1) w] by (simp add: expected_write_ok_def)
  from a(1,2) p(1,2) show ?thesis
  proof (cases rule: restored_write)
    case untouched
    have here: "s (ew_key w) = (ew_expected_revision w, ew_pre_fingerprint w)"
      using s(2) s(1)[OF p(1,2)] untouched(1) p(3) a(3) w by (simp add: at_preimages_def)
    from untouched(2) show ?thesis
    proof
      assume "proven_undispatched p"
      then show ?thesis using Some here wr by (simp add: retry_revision_def)
    next
      assume "\<exists>r. op_receipt p = Some r \<and> oc_outcome r = NO_EFFECT \<and> \<not> proven_undispatched p"
      then obtain r where r: "op_receipt p = Some r" "oc_outcome r = NO_EFFECT" "\<not> proven_undispatched p"
        by blast
      have "oc_result_revision r = ew_expected_revision w"
        using op_receipt_facts(3)[OF pok r(1)] m(1) pok r
        by (simp add: op_record_ok_def obj_receipt_ok_def)
      then show ?thesis using Some r here wr by (simp add: retry_revision_def)
    qed
  next
    case (compensated r q r')
    have q: "q \<in> set (at_operations a)"
      using last_option_in[OF compensated(3)] by (simp add: rollback_chain_def)
    have r: "op_receipt p = Some r" "oc_outcome r = APPLIED" "op_receipt q = Some r'"
      using compensated(1,4) by (auto simp: applied_receipt_def split: option.splits if_splits)
    have "s (ew_key w) = (oc_result_revision r', ew_pre_fingerprint w)"
      using s(1)[OF p(1,2)] compensated p(3) m by (simp add: object_after_def compensation_def)
    then show ?thesis
      using Some r compensated applied_revision_changes(3)[OF operation_in[OF a(1) q] compensated(4)]
      by (simp add: retry_revision_def)
  qed
qed

lemma retry_writes_run:
  assumes "\<And>w. w \<in> set ws \<Longrightarrow> expected_write_ok w"
    "\<And>w. w \<in> set ws \<Longrightarrow> \<exists>v. retry_revision a w = Inr v \<and> revision_ok v \<and>
       s (ew_key w) = (v, ew_pre_fingerprint w)"
  shows "\<exists>ws'. retry_writes a ws = Inr ws' \<and> list_all expected_write_ok ws' \<and>
    map (\<lambda>w. (ew_key w, ew_pre_fingerprint w, ew_post_fingerprint w)) ws' =
    map (\<lambda>w. (ew_key w, ew_pre_fingerprint w, ew_post_fingerprint w)) ws \<and> at_preimages ws' s"
  using assms
proof (induction ws)
  case (Cons w ws)
  obtain ws' where ws': "retry_writes a ws = Inr ws'" "list_all expected_write_ok ws'"
    "map (\<lambda>w. (ew_key w, ew_pre_fingerprint w, ew_post_fingerprint w)) ws' =
     map (\<lambda>w. (ew_key w, ew_pre_fingerprint w, ew_post_fingerprint w)) ws" "at_preimages ws' s"
    using Cons.IH Cons.prems by auto
  obtain v where v: "retry_revision a w = Inr v" "revision_ok v" "s (ew_key w) = (v, ew_pre_fingerprint w)"
    using Cons.prems(2) by auto
  have "expected_write_ok (w\<lparr>ew_expected_revision := v\<rparr>)"
    using Cons.prems(1)[of w] v(2) by (simp add: expected_write_ok_def)
  then show ?case using ws' v by (auto simp: Let_def at_preimages_def ew_key_def)
qed (simp add: at_preimages_def)

text \<open>
  C3. Retrying continues from the restored state. After a restored attempt the retry coverage is
  always computed, it is valid coverage of the same objects with the same pre- and postimages, and
  its expected revisions are exactly the revisions the attempt's receipts leave in the providers:
  a new attempt over it starts from objects that are at its preimages.
\<close>

theorem retry_coverage_matches_restored_state:
  assumes "attempt_ok H a" "at_state a = A_RESTORED" "at_preimages (at_expected_writes a) s0"
  shows "\<exists>s ws. replay (at_operations a) s0 = Some s \<and> retry_expected_writes a = Inr ws \<and>
    expected_writes_ok ws \<and> at_preimages ws s \<and>
    map (\<lambda>w. (ew_key w, ew_pre_fingerprint w, ew_post_fingerprint w)) ws =
    map (\<lambda>w. (ew_key w, ew_pre_fingerprint w, ew_post_fingerprint w)) (at_expected_writes a)"
proof -
  obtain s where s: "replay (at_operations a) s0 = Some s"
    "\<And>p. p \<in> set (at_operations a) \<Longrightarrow> is_write p \<Longrightarrow>
       s (op_key p) = object_after (at_operations a) s0 p"
    "\<And>k. k \<notin> written_keys (at_operations a) \<Longrightarrow> s k = s0 k"
    using attempt_replay_outcome[OF assms(1,3)] by metis
  obtain ws where ws: "retry_writes a (at_expected_writes a) = Inr ws" "list_all expected_write_ok ws"
    "at_preimages ws s"
    "map (\<lambda>w. (ew_key w, ew_pre_fingerprint w, ew_post_fingerprint w)) ws =
     map (\<lambda>w. (ew_key w, ew_pre_fingerprint w, ew_post_fingerprint w)) (at_expected_writes a)"
    using retry_writes_run[where s = s and a = a, OF expected_keys(4)[OF assms(1)]
        retry_revision_current[OF assms _ s(2,3)]]
    by blast
  have "map ew_key ws = map ew_key (at_expected_writes a)"
    using arg_cong[OF ws(4), of "map fst"] by (simp add: comp_def)
  moreover have "ws \<noteq> []" using expected_keys(3)[OF assms(1)] ws(4) by auto
  ultimately have "expected_writes_ok ws"
    using expected_keys(1,2)[OF assms(1)] ws(2) by (simp add: expected_writes_ok_def)
  then show ?thesis
    using s(1) ws assms(2) by (auto simp: retry_expected_writes_def)
qed

lemma retry_coverage_matches_restored_state_witness:
  "\<exists>s ws. replay (at_operations sample_restored) sample_store = Some s \<and>
     retry_expected_writes sample_restored = Inr ws \<and> length ws = 1 \<and> at_preimages ws s"
proof -
  obtain s ws where "replay (at_operations sample_restored) sample_store = Some s"
    "retry_expected_writes sample_restored = Inr ws" "at_preimages ws s"
    "map (\<lambda>w. (ew_key w, ew_pre_fingerprint w, ew_post_fingerprint w)) ws =
     map (\<lambda>w. (ew_key w, ew_pre_fingerprint w, ew_post_fingerprint w)) (at_expected_writes sample_restored)"
    using retry_coverage_matches_restored_state[OF sample_attempts_ok(2) sample_attempt_states(2)
        sample_at_preimages(2)] by metis
  then show ?thesis by (auto simp: sample_attempt_fields dest: map_eq_imp_length_eq)
qed

end
