(* ===== verification/Txn_Exclusion.thy ===== *)
theory Txn_Exclusion
  imports Txn_Replay
begin

text \<open>
  What the fences of a valid attempt guarantee: every applied effect lies inside the lease it was
  written under and before that lease's release is requested; the leases of successive acquisitions
  of one provider do not overlap; and a terminal attempt has given every fence back.
\<close>

section \<open>Identities\<close>

lemma each_after_fresh_distinct:
  assumes "each_after P seen xs" "\<And>ys x. P ys x \<Longrightarrow> f x \<notin> set (map f ys)" "distinct (map f seen)"
  shows "distinct (map f (seen @ xs))"
  using assms(1,3)
proof (induction xs arbitrary: seen)
  case (Cons x xs)
  have "P seen x" "each_after P (seen @ [x]) xs" using Cons.prems(1) by simp_all
  with assms(2)[of seen x] Cons.prems(2) have "distinct (map f (seen @ [x]))" by simp
  with Cons.IH[of "seen @ [x]"] \<open>each_after P (seen @ [x]) xs\<close> show ?case by simp
qed simp

lemma acquisition_ids_distinct:
  assumes "attempt_ok H a"
  shows "distinct (map acq_id (at_acquisitions a))"
  using each_after_fresh_distinct[of "acquisition_step_ok H a" "[]" "at_acquisitions a" acq_id]
    attempt_okD(2)[OF assms]
  by (auto simp: acquisitions_ok_def acquisition_step_ok_def)

lemma acquisition_by_id_Some:
  assumes "acquisition_by_id a i = Some c"
  shows "c \<in> set (at_acquisitions a)" "acq_id c = i"
  using find_Some_in[OF assms[unfolded acquisition_by_id_def]] by auto

lemma acquisition_by_id_in:
  assumes "attempt_ok H a" "c \<in> set (at_acquisitions a)"
  shows "acquisition_by_id a (acq_id c) = Some c"
proof -
  obtain d where d: "acquisition_by_id a (acq_id c) = Some d"
    using assms(2) find_None_all[of "\<lambda>d. acq_id d = acq_id c" "at_acquisitions a"]
    by (cases "acquisition_by_id a (acq_id c)") (auto simp: acquisition_by_id_def)
  with acquisition_by_id_Some[OF d] acquisition_ids_distinct[OF assms(1)] assms(2)
  show ?thesis by (metis distinct_map inj_onD)
qed

lemma acquisition_in:
  assumes "attempt_ok H a" "c \<in> set (at_acquisitions a)"
  shows "acq_record_ok H c"
  using attempt_okD(2)[OF assms(1)] assms(2) each_after_in
  by (metis acquisitions_ok_def acquisition_step_ok_def)

lemma release_in:
  assumes "attempt_ok H a" "c \<in> set (at_releases a)"
  shows "rel_record_ok H c"
  using attempt_okD(5)[OF assms(1)] assms(2) each_after_in
  by (metis releases_ok_def release_step_ok_def)

lemma acknowledged_receipt_facts:
  assumes "acq_record_ok H c" "acknowledged_receipt c = Some r"
  shows "ac_state c = F_ACKNOWLEDGED" "acq_receipt_valid_for H r (ac_intent c)"
  using assms by (auto simp: acknowledged_receipt_def acq_record_ok_def
      split: option.splits acq_evidence.splits if_splits)

lemma fenced_acquisition:
  assumes "attempt_ok H a" "c \<in> set (at_acquisitions a)" "p \<in> set (fenced_operations a (acq_id c))"
  obtains r where "acknowledged_receipt c = Some r" "acq_receipt_binding r = oi_fence (op_intent p)"
proof -
  have p: "p \<in> set (at_operations a)"
      "fb_acquisition_operation_id (oi_fence (op_intent p)) = acq_id c"
    using assms(3) by (auto simp: fenced_operations_def)
  obtain seen where "operation_step_ok H a seen p"
    using each_after_in attempt_okD(3)[OF assms(1)] p(1) unfolding operations_ok_def by metis
  with p(2) acquisition_by_id_in[OF assms(1,2)] that show ?thesis
    by (auto simp: operation_step_ok_def split: option.splits)
qed

section \<open>Effects and leases\<close>

text \<open>When the provider applied the effect of an operation.\<close>

definition effect_time :: "op_record \<Rightarrow> time option" where
  "effect_time p = Option.bind (applied_receipt p) oc_effect_at"

lemma effect_in_lease:
  assumes "op_record_ok H p" "effect_time p = Some e"
  obtains r where "op_receipt p = Some r" "oc_effect_at r = Some e"
    "fb_acquisition_durable_at (oi_fence (op_intent p)) \<le> e" "e \<le> oc_acknowledged_at r"
    "oc_acknowledged_at r < fb_expires_at (oi_fence (op_intent p))"
    "oc_acknowledged_at r \<le> oc_durable_at r"
proof -
  obtain r where r: "op_receipt p = Some r" "oc_outcome r = APPLIED" "oc_effect_at r = Some e"
    using assms(2)
    by (auto simp: effect_time_def applied_receipt_def bind_eq_Some_conv split: option.splits if_splits)
  have "obj_receipt_valid_for H r (op_intent p)" by (rule op_receipt_facts(6)[OF assms(1) r(1)])
  with r that[of r] show ?thesis by (simp add: obj_receipt_valid_for_def)
qed

lemma effect_before_verification:
  assumes "op_record_ok H p" "effect_time p = Some e" "v \<in> set (op_verifications p)"
  shows "e \<le> ve_verified_at v" "e \<le> ve_observed_at v"
proof -
  obtain r where r: "op_receipt p = Some r" "e \<le> oc_acknowledged_at r" "oc_acknowledged_at r \<le> oc_durable_at r"
    using effect_in_lease[OF assms(1,2)] by metis
  have "verification_ok v" "verification_valid_for H v (op_intent p) r"
    using assms(1,3) r(1) by (auto simp: op_record_ok_def list_all_iff)
  with r show "e \<le> ve_verified_at v" "e \<le> ve_observed_at v"
    by (auto simp: verification_valid_for_def verification_ok_def)
qed

section \<open>Release chains\<close>

lemma tombstone_after_request:
  assumes "rel_record_ok H c" "release_tombstone c = Some t"
  shows "ri_requested_at (rl_intent c) \<le> rn_durable_at t"
  using assms by (auto simp: release_tombstone_def rel_record_ok_def rel_no_effect_valid_for_def
      split: option.splits rel_evidence.splits if_splits)

lemma released_after_request:
  assumes "rel_record_ok H c" "released_receipt c = Some r"
  shows "ri_requested_at (rl_intent c) \<le> rr_durable_at r"
  using assms by (auto simp: released_receipt_def rel_record_ok_def rel_receipt_valid_for_def
      split: option.splits rel_evidence.splits if_splits)

lemma release_requests_increase:
  assumes "each_after release_retry_ok seen cs" "seen @ cs \<noteq> []"
    "\<And>c. c \<in> set (seen @ cs) \<Longrightarrow> rel_record_ok H c"
    "seen \<noteq> [] \<Longrightarrow> ri_requested_at (rl_intent (hd seen)) \<le> ri_requested_at (rl_intent (last seen))"
  shows "ri_requested_at (rl_intent (hd (seen @ cs))) \<le> ri_requested_at (rl_intent (last (seen @ cs)))"
  using assms
proof (induction cs arbitrary: seen)
  case (Cons c cs)
  have "ri_requested_at (rl_intent (hd (seen @ [c]))) \<le> ri_requested_at (rl_intent c)"
  proof (cases "seen = []")
    case False
    then obtain t where "release_tombstone (last seen) = Some t"
        "rn_durable_at t \<le> ri_requested_at (rl_intent c)"
      using Cons.prems(1) by (auto simp: release_retry_ok_def last_option_def split: option.splits)
    with False Cons.prems(3,4) tombstone_after_request[of H "last seen" t] show ?thesis by fastforce
  qed simp
  with Cons.IH[of "seen @ [c]"] Cons.prems show ?case by simp
qed simp

lemma effect_before_release:
  assumes ok: "attempt_ok H a" "c \<in> set (at_acquisitions a)"
    and p: "p \<in> set (fenced_operations a (acq_id c))" "effect_time p = Some e"
    and r: "last_option (release_chain a (acq_id c)) = Some x" "released_receipt x = Some r"
  shows "e \<le> rr_durable_at r"
proof -
  let ?chain = "release_chain a (acq_id c)"
  have x: "x \<in> set (at_releases a)" "ri_acquisition_operation_id (rl_intent x) = acq_id c"
    using last_option_in[OF r(1)] by (auto simp: release_chain_def)
  then have chain: "release_chain_ok a (acq_id c)"
    using attempt_okD(6)[OF ok(1)] by (auto simp: release_chains_ok_def list_all_iff)
  have rel: "rel_record_ok H d" if "d \<in> set ?chain" for d
    using that release_in[OF ok(1)] by (simp add: release_chain_def)
  have ne: "?chain \<noteq> []" "last ?chain = x" using r(1) by (auto simp: last_option_def split: if_splits)
  have pin: "p \<in> set (at_operations a)" using p(1) by (simp add: fenced_operations_def)
  have "op_receipt p \<noteq> None"
    using p(2) by (auto simp: effect_time_def applied_receipt_def split: option.splits)
  then have "\<not> proven_undispatched p" by (simp add: proven_undispatched_def)
  then obtain v where v: "v \<in> set (op_verifications p)"
      "ve_verified_at v \<le> ri_requested_at (rl_intent (hd ?chain))"
    using chain p(1) by (auto simp: release_chain_ok_def list_all_iff list_ex_iff)
  have "e \<le> ve_verified_at v"
    by (rule effect_before_verification(1)[OF operation_in[OF ok(1) pin] p(2) v(1)])
  also note v(2)
  also have "ri_requested_at (rl_intent (hd ?chain)) \<le> ri_requested_at (rl_intent (last ?chain))"
    using release_requests_increase[of "[]" ?chain H] chain ne(1) rel
    by (simp add: release_chain_ok_def)
  also have "\<dots> \<le> rr_durable_at r"
    using released_after_request[of H x r] rel ne r(2) by (metis last_in_set)
  finally show ?thesis .
qed

text \<open>
  C6. Fenced writes do not overlap. When a provider's fence is followed by the next acquisition of
  the same provider, every effect written under the older fence was applied before the newer
  acquisition was even requested, and every effect under the newer fence comes after it: at no time
  do two fences of a provider write.
\<close>

theorem successive_fences_do_not_overlap:
  assumes ok: "attempt_ok H a" and adj: "provider_acquisitions a provider = cs @ c # d # ds"
    and p: "p \<in> set (fenced_operations a (acq_id c))" "effect_time p = Some e"
    and q: "q \<in> set (fenced_operations a (acq_id d))" "effect_time q = Some e'"
  shows "e \<le> ai_requested_at (ac_intent d) \<and> ai_requested_at (ac_intent d) \<le> e'"
proof -
  have "set (provider_acquisitions a provider) \<subseteq> set (at_acquisitions a)"
    by (auto simp: provider_acquisitions_def)
  then have cd: "c \<in> set (at_acquisitions a)" "d \<in> set (at_acquisitions a)"
    using adj by auto
  have "c \<in> set (provider_acquisitions a provider)" by (simp add: adj)
  then have "ai_provider (ac_intent c) = provider" by (simp add: provider_acquisitions_def)
  then have "successive (fence_succession_ok a) (cs @ c # d # ds)"
    using attempt_okD(7)[OF ok] cd(1) adj by (auto simp: acquisition_chains_ok_def list_all_iff)
  then have succ: "fence_succession_ok a c d" by (rule successive_append)
  obtain rc where rc: "acknowledged_receipt c = Some rc" using fenced_acquisition[OF ok cd(1) p(1)] .
  have "ac_state c = F_ACKNOWLEDGED"
    by (rule acknowledged_receipt_facts(1)[OF acquisition_in[OF ok cd(1)] rc])
  then obtain x r where x: "last_option (release_chain a (acq_id c)) = Some x"
      "released_receipt x = Some r" "rr_durable_at r \<le> ai_requested_at (ac_intent d)"
    using succ by (auto simp: fence_succession_ok_def acquisition_proven_undispatched_def split: option.splits)
  have "e \<le> ai_requested_at (ac_intent d)"
    using effect_before_release[OF ok cd(1) p x(1,2)] x(3) by simp
  moreover obtain rd where rd: "acknowledged_receipt d = Some rd"
      "acq_receipt_binding rd = oi_fence (op_intent q)"
    using fenced_acquisition[OF ok cd(2) q(1)] .
  have "q \<in> set (at_operations a)" using q(1) by (simp add: fenced_operations_def)
  then have "fb_acquisition_durable_at (oi_fence (op_intent q)) \<le> e'"
    using effect_in_lease[OF operation_in[OF ok] q(2)] by metis
  then have "ai_requested_at (ac_intent d) \<le> e'"
    using acknowledged_receipt_facts(2)[OF acquisition_in[OF ok cd(2)] rd(1)]
    by (simp add: rd(2)[symmetric] acq_receipt_binding_def acq_receipt_valid_for_def)
  ultimately show ?thesis by blast
qed

lemma sample_effects:
  "effect_time sample_write = Some (secs 106)" "effect_time sample_rollback = Some (secs 121)"
  by (simp_all add: effect_time_def applied_receipt_def sample_op_fields sample_evidence_fields)
    (simp_all add: sample_obj_receipt_def)

lemma successive_fences_do_not_overlap_witness:
  "secs 106 \<le> secs 115 \<and> secs 115 \<le> secs 121 \<and>
   provider_acquisitions sample_restored ''lovelace'' = [sample_acq 1 100, sample_acq 10 115]"
proof -
  have adj: "provider_acquisitions sample_restored ''lovelace'' = [] @ sample_acq 1 100 # sample_acq 10 115 # []"
    by (simp add: provider_acquisitions_def sample_attempt_fields sample_acq_fields)
  show ?thesis
    using successive_fences_do_not_overlap[OF sample_attempts_ok(2) adj _ sample_effects(1) _ sample_effects(2)]
      adj by (simp add: sample_chains sample_acq_fields del: secs_simps)
qed

section \<open>Terminal attempts\<close>

lemma terminal_lifecycle:
  assumes "attempt_ok H a" "at_state a = A_COMMITTED \<or> at_state a = A_RESTORED"
  shows "terminal_lifecycle_ok a"
  using attempt_okD(8)[OF assms(1)] assms(2)
  by (auto simp: attempt_state_ok_def committed_ok_def restored_ok_def)

text \<open>
  C7. Nothing stays locked. In a committed or restored attempt every acquired fence has a durable
  release, at or before the terminal time, that follows every effect written under the fence; every
  other acquisition provably never took effect.
\<close>

theorem terminal_attempt_released_every_fence:
  assumes ok: "attempt_ok H a" and st: "at_state a = A_COMMITTED \<or> at_state a = A_RESTORED"
    and c: "c \<in> set (at_acquisitions a)"
  shows "(acknowledged_receipt c = None \<and> fenced_operations a (acq_id c) = [] \<and>
       (ac_state c = F_NO_EFFECT \<or> acquisition_proven_undispatched c)) \<or>
     (\<exists>x r at. last_option (release_chain a (acq_id c)) = Some x \<and> released_receipt x = Some r \<and>
        at_terminal_at a = Some at \<and> rr_durable_at r \<le> at \<and>
        (\<forall>p \<in> set (fenced_operations a (acq_id c)). \<forall>e. effect_time p = Some e \<longrightarrow> e \<le> rr_durable_at r))"
proof (cases "acknowledged_receipt c")
  case None
  then have "fenced_operations a (acq_id c) = []"
    using fenced_acquisition[OF ok c] by (cases "fenced_operations a (acq_id c)") auto
  moreover obtain at where "terminal_acquisition_ok a at c"
    using terminal_lifecycle[OF ok st] c
    by (auto simp: terminal_lifecycle_ok_def list_all_iff split: option.splits)
  ultimately show ?thesis
    using None by (simp add: terminal_acquisition_ok_def Let_def split: if_splits)
next
  case (Some rc)
  have "ac_state c = F_ACKNOWLEDGED"
    by (rule acknowledged_receipt_facts(1)[OF acquisition_in[OF ok c] Some])
  moreover obtain at where at: "at_terminal_at a = Some at" "terminal_acquisition_ok a at c"
    using terminal_lifecycle[OF ok st] c
    by (auto simp: terminal_lifecycle_ok_def list_all_iff split: option.splits)
  ultimately obtain r where r: "release_chain a (acq_id c) \<noteq> []"
      "released_receipt (last (release_chain a (acq_id c))) = Some r" "rr_durable_at r \<le> at"
    by (auto simp: terminal_acquisition_ok_def Let_def split: option.splits)
  then have x: "last_option (release_chain a (acq_id c)) = Some (last (release_chain a (acq_id c)))"
    by (simp add: last_option_def)
  with r at(1) effect_before_release[OF ok c _ _ x r(2)] show ?thesis by blast
qed

lemma terminal_attempt_released_every_fence_witness:
  "\<exists>x r. last_option (release_chain sample_committed (acq_id (sample_acq 1 100))) = Some x \<and>
     released_receipt x = Some r \<and> rr_durable_at r \<le> secs 115"
  using terminal_attempt_released_every_fence[OF sample_attempts_ok(1) disjI1[OF sample_attempt_states(1)],
      of "sample_acq 1 100"]
  by (auto simp: sample_attempt_fields sample_acq_fields)

end
