(* ===== verification/Journal_View.thy ===== *)
theory Journal_View
  imports Txn_Journal Txn_Exclusion Write_Once
begin

text \<open>
  The journal seen as a map from plan and attempt number to attempts, its invariant, and the steps it
  may take on that view: keep everything, revise one attempt that is not terminal, or append the next
  attempt of a plan.
\<close>

section \<open>The view\<close>

definition attempt_at :: "journal \<Rightarrow> string \<Rightarrow> int \<Rightarrow> attempt option" where
  "attempt_at j p n =
     (case map_of (j_attempts j) p of None \<Rightarrow> None
      | Some as \<Rightarrow> if 1 \<le> n \<and> n \<le> int (length as) then Some (as ! nat (n - 1)) else None)"

definition view_put :: "string \<Rightarrow> int \<Rightarrow> attempt \<Rightarrow> (string \<Rightarrow> int \<Rightarrow> attempt option) \<Rightarrow>
  string \<Rightarrow> int \<Rightarrow> attempt option" where
  "view_put p n a v q m = (if q = p \<and> m = n then Some a else v q m)"

lemma view_put_simps [simp]:
  "view_put p n a v p n = Some a"
  "q \<noteq> p \<or> m \<noteq> n \<Longrightarrow> view_put p n a v q m = v q m"
  by (auto simp: view_put_def)

lemma py_at_nat: "1 \<le> n \<Longrightarrow> py_at xs (n - 1) = (if n \<le> int (length xs) then Some (xs ! nat (n - 1)) else None)"
  by (simp add: py_at_def)

lemma get_attempt_view:
  "get_attempt j p n = Inr a \<longleftrightarrow> string_ok p \<and> 1 \<le> n \<and> attempt_at j p n = Some a"
  by (auto simp: get_attempt_def attempt_at_def positive_ok_def py_at_nat split: option.splits)

lemma raw_attempt_view: "1 \<le> n \<Longrightarrow> raw_attempt j p n = Inr a \<longleftrightarrow> attempt_at j p n = Some a"
  by (auto simp: raw_attempt_def attempt_at_def py_at_nat split: option.splits)

lemma attempt_at_positive: "attempt_at j p n = Some a \<Longrightarrow> 1 \<le> n"
  by (auto simp: attempt_at_def split: option.splits if_splits)

lemma attempt_at_earlier:
  "attempt_at j p n = Some a \<Longrightarrow> 1 \<le> m \<Longrightarrow> m \<le> n \<Longrightarrow> \<exists>b. attempt_at j p m = Some b"
  by (auto simp: attempt_at_def split: option.splits if_splits)

lemma attempt_at_eq:
  "map_of (j_attempts j) p = Some as \<Longrightarrow>
    attempt_at j p n = (if 1 \<le> n \<and> n \<le> int (length as) then Some (as ! nat (n - 1)) else None)"
  by (simp add: attempt_at_def)

section \<open>Indexes\<close>

lemma reindex_notin: "i \<notin> set is \<Longrightarrow> reindex p n k is ix i = ix i"
  by (induction "is" arbitrary: k ix) auto

lemma reindex_nth:
  "distinct is \<Longrightarrow> m < length is \<Longrightarrow> reindex p n k is ix (is ! m) = Some (p, n, k + m)"
proof (induction "is" arbitrary: k m ix)
  case (Cons i "is")
  then show ?case by (cases m) (simp_all add: reindex_notin)
qed simp

lemma reindex_same:
  "(\<And>m. m < length is \<Longrightarrow> ix (is ! m) = Some (p, n, k + m)) \<Longrightarrow> reindex p n k is ix = ix"
proof (induction "is" arbitrary: k)
  case (Cons i "is")
  have "ix(i \<mapsto> (p, n, k)) = ix" using Cons.prems[of 0] by auto
  moreover have "ix (is ! m) = Some (p, n, Suc k + m)" if "m < length is" for m
    using Cons.prems[of "Suc m"] that by simp
  ultimately show ?case using Cons.IH[of "Suc k"] by simp
qed simp

lemma reindex_overwrites: "i \<in> set is \<Longrightarrow> reindex p n k is (ix(i \<mapsto> l)) = reindex p n k is ix"
proof (induction "is" arbitrary: k ix)
  case (Cons j "is")
  show ?case
  proof (cases "i = j")
    case False
    then have "i \<in> set is" using Cons.prems by simp
    from Cons.IH[OF this, of "Suc k" "ix(j \<mapsto> (p, n, k))"] show ?thesis
      by (simp add: fun_upd_twist[OF False] del: fun_upd_apply)
  qed (simp del: fun_upd_apply)
qed simp

lemma reindex_append: "reindex p n k (is @ js) ix = reindex p n (k + length is) js (reindex p n k is ix)"
  by (induction "is" arbitrary: k ix) simp_all

text \<open>An index finds exactly the items of one history of every attempt.\<close>

definition index_ok :: "(attempt \<Rightarrow> string list) \<Rightarrow> (string \<Rightarrow> int \<Rightarrow> attempt option) \<Rightarrow>
  (string \<Rightarrow> location option) \<Rightarrow> bool" where
  "index_ok ids v ix \<longleftrightarrow> (\<forall>i p n k. ix i = Some (p, n, k) \<longleftrightarrow>
     (\<exists>a. v p n = Some a \<and> k < length (ids a) \<and> ids a ! k = i))"

lemma index_okD:
  "index_ok ids v ix \<Longrightarrow> ix i = Some (p, n, k) \<Longrightarrow> \<exists>a. v p n = Some a \<and> k < length (ids a) \<and> ids a ! k = i"
  "index_ok ids v ix \<Longrightarrow> v p n = Some a \<Longrightarrow> k < length (ids a) \<Longrightarrow> ix (ids a ! k) = Some (p, n, k)"
  unfolding index_ok_def by blast+

lemma index_ok_mem:
  assumes "index_ok ids v ix" "v p n = Some a" "i \<in> set (ids a)"
  obtains k where "ix i = Some (p, n, k)" "k < length (ids a)" "ids a ! k = i"
  using assms by (metis in_set_conv_nth index_okD(2))

lemma index_ok_None:
  assumes "index_ok ids v ix" "v p n = Some a" "i \<in> set (ids a)"
  shows "ix i \<noteq> None"
  using index_ok_mem[OF assms] by (metis option.distinct(1))

lemma index_ok_put:
  assumes ix: "index_ok ids v ix" and d: "distinct (ids a)"
    and fresh: "\<And>i q m k. i \<in> set (ids a) \<Longrightarrow> ix i = Some (q, m, k) \<Longrightarrow> q = p \<and> m = n"
    and keep: "\<And>b. v p n = Some b \<Longrightarrow> set (ids b) \<subseteq> set (ids a)"
  shows "index_ok ids (view_put p n a v) (reindex p n 0 (ids a) ix)"
  unfolding index_ok_def
proof (intro allI)
  fix i q m k
  let ?ix = "reindex p n 0 (ids a) ix"
  show "?ix i = Some (q, m, k) \<longleftrightarrow>
      (\<exists>c. view_put p n a v q m = Some c \<and> k < length (ids c) \<and> ids c ! k = i)"
  proof (cases "i \<in> set (ids a)")
    case True
    then obtain l where l: "l < length (ids a)" "ids a ! l = i" by (metis in_set_conv_nth)
    then have e: "?ix i = Some (p, n, l)" using reindex_nth[OF d, of l p n 0 ix] by simp
    show ?thesis
    proof
      assume "?ix i = Some (q, m, k)"
      with e l show "\<exists>c. view_put p n a v q m = Some c \<and> k < length (ids c) \<and> ids c ! k = i" by auto
    next
      assume "\<exists>c. view_put p n a v q m = Some c \<and> k < length (ids c) \<and> ids c ! k = i"
      then obtain c where c: "view_put p n a v q m = Some c" "k < length (ids c)" "ids c ! k = i" by blast
      have qm: "q = p \<and> m = n"
      proof (rule ccontr)
        assume neq: "\<not> (q = p \<and> m = n)"
        then have "v q m = Some c" using c(1) by (auto simp: view_put_def)
        from index_okD(2)[OF ix this c(2)] c(3) fresh[OF True] neq show False by blast
      qed
      then have "c = a" using c(1) by (simp add: view_put_def)
      with c(2,3) l have "k = l" using nth_eq_iff_index_eq[OF d] by metis
      with e qm show "?ix i = Some (q, m, k)" by simp
    qed
  next
    case False
    then have e: "?ix i = ix i" by (rule reindex_notin)
    have "(\<exists>c. view_put p n a v q m = Some c \<and> k < length (ids c) \<and> ids c ! k = i) \<longleftrightarrow>
        (\<exists>c. v q m = Some c \<and> k < length (ids c) \<and> ids c ! k = i)"
    proof (cases "q = p \<and> m = n")
      case True
      then show ?thesis using False keep by (auto simp: view_put_def dest!: nth_mem)
    next
      case False
      then show ?thesis by (auto simp: view_put_def)
    qed
    with ix e show ?thesis unfolding index_ok_def by simp
  qed
qed

section \<open>The invariant\<close>

definition acq_ids :: "attempt \<Rightarrow> string list" where
  "acq_ids a = map acq_id (at_acquisitions a)"

definition op_ids :: "attempt \<Rightarrow> string list" where
  "op_ids a = map op_id (at_operations a)"

definition rel_ids :: "attempt \<Rightarrow> string list" where
  "rel_ids a = map rel_id (at_releases a)"

text \<open>What the next attempt of a plan must share with the one before.\<close>

definition retry_of :: "attempt \<Rightarrow> attempt \<Rightarrow> bool" where
  "retry_of a b \<longleftrightarrow>
     at_state a = A_RESTORED \<and>
     at_plan_digest b = at_plan_digest a \<and>
     at_manifest_digest b = at_manifest_digest a \<and>
     retry_expected_writes a = Inr (at_expected_writes b) \<and>
     at_max_observation_age_seconds b = at_max_observation_age_seconds a"

definition attempts_inv :: "(string \<Rightarrow> string) \<Rightarrow> (string \<Rightarrow> int \<Rightarrow> attempt option) \<Rightarrow> bool" where
  "attempts_inv H v \<longleftrightarrow>
     (\<forall>p n a. v p n = Some a \<longrightarrow> attempt_ok H a \<and> at_plan_id a = p \<and> at_attempt a = n)"

definition chain_inv :: "(string \<Rightarrow> int \<Rightarrow> attempt option) \<Rightarrow> bool" where
  "chain_inv v \<longleftrightarrow> (\<forall>p n a b. v p n = Some a \<longrightarrow> v p (n + 1) = Some b \<longrightarrow> retry_of a b)"

text \<open>The acquisition intents the journal holds, and their order per provider.\<close>

definition intents :: "(string \<Rightarrow> int \<Rightarrow> attempt option) \<Rightarrow> acq_intent set" where
  "intents v = {i. \<exists>p n a. v p n = Some a \<and> i \<in> ac_intent ` set (at_acquisitions a)}"

definition epochs_inv :: "(string \<Rightarrow> int \<Rightarrow> attempt option) \<Rightarrow> bool" where
  "epochs_inv v \<longleftrightarrow> (\<forall>x \<in> intents v. \<forall>y \<in> intents v. ai_provider x = ai_provider y \<longrightarrow>
     (ai_epoch x = ai_epoch y \<longrightarrow> x = y) \<and>
     (ai_epoch x < ai_epoch y \<longrightarrow> ai_requested_at x \<le> ai_requested_at y))"

definition identity_inv :: "journal \<Rightarrow> bool" where
  "identity_inv j \<longleftrightarrow> (\<forall>i kind. j_identity_index j i = Some kind \<longleftrightarrow>
     kind = ''acquisition'' \<and> j_acquisition_index j i \<noteq> None \<or>
     kind = ''object'' \<and> j_object_index j i \<noteq> None \<or>
     kind = ''release'' \<and> j_release_index j i \<noteq> None)"

text \<open>The receipts of an attempt, each with the operation it belongs to.\<close>

definition receipt_rows :: "attempt \<Rightarrow> (string \<times> string) set" where
  "receipt_rows a = {(x, i). \<exists>kind. (i, kind, Some x) \<in> set (identity_rows a)}"

definition receipts_inv :: "journal \<Rightarrow> bool" where
  "receipts_inv j \<longleftrightarrow> (\<forall>p n a x i. attempt_at j p n = Some a \<longrightarrow> (x, i) \<in> receipt_rows a \<longrightarrow>
     j_receipt_index j x = Some i)"

definition indexes_inv :: "journal \<Rightarrow> bool" where
  "indexes_inv j \<longleftrightarrow>
     index_ok acq_ids (attempt_at j) (j_acquisition_index j) \<and>
     index_ok op_ids (attempt_at j) (j_object_index j) \<and>
     index_ok rel_ids (attempt_at j) (j_release_index j) \<and> identity_inv j"

definition journal_inv :: "(string \<Rightarrow> string) \<Rightarrow> journal \<Rightarrow> bool" where
  "journal_inv H j \<longleftrightarrow>
     dict_ok (j_attempts j) \<and> attempts_inv H (attempt_at j) \<and> chain_inv (attempt_at j) \<and>
     epochs_inv (attempt_at j) \<and> indexes_inv j \<and> receipts_inv j"

lemma journal_invD:
  assumes "journal_inv H j"
  shows "dict_ok (j_attempts j)" "attempts_inv H (attempt_at j)" "chain_inv (attempt_at j)"
    "epochs_inv (attempt_at j)" "indexes_inv j" "receipts_inv j"
  using assms by (simp_all add: journal_inv_def)

lemma attempts_invD:
  assumes "attempts_inv H v" "v p n = Some a"
  shows "attempt_ok H a" "at_plan_id a = p" "at_attempt a = n"
  using assms unfolding attempts_inv_def by blast+

lemma journal_empty_inv: "journal_inv H journal_empty"
  by (simp add: journal_inv_def journal_empty_def attempt_at_def attempts_inv_def chain_inv_def epochs_inv_def
      intents_def indexes_inv_def index_ok_def identity_inv_def receipts_inv_def)

section \<open>Steps\<close>

definition terminal :: "attempt \<Rightarrow> bool" where
  "terminal a \<longleftrightarrow> at_state a = A_COMMITTED \<or> at_state a = A_RESTORED"

text \<open>Records only gain evidence, and never go back to a recorded intent.\<close>

definition acq_extends :: "acq_record \<Rightarrow> acq_record \<Rightarrow> bool" where
  "acq_extends c d \<longleftrightarrow> ac_intent d = ac_intent c \<and> (ac_receipt c \<noteq> None \<longrightarrow> ac_receipt d = ac_receipt c) \<and>
     (ac_state c \<noteq> F_INTENT_RECORDED \<longrightarrow> ac_state d \<noteq> F_INTENT_RECORDED)"

definition rel_extends :: "rel_record \<Rightarrow> rel_record \<Rightarrow> bool" where
  "rel_extends c d \<longleftrightarrow> rl_intent d = rl_intent c \<and> (rl_receipt c \<noteq> None \<longrightarrow> rl_receipt d = rl_receipt c) \<and>
     (rl_state c \<noteq> F_INTENT_RECORDED \<longrightarrow> rl_state d \<noteq> F_INTENT_RECORDED)"

definition op_extends :: "op_record \<Rightarrow> op_record \<Rightarrow> bool" where
  "op_extends p q \<longleftrightarrow> op_intent q = op_intent p \<and>
     (op_authorization p \<noteq> None \<longrightarrow> op_authorization q = op_authorization p) \<and>
     (op_receipt p \<noteq> None \<longrightarrow> op_receipt q = op_receipt p) \<and>
     (\<exists>vs. op_verifications q = op_verifications p @ vs) \<and>
     (op_state p \<noteq> O_INTENT_RECORDED \<longrightarrow> op_state q \<noteq> O_INTENT_RECORDED)"

definition attempt_extends :: "attempt \<Rightarrow> attempt \<Rightarrow> bool" where
  "attempt_extends b a \<longleftrightarrow>
     at_plan_id a = at_plan_id b \<and> at_plan_digest a = at_plan_digest b \<and>
     at_manifest_digest a = at_manifest_digest b \<and> at_attempt a = at_attempt b \<and>
     at_max_observation_age_seconds a = at_max_observation_age_seconds b \<and>
     at_expected_writes a = at_expected_writes b \<and>
     (\<forall>c \<in> set (at_acquisitions b). \<exists>d \<in> set (at_acquisitions a). acq_extends c d) \<and>
     (\<forall>p \<in> set (at_operations b). \<exists>q \<in> set (at_operations a). op_extends p q) \<and>
     (\<forall>c \<in> set (at_releases b). \<exists>d \<in> set (at_releases a). rel_extends c d)"

text \<open>Attempt \<open>a\<close> becomes attempt \<open>n\<close> of plan \<open>p\<close>, and the indexes follow.\<close>

definition puts :: "(string \<Rightarrow> string) \<Rightarrow> journal \<Rightarrow> string \<Rightarrow> int \<Rightarrow> attempt \<Rightarrow> journal \<Rightarrow> bool" where
  "puts H j p n a j' \<longleftrightarrow>
     attempt_ok H a \<and> at_plan_id a = p \<and> at_attempt a = n \<and> dict_ok (j_attempts j') \<and>
     attempt_at j' = view_put p n a (attempt_at j) \<and>
     j_acquisition_index j' = reindex p n 0 (acq_ids a) (j_acquisition_index j) \<and>
     j_object_index j' = reindex p n 0 (op_ids a) (j_object_index j) \<and>
     j_release_index j' = reindex p n 0 (rel_ids a) (j_release_index j) \<and>
     j_identity_index j' = (\<lambda>i. if i \<in> set (acq_ids a) then Some ''acquisition''
        else if i \<in> set (op_ids a) then Some ''object''
        else if i \<in> set (rel_ids a) then Some ''release'' else j_identity_index j i) \<and>
     (\<forall>x i. (x, i) \<in> receipt_rows a \<longrightarrow> j_receipt_index j' x = Some i) \<and>
     (\<forall>x i. j_receipt_index j x = Some i \<longrightarrow> j_receipt_index j' x = Some i) \<and>
     epochs_inv (attempt_at j')"

text \<open>The identities of \<open>a\<close> that \<open>b\<close> did not have are unclaimed.\<close>

definition new_ids_fresh :: "journal \<Rightarrow> attempt option \<Rightarrow> attempt \<Rightarrow> bool" where
  "new_ids_fresh j b a \<longleftrightarrow>
     (\<forall>ids \<in> {acq_ids, op_ids, rel_ids}. \<forall>i \<in> set (ids a).
        (case b of None \<Rightarrow> False | Some c \<Rightarrow> i \<in> set (ids c)) \<or> j_identity_index j i = None)"

inductive journal_edit :: "(string \<Rightarrow> string) \<Rightarrow> journal \<Rightarrow> journal \<Rightarrow> bool" for H j where
  Keep: "attempt_at j' = attempt_at j \<Longrightarrow> dict_ok (j_attempts j') \<Longrightarrow>
    j_acquisition_index j' = j_acquisition_index j \<Longrightarrow> j_object_index j' = j_object_index j \<Longrightarrow>
    j_release_index j' = j_release_index j \<Longrightarrow> j_identity_index j' = j_identity_index j \<Longrightarrow>
    j_receipt_index j' = j_receipt_index j \<Longrightarrow> journal_edit H j j'"
| Revise: "attempt_at j p n = Some b \<Longrightarrow> \<not> terminal b \<Longrightarrow> attempt_extends b a \<Longrightarrow>
    new_ids_fresh j (Some b) a \<Longrightarrow> puts H j p n a j' \<Longrightarrow> journal_edit H j j'"
| Append: "attempt_at j p n = None \<Longrightarrow> attempt_at j p (n + 1) = None \<Longrightarrow>
    (\<And>c. attempt_at j p (n - 1) = Some c \<Longrightarrow> retry_of c a) \<Longrightarrow>
    new_ids_fresh j None a \<Longrightarrow> puts H j p n a j' \<Longrightarrow> journal_edit H j j'"

section \<open>Steps keep the invariant\<close>

lemma attempt_ids_distinct:
  assumes "attempt_ok H a"
  shows "distinct (acq_ids a @ op_ids a @ rel_ids a)"
proof -
  have ops: "each_after (operation_step_ok H a) [] (at_operations a)"
    and rels: "each_after (release_step_ok H a) [] (at_releases a)"
    using attempt_okD[OF assms] by (simp_all add: operations_ok_def releases_ok_def)
  have "distinct (op_ids a)" "distinct (rel_ids a)"
    using each_after_fresh_distinct[OF ops, of op_id] each_after_fresh_distinct[OF rels, of rel_id]
    by (simp_all add: op_ids_def rel_ids_def operation_step_ok_def release_step_ok_def)
  moreover have "\<forall>i \<in> set (op_ids a). i \<notin> set (acq_ids a)"
    using each_after_in[OF ops] unfolding op_ids_def acq_ids_def operation_step_ok_def by (simp, metis)
  moreover have "\<forall>i \<in> set (rel_ids a). i \<notin> set (acq_ids a) \<and> i \<notin> set (op_ids a)"
    using each_after_in[OF rels] unfolding rel_ids_def op_ids_def acq_ids_def release_step_ok_def by (simp, metis)
  moreover have "distinct (acq_ids a)" using acquisition_ids_distinct[OF assms] by (simp add: acq_ids_def)
  ultimately show ?thesis by auto
qed

lemma identity_kind:
  assumes "identity_inv j" "j_identity_index j i = None"
  shows "j_acquisition_index j i = None" "j_object_index j i = None" "j_release_index j i = None"
  using assms unfolding identity_inv_def by (metis option.distinct(1))+

lemma two_kinds:
  "X \<noteq> None \<longrightarrow> w = Some k \<Longrightarrow> Y \<noteq> None \<longrightarrow> w = Some l \<Longrightarrow> k \<noteq> l \<Longrightarrow> X \<noteq> None \<Longrightarrow> Y = None"
  by (metis option.inject)

lemma identity_claimed:
  assumes "identity_inv j"
  shows "j_acquisition_index j i \<noteq> None \<longrightarrow> j_identity_index j i = Some ''acquisition''"
    "j_object_index j i \<noteq> None \<longrightarrow> j_identity_index j i = Some ''object''"
    "j_release_index j i \<noteq> None \<longrightarrow> j_identity_index j i = Some ''release''"
  using spec[OF spec[OF assms[unfolded identity_inv_def], of i], of "''acquisition''"]
    spec[OF spec[OF assms[unfolded identity_inv_def], of i], of "''object''"]
    spec[OF spec[OF assms[unfolded identity_inv_def], of i], of "''release''"] by simp_all

lemma identity_unique:
  assumes "identity_inv j"
  shows "j_acquisition_index j i \<noteq> None \<Longrightarrow> j_object_index j i = None \<and> j_release_index j i = None"
    "j_object_index j i \<noteq> None \<Longrightarrow> j_acquisition_index j i = None \<and> j_release_index j i = None"
    "j_release_index j i \<noteq> None \<Longrightarrow> j_acquisition_index j i = None \<and> j_object_index j i = None"
proof -
  note a = identity_claimed(1)[OF assms, of i] and o = identity_claimed(2)[OF assms, of i]
    and r = identity_claimed(3)[OF assms, of i]
  show "j_acquisition_index j i \<noteq> None \<Longrightarrow> j_object_index j i = None \<and> j_release_index j i = None"
    using two_kinds[OF a o] two_kinds[OF a r] by simp
  show "j_object_index j i \<noteq> None \<Longrightarrow> j_acquisition_index j i = None \<and> j_release_index j i = None"
    using two_kinds[OF o a] two_kinds[OF o r] by simp
  show "j_release_index j i \<noteq> None \<Longrightarrow> j_acquisition_index j i = None \<and> j_object_index j i = None"
    using two_kinds[OF r a] two_kinds[OF r o] by simp
qed

lemma image_subset_ex: "(\<And>c. c \<in> B \<Longrightarrow> \<exists>d \<in> A. f d = f c) \<Longrightarrow> f ` B \<subseteq> f ` A"
  by (metis image_eqI image_subsetI)

lemma extends_ids:
  assumes "attempt_extends b a"
  shows "set (acq_ids b) \<subseteq> set (acq_ids a)" "set (op_ids b) \<subseteq> set (op_ids a)" "set (rel_ids b) \<subseteq> set (rel_ids a)"
  unfolding acq_ids_def op_ids_def rel_ids_def set_map
proof -
  note e = assms[unfolded attempt_extends_def]
  show "acq_id ` set (at_acquisitions b) \<subseteq> acq_id ` set (at_acquisitions a)"
    using e by (intro image_subset_ex) (metis acq_extends_def acq_id_def)
  show "op_id ` set (at_operations b) \<subseteq> op_id ` set (at_operations a)"
    using e by (intro image_subset_ex) (metis op_extends_def op_id_def)
  show "rel_id ` set (at_releases b) \<subseteq> rel_id ` set (at_releases a)"
    using e by (intro image_subset_ex) (metis rel_extends_def rel_id_def)
qed

lemma reindex_Some_iff:
  assumes "distinct is"
  shows "reindex p n k is ix i \<noteq> None \<longleftrightarrow> i \<in> set is \<or> ix i \<noteq> None"
proof (cases "i \<in> set is")
  case True
  then obtain m where "m < length is" "is ! m = i" by (metis in_set_conv_nth)
  with reindex_nth[OF assms, of m p n k ix] True show ?thesis by simp
qed (simp add: reindex_notin)

lemma puts_indexes:
  assumes inv: "indexes_inv j" and fresh: "new_ids_fresh j (attempt_at j p n) a" and put: "puts H j p n a j'"
    and sub: "\<And>b. attempt_at j p n = Some b \<Longrightarrow>
      set (acq_ids b) \<subseteq> set (acq_ids a) \<and> set (op_ids b) \<subseteq> set (op_ids a) \<and> set (rel_ids b) \<subseteq> set (rel_ids a)"
  shows "indexes_inv j'"
proof -
  let ?v = "attempt_at j"
  have ok: "attempt_ok H a" and view: "attempt_at j' = view_put p n a ?v" using put by (simp_all add: puts_def)
  have d: "distinct (acq_ids a)" "distinct (op_ids a)" "distinct (rel_ids a)"
      "set (acq_ids a) \<inter> set (op_ids a) = {}" "set (acq_ids a) \<inter> set (rel_ids a) = {}"
      "set (op_ids a) \<inter> set (rel_ids a) = {}"
    using attempt_ids_distinct[OF ok] by auto
  have ix: "index_ok acq_ids ?v (j_acquisition_index j)" "index_ok op_ids ?v (j_object_index j)"
      "index_ok rel_ids ?v (j_release_index j)" "identity_inv j"
    using inv by (simp_all add: indexes_inv_def)
  note kind = identity_kind[OF ix(4)]
  have old: "(case ?v p n of None \<Rightarrow> False | Some c \<Rightarrow> i \<in> set (ids c)) \<or> j_identity_index j i = None"
    if "ids \<in> {acq_ids, op_ids, rel_ids}" "i \<in> set (ids a)" for ids i
    by (rule bspec[OF bspec[OF fresh[unfolded new_ids_fresh_def] that(1)] that(2)])
  have put_ok: "index_ok ids (view_put p n a ?v) (reindex p n 0 (ids a) x)"
    if "index_ok ids ?v x" "ids \<in> {acq_ids, op_ids, rel_ids}" "distinct (ids a)"
      "\<And>i. j_identity_index j i = None \<Longrightarrow> x i = None" "\<And>b. ?v p n = Some b \<Longrightarrow> set (ids b) \<subseteq> set (ids a)"
    for ids x
  proof (rule index_ok_put[OF that(1,3) _ that(5)])
    note none = that(4) and kinds = that(2) and here = that(1)
    fix i q m k assume i: "i \<in> set (ids a)" "x i = Some (q, m, k)"
    obtain c where c: "?v p n = Some c" "i \<in> set (ids c)"
      using old[OF kinds i(1)] i(2) none[of i] by (auto split: option.splits)
    obtain l where "x i = Some (p, n, l)" using index_ok_mem[OF here c] by metis
    with i(2) show "q = p \<and> m = n" by simp
  qed
  have fields: "j_acquisition_index j' = reindex p n 0 (acq_ids a) (j_acquisition_index j)"
     "j_object_index j' = reindex p n 0 (op_ids a) (j_object_index j)"
     "j_release_index j' = reindex p n 0 (rel_ids a) (j_release_index j)"
     "j_identity_index j' = (\<lambda>i. if i \<in> set (acq_ids a) then Some ''acquisition''
        else if i \<in> set (op_ids a) then Some ''object''
        else if i \<in> set (rel_ids a) then Some ''release'' else j_identity_index j i)"
    using put by (simp_all add: puts_def)
  have acq: "j_object_index j i = None \<and> j_release_index j i = None" if "i \<in> set (acq_ids a)" for i
    using old[of acq_ids i, OF _ that] index_ok_None[OF ix(1), of p n _ i] identity_unique(1)[OF ix(4), of i] kind[of i]
    by (auto split: option.splits)
  have obj: "j_acquisition_index j i = None \<and> j_release_index j i = None" if "i \<in> set (op_ids a)" for i
    using old[of op_ids i, OF _ that] index_ok_None[OF ix(2), of p n _ i] identity_unique(2)[OF ix(4), of i] kind[of i]
    by (auto split: option.splits)
  have rel: "j_acquisition_index j i = None \<and> j_object_index j i = None" if "i \<in> set (rel_ids a)" for i
    using old[of rel_ids i, OF _ that] index_ok_None[OF ix(3), of p n _ i] identity_unique(3)[OF ix(4), of i] kind[of i]
    by (auto split: option.splits)
  have "identity_inv j'"
    unfolding identity_inv_def fields reindex_Some_iff[OF d(1)] reindex_Some_iff[OF d(2)] reindex_Some_iff[OF d(3)]
  proof (intro allI)
    fix i kind'
    consider "i \<in> set (acq_ids a)" | "i \<in> set (op_ids a)" | "i \<in> set (rel_ids a)"
      | "i \<notin> set (acq_ids a)" "i \<notin> set (op_ids a)" "i \<notin> set (rel_ids a)" by blast
    then show "((if i \<in> set (acq_ids a) then Some ''acquisition''
        else if i \<in> set (op_ids a) then Some ''object''
        else if i \<in> set (rel_ids a) then Some ''release'' else j_identity_index j i) = Some kind') =
      (kind' = ''acquisition'' \<and> (i \<in> set (acq_ids a) \<or> j_acquisition_index j i \<noteq> None) \<or>
       kind' = ''object'' \<and> (i \<in> set (op_ids a) \<or> j_object_index j i \<noteq> None) \<or>
       kind' = ''release'' \<and> (i \<in> set (rel_ids a) \<or> j_release_index j i \<noteq> None))"
    proof cases
      case 1 then show ?thesis using acq[OF 1] d(4,5) by (cases "kind' = ''acquisition''") auto
    next
      case 2 then show ?thesis using obj[OF 2] d(4,6) by (cases "kind' = ''object''") auto
    next
      case 3 then show ?thesis using rel[OF 3] d(5,6) by (cases "kind' = ''release''") auto
    next
      case 4 then show ?thesis using ix(4) unfolding identity_inv_def by simp
    qed
  qed
  moreover have "index_ok acq_ids (attempt_at j') (j_acquisition_index j')"
    unfolding view fields by (rule put_ok[OF ix(1) _ d(1)]) (use kind(1) sub in auto)
  moreover have "index_ok op_ids (attempt_at j') (j_object_index j')"
    unfolding view fields by (rule put_ok[OF ix(2) _ d(2)]) (use kind(2) sub in auto)
  moreover have "index_ok rel_ids (attempt_at j') (j_release_index j')"
    unfolding view fields by (rule put_ok[OF ix(3) _ d(3)]) (use kind(3) sub in auto)
  ultimately show ?thesis by (simp add: indexes_inv_def)
qed

lemma view_put_cases [consumes 1, case_names here there]:
  assumes "view_put p n a v q m = Some c"
  obtains "q = p" "m = n" "c = a" | "v q m = Some c" "(q, m) \<noteq> (p, n)"
  using assms unfolding view_put_def by (cases "q = p \<and> m = n") simp_all

lemmas putsD =
  puts_def[THEN iffD1, THEN conjunct1]
  puts_def[THEN iffD1, THEN conjunct2, THEN conjunct1]
  puts_def[THEN iffD1, THEN conjunct2, THEN conjunct2, THEN conjunct1]
  puts_def[THEN iffD1, THEN conjunct2, THEN conjunct2, THEN conjunct2, THEN conjunct1]
  puts_def[THEN iffD1, THEN conjunct2, THEN conjunct2, THEN conjunct2, THEN conjunct2, THEN conjunct1]
  puts_def[THEN iffD1, THEN conjunct2, THEN conjunct2, THEN conjunct2, THEN conjunct2, THEN conjunct2, THEN conjunct1]
  puts_def[THEN iffD1, THEN conjunct2, THEN conjunct2, THEN conjunct2, THEN conjunct2, THEN conjunct2, THEN conjunct2, THEN conjunct1]
  puts_def[THEN iffD1, THEN conjunct2, THEN conjunct2, THEN conjunct2, THEN conjunct2, THEN conjunct2, THEN conjunct2, THEN conjunct2, THEN conjunct1]
  puts_def[THEN iffD1, THEN conjunct2, THEN conjunct2, THEN conjunct2, THEN conjunct2, THEN conjunct2, THEN conjunct2, THEN conjunct2, THEN conjunct2, THEN conjunct1]
  puts_def[THEN iffD1, THEN conjunct2, THEN conjunct2, THEN conjunct2, THEN conjunct2, THEN conjunct2, THEN conjunct2, THEN conjunct2, THEN conjunct2, THEN conjunct2, THEN conjunct1]
  puts_def[THEN iffD1, THEN conjunct2, THEN conjunct2, THEN conjunct2, THEN conjunct2, THEN conjunct2, THEN conjunct2, THEN conjunct2, THEN conjunct2, THEN conjunct2, THEN conjunct2, THEN conjunct1]
  puts_def[THEN iffD1, THEN conjunct2, THEN conjunct2, THEN conjunct2, THEN conjunct2, THEN conjunct2, THEN conjunct2, THEN conjunct2, THEN conjunct2, THEN conjunct2, THEN conjunct2, THEN conjunct2]

lemma puts_attempts: "attempts_inv H (attempt_at j) \<Longrightarrow> puts H j p n a j' \<Longrightarrow> attempts_inv H (attempt_at j')"
  by (auto simp: attempts_inv_def puts_def view_put_def)

lemma puts_receipts:
  assumes "receipts_inv j" "puts H j p n a j'"
  shows "receipts_inv j'"
  unfolding receipts_inv_def
proof (intro allI impI)
  fix q m c x i
  assume c: "attempt_at j' q m = Some c" "(x, i) \<in> receipt_rows c"
  from c(1) have "view_put p n a (attempt_at j) q m = Some c" by (simp add: putsD(5)[OF assms(2)])
  then show "j_receipt_index j' x = Some i"
  proof (cases rule: view_put_cases)
    case here
    then show ?thesis using putsD(10)[OF assms(2)] c(2) by blast
  next
    case there
    then have "j_receipt_index j x = Some i" using assms(1) c(2) unfolding receipts_inv_def by blast
    then show ?thesis using putsD(11)[OF assms(2)] by blast
  qed
qed

lemma puts_chain:
  assumes inv: "chain_inv v"
    and before: "\<And>c. v p (n - 1) = Some c \<Longrightarrow> retry_of c a"
    and after: "v p (n + 1) = None"
  shows "chain_inv (view_put p n a v)"
  unfolding chain_inv_def
proof (intro allI impI)
  fix q m c d
  assume c: "view_put p n a v q m = Some c" and d: "view_put p n a v q (m + 1) = Some d"
  show "retry_of c d"
  proof (cases "q = p \<and> m = n")
    case True
    then have "view_put p n a v q (m + 1) = v p (n + 1)" by (simp add: view_put_def)
    with d after show ?thesis by simp
  next
    case False
    then have vc: "v q m = Some c" using c by (auto simp: view_put_def)
    show ?thesis
    proof (cases "q = p \<and> m + 1 = n")
      case True
      then have "d = a" "v p (n - 1) = Some c" using d vc by (auto simp: view_put_def)
      with before show ?thesis by simp
    next
      case False
      then have "v q (m + 1) = Some d" using d by (auto simp: view_put_def)
      with inv vc show ?thesis unfolding chain_inv_def by blast
    qed
  qed
qed

theorem edit_keeps_inv:
  assumes inv: "journal_inv H j" and edit: "journal_edit H j j'"
  shows "journal_inv H j'"
  using edit
proof cases
  case Keep
  with inv show ?thesis
    by (simp add: journal_inv_def indexes_inv_def identity_inv_def receipts_inv_def)
next
  case (Revise p n b a)
  note D = journal_invD[OF inv]
  have b: "at_attempt b = n" "at_plan_id b = p" using attempts_invD[OF D(2) Revise(1)] by simp_all
  have "attempt_at j p (n + 1) = None"
    using D(3) Revise(1,2) unfolding chain_inv_def retry_of_def terminal_def
    by (metis option.exhaust)
  moreover have "retry_of c a" if "attempt_at j p (n - 1) = Some c" for c
  proof -
    have "retry_of c b" using D(3) that Revise(1) unfolding chain_inv_def by (metis diff_add_cancel)
    with Revise(3) show ?thesis by (simp add: retry_of_def attempt_extends_def)
  qed
  ultimately have "chain_inv (view_put p n a (attempt_at j))" by (intro puts_chain[OF D(3)])
  moreover have "new_ids_fresh j (attempt_at j p n) a" using Revise(1,4) by simp
  then have "indexes_inv j'"
    using extends_ids[OF Revise(3)] Revise(1) by (intro puts_indexes[OF D(5) _ Revise(5)]) auto
  ultimately show ?thesis
    unfolding journal_inv_def
    using putsD(4,12)[OF Revise(5)] puts_attempts[OF D(2) Revise(5)] puts_receipts[OF D(6) Revise(5)]
    by (simp add: putsD(5)[OF Revise(5)])
next
  case (Append p n a)
  note D = journal_invD[OF inv]
  have "chain_inv (view_put p n a (attempt_at j))"
    using Append(2,3) by (intro puts_chain[OF D(3)])
  moreover have "indexes_inv j'"
    using Append(1,4) by (intro puts_indexes[OF D(5) _ Append(5)]) auto
  ultimately show ?thesis
    unfolding journal_inv_def
    using putsD(4,12)[OF Append(5)] puts_attempts[OF D(2) Append(5)] puts_receipts[OF D(6) Append(5)]
    by (simp add: putsD(5)[OF Append(5)])
qed

section \<open>What a step preserves\<close>

lemma edit_terminal:
  assumes "journal_edit H j j'" "attempt_at j p n = Some a" "terminal a"
  shows "attempt_at j' p n = Some a"
  using assms(1)
proof cases
  case (Revise q m b c)
  then have "(p, n) \<noteq> (q, m)" using assms(2,3) by auto
  then show ?thesis using Revise(5) assms(2) by (auto simp: puts_def view_put_def)
next
  case (Append q m c)
  then have "(p, n) \<noteq> (q, m)" using assms(2) by auto
  then show ?thesis using Append(5) assms(2) by (auto simp: puts_def view_put_def)
qed (use assms in simp)

lemma extends_refl: "attempt_extends a a"
  by (auto simp: attempt_extends_def acq_extends_def op_extends_def rel_extends_def)

lemma edit_extends:
  assumes "journal_edit H j j'" "attempt_at j p n = Some a"
  obtains b where "attempt_at j' p n = Some b" "attempt_extends a b"
  using assms(1)
proof cases
  case Keep
  then show ?thesis using assms(2) that extends_refl by simp
next
  case (Revise q m b c)
  show ?thesis
  proof (cases "q = p \<and> m = n")
    case True
    with Revise assms(2) that show ?thesis by (auto simp: puts_def)
  next
    case False
    then have "attempt_at j' p n = Some a" using Revise(5) assms(2) by (auto simp: puts_def view_put_def)
    then show ?thesis using that extends_refl by blast
  qed
next
  case (Append q m c)
  then have "\<not> (q = p \<and> m = n)" using assms(2) by auto
  then have "attempt_at j' p n = Some a" using Append(5) assms(2) by (auto simp: puts_def view_put_def)
  then show ?thesis using that extends_refl by blast
qed

lemma extends_trans: "attempt_extends a b \<Longrightarrow> attempt_extends b c \<Longrightarrow> attempt_extends a c"
  unfolding attempt_extends_def acq_extends_def op_extends_def rel_extends_def
  by (simp, intro conjI ballI; metis append_assoc)

end
