(* ===== verification/Journal_Steps.thy ===== *)
theory Journal_Steps
  imports Journal_View
begin

text \<open>
  Every mutator of the in-memory journal refines a step of the view: it keeps the journal, revises one
  attempt that is not terminal without losing evidence, or appends the next attempt of its plan.
\<close>

section \<open>A terminal attempt has nothing left to do\<close>

lemma terminal_acquisition_settled:
  assumes "attempt_ok H a" "terminal a" "c \<in> set (at_acquisitions a)"
  shows "\<not> pre_ack (ac_state c)"
proof -
  obtain t where "terminal_acquisition_ok a t c"
    using terminal_lifecycle[OF assms(1) assms(2)[unfolded terminal_def]] assms(3)
    by (auto simp: terminal_lifecycle_ok_def list_all_iff split: option.splits)
  then show ?thesis
    by (auto simp: terminal_acquisition_ok_def Let_def pre_ack_def acknowledged_receipt_def
        split: if_splits option.splits acq_evidence.splits)
qed

lemma terminal_release_settled:
  assumes ok: "attempt_ok H a" and t: "terminal a" and c: "c \<in> set (at_releases a)"
  shows "\<not> pre_ack (rl_state c)"
proof -
  let ?i = "ri_acquisition_operation_id (rl_intent c)"
  obtain at where at: "list_all (terminal_acquisition_ok a at) (at_acquisitions a)"
      "acquisition_by_id a ?i \<noteq> None"
    using terminal_lifecycle[OF ok t[unfolded terminal_def]] c
    by (auto simp: terminal_lifecycle_ok_def list_all_iff split: option.splits)
  then obtain d where d: "d \<in> set (at_acquisitions a)" "acq_id d = ?i"
    using acquisition_by_id_Some by blast
  let ?chain = "release_chain a (acq_id d)"
  have mem: "c \<in> set ?chain" using c d(2) by (simp add: release_chain_def)
  have "terminal_acquisition_ok a at d" using at(1) d(1) by (simp add: list_all_iff)
  then have "list_all (\<lambda>x. release_tombstone x \<noteq> None) (butlast ?chain)"
      "released_receipt (last ?chain) \<noteq> None"
    using mem by (auto simp: terminal_acquisition_ok_def Let_def list_all_iff split: if_splits option.splits)
  moreover have "c \<in> set (butlast ?chain) \<or> c = last ?chain"
    using mem by (cases "?chain" rule: rev_cases) auto
  ultimately have "release_tombstone c \<noteq> None \<or> released_receipt c \<noteq> None"
    by (auto simp: list_all_iff)
  then show ?thesis
    by (auto simp: release_tombstone_def released_receipt_def pre_ack_def
        split: if_splits option.splits rel_evidence.splits)
qed

definition op_pending :: "op_record \<Rightarrow> bool" where
  "op_pending p \<longleftrightarrow> op_state p = O_INTENT_RECORDED \<or> op_state p = O_DISPATCH_ARMED"

lemma not_pending:
  "proven_undispatched p \<Longrightarrow> \<not> op_pending p" "verified_outcome p x \<Longrightarrow> \<not> op_pending p"
  "rollback_proven_no_effect p \<Longrightarrow> \<not> op_pending p" "eligible_rollback_parent p \<Longrightarrow> \<not> op_pending p"
  by (auto simp: op_pending_def proven_undispatched_def verified_outcome_def rollback_proven_no_effect_def
      eligible_rollback_parent_def)

lemma terminal_operation_settled:
  assumes ok: "attempt_ok H a" and t: "terminal a" and p: "p \<in> set (at_operations a)"
  shows "\<not> op_pending p"
proof (cases "at_state a = A_COMMITTED")
  case True
  then have "committed_ok a" using attempt_okD(8)[OF ok] by (simp add: attempt_state_ok_def)
  then have "verified_outcome p APPLIED"
    using p by (auto simp: committed_ok_def list_all_iff attempt_writes_def)
  then show ?thesis by (rule not_pending)
next
  case False
  then have "restored_ok a" using t attempt_okD(8)[OF ok] by (simp add: attempt_state_ok_def terminal_def)
  then have w: "restored_write_ok a q" if "q \<in> set (at_operations a)" "is_write q" for q
    using that by (simp add: restored_ok_def list_all_iff attempt_writes_def)
  show ?thesis
  proof (cases "is_write p")
    case True
    then show ?thesis
      using w[OF p] not_pending(1,4)
      by (auto simp: restored_write_ok_def Let_def op_pending_def split: if_splits option.splits)
  next
    case False
    obtain seen zs where split: "at_operations a = seen @ p # zs" and step: "operation_step_ok H a seen p"
      using each_after_in attempt_okD(3)[OF ok] p unfolding operations_ok_def by metis
    obtain q where q: "write_by_id seen (parent_id p) = Some q"
      using step False by (auto simp: operation_step_ok_def rollback_step_ok_def split: option.splits)
    then have "q \<in> set (at_operations a)" "is_write q" "op_id q = parent_id p"
      using find_Some_in[OF q[unfolded write_by_id_def]] split by auto
    moreover from this have mem: "p \<in> set (rollback_chain (at_operations a) (op_id q))"
      using p False by (simp add: rollback_chain_def)
    then have "p \<in> set (butlast (rollback_chain (at_operations a) (op_id q))) \<or>
        p = last (rollback_chain (at_operations a) (op_id q))"
      by (cases "rollback_chain (at_operations a) (op_id q)" rule: rev_cases) auto
    ultimately show ?thesis
      using w[of q] mem not_pending(2,3)
      by (auto simp: restored_write_ok_def Let_def list_all_iff split: if_splits option.splits)
  qed
qed

section \<open>Finding and storing\<close>

lemma located_Inr:
  assumes inv: "journal_inv H j" and ix: "index_ok (\<lambda>a. map f (items a)) (attempt_at j) ix"
    and loc: "located items j (if \<not> ok then Inl ValueError else case ix i of None \<Rightarrow> Inl KeyError | Some l \<Rightarrow> Inr l) = Inr x"
  obtains p n k b where "ix i = Some (p, n, k)" "attempt_at j p n = Some b" "k < length (items b)"
    "items b ! k = x" "f x = i"
proof -
  obtain p n k where l: "ix i = Some (p, n, k)"
    using loc by (auto simp: located_def split: if_splits option.splits)
  obtain b where b: "attempt_at j p n = Some b" "k < length (items b)" "f (items b ! k) = i"
    using index_okD(1)[OF ix l] by auto
  have "raw_attempt j p n = Inr b"
    using b(1) raw_attempt_view attempt_at_positive by metis
  then have "items b ! k = x" using loc l b(2) by (auto simp: located_def split: if_splits)
  with that[OF l b(1,2)] b(3) show ?thesis by simp
qed

lemma get_attempt_found:
  assumes "journal_inv H j" "attempt_at j p n = Some a"
  shows "get_attempt j p n = Inr a"
proof -
  have "attempt_ok H a" "at_plan_id a = p"
    using attempts_invD[OF journal_invD(2)[OF assms(1)] assms(2)] by simp_all
  then have "string_ok p" by (auto simp: attempt_ok_def attempt_header_ok_def plan_binding_ok_def)
  with assms(2) attempt_at_positive[OF assms(2)] show ?thesis by (simp add: get_attempt_view)
qed

lemma indexes_invD:
  assumes "journal_inv H j"
  shows "index_ok (\<lambda>a. map acq_id (at_acquisitions a)) (attempt_at j) (j_acquisition_index j)"
    "index_ok (\<lambda>a. map op_id (at_operations a)) (attempt_at j) (j_object_index j)"
    "index_ok (\<lambda>a. map rel_id (at_releases a)) (attempt_at j) (j_release_index j)" "identity_inv j"
  using journal_invD(5)[OF assms] unfolding indexes_inv_def acq_ids_def op_ids_def rel_ids_def by auto

lemma get_acquisition_Inr:
  assumes "journal_inv H j" "get_acquisition j i = Inr c"
  obtains p n k b where "acquisition_location j i = Inr (p, n, k)" "j_acquisition_index j i = Some (p, n, k)"
    "attempt_at j p n = Some b" "get_attempt j p n = Inr b" "k < length (at_acquisitions b)"
    "at_acquisitions b ! k = c" "acq_id c = i" "attempt_ok H b" "acq_record_ok H c"
proof -
  have loc: "located at_acquisitions j (if \<not> acquire_id_ok i then Inl ValueError
      else case j_acquisition_index j i of None \<Rightarrow> Inl KeyError | Some l \<Rightarrow> Inr l) = Inr c"
    using assms(2) by (simp add: get_acquisition_def acquisition_location_def)
  then have "acquire_id_ok i" by (auto simp: located_def split: if_splits)
  moreover from located_Inr[OF assms(1) indexes_invD(1)[OF assms(1)] loc] obtain p n k b where
    b: "j_acquisition_index j i = Some (p, n, k)" "attempt_at j p n = Some b" "k < length (at_acquisitions b)"
      "at_acquisitions b ! k = c" "acq_id c = i" .
  moreover have ok: "attempt_ok H b" using attempts_invD(1)[OF journal_invD(2)[OF assms(1)] b(2)] .
  moreover have "acq_record_ok H c" using acquisition_in[OF ok] b(3,4) nth_mem by blast
  ultimately show ?thesis
    using that[of p n k b] get_attempt_found[OF assms(1) b(2)] by (simp add: acquisition_location_def)
qed

lemma get_operation_Inr:
  assumes "journal_inv H j" "get_operation j i = Inr c"
  obtains p n k b where "object_location j i = Inr (p, n, k)" "j_object_index j i = Some (p, n, k)"
    "attempt_at j p n = Some b" "get_attempt j p n = Inr b" "k < length (at_operations b)"
    "at_operations b ! k = c" "op_id c = i" "attempt_ok H b" "op_record_ok H c"
proof -
  have loc: "located at_operations j (if \<not> object_id_ok i then Inl ValueError
      else case j_object_index j i of None \<Rightarrow> Inl KeyError | Some l \<Rightarrow> Inr l) = Inr c"
    using assms(2) by (simp add: get_operation_def object_location_def)
  then have "object_id_ok i" by (auto simp: located_def split: if_splits)
  moreover from located_Inr[OF assms(1) indexes_invD(2)[OF assms(1)] loc] obtain p n k b where
    b: "j_object_index j i = Some (p, n, k)" "attempt_at j p n = Some b" "k < length (at_operations b)"
      "at_operations b ! k = c" "op_id c = i" .
  moreover have ok: "attempt_ok H b" using attempts_invD(1)[OF journal_invD(2)[OF assms(1)] b(2)] .
  moreover have "op_record_ok H c" using operation_in[OF ok] b(3,4) nth_mem by blast
  ultimately show ?thesis
    using that[of p n k b] get_attempt_found[OF assms(1) b(2)] by (simp add: object_location_def)
qed

lemma get_release_Inr:
  assumes "journal_inv H j" "get_release j i = Inr c"
  obtains p n k b where "release_location j i = Inr (p, n, k)" "j_release_index j i = Some (p, n, k)"
    "attempt_at j p n = Some b" "get_attempt j p n = Inr b" "k < length (at_releases b)"
    "at_releases b ! k = c" "rel_id c = i" "attempt_ok H b" "rel_record_ok H c"
proof -
  have loc: "located at_releases j (if \<not> release_id_ok i then Inl ValueError
      else case j_release_index j i of None \<Rightarrow> Inl KeyError | Some l \<Rightarrow> Inr l) = Inr c"
    using assms(2) by (simp add: get_release_def release_location_def)
  then have "release_id_ok i" by (auto simp: located_def split: if_splits)
  moreover from located_Inr[OF assms(1) indexes_invD(3)[OF assms(1)] loc] obtain p n k b where
    b: "j_release_index j i = Some (p, n, k)" "attempt_at j p n = Some b" "k < length (at_releases b)"
      "at_releases b ! k = c" "rel_id c = i" .
  moreover have ok: "attempt_ok H b" using attempts_invD(1)[OF journal_invD(2)[OF assms(1)] b(2)] .
  moreover have "rel_record_ok H c" using release_in[OF ok] b(3,4) nth_mem by blast
  ultimately show ?thesis
    using that[of p n k b] get_attempt_found[OF assms(1) b(2)] by (simp add: release_location_def)
qed

lemma attempt_at_fields [simp]:
  "attempt_at (j\<lparr>j_object_index := x\<rparr>) = attempt_at j" "attempt_at (j\<lparr>j_acquisition_index := x\<rparr>) = attempt_at j"
  "attempt_at (j\<lparr>j_release_index := x\<rparr>) = attempt_at j" "attempt_at (j\<lparr>j_identity_index := y\<rparr>) = attempt_at j"
  "attempt_at (j\<lparr>j_receipt_index := y\<rparr>) = attempt_at j"
  by (simp_all add: attempt_at_def fun_eq_iff)

lemma store_attempt_Inl: "store_attempt H a j = (Inl e, j') \<Longrightarrow> j' = j"
  by (auto simp: store_attempt_def split: if_splits option.splits)

lemma store_attempt_Inr:
  assumes "store_attempt H a j = (Inr u, j')" "dict_ok (j_attempts j)"
  shows "attempt_ok H a" "attempt_at j' = view_put (at_plan_id a) (at_attempt a) a (attempt_at j)"
    "dict_ok (j_attempts j')" "\<exists>d. j' = j\<lparr>j_attempts := d\<rparr>"
proof -
  obtain as where as: "attempt_ok H a" "map_of (j_attempts j) (at_plan_id a) = Some as" "at_attempt a \<le> int (length as)"
      "j' = j\<lparr>j_attempts := dict_put (j_attempts j) (at_plan_id a) (as[nat (at_attempt a - 1) := a])\<rparr>"
    using assms(1) by (auto simp: store_attempt_def split: if_splits option.splits)
  have "1 \<le> at_attempt a"
    using as(1) by (simp add: attempt_ok_def attempt_header_ok_def positive_ok_def)
  then show "attempt_at j' = view_put (at_plan_id a) (at_attempt a) a (attempt_at j)"
    using as(2,3,4) by (auto simp: fun_eq_iff attempt_at_def view_put_def nth_list_update)
  show "attempt_ok H a" "dict_ok (j_attempts j')" "\<exists>d. j' = j\<lparr>j_attempts := d\<rparr>"
    using as assms(2) by auto
qed

section \<open>Revising one attempt\<close>

lemma index_reindex_same:
  assumes "index_ok ids (attempt_at j) ix" "attempt_at j p n = Some b" "ids a = ids b"
  shows "reindex p n 0 (ids a) ix = ix"
  by (rule reindex_same) (simp add: assms(3) index_okD(2)[OF assms(1,2)])

lemma intents_put_insert:
  assumes "v p n = Some b" "ac_intent ` set (at_acquisitions a) = ac_intent ` set (at_acquisitions b) \<union> X"
  shows "intents (view_put p n a v) = intents v \<union> X"
proof (intro set_eqI iffI)
  fix i assume "i \<in> intents (view_put p n a v)"
  then obtain q m c where c: "view_put p n a v q m = Some c" "i \<in> ac_intent ` set (at_acquisitions c)"
    unfolding intents_def by blast
  from c(1) show "i \<in> intents v \<union> X"
  proof (cases rule: view_put_cases)
    case here
    then show ?thesis using c(2) assms unfolding intents_def by blast
  next
    case there
    then show ?thesis using c(2) unfolding intents_def by blast
  qed
next
  fix i assume "i \<in> intents v \<union> X"
  then consider "i \<in> X" | q m c where "v q m = Some c" "i \<in> ac_intent ` set (at_acquisitions c)"
    unfolding intents_def by blast
  then show "i \<in> intents (view_put p n a v)"
  proof cases
    case 1
    then have "i \<in> ac_intent ` set (at_acquisitions a)" using assms(2) by simp
    then show ?thesis unfolding intents_def using view_put_simps(1) by blast
  next
    case 2
    show ?thesis
    proof (cases "q = p \<and> m = n")
      case True
      then have "i \<in> ac_intent ` set (at_acquisitions a)" using 2 assms by simp
      then show ?thesis unfolding intents_def using view_put_simps(1) by blast
    next
      case False
      then have "view_put p n a v q m = Some c" using 2(1) by (auto simp: view_put_def)
      then show ?thesis unfolding intents_def using 2(2) by blast
    qed
  qed
qed

lemma intents_put:
  "v p n = Some b \<Longrightarrow> ac_intent ` set (at_acquisitions a) = ac_intent ` set (at_acquisitions b) \<Longrightarrow>
    intents (view_put p n a v) = intents v"
  using intents_put_insert[of v p n b a "{}"] by simp

lemma acq_ids_intents: "acq_ids a = map ai_operation_id (map ac_intent (at_acquisitions a))"
  by (simp add: acq_ids_def acq_id_def)

text \<open>A revision that leaves all intents in place only has to account for its receipts.\<close>

lemma revise_in_place:
  assumes inv: "journal_inv H j" and b: "attempt_at j p n = Some b" "\<not> terminal b"
    and ext: "attempt_extends b a"
    and same: "map ac_intent (at_acquisitions a) = map ac_intent (at_acquisitions b)"
      "op_ids a = op_ids b" "rel_ids a = rel_ids b"
    and store: "store_attempt H a j = (Inr u, j1)"
    and receipts: "\<And>x i. (x, i) \<in> receipt_rows a \<Longrightarrow> R x = Some i"
      "\<And>x i. j_receipt_index j x = Some i \<Longrightarrow> R x = Some i"
  shows "journal_edit H j (j1\<lparr>j_receipt_index := R\<rparr>)"
proof -
  note D = journal_invD[OF inv]
  have ids: "acq_ids a = acq_ids b" unfolding acq_ids_intents same(1) ..
  have pn: "at_plan_id a = p" "at_attempt a = n"
    using ext attempts_invD[OF D(2) b(1)] by (simp_all add: attempt_extends_def)
  note st = store_attempt_Inr[OF store D(1), unfolded pn]
  obtain d where j1: "j1 = j\<lparr>j_attempts := d\<rparr>" using st(4) by blast
  have ix: "index_ok acq_ids (attempt_at j) (j_acquisition_index j)" "index_ok op_ids (attempt_at j) (j_object_index j)"
      "index_ok rel_ids (attempt_at j) (j_release_index j)" "identity_inv j"
    using D(5) by (simp_all add: indexes_inv_def)
  have view: "attempt_at (j1\<lparr>j_receipt_index := R\<rparr>) = view_put p n a (attempt_at j)" using st(2) by simp
  have "intents (view_put p n a (attempt_at j)) = intents (attempt_at j)"
    using intents_put[of "attempt_at j" p n b a] b(1) arg_cong[OF same(1), of set] by simp
  then have "epochs_inv (attempt_at (j1\<lparr>j_receipt_index := R\<rparr>))"
    using D(4) unfolding view by (simp add: epochs_inv_def)
  moreover have "j_identity_index j1 = (\<lambda>i. if i \<in> set (acq_ids a) then Some ''acquisition''
        else if i \<in> set (op_ids a) then Some ''object''
        else if i \<in> set (rel_ids a) then Some ''release'' else j_identity_index j i)"
  proof
    fix i
    have "j_identity_index j i = Some ''acquisition''" if "i \<in> set (acq_ids b)"
      using index_ok_None[OF ix(1) b(1) that] identity_claimed(1)[OF ix(4)] by blast
    moreover have "j_identity_index j i = Some ''object''" if "i \<in> set (op_ids b)"
      using index_ok_None[OF ix(2) b(1) that] identity_claimed(2)[OF ix(4)] by blast
    moreover have "j_identity_index j i = Some ''release''" if "i \<in> set (rel_ids b)"
      using index_ok_None[OF ix(3) b(1) that] identity_claimed(3)[OF ix(4)] by blast
    ultimately show "j_identity_index j1 i = (if i \<in> set (acq_ids a) then Some ''acquisition''
        else if i \<in> set (op_ids a) then Some ''object''
        else if i \<in> set (rel_ids a) then Some ''release'' else j_identity_index j i)"
      by (simp add: j1 ids same)
  qed
  ultimately have "puts H j p n a (j1\<lparr>j_receipt_index := R\<rparr>)"
    unfolding puts_def using st(1,3) pn receipts view
    by (simp add: j1 index_reindex_same[OF ix(1) b(1) ids] index_reindex_same[OF ix(2) b(1) same(2)]
        index_reindex_same[OF ix(3) b(1) same(3)])
  moreover have "new_ids_fresh j (Some b) a" by (simp add: new_ids_fresh_def ids same)
  ultimately show ?thesis by (intro journal_edit.Revise[OF b ext])
qed

lemma mem_row:
  "(i, kind, Some x) \<in> set (map (\<lambda>c. (f c, K, g c)) cs) \<longleftrightarrow> kind = K \<and> (\<exists>c \<in> set cs. f c = i \<and> g c = Some x)"
  by (auto simp: image_iff)

lemma receipt_rows_iff:
  "(x, i) \<in> receipt_rows a \<longleftrightarrow>
    (\<exists>c \<in> set (at_acquisitions a). acq_id c = i \<and> map_option acq_evidence_receipt_id (ac_receipt c) = Some x) \<or>
    (\<exists>p \<in> set (at_operations a). op_id p = i \<and> map_option oc_receipt_id (op_receipt p) = Some x) \<or>
    (\<exists>c \<in> set (at_releases a). rel_id c = i \<and> map_option rel_evidence_receipt_id (rl_receipt c) = Some x)"
  unfolding receipt_rows_def identity_rows_def set_append
  by (simp only: mem_Collect_eq case_prod_conv Un_iff mem_row ex_disj_distrib simp_thms)

lemma receipts_invD:
  assumes "journal_inv H j" "attempt_at j p n = Some b" "(x, i) \<in> receipt_rows b"
  shows "j_receipt_index j x = Some i"
  using journal_invD(6)[OF assms(1)] assms(2,3) unfolding receipts_inv_def by blast

definition same_header :: "attempt \<Rightarrow> attempt \<Rightarrow> bool" where
  "same_header b a \<longleftrightarrow>
     at_plan_id a = at_plan_id b \<and> at_plan_digest a = at_plan_digest b \<and>
     at_manifest_digest a = at_manifest_digest b \<and> at_attempt a = at_attempt b \<and>
     at_max_observation_age_seconds a = at_max_observation_age_seconds b \<and>
     at_expected_writes a = at_expected_writes b"

lemma extends_simps [simp]: "acq_extends c c" "rel_extends d d" "op_extends p p"
  by (simp_all add: acq_extends_def rel_extends_def op_extends_def)

lemma extends_mem:
  "c \<in> C \<Longrightarrow> \<exists>d \<in> C. acq_extends c d" "p \<in> P \<Longrightarrow> \<exists>q \<in> P. op_extends p q" "e \<in> E \<Longrightarrow> \<exists>d \<in> E. rel_extends e d"
  using extends_simps by blast+

lemma update_extends:
  assumes "\<And>x. Q x x" "k < length xs" "Q (xs ! k) y" "x \<in> set xs"
  shows "\<exists>z \<in> set (xs[k := y]). Q x z"
proof -
  obtain m where m: "m < length xs" "xs ! m = x" using assms(4) by (metis in_set_conv_nth)
  show ?thesis
  proof (cases "m = k")
    case True
    then show ?thesis using assms(2,3) m(2) by (metis set_update_memI)
  next
    case False
    then have "xs[k := y] ! m = x" using m by simp
    then show ?thesis using assms(1) m(1) by (metis length_list_update nth_mem)
  qed
qed

lemma acquisition_edit:
  assumes inv: "journal_inv H j" and b: "attempt_at j p n = Some b" "\<not> terminal b"
    and k: "k < length (at_acquisitions b)" "acq_extends (at_acquisitions b ! k) c"
    and a: "same_header b a" "at_acquisitions a = (at_acquisitions b)[k := c]"
      "at_operations a = at_operations b" "at_releases a = at_releases b"
    and store: "store_attempt H a j = (Inr u, j1)"
    and r: "\<And>x. map_option acq_evidence_receipt_id (ac_receipt c) = Some x \<Longrightarrow> R x = Some (acq_id c)"
      "\<And>x i. j_receipt_index j x = Some i \<Longrightarrow> R x = Some i"
  shows "journal_edit H j (j1\<lparr>j_receipt_index := R\<rparr>)"
proof (rule revise_in_place[OF inv b _ _ _ _ store])
  show "attempt_extends b a"
    using a update_extends[of acq_extends k "at_acquisitions b" c] k
    by (auto simp: attempt_extends_def same_header_def extends_mem)
  show "map ac_intent (at_acquisitions a) = map ac_intent (at_acquisitions b)"
    using k by (simp add: a(2) map_update acq_extends_def list_update_same_conv)
  fix x i assume "(x, i) \<in> receipt_rows a"
  then have "(x, i) \<in> receipt_rows b \<or>
      map_option acq_evidence_receipt_id (ac_receipt c) = Some x \<and> acq_id c = i"
    unfolding receipt_rows_iff a using set_update_subset_insert[of "at_acquisitions b" k c] by blast
  then show "R x = Some i" using receipts_invD[OF inv b(1)] r by blast
qed (use a r in \<open>simp_all add: op_ids_def rel_ids_def\<close>)

lemma release_edit:
  assumes inv: "journal_inv H j" and b: "attempt_at j p n = Some b" "\<not> terminal b"
    and k: "k < length (at_releases b)" "rel_extends (at_releases b ! k) c"
    and a: "same_header b a" "at_releases a = (at_releases b)[k := c]"
      "at_operations a = at_operations b" "at_acquisitions a = at_acquisitions b"
    and store: "store_attempt H a j = (Inr u, j1)"
    and r: "\<And>x. map_option rel_evidence_receipt_id (rl_receipt c) = Some x \<Longrightarrow> R x = Some (rel_id c)"
      "\<And>x i. j_receipt_index j x = Some i \<Longrightarrow> R x = Some i"
  shows "journal_edit H j (j1\<lparr>j_receipt_index := R\<rparr>)"
proof (rule revise_in_place[OF inv b _ _ _ _ store])
  show "attempt_extends b a"
    using a update_extends[of rel_extends k "at_releases b" c] k
    by (auto simp: attempt_extends_def same_header_def extends_mem)
  show "rel_ids a = rel_ids b"
    using k by (simp add: rel_ids_def rel_id_def a(2) map_update rel_extends_def list_update_same_conv)
  fix x i assume "(x, i) \<in> receipt_rows a"
  then have "(x, i) \<in> receipt_rows b \<or>
      map_option rel_evidence_receipt_id (rl_receipt c) = Some x \<and> rel_id c = i"
    unfolding receipt_rows_iff a using set_update_subset_insert[of "at_releases b" k c] by blast
  then show "R x = Some i" using receipts_invD[OF inv b(1)] r by blast
qed (use a r in \<open>simp_all add: op_ids_def\<close>)

lemma operation_edit:
  assumes inv: "journal_inv H j" and b: "attempt_at j p n = Some b" "\<not> terminal b"
    and k: "k < length (at_operations b)" "op_extends (at_operations b ! k) c"
    and a: "same_header b a" "at_operations a = (at_operations b)[k := c]"
      "at_releases a = at_releases b" "at_acquisitions a = at_acquisitions b"
    and store: "store_attempt H a j = (Inr u, j1)"
    and r: "\<And>x. map_option oc_receipt_id (op_receipt c) = Some x \<Longrightarrow> R x = Some (op_id c)"
      "\<And>x i. j_receipt_index j x = Some i \<Longrightarrow> R x = Some i"
  shows "journal_edit H j (j1\<lparr>j_receipt_index := R\<rparr>)"
proof (rule revise_in_place[OF inv b _ _ _ _ store])
  show "attempt_extends b a"
    using a update_extends[of op_extends k "at_operations b" c] k
    by (auto simp: attempt_extends_def same_header_def extends_mem)
  show "op_ids a = op_ids b"
    using k by (simp add: op_ids_def op_id_def a(2) map_update op_extends_def list_update_same_conv)
  fix x i assume "(x, i) \<in> receipt_rows a"
  then have "(x, i) \<in> receipt_rows b \<or>
      map_option oc_receipt_id (op_receipt c) = Some x \<and> op_id c = i"
    unfolding receipt_rows_iff a using set_update_subset_insert[of "at_operations b" k c] by blast
  then show "R x = Some i" using receipts_invD[OF inv b(1)] r by blast
qed (use a r in \<open>simp_all add: rel_ids_def\<close>)

lemma edit_keep: "journal_inv H j \<Longrightarrow> journal_edit H j j"
  using journal_invD(1) by (blast intro: journal_edit.Keep)

text \<open>Without a new receipt the receipt index stays.\<close>

lemma edit_no_receipt: "journal_edit H j (j1\<lparr>j_receipt_index := j_receipt_index j1\<rparr>) \<Longrightarrow> journal_edit H j j1"
  by simp

section \<open>Mutators of acquisitions\<close>

lemma then_return_snd [simp]: "snd (then_return r x) = snd r"
  by (auto simp: then_return_def split: prod.splits sum.splits)

lemma snd_cases:
  assumes "\<And>e j1. r = (Inl e, j1) \<Longrightarrow> P j1" "\<And>u j1. r = (Inr u, j1) \<Longrightarrow> P j1"
  shows "P (snd r)"
  using assms by (cases r; cases "fst r") auto

lemma store_receipts: "store_attempt H a j = (Inr u, j1) \<Longrightarrow> j_receipt_index j1 = j_receipt_index j"
  by (auto simp: store_attempt_def split: if_splits option.splits)

lemma replace_acquisition_edit:
  assumes inv: "journal_inv H j" and c: "get_acquisition j i = Inr c" "pre_ack (ac_state c)"
    and c': "ac_intent c' = ac_intent c" "ac_state c' \<noteq> F_INTENT_RECORDED"
  shows "replace_acquisition H c' j = (Inl e, j1) \<Longrightarrow> j1 = j"
    "replace_acquisition H c' j = (Inr u, j1) \<Longrightarrow> j_receipt_index j1 = j_receipt_index j"
    "replace_acquisition H c' j = (Inr u, j1) \<Longrightarrow>
      (\<And>x. map_option acq_evidence_receipt_id (ac_receipt c') = Some x \<Longrightarrow> R x = Some (acq_id c')) \<Longrightarrow>
      (\<And>x i. j_receipt_index j x = Some i \<Longrightarrow> R x = Some i) \<Longrightarrow>
      journal_edit H j (j1\<lparr>j_receipt_index := R\<rparr>)"
proof -
  from get_acquisition_Inr[OF inv c(1)] obtain p n k b where
    b: "acquisition_location j i = Inr (p, n, k)" "attempt_at j p n = Some b" "get_attempt j p n = Inr b"
      "k < length (at_acquisitions b)" "at_acquisitions b ! k = c" "acq_id c = i" "attempt_ok H b" "acq_record_ok H c" .
  have "acq_id c' = i" using c' b(6) by (simp add: acq_id_def)
  then have r: "replace_acquisition H c' j = store_attempt H (b\<lparr>at_acquisitions := (at_acquisitions b)[k := c']\<rparr>) j"
    using b by (simp add: replace_acquisition_def)
  have nt: "\<not> terminal b" using terminal_acquisition_settled[OF b(7)] c(2) b(4,5) nth_mem by blast
  have "ac_receipt c = None" using b(8) c(2) by (auto simp: acq_record_ok_def)
  then have ext: "acq_extends (at_acquisitions b ! k) c'" using c' b(5) by (simp add: acq_extends_def)
  show "replace_acquisition H c' j = (Inl e, j1) \<Longrightarrow> j1 = j" unfolding r by (rule store_attempt_Inl)
  show "replace_acquisition H c' j = (Inr u, j1) \<Longrightarrow> j_receipt_index j1 = j_receipt_index j"
    unfolding r by (rule store_receipts)
  show "journal_edit H j (j1\<lparr>j_receipt_index := R\<rparr>)"
    if "replace_acquisition H c' j = (Inr u, j1)"
      "\<And>x. map_option acq_evidence_receipt_id (ac_receipt c') = Some x \<Longrightarrow> R x = Some (acq_id c')"
      "\<And>x i. j_receipt_index j x = Some i \<Longrightarrow> R x = Some i"
    by (rule acquisition_edit[OF inv b(2) nt b(4) ext _ _ _ _ that(1)[unfolded r] that(2,3)])
      (simp_all add: same_header_def)
qed

lemma replace_keeps_receipts:
  assumes "journal_edit H j (j1\<lparr>j_receipt_index := j_receipt_index j\<rparr>)" "j_receipt_index j1 = j_receipt_index j"
  shows "journal_edit H j j1"
  using assms by (metis journal.surjective journal.update_convs(6))

lemma acq_arm_Inr:
  assumes "acq_arm H c = Inr c'"
  shows "ac_state c = F_INTENT_RECORDED" "ac_intent c' = ac_intent c" "ac_receipt c' = None"
    "ac_state c' \<noteq> F_INTENT_RECORDED"
  using assms by (auto simp: acq_arm_def Let_def acq_record_ok_def pre_ack_def split: if_splits)

lemma arm_acquisition_edit:
  assumes inv: "journal_inv H j"
  shows "journal_edit H j (snd (arm_acquisition H i j))"
proof (cases "get_acquisition j i")
  case (Inl e)
  then show ?thesis using edit_keep[OF inv] by (simp add: arm_acquisition_def)
next
  case (Inr c)
  show ?thesis
  proof (cases "ac_state c = F_DISPATCH_ARMED \<or> isl (acq_arm H c)")
    case True
    then show ?thesis using edit_keep[OF inv] Inr
      by (auto simp: arm_acquisition_def isl_def)
  next
    case False
    then obtain c' where c': "acq_arm H c = Inr c'" by (cases "acq_arm H c") auto
    have "pre_ack (ac_state c)" using acq_arm_Inr(1)[OF c'] by (simp add: pre_ack_def)
    note E = replace_acquisition_edit[OF inv Inr this acq_arm_Inr(2,4)[OF c']]
    have "journal_edit H j (snd (replace_acquisition H c' j))"
    proof (rule snd_cases)
      fix e j1 assume "replace_acquisition H c' j = (Inl e, j1)"
      from E(1)[OF this] show "journal_edit H j j1" using edit_keep[OF inv] by simp
    next
      fix u j1 assume r: "replace_acquisition H c' j = (Inr u, j1)"
      show "journal_edit H j j1"
        by (rule replace_keeps_receipts[OF E(3)[OF r] E(2)[OF r]]) (simp_all add: acq_arm_Inr(3)[OF c'])
    qed
    then show ?thesis using False Inr c' by (simp add: arm_acquisition_def)
  qed
qed

lemma acq_acknowledge_Inr:
  assumes "acq_acknowledge H c r = Inr c'"
  shows "pre_ack (ac_state c)" "ac_intent c' = ac_intent c" "ac_receipt c' = Some r"
    "ac_state c' \<noteq> F_INTENT_RECORDED"
  using assms by (auto simp: acq_acknowledge_def Let_def pre_ack_def split: if_splits acq_evidence.splits)

lemma acq_evidence_ids: "acq_evidence_valid_for H r i \<Longrightarrow> acq_evidence_operation_id r = ai_operation_id i"
  by (cases r) (auto simp: acq_receipt_valid_for_def acq_no_effect_valid_for_def)

text \<open>Adding a receipt entry that is free, or already belongs to the operation.\<close>

lemma receipt_unclaimed_upd:
  "receipt_unclaimed j x i \<Longrightarrow> j_receipt_index j y = Some k \<Longrightarrow> ((j_receipt_index j)(x \<mapsto> i)) y = Some k"
  by (auto simp: receipt_unclaimed_def split: option.splits)

lemma record_acquisition_receipt_edit:
  assumes inv: "journal_inv H j"
  shows "journal_edit H j (snd (record_acquisition_receipt H r j))"
proof (cases "get_acquisition j (acq_evidence_operation_id r)")
  case (Inl e)
  then show ?thesis using edit_keep[OF inv] by (simp add: record_acquisition_receipt_def)
next
  case (Inr c)
  show ?thesis
  proof (cases "acq_evidence_ok H r \<and> ac_receipt c = None \<and>
      receipt_unclaimed j (acq_evidence_receipt_id r) (acq_evidence_operation_id r) \<and>
      acq_evidence_valid_for H r (ac_intent c) \<and> \<not> isl (acq_acknowledge H c r)")
    case False
    then show ?thesis using edit_keep[OF inv] Inr
      by (cases "acq_acknowledge H c r") (auto simp: record_acquisition_receipt_def split: option.splits)
  next
    case True
    then obtain c' where c': "acq_acknowledge H c r = Inr c'" by (cases "acq_acknowledge H c r") auto
    have id: "acq_evidence_operation_id r = acq_id c'"
      using True acq_evidence_ids acq_acknowledge_Inr(2)[OF c'] by (auto simp: acq_id_def)
    note E = replace_acquisition_edit[OF inv Inr acq_acknowledge_Inr(1,2,4)[OF c']]
    have eq: "snd (record_acquisition_receipt H r j) = (case replace_acquisition H c' j of (Inl e, j1) \<Rightarrow> j1
       | (Inr _, j1) \<Rightarrow> j1\<lparr>j_receipt_index := (j_receipt_index j1)
           (acq_evidence_receipt_id r \<mapsto> acq_evidence_operation_id r)\<rparr>)"
      using True Inr c' by (auto simp: record_acquisition_receipt_def split: prod.splits sum.splits)
    show ?thesis
    proof (cases "replace_acquisition H c' j")
      case (Pair res j1)
      show ?thesis
      proof (cases res)
        case (Inl e)
        then show ?thesis using E(1) Pair edit_keep[OF inv] unfolding eq by simp
      next
        case R: (Inr u)
        have "journal_edit H j (j1\<lparr>j_receipt_index := (j_receipt_index j)
            (acq_evidence_receipt_id r \<mapsto> acq_evidence_operation_id r)\<rparr>)"
          by (rule E(3)[OF Pair[unfolded R]])
            (use True receipt_unclaimed_upd in \<open>auto simp: acq_acknowledge_Inr(3)[OF c'] id\<close>)
        then show ?thesis unfolding eq using E(2)[OF Pair[unfolded R]] Pair R by simp
      qed
    qed
  qed
qed

lemma acq_block_Inr:
  assumes "acq_block H c reason = Inr c'"
  shows "pre_ack (ac_state c)" "ac_intent c' = ac_intent c" "ac_receipt c' = None"
    "ac_state c' \<noteq> F_INTENT_RECORDED"
  using assms by (auto simp: acq_block_def Let_def acq_record_ok_def pre_ack_def split: if_splits)

lemma block_acquisition_edit:
  assumes inv: "journal_inv H j"
  shows "journal_edit H j (snd (block_acquisition H i reason j))"
proof (cases "get_acquisition j i")
  case (Inl e)
  then show ?thesis using edit_keep[OF inv] by (simp add: block_acquisition_def)
next
  case (Inr c)
  from get_acquisition_Inr[OF inv Inr] obtain p n k b where
    b: "acquisition_location j i = Inr (p, n, k)" "attempt_at j p n = Some b" "get_attempt j p n = Inr b"
      "k < length (at_acquisitions b)" "at_acquisitions b ! k = c" "acq_id c = i" "attempt_ok H b" "acq_record_ok H c" .
  show ?thesis
  proof (cases "ac_state c = F_BLOCKED \<or> isl (acq_block H c reason)")
    case True
    then show ?thesis using edit_keep[OF inv] Inr b
      by (auto simp: block_acquisition_def isl_def)
  next
    case False
    then obtain c' where c': "acq_block H c reason = Inr c'" by (cases "acq_block H c reason") auto
    let ?a = "b\<lparr>at_state := A_BLOCKED, at_acquisitions := (at_acquisitions b)[k := c'],
        at_reason_code := first_reason (at_reason_code b) reason, at_terminal_at := None\<rparr>"
    have eq: "snd (block_acquisition H i reason j) = snd (store_attempt H ?a j)"
      using False Inr b c' by (simp add: block_acquisition_def)
    have nt: "\<not> terminal b"
      using terminal_acquisition_settled[OF b(7)] acq_block_Inr(1)[OF c'] b(4,5) nth_mem by blast
    have "ac_receipt c = None" using b(8) acq_block_Inr(1)[OF c'] by (auto simp: acq_record_ok_def)
    then have ext: "acq_extends (at_acquisitions b ! k) c'"
      using acq_block_Inr(2,4)[OF c'] b(5) by (simp add: acq_extends_def)
    show ?thesis unfolding eq
    proof (rule snd_cases)
      fix e j1 assume "store_attempt H ?a j = (Inl e, j1)"
      from store_attempt_Inl[OF this] show "journal_edit H j j1" using edit_keep[OF inv] by simp
    next
      fix u j1 assume r: "store_attempt H ?a j = (Inr u, j1)"
      have "journal_edit H j (j1\<lparr>j_receipt_index := j_receipt_index j\<rparr>)"
        by (rule acquisition_edit[OF inv b(2) nt b(4) ext _ _ _ _ r])
          (simp_all add: same_header_def acq_block_Inr(3)[OF c'])
      then show "journal_edit H j j1" by (rule replace_keeps_receipts[OF _ store_receipts[OF r]])
    qed
  qed
qed

section \<open>Mutators of releases\<close>

lemma replace_release_edit:
  assumes inv: "journal_inv H j" and c: "get_release j i = Inr c" "pre_ack (rl_state c)"
    and c': "rl_intent c' = rl_intent c" "rl_state c' \<noteq> F_INTENT_RECORDED"
  shows "replace_release H c' j = (Inl e, j1) \<Longrightarrow> j1 = j"
    "replace_release H c' j = (Inr u, j1) \<Longrightarrow> j_receipt_index j1 = j_receipt_index j"
    "replace_release H c' j = (Inr u, j1) \<Longrightarrow>
      (\<And>x. map_option rel_evidence_receipt_id (rl_receipt c') = Some x \<Longrightarrow> R x = Some (rel_id c')) \<Longrightarrow>
      (\<And>x i. j_receipt_index j x = Some i \<Longrightarrow> R x = Some i) \<Longrightarrow>
      journal_edit H j (j1\<lparr>j_receipt_index := R\<rparr>)"
proof -
  from get_release_Inr[OF inv c(1)] obtain p n k b where
    b: "release_location j i = Inr (p, n, k)" "attempt_at j p n = Some b" "get_attempt j p n = Inr b"
      "k < length (at_releases b)" "at_releases b ! k = c" "rel_id c = i" "attempt_ok H b" "rel_record_ok H c" .
  have "rel_id c' = i" using c' b(6) by (simp add: rel_id_def)
  then have r: "replace_release H c' j = store_attempt H (b\<lparr>at_releases := (at_releases b)[k := c']\<rparr>) j"
    using b by (simp add: replace_release_def)
  have nt: "\<not> terminal b" using terminal_release_settled[OF b(7)] c(2) b(4,5) nth_mem by blast
  have "rl_receipt c = None" using b(8) c(2) by (auto simp: rel_record_ok_def)
  then have ext: "rel_extends (at_releases b ! k) c'" using c' b(5) by (simp add: rel_extends_def)
  show "replace_release H c' j = (Inl e, j1) \<Longrightarrow> j1 = j" unfolding r by (rule store_attempt_Inl)
  show "replace_release H c' j = (Inr u, j1) \<Longrightarrow> j_receipt_index j1 = j_receipt_index j"
    unfolding r by (rule store_receipts)
  show "journal_edit H j (j1\<lparr>j_receipt_index := R\<rparr>)"
    if "replace_release H c' j = (Inr u, j1)"
      "\<And>x. map_option rel_evidence_receipt_id (rl_receipt c') = Some x \<Longrightarrow> R x = Some (rel_id c')"
      "\<And>x i. j_receipt_index j x = Some i \<Longrightarrow> R x = Some i"
    by (rule release_edit[OF inv b(2) nt b(4) ext _ _ _ _ that(1)[unfolded r] that(2,3)])
      (simp_all add: same_header_def)
qed

lemma rel_arm_Inr:
  assumes "rel_arm H c = Inr c'"
  shows "rl_state c = F_INTENT_RECORDED" "rl_intent c' = rl_intent c" "rl_receipt c' = None"
    "rl_state c' \<noteq> F_INTENT_RECORDED"
  using assms by (auto simp: rel_arm_def Let_def rel_record_ok_def pre_ack_def split: if_splits)

lemma arm_release_edit:
  assumes inv: "journal_inv H j"
  shows "journal_edit H j (snd (arm_release H i j))"
proof (cases "get_release j i")
  case (Inl e)
  then show ?thesis using edit_keep[OF inv] by (simp add: arm_release_def)
next
  case (Inr c)
  show ?thesis
  proof (cases "rl_state c = F_DISPATCH_ARMED \<or> isl (rel_arm H c)")
    case True
    then show ?thesis using edit_keep[OF inv] Inr
      by (auto simp: arm_release_def isl_def)
  next
    case False
    then obtain c' where c': "rel_arm H c = Inr c'" by (cases "rel_arm H c") auto
    have "pre_ack (rl_state c)" using rel_arm_Inr(1)[OF c'] by (simp add: pre_ack_def)
    note E = replace_release_edit[OF inv Inr this rel_arm_Inr(2,4)[OF c']]
    have "journal_edit H j (snd (replace_release H c' j))"
    proof (rule snd_cases)
      fix e j1 assume "replace_release H c' j = (Inl e, j1)"
      from E(1)[OF this] show "journal_edit H j j1" using edit_keep[OF inv] by simp
    next
      fix u j1 assume r: "replace_release H c' j = (Inr u, j1)"
      show "journal_edit H j j1"
        by (rule replace_keeps_receipts[OF E(3)[OF r] E(2)[OF r]]) (simp_all add: rel_arm_Inr(3)[OF c'])
    qed
    then show ?thesis using False Inr c' by (simp add: arm_release_def)
  qed
qed

lemma rel_acknowledge_Inr:
  assumes "rel_acknowledge H c r = Inr c'"
  shows "pre_ack (rl_state c)" "rl_intent c' = rl_intent c" "rl_receipt c' = Some r"
    "rl_state c' \<noteq> F_INTENT_RECORDED"
  using assms by (auto simp: rel_acknowledge_def Let_def pre_ack_def split: if_splits rel_evidence.splits)

lemma rel_evidence_ids: "rel_evidence_valid_for H r i \<Longrightarrow> rel_evidence_operation_id r = ri_operation_id i"
  by (cases r) (auto simp: rel_receipt_valid_for_def rel_no_effect_valid_for_def)

lemma record_release_receipt_edit:
  assumes inv: "journal_inv H j"
  shows "journal_edit H j (snd (record_release_receipt H r j))"
proof (cases "get_release j (rel_evidence_operation_id r)")
  case (Inl e)
  then show ?thesis using edit_keep[OF inv] by (simp add: record_release_receipt_def)
next
  case (Inr c)
  show ?thesis
  proof (cases "rel_evidence_ok H r \<and> rl_receipt c = None \<and>
      receipt_unclaimed j (rel_evidence_receipt_id r) (rel_evidence_operation_id r) \<and>
      rel_evidence_valid_for H r (rl_intent c) \<and> \<not> isl (rel_acknowledge H c r)")
    case False
    then show ?thesis using edit_keep[OF inv] Inr
      by (cases "rel_acknowledge H c r") (auto simp: record_release_receipt_def split: option.splits)
  next
    case True
    then obtain c' where c': "rel_acknowledge H c r = Inr c'" by (cases "rel_acknowledge H c r") auto
    have id: "rel_evidence_operation_id r = rel_id c'"
      using True rel_evidence_ids rel_acknowledge_Inr(2)[OF c'] by (auto simp: rel_id_def)
    note E = replace_release_edit[OF inv Inr rel_acknowledge_Inr(1,2,4)[OF c']]
    have eq: "snd (record_release_receipt H r j) = (case replace_release H c' j of (Inl e, j1) \<Rightarrow> j1
       | (Inr _, j1) \<Rightarrow> j1\<lparr>j_receipt_index := (j_receipt_index j1)
           (rel_evidence_receipt_id r \<mapsto> rel_evidence_operation_id r)\<rparr>)"
      using True Inr c' by (auto simp: record_release_receipt_def split: prod.splits sum.splits)
    show ?thesis
    proof (cases "replace_release H c' j")
      case (Pair res j1)
      show ?thesis
      proof (cases res)
        case (Inl e)
        then show ?thesis using E(1) Pair edit_keep[OF inv] unfolding eq by simp
      next
        case R: (Inr u)
        have "journal_edit H j (j1\<lparr>j_receipt_index := (j_receipt_index j)
            (rel_evidence_receipt_id r \<mapsto> rel_evidence_operation_id r)\<rparr>)"
          by (rule E(3)[OF Pair[unfolded R]])
            (use True receipt_unclaimed_upd in \<open>auto simp: rel_acknowledge_Inr(3)[OF c'] id\<close>)
        then show ?thesis unfolding eq using E(2)[OF Pair[unfolded R]] Pair R by simp
      qed
    qed
  qed
qed

section \<open>Mutators of operations\<close>

lemma operation_location:
  assumes "attempt_ok H b" "p \<in> set (at_operations b)"
  shows "oi_plan_id (op_intent p) = at_plan_id b" "oi_attempt (op_intent p) = at_attempt b"
proof -
  obtain seen where "operation_step_ok H b seen p"
    using each_after_in[OF attempt_okD(3)[OF assms(1), unfolded operations_ok_def] assms(2)] by metis
  then show "oi_plan_id (op_intent p) = at_plan_id b" "oi_attempt (op_intent p) = at_attempt b"
    unfolding operation_step_ok_def by simp_all
qed

lemma replace_object_edit:
  assumes inv: "journal_inv H j" and c: "get_operation j i = Inr c"
    and nt: "\<And>b. attempt_at j (oi_plan_id (op_intent c)) (oi_attempt (op_intent c)) = Some b \<Longrightarrow>
      attempt_ok H b \<Longrightarrow> c \<in> set (at_operations b) \<Longrightarrow> \<not> terminal b"
    and c': "op_extends c c'"
  shows "replace_object H c' recovery j = (Inl e, j1) \<Longrightarrow> j1 = j"
    "replace_object H c' recovery j = (Inr u, j1) \<Longrightarrow> j_receipt_index j1 = j_receipt_index j"
    "replace_object H c' recovery j = (Inr u, j1) \<Longrightarrow>
      (\<And>x. map_option oc_receipt_id (op_receipt c') = Some x \<Longrightarrow> R x = Some (op_id c')) \<Longrightarrow>
      (\<And>x i. j_receipt_index j x = Some i \<Longrightarrow> R x = Some i) \<Longrightarrow>
      journal_edit H j (j1\<lparr>j_receipt_index := R\<rparr>)"
proof -
  from get_operation_Inr[OF inv c(1)] obtain p n k b where
    b: "object_location j i = Inr (p, n, k)" "attempt_at j p n = Some b" "get_attempt j p n = Inr b"
      "k < length (at_operations b)" "at_operations b ! k = c" "op_id c = i" "attempt_ok H b" .
  have "op_id c' = i" using c' b(6) by (simp add: op_id_def op_extends_def)
  then have r: "replace_object H c' recovery j =
      (if at_state b = A_BLOCKED \<and> \<not> recovery \<and> is_write c' then (Inl JournalConflict, j)
       else store_attempt H (b\<lparr>at_operations := (at_operations b)[k := c']\<rparr>) j)"
    using b by (simp add: replace_object_def)
  have mem: "c \<in> set (at_operations b)" using b(4,5) nth_mem by blast
  have "at_plan_id b = p" "at_attempt b = n" using attempts_invD[OF journal_invD(2)[OF inv] b(2)] by simp_all
  then have nt': "\<not> terminal b" using nt[OF _ b(7) mem] operation_location[OF b(7) mem] b(2) by simp
  have ext: "op_extends (at_operations b ! k) c'" using c' b(5) by simp
  show "replace_object H c' recovery j = (Inl e, j1) \<Longrightarrow> j1 = j"
    unfolding r by (split if_split_asm) (simp_all add: store_attempt_Inl)
  show "replace_object H c' recovery j = (Inr u, j1) \<Longrightarrow> j_receipt_index j1 = j_receipt_index j"
    unfolding r by (split if_split_asm) (simp_all add: store_receipts)
  show "journal_edit H j (j1\<lparr>j_receipt_index := R\<rparr>)"
    if h: "replace_object H c' recovery j = (Inr u, j1)"
      "\<And>x. map_option oc_receipt_id (op_receipt c') = Some x \<Longrightarrow> R x = Some (op_id c')"
      "\<And>x i. j_receipt_index j x = Some i \<Longrightarrow> R x = Some i"
  proof -
    have store: "store_attempt H (b\<lparr>at_operations := (at_operations b)[k := c']\<rparr>) j = (Inr u, j1)"
      using h(1) unfolding r by (simp split: if_splits)
    show ?thesis
      by (rule operation_edit[OF inv b(2) nt' b(4) ext _ _ _ _ store h(2,3)]) (simp_all add: same_header_def)
  qed
qed

text \<open>A change of a record that keeps its receipt leaves the receipt index alone.\<close>

lemma replace_object_same_receipt:
  assumes inv: "journal_inv H j" and c: "get_operation j i = Inr c"
    and nt: "\<And>b. attempt_at j (oi_plan_id (op_intent c)) (oi_attempt (op_intent c)) = Some b \<Longrightarrow>
      attempt_ok H b \<Longrightarrow> c \<in> set (at_operations b) \<Longrightarrow> \<not> terminal b"
    and c': "op_extends c c'" "op_receipt c' = op_receipt c"
  shows "journal_edit H j (snd (replace_object H c' recovery j))"
proof (rule snd_cases)
  fix e j1 assume "replace_object H c' recovery j = (Inl e, j1)"
  from replace_object_edit(1)[OF inv c nt c'(1) this] show "journal_edit H j j1" using edit_keep[OF inv] by simp
next
  fix u j1 assume r: "replace_object H c' recovery j = (Inr u, j1)"
  from get_operation_Inr[OF inv c] obtain p n k b where
    b: "attempt_at j p n = Some b" "k < length (at_operations b)" "at_operations b ! k = c" .
  have known: "j_receipt_index j x = Some (op_id c)" if "map_option oc_receipt_id (op_receipt c) = Some x" for x
  proof (rule receipts_invD[OF inv b(1)])
    show "(x, op_id c) \<in> receipt_rows b"
      using that b(2,3) nth_mem unfolding receipt_rows_iff by blast
  qed
  have "op_id c' = op_id c" using c'(1) by (simp add: op_id_def op_extends_def)
  with known c'(2) have "journal_edit H j (j1\<lparr>j_receipt_index := j_receipt_index j\<rparr>)"
    by (intro replace_object_edit(3)[OF inv c nt c'(1) r]) simp_all
  then show "journal_edit H j j1" by (rule replace_keeps_receipts[OF _ replace_object_edit(2)[OF inv c nt c'(1) r]])
qed

lemma pending_not_terminal:
  "op_pending c \<Longrightarrow> attempt_ok H b \<Longrightarrow> c \<in> set (at_operations b) \<Longrightarrow> \<not> terminal b"
  using terminal_operation_settled by blast

lemma arm_operation_edit:
  assumes inv: "journal_inv H j"
  shows "journal_edit H j (snd (arm_operation H i z j))"
proof (cases "get_operation j i")
  case (Inl e)
  then show ?thesis using edit_keep[OF inv] by (simp add: arm_operation_def)
next
  case c: (Inr c)
  from get_operation_Inr[OF inv c] obtain p n k b where
    b: "object_location j i = Inr (p, n, k)" "get_attempt j p n = Inr b" "op_record_ok H c" .
  show ?thesis
  proof (cases "op_arm H c z")
    case (Inl e)
    then have "snd (arm_operation H i z j) = j" by (simp add: arm_operation_def c b)
    then show ?thesis using edit_keep[OF inv] by simp
  next
    case c': (Inr c')
    have st: "op_state c = O_INTENT_RECORDED"
        "c' = c\<lparr>op_state := O_DISPATCH_ARMED, op_authorization := Some z\<rparr>"
      using c' by (simp_all add: op_transition_simps)
    have "op_authorization c = None" using b(3) st(1) by (simp add: op_record_ok_def evidence_shape_def)
    then have ext: "op_extends c c'" "op_receipt c' = op_receipt c" by (simp_all add: st(2) op_extends_def)
    have pending: "op_pending c" using st(1) by (simp add: op_pending_def)
    have "snd (arm_operation H i z j) = j \<or> snd (arm_operation H i z j) = snd (replace_object H c' False j)"
      by (simp add: arm_operation_def c b c')
    then show ?thesis
      using edit_keep[OF inv] replace_object_same_receipt[OF inv c pending_not_terminal[OF pending] ext] by auto
  qed
qed

lemma record_verification_edit:
  assumes inv: "journal_inv H j"
  shows "journal_edit H j (snd (record_verification H v j))"
proof (cases "get_operation j (ve_operation_id v)")
  case (Inl e)
  then show ?thesis using edit_keep[OF inv] by (simp add: record_verification_def)
next
  case c: (Inr c)
  from get_operation_Inr[OF inv c] have ok: "op_record_ok H c" .
  let ?step = "if op_state c = O_ACKNOWLEDGED then op_verify H c v
     else if op_state c = O_VERIFIED then op_refresh_verification H c v else Inl TransitionError"
  consider "snd (record_verification H v j) = j"
    | a c' where "get_attempt j (oi_plan_id (op_intent c)) (oi_attempt (op_intent c)) = Inr a" "\<not> terminal a"
      "?step = Inr c'" "snd (record_verification H v j) = snd (replace_object H c' True j)"
  proof (cases "get_attempt j (oi_plan_id (op_intent c)) (oi_attempt (op_intent c))")
    case (Inl e)
    then show ?thesis using that(1) by (simp add: record_verification_def c)
  next
    case a: (Inr a)
    show ?thesis
    proof (cases "?step")
      case (Inl e)
      have "snd (record_verification H v j) = j"
        by (cases "op_receipt c") (simp_all add: record_verification_def c a Inl)
      then show ?thesis by (rule that(1))
    next
      case c': (Inr c')
      have "snd (record_verification H v j) = j \<or>
          \<not> terminal a \<and> snd (record_verification H v j) = snd (replace_object H c' True j)"
        by (cases "op_receipt c") (simp_all add: record_verification_def c a c' terminal_def)
      with that a c' show ?thesis by blast
    qed
  qed
  then show ?thesis
  proof cases
    case 1
    then show ?thesis using edit_keep[OF inv] by simp
  next
    case (2 a c')
    have "op_verify H c v = Inr c' \<and> op_state c = O_ACKNOWLEDGED \<or> op_refresh_verification H c v = Inr c'"
      using 2(3) by (simp split: if_splits)
    then have "op_extends c c'" "op_receipt c' = op_receipt c"
      using ok by (auto simp: op_transition_simps op_refresh_simps op_extends_def op_record_ok_def evidence_shape_def)
    moreover have "\<not> terminal b"
      if "attempt_at j (oi_plan_id (op_intent c)) (oi_attempt (op_intent c)) = Some b" for b
      using that 2(1,2) by (simp add: get_attempt_view)
    ultimately show ?thesis unfolding 2(4) by (intro replace_object_same_receipt[OF inv c])
  qed
qed

lemma record_receipt_edit:
  assumes inv: "journal_inv H j"
  shows "journal_edit H j (snd (record_receipt H r j))"
proof (cases "get_operation j (oc_operation_id r)")
  case (Inl e)
  then show ?thesis using edit_keep[OF inv] by (simp add: record_receipt_def)
next
  case c: (Inr c)
  show ?thesis
  proof (cases "obj_receipt_ok H r \<and> op_receipt c = None \<and> receipt_unclaimed j (oc_receipt_id r) (oc_operation_id r) \<and>
      obj_receipt_valid_for H r (op_intent c) \<and>
      (case op_authorization c of None \<Rightarrow> False | Some z \<Rightarrow> obj_receipt_authorized_by H r z) \<and> \<not> isl (op_acknowledge H c r)")
    case False
    then show ?thesis using edit_keep[OF inv]
      by (cases "op_receipt c"; cases "op_authorization c"; cases "op_acknowledge H c r")
        (auto simp: record_receipt_def c)
  next
    case True
    then obtain c' where c': "op_acknowledge H c r = Inr c'" by (cases "op_acknowledge H c r") auto
    have eq: "snd (record_receipt H r j) = (case replace_object H c' True j of (Inl e, j1) \<Rightarrow> j1
       | (Inr _, j1) \<Rightarrow> j1\<lparr>j_receipt_index := (j_receipt_index j1)(oc_receipt_id r \<mapsto> oc_operation_id r)\<rparr>)"
      using True by (cases "op_authorization c") (auto simp: record_receipt_def c c' split: prod.splits sum.splits)
    have st: "op_state c = O_DISPATCH_ARMED" "c' = c\<lparr>op_state := O_ACKNOWLEDGED, op_receipt := Some r\<rparr>"
      using c' by (simp_all add: op_transition_simps)
    then have ext: "op_extends c c'" using True by (simp add: op_extends_def)
    have id: "oc_operation_id r = op_id c'" using True by (simp add: obj_receipt_valid_for_def st(2) op_id_def)
    have pending: "op_pending c" using st(1) by (simp add: op_pending_def)
    note nt = pending_not_terminal[OF pending, where H = H]
    show ?thesis
    proof (cases "replace_object H c' True j")
      case (Pair res j1)
      show ?thesis
      proof (cases res)
        case (Inl e)
        then show ?thesis
          using replace_object_edit(1)[OF inv c nt ext Pair[unfolded Inl]] Pair edit_keep[OF inv]
          unfolding eq by simp
      next
        case R: (Inr u)
        note Q = replace_object_edit(2,3)[OF inv c nt ext Pair[unfolded R]]
        have "journal_edit H j (j1\<lparr>j_receipt_index := (j_receipt_index j)(oc_receipt_id r \<mapsto> oc_operation_id r)\<rparr>)"
          by (rule Q(2)) (use receipt_unclaimed_upd True st(2) in \<open>auto simp: id\<close>)
        then show ?thesis unfolding eq using Q(1) Pair R by simp
      qed
    qed
  qed
qed

end
