(* ===== verification/Journal_Growth.thy ===== *)
theory Journal_Growth
  imports Journal_Steps
begin

text \<open>
  The remaining mutators: blocking an operation, closing an attempt, recording the three kinds of
  intents, and appending an attempt. With them, every mutator of the journal is a step of the view.
\<close>

section \<open>Attempt states\<close>

lemma block_operation_edit:
  assumes inv: "journal_inv H j"
  shows "journal_edit H j (snd (block_operation H i reason j))"
proof (cases "get_operation j i")
  case (Inl e)
  then show ?thesis using edit_keep[OF inv] by (simp add: block_operation_def)
next
  case c: (Inr c)
  from get_operation_Inr[OF inv c] obtain p n k b where
    b: "object_location j i = Inr (p, n, k)" "attempt_at j p n = Some b" "get_attempt j p n = Inr b"
      "k < length (at_operations b)" "at_operations b ! k = c" "op_id c = i" "attempt_ok H b" "op_record_ok H c" .
  show ?thesis
  proof (cases "op_block H c reason")
    case (Inl e)
    have "snd (block_operation H i reason j) = j" by (simp add: block_operation_def c b Inl)
    then show ?thesis using edit_keep[OF inv] by simp
  next
    case c': (Inr c')
    let ?a = "b\<lparr>at_state := A_BLOCKED, at_operations := (at_operations b)[k := c'],
        at_reason_code := first_reason (at_reason_code b) reason, at_terminal_at := None\<rparr>"
    have ext: "op_extends c c'" "op_receipt c' = op_receipt c"
      using c' by (simp_all add: op_transition_simps op_extends_def)
    have "snd (block_operation H i reason j) = j \<or>
        \<not> terminal b \<and> snd (block_operation H i reason j) = snd (store_attempt H ?a j)"
      using b(4) by (cases "at_state b") (simp_all add: block_operation_def c b(1,3) c' terminal_def)
    then consider "snd (block_operation H i reason j) = j"
      | "\<not> terminal b" "snd (block_operation H i reason j) = snd (store_attempt H ?a j)" by blast
    then show ?thesis
    proof cases
      case 1
      then show ?thesis using edit_keep[OF inv] by simp
    next
      case 2
      show ?thesis unfolding 2(2)
      proof (rule snd_cases)
        fix e j1 assume "store_attempt H ?a j = (Inl e, j1)"
        from store_attempt_Inl[OF this] show "journal_edit H j j1" using edit_keep[OF inv] by simp
      next
        fix u j1 assume r: "store_attempt H ?a j = (Inr u, j1)"
        have known: "j_receipt_index j x = Some (op_id c)" if "map_option oc_receipt_id (op_receipt c) = Some x" for x
          using receipts_invD[OF inv b(2)] that b(4,5) nth_mem unfolding receipt_rows_iff by blast
        have id: "op_id c' = op_id c" using ext(1) by (simp add: op_id_def op_extends_def)
        have known': "j_receipt_index j x = Some (op_id c')" if "map_option oc_receipt_id (op_receipt c') = Some x" for x
          unfolding id by (rule known) (rule that[unfolded ext(2)])
        have "journal_edit H j (j1\<lparr>j_receipt_index := j_receipt_index j\<rparr>)"
          by (rule operation_edit[OF inv b(2) 2(1) b(4) _ _ _ _ _ r known'])
            (use ext(1) b(5) in \<open>simp_all add: same_header_def\<close>)
        then show "journal_edit H j j1" by (rule replace_keeps_receipts[OF _ store_receipts[OF r]])
      qed
    qed
  qed
qed

lemma set_attempt_state_edit:
  assumes inv: "journal_inv H j"
  shows "journal_edit H j (snd (set_attempt_state H p n state reason at j))"
proof (cases "get_attempt j p n")
  case (Inl e)
  then show ?thesis using edit_keep[OF inv] by (simp add: set_attempt_state_def)
next
  case b: (Inr b)
  then have view: "attempt_at j p n = Some b" by (simp add: get_attempt_view)
  let ?a = "b\<lparr>at_state := state, at_reason_code := (if at_state b = A_BLOCKED then at_reason_code b else reason),
      at_terminal_at := at\<rparr>"
  have "snd (set_attempt_state H p n state reason at j) = j \<or>
      \<not> terminal b \<and> snd (set_attempt_state H p n state reason at j) = snd (store_attempt H ?a j)"
    by (cases "at_state b") (simp_all add: set_attempt_state_def b terminal_def Let_def)
  then consider "snd (set_attempt_state H p n state reason at j) = j"
    | "\<not> terminal b" "snd (set_attempt_state H p n state reason at j) = snd (store_attempt H ?a j)" by blast
  then show ?thesis
  proof cases
    case 1
    then show ?thesis using edit_keep[OF inv] by simp
  next
    case 2
    show ?thesis unfolding 2(2)
    proof (rule snd_cases)
      fix e j1 assume "store_attempt H ?a j = (Inl e, j1)"
      from store_attempt_Inl[OF this] show "journal_edit H j j1" using edit_keep[OF inv] by simp
    next
      fix u j1 assume r: "store_attempt H ?a j = (Inr u, j1)"
      have rows: "receipt_rows ?a = receipt_rows b" by (simp add: receipt_rows_def identity_rows_def)
      have "journal_edit H j (j1\<lparr>j_receipt_index := j_receipt_index j\<rparr>)"
        by (rule revise_in_place[OF inv view 2(1) _ _ _ _ r])
          (auto simp: attempt_extends_def extends_mem op_ids_def rel_ids_def rows
             intro: receipts_invD[OF inv view])
      then show "journal_edit H j j1" by (rule replace_keeps_receipts[OF _ store_receipts[OF r]])
    qed
  qed
qed

section \<open>Intents\<close>

text \<open>Claiming one new identity gives exactly the identities of the grown attempt.\<close>

lemma identity_grow:
  assumes ix: "indexes_inv j" and b: "attempt_at j p n = Some b" and ok: "attempt_ok H a"
    and ids: "set (acq_ids a) \<subseteq> set (acq_ids b) \<union> (if kind = ''acquisition'' then {i} else {})"
      "set (op_ids a) \<subseteq> set (op_ids b) \<union> (if kind = ''object'' then {i} else {})"
      "set (rel_ids a) \<subseteq> set (rel_ids b) \<union> (if kind = ''release'' then {i} else {})"
    and i: "kind = ''acquisition'' \<and> i \<in> set (acq_ids a) \<or> kind = ''object'' \<and> i \<in> set (op_ids a) \<or>
      kind = ''release'' \<and> i \<in> set (rel_ids a)"
  shows "(j_identity_index j)(i \<mapsto> kind) = (\<lambda>k. if k \<in> set (acq_ids a) then Some ''acquisition''
        else if k \<in> set (op_ids a) then Some ''object''
        else if k \<in> set (rel_ids a) then Some ''release'' else j_identity_index j k)"
proof
  fix k
  have x: "index_ok acq_ids (attempt_at j) (j_acquisition_index j)" "index_ok op_ids (attempt_at j) (j_object_index j)"
      "index_ok rel_ids (attempt_at j) (j_release_index j)" "identity_inv j"
    using ix by (simp_all add: indexes_inv_def)
  have known: "k \<in> set (acq_ids b) \<longrightarrow> j_identity_index j k = Some ''acquisition''"
      "k \<in> set (op_ids b) \<longrightarrow> j_identity_index j k = Some ''object''"
      "k \<in> set (rel_ids b) \<longrightarrow> j_identity_index j k = Some ''release''"
    using index_ok_None[OF x(1) b, of k] index_ok_None[OF x(2) b, of k] index_ok_None[OF x(3) b, of k]
      identity_claimed[OF x(4), of k] by blast+
  have dj: "set (acq_ids a) \<inter> set (op_ids a) = {}" "set (acq_ids a) \<inter> set (rel_ids a) = {}"
      "set (op_ids a) \<inter> set (rel_ids a) = {}"
    using attempt_ids_distinct[OF ok] by auto
  show "((j_identity_index j)(i \<mapsto> kind)) k = (if k \<in> set (acq_ids a) then Some ''acquisition''
        else if k \<in> set (op_ids a) then Some ''object''
        else if k \<in> set (rel_ids a) then Some ''release'' else j_identity_index j k)"
  proof (cases "k = i")
    case True
    then show ?thesis using i dj by auto
  next
    case False
    then have "k \<in> set (acq_ids a) \<longrightarrow> k \<in> set (acq_ids b)" "k \<in> set (op_ids a) \<longrightarrow> k \<in> set (op_ids b)"
        "k \<in> set (rel_ids a) \<longrightarrow> k \<in> set (rel_ids b)"
      using ids by (auto split: if_splits)
    then show ?thesis using known False by auto
  qed
qed

lemma claim_identity_free:
  "j_identity_index j i = None \<Longrightarrow> claim_identity i kind j = (Inr (), j\<lparr>j_identity_index := (j_identity_index j)(i \<mapsto> kind)\<rparr>)"
  by (simp add: claim_identity_def)

lemma provider_intents_view:
  assumes "dict_ok (j_attempts j)"
  shows "set (provider_intents j q) = {i \<in> intents (attempt_at j). ai_provider i = q}"
proof -
  have "i \<in> intents (attempt_at j) \<longleftrightarrow> (\<exists>p as a. (p, as) \<in> set (j_attempts j) \<and> a \<in> set as \<and> i \<in> ac_intent ` set (at_acquisitions a))" for i
  proof
    assume "i \<in> intents (attempt_at j)"
    then obtain p n a where a: "attempt_at j p n = Some a" "i \<in> ac_intent ` set (at_acquisitions a)"
      unfolding intents_def by blast
    then obtain as where "map_of (j_attempts j) p = Some as" "a \<in> set as"
      by (auto simp: attempt_at_def split: option.splits if_splits)
    with a(2) show "\<exists>p as a. (p, as) \<in> set (j_attempts j) \<and> a \<in> set as \<and> i \<in> ac_intent ` set (at_acquisitions a)"
      using map_of_SomeD by metis
  next
    assume "\<exists>p as a. (p, as) \<in> set (j_attempts j) \<and> a \<in> set as \<and> i \<in> ac_intent ` set (at_acquisitions a)"
    then obtain p as k where a: "(p, as) \<in> set (j_attempts j)" "k < length as"
        "i \<in> ac_intent ` set (at_acquisitions (as ! k))"
      by (metis in_set_conv_nth)
    then have "attempt_at j p (int k + 1) = Some (as ! k)"
      using assms by (simp add: attempt_at_def dict_ok_def)
    with a(3) show "i \<in> intents (attempt_at j)" unfolding intents_def by blast
  qed
  then show ?thesis by (auto simp: provider_intents_def)
qed

lemma new_epoch_Inr:
  assumes "new_epoch j q e t = Inr u" "i \<in> set (provider_intents j q)"
  shows "ai_epoch i < e" "ai_requested_at i \<le> t"
proof -
  have ne: "provider_intents j q \<noteq> []" using assms(2) by auto
  have m: "ai_epoch i \<le> Max (ai_epoch ` set (provider_intents j q))"
      "ai_requested_at i \<le> Max (ai_requested_at ` set (provider_intents j q))"
    using assms(2) by simp_all
  have "provider_ok q"
    using assms(1) by (auto simp: new_epoch_def provider_epoch_high_water_def checked_def split: if_splits)
  then have "\<not> e \<le> Max (ai_epoch ` set (provider_intents j q))" "\<not> t < Max (ai_requested_at ` set (provider_intents j q))"
    using assms(1) ne by (auto simp: new_epoch_def provider_epoch_high_water_def checked_def Let_def split: if_splits)
  with m show "ai_epoch i < e" "ai_requested_at i \<le> t" by linarith+
qed

lemma epochs_inv_insert:
  assumes "epochs_inv v" "intents w = intents v \<union> {i}"
    and new: "\<And>k. k \<in> intents v \<Longrightarrow> ai_provider k = ai_provider i \<Longrightarrow> ai_epoch k < ai_epoch i \<and> ai_requested_at k \<le> ai_requested_at i"
  shows "epochs_inv w"
  unfolding epochs_inv_def assms(2)
proof (intro ballI impI)
  fix x y assume x: "x \<in> intents v \<union> {i}" and y: "y \<in> intents v \<union> {i}" and q: "ai_provider x = ai_provider y"
  show "(ai_epoch x = ai_epoch y \<longrightarrow> x = y) \<and> (ai_epoch x < ai_epoch y \<longrightarrow> ai_requested_at x \<le> ai_requested_at y)"
  proof (cases "x = i \<or> y = i")
    case True
    then show ?thesis using new[of x] new[of y] x y q by auto
  next
    case False
    then show ?thesis using assms(1) x y q unfolding epochs_inv_def by blast
  qed
qed

text \<open>Records without a receipt add no receipt.\<close>

lemma receipt_rows_same:
  assumes "\<And>x i. (\<exists>c \<in> set (at_acquisitions a'). acq_id c = i \<and> map_option acq_evidence_receipt_id (ac_receipt c) = Some x)
      \<longleftrightarrow> (\<exists>c \<in> set (at_acquisitions a). acq_id c = i \<and> map_option acq_evidence_receipt_id (ac_receipt c) = Some x)"
    "\<And>x i. (\<exists>p \<in> set (at_operations a'). op_id p = i \<and> map_option oc_receipt_id (op_receipt p) = Some x)
      \<longleftrightarrow> (\<exists>p \<in> set (at_operations a). op_id p = i \<and> map_option oc_receipt_id (op_receipt p) = Some x)"
    "\<And>x i. (\<exists>c \<in> set (at_releases a'). rel_id c = i \<and> map_option rel_evidence_receipt_id (rl_receipt c) = Some x)
      \<longleftrightarrow> (\<exists>c \<in> set (at_releases a). rel_id c = i \<and> map_option rel_evidence_receipt_id (rl_receipt c) = Some x)"
  shows "receipt_rows a' = receipt_rows a"
proof (rule set_eqI)
  fix z show "z \<in> receipt_rows a' \<longleftrightarrow> z \<in> receipt_rows a"
    by (cases z) (simp only: receipt_rows_iff assms)
qed

lemma acq_recorded_Inr:
  "acq_recorded H i = Inr c \<Longrightarrow> c = \<lparr>ac_intent = i, ac_state = F_INTENT_RECORDED, ac_receipt = None,
     ac_reason_code = None, ac_blocked_from = None\<rparr>"
  by (auto simp: acq_recorded_def Let_def checked_def split: if_splits)

lemma record_acquisition_intent_cases:
  obtains (same) "snd (record_acquisition_intent H i j) = j"
  | (new) a c a' j1 u w where "j_identity_index j (ai_operation_id i) = None"
      "get_attempt j (ai_plan_id i) (ai_attempt i) = Inr a" "\<not> terminal a"
      "new_epoch j (ai_provider i) (ai_epoch i) (ai_requested_at i) = Inr w" "acq_recorded H i = Inr c"
      "a' = a\<lparr>at_acquisitions := sort_key acquisition_sort_key (at_acquisitions a @ [c])\<rparr>"
      "store_attempt H a' j = (Inr u, j1)"
      "snd (record_acquisition_intent H i j) = reindex_acquisitions a' (j1\<lparr>
         j_identity_index := (j_identity_index j1)(ai_operation_id i \<mapsto> ''acquisition''),
         j_acquisition_index := (j_acquisition_index j1)(ai_operation_id i \<mapsto>
           (ai_plan_id i, ai_attempt i, list_index (at_acquisitions a') c))\<rparr>)"
proof (cases "acq_intent_ok H i \<and> j_identity_index j (ai_operation_id i) = None")
  case False
  then have "snd (record_acquisition_intent H i j) = j"
    by (auto simp: record_acquisition_intent_def split: option.splits sum.splits)
  then show ?thesis by (rule same)
next
  case fresh: True
  show ?thesis
  proof (cases "get_attempt j (ai_plan_id i) (ai_attempt i)")
    case (Inl e)
    with fresh same show ?thesis by (simp add: record_acquisition_intent_def)
  next
    case a: (Inr a)
    show ?thesis
    proof (cases "new_epoch j (ai_provider i) (ai_epoch i) (ai_requested_at i)")
      case (Inl e)
      have "snd (record_acquisition_intent H i j) = j"
        using fresh by (simp add: record_acquisition_intent_def a Inl)
      then show ?thesis by (rule same)
    next
      case w: (Inr w)
      show ?thesis
      proof (cases "acq_recorded H i")
        case (Inl e)
        have "snd (record_acquisition_intent H i j) = j"
          using fresh by (simp add: record_acquisition_intent_def a w Inl)
        then show ?thesis by (rule same)
      next
        case c: (Inr c)
        let ?a = "a\<lparr>at_acquisitions := sort_key acquisition_sort_key (at_acquisitions a @ [c])\<rparr>"
        obtain res j1 where st: "store_attempt H ?a j = (res, j1)" by (cases "store_attempt H ?a j")
        show ?thesis
        proof (cases "res")
          case (Inl e)
          have "snd (record_acquisition_intent H i j) = j"
            using fresh store_attempt_Inl[OF st[unfolded Inl]]
            by (simp add: record_acquisition_intent_def a w c Let_def st[unfolded Inl])
          then show ?thesis by (rule same)
        next
          case (Inr u)
          note stored = st[unfolded Inr]
          have free: "j_identity_index j1 (ai_operation_id i) = None"
            using stored fresh by (auto simp: store_attempt_def split: if_splits option.splits)
          show ?thesis
          proof (cases "terminal a \<or> at_state a = A_BLOCKED \<and> \<not> provider_needs_compensation a (ai_provider i)")
            case True
            then have "snd (record_acquisition_intent H i j) = j"
              using fresh by (auto simp: record_acquisition_intent_def a terminal_def)
            then show ?thesis by (rule same)
          next
            case False
            then show ?thesis
              using fresh by (intro new[OF _ a _ w c refl stored])
                (cases "at_state a"; simp add: record_acquisition_intent_def a w c Let_def stored terminal_def
                  claim_identity_free[OF free])+
          qed
        qed
      qed
    qed
  qed
qed

lemma record_acquisition_intent_edit:
  assumes inv: "journal_inv H j"
  shows "journal_edit H j (snd (record_acquisition_intent H i j))"
proof (cases rule: record_acquisition_intent_cases[of H i j])
  case same
  then show ?thesis using edit_keep[OF inv] by simp
next
  case (new a c a' j1 u w)
  note D = journal_invD[OF inv]
  let ?p = "ai_plan_id i" and ?n = "ai_attempt i" and ?i = "ai_operation_id i"
  let ?j = "snd (record_acquisition_intent H i j)"
  have b: "attempt_at j ?p ?n = Some a" using new(2) by (simp add: get_attempt_view)
  have pn: "at_plan_id a' = ?p" "at_attempt a' = ?n"
    using attempts_invD[OF D(2) b] by (simp_all add: new(6))
  note st = store_attempt_Inr[OF new(7) D(1), unfolded pn]
  obtain d where j1: "j1 = j\<lparr>j_attempts := d\<rparr>" using st(4) by blast
  have c: "ac_intent c = i" "ac_receipt c = None" "acq_id c = ?i"
    using acq_recorded_Inr[OF new(5)] by (simp_all add: acq_id_def)
  have mem: "set (at_acquisitions a') = insert c (set (at_acquisitions a))" by (simp add: new(6))
  have ids: "set (acq_ids a') = insert ?i (set (acq_ids a))" by (simp add: acq_ids_def mem c(3))
  have other: "op_ids a' = op_ids a" "rel_ids a' = rel_ids a" by (simp_all add: new(6) op_ids_def rel_ids_def)
  have ix: "index_ok op_ids (attempt_at j) (j_object_index j)" "index_ok rel_ids (attempt_at j) (j_release_index j)"
    using D(5) by (simp_all add: indexes_inv_def)
  have fields: "j_acquisition_index ?j = reindex ?p ?n 0 (acq_ids a') (j_acquisition_index j)"
      "j_object_index ?j = j_object_index j" "j_release_index ?j = j_release_index j"
      "j_receipt_index ?j = j_receipt_index j"
      "j_identity_index ?j = (j_identity_index j)(?i \<mapsto> ''acquisition'')" "j_attempts ?j = d"
    using reindex_overwrites[of ?i "acq_ids a'" ?p ?n 0 "j_acquisition_index j"] ids
    unfolding new(8) by (simp_all add: reindex_acquisitions_def j1 pn acq_ids_def)
  have view: "attempt_at ?j = view_put ?p ?n a' (attempt_at j)"
    using st(2) fields(6) by (simp add: j1 attempt_at_def fun_eq_iff)
  have rows: "receipt_rows a' = receipt_rows a"
    by (rule receipt_rows_same) (simp_all add: mem c, simp_all add: new(6))
  have "intents (view_put ?p ?n a' (attempt_at j)) = intents (attempt_at j) \<union> {i}"
    by (rule intents_put_insert[of "attempt_at j" ?p ?n a, OF b]) (auto simp: mem c)
  then have "epochs_inv (attempt_at ?j)"
    unfolding view using new_epoch_Inr[OF new(4)] provider_intents_view[OF D(1), of "ai_provider i"]
    by (intro epochs_inv_insert[OF D(4)]) auto
  moreover have "j_identity_index ?j = (\<lambda>k. if k \<in> set (acq_ids a') then Some ''acquisition''
        else if k \<in> set (op_ids a') then Some ''object''
        else if k \<in> set (rel_ids a') then Some ''release'' else j_identity_index j k)"
    unfolding fields(5) by (rule identity_grow[OF D(5) b st(1)]) (auto simp: ids other)
  ultimately have "puts H j ?p ?n a' ?j"
    unfolding puts_def using st(1,3) pn view fields j1
    by (simp add: index_reindex_same[OF ix(1) b other(1)] index_reindex_same[OF ix(2) b other(2)]
        rows receipts_invD[OF inv b])
  moreover have "new_ids_fresh j (Some a) a'"
    using new(1) ids other by (auto simp: new_ids_fresh_def)
  moreover have "attempt_extends a a'"
    by (auto simp: attempt_extends_def mem extends_mem) (auto simp: new(6) extends_mem)
  ultimately show ?thesis by (intro journal_edit.Revise[OF b new(3)])
qed

lemma rel_recorded_Inr:
  "rel_recorded H i = Inr c \<Longrightarrow> c = \<lparr>rl_intent = i, rl_state = F_INTENT_RECORDED, rl_receipt = None,
     rl_reason_code = None, rl_blocked_from = None\<rparr>"
  by (auto simp: rel_recorded_def Let_def checked_def split: if_splits)

lemma op_recorded_Inr:
  "op_recorded H i = Inr p \<Longrightarrow> p = \<lparr>op_intent = i, op_state = O_INTENT_RECORDED, op_authorization = None,
     op_receipt = None, op_verifications = [], op_reason_code = None, op_blocked_from = None\<rparr>"
  by (auto simp: op_recorded_def Let_def checked_def split: if_splits)

lemma record_release_intent_cases:
  obtains (same) "snd (record_release_intent H i j) = j"
  | (new) a c j1 u where "j_identity_index j (ri_operation_id i) = None"
      "get_attempt j (ri_plan_id i) (ri_attempt i) = Inr a" "\<not> terminal a" "rel_recorded H i = Inr c"
      "store_attempt H (with_release a c) j = (Inr u, j1)"
      "snd (record_release_intent H i j) = reindex_releases (with_release a c) (j1\<lparr>
         j_identity_index := (j_identity_index j1)(ri_operation_id i \<mapsto> ''release''),
         j_release_index := (j_release_index j1)(ri_operation_id i \<mapsto>
           (ri_plan_id i, ri_attempt i, list_index (at_releases (with_release a c)) c))\<rparr>)"
proof (cases "rel_intent_ok H i \<and> j_identity_index j (ri_operation_id i) = None")
  case False
  then have "snd (record_release_intent H i j) = j"
    by (auto simp: record_release_intent_def split: option.splits sum.splits)
  then show ?thesis by (rule same)
next
  case fresh: True
  show ?thesis
  proof (cases "get_attempt j (ri_plan_id i) (ri_attempt i)")
    case (Inl e)
    with fresh same show ?thesis by (simp add: record_release_intent_def)
  next
    case a: (Inr a)
    show ?thesis
    proof (cases "acquisition_by_id a (ri_acquisition_operation_id i)")
      case None
      then have "snd (record_release_intent H i j) = j"
        using fresh by (simp add: record_release_intent_def a)
      then show ?thesis by (rule same)
    next
      case q: (Some q)
      show ?thesis
      proof (cases "rel_recorded H i")
        case (Inl e)
        have "snd (record_release_intent H i j) = j"
          using fresh by (simp add: record_release_intent_def a q Inl Let_def)
        then show ?thesis by (rule same)
      next
        case c: (Inr c)
        obtain res j1 where st: "store_attempt H (with_release a c) j = (res, j1)"
          by (cases "store_attempt H (with_release a c) j")
        show ?thesis
        proof (cases "res")
          case (Inl e)
          have "snd (record_release_intent H i j) = j"
            using fresh store_attempt_Inl[OF st[unfolded Inl]]
            by (simp add: record_release_intent_def a q c Let_def st[unfolded Inl])
          then show ?thesis by (rule same)
        next
          case (Inr u)
          note stored = st[unfolded Inr]
          have free: "j_identity_index j1 (ri_operation_id i) = None"
            using stored fresh by (auto simp: store_attempt_def split: if_splits option.splits)
          have "snd (record_release_intent H i j) = j \<or> \<not> terminal a \<and>
              snd (record_release_intent H i j) = reindex_releases (with_release a c) (j1\<lparr>
               j_identity_index := (j_identity_index j1)(ri_operation_id i \<mapsto> ''release''),
               j_release_index := (j_release_index j1)(ri_operation_id i \<mapsto>
                 (ri_plan_id i, ri_attempt i, list_index (at_releases (with_release a c)) c))\<rparr>)"
            using fresh
            by (cases "at_state a") (simp_all add: record_release_intent_def a q c Let_def stored terminal_def
                  claim_identity_free[OF free])
          then show ?thesis
          proof (elim disjE conjE)
            assume "snd (record_release_intent H i j) = j" then show ?thesis by (rule same)
          next
            assume "\<not> terminal a" "snd (record_release_intent H i j) = reindex_releases (with_release a c) (j1\<lparr>
               j_identity_index := (j_identity_index j1)(ri_operation_id i \<mapsto> ''release''),
               j_release_index := (j_release_index j1)(ri_operation_id i \<mapsto>
                 (ri_plan_id i, ri_attempt i, list_index (at_releases (with_release a c)) c))\<rparr>)"
            with fresh show ?thesis by (intro new[OF _ a _ c stored]) simp_all
          qed
        qed
      qed
    qed
  qed
qed

lemma record_release_intent_edit:
  assumes inv: "journal_inv H j"
  shows "journal_edit H j (snd (record_release_intent H i j))"
proof (cases rule: record_release_intent_cases[of H i j])
  case same
  then show ?thesis using edit_keep[OF inv] by simp
next
  case (new a c j1 u)
  note D = journal_invD[OF inv]
  let ?p = "ri_plan_id i" and ?n = "ri_attempt i" and ?i = "ri_operation_id i" and ?a = "with_release a c"
  let ?j = "snd (record_release_intent H i j)"
  have b: "attempt_at j ?p ?n = Some a" using new(2) by (simp add: get_attempt_view)
  have pn: "at_plan_id ?a = ?p" "at_attempt ?a = ?n"
    using attempts_invD[OF D(2) b] by (simp_all add: with_release_def)
  note st = store_attempt_Inr[OF new(5) D(1), unfolded pn]
  obtain d where j1: "j1 = j\<lparr>j_attempts := d\<rparr>" using st(4) by blast
  have c: "rl_intent c = i" "rl_receipt c = None" "rel_id c = ?i"
    using rel_recorded_Inr[OF new(4)] by (simp_all add: rel_id_def)
  have mem: "set (at_releases ?a) = insert c (set (at_releases a))" by (simp add: with_release_def)
  have ids: "set (rel_ids ?a) = insert ?i (set (rel_ids a))" by (simp add: rel_ids_def mem c(3))
  have other: "op_ids ?a = op_ids a" "acq_ids ?a = acq_ids a" by (simp_all add: with_release_def op_ids_def acq_ids_def)
  have ix: "index_ok op_ids (attempt_at j) (j_object_index j)" "index_ok acq_ids (attempt_at j) (j_acquisition_index j)"
    using D(5) by (simp_all add: indexes_inv_def)
  have fields: "j_release_index ?j = reindex ?p ?n 0 (rel_ids ?a) (j_release_index j)"
      "j_object_index ?j = j_object_index j" "j_acquisition_index ?j = j_acquisition_index j"
      "j_receipt_index ?j = j_receipt_index j"
      "j_identity_index ?j = (j_identity_index j)(?i \<mapsto> ''release'')" "j_attempts ?j = d"
    using reindex_overwrites[of ?i "rel_ids ?a" ?p ?n 0 "j_release_index j"] ids
    unfolding new(6) by (simp_all add: reindex_releases_def j1 pn rel_ids_def)
  have view: "attempt_at ?j = view_put ?p ?n ?a (attempt_at j)"
    using st(2) fields(6) by (simp add: j1 attempt_at_def fun_eq_iff)
  have rows: "receipt_rows ?a = receipt_rows a"
    by (rule receipt_rows_same) (simp_all add: mem c, simp_all add: with_release_def)
  have "intents (view_put ?p ?n ?a (attempt_at j)) = intents (attempt_at j)"
    by (rule intents_put[of "attempt_at j" ?p ?n a, OF b]) (simp add: with_release_def)
  then have "epochs_inv (attempt_at ?j)" using D(4) unfolding view by (simp add: epochs_inv_def)
  moreover have "j_identity_index ?j = (\<lambda>k. if k \<in> set (acq_ids ?a) then Some ''acquisition''
        else if k \<in> set (op_ids ?a) then Some ''object''
        else if k \<in> set (rel_ids ?a) then Some ''release'' else j_identity_index j k)"
    unfolding fields(5) by (rule identity_grow[OF D(5) b st(1)]) (auto simp: ids other)
  ultimately have "puts H j ?p ?n ?a ?j"
    unfolding puts_def using st(1,3) pn view fields j1
    by (simp add: index_reindex_same[OF ix(1) b other(1)] index_reindex_same[OF ix(2) b other(2)]
        rows receipts_invD[OF inv b])
  moreover have "new_ids_fresh j (Some a) ?a"
    using new(1) ids other by (auto simp: new_ids_fresh_def)
  moreover have "attempt_extends a ?a"
    by (auto simp: attempt_extends_def mem extends_mem) (auto simp: with_release_def extends_mem)
  ultimately show ?thesis by (intro journal_edit.Revise[OF b new(3)])
qed

lemma record_intent_cases:
  obtains (same) "snd (record_intent H i j) = j"
  | (new) a c j1 u where "j_identity_index j (oi_operation_id i) = None"
      "get_attempt j (oi_plan_id i) (oi_attempt i) = Inr a" "\<not> terminal a" "op_recorded H i = Inr c"
      "oi_sequence i = int (length (at_operations a)) + 1"
      "store_attempt H (a\<lparr>at_operations := at_operations a @ [c]\<rparr>) j = (Inr u, j1)"
      "snd (record_intent H i j) = j1\<lparr>
         j_identity_index := (j_identity_index j1)(oi_operation_id i \<mapsto> ''object''),
         j_object_index := (j_object_index j1)(oi_operation_id i \<mapsto>
           (oi_plan_id i, oi_attempt i, nat (oi_sequence i - 1)))\<rparr>"
proof (cases "obj_intent_ok H i \<and> j_identity_index j (oi_operation_id i) = None")
  case False
  then have "snd (record_intent H i j) = j"
    by (auto simp: record_intent_def split: option.splits sum.splits)
  then show ?thesis by (rule same)
next
  case fresh: True
  show ?thesis
  proof (cases "get_attempt j (oi_plan_id i) (oi_attempt i)")
    case (Inl e)
    with fresh same show ?thesis by (simp add: record_intent_def)
  next
    case a: (Inr a)
    let ?a = "\<lambda>c. a\<lparr>at_operations := at_operations a @ [c]\<rparr>"
    show ?thesis
    proof (cases "op_recorded H i")
      case (Inl e)
      have "snd (record_intent H i j) = j"
        using fresh by (simp add: record_intent_def a Inl Let_def)
      then show ?thesis by (rule same)
    next
      case c: (Inr c)
      obtain res j1 where st: "store_attempt H (?a c) j = (res, j1)" by (cases "store_attempt H (?a c) j")
      show ?thesis
      proof (cases "res")
        case (Inl e)
        have "snd (record_intent H i j) = j"
          using fresh store_attempt_Inl[OF st[unfolded Inl]]
          by (simp add: record_intent_def a c Let_def st[unfolded Inl])
        then show ?thesis by (rule same)
      next
        case (Inr u)
        note stored = st[unfolded Inr]
        have free: "j_identity_index j1 (oi_operation_id i) = None"
          using stored fresh by (auto simp: store_attempt_def split: if_splits option.splits)
        have "snd (record_intent H i j) = j \<or> \<not> terminal a \<and> oi_sequence i = int (length (at_operations a)) + 1 \<and>
            snd (record_intent H i j) = j1\<lparr>
             j_identity_index := (j_identity_index j1)(oi_operation_id i \<mapsto> ''object''),
             j_object_index := (j_object_index j1)(oi_operation_id i \<mapsto>
               (oi_plan_id i, oi_attempt i, nat (oi_sequence i - 1)))\<rparr>"
          using fresh
          by (cases "at_state a") (simp_all add: record_intent_def a c Let_def stored terminal_def
                claim_identity_free[OF free])
        then show ?thesis
        proof (elim disjE conjE)
          assume "snd (record_intent H i j) = j" then show ?thesis by (rule same)
        next
          assume "\<not> terminal a" "oi_sequence i = int (length (at_operations a)) + 1"
            "snd (record_intent H i j) = j1\<lparr>
               j_identity_index := (j_identity_index j1)(oi_operation_id i \<mapsto> ''object''),
               j_object_index := (j_object_index j1)(oi_operation_id i \<mapsto>
                 (oi_plan_id i, oi_attempt i, nat (oi_sequence i - 1)))\<rparr>"
          with fresh show ?thesis by (intro new[OF _ a _ c _ stored]) simp_all
        qed
      qed
    qed
  qed
qed

lemma record_intent_edit:
  assumes inv: "journal_inv H j"
  shows "journal_edit H j (snd (record_intent H i j))"
proof (cases rule: record_intent_cases[of H i j])
  case same
  then show ?thesis using edit_keep[OF inv] by simp
next
  case (new a c j1 u)
  note D = journal_invD[OF inv]
  let ?p = "oi_plan_id i" and ?n = "oi_attempt i" and ?i = "oi_operation_id i"
  let ?a = "a\<lparr>at_operations := at_operations a @ [c]\<rparr>"
  let ?j = "snd (record_intent H i j)"
  have b: "attempt_at j ?p ?n = Some a" using new(2) by (simp add: get_attempt_view)
  have pn: "at_plan_id ?a = ?p" "at_attempt ?a = ?n"
    using attempts_invD[OF D(2) b] by simp_all
  note st = store_attempt_Inr[OF new(6) D(1), unfolded pn]
  obtain d where j1: "j1 = j\<lparr>j_attempts := d\<rparr>" using st(4) by blast
  have c: "op_intent c = i" "op_receipt c = None" "op_id c = ?i"
    using op_recorded_Inr[OF new(4)] by (simp_all add: op_id_def)
  have ids: "op_ids ?a = op_ids a @ [?i]" by (simp add: op_ids_def c(3))
  have other: "acq_ids ?a = acq_ids a" "rel_ids ?a = rel_ids a" by (simp_all add: acq_ids_def rel_ids_def)
  have ix: "index_ok acq_ids (attempt_at j) (j_acquisition_index j)" "index_ok rel_ids (attempt_at j) (j_release_index j)"
      "index_ok op_ids (attempt_at j) (j_object_index j)"
    using D(5) by (simp_all add: indexes_inv_def)
  have fields: "j_object_index ?j = reindex ?p ?n 0 (op_ids ?a) (j_object_index j)"
      "j_acquisition_index ?j = j_acquisition_index j" "j_release_index ?j = j_release_index j"
      "j_receipt_index ?j = j_receipt_index j"
      "j_identity_index ?j = (j_identity_index j)(?i \<mapsto> ''object'')" "j_attempts ?j = d"
    using index_reindex_same[OF ix(3) b refl] new(5)
    unfolding new(7) ids by (simp_all add: j1 reindex_append op_ids_def)
  have view: "attempt_at ?j = view_put ?p ?n ?a (attempt_at j)"
    using st(2) fields(6) by (simp add: j1 attempt_at_def fun_eq_iff)
  have rows: "receipt_rows ?a = receipt_rows a"
    by (rule receipt_rows_same) (auto simp: c)
  have "intents (view_put ?p ?n ?a (attempt_at j)) = intents (attempt_at j)"
    by (rule intents_put[of "attempt_at j" ?p ?n a, OF b]) simp
  then have "epochs_inv (attempt_at ?j)" using D(4) unfolding view by (simp add: epochs_inv_def)
  moreover have "j_identity_index ?j = (\<lambda>k. if k \<in> set (acq_ids ?a) then Some ''acquisition''
        else if k \<in> set (op_ids ?a) then Some ''object''
        else if k \<in> set (rel_ids ?a) then Some ''release'' else j_identity_index j k)"
    unfolding fields(5) by (rule identity_grow[OF D(5) b st(1)]) (auto simp: ids other)
  ultimately have "puts H j ?p ?n ?a ?j"
    unfolding puts_def using st(1,3) pn view fields j1
    by (simp add: index_reindex_same[OF ix(1) b other(1)] index_reindex_same[OF ix(2) b other(2)]
        rows receipts_invD[OF inv b])
  moreover have "new_ids_fresh j (Some a) ?a"
    using new(1) ids other by (auto simp: new_ids_fresh_def)
  moreover have "attempt_extends a ?a"
    by (auto simp: attempt_extends_def extends_mem intro: disjI2)
  ultimately show ?thesis by (intro journal_edit.Revise[OF b new(3)])
qed

end
