(* ===== verification/Journal_Append.thy ===== *)
theory Journal_Append
  imports Journal_Growth
begin

text \<open>
  Appending an attempt, and the runs of the journal: every mutator is a step of the view.
\<close>

section \<open>Indexing an attempt\<close>

fun put_receipts :: "(string \<times> string option) list \<Rightarrow> (string \<Rightarrow> string option) \<Rightarrow> string \<Rightarrow> string option" where
  "put_receipts [] f = f"
| "put_receipts ((i, r) # rows) f = put_receipts rows (case r of None \<Rightarrow> f | Some x \<Rightarrow> f(x \<mapsto> i))"

definition put_kind :: "string \<Rightarrow> string list \<Rightarrow> (string \<Rightarrow> string option) \<Rightarrow> string \<Rightarrow> string option" where
  "put_kind kind ids f = (\<lambda>i. if i \<in> set ids then Some kind else f i)"

lemma put_kind_Cons: "put_kind kind (i # is) f = put_kind kind is (f(i \<mapsto> kind))"
  by (auto simp: put_kind_def fun_eq_iff)

lemma claim_identity_ok:
  "j_identity_index j i = None \<or> j_identity_index j i = Some kind \<Longrightarrow>
    claim_identity i kind j = (Inr (), j\<lparr>j_identity_index := (j_identity_index j)(i \<mapsto> kind)\<rparr>)"
  by (auto simp: claim_identity_def)

lemma index_rows_acquisition:
  assumes "\<forall>i \<in> fst ` set rows. j_identity_index j i = None \<or> j_identity_index j i = Some kind"
  shows "index_rows kind put_acquisition p n k rows j = (Inr (), j\<lparr>
    j_acquisition_index := reindex p n k (map fst rows) (j_acquisition_index j),
    j_identity_index := put_kind kind (map fst rows) (j_identity_index j),
    j_receipt_index := put_receipts rows (j_receipt_index j)\<rparr>)"
  using assms
proof (induction kind put_acquisition p n k rows j rule: index_rows.induct)
  case (2 kind p n k i r rows j)
  then show ?case
    by (cases r) (auto simp: claim_identity_ok put_acquisition_def index_receipt_def put_kind_Cons)
qed (simp add: put_kind_def)

lemma index_rows_object:
  assumes "\<forall>i \<in> fst ` set rows. j_identity_index j i = None \<or> j_identity_index j i = Some kind"
  shows "index_rows kind put_object p n k rows j = (Inr (), j\<lparr>
    j_object_index := reindex p n k (map fst rows) (j_object_index j),
    j_identity_index := put_kind kind (map fst rows) (j_identity_index j),
    j_receipt_index := put_receipts rows (j_receipt_index j)\<rparr>)"
  using assms
proof (induction kind put_object p n k rows j rule: index_rows.induct)
  case (2 kind p n k i r rows j)
  then show ?case
    by (cases r) (auto simp: claim_identity_ok put_object_def index_receipt_def put_kind_Cons)
qed (simp add: put_kind_def)

lemma index_rows_release:
  assumes "\<forall>i \<in> fst ` set rows. j_identity_index j i = None \<or> j_identity_index j i = Some kind"
  shows "index_rows kind put_release p n k rows j = (Inr (), j\<lparr>
    j_release_index := reindex p n k (map fst rows) (j_release_index j),
    j_identity_index := put_kind kind (map fst rows) (j_identity_index j),
    j_receipt_index := put_receipts rows (j_receipt_index j)\<rparr>)"
  using assms
proof (induction kind put_release p n k rows j rule: index_rows.induct)
  case (2 kind p n k i r rows j)
  then show ?case
    by (cases r) (auto simp: claim_identity_ok put_release_def index_receipt_def put_kind_Cons)
qed (simp add: put_kind_def)

definition row_receipts :: "(string \<times> string option) list \<Rightarrow> string list" where
  "row_receipts rows = concat (map (\<lambda>(i, r). case r of None \<Rightarrow> [] | Some x \<Rightarrow> [x]) rows)"

lemma put_receipts_other: "x \<notin> set (row_receipts rows) \<Longrightarrow> put_receipts rows f x = f x"
  by (induction rows f rule: put_receipts.induct) (auto simp: row_receipts_def split: option.splits)

lemma row_receipts_mem: "(i, Some x) \<in> set rows \<Longrightarrow> x \<in> set (row_receipts rows)"
  by (force simp: row_receipts_def)

lemma put_receipts_mem:
  "distinct (row_receipts rows) \<Longrightarrow> (i, Some x) \<in> set rows \<Longrightarrow> put_receipts rows f x = Some i"
proof (induction rows f rule: put_receipts.induct)
  case (2 k r rows f)
  show ?case
  proof (cases "(i, Some x) = (k, r)")
    case True
    then have "x \<notin> set (row_receipts rows)" using 2(2) by (auto simp: row_receipts_def)
    then show ?thesis using True by (cases r) (auto simp: put_receipts_other)
  next
    case False
    then have "(i, Some x) \<in> set rows" using 2(3) by auto
    then show ?thesis using 2 by (auto simp: row_receipts_def split: option.splits)
  qed
qed simp

lemma put_receipts_append: "put_receipts (rows @ rows') f = put_receipts rows' (put_receipts rows f)"
  by (induction rows f rule: put_receipts.induct) simp_all

section \<open>Fresh identities\<close>

abbreviation plain_rows :: "(string \<times> string \<times> string option) list \<Rightarrow> (string \<times> string option) list" where
  "plain_rows rows \<equiv> map (\<lambda>(i, _, r). (i, r)) rows"

lemma unclaimed_rowsD:
  "unclaimed_rows j I R rows \<Longrightarrow> distinct (map fst rows) \<and> distinct (row_receipts (plain_rows rows)) \<and>
    (\<forall>i \<in> fst ` set rows. i \<notin> set I \<and> j_identity_index j i = None) \<and>
    (\<forall>x \<in> set (row_receipts (plain_rows rows)). x \<notin> set R \<and> j_receipt_index j x = None)"
proof (induction j I R rows rule: unclaimed_rows.induct)
  case (2 j I R i k r rows)
  show ?case
  proof (cases r)
    case None
    with 2 show ?thesis by (auto simp: row_receipts_def)
  next
    case (Some x)
    with 2 show ?thesis by (auto simp: row_receipts_def)
  qed
qed (simp add: row_receipts_def)

lemma unclaimed_attempt_cong:
  assumes "j_identity_index j' = j_identity_index j" "j_receipt_index j' = j_receipt_index j"
  shows "unclaimed_attempt j' a = unclaimed_attempt j a"
proof -
  have "unclaimed_rows j' I R rows = unclaimed_rows j I R rows" for I R rows
    using assms by (induction j I R rows rule: unclaimed_rows.induct) (auto split: option.splits)
  then show ?thesis by (simp add: unclaimed_attempt_def)
qed

definition acq_rows :: "attempt \<Rightarrow> (string \<times> string option) list" where
  "acq_rows a = map (\<lambda>c. (acq_id c, map_option acq_evidence_receipt_id (ac_receipt c))) (at_acquisitions a)"

definition op_rows :: "attempt \<Rightarrow> (string \<times> string option) list" where
  "op_rows a = map (\<lambda>p. (op_id p, map_option oc_receipt_id (op_receipt p))) (at_operations a)"

definition rel_rows :: "attempt \<Rightarrow> (string \<times> string option) list" where
  "rel_rows a = map (\<lambda>c. (rel_id c, map_option rel_evidence_receipt_id (rl_receipt c))) (at_releases a)"

lemma rows_ids: "map fst (acq_rows a) = acq_ids a" "map fst (op_rows a) = op_ids a" "map fst (rel_rows a) = rel_ids a"
  by (simp_all add: acq_rows_def op_rows_def rel_rows_def acq_ids_def op_ids_def rel_ids_def)

lemma plain_identity_rows: "plain_rows (identity_rows a) = acq_rows a @ op_rows a @ rel_rows a"
  by (simp add: identity_rows_def acq_rows_def op_rows_def rel_rows_def)

lemma fst_identity_rows: "map fst (identity_rows a) = acq_ids a @ op_ids a @ rel_ids a"
  by (simp add: identity_rows_def acq_ids_def op_ids_def rel_ids_def comp_def)

lemma receipt_rows_plain: "(x, i) \<in> receipt_rows a \<longleftrightarrow> (i, Some x) \<in> set (acq_rows a @ op_rows a @ rel_rows a)"
  unfolding plain_identity_rows[symmetric] receipt_rows_def by force

lemma index_attempt_fresh:
  assumes fresh: "unclaimed_attempt j a"
  shows "index_attempt a j = (Inr (), j\<lparr>
    j_acquisition_index := reindex (at_plan_id a) (at_attempt a) 0 (acq_ids a) (j_acquisition_index j),
    j_object_index := reindex (at_plan_id a) (at_attempt a) 0 (op_ids a) (j_object_index j),
    j_release_index := reindex (at_plan_id a) (at_attempt a) 0 (rel_ids a) (j_release_index j),
    j_identity_index := put_kind ''release'' (rel_ids a) (put_kind ''object'' (op_ids a)
      (put_kind ''acquisition'' (acq_ids a) (j_identity_index j))),
    j_receipt_index := put_receipts (acq_rows a @ op_rows a @ rel_rows a) (j_receipt_index j)\<rparr>)"
proof -
  have D: "distinct (acq_ids a @ op_ids a @ rel_ids a)"
      "\<forall>i \<in> set (acq_ids a @ op_ids a @ rel_ids a). j_identity_index j i = None"
    using unclaimed_rowsD[OF fresh[unfolded unclaimed_attempt_def]]
    unfolding fst_identity_rows set_map[symmetric] by blast+
  let ?p = "at_plan_id a" and ?n = "at_attempt a"
  let ?j1 = "j\<lparr>j_acquisition_index := reindex ?p ?n 0 (acq_ids a) (j_acquisition_index j),
    j_identity_index := put_kind ''acquisition'' (acq_ids a) (j_identity_index j),
    j_receipt_index := put_receipts (acq_rows a) (j_receipt_index j)\<rparr>"
  let ?j2 = "?j1\<lparr>j_object_index := reindex ?p ?n 0 (op_ids a) (j_object_index j),
    j_identity_index := put_kind ''object'' (op_ids a) (j_identity_index ?j1),
    j_receipt_index := put_receipts (op_rows a) (j_receipt_index ?j1)\<rparr>"
  have sets: "fst ` set (acq_rows a) = set (acq_ids a)" "fst ` set (op_rows a) = set (op_ids a)"
      "fst ` set (rel_rows a) = set (rel_ids a)"
    unfolding rows_ids[symmetric] by simp_all
  have dj: "i \<notin> set (acq_ids a)" if "i \<in> set (op_ids a) \<union> set (rel_ids a)" for i
    using D(1) that by auto
  have dj': "i \<notin> set (op_ids a)" if "i \<in> set (rel_ids a)" for i
    using D(1) that by auto
  have 1: "index_rows ''acquisition'' put_acquisition ?p ?n 0 (acq_rows a) j = (Inr (), ?j1)"
    unfolding rows_ids[symmetric] by (rule index_rows_acquisition) (use D(2) in \<open>simp add: sets\<close>)
  have "\<forall>i \<in> fst ` set (op_rows a). j_identity_index ?j1 i = None \<or> j_identity_index ?j1 i = Some ''object''"
    unfolding sets using D(2) dj by (simp add: put_kind_def)
  from index_rows_object[OF this, of ?p ?n 0]
  have 2: "index_rows ''object'' put_object ?p ?n 0 (op_rows a) ?j1 = (Inr (), ?j2)"
    by (simp add: rows_ids)
  have "\<forall>i \<in> fst ` set (rel_rows a). j_identity_index ?j2 i = None \<or> j_identity_index ?j2 i = Some ''release''"
    unfolding sets using D(2) dj dj' by (simp add: put_kind_def)
  from index_rows_release[OF this, of ?p ?n 0]
  show ?thesis
    unfolding index_attempt_def acq_rows_def[symmetric] op_rows_def[symmetric] rel_rows_def[symmetric] 1
    by (simp add: 2 rows_ids put_receipts_append)
qed

section \<open>Epochs\<close>

lemma successive_sorted_wrt:
  "successive (\<lambda>x y. (f x :: int) < f y) xs \<Longrightarrow> sorted_wrt (\<lambda>x y. f x < f y) xs"
proof (induction "\<lambda>x y. f x < f y" xs rule: successive.induct)
  case (1 x y zs)
  then show ?case by (auto intro: order.strict_trans)
qed simp_all

lemma epoch_history_epochs:
  assumes dict: "dict_ok (j_attempts j)" and ok: "epoch_history_ok j a"
    and w: "intents w = intents (attempt_at j) \<union> ac_intent ` set (at_acquisitions a)"
  shows "epochs_inv w"
  unfolding epochs_inv_def
proof (intro ballI impI)
  fix x y assume x: "x \<in> intents w" and y: "y \<in> intents w" and q: "ai_provider x = ai_provider y"
  define all where "all = [ac_intent c. (_, as) \<leftarrow> j_attempts j, b \<leftarrow> as, c \<leftarrow> at_acquisitions b] @
    map ac_intent (at_acquisitions a)"
  have mem: "i \<in> set all" if "i \<in> intents w" for i
  proof (cases "i \<in> intents (attempt_at j)")
    case True
    then have "i \<in> set (provider_intents j (ai_provider i))" using provider_intents_view[OF dict] by simp
    then show ?thesis by (auto simp: all_def provider_intents_def)
  next
    case False
    then show ?thesis using that w by (auto simp: all_def)
  qed
  define xs where "xs = sort_key history_key (filter (\<lambda>i. ai_provider i = ai_provider x) all)"
  have "successive (\<lambda>x y. ai_epoch x < ai_epoch y) xs"
    using ok mem[OF x] by (auto simp: epoch_history_ok_def Let_def list_all_iff xs_def all_def)
  then have up: "sorted_wrt (\<lambda>x y. ai_epoch x < ai_epoch y) xs" by (rule successive_sorted_wrt)
  have key: "sorted (map history_key xs)" by (simp add: xs_def)
  have "x \<in> set xs" "y \<in> set xs" using mem x y q by (simp_all add: xs_def)
  then obtain k l where kl: "k < length xs" "xs ! k = x" "l < length xs" "xs ! l = y"
    by (metis in_set_conv_nth)
  have less: "ai_epoch (xs ! m) < ai_epoch (xs ! m') \<and> ai_requested_at (xs ! m) \<le> ai_requested_at (xs ! m')"
    if "m < m'" "m' < length xs" for m m'
    using sorted_wrt_nth_less[OF up that] sorted_nth_mono[OF key, of m m'] that
    by (auto simp: history_key_def less_eq_prod_def)
  consider "k < l" | "k = l" | "l < k" by linarith
  then show "(ai_epoch x = ai_epoch y \<longrightarrow> x = y) \<and> (ai_epoch x < ai_epoch y \<longrightarrow> ai_requested_at x \<le> ai_requested_at y)"
    using less kl by cases (force+)
qed

section \<open>Appending\<close>

lemma intents_append:
  assumes "v p n = None"
  shows "intents (view_put p n a v) = intents v \<union> ac_intent ` set (at_acquisitions a)"
proof (intro set_eqI iffI)
  fix i assume "i \<in> intents (view_put p n a v)"
  then obtain q m c where c: "view_put p n a v q m = Some c" "i \<in> ac_intent ` set (at_acquisitions c)"
    unfolding intents_def by blast
  from c(1) show "i \<in> intents v \<union> ac_intent ` set (at_acquisitions a)"
  proof (cases rule: view_put_cases)
    case there
    then show ?thesis using c(2) unfolding intents_def by blast
  qed (use c in blast)
next
  fix i assume "i \<in> intents v \<union> ac_intent ` set (at_acquisitions a)"
  then consider "i \<in> ac_intent ` set (at_acquisitions a)"
    | q m c where "v q m = Some c" "i \<in> ac_intent ` set (at_acquisitions c)"
    unfolding intents_def by blast
  then show "i \<in> intents (view_put p n a v)"
  proof cases
    case 1
    then show ?thesis unfolding intents_def using view_put_simps(1) by blast
  next
    case 2
    then have "view_put p n a v q m = Some c" using assms by (auto simp: view_put_def)
    then show ?thesis unfolding intents_def using 2(2) by blast
  qed
qed


lemma attempt_at_setdefault:
  assumes "dict_ok (j_attempts j)"
  shows "attempt_at (j\<lparr>j_attempts := dict_put (j_attempts j) p
      (case map_of (j_attempts j) p of None \<Rightarrow> [] | Some as \<Rightarrow> as)\<rparr>) = attempt_at j"
  by (auto simp: attempt_at_def fun_eq_iff split: option.splits)

lemma retry_scope_Inr:
  "retry_scope previous a as = Inr u \<Longrightarrow> retry_of previous a"
  by (auto simp: retry_scope_def retry_of_def split: if_splits sum.splits)

lemma append_attempt_cases:
  fixes H a j
  defines "as \<equiv> case map_of (j_attempts j) (at_plan_id a) of None \<Rightarrow> [] | Some as \<Rightarrow> as"
  defines "j0 \<equiv> j\<lparr>j_attempts := dict_put (j_attempts j) (at_plan_id a) as\<rparr>"
  obtains (same) "snd (append_attempt H a j) = j" | (default) "snd (append_attempt H a j) = j0"
  | (new) "attempt_ok H a" "at_attempt a = int (length as) + 1"
      "as \<noteq> [] \<Longrightarrow> retry_of (last as) a" "unclaimed_attempt j0 a" "epoch_history_ok j0 a"
      "snd (append_attempt H a j) = snd (index_attempt a
         (j0\<lparr>j_attempts := dict_put (j_attempts j0) (at_plan_id a) (as @ [a])\<rparr>))"
proof (cases "attempt_ok H a")
  case False
  then show ?thesis using same by (simp add: append_attempt_def)
next
  case ok: True
  note u = append_attempt_def Let_def as_def[symmetric] j0_def[symmetric]
  show ?thesis
  proof (cases "at_attempt a = int (length as) + 1")
    case False
    have "snd (append_attempt H a j) = j0"
      using ok False by (auto simp: u split: option.splits)
    then show ?thesis by (rule default)
  next
    case n: True
    let ?scope = "case last_option as of None \<Rightarrow> if at_attempt a \<noteq> 1 then Inl JournalConflict else Inr ()
      | Some previous \<Rightarrow> retry_scope previous a as"
    show ?thesis
    proof (cases ?scope)
      case (Inl e)
      have "snd (append_attempt H a j) = j0" using ok n by (simp add: u Inl)
      then show ?thesis by (rule default)
    next
      case (Inr w)
      show ?thesis
      proof (cases "unclaimed_attempt j0 a \<and> epoch_history_ok j0 a")
        case False
        then have "snd (append_attempt H a j) = j0" using ok n by (auto simp: u Inr)
        then show ?thesis by (rule default)
      next
        case True
        have retry: "as \<noteq> [] \<Longrightarrow> retry_of (last as) a"
          using Inr retry_scope_Inr by (auto simp: last_option_def)
        from True show ?thesis
          by (intro new[OF ok n retry]) (simp_all add: u Inr ok n[unfolded as_def])
      qed
    qed
  qed
qed

lemma append_attempt_edit:
  assumes inv: "journal_inv H j"
  shows "journal_edit H j (snd (append_attempt H a j))"
proof -
  define as where "as = (case map_of (j_attempts j) (at_plan_id a) of None \<Rightarrow> [] | Some as \<Rightarrow> as)"
  define j0 where "j0 = j\<lparr>j_attempts := dict_put (j_attempts j) (at_plan_id a) as\<rparr>"
  note D = journal_invD[OF inv]
  have view0: "attempt_at j0 = attempt_at j" unfolding j0_def as_def by (rule attempt_at_setdefault[OF D(1)])
  have dict0: "dict_ok (j_attempts j0)" using D(1) by (simp add: j0_def)
  show ?thesis
  proof (cases rule: append_attempt_cases[of H a j, folded as_def, folded j0_def])
    case 1
    then show ?thesis using edit_keep[OF inv] by simp
  next
    case 2
    have "journal_edit H j j0" by (rule journal_edit.Keep[OF view0 dict0]) (simp_all add: j0_def)
    with 2 show ?thesis by simp
  next
    case new: 3
    let ?p = "at_plan_id a" and ?n = "at_attempt a"
    let ?j1 = "j0\<lparr>j_attempts := dict_put (j_attempts j0) ?p (as @ [a])\<rparr>"
    let ?j = "snd (append_attempt H a j)"
    have "unclaimed_attempt ?j1 a = unclaimed_attempt j0 a"
      by (rule unclaimed_attempt_cong) simp_all
    with new(4) have "unclaimed_attempt ?j1 a" by simp
    note ia = index_attempt_fresh[OF this]
    have fields: "j_acquisition_index ?j = reindex ?p ?n 0 (acq_ids a) (j_acquisition_index j)"
        "j_object_index ?j = reindex ?p ?n 0 (op_ids a) (j_object_index j)"
        "j_release_index ?j = reindex ?p ?n 0 (rel_ids a) (j_release_index j)"
        "j_identity_index ?j = put_kind ''release'' (rel_ids a) (put_kind ''object'' (op_ids a)
          (put_kind ''acquisition'' (acq_ids a) (j_identity_index j)))"
        "j_receipt_index ?j = put_receipts (acq_rows a @ op_rows a @ rel_rows a) (j_receipt_index j)"
        "j_attempts ?j = dict_put (j_attempts j0) ?p (as @ [a])"
      unfolding new(6) ia by (simp_all add: j0_def)
    have here: "attempt_at j ?p m = (if 1 \<le> m \<and> m \<le> int (length as) then Some (as ! nat (m - 1)) else None)" for m
      by (auto simp: attempt_at_def as_def split: option.splits)
    have view: "attempt_at ?j = view_put ?p ?n a (attempt_at j)"
    proof (intro ext)
      fix q m
      show "attempt_at ?j q m = view_put ?p ?n a (attempt_at j) q m"
      proof (cases "q = ?p")
        case True
        have "attempt_at ?j ?p m = (if 1 \<le> m \<and> m \<le> int (length (as @ [a])) then Some ((as @ [a]) ! nat (m - 1)) else None)"
          by (rule attempt_at_eq) (simp add: fields(6))
        then show ?thesis unfolding True view_put_def here using new(2) by (auto simp: nth_append)
      next
        case False
        then show ?thesis by (auto simp: attempt_at_def fields(6) view_put_def j0_def)
      qed
    qed
    have fresh: "\<forall>i \<in> set (acq_ids a @ op_ids a @ rel_ids a). j_identity_index j i = None"
        "distinct (acq_ids a @ op_ids a @ rel_ids a)"
        "distinct (row_receipts (acq_rows a @ op_rows a @ rel_rows a))"
        "\<forall>x \<in> set (row_receipts (acq_rows a @ op_rows a @ rel_rows a)). j_receipt_index j x = None"
      using unclaimed_rowsD[OF new(4)[unfolded unclaimed_attempt_def]]
      unfolding fst_identity_rows set_map[symmetric] plain_identity_rows by (simp_all add: j0_def)
    have none: "attempt_at j ?p ?n = None" "attempt_at j ?p (?n + 1) = None" using new(2) by (simp_all add: here)
    have "intents (attempt_at ?j) = intents (attempt_at j) \<union> ac_intent ` set (at_acquisitions a)"
      unfolding view by (rule intents_append[of "attempt_at j", OF none(1)])
    then have "epochs_inv (attempt_at ?j)"
      by (intro epoch_history_epochs[OF dict0 new(5)]) (simp add: view0)
    moreover have "j_identity_index ?j = (\<lambda>i. if i \<in> set (acq_ids a) then Some ''acquisition''
        else if i \<in> set (op_ids a) then Some ''object''
        else if i \<in> set (rel_ids a) then Some ''release'' else j_identity_index j i)"
      unfolding fields(4) put_kind_def fun_eq_iff using fresh(2) by auto
    moreover have "\<forall>x i. (x, i) \<in> receipt_rows a \<longrightarrow> j_receipt_index ?j x = Some i"
      unfolding receipt_rows_plain fields(5) using put_receipts_mem[OF fresh(3)] by blast
    moreover have "\<forall>x i. j_receipt_index j x = Some i \<longrightarrow> j_receipt_index ?j x = Some i"
      unfolding fields(5) using put_receipts_other fresh(4) by (metis option.distinct(1))
    moreover have "dict_ok (j_attempts ?j)" using dict0 fields(6) by simp
    ultimately have "puts H j ?p ?n a ?j"
      unfolding puts_def using new(1) view fields(1-3) by blast
    moreover have "new_ids_fresh j None a" using fresh(1) by (simp add: new_ids_fresh_def)
    moreover have "retry_of c a" if "attempt_at j ?p (?n - 1) = Some c" for c
    proof -
      have ne: "as \<noteq> []" using that new(2) by (auto simp: here split: if_splits)
      then have "c = last as" using that new(2) by (auto simp: here last_conv_nth nat_diff_distrib split: if_splits)
      with new(3)[OF ne] show ?thesis by simp
    qed
    ultimately show ?thesis by (intro journal_edit.Append[OF none])
  qed
qed

end
