(* ===== verification/Journal_Safety.thy ===== *)
theory Journal_Safety
  imports Journal_Append
begin

text \<open>
  Runs of the journal, its evidence as write-once ledgers, and what a reader of the journal may rely
  on: valid attempts in a chain of retries, terminal attempts that stay as they are, evidence that
  never changes, and fence epochs that order the requests of all plans.
\<close>

section \<open>Runs\<close>

datatype journal_op =
    AppendAttempt attempt
  | RecordAcquisitionIntent acq_intent
  | ArmAcquisition string
  | RecordAcquisitionReceipt acq_evidence
  | BlockAcquisition string block_reason
  | RecordReleaseIntent rel_intent
  | ArmRelease string
  | RecordReleaseReceipt rel_evidence
  | RecordIntent obj_intent
  | ArmOperation string authorization
  | RecordReceipt obj_receipt
  | RecordVerification verification
  | BlockOperation string block_reason
  | SetAttemptState string int attempt_state "block_reason option" "time option"

fun journal_step :: "(string \<Rightarrow> string) \<Rightarrow> journal \<Rightarrow> journal_op \<Rightarrow> journal" where
  "journal_step H j (AppendAttempt a) = snd (append_attempt H a j)"
| "journal_step H j (RecordAcquisitionIntent i) = snd (record_acquisition_intent H i j)"
| "journal_step H j (ArmAcquisition i) = snd (arm_acquisition H i j)"
| "journal_step H j (RecordAcquisitionReceipt r) = snd (record_acquisition_receipt H r j)"
| "journal_step H j (BlockAcquisition i x) = snd (block_acquisition H i x j)"
| "journal_step H j (RecordReleaseIntent i) = snd (record_release_intent H i j)"
| "journal_step H j (ArmRelease i) = snd (arm_release H i j)"
| "journal_step H j (RecordReleaseReceipt r) = snd (record_release_receipt H r j)"
| "journal_step H j (RecordIntent i) = snd (record_intent H i j)"
| "journal_step H j (ArmOperation i z) = snd (arm_operation H i z j)"
| "journal_step H j (RecordReceipt r) = snd (record_receipt H r j)"
| "journal_step H j (RecordVerification v) = snd (record_verification H v j)"
| "journal_step H j (BlockOperation i x) = snd (block_operation H i x j)"
| "journal_step H j (SetAttemptState p n st x t) = snd (set_attempt_state H p n st x t j)"

abbreviation journal_run :: "(string \<Rightarrow> string) \<Rightarrow> journal_op list \<Rightarrow> journal" where
  "journal_run H ops \<equiv> foldl (journal_step H) journal_empty ops"

lemmas journal_edits = append_attempt_edit record_acquisition_intent_edit arm_acquisition_edit
  record_acquisition_receipt_edit block_acquisition_edit record_release_intent_edit arm_release_edit
  record_release_receipt_edit record_intent_edit arm_operation_edit record_receipt_edit
  record_verification_edit block_operation_edit set_attempt_state_edit

theorem journal_step_edit: "journal_inv H j \<Longrightarrow> journal_edit H j (journal_step H j x)"
  by (cases x) (simp_all add: journal_edits)

lemma journal_step_inv: "journal_inv H j \<Longrightarrow> journal_inv H (journal_step H j x)"
  by (rule edit_keeps_inv[OF _ journal_step_edit])

lemma journal_foldl_inv: "journal_inv H j \<Longrightarrow> journal_inv H (foldl (journal_step H) j ops)"
  by (induction ops arbitrary: j) (simp_all add: journal_step_inv)

lemma journal_run_inv: "journal_inv H (journal_run H ops)"
  by (rule journal_foldl_inv[OF journal_empty_inv])

section \<open>Evidence is write-once\<close>

definition acquisition_evidence :: "journal \<Rightarrow> string \<Rightarrow> acq_evidence option" where
  "acquisition_evidence j i = (case get_acquisition j i of Inl _ \<Rightarrow> None | Inr c \<Rightarrow> ac_receipt c)"

definition release_evidence :: "journal \<Rightarrow> string \<Rightarrow> rel_evidence option" where
  "release_evidence j i = (case get_release j i of Inl _ \<Rightarrow> None | Inr c \<Rightarrow> rl_receipt c)"

definition dispatch_evidence :: "journal \<Rightarrow> string \<Rightarrow> authorization option" where
  "dispatch_evidence j i = (case get_operation j i of Inl _ \<Rightarrow> None | Inr p \<Rightarrow> op_authorization p)"

definition operation_evidence :: "journal \<Rightarrow> string \<Rightarrow> obj_receipt option" where
  "operation_evidence j i = (case get_operation j i of Inl _ \<Rightarrow> None | Inr p \<Rightarrow> op_receipt p)"

lemma located_found:
  assumes "attempt_at j p n = Some b" "k < length (items b)"
  shows "located items j (Inr (p, n, k)) = Inr (items b ! k)"
  using assms raw_attempt_view[OF attempt_at_positive[OF assms(1)], of j p b]
  by (simp add: located_def)

lemma get_operation_found:
  assumes inv: "journal_inv H j" and "attempt_at j p n = Some b" "q \<in> set (at_operations b)"
  shows "get_operation j (op_id q) = Inr q"
proof -
  obtain k where k: "k < length (at_operations b)" "at_operations b ! k = q"
    using assms(3) by (metis in_set_conv_nth)
  have "j_object_index j (op_id q) = Some (p, n, k)"
    using index_okD(2)[OF indexes_invD(2)[OF inv] assms(2), of k] k by simp
  moreover have "op_record_ok H q"
    using operation_in[OF attempts_invD(1)[OF journal_invD(2)[OF inv] assms(2)] assms(3)] .
  then have "object_id_ok (op_id q)"
    using obj_intent_facts(1) by (auto simp: op_record_ok_def op_id_def)
  ultimately show ?thesis
    using located_found[where items = at_operations, OF assms(2) k(1)] k(2) by (simp add: get_operation_def object_location_def)
qed

lemma get_acquisition_found:
  assumes inv: "journal_inv H j" and "attempt_at j p n = Some b" "c \<in> set (at_acquisitions b)"
  shows "get_acquisition j (acq_id c) = Inr c"
proof -
  obtain k where k: "k < length (at_acquisitions b)" "at_acquisitions b ! k = c"
    using assms(3) by (metis in_set_conv_nth)
  have "j_acquisition_index j (acq_id c) = Some (p, n, k)"
    using index_okD(2)[OF indexes_invD(1)[OF inv] assms(2), of k] k by simp
  moreover have "acq_record_ok H c"
    using acquisition_in[OF attempts_invD(1)[OF journal_invD(2)[OF inv] assms(2)] assms(3)] .
  then have "acquire_id_ok (acq_id c)"
    by (auto simp: acq_record_ok_def acq_intent_ok_def acq_id_def)
  ultimately show ?thesis
    using located_found[where items = at_acquisitions, OF assms(2) k(1)] k(2) by (simp add: get_acquisition_def acquisition_location_def)
qed

lemma get_release_found:
  assumes inv: "journal_inv H j" and "attempt_at j p n = Some b" "c \<in> set (at_releases b)"
  shows "get_release j (rel_id c) = Inr c"
proof -
  obtain k where k: "k < length (at_releases b)" "at_releases b ! k = c"
    using assms(3) by (metis in_set_conv_nth)
  have "j_release_index j (rel_id c) = Some (p, n, k)"
    using index_okD(2)[OF indexes_invD(3)[OF inv] assms(2), of k] k by simp
  moreover have "rel_record_ok H c"
    using release_in[OF attempts_invD(1)[OF journal_invD(2)[OF inv] assms(2)] assms(3)] .
  then have "release_id_ok (rel_id c)"
    by (auto simp: rel_record_ok_def rel_intent_ok_def rel_id_def)
  ultimately show ?thesis
    using located_found[where items = at_releases, OF assms(2) k(1)] k(2) by (simp add: get_release_def release_location_def)
qed

lemma edit_get_operation:
  assumes inv: "journal_inv H j" and edit: "journal_edit H j j'" and p: "get_operation j i = Inr p"
  obtains q where "get_operation j' i = Inr q" "op_extends p q"
proof -
  from get_operation_Inr[OF inv p] obtain pl n k b where
    b: "attempt_at j pl n = Some b" "k < length (at_operations b)" "at_operations b ! k = p" "op_id p = i" .
  obtain a where a: "attempt_at j' pl n = Some a" "attempt_extends b a" using edit_extends[OF edit b(1)] .
  then obtain q where q: "q \<in> set (at_operations a)" "op_extends p q"
    using b(2,3) nth_mem unfolding attempt_extends_def by blast
  then have "op_id q = i" using b(4) by (simp add: op_extends_def op_id_def)
  with get_operation_found[OF edit_keeps_inv[OF inv edit] a(1) q(1)] q(2) that show ?thesis by simp
qed

lemma edit_get_acquisition:
  assumes inv: "journal_inv H j" and edit: "journal_edit H j j'" and p: "get_acquisition j i = Inr c"
  obtains d where "get_acquisition j' i = Inr d" "acq_extends c d"
proof -
  from get_acquisition_Inr[OF inv p] obtain pl n k b where
    b: "attempt_at j pl n = Some b" "k < length (at_acquisitions b)" "at_acquisitions b ! k = c" "acq_id c = i" .
  obtain a where a: "attempt_at j' pl n = Some a" "attempt_extends b a" using edit_extends[OF edit b(1)] .
  then obtain d where d: "d \<in> set (at_acquisitions a)" "acq_extends c d"
    using b(2,3) nth_mem unfolding attempt_extends_def by blast
  then have "acq_id d = i" using b(4) by (simp add: acq_extends_def acq_id_def)
  with get_acquisition_found[OF edit_keeps_inv[OF inv edit] a(1) d(1)] d(2) that show ?thesis by simp
qed

lemma edit_get_release:
  assumes inv: "journal_inv H j" and edit: "journal_edit H j j'" and p: "get_release j i = Inr c"
  obtains d where "get_release j' i = Inr d" "rel_extends c d"
proof -
  from get_release_Inr[OF inv p] obtain pl n k b where
    b: "attempt_at j pl n = Some b" "k < length (at_releases b)" "at_releases b ! k = c" "rel_id c = i" .
  obtain a where a: "attempt_at j' pl n = Some a" "attempt_extends b a" using edit_extends[OF edit b(1)] .
  then obtain d where d: "d \<in> set (at_releases a)" "rel_extends c d"
    using b(2,3) nth_mem unfolding attempt_extends_def by blast
  then have "rel_id d = i" using b(4) by (simp add: rel_extends_def rel_id_def)
  with get_release_found[OF edit_keeps_inv[OF inv edit] a(1) d(1)] d(2) that show ?thesis by simp
qed

interpretation acquisition_receipts: write_once acquisition_evidence "journal_step H" "journal_inv H" for H
proof
  fix s k v x assume s: "journal_inv H s" and e: "acquisition_evidence s k = Some v"
  then obtain c where c: "get_acquisition s k = Inr c" "ac_receipt c = Some v"
    by (auto simp: acquisition_evidence_def split: sum.splits)
  show "acquisition_evidence (journal_step H s x) k = Some v"
    by (rule edit_get_acquisition[OF s journal_step_edit[OF s, of x] c(1)])
      (use c(2) in \<open>auto simp: acquisition_evidence_def acq_extends_def\<close>)
qed (rule journal_step_inv)

interpretation release_receipts: write_once release_evidence "journal_step H" "journal_inv H" for H
proof
  fix s k v x assume s: "journal_inv H s" and e: "release_evidence s k = Some v"
  then obtain c where c: "get_release s k = Inr c" "rl_receipt c = Some v"
    by (auto simp: release_evidence_def split: sum.splits)
  show "release_evidence (journal_step H s x) k = Some v"
    by (rule edit_get_release[OF s journal_step_edit[OF s, of x] c(1)])
      (use c(2) in \<open>auto simp: release_evidence_def rel_extends_def\<close>)
qed (rule journal_step_inv)

interpretation dispatch_authorizations: write_once dispatch_evidence "journal_step H" "journal_inv H" for H
proof
  fix s k v x assume s: "journal_inv H s" and e: "dispatch_evidence s k = Some v"
  then obtain p where p: "get_operation s k = Inr p" "op_authorization p = Some v"
    by (auto simp: dispatch_evidence_def split: sum.splits)
  show "dispatch_evidence (journal_step H s x) k = Some v"
    by (rule edit_get_operation[OF s journal_step_edit[OF s, of x] p(1)])
      (use p(2) in \<open>auto simp: dispatch_evidence_def op_extends_def\<close>)
qed (rule journal_step_inv)

interpretation operation_receipts: write_once operation_evidence "journal_step H" "journal_inv H" for H
proof
  fix s k v x assume s: "journal_inv H s" and e: "operation_evidence s k = Some v"
  then obtain p where p: "get_operation s k = Inr p" "op_receipt p = Some v"
    by (auto simp: operation_evidence_def split: sum.splits)
  show "operation_evidence (journal_step H s x) k = Some v"
    by (rule edit_get_operation[OF s journal_step_edit[OF s, of x] p(1)])
      (use p(2) in \<open>auto simp: operation_evidence_def op_extends_def\<close>)
qed (rule journal_step_inv)

section \<open>A sample run\<close>

lemma append_to_empty:
  assumes ok: "attempt_ok H a" "at_attempt a = 1"
    and u: "unclaimed_attempt journal_empty a" and e: "epoch_history_ok journal_empty a"
  shows "attempt_at (journal_run H [AppendAttempt a]) (at_plan_id a) 1 = Some a"
proof -
  let ?j0 = "journal_empty\<lparr>j_attempts := [(at_plan_id a, [])]\<rparr>"
  let ?j1 = "journal_empty\<lparr>j_attempts := [(at_plan_id a, [a])]\<rparr>"
  have u': "unclaimed_attempt ?j0 a" "unclaimed_attempt ?j1 a"
    using unclaimed_attempt_cong[of ?j0 journal_empty a] unclaimed_attempt_cong[of ?j1 journal_empty a] u by simp_all
  have e': "epoch_history_ok ?j0 a" using e by (simp add: epoch_history_ok_def journal_empty_def)
  have "append_attempt H a journal_empty = then_return (index_attempt a ?j1) a"
    using u'(1) e' ok by (simp add: append_attempt_def journal_empty_def Let_def)
  then show ?thesis
    by (simp add: index_attempt_fresh[OF u'(2)]) (simp add: attempt_at_def)
qed

lemma sample_appended:
  "attempt_at (journal_run sample_hash [AppendAttempt sample_committed]) sample_plan 1 = Some sample_committed"
  "attempt_at (journal_run sample_hash [AppendAttempt sample_restored]) sample_plan 1 = Some sample_restored"
proof -
  note ids = sample_ids sample_ids[symmetric] sample_operation_ids sample_operation_ids[symmetric]
  have "unclaimed_attempt journal_empty sample_committed" "unclaimed_attempt journal_empty sample_restored"
    using sample_ids_distinct sample_ids_distinct_rev
    by (simp_all add: unclaimed_attempt_def identity_rows_def sample_attempt_fields sample_acq_fields
        sample_op_fields sample_rel_fields journal_empty_def ids)
  moreover have "epoch_history_ok journal_empty sample_committed" "epoch_history_ok journal_empty sample_restored"
    by (simp_all add: epoch_history_ok_def sample_attempt_fields sample_acq_fields journal_empty_def history_key_def)
  ultimately show
    "attempt_at (journal_run sample_hash [AppendAttempt sample_committed]) sample_plan 1 = Some sample_committed"
    "attempt_at (journal_run sample_hash [AppendAttempt sample_restored]) sample_plan 1 = Some sample_restored"
    using append_to_empty[OF sample_attempts_ok(1)] append_to_empty[OF sample_attempts_ok(2)]
    by (simp_all add: sample_attempt_fields)
qed

section \<open>Properties\<close>

text \<open>C10. Every attempt a reachable journal returns is a valid attempt under its own plan and number,
  and every attempt after the first retries a restored one: same plan and manifest digests, same
  observation age, and exactly the expected writes computed from the state the previous attempt left.\<close>
theorem journal_attempts_form_retry_chain:
  assumes "get_attempt (journal_run H ops) p n = Inr a"
  shows "attempt_ok H a \<and> at_plan_id a = p \<and> at_attempt a = n \<and>
    (1 < n \<longrightarrow> (\<exists>b. get_attempt (journal_run H ops) p (n - 1) = Inr b \<and> at_state b = A_RESTORED \<and>
       at_plan_digest a = at_plan_digest b \<and> at_manifest_digest a = at_manifest_digest b \<and>
       retry_expected_writes b = Inr (at_expected_writes a) \<and>
       at_max_observation_age_seconds a = at_max_observation_age_seconds b))"
proof -
  let ?j = "journal_run H ops"
  note D = journal_invD[OF journal_run_inv[of H ops]]
  have a: "attempt_at ?j p n = Some a" using assms by (simp add: get_attempt_view)
  have "\<exists>b. get_attempt ?j p (n - 1) = Inr b \<and> retry_of b a" if n: "1 < n"
  proof -
    obtain b where b: "attempt_at ?j p (n - 1) = Some b"
      using attempt_at_earlier[OF a, of "n - 1"] n by auto
    with a D(3) have "retry_of b a" unfolding chain_inv_def by (metis diff_add_cancel)
    with get_attempt_found[OF journal_run_inv b] show ?thesis by blast
  qed
  with attempts_invD[OF D(2) a] show ?thesis unfolding retry_of_def by blast
qed

theorem journal_attempts_form_retry_chain_witness:
  "attempt_ok sample_hash sample_committed \<and> at_plan_id sample_committed = sample_plan"
proof -
  have "get_attempt (journal_run sample_hash [AppendAttempt sample_committed]) sample_plan 1 = Inr sample_committed"
    by (rule get_attempt_found[OF journal_run_inv sample_appended(1)])
  from journal_attempts_form_retry_chain[OF this] show ?thesis by blast
qed

text \<open>C11. A committed or restored attempt is immutable: no sequence of journal operations changes
  anything about it any later.\<close>
theorem journal_terminal_attempt_immutable:
  assumes "get_attempt (journal_run H ops) p n = Inr a"
    and "at_state a = A_COMMITTED \<or> at_state a = A_RESTORED"
  shows "get_attempt (foldl (journal_step H) (journal_run H ops) later) p n = Inr a"
proof -
  have "attempt_at (foldl (journal_step H) j later) p n = Some a"
    if "journal_inv H j" "attempt_at j p n = Some a" for j
    using that
  proof (induction later arbitrary: j)
    case (Cons x later)
    have "attempt_at (journal_step H j x) p n = Some a"
      using edit_terminal[OF journal_step_edit[OF Cons.prems(1)] Cons.prems(2)] assms(2) by (simp add: terminal_def)
    then show ?case using Cons.IH[OF journal_step_inv[OF Cons.prems(1)]] by simp
  qed simp
  moreover have "attempt_at (journal_run H ops) p n = Some a" using assms(1) by (simp add: get_attempt_view)
  ultimately show ?thesis
    using get_attempt_found[OF journal_foldl_inv[OF journal_run_inv]] journal_run_inv by blast
qed

theorem journal_terminal_attempt_immutable_witness:
  "get_attempt (foldl (journal_step sample_hash) (journal_run sample_hash [AppendAttempt sample_committed])
     [SetAttemptState sample_plan 1 A_BLOCKED (Some EXPLICIT_ABORT) None,
      BlockOperation (op_id sample_write) EXPLICIT_ABORT]) sample_plan 1 = Inr sample_committed"
  by (rule journal_terminal_attempt_immutable[OF get_attempt_found[OF journal_run_inv sample_appended(1)]
        disjI1[OF sample_attempt_states(1)]])

text \<open>C12. The journal only appends: an operation once recorded keeps its intent forever, and keeps the
  dispatch authorization, the receipt and the verifications it has gathered.\<close>
theorem journal_operation_append_only:
  assumes "get_operation (journal_run H ops) i = Inr p"
  shows "\<exists>q. get_operation (foldl (journal_step H) (journal_run H ops) later) i = Inr q \<and>
    op_intent q = op_intent p \<and>
    (op_authorization p \<noteq> None \<longrightarrow> op_authorization q = op_authorization p) \<and>
    (op_receipt p \<noteq> None \<longrightarrow> op_receipt q = op_receipt p) \<and>
    (\<exists>vs. op_verifications q = op_verifications p @ vs)"
proof -
  have "\<exists>q. get_operation (foldl (journal_step H) j later) i = Inr q \<and> op_extends p q"
    if "journal_inv H j" "get_operation j i = Inr p" for j p
    using that
  proof (induction later arbitrary: j p)
    case (Cons x later)
    obtain q where q: "get_operation (journal_step H j x) i = Inr q" "op_extends p q"
      using edit_get_operation[OF Cons.prems(1) journal_step_edit[OF Cons.prems(1), of x] Cons.prems(2)] .
    obtain r where "get_operation (foldl (journal_step H) j (x # later)) i = Inr r" "op_extends q r"
      using Cons.IH[OF journal_step_inv[OF Cons.prems(1)] q(1)] by auto
    moreover from this q(2) have "op_extends p r" by (auto simp: op_extends_def)
    ultimately show ?case by blast
  qed simp
  from this[OF journal_run_inv assms] show ?thesis unfolding op_extends_def by blast
qed

theorem journal_operation_append_only_witness:
  "\<exists>q. get_operation (foldl (journal_step sample_hash) (journal_run sample_hash [AppendAttempt sample_committed])
      [BlockOperation (op_id sample_write) EXPLICIT_ABORT]) (op_id sample_write) = Inr q \<and>
    op_receipt q = op_receipt sample_write \<and> op_receipt q \<noteq> None"
proof -
  have "get_operation (journal_run sample_hash [AppendAttempt sample_committed]) (op_id sample_write) = Inr sample_write"
    by (rule get_operation_found[OF journal_run_inv sample_appended(1)]) (simp add: sample_attempt_fields)
  from journal_operation_append_only[OF this, of "[BlockOperation (op_id sample_write) EXPLICIT_ABORT]"]
  show ?thesis by (auto simp: sample_op_fields)
qed

text \<open>A durable acquisition receipt is never replaced: whoever reads it once reads the same receipt
  after any further journal operations.\<close>
theorem journal_acquisition_receipt_durable:
  assumes "acquisition_evidence (journal_run H ops) i = Some r"
  shows "acquisition_evidence (foldl (journal_step H) (journal_run H ops) later) i = Some r"
  by (rule acquisition_receipts.run_keep[OF journal_run_inv assms])

theorem journal_acquisition_receipt_durable_witness:
  "acquisition_evidence (foldl (journal_step sample_hash) (journal_run sample_hash [AppendAttempt sample_committed])
      [BlockAcquisition (acq_id (sample_acq 1 100)) STALE_FENCE]) (acq_id (sample_acq 1 100)) =
    Some (AcqApplied (sample_acq_receipt 1 100))"
proof -
  have "get_acquisition (journal_run sample_hash [AppendAttempt sample_committed]) (acq_id (sample_acq 1 100)) =
      Inr (sample_acq 1 100)"
    by (rule get_acquisition_found[OF journal_run_inv sample_appended(1)]) (simp add: sample_attempt_fields)
  then have "acquisition_evidence (journal_run sample_hash [AppendAttempt sample_committed])
      (acq_id (sample_acq 1 100)) = Some (AcqApplied (sample_acq_receipt 1 100))"
    by (simp add: acquisition_evidence_def sample_acq_fields)
  from journal_acquisition_receipt_durable[OF this] show ?thesis .
qed

text \<open>C13. Over all plans and attempts of a reachable journal, the acquisitions of one provider carry
  different epochs, and a higher epoch is never requested before a lower one.\<close>
theorem journal_epochs_order_requests:
  assumes "get_attempt (journal_run H ops) p n = Inr a" "c \<in> set (at_acquisitions a)"
    and "get_attempt (journal_run H ops) p' n' = Inr a'" "c' \<in> set (at_acquisitions a')"
    and "ai_provider (ac_intent c) = ai_provider (ac_intent c')"
  shows "(ai_epoch (ac_intent c) = ai_epoch (ac_intent c') \<longrightarrow> (p, n, c) = (p', n', c')) \<and>
    (ai_epoch (ac_intent c) < ai_epoch (ac_intent c') \<longrightarrow>
       ai_requested_at (ac_intent c) \<le> ai_requested_at (ac_intent c'))"
proof -
  let ?j = "journal_run H ops"
  note D = journal_invD[OF journal_run_inv[of H ops]]
  have v: "attempt_at ?j p n = Some a" "attempt_at ?j p' n' = Some a'"
    using assms(1,3) by (simp_all add: get_attempt_view)
  then have "ac_intent c \<in> intents (attempt_at ?j)" "ac_intent c' \<in> intents (attempt_at ?j)"
    using assms(2,4) unfolding intents_def by blast+
  with D(4) assms(5) have e: "ai_epoch (ac_intent c) = ai_epoch (ac_intent c') \<longrightarrow> ac_intent c = ac_intent c'"
      "ai_epoch (ac_intent c) < ai_epoch (ac_intent c') \<longrightarrow> ai_requested_at (ac_intent c) \<le> ai_requested_at (ac_intent c')"
    unfolding epochs_inv_def by blast+
  have "(p, n, c) = (p', n', c')" if eq: "ac_intent c = ac_intent c'"
  proof -
    have id: "acq_id c = acq_id c'" using eq by (simp add: acq_id_def)
    have "Inr c = (Inr c' :: txn_error + acq_record)"
      by (rule trans[OF sym[OF get_acquisition_found[OF journal_run_inv v(1) assms(2)]]
            get_acquisition_found[OF journal_run_inv v(2) assms(4), folded id]])
    then have c: "c = c'" by simp
    have "index_ok acq_ids (attempt_at ?j) (j_acquisition_index ?j)" using D(5) by (simp add: indexes_inv_def)
    moreover have "acq_id c \<in> set (acq_ids a)" "acq_id c \<in> set (acq_ids a')"
      using assms(2,4) c by (simp_all add: acq_ids_def)
    ultimately obtain k k' where "j_acquisition_index ?j (acq_id c) = Some (p, n, k)"
        "j_acquisition_index ?j (acq_id c) = Some (p', n', k')"
      using v by (metis index_ok_mem)
    with c show ?thesis by simp
  qed
  with e show ?thesis by blast
qed

theorem journal_epochs_order_requests_witness:
  "ai_epoch (ac_intent (sample_acq 1 100)) < ai_epoch (ac_intent (sample_acq 10 115)) \<and>
   ai_requested_at (ac_intent (sample_acq 1 100)) \<le> ai_requested_at (ac_intent (sample_acq 10 115))"
proof -
  have g: "get_attempt (journal_run sample_hash [AppendAttempt sample_restored]) sample_plan 1 = Inr sample_restored"
    by (rule get_attempt_found[OF journal_run_inv sample_appended(2)])
  have m: "sample_acq 1 100 \<in> set (at_acquisitions sample_restored)"
      "sample_acq 10 115 \<in> set (at_acquisitions sample_restored)" by (simp_all add: sample_attempt_fields)
  from journal_epochs_order_requests[OF g m(1) g m(2)] show ?thesis by (simp add: sample_acq_fields)
qed

end
