(* ===== verification/Authority_Safety.thy ===== *)
theory Authority_Safety
  imports Txn_Authority Txn_Sample
begin

text \<open>
  The promises of the fence authority, with a concrete run: acquire at epoch 1, release, acquire at
  epoch 10.
\<close>

section \<open>A sample run\<close>

definition sample_acquire :: "int \<Rightarrow> int \<Rightarrow> authority_op" where
  "sample_acquire e t = Acquire (sample_acq_intent e t) (RInt 1) (RInt 1) sample_token
     (secs (t + 1)) (secs (t + 2)) (secs (t + 3))"

definition sample_release :: "int \<Rightarrow> int \<Rightarrow> int \<Rightarrow> authority_op" where
  "sample_release e t0 t = Release (sample_rel_intent e t0 t) (RInt 1)
     (secs (t + 1)) (secs (t + 2)) (secs (t + 3))"

lemma sample_acq_create:
  assumes "0 \<le> e"
  shows "acq_receipt_create sample_hash (sample_acq_intent e t) (RInt 1) (RInt 1) sample_token
    (secs (t + 1)) (secs (t + 2)) (secs (t + 3)) = Inr (sample_acq_receipt e t)"
proof -
  have fields: "ai_provider (sample_acq_intent e t) = ''lovelace''"
    "ai_writer_id (sample_acq_intent e t) = ''writer''"
    "ai_expected_inventory_revision (sample_acq_intent e t) = RInt 1"
    "ai_scope_digest (sample_acq_intent e t) = sample_digest" "ai_epoch (sample_acq_intent e t) = e"
    "ai_expires_at (sample_acq_intent e t) = secs (t + 100)"
    by (simp_all add: sample_acq_intent_def)
  show ?thesis
    using sample_acq_receipt_valid[OF assms, of t]
    unfolding acq_receipt_create_def Let_def fields
    unfolding sample_acq_receipt_def[symmetric] by (simp add: checked_def)
qed

lemma sample_rel_create:
  assumes "0 \<le> e"
  shows "rel_receipt_create sample_hash (sample_rel_intent e t0 t) (RInt 1)
    (secs (t + 1)) (secs (t + 2)) (secs (t + 3)) = Inr (sample_rel_receipt e t0 t)"
proof -
  have fields: "ri_provider (sample_rel_intent e t0 t) = ''lovelace''"
    "ri_writer_id (sample_rel_intent e t0 t) = ''writer''"
    "ri_release_attempt (sample_rel_intent e t0 t) = 1"
    "ri_acquisition_operation_id (sample_rel_intent e t0 t) = ai_operation_id (sample_acq_intent e t0)"
    "ri_acquisition_receipt_id (sample_rel_intent e t0 t) = ar_receipt_id (sample_acq_receipt e t0)"
    "ri_acquisition_receipt_digest (sample_rel_intent e t0 t) = ar_receipt_digest (sample_acq_receipt e t0)"
    "ri_token_digest (sample_rel_intent e t0 t) = sample_token"
    "ri_expected_inventory_revision (sample_rel_intent e t0 t) = RInt 1"
    "ri_scope_digest (sample_rel_intent e t0 t) = sample_digest" "ri_epoch (sample_rel_intent e t0 t) = e"
    by (simp_all add: sample_rel_intent_def)
  show ?thesis
    using sample_rel_receipt_valid[OF assms, of t0 t]
    unfolding rel_receipt_create_def Let_def fields
    unfolding sample_rel_receipt_def[symmetric] by (simp add: checked_def)
qed

lemma sample_first_acquire:
  "authority_acquire sample_hash (sample_acq_intent 1 100) (RInt 1) (RInt 1) sample_token
     (secs (100 + 1)) (secs (100 + 2)) (secs (100 + 3)) authority_empty =
   (Inr (sample_acq_receipt 1 100), authority_run sample_hash [sample_acquire 1 100])"
  "fa_acquisitions (authority_run sample_hash [sample_acquire 1 100]) (ai_operation_id (sample_acq_intent 1 100)) =
     Some (AcqApplied (sample_acq_receipt 1 100))"
  "fa_acquisitions (authority_run sample_hash [sample_acquire 1 100]) =
     [ai_operation_id (sample_acq_intent 1 100) \<mapsto> AcqApplied (sample_acq_receipt 1 100)]"
  "fa_bindings (authority_run sample_hash [sample_acquire 1 100]) =
     [''lovelace'' \<mapsto> acq_receipt_binding (sample_acq_receipt 1 100)]"
  "fa_releases (authority_run sample_hash [sample_acquire 1 100]) = Map.empty"
  "fa_receipt_ids (authority_run sample_hash [sample_acquire 1 100]) =
     [ar_receipt_id (sample_acq_receipt 1 100) \<mapsto> ai_operation_id (sample_acq_intent 1 100)]"
  "fa_high_water (authority_run sample_hash [sample_acquire 1 100]) = [''lovelace'' \<mapsto> 1]"
proof -
  have fields: "ai_provider (sample_acq_intent 1 100) = ''lovelace''" "ai_epoch (sample_acq_intent 1 100) = 1"
    by (simp_all add: sample_acq_intent_def)
  let ?s = "\<lparr>fa_bindings = [''lovelace'' \<mapsto> acq_receipt_binding (sample_acq_receipt 1 100)],
    fa_high_water = [''lovelace'' \<mapsto> 1],
    fa_acquisitions = [ai_operation_id (sample_acq_intent 1 100) \<mapsto> AcqApplied (sample_acq_receipt 1 100)],
    fa_releases = Map.empty,
    fa_receipt_ids = [ar_receipt_id (sample_acq_receipt 1 100) \<mapsto> ai_operation_id (sample_acq_intent 1 100)]\<rparr>"
  have e: "authority_acquire sample_hash (sample_acq_intent 1 100) (RInt 1) (RInt 1) sample_token
     (secs (100 + 1)) (secs (100 + 2)) (secs (100 + 3)) authority_empty = (Inr (sample_acq_receipt 1 100), ?s)"
    using sample_acq_intent_ok[of 1 100] sample_acq_create[of 1 100]
    by (simp add: authority_acquire_def authority_empty_def high_water_def fields receipt_claimable_def)
  then have "authority_run sample_hash [sample_acquire 1 100] = ?s"
    by (simp add: sample_acquire_def)
  with e show
    "authority_acquire sample_hash (sample_acq_intent 1 100) (RInt 1) (RInt 1) sample_token
     (secs (100 + 1)) (secs (100 + 2)) (secs (100 + 3)) authority_empty =
       (Inr (sample_acq_receipt 1 100), authority_run sample_hash [sample_acquire 1 100])"
    "fa_acquisitions (authority_run sample_hash [sample_acquire 1 100]) (ai_operation_id (sample_acq_intent 1 100)) =
       Some (AcqApplied (sample_acq_receipt 1 100))"
    "fa_acquisitions (authority_run sample_hash [sample_acquire 1 100]) =
       [ai_operation_id (sample_acq_intent 1 100) \<mapsto> AcqApplied (sample_acq_receipt 1 100)]"
    "fa_bindings (authority_run sample_hash [sample_acquire 1 100]) =
       [''lovelace'' \<mapsto> acq_receipt_binding (sample_acq_receipt 1 100)]"
    "fa_releases (authority_run sample_hash [sample_acquire 1 100]) = Map.empty"
    "fa_receipt_ids (authority_run sample_hash [sample_acquire 1 100]) =
       [ar_receipt_id (sample_acq_receipt 1 100) \<mapsto> ai_operation_id (sample_acq_intent 1 100)]"
    "fa_high_water (authority_run sample_hash [sample_acquire 1 100]) = [''lovelace'' \<mapsto> 1]"
    by simp_all
qed

lemma sample_then_release:
  "authority_release sample_hash (sample_rel_intent 1 100 111) (RInt 1) (secs (111 + 1))
      (secs (111 + 2)) (secs (111 + 3)) (authority_run sample_hash [sample_acquire 1 100]) =
    (Inr (sample_rel_receipt 1 100 111), (authority_run sample_hash [sample_acquire 1 100])\<lparr>
       fa_bindings := Map.empty,
       fa_releases := [ri_operation_id (sample_rel_intent 1 100 111) \<mapsto> RelApplied (sample_rel_receipt 1 100 111)],
       fa_receipt_ids := [ar_receipt_id (sample_acq_receipt 1 100) \<mapsto> ai_operation_id (sample_acq_intent 1 100),
         rr_receipt_id (sample_rel_receipt 1 100 111) \<mapsto> ri_operation_id (sample_rel_intent 1 100 111)]\<rparr>)"
  "authority_run sample_hash [sample_acquire 1 100, sample_release 1 100 111] =
     (authority_run sample_hash [sample_acquire 1 100])\<lparr>
       fa_bindings := Map.empty,
       fa_releases := [ri_operation_id (sample_rel_intent 1 100 111) \<mapsto> RelApplied (sample_rel_receipt 1 100 111)],
       fa_receipt_ids := [ar_receipt_id (sample_acq_receipt 1 100) \<mapsto> ai_operation_id (sample_acq_intent 1 100),
         rr_receipt_id (sample_rel_receipt 1 100 111) \<mapsto> ri_operation_id (sample_rel_intent 1 100 111)]\<rparr>"
proof -
  have i: "ri_provider (sample_rel_intent 1 100 111) = ''lovelace''"
    "ri_requested_at (sample_rel_intent 1 100 111) = secs 111"
    "ri_acquisition_operation_id (sample_rel_intent 1 100 111) = ai_operation_id (sample_acq_intent 1 100)"
    "ri_acquisition_receipt_id (sample_rel_intent 1 100 111) = ar_receipt_id (sample_acq_receipt 1 100)"
    "ri_acquisition_receipt_digest (sample_rel_intent 1 100 111) = ar_receipt_digest (sample_acq_receipt 1 100)"
    "ri_token_digest (sample_rel_intent 1 100 111) = sample_token" "ri_epoch (sample_rel_intent 1 100 111) = 1"
    by (simp_all add: sample_rel_intent_def)
  have b: "fb_acquired_at (acq_receipt_binding (sample_acq_receipt 1 100)) = secs 101"
    "fb_token_digest (acq_receipt_binding (sample_acq_receipt 1 100)) = sample_token"
    "fb_acquisition_operation_id (acq_receipt_binding (sample_acq_receipt 1 100)) = ai_operation_id (sample_acq_intent 1 100)"
    "fb_acquisition_receipt_id (acq_receipt_binding (sample_acq_receipt 1 100)) = ar_receipt_id (sample_acq_receipt 1 100)"
    "fb_acquisition_receipt_digest (acq_receipt_binding (sample_acq_receipt 1 100)) = ar_receipt_digest (sample_acq_receipt 1 100)"
    "ar_epoch (sample_acq_receipt 1 100) = 1"
    "ar_operation_id (sample_acq_receipt 1 100) = ai_operation_id (sample_acq_intent 1 100)"
    by (simp_all add: acq_receipt_binding_def) (simp_all add: sample_acq_receipt_def)
  have neq: "rr_receipt_id (sample_rel_receipt 1 100 111) \<noteq> ar_receipt_id (sample_acq_receipt 1 100)"
    using sample_ids_distinct by auto
  let ?s = "authority_run sample_hash [sample_acquire 1 100]"
  show e: "authority_release sample_hash (sample_rel_intent 1 100 111) (RInt 1) (secs (111 + 1))
      (secs (111 + 2)) (secs (111 + 3)) ?s = (Inr (sample_rel_receipt 1 100 111), ?s\<lparr>
       fa_bindings := Map.empty,
       fa_releases := [ri_operation_id (sample_rel_intent 1 100 111) \<mapsto> RelApplied (sample_rel_receipt 1 100 111)],
       fa_receipt_ids := [ar_receipt_id (sample_acq_receipt 1 100) \<mapsto> ai_operation_id (sample_acq_intent 1 100),
         rr_receipt_id (sample_rel_receipt 1 100 111) \<mapsto> ri_operation_id (sample_rel_intent 1 100 111)]\<rparr>)"
    unfolding authority_release_def release_owns_def receipt_claimable_def sample_first_acquire(4,5,6)
    using sample_rel_intent_ok[of 1 100 111] sample_rel_create[of 1 100 111]
    by (simp add: i b neq del: foldl_Cons)
  have "authority_run sample_hash [sample_acquire 1 100, sample_release 1 100 111] =
      authority_step sample_hash ?s (sample_release 1 100 111)" by simp
  then show "authority_run sample_hash [sample_acquire 1 100, sample_release 1 100 111] = ?s\<lparr>
       fa_bindings := Map.empty,
       fa_releases := [ri_operation_id (sample_rel_intent 1 100 111) \<mapsto> RelApplied (sample_rel_receipt 1 100 111)],
       fa_receipt_ids := [ar_receipt_id (sample_acq_receipt 1 100) \<mapsto> ai_operation_id (sample_acq_intent 1 100),
         rr_receipt_id (sample_rel_receipt 1 100 111) \<mapsto> ri_operation_id (sample_rel_intent 1 100 111)]\<rparr>"
    unfolding sample_release_def authority_step.simps e by simp
qed

lemma sample_second_acquire:
  defines "s \<equiv> authority_run sample_hash [sample_acquire 1 100, sample_release 1 100 111]"
  shows "fa_acquisitions s (ai_operation_id (sample_acq_intent 10 115)) = None"
    "fst (authority_acquire sample_hash (sample_acq_intent 10 115) (RInt 1) (RInt 1) sample_token
       (secs (115 + 1)) (secs (115 + 2)) (secs (115 + 3)) s) = Inr (sample_acq_receipt 10 115)"
proof -
  have fields: "ai_provider (sample_acq_intent 10 115) = ''lovelace''" "ai_epoch (sample_acq_intent 10 115) = 10"
    by (simp_all add: sample_acq_intent_def)
  have neq: "ai_operation_id (sample_acq_intent 10 115) \<noteq> ai_operation_id (sample_acq_intent 1 100)"
    using sample_operation_ids(1) by (simp add: acq_id_def sample_acq_def)
  have s: "fa_bindings s = Map.empty" "fa_high_water s = [''lovelace'' \<mapsto> 1]"
    "fa_acquisitions s = [ai_operation_id (sample_acq_intent 1 100) \<mapsto> AcqApplied (sample_acq_receipt 1 100)]"
    "fa_receipt_ids s = [ar_receipt_id (sample_acq_receipt 1 100) \<mapsto> ai_operation_id (sample_acq_intent 1 100),
         rr_receipt_id (sample_rel_receipt 1 100 111) \<mapsto> ri_operation_id (sample_rel_intent 1 100 111)]"
    unfolding s_def sample_then_release(2) using sample_first_acquire(3,7) by (simp_all del: foldl_Cons)
  show "fa_acquisitions s (ai_operation_id (sample_acq_intent 10 115)) = None"
    by (simp add: s neq)
  moreover have "ar_receipt_id (sample_acq_receipt 10 115) \<notin>
      {ar_receipt_id (sample_acq_receipt 1 100), rr_receipt_id (sample_rel_receipt 1 100 111)}"
    using sample_ids_distinct by auto
  ultimately show "fst (authority_acquire sample_hash (sample_acq_intent 10 115) (RInt 1) (RInt 1) sample_token
       (secs (115 + 1)) (secs (115 + 2)) (secs (115 + 3)) s) = Inr (sample_acq_receipt 10 115)"
    using sample_acq_intent_ok[of 10 115] sample_acq_create[of 10 115]
    by (simp add: authority_acquire_def s high_water_def fields receipt_claimable_def)
qed

lemma sample_tombstone:
  obtains r s where "authority_tombstone_acquisition sample_hash (sample_acq_intent 1 100)
    (secs 300) (secs 301) authority_empty = (Inr r, s)"
proof -
  let ?i = "sample_acq_intent 1 100"
  define v where "v = \<lparr>an_operation_id = ai_operation_id ?i, an_intent_digest = ai_intent_digest ?i,
          an_receipt_id = [], an_provider = ai_provider ?i, an_writer_id = ai_writer_id ?i,
          an_expected_inventory_revision = ai_expected_inventory_revision ?i,
          an_scope_digest = ai_scope_digest ?i, an_epoch = ai_epoch ?i, an_outcome = NO_EFFECT,
          an_evidence = OPERATION_LEDGER, an_acknowledged_at = secs 300,
          an_durable_at = secs 301, an_durable = True, an_receipt_digest = []\<rparr>"
  have i: "ai_provider ?i = ''lovelace''" "ai_writer_id ?i = ''writer''"
    "ai_expected_inventory_revision ?i = RInt 1" "ai_scope_digest ?i = sample_digest" "ai_epoch ?i = 1"
    "ai_expires_at ?i = secs 200" by (simp_all add: sample_acq_intent_def)
  have "acq_no_effect_valid_for sample_hash (seal_acq_no_effect sample_hash v) ?i"
    using sample_acq_intent_ok[of 1 100] sample_acq_id[of 1 100]
    by (simp add: acq_no_effect_valid_for_def sample.seal_acq_no_effect_ok v_def i nonnegative_ok_def)
  then have "acq_no_effect_create sample_hash ?i (secs 300) (secs 301) = Inr (seal_acq_no_effect sample_hash v)"
    by (simp add: acq_no_effect_create_def v_def)
  with sample_acq_intent_ok[of 1 100] that show ?thesis
    by (simp add: authority_tombstone_acquisition_def authority_empty_def receipt_claimable_def)
qed

section \<open>Properties\<close>

lemma released_ex1:
  assumes "release_unique s"
  shows "released s i \<longleftrightarrow> (\<exists>!j. \<exists>q. fa_releases s j = Some (RelApplied q) \<and> rr_acquisition_operation_id q = i)"
  using assms unfolding released_def release_unique_def by blast



lemma acquire_success:
  assumes "authority_acquire H i v f t x y z s = (Inr r, s')"
  shows "acq_intent_ok H i" "fa_acquisitions s' (ai_operation_id i) = Some (AcqApplied r)"
    "acq_receipt_valid_for H r i"
  using assms
  by (auto simp: authority_acquire_def acq_receipt_create_def Let_def
      split: if_splits option.splits acq_evidence.splits sum.splits)

lemma tombstone_acquisition_success:
  assumes "authority_tombstone_acquisition H i y z s = (Inr r, s')"
  shows "acq_intent_ok H i" "fa_acquisitions s' (ai_operation_id i) = Some (AcqNoEffect r)"
    "acq_no_effect_valid_for H r i"
  using assms
  by (auto simp: authority_tombstone_acquisition_def acq_no_effect_create_def Let_def
      split: if_splits option.splits acq_evidence.splits sum.splits)

lemma release_success:
  assumes "authority_release H i v x y z s = (Inr r, s')"
  shows "rel_intent_ok H i" "fa_releases s' (ri_operation_id i) = Some (RelApplied r)"
    "rel_receipt_valid_for H r i"
  using assms
  by (auto simp: authority_release_def rel_receipt_create_def Let_def
      split: if_splits option.splits rel_evidence.splits sum.splits)



text \<open>C19. An acquisition is decided once: after it succeeded, every later attempt to acquire with the
  same intent returns the very same receipt and changes nothing, whatever times and token it brings,
  and its tombstone is refused.\<close>
theorem authority_acquire_decided_once:
  assumes "authority_acquire H i v f t x y z s = (Inr r, s')"
  shows "authority_acquire H i v' f' t' x' y' z' (foldl (authority_step H) s' ops) =
      (Inr r, foldl (authority_step H) s' ops) \<and>
    authority_tombstone_acquisition H i y' z' (foldl (authority_step H) s' ops) =
      (Inl JournalConflict, foldl (authority_step H) s' ops)"
  using acquire_success[OF assms]
    acquisition_ledger.run_keep[OF TrueI acquire_success(2)[OF assms], of H ops]
  by (simp add: authority_acquire_def authority_tombstone_acquisition_def)

theorem authority_acquire_decided_once_witness:
  "let s = foldl (authority_step sample_hash) (authority_run sample_hash [sample_acquire 1 100])
         [sample_release 1 100 111] in
   authority_acquire sample_hash (sample_acq_intent 1 100) (RInt 2) (RInt 2) sample_token 0 0 0 s =
      (Inr (sample_acq_receipt 1 100), s) \<and>
   authority_tombstone_acquisition sample_hash (sample_acq_intent 1 100) 0 0 s = (Inl JournalConflict, s)"
  unfolding Let_def by (rule authority_acquire_decided_once[OF sample_first_acquire(1)])

text \<open>A tombstone is final: an acquisition that was declared without effect can never be applied
  afterwards, and the tombstone replays unchanged.\<close>
theorem authority_tombstone_final:
  assumes "authority_tombstone_acquisition H i y z s = (Inr r, s')"
  shows "authority_acquire H i v' f' t' x' y' z' (foldl (authority_step H) s' ops) =
      (Inl JournalConflict, foldl (authority_step H) s' ops) \<and>
    authority_tombstone_acquisition H i y' z' (foldl (authority_step H) s' ops) =
      (Inr r, foldl (authority_step H) s' ops)"
  using tombstone_acquisition_success[OF assms]
    acquisition_ledger.run_keep[OF TrueI tombstone_acquisition_success(2)[OF assms], of H ops]
  by (simp add: authority_acquire_def authority_tombstone_acquisition_def)

theorem authority_tombstone_final_witness:
  "\<exists>r s. authority_tombstone_acquisition sample_hash (sample_acq_intent 1 100) (secs 300) (secs 301)
      authority_empty = (Inr r, s) \<and>
    authority_acquire sample_hash (sample_acq_intent 1 100) (RInt 1) (RInt 1) sample_token
      (secs 101) (secs 102) (secs 103) (foldl (authority_step sample_hash) s [sample_acquire 1 100]) =
      (Inl JournalConflict, foldl (authority_step sample_hash) s [sample_acquire 1 100]) \<and>
    authority_tombstone_acquisition sample_hash (sample_acq_intent 1 100) (secs 300) (secs 301)
      (foldl (authority_step sample_hash) s [sample_acquire 1 100]) =
      (Inr r, foldl (authority_step sample_hash) s [sample_acquire 1 100])"
proof -
  obtain r s where t: "authority_tombstone_acquisition sample_hash (sample_acq_intent 1 100)
      (secs 300) (secs 301) authority_empty = (Inr r, s)"
    by (rule sample_tombstone)
  from authority_tombstone_final[OF t] t show ?thesis by blast
qed

text \<open>A release is decided once: after it succeeded, releasing again returns the same receipt and
  changes nothing, even when the provider's fence has been taken again meanwhile, and its tombstone is
  refused.\<close>
theorem authority_release_decided_once:
  assumes "authority_release H i v x y z s = (Inr r, s')"
  shows "authority_release H i v' x' y' z' (foldl (authority_step H) s' ops) =
      (Inr r, foldl (authority_step H) s' ops) \<and>
    authority_tombstone_release H i y' z' (foldl (authority_step H) s' ops) =
      (Inl JournalConflict, foldl (authority_step H) s' ops)"
  using release_success[OF assms]
    release_ledger.run_keep[OF TrueI release_success(2)[OF assms], of H ops]
  by (simp add: authority_release_def authority_tombstone_release_def)

theorem authority_release_decided_once_witness:
  "\<exists>s. authority_release sample_hash (sample_rel_intent 1 100 111) (RInt 1) (secs 112) (secs 113) (secs 114)
      (authority_run sample_hash [sample_acquire 1 100]) = (Inr (sample_rel_receipt 1 100 111), s) \<and>
    authority_release sample_hash (sample_rel_intent 1 100 111) (RInt 9) 0 0 0
      (foldl (authority_step sample_hash) s [sample_acquire 10 115]) =
      (Inr (sample_rel_receipt 1 100 111), foldl (authority_step sample_hash) s [sample_acquire 10 115]) \<and>
    authority_tombstone_release sample_hash (sample_rel_intent 1 100 111) 0 0
      (foldl (authority_step sample_hash) s [sample_acquire 10 115]) =
      (Inl JournalConflict, foldl (authority_step sample_hash) s [sample_acquire 10 115])"
proof -
  obtain s where t: "authority_release sample_hash (sample_rel_intent 1 100 111) (RInt 1) (secs 112)
      (secs 113) (secs 114) (authority_run sample_hash [sample_acquire 1 100]) =
      (Inr (sample_rel_receipt 1 100 111), s)"
    using sample_then_release(1) by simp
  from authority_release_decided_once[OF t] t show ?thesis by blast
qed

end
