(* ===== verification/Dispatch_Once.thy ===== *)
theory Dispatch_Once
  imports Prelude
begin

text \<open>
  The contract behind "no blind redispatch": a step that tells its caller to fire an effect spends
  the effect, a spent effect stays spent, and only an unspent one fires. Then no run fires an effect
  twice.
\<close>

primrec fired :: "('s \<Rightarrow> 'o \<Rightarrow> 's) \<Rightarrow> ('s \<Rightarrow> 'o \<Rightarrow> 'k option) \<Rightarrow> 's \<Rightarrow> 'o list \<Rightarrow> 'k list" where
  "fired step fires s [] = []"
| "fired step fires s (x # xs) =
     (case fires s x of None \<Rightarrow> [] | Some k \<Rightarrow> [k]) @ fired step fires (step s x) xs"

locale fire_once =
  fixes step :: "'s \<Rightarrow> 'o \<Rightarrow> 's"
    and fires :: "'s \<Rightarrow> 'o \<Rightarrow> 'k option"
    and ok :: "'s \<Rightarrow> bool"
    and spent :: "'s \<Rightarrow> 'k \<Rightarrow> bool"
  assumes ok_step: "ok s \<Longrightarrow> ok (step s x)"
    and spent_step: "ok s \<Longrightarrow> spent s k \<Longrightarrow> spent (step s x) k"
    and fires_unspent: "ok s \<Longrightarrow> fires s x = Some k \<Longrightarrow> \<not> spent s k"
    and fires_spends: "ok s \<Longrightarrow> fires s x = Some k \<Longrightarrow> spent (step s x) k"
begin

lemma spent_not_fired: "ok s \<Longrightarrow> spent s k \<Longrightarrow> k \<notin> set (fired step fires s xs)"
proof (induction xs arbitrary: s)
  case (Cons x xs)
  then show ?case using Cons.IH[OF ok_step spent_step] fires_unspent by (auto split: option.splits)
qed simp

theorem fired_distinct: "ok s \<Longrightarrow> distinct (fired step fires s xs)"
proof (induction xs arbitrary: s)
  case (Cons x xs)
  then show ?case
    using spent_not_fired[OF ok_step fires_spends] ok_step by (auto split: option.splits)
qed simp

end

end
