(* ===== verification/Recorder_Safety.thy ===== *)
theory Recorder_Safety
  imports Txn_Recorder Journal_Safety Authority_Safety Dispatch_Once
begin

text \<open>
  Runs of the whole bridge: the recorder and its journal on one side, the fence authority of the
  host on the other. Shows that the recorder only ever uses the journal's interface, that it answers
  \<open>DISPATCH\<close> at most once per effect, and what holds durably when it does.
\<close>

section \<open>Runs\<close>

datatype recorder_op =
    BeginAttempt string string string int "expected_write list"
  | PrepareAcquisition acq_intent
  | ReconcileAcquisition string time
  | AcknowledgeAcquisition acq_evidence
  | PrepareRelease rel_intent
  | ReconcileRelease string time
  | AcknowledgeRelease rel_evidence
  | Prepare obj_intent time
  | Arm string observation time
  | Acknowledge obj_receipt
  | Reconcile string "observation option" time
  | VerifyReceipt string observation time
  | FinishAttempt string int attempt_state time

fun recorder_step :: "(string \<Rightarrow> string) \<Rightarrow> int \<Rightarrow> authority \<Rightarrow> journal \<Rightarrow> recorder_op \<Rightarrow> journal" where
  "recorder_step H m s j (BeginAttempt p d e n ws) = snd (begin_attempt H m p d e n ws j)"
| "recorder_step H m s j (PrepareAcquisition i) = snd (prepare_acquisition H i j)"
| "recorder_step H m s j (ReconcileAcquisition i t) = snd (reconcile_acquisition H s i t j)"
| "recorder_step H m s j (AcknowledgeAcquisition r) = snd (acknowledge_acquisition H r j)"
| "recorder_step H m s j (PrepareRelease i) = snd (prepare_release H i j)"
| "recorder_step H m s j (ReconcileRelease i t) = snd (reconcile_release H s i t j)"
| "recorder_step H m s j (AcknowledgeRelease r) = snd (acknowledge_release H r j)"
| "recorder_step H m s j (Prepare i t) = snd (prepare H s i t j)"
| "recorder_step H m s j (Arm i v t) = snd (arm H m s i v t j)"
| "recorder_step H m s j (Acknowledge r) = snd (acknowledge H r j)"
| "recorder_step H m s j (Reconcile i v t) = snd (reconcile H m s i v t j)"
| "recorder_step H m s j (VerifyReceipt i v t) = snd (verify_receipt H m i v t j)"
| "recorder_step H m s j (FinishAttempt p n st t) = snd (finish_attempt H m p n st t j)"

record bridge =
  br_journal :: journal
  br_authority :: authority

definition bridge_empty :: bridge where
  "bridge_empty = \<lparr>br_journal = journal_empty, br_authority = authority_empty\<rparr>"

datatype bridge_op = Recorder recorder_op | Host authority_op

fun bridge_step :: "(string \<Rightarrow> string) \<Rightarrow> int \<Rightarrow> bridge \<Rightarrow> bridge_op \<Rightarrow> bridge" where
  "bridge_step H m w (Recorder x) =
     w\<lparr>br_journal := recorder_step H m (br_authority w) (br_journal w) x\<rparr>"
| "bridge_step H m w (Host x) = w\<lparr>br_authority := authority_step H (br_authority w) x\<rparr>"

abbreviation bridge_run :: "(string \<Rightarrow> string) \<Rightarrow> int \<Rightarrow> bridge_op list \<Rightarrow> bridge" where
  "bridge_run H m ops \<equiv> foldl (bridge_step H m) bridge_empty ops"

text \<open>The external effects, and the one a step tells its caller to dispatch.\<close>

datatype effect = AcquireFence string | ReleaseFence string | RewriteObject string

fun dispatch_answer :: "(string \<Rightarrow> string) \<Rightarrow> int \<Rightarrow> bridge \<Rightarrow> bridge_op \<Rightarrow> effect option" where
  "dispatch_answer H m w (Recorder (ReconcileAcquisition i t)) =
     (if fst (reconcile_acquisition H (br_authority w) i t (br_journal w)) = Inr DISPATCH
      then Some (AcquireFence i) else None)"
| "dispatch_answer H m w (Recorder (ReconcileRelease i t)) =
     (if fst (reconcile_release H (br_authority w) i t (br_journal w)) = Inr DISPATCH
      then Some (ReleaseFence i) else None)"
| "dispatch_answer H m w (Recorder (Reconcile i v t)) =
     (if fst (reconcile H m (br_authority w) i v t (br_journal w)) = Inr DISPATCH
      then Some (RewriteObject i) else None)"
| "dispatch_answer H m w _ = None"

section \<open>The recorder uses the journal's interface\<close>

text \<open>Journals a sequence of journal operations leads to.\<close>

definition journal_reaches :: "(string \<Rightarrow> string) \<Rightarrow> journal \<Rightarrow> journal \<Rightarrow> bool" where
  "journal_reaches H j j' \<longleftrightarrow> (\<exists>ops. j' = foldl (journal_step H) j ops)"

lemma reaches_refl [simp]: "journal_reaches H j j"
  unfolding journal_reaches_def by (rule exI[of _ "[]"]) simp

lemma reaches_step: "journal_step H j x = j' \<Longrightarrow> journal_reaches H j j'"
  unfolding journal_reaches_def by (rule exI[of _ "[x]"]) simp

lemma reaches_trans: "journal_reaches H j k \<Longrightarrow> journal_reaches H k l \<Longrightarrow> journal_reaches H j l"
  unfolding journal_reaches_def by (metis foldl_append)

lemmas journal_op_reaches [simp] =
  reaches_step[OF journal_step.simps(1)] reaches_step[OF journal_step.simps(2)]
  reaches_step[OF journal_step.simps(3)] reaches_step[OF journal_step.simps(4)]
  reaches_step[OF journal_step.simps(5)] reaches_step[OF journal_step.simps(6)]
  reaches_step[OF journal_step.simps(7)] reaches_step[OF journal_step.simps(8)]
  reaches_step[OF journal_step.simps(9)] reaches_step[OF journal_step.simps(10)]
  reaches_step[OF journal_step.simps(11)] reaches_step[OF journal_step.simps(12)]
  reaches_step[OF journal_step.simps(13)] reaches_step[OF journal_step.simps(14)]

text \<open>The same facts for an outcome that has been taken apart.\<close>

lemma outcome_reaches:
  "block_operation H i x j = (r, j') \<Longrightarrow> journal_reaches H j j'"
  "arm_operation H i z j = (q, j') \<Longrightarrow> journal_reaches H j j'"
  "block_acquisition H i x j = (c, j') \<Longrightarrow> journal_reaches H j j'"
  "arm_acquisition H i j = (c, j') \<Longrightarrow> journal_reaches H j j'"
  "arm_release H i j = (e, j') \<Longrightarrow> journal_reaches H j j'"
  by (metis journal_op_reaches snd_conv)+

lemma block_reaches [simp]:
  "journal_reaches H j (snd (recorder_block H i reason j))"
  "journal_reaches H j (snd (block_and_raise H i reason j))"
  by (auto simp: recorder_block_def block_and_raise_def outcome_reaches split: prod.splits sum.splits)

lemma reconcile_reaches [simp]:
  "journal_reaches H j (snd (reconcile_recorded H s i p v at j))"
  "journal_reaches H j (snd (reconcile_acknowledged H i p v j))"
  "journal_reaches H j (snd (reconcile_verified H i p a v at j))"
  by (auto simp: reconcile_recorded_def reconcile_acknowledged_def reconcile_verified_def outcome_reaches
      split: prod.splits sum.splits option.splits txn_error.splits)

lemma recorder_step_reaches: "journal_reaches H j (recorder_step H m s j x)"
proof (cases x)
  case (BeginAttempt p d e n ws)
  then show ?thesis by (simp add: begin_attempt_def split: sum.splits)
next
  case (PrepareAcquisition i)
  then show ?thesis by (simp add: prepare_acquisition_def)
next
  case (ReconcileAcquisition i t)
  then show ?thesis
    by (auto simp: reconcile_acquisition_def outcome_reaches split: sum.splits prod.splits)
next
  case (AcknowledgeAcquisition r)
  then show ?thesis by (simp add: acknowledge_acquisition_def)
next
  case (PrepareRelease i)
  then show ?thesis by (simp add: prepare_release_def)
next
  case (ReconcileRelease i t)
  then show ?thesis
    by (auto simp: reconcile_release_def outcome_reaches split: sum.splits prod.splits)
next
  case (AcknowledgeRelease r)
  then show ?thesis by (simp add: acknowledge_release_def)
next
  case (Prepare i t)
  then show ?thesis by (simp add: prepare_def split: sum.splits)
next
  case (Arm i v t)
  then show ?thesis by (simp add: arm_def split: sum.splits txn_error.splits)
next
  case (Acknowledge r)
  then show ?thesis by (simp add: acknowledge_def)
next
  case (Reconcile i v t)
  then show ?thesis by (simp add: reconcile_def split: sum.splits option.splits)
next
  case (VerifyReceipt i v t)
  then show ?thesis by (simp add: verify_receipt_def Let_def split: sum.splits option.splits)
next
  case (FinishAttempt p n st t)
  then show ?thesis by (simp add: finish_attempt_def split: sum.splits)
qed

lemma reaches_inv: "journal_reaches H j j' \<Longrightarrow> journal_inv H j \<Longrightarrow> journal_inv H j'"
  unfolding journal_reaches_def using journal_foldl_inv by blast

lemma bridge_step_inv: "journal_inv H (br_journal w) \<Longrightarrow> journal_inv H (br_journal (bridge_step H m w x))"
  by (cases x) (simp_all add: reaches_inv[OF recorder_step_reaches])

section \<open>Arming is durable\<close>

lemma located_stored:
  assumes "journal_inv H j" "store_attempt H a j = (Inr u, j1)" "k < length (items a)"
  shows "located items j1 (Inr (at_plan_id a, at_attempt a, k)) = Inr (items a ! k)"
  using store_attempt_Inr(2)[OF assms(2) journal_invD(1)[OF assms(1)]] assms(3)
  by (intro located_found) simp_all

lemma stored_locations:
  assumes "journal_inv H j" "store_attempt H a j = (Inr u, j1)"
  shows "object_location j1 i = object_location j i" "acquisition_location j1 i = acquisition_location j i"
    "release_location j1 i = release_location j i"
  using store_attempt_Inr(4)[OF assms(2) journal_invD(1)[OF assms(1)]]
  by (auto simp: object_location_def acquisition_location_def release_location_def)

lemma then_return_Inr: "then_return r x = (Inr y, s) \<longleftrightarrow> y = x \<and> (\<exists>u. r = (Inr u, s))"
  by (cases r) (auto simp: then_return_def split: sum.splits)

lemma arm_acquisition_armed:
  assumes inv: "journal_inv H j" and arm: "arm_acquisition H i j = (Inr d, j1)"
  shows "get_acquisition j1 i = Inr d" "ac_state d = F_DISPATCH_ARMED"
proof -
  obtain c where c: "get_acquisition j i = Inr c" using arm by (cases "get_acquisition j i") (auto simp: arm_acquisition_def)
  from get_acquisition_Inr[OF inv c] obtain p n k b where
    b: "acquisition_location j i = Inr (p, n, k)" "attempt_at j p n = Some b" "get_attempt j p n = Inr b"
      "k < length (at_acquisitions b)" "acq_id c = i" .
  have pn: "at_plan_id b = p" "at_attempt b = n" using attempts_invD[OF journal_invD(2)[OF inv] b(2)] by simp_all
  have "get_acquisition j1 i = Inr d \<and> ac_state d = F_DISPATCH_ARMED"
  proof (cases "ac_state c = F_DISPATCH_ARMED")
    case True
    then show ?thesis using arm c by (simp add: arm_acquisition_def)
  next
    case False
    then obtain c' where c': "acq_arm H c = Inr c'" using arm c by (cases "acq_arm H c") (auto simp: arm_acquisition_def)
    let ?a = "b\<lparr>at_acquisitions := (at_acquisitions b)[k := c']\<rparr>"
    have "acq_id c' = i" using acq_arm_Inr(2)[OF c'] b(5) by (simp add: acq_id_def)
    then obtain u where st: "store_attempt H ?a j = (Inr u, j1)" and d: "d = c'"
      using arm c False c' b by (auto simp: arm_acquisition_def then_return_Inr replace_acquisition_def)
    have "get_acquisition j1 i = Inr c'"
      using located_stored[OF inv st, of k at_acquisitions] b pn stored_locations(2)[OF inv st]
      by (simp add: get_acquisition_def)
    then show ?thesis using c' d by (auto simp: acq_arm_def Let_def split: if_splits)
  qed
  then show "get_acquisition j1 i = Inr d" "ac_state d = F_DISPATCH_ARMED" by blast+
qed

lemma arm_release_armed:
  assumes inv: "journal_inv H j" and arm: "arm_release H i j = (Inr d, j1)"
  shows "get_release j1 i = Inr d" "rl_state d = F_DISPATCH_ARMED"
proof -
  obtain c where c: "get_release j i = Inr c" using arm by (cases "get_release j i") (auto simp: arm_release_def)
  from get_release_Inr[OF inv c] obtain p n k b where
    b: "release_location j i = Inr (p, n, k)" "attempt_at j p n = Some b" "get_attempt j p n = Inr b"
      "k < length (at_releases b)" "rel_id c = i" .
  have pn: "at_plan_id b = p" "at_attempt b = n" using attempts_invD[OF journal_invD(2)[OF inv] b(2)] by simp_all
  have "get_release j1 i = Inr d \<and> rl_state d = F_DISPATCH_ARMED"
  proof (cases "rl_state c = F_DISPATCH_ARMED")
    case True
    then show ?thesis using arm c by (simp add: arm_release_def)
  next
    case False
    then obtain c' where c': "rel_arm H c = Inr c'" using arm c by (cases "rel_arm H c") (auto simp: arm_release_def)
    let ?a = "b\<lparr>at_releases := (at_releases b)[k := c']\<rparr>"
    have "rel_id c' = i" using rel_arm_Inr(2)[OF c'] b(5) by (simp add: rel_id_def)
    then obtain u where st: "store_attempt H ?a j = (Inr u, j1)" and d: "d = c'"
      using arm c False c' b by (auto simp: arm_release_def then_return_Inr replace_release_def)
    have "get_release j1 i = Inr c'"
      using located_stored[OF inv st, of k at_releases] b pn stored_locations(3)[OF inv st]
      by (simp add: get_release_def)
    then show ?thesis using c' d by (auto simp: rel_arm_def Let_def split: if_splits)
  qed
  then show "get_release j1 i = Inr d" "rl_state d = F_DISPATCH_ARMED" by blast+
qed

lemma replace_object_get:
  assumes inv: "journal_inv H j" and c: "get_operation j i = Inr c" and id: "op_id c' = i"
    and r: "replace_object H c' x j = (Inr u, j1)"
  shows "get_operation j1 i = Inr c'"
proof -
  from get_operation_Inr[OF inv c] obtain p n k b where
    b: "object_location j i = Inr (p, n, k)" "attempt_at j p n = Some b" "get_attempt j p n = Inr b"
      "k < length (at_operations b)" .
  have pn: "at_plan_id b = p" "at_attempt b = n" using attempts_invD[OF journal_invD(2)[OF inv] b(2)] by simp_all
  have st: "store_attempt H (b\<lparr>at_operations := (at_operations b)[k := c']\<rparr>) j = (Inr u, j1)"
    using r b id by (auto simp: replace_object_def split: if_splits)
  show ?thesis
    using located_stored[OF inv st, of k at_operations] b pn stored_locations(1)[OF inv st]
    by (simp add: get_operation_def)
qed

lemma arm_operation_armed:
  assumes inv: "journal_inv H j" and c: "get_operation j i = Inr c"
    and arm: "arm_operation H i z j = (Inr d, j1)"
  shows "get_operation j1 i = Inr d" "op_state d = O_DISPATCH_ARMED" "op_authorization d = Some z"
    "op_intent d = op_intent c"
proof -
  from get_operation_Inr[OF inv c] obtain p n k b where
    id: "op_id c = i" and b: "object_location j i = Inr (p, n, k)" "get_attempt j p n = Inr b" .
  have "get_operation j1 i = Inr d \<and> op_state d = O_DISPATCH_ARMED \<and> op_authorization d = Some z \<and>
    op_intent d = op_intent c"
  proof (cases "op_state c = O_DISPATCH_ARMED")
    case True
    then show ?thesis using arm c by (auto simp: arm_operation_def split: if_splits)
  next
    case False
    have "op_arm H c z = Inr d \<and> (\<exists>u. replace_object H d False j = (Inr u, j1))"
    proof (cases "op_arm H c z")
      case (Inl e)
      have "\<exists>e. arm_operation H i z j = (Inl e, j)"
        by (simp add: arm_operation_def c b Inl False)
      then show ?thesis using arm by auto
    next
      case (Inr c')
      have "(\<exists>e. arm_operation H i z j = (Inl e, j)) \<or>
          arm_operation H i z j = then_return (replace_object H c' False j) c'"
        by (simp add: arm_operation_def c b Inr False)
      then show ?thesis using arm Inr then_return_Inr[of "replace_object H c' False j" c' d j1] by auto
    qed
    then obtain u where a: "op_arm H c z = Inr d" and r: "replace_object H d False j = (Inr u, j1)" by blast
    have d: "d = c\<lparr>op_state := O_DISPATCH_ARMED, op_authorization := Some z\<rparr>"
      using a by (simp add: op_transition_simps)
    have "op_id d = i" using id by (simp add: d op_id_def)
    from replace_object_get[OF inv c this r] show ?thesis by (simp add: d)
  qed
  then show "get_operation j1 i = Inr d" "op_state d = O_DISPATCH_ARMED" "op_authorization d = Some z"
    "op_intent d = op_intent c" by blast+
qed

section \<open>No blind redispatch\<close>

text \<open>An effect is spent once its record has left the recorded intent.\<close>

fun spent_in :: "journal \<Rightarrow> effect \<Rightarrow> bool" where
  "spent_in j (AcquireFence i) = (case get_acquisition j i of Inl e \<Rightarrow> False | Inr c \<Rightarrow> ac_state c \<noteq> F_INTENT_RECORDED)"
| "spent_in j (ReleaseFence i) = (case get_release j i of Inl e \<Rightarrow> False | Inr c \<Rightarrow> rl_state c \<noteq> F_INTENT_RECORDED)"
| "spent_in j (RewriteObject i) = (case get_operation j i of Inl e \<Rightarrow> False | Inr p \<Rightarrow> op_state p \<noteq> O_INTENT_RECORDED)"

lemma journal_step_spent:
  assumes inv: "journal_inv H j" and s: "spent_in j k"
  shows "spent_in (journal_step H j x) k"
proof (cases k)
  case (AcquireFence i)
  then obtain c where c: "get_acquisition j i = Inr c" "ac_state c \<noteq> F_INTENT_RECORDED"
    using s by (auto split: sum.splits)
  show ?thesis
    by (rule edit_get_acquisition[OF inv journal_step_edit[OF inv, of x] c(1)])
      (use c(2) AcquireFence in \<open>auto simp: acq_extends_def\<close>)
next
  case (ReleaseFence i)
  then obtain c where c: "get_release j i = Inr c" "rl_state c \<noteq> F_INTENT_RECORDED"
    using s by (auto split: sum.splits)
  show ?thesis
    by (rule edit_get_release[OF inv journal_step_edit[OF inv, of x] c(1)])
      (use c(2) ReleaseFence in \<open>auto simp: rel_extends_def\<close>)
next
  case (RewriteObject i)
  then obtain c where c: "get_operation j i = Inr c" "op_state c \<noteq> O_INTENT_RECORDED"
    using s by (auto split: sum.splits)
  show ?thesis
    by (rule edit_get_operation[OF inv journal_step_edit[OF inv, of x] c(1)])
      (use c(2) RewriteObject in \<open>auto simp: op_extends_def\<close>)
qed

lemma reaches_spent:
  assumes "journal_reaches H j j'" "journal_inv H j" "spent_in j k"
  shows "spent_in j' k"
proof -
  have "spent_in (foldl (journal_step H) j ops) k" for ops
    using assms(2,3) by (induction ops arbitrary: j) (simp_all add: journal_step_inv journal_step_spent)
  then show ?thesis using assms(1) unfolding journal_reaches_def by blast
qed

text \<open>What a \<open>DISPATCH\<close> answer went through.\<close>

lemma block_not_dispatch [simp]: "fst (recorder_block H i reason j) \<noteq> Inr DISPATCH"
  by (simp add: recorder_block_def split: prod.splits sum.splits)

lemma reconcile_recorded_dispatch:
  assumes "reconcile_recorded H s i p v at j = (Inr DISPATCH, j1)"
  obtains z d where "fb_acquisition_durable_at (oi_fence (op_intent p)) \<le> ob_observed_at v"
    "observation_is_preimage v (op_intent p)" "\<not> observation_is_postimage v (op_intent p)"
    "require_current_live_fence s (oi_fence (op_intent p)) at = Inr ()"
    "authorization_create H (op_intent p) v at = Inr z" "arm_operation H i z j = (Inr d, j1)"
proof -
  have nb: "recorder_block H i reason j \<noteq> (Inr DISPATCH, j1)" for reason
    using block_not_dispatch[of H i reason j] by (metis fst_conv)
  show ?thesis
    using assms that unfolding reconcile_recorded_def
    by (auto simp: nb not_less split: if_splits sum.splits prod.splits txn_error.splits)
qed

lemma reconcile_dispatch:
  assumes "reconcile H m s i v at j = (Inr DISPATCH, j1)"
  obtains p w a where "get_operation j i = Inr p" "op_state p = O_INTENT_RECORDED" "v = Some w"
    "observation_ok w" "attempt_for_intent m (op_intent p) j = Inr a" "observation_fresh (ob_observed_at w) at a"
    "reconcile_recorded H s i p w at j = (Inr DISPATCH, j1)"
proof -
  have nb: "recorder_block H i reason j \<noteq> (Inr DISPATCH, j1)" for reason
    using block_not_dispatch[of H i reason j] by (metis fst_conv)
  have "reconcile_acknowledged H i p w j \<noteq> (Inr DISPATCH, j1)" "reconcile_verified H i p a w at j \<noteq> (Inr DISPATCH, j1)" for p a w
    by (auto simp: reconcile_acknowledged_def reconcile_verified_def nb split: option.splits)
  then show ?thesis
    using assms that unfolding reconcile_def
    by (auto simp: nb split: if_splits sum.splits option.splits)
qed

lemma reconcile_acquisition_dispatch:
  assumes "reconcile_acquisition H s i at j = (Inr DISPATCH, j1)"
  obtains c d where "get_acquisition j i = Inr c" "ac_state c = F_INTENT_RECORDED"
    "ai_requested_at (ac_intent c) \<le> at" "at < ai_expires_at (ac_intent c)"
    "acquisition_receipt s i = Inr None" "current_binding s (ai_provider (ac_intent c)) = Inr None"
    "arm_acquisition H i j = (Inr d, j1)"
proof -
  obtain c where c: "get_acquisition j i = Inr c" using assms by (auto simp: reconcile_acquisition_def split: sum.splits)
  have st: "ac_state c = F_INTENT_RECORDED"
    using assms by (cases "ac_state c") (auto simp: reconcile_acquisition_def c)
  show ?thesis
    using assms st that[OF c st] unfolding reconcile_acquisition_def
    by (auto simp: c not_less not_le split: if_splits sum.splits prod.splits)
qed

lemma reconcile_release_dispatch:
  assumes "reconcile_release H s i at j = (Inr DISPATCH, j1)"
  obtains c d b where "get_release j i = Inr c" "rl_state c = F_INTENT_RECORDED"
    "ri_requested_at (rl_intent c) \<le> at" "release_receipt s i = Inr None"
    "current_binding s (ri_provider (rl_intent c)) = Inr b" "binding_matches_release b (rl_intent c)"
    "arm_release H i j = (Inr d, j1)"
proof -
  obtain c where c: "get_release j i = Inr c" using assms by (auto simp: reconcile_release_def split: sum.splits)
  have st: "rl_state c = F_INTENT_RECORDED"
    using assms by (cases "rl_state c") (auto simp: reconcile_release_def c)
  show ?thesis
    using assms st that[OF c st] unfolding reconcile_release_def
    by (auto simp: c not_less split: if_splits sum.splits prod.splits)
qed

abbreviation bridge_inv :: "(string \<Rightarrow> string) \<Rightarrow> bridge \<Rightarrow> bool" where
  "bridge_inv H w \<equiv> journal_inv H (br_journal w)"

lemma fst_pair: "fst x = y \<Longrightarrow> x = (y, snd x)"
  by (cases x) simp

lemma dispatch_unspent:
  assumes "dispatch_answer H m w x = Some k"
  shows "\<not> spent_in (br_journal w) k"
  using assms
proof (cases rule: dispatch_answer.cases[of "(H, m, w, x)"])
  case (1 H m w i t)
  then show ?thesis using assms by (auto split: if_splits dest!: fst_pair elim!: reconcile_acquisition_dispatch)
next
  case (2 H m w i t)
  then show ?thesis using assms by (auto split: if_splits dest!: fst_pair elim!: reconcile_release_dispatch)
next
  case (3 H m w i v t)
  then show ?thesis using assms by (auto split: if_splits dest!: fst_pair elim!: reconcile_dispatch)
qed auto

lemma dispatch_spends:
  assumes inv: "bridge_inv H w" and "dispatch_answer H m w x = Some k"
  shows "spent_in (br_journal (bridge_step H m w x)) k"
  using assms(2)
proof (cases rule: dispatch_answer.cases[of "(H, m, w, x)"])
  case (1 H' m' w' i t)
  then have r: "reconcile_acquisition H (br_authority w) i t (br_journal w) =
      (Inr DISPATCH, br_journal (bridge_step H m w x))" and k: "k = AcquireFence i"
    using assms(2) by (auto split: if_splits dest!: fst_pair)
  from r show ?thesis
    by (rule reconcile_acquisition_dispatch) (use arm_acquisition_armed[OF inv] k in fastforce)
next
  case (2 H' m' w' i t)
  then have r: "reconcile_release H (br_authority w) i t (br_journal w) =
      (Inr DISPATCH, br_journal (bridge_step H m w x))" and k: "k = ReleaseFence i"
    using assms(2) by (auto split: if_splits dest!: fst_pair)
  from r show ?thesis
    by (rule reconcile_release_dispatch) (use arm_release_armed[OF inv] k in fastforce)
next
  case (3 H' m' w' i v t)
  then have r: "reconcile H m (br_authority w) i v t (br_journal w) =
      (Inr DISPATCH, br_journal (bridge_step H m w x))" and k: "k = RewriteObject i"
    using assms(2) by (auto split: if_splits dest!: fst_pair)
  from r show ?thesis
  proof (rule reconcile_dispatch)
    fix p v' a
    assume p: "get_operation (br_journal w) i = Inr p"
      and "reconcile_recorded H (br_authority w) i p v' t (br_journal w) = (Inr DISPATCH, br_journal (bridge_step H m w x))"
    then show ?thesis
      by (elim reconcile_recorded_dispatch) (use arm_operation_armed[OF inv p] k in fastforce)
  qed
qed auto

interpretation bridge_dispatch:
  fire_once "bridge_step H m" "dispatch_answer H m" "bridge_inv H" "\<lambda>w. spent_in (br_journal w)" for H m
proof
  show "bridge_inv H (bridge_step H m w x)" if "bridge_inv H w" for w x by (rule bridge_step_inv[OF that])
  show "spent_in (br_journal (bridge_step H m w x)) k" if "bridge_inv H w" "spent_in (br_journal w) k" for w x k
    using that by (cases x) (simp_all add: reaches_spent[OF recorder_step_reaches])
  show "\<not> spent_in (br_journal w) k" if "dispatch_answer H m w x = Some k" for w x k
    by (rule dispatch_unspent[OF that])
  show "spent_in (br_journal (bridge_step H m w x)) k" if "bridge_inv H w" "dispatch_answer H m w x = Some k" for w x k
    by (rule dispatch_spends[OF that])
qed

end
