(* ===== verification/Recorder_Properties.thy ===== *)
theory Recorder_Properties
  imports Recorder_Safety
begin

text \<open>
  What the recorder promises, with a concrete attempt in progress: one fence, one write, taken
  through reconciliation.
\<close>

section \<open>An attempt in progress\<close>

definition sample_working :: "attempt_state \<Rightarrow> block_reason option \<Rightarrow> acq_record list \<Rightarrow> op_record list \<Rightarrow> attempt" where
  "sample_working st reason cs ps = \<lparr>at_plan_id = sample_plan, at_plan_digest = sample_digest,
     at_manifest_digest = sample_digest, at_attempt = 1, at_state = st,
     at_max_observation_age_seconds = 60, at_expected_writes = [sample_expected],
     at_acquisitions = cs, at_operations = ps, at_releases = [], at_release_phase_sequence = None,
     at_reason_code = reason, at_terminal_at = None\<rparr>"

definition acq_recorded_sample :: acq_record where
  "acq_recorded_sample = (sample_acq 1 100)\<lparr>ac_state := F_INTENT_RECORDED, ac_receipt := None\<rparr>"

definition acq_armed_sample :: acq_record where
  "acq_armed_sample = acq_recorded_sample\<lparr>ac_state := F_DISPATCH_ARMED\<rparr>"

definition op_recorded_sample :: op_record where
  "op_recorded_sample = sample_write\<lparr>op_state := O_INTENT_RECORDED, op_authorization := None,
     op_receipt := None, op_verifications := []\<rparr>"

definition op_armed_sample :: op_record where
  "op_armed_sample = op_recorded_sample\<lparr>op_state := O_DISPATCH_ARMED,
     op_authorization := Some (sample_authorization sample_write_intent 104)\<rparr>"

definition op_blocked_sample :: op_record where
  "op_blocked_sample = op_recorded_sample\<lparr>op_state := O_BLOCKED,
     op_reason_code := Some OBSERVATION_MISMATCH, op_blocked_from := Some O_INTENT_RECORDED\<rparr>"

lemma working_fields [simp]:
  "at_plan_id (sample_working st r cs ps) = sample_plan" "at_plan_digest (sample_working st r cs ps) = sample_digest"
  "at_manifest_digest (sample_working st r cs ps) = sample_digest" "at_attempt (sample_working st r cs ps) = 1"
  "at_state (sample_working st r cs ps) = st" "at_max_observation_age_seconds (sample_working st r cs ps) = 60"
  "at_expected_writes (sample_working st r cs ps) = [sample_expected]" "at_acquisitions (sample_working st r cs ps) = cs"
  "at_operations (sample_working st r cs ps) = ps" "at_releases (sample_working st r cs ps) = []"
  "at_release_phase_sequence (sample_working st r cs ps) = None" "at_reason_code (sample_working st r cs ps) = r"
  "at_terminal_at (sample_working st r cs ps) = None"
  by (simp_all add: sample_working_def)

lemma working_updates:
  "sample_working st r cs ps\<lparr>at_acquisitions := cs'\<rparr> = sample_working st r cs' ps"
  "sample_working st r cs ps\<lparr>at_operations := ps'\<rparr> = sample_working st r cs ps'"
  "sample_working st r cs ps\<lparr>at_state := st', at_operations := ps', at_reason_code := r', at_terminal_at := None\<rparr> =
     sample_working st' r' cs ps'"
  by (simp_all add: sample_working_def)

lemma working_shared:
  "attempt_header_ok sample_hash (sample_working st r cs ps)" "release_phase_ok (sample_working st r cs ps)"
  "releases_ok sample_hash (sample_working st r cs ps)" "release_chains_ok (sample_working st r cs ps)"
  by (simp_all add: attempt_header_ok_def positive_ok_def freshness_ok_def expected_writes_ok_def
      expected_write_ok_def sample_expected_def nonnegative_ok_def release_phase_ok_def releases_ok_def
      release_chains_ok_def)

text \<open>The records themselves.\<close>

lemma acq_samples:
  "ac_intent acq_recorded_sample = sample_acq_intent 1 100" "ac_intent acq_armed_sample = sample_acq_intent 1 100"
  "ac_state acq_recorded_sample = F_INTENT_RECORDED" "ac_state acq_armed_sample = F_DISPATCH_ARMED"
  "ac_receipt acq_recorded_sample = None" "ac_receipt acq_armed_sample = None"
  "acq_record_ok sample_hash acq_recorded_sample" "acq_record_ok sample_hash acq_armed_sample"
  "acq_id acq_recorded_sample = acq_id (sample_acq 1 100)" "acq_id acq_armed_sample = acq_id (sample_acq 1 100)"
  "acq_arm sample_hash acq_recorded_sample = Inr acq_armed_sample"
proof -
  show ok: "acq_record_ok sample_hash acq_recorded_sample" "acq_record_ok sample_hash acq_armed_sample"
    by (simp_all add: acq_record_ok_def acq_recorded_sample_def acq_armed_sample_def sample_acq_def
        sample_acq_intent_ok pre_ack_def)
  show "acq_arm sample_hash acq_recorded_sample = Inr acq_armed_sample"
    using ok(2) by (simp add: acq_arm_def Let_def acq_armed_sample_def) (simp add: acq_recorded_sample_def)
qed (simp_all add: acq_recorded_sample_def acq_armed_sample_def sample_acq_fields acq_id_def)

lemma op_samples:
  "op_intent op_recorded_sample = sample_write_intent" "op_intent op_armed_sample = sample_write_intent"
  "op_intent op_blocked_sample = sample_write_intent"
  "op_state op_recorded_sample = O_INTENT_RECORDED" "op_state op_armed_sample = O_DISPATCH_ARMED"
  "op_state op_blocked_sample = O_BLOCKED"
  "op_authorization op_recorded_sample = None" "op_authorization op_blocked_sample = None"
  "op_authorization op_armed_sample = Some (sample_authorization sample_write_intent 104)"
  "op_receipt op_recorded_sample = None" "op_receipt op_armed_sample = None" "op_receipt op_blocked_sample = None"
  "op_verifications op_recorded_sample = []" "op_verifications op_armed_sample = []" "op_verifications op_blocked_sample = []"
  "op_id op_recorded_sample = op_id sample_write" "op_id op_armed_sample = op_id sample_write"
  "op_id op_blocked_sample = op_id sample_write"
  "is_write op_recorded_sample" "is_write op_armed_sample" "is_write op_blocked_sample"
  "op_key op_recorded_sample = (''lovelace'', ''key'')" "op_key op_armed_sample = (''lovelace'', ''key'')"
  "op_key op_blocked_sample = (''lovelace'', ''key'')"
  by (simp_all add: op_armed_sample_def op_blocked_sample_def op_recorded_sample_def op_id_def sample_op_fields
      is_write_def op_key_def sample_write_intent_def sample_intent_fields)

lemma op_samples_ok:
  "op_record_ok sample_hash op_recorded_sample" "op_record_ok sample_hash op_armed_sample"
  "op_record_ok sample_hash op_blocked_sample"
  "authorization_ok sample_hash (sample_authorization sample_write_intent 104)"
  "authorization_valid_for sample_hash (sample_authorization sample_write_intent 104) sample_write_intent"
proof -
  have w: "op_record_ok sample_hash sample_write" by (rule sample_write_ok)
  then show a: "authorization_ok sample_hash (sample_authorization sample_write_intent 104)"
      "authorization_valid_for sample_hash (sample_authorization sample_write_intent 104) sample_write_intent"
    by (simp_all add: op_record_ok_def sample_op_fields)
  have i: "obj_intent_ok sample_hash sample_write_intent" "op_reason_code sample_write = None" "op_blocked_from sample_write = None"
    using w by (simp_all add: op_record_ok_def sample_op_fields sample_write_def sample_op_def)
  show "op_record_ok sample_hash op_recorded_sample" "op_record_ok sample_hash op_armed_sample"
      "op_record_ok sample_hash op_blocked_sample"
    using a i by (simp_all add: op_record_ok_def op_armed_sample_def op_blocked_sample_def op_recorded_sample_def
        sample_op_fields evidence_shape_def causally_ordered_def)
qed

lemma op_samples_step:
  "op_arm sample_hash op_recorded_sample (sample_authorization sample_write_intent 104) = Inr op_armed_sample"
  "op_block sample_hash op_recorded_sample OBSERVATION_MISMATCH = Inr op_blocked_sample"
  using op_samples_ok(2,3)
  by (simp_all add: op_transition_simps op_samples(4)) (simp_all add: op_armed_sample_def op_blocked_sample_def op_samples(4))

text \<open>The attempt is valid while its fence is being acquired and while its write is being prepared.\<close>

lemma working_acquiring:
  assumes "c \<in> {acq_recorded_sample, acq_armed_sample}"
  shows "attempt_ok sample_hash (sample_working A_OPEN None [c] [])"
proof -
  have "acquisitions_ok sample_hash (sample_working A_OPEN None [c] [])"
    using assms acq_samples
    by (auto simp: acquisitions_ok_def acquisition_step_ok_def sample_acq_fields last_option_def)
  moreover have "acquisition_chains_ok (sample_working A_OPEN None [c] [])"
    using assms by (auto simp: acquisition_chains_ok_def provider_acquisitions_def acq_samples sample_acq_fields)
  moreover have "attempt_state_ok (sample_working A_OPEN None [c] [])"
    using assms by (auto simp: attempt_state_ok_def blocked_evidence_def acq_samples)
  ultimately show ?thesis by (simp add: attempt_ok_def working_shared operations_ok_def)
qed

lemma working_write_step:
  assumes "p \<in> {op_recorded_sample, op_armed_sample, op_blocked_sample}"
  shows "operation_step_ok sample_hash (sample_working st r [sample_acq 1 100] [p]) [] p"
proof -
  have "write_step_ok (sample_working st r [sample_acq 1 100] [p]) [] p"
    using assms by (auto simp: write_step_ok_def op_samples sample_expected_def ew_key_def intent_matches_expected_def
        sample_write_intent_def sample_intent_fields)
  moreover have "op_id sample_write \<noteq> acq_id (sample_acq 1 100)" using sample_ids by metis
  moreover have "observation_fresh (secs 104) (secs 105) (sample_working st r [sample_acq 1 100] [p])"
    by (simp add: observation_fresh_def) (simp add: secs_def)
  moreover have "oi_plan_id sample_write_intent = sample_plan" "oi_plan_digest sample_write_intent = sample_digest"
      "oi_manifest_digest sample_write_intent = sample_digest" "oi_attempt sample_write_intent = 1"
      "oi_sequence sample_write_intent = 1"
      "oi_fence sample_write_intent = acq_receipt_binding (sample_acq_receipt 1 100)"
    by (simp_all add: sample_write_intent_def sample_intent_fields)
  ultimately show ?thesis
    using assms op_samples_ok(1-3)
    by (elim insertE emptyE) (simp_all add: operation_step_ok_def op_samples sample_evidence_fields
        acquisition_by_id_def sample_intent_fields sample_acq_fields)
qed

lemma working_writing:
  assumes "st = A_OPEN \<and> r = None \<and> p \<in> {op_recorded_sample, op_armed_sample} \<or>
    st = A_BLOCKED \<and> r = Some OBSERVATION_MISMATCH \<and> p = op_blocked_sample"
  shows "attempt_ok sample_hash (sample_working st r [sample_acq 1 100] [p])"
proof -
  let ?a = "sample_working st r [sample_acq 1 100] [p]"
  have "acquisitions_ok sample_hash ?a"
    by (simp add: acquisitions_ok_def acquisition_step_ok_def sample_acq_fields sample_acq_ok last_option_def
        acq_receipt_ids_def)
  moreover have "operations_ok sample_hash ?a"
    using assms working_write_step[of p st r] by (auto simp: operations_ok_def)
  moreover have "acquisition_chains_ok ?a"
    by (simp add: acquisition_chains_ok_def provider_acquisitions_def sample_acq_fields)
  moreover have "attempt_state_ok ?a"
    using assms by (auto simp: attempt_state_ok_def blocked_evidence_def op_samples sample_acq_fields)
  ultimately show ?thesis by (simp add: attempt_ok_def working_shared)
qed

section \<open>Its journal\<close>

definition working_journal :: "acq_record list \<Rightarrow> op_record list \<Rightarrow> journal" where
  "working_journal cs ps = journal_run sample_hash [AppendAttempt (sample_working A_OPEN None cs ps)]"

lemma working_inv: "journal_inv sample_hash (working_journal cs ps)"
  unfolding working_journal_def by (rule journal_run_inv)

lemma working_appended:
  "attempt_at (working_journal [acq_recorded_sample] []) sample_plan 1 =
     Some (sample_working A_OPEN None [acq_recorded_sample] [])"
  "attempt_at (working_journal [sample_acq 1 100] [op_recorded_sample]) sample_plan 1 =
     Some (sample_working A_OPEN None [sample_acq 1 100] [op_recorded_sample])"
proof -
  have id: "op_id sample_write \<noteq> acq_id (sample_acq 1 100)" using sample_ids by metis
  show "attempt_at (working_journal [acq_recorded_sample] []) sample_plan 1 =
     Some (sample_working A_OPEN None [acq_recorded_sample] [])"
    unfolding working_journal_def
    using append_to_empty[OF working_acquiring[of acq_recorded_sample]]
    by (simp add: unclaimed_attempt_def identity_rows_def epoch_history_ok_def journal_empty_def history_key_def acq_samples)
  show "attempt_at (working_journal [sample_acq 1 100] [op_recorded_sample]) sample_plan 1 =
     Some (sample_working A_OPEN None [sample_acq 1 100] [op_recorded_sample])"
    unfolding working_journal_def
    using append_to_empty[OF working_writing[of A_OPEN None op_recorded_sample]] id
    by (simp add: unclaimed_attempt_def identity_rows_def epoch_history_ok_def journal_empty_def history_key_def
        sample_acq_fields op_samples)
qed

lemma working_acquiring_gets:
  "get_acquisition (working_journal [acq_recorded_sample] []) (acq_id (sample_acq 1 100)) = Inr acq_recorded_sample"
  using get_acquisition_found[OF working_inv working_appended(1), of acq_recorded_sample] by (simp add: acq_samples)

lemma working_writing_gets:
  "get_operation (working_journal [sample_acq 1 100] [op_recorded_sample]) (op_id sample_write) = Inr op_recorded_sample"
  "get_attempt (working_journal [sample_acq 1 100] [op_recorded_sample]) sample_plan 1 =
     Inr (sample_working A_OPEN None [sample_acq 1 100] [op_recorded_sample])"
  using get_operation_found[OF working_inv working_appended(2), of op_recorded_sample]
    get_attempt_found[OF working_inv working_appended(2)] by (simp_all add: op_samples)

lemma store_attempt_found:
  assumes "journal_inv H j" "attempt_at j (at_plan_id a) (at_attempt a) = Some b" "attempt_ok H a"
  shows "\<exists>j'. store_attempt H a j = (Inr (), j')"
  using assms by (auto simp: store_attempt_def attempt_at_def split: option.splits if_splits)

text \<open>Arming the fence and the write of the sample succeeds.\<close>

lemma working_arm_acquisition:
  "\<exists>j'. arm_acquisition sample_hash (acq_id (sample_acq 1 100)) (working_journal [acq_recorded_sample] []) =
    (Inr acq_armed_sample, j')"
proof -
  let ?j = "working_journal [acq_recorded_sample] []"
  have inv: "journal_inv sample_hash ?j" by (rule working_inv)
  from get_acquisition_Inr[OF inv working_acquiring_gets] obtain p n k b where
    b: "acquisition_location ?j (acq_id (sample_acq 1 100)) = Inr (p, n, k)" "attempt_at ?j p n = Some b"
      "get_attempt ?j p n = Inr b" "k < length (at_acquisitions b)" "at_acquisitions b ! k = acq_recorded_sample"
      "j_acquisition_index ?j (acq_id (sample_acq 1 100)) = Some (p, n, k)" .
  have "j_acquisition_index ?j (acq_id (sample_acq 1 100)) = Some (sample_plan, 1, 0)"
    using index_okD(2)[OF indexes_invD(1)[OF inv] working_appended(1), of 0] by (simp add: acq_ids_def acq_samples)
  then have pn: "p = sample_plan" "n = 1" "k = 0" and bb: "b = sample_working A_OPEN None [acq_recorded_sample] []"
    using b working_appended(1) by simp_all
  obtain j' where "store_attempt sample_hash (sample_working A_OPEN None [acq_armed_sample] []) ?j = (Inr (), j')"
    using store_attempt_found[OF inv, of "sample_working A_OPEN None [acq_armed_sample] []"] working_appended(1)
      working_acquiring[of acq_armed_sample] by auto
  then show ?thesis
    using b(1,3) by (simp add: arm_acquisition_def working_acquiring_gets acq_samples replace_acquisition_def pn bb
        working_updates then_return_def)
qed

lemma working_replace_object:
  assumes "attempt_ok sample_hash (sample_working A_OPEN None [sample_acq 1 100] [p'])" "op_id p' = op_id sample_write"
  shows "\<exists>j'. replace_object sample_hash p' x (working_journal [sample_acq 1 100] [op_recorded_sample]) = (Inr (), j')"
    "object_location (working_journal [sample_acq 1 100] [op_recorded_sample]) (op_id sample_write) = Inr (sample_plan, 1, 0)"
proof -
  let ?j = "working_journal [sample_acq 1 100] [op_recorded_sample]"
  have inv: "journal_inv sample_hash ?j" by (rule working_inv)
  from get_operation_Inr[OF inv working_writing_gets(1)] obtain p n k b where
    b: "object_location ?j (op_id sample_write) = Inr (p, n, k)" "j_object_index ?j (op_id sample_write) = Some (p, n, k)" .
  have "j_object_index ?j (op_id sample_write) = Some (sample_plan, 1, 0)"
    using index_okD(2)[OF indexes_invD(2)[OF inv] working_appended(2), of 0] by (simp add: op_ids_def op_samples)
  then show loc: "object_location ?j (op_id sample_write) = Inr (sample_plan, 1, 0)" using b by simp
  obtain j' where "store_attempt sample_hash (sample_working A_OPEN None [sample_acq 1 100] [p']) ?j = (Inr (), j')"
    using store_attempt_found[OF inv, of "sample_working A_OPEN None [sample_acq 1 100] [p']"] working_appended(2) assms(1)
    by auto
  then show "\<exists>j'. replace_object sample_hash p' x ?j = (Inr (), j')"
    using loc working_writing_gets(2) by (simp add: replace_object_def assms(2) working_updates)
qed

lemma working_arm_operation:
  "\<exists>j'. arm_operation sample_hash (op_id sample_write) (sample_authorization sample_write_intent 104)
     (working_journal [sample_acq 1 100] [op_recorded_sample]) = (Inr op_armed_sample, j')"
proof -
  note ok = working_writing[of A_OPEN None op_armed_sample]
  have fresh: "observation_fresh (secs 104) (secs 105) (sample_working A_OPEN None [sample_acq 1 100] [op_recorded_sample])"
    by (simp add: observation_fresh_def) (simp add: secs_def)
  have fence: "fb_acquisition_operation_id (oi_fence sample_write_intent) = acq_id (sample_acq 1 100)"
    unfolding sample_write_intent_def sample_intent_fields ..
  show ?thesis
    using working_replace_object(1)[of op_armed_sample False] working_replace_object(2)[of op_armed_sample] ok op_samples_ok fresh
    by (auto simp: arm_operation_def working_writing_gets op_samples op_samples_step sample_evidence_fields fence
        acquisition_by_id_def sample_acq_fields release_chain_def then_return_def)
qed

section \<open>Properties\<close>

text \<open>C4. No blind redispatch: from any reachable journal and authority, in any interleaving of
  recorder calls with the host's fence operations, each effect (acquiring a fence, rewriting an
  object, releasing a fence) is answered with \<open>DISPATCH\<close> at most once.\<close>
theorem effect_dispatched_at_most_once:
  "distinct (fired (bridge_step H m) (dispatch_answer H m)
     \<lparr>br_journal = journal_run H jops, br_authority = authority_run H aops\<rparr> ops)"
  by (rule bridge_dispatch.fired_distinct) (simp add: journal_run_inv)


text \<open>C5. When \<open>reconcile\<close> answers \<open>DISPATCH\<close>, the authorization is already durable and the
  dispatch is safe: the authority currently holds exactly the fence of the intent, not expired, and
  the observation the authorization records shows the expected preimage, taken under the fence and
  no older than the freshness bound.\<close>
theorem object_dispatch_guarded:
  assumes "reconcile H m (authority_run H aops) i (Some v) at (journal_run H jops) = (Inr DISPATCH, j')"
  shows "\<exists>q z. get_operation j' i = Inr q \<and> op_state q = O_DISPATCH_ARMED \<and> op_authorization q = Some z \<and>
    da_authorized_at z = at \<and> da_observed_at z = ob_observed_at v \<and>
    fa_bindings (authority_run H aops) (fb_provider (oi_fence (op_intent q))) = Some (oi_fence (op_intent q)) \<and>
    at < fb_expires_at (oi_fence (op_intent q)) \<and>
    ob_revision v = oi_expected_revision (op_intent q) \<and> ob_fingerprint v = oi_pre_fingerprint (op_intent q) \<and>
    fb_acquisition_durable_at (oi_fence (op_intent q)) \<le> ob_observed_at v \<and>
    ob_observed_at v \<le> at \<and> at - ob_observed_at v \<le> m * 1000000"
  using assms
proof (rule reconcile_dispatch)
  fix p w a
  assume p: "get_operation (journal_run H jops) i = Inr p" and w: "Some v = Some w"
    and a: "attempt_for_intent m (op_intent p) (journal_run H jops) = Inr a"
      "observation_fresh (ob_observed_at w) at a"
    and r: "reconcile_recorded H (authority_run H aops) i p w at (journal_run H jops) = (Inr DISPATCH, j')"
  have age: "at_max_observation_age_seconds a = m"
    using a(1) by (auto simp: attempt_for_intent_def split: sum.splits if_splits)
  from r show ?thesis
  proof (rule reconcile_recorded_dispatch)
    fix z d
    assume g: "fb_acquisition_durable_at (oi_fence (op_intent p)) \<le> ob_observed_at w"
        "observation_is_preimage w (op_intent p)"
        "require_current_live_fence (authority_run H aops) (oi_fence (op_intent p)) at = Inr ()"
        "authorization_create H (op_intent p) w at = Inr z"
      and d: "arm_operation H i z (journal_run H jops) = (Inr d, j')"
    note q = arm_operation_armed[OF journal_run_inv p d]
    have "da_authorized_at z = at" "da_observed_at z = ob_observed_at w"
      using g(4) by (auto simp: authorization_create_def seal_authorization_def Let_def split: if_splits)
    moreover have "fa_bindings (authority_run H aops) (fb_provider (oi_fence (op_intent p))) = Some (oi_fence (op_intent p))"
        "at < fb_expires_at (oi_fence (op_intent p))"
      using g(3) by (auto simp: require_current_live_fence_def current_binding_def fence_live_at_def split: sum.splits if_splits)
    moreover have "ob_revision w = oi_expected_revision (op_intent p)" "ob_fingerprint w = oi_pre_fingerprint (op_intent p)"
      using g(2) by (simp_all add: observation_is_preimage_def)
    moreover have "ob_observed_at w \<le> at" "at - ob_observed_at w \<le> m * 1000000"
      using a(2) age by (simp_all add: observation_fresh_def)
    ultimately show ?thesis using q g(1) w by (intro exI[of _ d] exI[of _ z]) simp
  qed
qed

definition sample_observation :: observation where
  "sample_observation = \<lparr>ob_provider = ''lovelace'', ob_object_key = ''key'', ob_revision = RInt 5,
     ob_fingerprint = sample_pre, ob_observed_at = secs 104\<rparr>"

lemma sample_reconcile:
  "\<exists>j'. reconcile sample_hash 60 (authority_run sample_hash [sample_acquire 1 100]) (op_id sample_write)
     (Some sample_observation) (secs 105) (working_journal [sample_acq 1 100] [op_recorded_sample]) = (Inr DISPATCH, j')"
proof -
  let ?f = "acq_receipt_binding (sample_acq_receipt 1 100)"
  have i: "oi_plan_id sample_write_intent = sample_plan" "oi_attempt sample_write_intent = 1"
      "oi_fence sample_write_intent = ?f" "oi_provider sample_write_intent = ''lovelace''"
      "oi_object_key sample_write_intent = ''key''" "oi_expected_revision sample_write_intent = RInt 5"
      "oi_pre_fingerprint sample_write_intent = sample_pre" "oi_post_fingerprint sample_write_intent = sample_post"
    by (simp_all add: sample_write_intent_def sample_intent_fields)
  have f: "fb_provider ?f = ''lovelace''" "fb_acquired_at ?f = secs 101" "fb_expires_at ?f = secs 200"
      "fb_acquisition_durable_at ?f = secs 103"
      "ar_provider (sample_acq_receipt 1 100) = ''lovelace''"
    by (simp_all add: acq_receipt_binding_def sample_acq_receipt_def)
  have o: "ob_provider sample_observation = ''lovelace''" "ob_object_key sample_observation = ''key''"
      "ob_revision sample_observation = RInt 5" "ob_fingerprint sample_observation = sample_pre"
      "ob_observed_at sample_observation = secs 104" "observation_ok sample_observation"
    by (simp_all add: sample_observation_def observation_ok_def)
  have fresh: "observation_fresh (secs 104) (secs 105) (sample_working A_OPEN None [sample_acq 1 100] [op_recorded_sample])"
    by (simp add: observation_fresh_def) (simp add: secs_def)
  have live: "require_current_live_fence (authority_run sample_hash [sample_acquire 1 100]) ?f (secs 105) = Inr ()"
    using sample_first_acquire(4) by (simp add: require_current_live_fence_def current_binding_def f fence_live_at_def checked_def)
  have "obj_intent_ok sample_hash sample_write_intent"
    using op_samples_ok(1) by (simp add: op_record_ok_def op_samples)
  then have "authorization_create sample_hash sample_write_intent sample_observation (secs 105) =
      Inr (sample_authorization sample_write_intent 104)"
    using op_samples_ok(5) o by (simp add: authorization_create_def sample_authorization_def i Let_def checked_def)
  then show ?thesis
    using working_arm_operation live fresh
    by (auto simp: reconcile_def working_writing_gets op_samples o attempt_for_intent_def i observation_identity_matches_def
        reconcile_recorded_def f observation_is_postimage_def observation_is_preimage_def)
qed

theorem object_dispatch_guarded_witness:
  "\<exists>j' q. reconcile sample_hash 60 (authority_run sample_hash [sample_acquire 1 100]) (op_id sample_write)
      (Some sample_observation) (secs 105) (working_journal [sample_acq 1 100] [op_recorded_sample]) = (Inr DISPATCH, j') \<and>
    get_operation j' (op_id sample_write) = Inr q \<and> op_state q = O_DISPATCH_ARMED"
proof -
  obtain j' where "reconcile sample_hash 60 (authority_run sample_hash [sample_acquire 1 100]) (op_id sample_write)
      (Some sample_observation) (secs 105) (working_journal [sample_acq 1 100] [op_recorded_sample]) = (Inr DISPATCH, j')"
    using sample_reconcile by blast
  from this object_dispatch_guarded[OF this[unfolded working_journal_def]] show ?thesis by blast
qed

text \<open>C14. A fence acquisition is only dispatched while the provider's fence is free, the authority
  has no receipt for it, and its lease has not expired; its intent is durably armed by then.\<close>
theorem acquisition_dispatch_guarded:
  assumes "reconcile_acquisition H (authority_run H aops) i at (journal_run H jops) = (Inr DISPATCH, j')"
  shows "\<exists>c. get_acquisition j' i = Inr c \<and> ac_state c = F_DISPATCH_ARMED \<and>
    fa_bindings (authority_run H aops) (ai_provider (ac_intent c)) = None \<and>
    fa_acquisitions (authority_run H aops) i = None \<and>
    ai_requested_at (ac_intent c) \<le> at \<and> at < ai_expires_at (ac_intent c)"
  using assms
proof (rule reconcile_acquisition_dispatch)
  fix c d
  assume c: "get_acquisition (journal_run H jops) i = Inr c" "ac_state c = F_INTENT_RECORDED"
    "ai_requested_at (ac_intent c) \<le> at" "at < ai_expires_at (ac_intent c)"
    "acquisition_receipt (authority_run H aops) i = Inr None"
    "current_binding (authority_run H aops) (ai_provider (ac_intent c)) = Inr None"
    and d: "arm_acquisition H i (journal_run H jops) = (Inr d, j')"
  have "ac_intent d = ac_intent c"
    using d c(1,2) by (auto simp: arm_acquisition_def acq_arm_def Let_def then_return_Inr split: if_splits sum.splits)
  then show ?thesis
    using arm_acquisition_armed[OF journal_run_inv d] c(3-6)
    by (intro exI[of _ d]) (simp add: acquisition_receipt_def current_binding_def)
qed

theorem acquisition_dispatch_guarded_witness:
  "\<exists>j' c. reconcile_acquisition sample_hash (authority_run sample_hash []) (acq_id (sample_acq 1 100)) (secs 101)
      (working_journal [acq_recorded_sample] []) = (Inr DISPATCH, j') \<and>
    get_acquisition j' (acq_id (sample_acq 1 100)) = Inr c \<and> ac_state c = F_DISPATCH_ARMED"
proof -
  have id: "acquire_id_ok (acq_id (sample_acq 1 100))" by (rule sample_ids_ok)
  have x: "ai_expires_at (sample_acq_intent 1 100) = secs 200" by (simp add: sample_acq_intent_def)
  obtain j' where r: "reconcile_acquisition sample_hash (authority_run sample_hash []) (acq_id (sample_acq 1 100)) (secs 101)
      (working_journal [acq_recorded_sample] []) = (Inr DISPATCH, j')"
    using working_arm_acquisition id
    by (auto simp: reconcile_acquisition_def working_acquiring_gets acq_samples sample_acq_fields x
        acquisition_receipt_def current_binding_def authority_empty_def checked_def)
  from r acquisition_dispatch_guarded[OF r[unfolded working_journal_def]] show ?thesis by blast
qed

text \<open>C15. The two ways to dispatch a rewrite agree: \<open>arm\<close> returns a record exactly when
  \<open>reconcile\<close> on the same observation answers \<open>DISPATCH\<close>, and both leave the same journal.\<close>
theorem arm_agrees_with_reconcile:
  "(\<exists>q. arm H m s i v at j = (Inr q, j')) \<longleftrightarrow> reconcile H m s i (Some v) at j = (Inr DISPATCH, j')"
proof
  assume "\<exists>q. arm H m s i v at j = (Inr q, j')"
  then obtain q where q: "arm H m s i v at j = (Inr q, j')" ..
  have nb: "block_and_raise H i reason j \<noteq> (Inr q, j')" for reason
    by (simp add: block_and_raise_def split: prod.splits sum.splits)
  show "reconcile H m s i (Some v) at j = (Inr DISPATCH, j')"
    using q unfolding arm_def reconcile_def reconcile_recorded_def
    by (auto simp: nb observation_is_preimage_def split: if_splits sum.splits txn_error.splits)
next
  assume "reconcile H m s i (Some v) at j = (Inr DISPATCH, j')"
  then show "\<exists>q. arm H m s i v at j = (Inr q, j')"
    by (elim reconcile_dispatch reconcile_recorded_dispatch) (auto simp: arm_def not_le)
qed

end
