(* ===== verification/Codec_Time.thy ===== *)
theory Codec_Time
  imports Txn_Values
begin

text \<open>
  Reading a timestamp back (\<open>_decode_timestamp\<close>). The code parses with \<open>datetime.fromisoformat\<close> and
  then insists that \<open>_encode_timestamp\<close> yields the same text, so only the canonical layout can be
  accepted; the model parses that layout. Shown here: the calendar arithmetic inverts, hence every
  time a \<open>datetime\<close> can hold is read back exactly.
\<close>

section \<open>Parsing\<close>

definition is_digit :: "char \<Rightarrow> bool" where
  "is_digit c \<longleftrightarrow> 48 \<le> char_code c \<and> char_code c \<le> 57"

definition digits_value :: "string \<Rightarrow> nat" where
  "digits_value = foldl (\<lambda>n c. 10 * n + (char_code c - 48)) 0"

definition slice :: "nat \<Rightarrow> nat \<Rightarrow> string \<Rightarrow> string" where
  "slice a w s = take w (drop a s)"

definition leap_year :: "nat \<Rightarrow> bool" where
  "leap_year y \<longleftrightarrow> y mod 4 = 0 \<and> (y mod 100 \<noteq> 0 \<or> y mod 400 = 0)"

definition month_lengths :: "bool \<Rightarrow> nat list" where
  "month_lengths leap = [31, if leap then 29 else 28, 31, 30, 31, 30, 31, 31, 30, 31, 30, 31]"

text \<open>Days from 0001-01-01 to the given date.\<close>

definition days_before :: "nat \<Rightarrow> nat \<Rightarrow> nat \<Rightarrow> nat" where
  "days_before y m d =
     365 * (y - 1) + (y - 1) div 4 - (y - 1) div 100 + (y - 1) div 400 +
     sum_list (take (m - 1) (month_lengths (leap_year y))) + (d - 1)"

definition civil_ok :: "nat \<Rightarrow> nat \<Rightarrow> nat \<Rightarrow> bool" where
  "civil_ok y m d \<longleftrightarrow> 1 \<le> y \<and> y \<le> 9999 \<and> 1 \<le> m \<and> m \<le> 12 \<and> 1 \<le> d \<and>
     d \<le> month_lengths (leap_year y) ! (m - 1)"

definition iso_layout :: "string \<Rightarrow> bool" where
  "iso_layout s \<longleftrightarrow>
     (length s = 20 \<or> length s = 27 \<and> s ! 19 = CHR ''.'') \<and>
     s ! 4 = CHR ''-'' \<and> s ! 7 = CHR ''-'' \<and> s ! 10 = CHR ''T'' \<and> s ! 13 = CHR '':'' \<and>
     s ! 16 = CHR '':'' \<and> last s = CHR ''Z'' \<and>
     list_all is_digit (slice 0 4 s @ slice 5 2 s @ slice 8 2 s @ slice 11 2 s @ slice 14 2 s @ slice 17 2 s @
       (if length s = 27 then slice 20 6 s else []))"

definition parse_timestamp :: "string \<Rightarrow> time option" where
  "parse_timestamp s =
     (if \<not> iso_layout s then None
      else let y = digits_value (slice 0 4 s); m = digits_value (slice 5 2 s); d = digits_value (slice 8 2 s);
               hh = digits_value (slice 11 2 s); mm = digits_value (slice 14 2 s); ss = digits_value (slice 17 2 s);
               us = (if length s = 27 then digits_value (slice 20 6 s) else 0)
           in if civil_ok y m d \<and> hh < 24 \<and> mm < 60 \<and> ss < 60
              then Some (int ((days_before y m d * 86400 + hh * 3600 + mm * 60 + ss) * 1000000 + us))
              else None)"

text \<open>What a Python \<open>datetime\<close> can hold: the years 1 to 9999.\<close>

definition time_ok :: "time \<Rightarrow> bool" where
  "time_ok t \<longleftrightarrow> 0 \<le> t \<and> t < 3652059 * 86400000000"

section \<open>Digits\<close>

lemma digit_char_value: "n < 10 \<Longrightarrow> char_code (digit_char n) = 48 + n"
  by (auto simp: digit_char_def char_code_def less_Suc_eq numeral_eq_Suc)

lemma pad_nat_digits: "list_all is_digit (pad_nat w n)"
  by (induction w arbitrary: n) (simp_all add: is_digit_def digit_char_value)

lemma digits_value_Nil [simp]: "digits_value [] = 0"
  by (simp add: digits_value_def)

lemma digits_value_snoc: "digits_value (s @ [c]) = 10 * digits_value s + (char_code c - 48)"
  by (simp add: digits_value_def)

lemma digits_value_pad: "digits_value (pad_nat w n) = n mod 10 ^ w"
proof (induction w arbitrary: n)
  case 0
  show ?case by (simp add: digits_value_def)
next
  case (Suc w)
  have "digits_value (pad_nat (Suc w) n) = 10 * (n div 10 mod 10 ^ w) + n mod 10"
    by (simp add: digits_value_snoc Suc digit_char_value)
  also have "\<dots> = n mod 10 ^ Suc w" by (simp add: mod_mult2_eq)
  finally show ?case .
qed

section \<open>The calendar\<close>

lemma month_day_position:
  "n < sum_list ds \<Longrightarrow> month_day ds k n = (m, d) \<Longrightarrow>
    \<exists>i. m = k + i \<and> i < length ds \<and> 1 \<le> d \<and> d \<le> ds ! i \<and> sum_list (take i ds) + (d - 1) = n"
proof (induction ds arbitrary: k n)
  case (Cons x ds)
  show ?case
  proof (cases "n < x")
    case True
    then show ?thesis using Cons.prems by (intro exI[of _ 0]) auto
  next
    case False
    then have "n - x < sum_list ds" "month_day ds (k + 1) (n - x) = (m, d)" using Cons.prems by simp_all
    from Cons.IH[OF this] obtain i where i: "m = k + 1 + i" "i < length ds" "1 \<le> d" "d \<le> ds ! i"
        "sum_list (take i ds) + (d - 1) = n - x" by blast
    then show ?thesis using False by (intro exI[of _ "Suc i"]) auto
  qed
qed simp

lemma month_day_inverse:
  assumes "n < sum_list (month_lengths leap)" "month_day (month_lengths leap) 1 n = (m, d)"
  shows "1 \<le> m" "m \<le> 12" "1 \<le> d" "d \<le> month_lengths leap ! (m - 1)"
    "sum_list (take (m - 1) (month_lengths leap)) + (d - 1) = n"
  using month_day_position[OF assms] by (auto simp: month_lengths_def)

text \<open>The cycles of 400, 100, 4 and 1 years.\<close>

lemma divmod_unique: "(y::nat) = k * q + r \<Longrightarrow> r < k \<Longrightarrow> y div k = q \<and> y mod k = r"
  by simp

lemma year_split:
  fixes y :: nat
  assumes "y = a * 400 + b * 100 + c * 4 + e" "b \<le> 3" "c \<le> 24" "e \<le> 3"
  shows "y div 4 = a * 100 + b * 25 + c" "y div 100 = a * 4 + b" "y div 400 = a"
    "leap_year (Suc y) \<longleftrightarrow> e = 3 \<and> (c \<noteq> 24 \<or> b = 3)"
proof -
  have d4: "y div 4 = a * 100 + b * 25 + c \<and> y mod 4 = e"
    by (rule divmod_unique) (use assms in simp_all)
  have d100: "y div 100 = a * 4 + b \<and> y mod 100 = c * 4 + e"
    by (rule divmod_unique) (use assms in simp_all)
  have d400: "y div 400 = a \<and> y mod 400 = b * 100 + c * 4 + e"
    by (rule divmod_unique) (use assms in simp_all)
  show "y div 4 = a * 100 + b * 25 + c" "y div 100 = a * 4 + b" "y div 400 = a"
    using d4 d100 d400 by simp_all
  have "Suc y mod 4 = 0 \<longleftrightarrow> e = 3" using d4 by (auto simp: mod_Suc)
  moreover have "Suc y mod 100 = 0 \<longleftrightarrow> c = 24 \<and> e = 3" using d100 assms(3,4) by (auto simp: mod_Suc)
  moreover have "Suc y mod 400 = 0 \<longleftrightarrow> b = 3 \<and> c = 24 \<and> e = 3" using d400 assms(2-4) by (auto simp: mod_Suc)
  ultimately show "leap_year (Suc y) \<longleftrightarrow> e = 3 \<and> (c \<noteq> 24 \<or> b = 3)"
    unfolding leap_year_def by auto
qed

lemma year_days:
  fixes y :: nat
  assumes "y = a * 400 + b * 100 + c * 4 + e" "b \<le> 3" "c \<le> 24" "e \<le> 3"
  shows "365 * y + y div 4 - y div 100 + y div 400 = 146097 * a + 36524 * b + 1461 * c + 365 * e"
  unfolding year_split(1-3)[OF assms] using assms(1) by simp

lemma sum_month_lengths: "sum_list (month_lengths leap) = (if leap then 366 else 365)"
  by (simp add: month_lengths_def)

theorem civil_date_inverse:
  assumes "n < 3652059" "civil_date n = (y, m, d)"
  shows "civil_ok y m d" "days_before y m d = n"
proof -
  define a where "a = n div 146097"
  define ra where "ra = n mod 146097"
  define b where "b = ra div 36524"
  define rb where "rb = ra mod 36524"
  define c where "c = rb div 1461"
  define rc where "rc = rb mod 1461"
  define e where "e = rc div 365"
  define re where "re = rc mod 365"
  note defs = a_def ra_def b_def rb_def c_def rc_def e_def re_def
  have n: "n = 146097 * a + ra" "ra = 36524 * b + rb" "rb = 1461 * c + rc" "rc = 365 * e + re"
    by (simp_all add: defs)
  have lt: "ra < 146097" "rb < 36524" "rc < 1461" "re < 365" by (simp_all add: defs)
  have le: "a \<le> 24" "b \<le> 4" "c \<le> 24" "e \<le> 4" using assms(1) n lt by linarith+
  have cd: "civil_date n = (let year = a * 400 + 1 + b * 100 + c * 4 + e; leap = (e = 3 \<and> (c \<noteq> 24 \<or> b = 3))
      in if e = 4 \<or> b = 4 then (year - 1, 12, 31) else (year, month_day (month_lengths leap) 1 re))"
    unfolding civil_date_def defs Let_def month_lengths_def by (rule refl)
  show "civil_ok y m d" "days_before y m d = n"
  proof -
    have "civil_ok y m d \<and> days_before y m d = n"
    proof (cases "e = 4 \<or> b = 4")
      case False
      define y0 where "y0 = a * 400 + b * 100 + c * 4 + e"
      define leap where "leap = (e = 3 \<and> (c \<noteq> 24 \<or> b = 3))"
      have be: "b \<le> 3" "e \<le> 3" using False le by auto
      have y: "y = Suc y0" and md: "month_day (month_lengths leap) 1 re = (m, d)"
        using assms(2) False unfolding cd Let_def y0_def leap_def by auto
      have lp: "leap_year y = leap"
        unfolding y leap_def by (rule year_split(4)[OF y0_def be(1) le(3) be(2)])
      have "re < sum_list (month_lengths leap)" using lt(4) by (simp add: sum_month_lengths)
      note M = month_day_inverse[OF this md]
      have "365 * y0 + y0 div 4 - y0 div 100 + y0 div 400 = 146097 * a + 36524 * b + 1461 * c + 365 * e"
        by (rule year_days[OF y0_def be(1) le(3) be(2)])
      then have "days_before y m d = n"
        using M(5) n unfolding days_before_def lp by (simp add: y)
      moreover have "y \<le> 9999" using be le n assms(1) unfolding y y0_def by linarith
      ultimately show ?thesis using M(1-4) unfolding civil_ok_def lp by (simp add: y)
    next
      case True
      define y0 where "y0 = a * 400 + b * 100 + c * 4 + e - 1"
      have ymd: "y = y0 + 1" "m = 12" "d = 31"
        using assms(2) True unfolding cd Let_def y0_def by auto
      have split: "\<exists>a' b' c'. y0 = a' * 400 + b' * 100 + c' * 4 + 3 \<and> b' \<le> 3 \<and> c' \<le> 24 \<and> a' \<le> 24 \<and>
        146097 * a' + 36524 * b' + 1461 * c' + 365 * 3 + (if c' \<noteq> 24 \<or> b' = 3 then 365 else 364) = n"
      proof (cases "b = 4")
        case b4: True
        then have "ra = 146096" using n(2) lt(1,2) by linarith
        then have "rb = 0" using n(2) b4 by simp
        then have "c = 0" "e = 0" using n(3,4) by simp_all
        then show ?thesis using b4 n le \<open>rb = 0\<close> unfolding y0_def
          by (intro exI[of _ a] exI[of _ 3] exI[of _ 24]) simp
      next
        case False
        then have e4: "e = 4" and b3: "b \<le> 3" using True le by auto
        then have re: "re = 0" using n(4) lt(3) by simp
        have "\<not> (c = 24 \<and> b \<noteq> 3)" if "rb < 36524" using that n(3,4) e4 re by simp
        then have "c \<noteq> 24 \<or> b = 3" using lt(2) by blast
        then show ?thesis using e4 re b3 n le unfolding y0_def
          by (intro exI[of _ a] exI[of _ b] exI[of _ c]) simp
      qed
      then obtain a' b' c' where s: "y0 = a' * 400 + b' * 100 + c' * 4 + 3" "b' \<le> 3" "c' \<le> 24" "a' \<le> 24"
          "146097 * a' + 36524 * b' + 1461 * c' + 365 * 3 + (if c' \<noteq> 24 \<or> b' = 3 then 365 else 364) = n"
        by blast
      note Y = year_split(4)[OF s(1-3)] year_days[OF s(1-3)]
      have "y \<le> 9999" using s(1-4) ymd(1) assms(1) s(5) by simp
      moreover have "days_before y m d = n"
        using Y s(5) by (simp add: days_before_def ymd month_lengths_def split: if_splits)
      ultimately show ?thesis by (simp add: civil_ok_def ymd month_lengths_def)
    qed
    then show "civil_ok y m d" "days_before y m d = n" by blast+
  qed
qed

section \<open>Timestamps are read back\<close>

lemma slice_append:
  "length p = a \<Longrightarrow> length q = w \<Longrightarrow> slice a w (p @ q @ r) = q"
  by (simp add: slice_def)

text \<open>The layout of a canonical text, from its parts.\<close>

lemma parse_parts:
  assumes len: "length ys = 4" "length ms = 2" "length ds = 2" "length hs = 2" "length ns = 2" "length ss = 2"
      "us = [] \<or> (\<exists>vs. us = ''.'' @ vs \<and> length vs = 6)"
    and dig: "list_all is_digit (ys @ ms @ ds @ hs @ ns @ ss @ drop 1 us)"
    and ok: "civil_ok (digits_value ys) (digits_value ms) (digits_value ds)"
      "digits_value hs < 24" "digits_value ns < 60" "digits_value ss < 60"
  shows "parse_timestamp (ys @ ''-'' @ ms @ ''-'' @ ds @ ''T'' @ hs @ '':'' @ ns @ '':'' @ ss @ us @ ''Z'') =
    Some (int ((days_before (digits_value ys) (digits_value ms) (digits_value ds) * 86400 +
      digits_value hs * 3600 + digits_value ns * 60 + digits_value ss) * 1000000 + digits_value (drop 1 us)))"
proof -
  let ?s = "ys @ ''-'' @ ms @ ''-'' @ ds @ ''T'' @ hs @ '':'' @ ns @ '':'' @ ss @ us @ ''Z''"
  have sl: "slice 0 4 ?s = ys" "slice 5 2 ?s = ms" "slice 8 2 ?s = ds" "slice 11 2 ?s = hs" "slice 14 2 ?s = ns"
      "slice 17 2 ?s = ss"
    using len by (simp_all add: slice_def)
  have at: "?s ! 4 = CHR ''-''" "?s ! 7 = CHR ''-''" "?s ! 10 = CHR ''T''" "?s ! 13 = CHR '':''" "?s ! 16 = CHR '':''"
      "last ?s = CHR ''Z''"
    using len(1-6) by (simp_all add: nth_append)
  show ?thesis
  proof (cases "us = []")
    case True
    then have "length ?s = 20" using len by simp
    then show ?thesis
      using dig ok True unfolding parse_timestamp_def iso_layout_def Let_def sl at
      by (simp add: digits_value_def)
  next
    case False
    then obtain vs where vs: "us = ''.'' @ vs" "length vs = 6" using len(7) by blast
    then have "length ?s = 27" "?s ! 19 = CHR ''.''" "slice 20 6 ?s = drop 1 us"
      using len(1-6) by (simp_all add: nth_append slice_def)
    then show ?thesis
      using dig ok unfolding parse_timestamp_def iso_layout_def Let_def sl at by simp
  qed
qed

lemma parse_encode_timestamp:
  assumes "time_ok t"
  shows "parse_timestamp (encode_timestamp t) = Some t"
proof -
  define us days rest where "us = nat t" and "days = us div 86400000000" and "rest = us mod 86400000000"
  define sec micro where "sec = rest div 1000000" and "micro = rest mod 1000000"
  obtain y m d where c: "civil_date days = (y, m, d)" by (cases "civil_date days") auto
  have us: "us < 3652059 * 86400000000" "int us = t" using assms by (auto simp: us_def time_ok_def nat_less_iff)
  then have "days < 3652059" unfolding days_def by (simp add: less_mult_imp_div_less)
  note C = civil_date_inverse[OF this c]
  have sec: "sec < 86400" by (simp add: sec_def rest_def less_mult_imp_div_less)
  have micro: "micro < 1000000" by (simp add: micro_def)
  define ms where "ms = (if micro = 0 then [] else ''.'' @ pad_nat 6 micro)"
  have enc: "encode_timestamp t = pad_nat 4 y @ ''-'' @ pad_nat 2 m @ ''-'' @ pad_nat 2 d @ ''T'' @
      pad_nat 2 (sec div 3600) @ '':'' @ pad_nat 2 (sec div 60 mod 60) @ '':'' @ pad_nat 2 (sec mod 60) @ ms @ ''Z''"
    unfolding encode_timestamp_def Let_def us_def[symmetric] days_def[symmetric] rest_def[symmetric]
      sec_def[symmetric] micro_def[symmetric] ms_def by (simp add: c)
  have month: "month_lengths l ! i \<le> 31" if "i < 12" for l i
    using that by (auto simp: month_lengths_def less_Suc_eq numeral_eq_Suc)
  have m12: "m - 1 < 12" using C(1) by (auto simp: civil_ok_def)
  have b: "y < 10000" "m < 100" "d < 100"
    using C(1) month[OF m12, of "leap_year y"] by (simp_all add: civil_ok_def)
  have v: "digits_value (pad_nat 4 y) = y" "digits_value (pad_nat 2 m) = m" "digits_value (pad_nat 2 d) = d"
      "digits_value (pad_nat 2 (sec div 3600)) = sec div 3600" "digits_value (pad_nat 2 (sec div 60 mod 60)) = sec div 60 mod 60"
      "digits_value (pad_nat 2 (sec mod 60)) = sec mod 60" "digits_value (drop 1 ms) = micro"
    using b sec micro by (simp_all add: digits_value_pad ms_def)
  have ms: "ms = [] \<or> (\<exists>vs. ms = ''.'' @ vs \<and> length vs = 6)" "list_all is_digit (drop 1 ms)"
    by (simp_all add: ms_def pad_nat_digits)
  have hms: "sec div 3600 < 24" "sec div 60 mod 60 < 60" "sec mod 60 < 60"
    using sec by (simp_all add: less_mult_imp_div_less)
  have "parse_timestamp (encode_timestamp t) = Some (int ((days_before y m d * 86400 + sec div 3600 * 3600 +
      sec div 60 mod 60 * 60 + sec mod 60) * 1000000 + micro))"
    unfolding enc by (subst parse_parts) (simp_all only: v length_pad_nat list_all_append pad_nat_digits ms C(1) hms simp_thms)
  moreover have "sec div 3600 * 3600 + sec div 60 mod 60 * 60 + sec mod 60 = sec"
  proof -
    have "sec div 3600 = sec div 60 div 60" by (simp add: div_mult2_eq)
    moreover have "sec div 60 div 60 * 60 + sec div 60 mod 60 = sec div 60" "sec div 60 * 60 + sec mod 60 = sec"
      by (rule div_mult_mod_eq)+
    ultimately show ?thesis by linarith
  qed
  moreover have "(days * 86400 + sec) * 1000000 + micro = us"
    by (simp add: days_def sec_def micro_def rest_def algebra_simps)
  ultimately show ?thesis using C(2) us(2) by (simp add: add.assoc)
qed

end
