(* ===== verification/Codec_Fields.thy ===== *)
theory Codec_Fields
  imports Codec_Time Txn_Attempt
begin

text \<open>
  The field decoders of the persisted codec (\<open>_exact_dict\<close> to \<open>_roundtrip\<close>). A decoder takes a JSON
  value and raises \<open>BridgeTransactionCodecError\<close>, here \<open>CodecError\<close> without its path and wording,
  or returns the typed field. A JSON object of the model lists its members; a list with a repeated
  key is not a Python \<open>dict\<close> and is refused like any other value that is not one.
\<close>

definition and_then :: "'e + 'a \<Rightarrow> ('a \<Rightarrow> 'e + 'b) \<Rightarrow> 'e + 'b" where
  "and_then r f = (case r of Inl e \<Rightarrow> Inl e | Inr x \<Rightarrow> f x)"

lemma and_then_simps [simp]: "and_then (Inl e) f = Inl e" "and_then (Inr x) f = f x"
  by (simp_all add: and_then_def)

lemma and_then_Inr: "and_then r f = Inr y \<longleftrightarrow> (\<exists>x. r = Inr x \<and> f x = Inr y)"
  by (cases r) simp_all

text \<open>A tuple or list comprehension whose element function may raise.\<close>

fun map_result :: "('a \<Rightarrow> 'e + 'b) \<Rightarrow> 'a list \<Rightarrow> 'e + 'b list" where
  "map_result f [] = Inr []"
| "map_result f (x # xs) = and_then (f x) (\<lambda>y. and_then (map_result f xs) (\<lambda>ys. Inr (y # ys)))"

section \<open>Containers\<close>

text \<open>The members of a dict, as a function of the key; \<open>_exact_dict\<close> has checked that it is there.\<close>

definition member :: "(string \<times> json) list \<Rightarrow> string \<Rightarrow> json" where
  "member kvs k = obj_get kvs k JNull"

definition exact_dict :: "string list \<Rightarrow> json \<Rightarrow> txn_error + (string \<Rightarrow> json)" where
  "exact_dict keys value = (case value of
     JObj kvs \<Rightarrow> if distinct (map fst kvs) \<and> set (map fst kvs) = set keys then Inr (member kvs) else Inl CodecError
   | _ \<Rightarrow> Inl CodecError)"

definition exact_list :: "json \<Rightarrow> txn_error + json list" where
  "exact_list value = (case value of JArr xs \<Rightarrow> Inr xs | _ \<Rightarrow> Inl CodecError)"

section \<open>Scalars\<close>

definition decode_text :: "(string \<Rightarrow> bool) \<Rightarrow> json \<Rightarrow> txn_error + string" where
  "decode_text ok value = (case value of JStr s \<Rightarrow> if ok s then Inr s else Inl CodecError | _ \<Rightarrow> Inl CodecError)"

definition decode_integer :: "(int \<Rightarrow> bool) \<Rightarrow> json \<Rightarrow> txn_error + int" where
  "decode_integer ok value = (case value of JInt n \<Rightarrow> if ok n then Inr n else Inl CodecError | _ \<Rightarrow> Inl CodecError)"

definition decode_string :: "json \<Rightarrow> txn_error + string" where
  "decode_string = decode_text string_ok"

definition decode_digest :: "json \<Rightarrow> txn_error + string" where
  "decode_digest = decode_text digest_ok"

definition decode_provider :: "json \<Rightarrow> txn_error + string" where
  "decode_provider = decode_text provider_ok"

definition decode_operation_id :: "(string \<Rightarrow> bool) \<Rightarrow> json \<Rightarrow> txn_error + string" where
  "decode_operation_id pattern = decode_text pattern"

definition decode_receipt_id :: "json \<Rightarrow> txn_error + string" where
  "decode_receipt_id = decode_text receipt_id_ok"

definition decode_fence_token_digest :: "json \<Rightarrow> txn_error + fence_token" where
  "decode_fence_token_digest value = (case value of
     JStr s \<Rightarrow> if token_ok (FenceToken s) then Inr (FenceToken s) else Inl CodecError | _ \<Rightarrow> Inl CodecError)"

definition decode_positive_integer :: "json \<Rightarrow> txn_error + int" where
  "decode_positive_integer = decode_integer positive_ok"

definition decode_nonnegative_integer :: "json \<Rightarrow> txn_error + int" where
  "decode_nonnegative_integer = decode_integer nonnegative_ok"

definition decode_boolean :: "json \<Rightarrow> txn_error + bool" where
  "decode_boolean value = (case value of JBool b \<Rightarrow> Inr b | _ \<Rightarrow> Inl CodecError)"

definition decode_revision :: "json \<Rightarrow> txn_error + revision" where
  "decode_revision value =
    and_then (exact_dict [''type'', ''value''] value) (\<lambda>raw.
      case (raw ''type'', raw ''value'') of
        (JStr t, JInt n) \<Rightarrow> if t = ''integer'' \<and> revision_ok (RInt n) then Inr (RInt n) else Inl CodecError
      | (JStr t, JStr s) \<Rightarrow> if t = ''string'' \<and> revision_ok (RStr s) then Inr (RStr s) else Inl CodecError
      | _ \<Rightarrow> Inl CodecError)"

definition decode_timestamp :: "json \<Rightarrow> txn_error + time" where
  "decode_timestamp value = (case value of
     JStr s \<Rightarrow> (case parse_timestamp s of None \<Rightarrow> Inl CodecError
       | Some t \<Rightarrow> if encode_timestamp t = s then Inr t else Inl CodecError)
   | _ \<Rightarrow> Inl CodecError)"

text \<open>An enumeration is read by the text of its members.\<close>

definition decode_enum :: "('a \<Rightarrow> string) \<Rightarrow> 'a list \<Rightarrow> json \<Rightarrow> txn_error + 'a" where
  "decode_enum text members value = (case value of
     JStr s \<Rightarrow> (case List.find (\<lambda>e. text e = s) members of None \<Rightarrow> Inl CodecError | Some e \<Rightarrow> Inr e)
   | _ \<Rightarrow> Inl CodecError)"

definition decode_optional :: "(json \<Rightarrow> txn_error + 'a) \<Rightarrow> json \<Rightarrow> txn_error + 'a option" where
  "decode_optional f value = (if value = JNull then Inr None else and_then (f value) (\<lambda>x. Inr (Some x)))"

definition encode_optional :: "('a \<Rightarrow> json) \<Rightarrow> 'a option \<Rightarrow> json" where
  "encode_optional f x = (case x of None \<Rightarrow> JNull | Some y \<Rightarrow> f y)"

fun operation_state_text :: "operation_state \<Rightarrow> string" where
  "operation_state_text O_INTENT_RECORDED = ''intent_recorded''"
| "operation_state_text O_DISPATCH_ARMED = ''dispatch_armed''"
| "operation_state_text O_ACKNOWLEDGED = ''acknowledged''"
| "operation_state_text O_VERIFIED = ''verified''"
| "operation_state_text O_BLOCKED = ''blocked''"

fun lifecycle_state_text :: "lifecycle_state \<Rightarrow> string" where
  "lifecycle_state_text F_INTENT_RECORDED = ''intent_recorded''"
| "lifecycle_state_text F_DISPATCH_ARMED = ''dispatch_armed''"
| "lifecycle_state_text F_ACKNOWLEDGED = ''acknowledged''"
| "lifecycle_state_text F_NO_EFFECT = ''no_effect''"
| "lifecycle_state_text F_BLOCKED = ''blocked''"

fun attempt_state_text :: "attempt_state \<Rightarrow> string" where
  "attempt_state_text A_OPEN = ''open''"
| "attempt_state_text A_COMMITTED = ''committed''"
| "attempt_state_text A_RESTORED = ''restored''"
| "attempt_state_text A_BLOCKED = ''blocked''"

fun reason_text :: "block_reason \<Rightarrow> string" where
  "reason_text STALE_FENCE = ''stale_fence''"
| "reason_text EXPIRED_FENCE = ''expired_fence''"
| "reason_text STALE_OBSERVATION = ''stale_observation''"
| "reason_text OBSERVATION_MISMATCH = ''observation_mismatch''"
| "reason_text RECEIPT_MISMATCH = ''receipt_mismatch''"
| "reason_text VERIFIED_DRIFT = ''verified_drift''"
| "reason_text LIFECYCLE_MISMATCH = ''lifecycle_mismatch''"
| "reason_text INCOMPLETE_COVERAGE = ''incomplete_coverage''"
| "reason_text EXPLICIT_ABORT = ''explicit_abort''"

abbreviation operation_states :: "operation_state list" where
  "operation_states \<equiv> [O_INTENT_RECORDED, O_DISPATCH_ARMED, O_ACKNOWLEDGED, O_VERIFIED, O_BLOCKED]"

abbreviation lifecycle_states :: "lifecycle_state list" where
  "lifecycle_states \<equiv> [F_INTENT_RECORDED, F_DISPATCH_ARMED, F_ACKNOWLEDGED, F_NO_EFFECT, F_BLOCKED]"

abbreviation attempt_states :: "attempt_state list" where
  "attempt_states \<equiv> [A_OPEN, A_COMMITTED, A_RESTORED, A_BLOCKED]"

abbreviation block_reasons :: "block_reason list" where
  "block_reasons \<equiv> [STALE_FENCE, EXPIRED_FENCE, STALE_OBSERVATION, OBSERVATION_MISMATCH, RECEIPT_MISMATCH,
     VERIFIED_DRIFT, LIFECYCLE_MISMATCH, INCOMPLETE_COVERAGE, EXPLICIT_ABORT]"

definition decode_reason :: "json \<Rightarrow> txn_error + block_reason option" where
  "decode_reason = decode_optional (decode_enum reason_text block_reasons)"

section \<open>Construction and the canonical check\<close>

definition construct :: "bool \<Rightarrow> 'a \<Rightarrow> txn_error + 'a" where
  "construct ok x = (if ok then Inr x else Inl CodecError)"

text \<open>\<open>_roundtrip\<close>, followed by \<open>return result\<close>.\<close>

definition roundtrip :: "json \<Rightarrow> txn_error + json \<Rightarrow> 'a \<Rightarrow> txn_error + 'a" where
  "roundtrip raw encoded result = and_then encoded (\<lambda>j. if dumps raw = dumps j then Inr result else Inl CodecError)"

lemma roundtrip_Inr: "roundtrip raw encoded result = Inr x \<longleftrightarrow> x = result \<and> (\<exists>j. encoded = Inr j \<and> dumps raw = dumps j)"
  by (auto simp: roundtrip_def and_then_Inr)

section \<open>Every field is read back\<close>

named_theorems codec_simps
  \<comment> \<open>decoding what was encoded, field by field\<close>

lemma construct_ok [codec_simps]: "ok \<Longrightarrow> construct ok x = Inr x"
  by (simp add: construct_def)

lemma roundtrip_same [codec_simps]: "roundtrip j (Inr j) x = Inr x"
  by (simp add: roundtrip_def)

lemma exact_dict_obj [codec_simps]:
  "map fst kvs = keys \<Longrightarrow> distinct keys \<Longrightarrow> exact_dict keys (JObj kvs) = Inr (member kvs)"
  by (auto simp: exact_dict_def)

lemma member_Cons: "member ((k, v) # kvs) l = (if l = k then v else member kvs l)"
  by (simp add: member_def obj_get_def)

lemma decode_texts [codec_simps]:
  "string_ok s \<Longrightarrow> decode_string (JStr s) = Inr s" "digest_ok s \<Longrightarrow> decode_digest (JStr s) = Inr s"
  "provider_ok s \<Longrightarrow> decode_provider (JStr s) = Inr s" "ok s \<Longrightarrow> decode_operation_id ok (JStr s) = Inr s"
  "receipt_id_ok s \<Longrightarrow> decode_receipt_id (JStr s) = Inr s"
  "token_ok t \<Longrightarrow> decode_fence_token_digest (JStr (token_value t)) = Inr t"
  by (simp_all add: decode_string_def decode_digest_def decode_provider_def decode_operation_id_def
      decode_receipt_id_def decode_text_def decode_fence_token_digest_def)

lemma decode_integers [codec_simps]:
  "positive_ok n \<Longrightarrow> decode_positive_integer (JInt n) = Inr n"
  "nonnegative_ok n \<Longrightarrow> decode_nonnegative_integer (JInt n) = Inr n" "decode_boolean (JBool b) = Inr b"
  by (simp_all add: decode_positive_integer_def decode_nonnegative_integer_def decode_integer_def decode_boolean_def)

lemma decode_encode_revision [codec_simps]: "revision_ok v \<Longrightarrow> decode_revision (encode_revision v) = Inr v"
  by (cases v) (auto simp: decode_revision_def exact_dict_def member_Cons)

lemma decode_encode_timestamp [codec_simps]: "time_ok t \<Longrightarrow> decode_timestamp (JStr (encode_timestamp t)) = Inr t"
  by (simp add: decode_timestamp_def parse_encode_timestamp)

lemma decode_enums [codec_simps]:
  "decode_enum outcome_text [APPLIED, NO_EFFECT] (JStr (outcome_text a)) = Inr a"
  "decode_enum evidence_text [DISPATCH_ACK, OPERATION_LEDGER] (JStr (evidence_text b)) = Inr b"
  "decode_enum kind_text [WRITE, ROLLBACK] (JStr (kind_text c)) = Inr c"
  "decode_enum operation_state_text operation_states (JStr (operation_state_text d)) = Inr d"
  "decode_enum lifecycle_state_text lifecycle_states (JStr (lifecycle_state_text e)) = Inr e"
  "decode_enum attempt_state_text attempt_states (JStr (attempt_state_text f)) = Inr f"
  "decode_enum reason_text block_reasons (JStr (reason_text g)) = Inr g"
proof -
  show "decode_enum outcome_text [APPLIED, NO_EFFECT] (JStr (outcome_text a)) = Inr a"
    by (cases a) (simp_all add: decode_enum_def)
  show "decode_enum evidence_text [DISPATCH_ACK, OPERATION_LEDGER] (JStr (evidence_text b)) = Inr b"
    by (cases b) (simp_all add: decode_enum_def)
  show "decode_enum kind_text [WRITE, ROLLBACK] (JStr (kind_text c)) = Inr c"
    by (cases c) (simp_all add: decode_enum_def)
  show "decode_enum operation_state_text operation_states (JStr (operation_state_text d)) = Inr d"
    by (cases d) (simp_all add: decode_enum_def)
  show "decode_enum lifecycle_state_text lifecycle_states (JStr (lifecycle_state_text e)) = Inr e"
    by (cases e) (simp_all add: decode_enum_def)
  show "decode_enum attempt_state_text attempt_states (JStr (attempt_state_text f)) = Inr f"
    by (cases f) (simp_all add: decode_enum_def)
  show "decode_enum reason_text block_reasons (JStr (reason_text g)) = Inr g"
    by (cases g) (simp_all add: decode_enum_def)
qed

lemma decode_applied [codec_simps]: "decode_enum outcome_text [APPLIED, NO_EFFECT] (JStr ''applied'') = Inr APPLIED"
  using decode_enums(1)[of APPLIED] by simp

lemma decode_optional_encode:
  "(\<And>y. x = Some y \<Longrightarrow> f y \<noteq> JNull \<and> g (f y) = Inr y) \<Longrightarrow> decode_optional g (encode_optional f x) = Inr x"
  by (cases x) (simp_all add: decode_optional_def encode_optional_def)

lemma decode_optionals [codec_simps]:
  "decode_reason (encode_optional (\<lambda>r. JStr (reason_text r)) c) = Inr c"
  "decode_optional (decode_enum lifecycle_state_text lifecycle_states)
     (encode_optional (\<lambda>s. JStr (lifecycle_state_text s)) d) = Inr d"
  "decode_optional (decode_enum operation_state_text operation_states)
     (encode_optional (\<lambda>s. JStr (operation_state_text s)) e) = Inr e"
  "(case p of None \<Rightarrow> True | Some i \<Rightarrow> ok i) \<Longrightarrow>
     decode_optional (decode_operation_id ok) (encode_optional JStr p) = Inr p"
  "(case t of None \<Rightarrow> True | Some x \<Rightarrow> time_ok x) \<Longrightarrow>
     decode_optional decode_timestamp (encode_optional (\<lambda>x. JStr (encode_timestamp x)) t) = Inr t"
  "(case n of None \<Rightarrow> True | Some m \<Rightarrow> nonnegative_ok m) \<Longrightarrow>
     decode_optional decode_nonnegative_integer (encode_optional JInt n) = Inr n"
  by (auto simp: decode_reason_def codec_simps intro!: decode_optional_encode)

lemma map_result_encoded:
  assumes "\<And>x. x \<in> set xs \<Longrightarrow> \<exists>j. f x = Inr j \<and> g j = Inr x"
  shows "\<exists>js. map_result f xs = Inr js \<and> map_result g js = Inr xs"
  using assms
proof (induction xs)
  case (Cons x xs)
  obtain j where j: "f x = Inr j" "g j = Inr x" using Cons.prems[of x] by auto
  obtain js where js: "map_result f xs = Inr js" "map_result g js = Inr xs"
    using Cons.IH Cons.prems by auto
  show ?case using j js by (intro exI[of _ "j # js"]) simp
qed simp

lemma map_result_Inr:
  "map_result f xs = Inr ys \<longleftrightarrow> list_all2 (\<lambda>x y. f x = Inr y) xs ys"
  by (induction xs arbitrary: ys) (auto simp: and_then_Inr list_all2_Cons1)

end
