(* ===== verification/Codec_Fence.thy ===== *)
theory Codec_Fence
  imports Codec_Fields
begin

text \<open>
  The persisted form of the fence lifecycle: \<open>encode_fence_*\<close> and \<open>decode_fence_*\<close>. An encoder
  re-validates its argument, a decoder checks the exact key set, decodes field by field, builds the
  instance and compares canonical texts. Each pair comes with its round trip; times must be ones a
  \<open>datetime\<close> can hold.
\<close>

section \<open>Expected writes\<close>

definition expected_write_keys :: "string list" where
  "expected_write_keys =
    [''provider'', ''object_key'', ''expected_revision'', ''pre_fingerprint'', ''post_fingerprint'']"

definition encode_expected_write :: "expected_write \<Rightarrow> txn_error + json" where
  "encode_expected_write x = (if \<not> expected_write_ok x then Inl CodecError else Inr (JObj
    [(''provider'', JStr (ew_provider x)),
     (''object_key'', JStr (ew_object_key x)),
     (''expected_revision'', encode_revision (ew_expected_revision x)),
     (''pre_fingerprint'', JStr (ew_pre_fingerprint x)),
     (''post_fingerprint'', JStr (ew_post_fingerprint x))]))"

definition decode_expected_write :: "json \<Rightarrow> txn_error + expected_write" where
  "decode_expected_write value =
    and_then (exact_dict expected_write_keys value) (\<lambda>raw.
     and_then (decode_provider (raw ''provider'')) (\<lambda>provider.
     and_then (decode_string (raw ''object_key'')) (\<lambda>object_key.
     and_then (decode_revision (raw ''expected_revision'')) (\<lambda>expected_revision.
     and_then (decode_digest (raw ''pre_fingerprint'')) (\<lambda>pre_fingerprint.
     and_then (decode_digest (raw ''post_fingerprint'')) (\<lambda>post_fingerprint.
     let x = \<lparr>ew_provider = provider, ew_object_key = object_key, ew_expected_revision =
       expected_revision, ew_pre_fingerprint = pre_fingerprint, ew_post_fingerprint =
       post_fingerprint\<rparr> in
     and_then (construct (expected_write_ok x) x) (\<lambda>result. roundtrip value (encode_expected_write result) result)))))))"

lemma expected_write_eta: "\<lparr>ew_provider = ew_provider x, ew_object_key = ew_object_key x, ew_expected_revision =
    ew_expected_revision x, ew_pre_fingerprint = ew_pre_fingerprint x, ew_post_fingerprint =
    ew_post_fingerprint x\<rparr> = x"
  by (cases x) simp

lemma expected_write_roundtrip:
  assumes ok: "expected_write_ok x"
  obtains kvs where "encode_expected_write x = Inr (JObj kvs)" "decode_expected_write (JObj kvs) = Inr x"
proof -
  have f: "provider_ok (ew_provider x)" "string_ok (ew_object_key x)" "revision_ok (ew_expected_revision x)"
      "digest_ok (ew_pre_fingerprint x)" "digest_ok (ew_post_fingerprint x)"
    using ok unfolding expected_write_ok_def plan_binding_ok_def by blast+
  let ?kvs = "[(''provider'', JStr (ew_provider x)),
     (''object_key'', JStr (ew_object_key x)),
     (''expected_revision'', encode_revision (ew_expected_revision x)),
     (''pre_fingerprint'', JStr (ew_pre_fingerprint x)),
     (''post_fingerprint'', JStr (ew_post_fingerprint x))]"
  have encode: "encode_expected_write x = Inr (JObj ?kvs)" by (simp add: encode_expected_write_def ok)
  then have "decode_expected_write (JObj ?kvs) = Inr x"
    by (simp add: decode_expected_write_def expected_write_keys_def Let_def encode f codec_simps member_Cons ok
      expected_write_eta)
  with encode show ?thesis by (rule that)
qed


section \<open>Acquisition intents\<close>

definition acq_intent_keys :: "string list" where
  "acq_intent_keys =
    [''operation_id'', ''intent_digest'', ''plan_id'', ''plan_digest'', ''manifest_digest'', ''attempt'',
     ''provider'', ''writer_id'', ''expected_inventory_revision'', ''scope_digest'', ''epoch'',
     ''requested_at'', ''expires_at'']"

definition encode_acq_intent :: "(string \<Rightarrow> string) \<Rightarrow> acq_intent \<Rightarrow> txn_error + json" where
  "encode_acq_intent H x = (if \<not> acq_intent_ok H x then Inl CodecError else Inr (JObj
    [(''operation_id'', JStr (ai_operation_id x)),
     (''intent_digest'', JStr (ai_intent_digest x)),
     (''plan_id'', JStr (ai_plan_id x)),
     (''plan_digest'', JStr (ai_plan_digest x)),
     (''manifest_digest'', JStr (ai_manifest_digest x)),
     (''attempt'', JInt (ai_attempt x)),
     (''provider'', JStr (ai_provider x)),
     (''writer_id'', JStr (ai_writer_id x)),
     (''expected_inventory_revision'', encode_revision (ai_expected_inventory_revision x)),
     (''scope_digest'', JStr (ai_scope_digest x)),
     (''epoch'', JInt (ai_epoch x)),
     (''requested_at'', JStr (encode_timestamp (ai_requested_at x))),
     (''expires_at'', JStr (encode_timestamp (ai_expires_at x)))]))"

definition decode_acq_intent :: "(string \<Rightarrow> string) \<Rightarrow> json \<Rightarrow> txn_error + acq_intent" where
  "decode_acq_intent H value =
    and_then (exact_dict acq_intent_keys value) (\<lambda>raw.
     and_then (decode_operation_id acquire_id_ok (raw ''operation_id'')) (\<lambda>operation_id.
     and_then (decode_digest (raw ''intent_digest'')) (\<lambda>intent_digest.
     and_then (decode_string (raw ''plan_id'')) (\<lambda>plan_id.
     and_then (decode_digest (raw ''plan_digest'')) (\<lambda>plan_digest.
     and_then (decode_digest (raw ''manifest_digest'')) (\<lambda>manifest_digest.
     and_then (decode_positive_integer (raw ''attempt'')) (\<lambda>attempt.
     and_then (decode_provider (raw ''provider'')) (\<lambda>provider.
     and_then (decode_string (raw ''writer_id'')) (\<lambda>writer_id.
     and_then (decode_revision (raw ''expected_inventory_revision'')) (\<lambda>expected_inventory_revision.
     and_then (decode_digest (raw ''scope_digest'')) (\<lambda>scope_digest.
     and_then (decode_nonnegative_integer (raw ''epoch'')) (\<lambda>epoch.
     and_then (decode_timestamp (raw ''requested_at'')) (\<lambda>requested_at.
     and_then (decode_timestamp (raw ''expires_at'')) (\<lambda>expires_at.
     let x = \<lparr>ai_operation_id = operation_id, ai_intent_digest = intent_digest, ai_plan_id =
       plan_id, ai_plan_digest = plan_digest, ai_manifest_digest = manifest_digest, ai_attempt = attempt,
       ai_provider = provider, ai_writer_id = writer_id, ai_expected_inventory_revision =
       expected_inventory_revision, ai_scope_digest = scope_digest, ai_epoch = epoch, ai_requested_at =
       requested_at, ai_expires_at = expires_at\<rparr> in
     and_then (construct (acq_intent_ok H x) x) (\<lambda>result. roundtrip value (encode_acq_intent H result) result)))))))))))))))"

definition acq_intent_times :: "acq_intent \<Rightarrow> time list" where
  "acq_intent_times x = [ai_requested_at x, ai_expires_at x]"

lemma acq_intent_eta: "\<lparr>ai_operation_id = ai_operation_id x, ai_intent_digest = ai_intent_digest x, ai_plan_id =
    ai_plan_id x, ai_plan_digest = ai_plan_digest x, ai_manifest_digest = ai_manifest_digest x,
    ai_attempt = ai_attempt x, ai_provider = ai_provider x, ai_writer_id = ai_writer_id x,
    ai_expected_inventory_revision = ai_expected_inventory_revision x, ai_scope_digest = ai_scope_digest
    x, ai_epoch = ai_epoch x, ai_requested_at = ai_requested_at x, ai_expires_at = ai_expires_at
    x\<rparr> = x"
  by (cases x) simp

lemma acq_intent_roundtrip:
  assumes ok: "acq_intent_ok H x" and t: "list_all time_ok (acq_intent_times x)"
  obtains kvs where "encode_acq_intent H x = Inr (JObj kvs)" "decode_acq_intent H (JObj kvs) = Inr x"
proof -
  have f: "acquire_id_ok (ai_operation_id x)" "digest_ok (ai_intent_digest x)" "string_ok (ai_plan_id x)"
      "digest_ok (ai_plan_digest x)" "digest_ok (ai_manifest_digest x)" "positive_ok (ai_attempt x)"
      "provider_ok (ai_provider x)" "string_ok (ai_writer_id x)" "revision_ok
      (ai_expected_inventory_revision x)" "digest_ok (ai_scope_digest x)" "nonnegative_ok (ai_epoch x)"
    using ok unfolding acq_intent_ok_def plan_binding_ok_def by blast+
  note ts = t[unfolded acq_intent_times_def, simplified]
  let ?kvs = "[(''operation_id'', JStr (ai_operation_id x)),
     (''intent_digest'', JStr (ai_intent_digest x)),
     (''plan_id'', JStr (ai_plan_id x)),
     (''plan_digest'', JStr (ai_plan_digest x)),
     (''manifest_digest'', JStr (ai_manifest_digest x)),
     (''attempt'', JInt (ai_attempt x)),
     (''provider'', JStr (ai_provider x)),
     (''writer_id'', JStr (ai_writer_id x)),
     (''expected_inventory_revision'', encode_revision (ai_expected_inventory_revision x)),
     (''scope_digest'', JStr (ai_scope_digest x)),
     (''epoch'', JInt (ai_epoch x)),
     (''requested_at'', JStr (encode_timestamp (ai_requested_at x))),
     (''expires_at'', JStr (encode_timestamp (ai_expires_at x)))]"
  have encode: "encode_acq_intent H x = Inr (JObj ?kvs)" by (simp add: encode_acq_intent_def ok)
  then have "decode_acq_intent H (JObj ?kvs) = Inr x"
    by (simp add: decode_acq_intent_def acq_intent_keys_def Let_def encode f codec_simps member_Cons ok acq_intent_eta
      ts)
  with encode show ?thesis by (rule that)
qed


section \<open>Acquisition receipts\<close>

definition acq_receipt_keys :: "string list" where
  "acq_receipt_keys =
    [''operation_id'', ''intent_digest'', ''receipt_id'', ''outcome'', ''provider'', ''writer_id'',
     ''expected_inventory_revision'', ''acquired_inventory_revision'', ''fence_revision'',
     ''scope_digest'', ''epoch'', ''token_digest'', ''acquired_at'', ''expires_at'', ''acknowledged_at'',
     ''durable_at'', ''receipt_digest'']"

definition encode_acq_receipt :: "(string \<Rightarrow> string) \<Rightarrow> acq_receipt \<Rightarrow> txn_error + json" where
  "encode_acq_receipt H x = (if \<not> acq_receipt_ok H x then Inl CodecError else Inr (JObj
    [(''operation_id'', JStr (ar_operation_id x)),
     (''intent_digest'', JStr (ar_intent_digest x)),
     (''receipt_id'', JStr (ar_receipt_id x)),
     (''outcome'', JStr (outcome_text APPLIED)),
     (''provider'', JStr (ar_provider x)),
     (''writer_id'', JStr (ar_writer_id x)),
     (''expected_inventory_revision'', encode_revision (ar_expected_inventory_revision x)),
     (''acquired_inventory_revision'', encode_revision (ar_acquired_inventory_revision x)),
     (''fence_revision'', encode_revision (ar_fence_revision x)),
     (''scope_digest'', JStr (ar_scope_digest x)),
     (''epoch'', JInt (ar_epoch x)),
     (''token_digest'', JStr (token_value (ar_token_digest x))),
     (''acquired_at'', JStr (encode_timestamp (ar_acquired_at x))),
     (''expires_at'', JStr (encode_timestamp (ar_expires_at x))),
     (''acknowledged_at'', JStr (encode_timestamp (ar_acknowledged_at x))),
     (''durable_at'', JStr (encode_timestamp (ar_durable_at x))),
     (''receipt_digest'', JStr (ar_receipt_digest x))]))"

definition decode_acq_receipt :: "(string \<Rightarrow> string) \<Rightarrow> json \<Rightarrow> txn_error + acq_receipt" where
  "decode_acq_receipt H value =
    and_then (exact_dict acq_receipt_keys value) (\<lambda>raw.
     and_then (decode_enum outcome_text [APPLIED, NO_EFFECT] (raw ''outcome'')) (\<lambda>outcome. if outcome \<noteq> APPLIED then Inl CodecError else
     and_then (decode_operation_id acquire_id_ok (raw ''operation_id'')) (\<lambda>operation_id.
     and_then (decode_digest (raw ''intent_digest'')) (\<lambda>intent_digest.
     and_then (decode_receipt_id (raw ''receipt_id'')) (\<lambda>receipt_id.
     and_then (decode_provider (raw ''provider'')) (\<lambda>provider.
     and_then (decode_string (raw ''writer_id'')) (\<lambda>writer_id.
     and_then (decode_revision (raw ''expected_inventory_revision'')) (\<lambda>expected_inventory_revision.
     and_then (decode_revision (raw ''acquired_inventory_revision'')) (\<lambda>acquired_inventory_revision.
     and_then (decode_revision (raw ''fence_revision'')) (\<lambda>fence_revision.
     and_then (decode_digest (raw ''scope_digest'')) (\<lambda>scope_digest.
     and_then (decode_nonnegative_integer (raw ''epoch'')) (\<lambda>epoch.
     and_then (decode_fence_token_digest (raw ''token_digest'')) (\<lambda>token_digest.
     and_then (decode_timestamp (raw ''acquired_at'')) (\<lambda>acquired_at.
     and_then (decode_timestamp (raw ''expires_at'')) (\<lambda>expires_at.
     and_then (decode_timestamp (raw ''acknowledged_at'')) (\<lambda>acknowledged_at.
     and_then (decode_timestamp (raw ''durable_at'')) (\<lambda>durable_at.
     and_then (decode_digest (raw ''receipt_digest'')) (\<lambda>receipt_digest.
     let x = \<lparr>ar_operation_id = operation_id, ar_intent_digest = intent_digest, ar_receipt_id =
       receipt_id, ar_provider = provider, ar_writer_id = writer_id, ar_expected_inventory_revision =
       expected_inventory_revision, ar_acquired_inventory_revision = acquired_inventory_revision,
       ar_fence_revision = fence_revision, ar_scope_digest = scope_digest, ar_epoch = epoch,
       ar_token_digest = token_digest, ar_acquired_at = acquired_at, ar_expires_at = expires_at,
       ar_acknowledged_at = acknowledged_at, ar_durable_at = durable_at, ar_receipt_digest =
       receipt_digest\<rparr> in
     and_then (construct (acq_receipt_ok H x) x) (\<lambda>result. roundtrip value (encode_acq_receipt H result) result)))))))))))))))))))"

definition acq_receipt_times :: "acq_receipt \<Rightarrow> time list" where
  "acq_receipt_times x = [ar_acquired_at x, ar_expires_at x, ar_acknowledged_at x, ar_durable_at x]"

lemma acq_receipt_eta: "\<lparr>ar_operation_id = ar_operation_id x, ar_intent_digest = ar_intent_digest x, ar_receipt_id =
    ar_receipt_id x, ar_provider = ar_provider x, ar_writer_id = ar_writer_id x,
    ar_expected_inventory_revision = ar_expected_inventory_revision x, ar_acquired_inventory_revision =
    ar_acquired_inventory_revision x, ar_fence_revision = ar_fence_revision x, ar_scope_digest =
    ar_scope_digest x, ar_epoch = ar_epoch x, ar_token_digest = ar_token_digest x, ar_acquired_at =
    ar_acquired_at x, ar_expires_at = ar_expires_at x, ar_acknowledged_at = ar_acknowledged_at x,
    ar_durable_at = ar_durable_at x, ar_receipt_digest = ar_receipt_digest x\<rparr> = x"
  by (cases x) simp

lemma acq_receipt_roundtrip:
  assumes ok: "acq_receipt_ok H x" and t: "list_all time_ok (acq_receipt_times x)"
  obtains kvs where "encode_acq_receipt H x = Inr (JObj kvs)" "decode_acq_receipt H (JObj kvs) = Inr x"
proof -
  have f: "acquire_id_ok (ar_operation_id x)" "digest_ok (ar_intent_digest x)" "receipt_id_ok (ar_receipt_id
      x)" "provider_ok (ar_provider x)" "string_ok (ar_writer_id x)" "revision_ok
      (ar_expected_inventory_revision x)" "revision_ok (ar_acquired_inventory_revision x)" "revision_ok
      (ar_fence_revision x)" "digest_ok (ar_scope_digest x)" "nonnegative_ok (ar_epoch x)" "token_ok
      (ar_token_digest x)" "digest_ok (ar_receipt_digest x)"
    using ok unfolding acq_receipt_ok_def plan_binding_ok_def by blast+
  note ts = t[unfolded acq_receipt_times_def, simplified]
  let ?kvs = "[(''operation_id'', JStr (ar_operation_id x)),
     (''intent_digest'', JStr (ar_intent_digest x)),
     (''receipt_id'', JStr (ar_receipt_id x)),
     (''outcome'', JStr (outcome_text APPLIED)),
     (''provider'', JStr (ar_provider x)),
     (''writer_id'', JStr (ar_writer_id x)),
     (''expected_inventory_revision'', encode_revision (ar_expected_inventory_revision x)),
     (''acquired_inventory_revision'', encode_revision (ar_acquired_inventory_revision x)),
     (''fence_revision'', encode_revision (ar_fence_revision x)),
     (''scope_digest'', JStr (ar_scope_digest x)),
     (''epoch'', JInt (ar_epoch x)),
     (''token_digest'', JStr (token_value (ar_token_digest x))),
     (''acquired_at'', JStr (encode_timestamp (ar_acquired_at x))),
     (''expires_at'', JStr (encode_timestamp (ar_expires_at x))),
     (''acknowledged_at'', JStr (encode_timestamp (ar_acknowledged_at x))),
     (''durable_at'', JStr (encode_timestamp (ar_durable_at x))),
     (''receipt_digest'', JStr (ar_receipt_digest x))]"
  have encode: "encode_acq_receipt H x = Inr (JObj ?kvs)" by (simp add: encode_acq_receipt_def ok)
  then have "decode_acq_receipt H (JObj ?kvs) = Inr x"
    by (simp add: decode_acq_receipt_def acq_receipt_keys_def Let_def encode f codec_simps member_Cons ok
      acq_receipt_eta ts)
  with encode show ?thesis by (rule that)
qed


section \<open>Acquisition tombstones\<close>

definition acq_no_effect_keys :: "string list" where
  "acq_no_effect_keys =
    [''operation_id'', ''intent_digest'', ''receipt_id'', ''provider'', ''writer_id'',
     ''expected_inventory_revision'', ''scope_digest'', ''epoch'', ''outcome'', ''evidence'',
     ''acknowledged_at'', ''durable_at'', ''durable'', ''receipt_digest'']"

definition encode_acq_no_effect :: "(string \<Rightarrow> string) \<Rightarrow> acq_no_effect \<Rightarrow> txn_error + json" where
  "encode_acq_no_effect H x = (if \<not> acq_no_effect_ok H x then Inl CodecError else Inr (JObj
    [(''operation_id'', JStr (an_operation_id x)),
     (''intent_digest'', JStr (an_intent_digest x)),
     (''receipt_id'', JStr (an_receipt_id x)),
     (''provider'', JStr (an_provider x)),
     (''writer_id'', JStr (an_writer_id x)),
     (''expected_inventory_revision'', encode_revision (an_expected_inventory_revision x)),
     (''scope_digest'', JStr (an_scope_digest x)),
     (''epoch'', JInt (an_epoch x)),
     (''outcome'', JStr (outcome_text (an_outcome x))),
     (''evidence'', JStr (evidence_text (an_evidence x))),
     (''acknowledged_at'', JStr (encode_timestamp (an_acknowledged_at x))),
     (''durable_at'', JStr (encode_timestamp (an_durable_at x))),
     (''durable'', JBool (an_durable x)),
     (''receipt_digest'', JStr (an_receipt_digest x))]))"

definition decode_acq_no_effect :: "(string \<Rightarrow> string) \<Rightarrow> json \<Rightarrow> txn_error + acq_no_effect" where
  "decode_acq_no_effect H value =
    and_then (exact_dict acq_no_effect_keys value) (\<lambda>raw.
     and_then (decode_operation_id acquire_id_ok (raw ''operation_id'')) (\<lambda>operation_id.
     and_then (decode_digest (raw ''intent_digest'')) (\<lambda>intent_digest.
     and_then (decode_receipt_id (raw ''receipt_id'')) (\<lambda>receipt_id.
     and_then (decode_provider (raw ''provider'')) (\<lambda>provider.
     and_then (decode_string (raw ''writer_id'')) (\<lambda>writer_id.
     and_then (decode_revision (raw ''expected_inventory_revision'')) (\<lambda>expected_inventory_revision.
     and_then (decode_digest (raw ''scope_digest'')) (\<lambda>scope_digest.
     and_then (decode_nonnegative_integer (raw ''epoch'')) (\<lambda>epoch.
     and_then (decode_enum outcome_text [APPLIED, NO_EFFECT] (raw ''outcome'')) (\<lambda>outcome.
     and_then (decode_enum evidence_text [DISPATCH_ACK, OPERATION_LEDGER] (raw ''evidence'')) (\<lambda>evidence.
     and_then (decode_timestamp (raw ''acknowledged_at'')) (\<lambda>acknowledged_at.
     and_then (decode_timestamp (raw ''durable_at'')) (\<lambda>durable_at.
     and_then (decode_boolean (raw ''durable'')) (\<lambda>durable.
     and_then (decode_digest (raw ''receipt_digest'')) (\<lambda>receipt_digest.
     let x = \<lparr>an_operation_id = operation_id, an_intent_digest = intent_digest, an_receipt_id =
       receipt_id, an_provider = provider, an_writer_id = writer_id, an_expected_inventory_revision =
       expected_inventory_revision, an_scope_digest = scope_digest, an_epoch = epoch, an_outcome = outcome,
       an_evidence = evidence, an_acknowledged_at = acknowledged_at, an_durable_at = durable_at, an_durable
       = durable, an_receipt_digest = receipt_digest\<rparr> in
     and_then (construct (acq_no_effect_ok H x) x) (\<lambda>result. roundtrip value (encode_acq_no_effect H result) result))))))))))))))))"

definition acq_no_effect_times :: "acq_no_effect \<Rightarrow> time list" where
  "acq_no_effect_times x = [an_acknowledged_at x, an_durable_at x]"

lemma acq_no_effect_eta: "\<lparr>an_operation_id = an_operation_id x, an_intent_digest = an_intent_digest x, an_receipt_id =
    an_receipt_id x, an_provider = an_provider x, an_writer_id = an_writer_id x,
    an_expected_inventory_revision = an_expected_inventory_revision x, an_scope_digest = an_scope_digest
    x, an_epoch = an_epoch x, an_outcome = an_outcome x, an_evidence = an_evidence x, an_acknowledged_at
    = an_acknowledged_at x, an_durable_at = an_durable_at x, an_durable = an_durable x,
    an_receipt_digest = an_receipt_digest x\<rparr> = x"
  by (cases x) simp

lemma acq_no_effect_roundtrip:
  assumes ok: "acq_no_effect_ok H x" and t: "list_all time_ok (acq_no_effect_times x)"
  obtains kvs where "encode_acq_no_effect H x = Inr (JObj kvs)" "decode_acq_no_effect H (JObj kvs) = Inr x"
proof -
  have f: "acquire_id_ok (an_operation_id x)" "digest_ok (an_intent_digest x)" "receipt_id_ok (an_receipt_id
      x)" "provider_ok (an_provider x)" "string_ok (an_writer_id x)" "revision_ok
      (an_expected_inventory_revision x)" "digest_ok (an_scope_digest x)" "nonnegative_ok (an_epoch x)"
      "digest_ok (an_receipt_digest x)"
    using ok unfolding acq_no_effect_ok_def plan_binding_ok_def by blast+
  note ts = t[unfolded acq_no_effect_times_def, simplified]
  let ?kvs = "[(''operation_id'', JStr (an_operation_id x)),
     (''intent_digest'', JStr (an_intent_digest x)),
     (''receipt_id'', JStr (an_receipt_id x)),
     (''provider'', JStr (an_provider x)),
     (''writer_id'', JStr (an_writer_id x)),
     (''expected_inventory_revision'', encode_revision (an_expected_inventory_revision x)),
     (''scope_digest'', JStr (an_scope_digest x)),
     (''epoch'', JInt (an_epoch x)),
     (''outcome'', JStr (outcome_text (an_outcome x))),
     (''evidence'', JStr (evidence_text (an_evidence x))),
     (''acknowledged_at'', JStr (encode_timestamp (an_acknowledged_at x))),
     (''durable_at'', JStr (encode_timestamp (an_durable_at x))),
     (''durable'', JBool (an_durable x)),
     (''receipt_digest'', JStr (an_receipt_digest x))]"
  have encode: "encode_acq_no_effect H x = Inr (JObj ?kvs)" by (simp add: encode_acq_no_effect_def ok)
  then have "decode_acq_no_effect H (JObj ?kvs) = Inr x"
    by (simp add: decode_acq_no_effect_def acq_no_effect_keys_def Let_def encode f codec_simps member_Cons ok
      acq_no_effect_eta ts)
  with encode show ?thesis by (rule that)
qed


section \<open>Acquisition records\<close>

fun encode_acq_evidence :: "(string \<Rightarrow> string) \<Rightarrow> acq_evidence \<Rightarrow> txn_error + json" where
  "encode_acq_evidence H (AcqApplied r) = encode_acq_receipt H r"
| "encode_acq_evidence H (AcqNoEffect r) = encode_acq_no_effect H r"

text \<open>The optional receipt: \<open>None\<close> is written as null.\<close>

definition encode_acq_lifecycle_receipt :: "(string \<Rightarrow> string) \<Rightarrow> acq_evidence option \<Rightarrow> txn_error + json" where
  "encode_acq_lifecycle_receipt H e = (case e of None \<Rightarrow> Inr JNull | Some r \<Rightarrow> encode_acq_evidence H r)"

text \<open>The receipt is chosen by the outcome it claims.\<close>

definition decode_acq_lifecycle_receipt :: "(string \<Rightarrow> string) \<Rightarrow> json \<Rightarrow> txn_error + acq_evidence option" where
  "decode_acq_lifecycle_receipt H value = (case value of
     JNull \<Rightarrow> Inr None
   | JObj kvs \<Rightarrow>
       if member kvs ''outcome'' = JStr ''applied''
       then and_then (decode_acq_receipt H value) (\<lambda>r. Inr (Some (AcqApplied r)))
       else if member kvs ''outcome'' = JStr ''no_effect''
       then and_then (decode_acq_no_effect H value) (\<lambda>r. Inr (Some (AcqNoEffect r)))
       else Inl CodecError
   | _ \<Rightarrow> Inl CodecError)"

definition acq_record_keys :: "string list" where
  "acq_record_keys = [''intent'', ''state'', ''receipt'', ''reason_code'', ''blocked_from'']"

definition encode_acq_record :: "(string \<Rightarrow> string) \<Rightarrow> acq_record \<Rightarrow> txn_error + json" where
  "encode_acq_record H x = (if \<not> acq_record_ok H x then Inl CodecError else
     and_then (encode_acq_intent H (ac_intent x)) (\<lambda>intent.
     and_then (encode_acq_lifecycle_receipt H (ac_receipt x)) (\<lambda>receipt.
     Inr (JObj
      [(''intent'', intent),
       (''state'', JStr (lifecycle_state_text (ac_state x))),
       (''receipt'', receipt),
       (''reason_code'', encode_optional (\<lambda>r. JStr (reason_text r)) (ac_reason_code x)),
       (''blocked_from'', encode_optional (\<lambda>s. JStr (lifecycle_state_text s)) (ac_blocked_from x))]))))"

definition decode_acq_record :: "(string \<Rightarrow> string) \<Rightarrow> json \<Rightarrow> txn_error + acq_record" where
  "decode_acq_record H value =
    and_then (exact_dict acq_record_keys value) (\<lambda>raw.
     and_then (decode_acq_lifecycle_receipt H (raw ''receipt'')) (\<lambda>receipt.
     and_then (decode_acq_intent H (raw ''intent'')) (\<lambda>intent.
     and_then (decode_enum lifecycle_state_text lifecycle_states (raw ''state'')) (\<lambda>state.
     and_then (decode_reason (raw ''reason_code'')) (\<lambda>reason_code.
     and_then (decode_optional (decode_enum lifecycle_state_text lifecycle_states) (raw ''blocked_from'')) (\<lambda>blocked_from.
     let x = \<lparr>ac_intent = intent, ac_state = state, ac_receipt = receipt, ac_reason_code = reason_code,
       ac_blocked_from = blocked_from\<rparr> in
     and_then (construct (acq_record_ok H x) x) (\<lambda>result. roundtrip value (encode_acq_record H result) result)))))))"

fun acq_evidence_times :: "acq_evidence \<Rightarrow> time list" where
  "acq_evidence_times (AcqApplied r) = acq_receipt_times r"
| "acq_evidence_times (AcqNoEffect r) = acq_no_effect_times r"

definition acq_record_times :: "acq_record \<Rightarrow> time list" where
  "acq_record_times x = acq_intent_times (ac_intent x) @
     (case ac_receipt x of None \<Rightarrow> [] | Some e \<Rightarrow> acq_evidence_times e)"

lemma acq_lifecycle_receipt_roundtrip:
  assumes ok: "case e of None \<Rightarrow> True | Some r \<Rightarrow> acq_evidence_ok H r"
    and t: "list_all time_ok (case e of None \<Rightarrow> [] | Some r \<Rightarrow> acq_evidence_times r)"
  obtains j where "encode_acq_lifecycle_receipt H e = Inr j" "decode_acq_lifecycle_receipt H j = Inr e"
proof (cases e)
  case None
  then show ?thesis
    by (intro that[of JNull]) (simp_all add: encode_acq_lifecycle_receipt_def decode_acq_lifecycle_receipt_def)
next
  case (Some r)
  show ?thesis
  proof (cases r)
    case (AcqApplied a)
    then have "acq_receipt_ok H a" "list_all time_ok (acq_receipt_times a)" using ok t Some by simp_all
    then obtain kvs where kvs: "encode_acq_receipt H a = Inr (JObj kvs)" "decode_acq_receipt H (JObj kvs) = Inr a"
      by (rule acq_receipt_roundtrip)
    then have "member kvs ''outcome'' = JStr ''applied''"
      by (auto simp: encode_acq_receipt_def member_Cons split: if_splits)
    with kvs show ?thesis
      by (intro that[of "JObj kvs"])
        (simp_all add: encode_acq_lifecycle_receipt_def decode_acq_lifecycle_receipt_def Some AcqApplied)
  next
    case (AcqNoEffect a)
    then have a: "acq_no_effect_ok H a" "list_all time_ok (acq_no_effect_times a)" using ok t Some by simp_all
    then obtain kvs where kvs: "encode_acq_no_effect H a = Inr (JObj kvs)" "decode_acq_no_effect H (JObj kvs) = Inr a"
      by (rule acq_no_effect_roundtrip)
    then have "member kvs ''outcome'' = JStr ''no_effect''"
      using a(1) by (auto simp: encode_acq_no_effect_def member_Cons acq_no_effect_ok_def split: if_splits)
    with kvs show ?thesis
      by (intro that[of "JObj kvs"])
        (simp_all add: encode_acq_lifecycle_receipt_def decode_acq_lifecycle_receipt_def Some AcqNoEffect)
  qed
qed

lemma acq_record_roundtrip:
  assumes ok: "acq_record_ok H x" and t: "list_all time_ok (acq_record_times x)"
  obtains j where "encode_acq_record H x = Inr j" "decode_acq_record H j = Inr x"
proof -
  have i: "acq_intent_ok H (ac_intent x)" "case ac_receipt x of None \<Rightarrow> True | Some r \<Rightarrow> acq_evidence_ok H r"
    using ok by (auto simp: acq_record_ok_def split: option.splits)
  have t': "list_all time_ok (acq_intent_times (ac_intent x))"
      "list_all time_ok (case ac_receipt x of None \<Rightarrow> [] | Some e \<Rightarrow> acq_evidence_times e)"
    using t by (simp_all add: acq_record_times_def)
  obtain kvs where k: "encode_acq_intent H (ac_intent x) = Inr (JObj kvs)" "decode_acq_intent H (JObj kvs) = Inr (ac_intent x)"
    using acq_intent_roundtrip[OF i(1) t'(1)] .
  obtain r where r: "encode_acq_lifecycle_receipt H (ac_receipt x) = Inr r" "decode_acq_lifecycle_receipt H r = Inr (ac_receipt x)"
    using acq_lifecycle_receipt_roundtrip[OF i(2) t'(2)] .
  have eta: "\<lparr>ac_intent = ac_intent x, ac_state = ac_state x, ac_receipt = ac_receipt x,
      ac_reason_code = ac_reason_code x, ac_blocked_from = ac_blocked_from x\<rparr> = x" by (cases x) simp
  let ?j = "JObj [(''intent'', JObj kvs), (''state'', JStr (lifecycle_state_text (ac_state x))), (''receipt'', r),
       (''reason_code'', encode_optional (\<lambda>r. JStr (reason_text r)) (ac_reason_code x)),
       (''blocked_from'', encode_optional (\<lambda>s. JStr (lifecycle_state_text s)) (ac_blocked_from x))]"
  have encode: "encode_acq_record H x = Inr ?j" by (simp add: encode_acq_record_def ok k r)
  then have "decode_acq_record H ?j = Inr x"
    by (simp add: decode_acq_record_def acq_record_keys_def Let_def ok k r codec_simps member_Cons eta)
  with encode show ?thesis by (rule that)
qed


section \<open>Bindings\<close>

definition fence_binding_keys :: "string list" where
  "fence_binding_keys =
    [''provider'', ''writer_id'', ''token_digest'', ''epoch'', ''fence_revision'', ''base_revision'',
     ''scope_digest'', ''acquired_at'', ''acquisition_durable_at'', ''expires_at'',
     ''acquisition_operation_id'', ''acquisition_receipt_id'', ''acquisition_receipt_digest'']"

definition encode_fence_binding :: "fence_binding \<Rightarrow> txn_error + json" where
  "encode_fence_binding x = (if \<not> fence_binding_ok x then Inl CodecError else Inr (fence_data x))"

definition decode_fence_binding :: "json \<Rightarrow> txn_error + fence_binding" where
  "decode_fence_binding value =
    and_then (exact_dict fence_binding_keys value) (\<lambda>raw.
     and_then (decode_provider (raw ''provider'')) (\<lambda>provider.
     and_then (decode_string (raw ''writer_id'')) (\<lambda>writer_id.
     and_then (decode_fence_token_digest (raw ''token_digest'')) (\<lambda>token_digest.
     and_then (decode_nonnegative_integer (raw ''epoch'')) (\<lambda>epoch.
     and_then (decode_revision (raw ''fence_revision'')) (\<lambda>fence_revision.
     and_then (decode_revision (raw ''base_revision'')) (\<lambda>base_revision.
     and_then (decode_digest (raw ''scope_digest'')) (\<lambda>scope_digest.
     and_then (decode_timestamp (raw ''acquired_at'')) (\<lambda>acquired_at.
     and_then (decode_timestamp (raw ''acquisition_durable_at'')) (\<lambda>acquisition_durable_at.
     and_then (decode_timestamp (raw ''expires_at'')) (\<lambda>expires_at.
     and_then (decode_operation_id acquire_id_ok (raw ''acquisition_operation_id'')) (\<lambda>acquisition_operation_id.
     and_then (decode_receipt_id (raw ''acquisition_receipt_id'')) (\<lambda>acquisition_receipt_id.
     and_then (decode_digest (raw ''acquisition_receipt_digest'')) (\<lambda>acquisition_receipt_digest.
     let x = \<lparr>fb_provider = provider, fb_writer_id = writer_id, fb_token_digest = token_digest,
       fb_epoch = epoch, fb_fence_revision = fence_revision, fb_base_revision = base_revision,
       fb_scope_digest = scope_digest, fb_acquired_at = acquired_at, fb_acquisition_durable_at =
       acquisition_durable_at, fb_expires_at = expires_at, fb_acquisition_operation_id =
       acquisition_operation_id, fb_acquisition_receipt_id = acquisition_receipt_id,
       fb_acquisition_receipt_digest = acquisition_receipt_digest\<rparr> in
     and_then (construct (fence_binding_ok x) x) (\<lambda>result. roundtrip value (encode_fence_binding result) result)))))))))))))))"

definition fence_binding_times :: "fence_binding \<Rightarrow> time list" where
  "fence_binding_times x = [fb_acquired_at x, fb_acquisition_durable_at x, fb_expires_at x]"

lemma fence_binding_eta: "\<lparr>fb_provider = fb_provider x, fb_writer_id = fb_writer_id x, fb_token_digest =
    fb_token_digest x, fb_epoch = fb_epoch x, fb_fence_revision = fb_fence_revision x, fb_base_revision
    = fb_base_revision x, fb_scope_digest = fb_scope_digest x, fb_acquired_at = fb_acquired_at x,
    fb_acquisition_durable_at = fb_acquisition_durable_at x, fb_expires_at = fb_expires_at x,
    fb_acquisition_operation_id = fb_acquisition_operation_id x, fb_acquisition_receipt_id =
    fb_acquisition_receipt_id x, fb_acquisition_receipt_digest = fb_acquisition_receipt_digest x\<rparr>
    = x"
  by (cases x) simp

lemma fence_binding_roundtrip:
  assumes ok: "fence_binding_ok x" and t: "list_all time_ok (fence_binding_times x)"
  obtains kvs where "encode_fence_binding x = Inr (JObj kvs)" "decode_fence_binding (JObj kvs) = Inr x"
proof -
  have f: "provider_ok (fb_provider x)" "string_ok (fb_writer_id x)" "token_ok (fb_token_digest x)"
      "nonnegative_ok (fb_epoch x)" "revision_ok (fb_fence_revision x)" "revision_ok (fb_base_revision x)"
      "digest_ok (fb_scope_digest x)" "acquire_id_ok (fb_acquisition_operation_id x)" "receipt_id_ok
      (fb_acquisition_receipt_id x)" "digest_ok (fb_acquisition_receipt_digest x)"
    using ok unfolding fence_binding_ok_def plan_binding_ok_def by blast+
  note ts = t[unfolded fence_binding_times_def, simplified]
  let ?kvs = "[(''provider'', JStr (fb_provider x)),
     (''writer_id'', JStr (fb_writer_id x)),
     (''token_digest'', JStr (token_value (fb_token_digest x))),
     (''epoch'', JInt (fb_epoch x)),
     (''fence_revision'', encode_revision (fb_fence_revision x)),
     (''base_revision'', encode_revision (fb_base_revision x)),
     (''scope_digest'', JStr (fb_scope_digest x)),
     (''acquired_at'', JStr (encode_timestamp (fb_acquired_at x))),
     (''acquisition_durable_at'', JStr (encode_timestamp (fb_acquisition_durable_at x))),
     (''expires_at'', JStr (encode_timestamp (fb_expires_at x))),
     (''acquisition_operation_id'', JStr (fb_acquisition_operation_id x)),
     (''acquisition_receipt_id'', JStr (fb_acquisition_receipt_id x)),
     (''acquisition_receipt_digest'', JStr (fb_acquisition_receipt_digest x))]"
  have encode: "encode_fence_binding x = Inr (JObj ?kvs)" by (simp add: encode_fence_binding_def ok fence_data_def)
  then have "decode_fence_binding (JObj ?kvs) = Inr x"
    by (simp add: decode_fence_binding_def fence_binding_keys_def Let_def encode f codec_simps member_Cons ok
      fence_binding_eta ts)
  with encode show ?thesis by (rule that)
qed


section \<open>Release intents\<close>

definition rel_intent_keys :: "string list" where
  "rel_intent_keys =
    [''operation_id'', ''intent_digest'', ''plan_id'', ''plan_digest'', ''manifest_digest'', ''attempt'',
     ''release_attempt'', ''provider'', ''writer_id'', ''acquisition_operation_id'',
     ''acquisition_receipt_id'', ''acquisition_receipt_digest'', ''token_digest'', ''scope_digest'',
     ''epoch'', ''expected_inventory_revision'', ''requested_at'']"

definition encode_rel_intent :: "(string \<Rightarrow> string) \<Rightarrow> rel_intent \<Rightarrow> txn_error + json" where
  "encode_rel_intent H x = (if \<not> rel_intent_ok H x then Inl CodecError else Inr (JObj
    [(''operation_id'', JStr (ri_operation_id x)),
     (''intent_digest'', JStr (ri_intent_digest x)),
     (''plan_id'', JStr (ri_plan_id x)),
     (''plan_digest'', JStr (ri_plan_digest x)),
     (''manifest_digest'', JStr (ri_manifest_digest x)),
     (''attempt'', JInt (ri_attempt x)),
     (''release_attempt'', JInt (ri_release_attempt x)),
     (''provider'', JStr (ri_provider x)),
     (''writer_id'', JStr (ri_writer_id x)),
     (''acquisition_operation_id'', JStr (ri_acquisition_operation_id x)),
     (''acquisition_receipt_id'', JStr (ri_acquisition_receipt_id x)),
     (''acquisition_receipt_digest'', JStr (ri_acquisition_receipt_digest x)),
     (''token_digest'', JStr (token_value (ri_token_digest x))),
     (''scope_digest'', JStr (ri_scope_digest x)),
     (''epoch'', JInt (ri_epoch x)),
     (''expected_inventory_revision'', encode_revision (ri_expected_inventory_revision x)),
     (''requested_at'', JStr (encode_timestamp (ri_requested_at x)))]))"

definition decode_rel_intent :: "(string \<Rightarrow> string) \<Rightarrow> json \<Rightarrow> txn_error + rel_intent" where
  "decode_rel_intent H value =
    and_then (exact_dict rel_intent_keys value) (\<lambda>raw.
     and_then (decode_operation_id release_id_ok (raw ''operation_id'')) (\<lambda>operation_id.
     and_then (decode_digest (raw ''intent_digest'')) (\<lambda>intent_digest.
     and_then (decode_string (raw ''plan_id'')) (\<lambda>plan_id.
     and_then (decode_digest (raw ''plan_digest'')) (\<lambda>plan_digest.
     and_then (decode_digest (raw ''manifest_digest'')) (\<lambda>manifest_digest.
     and_then (decode_positive_integer (raw ''attempt'')) (\<lambda>attempt.
     and_then (decode_positive_integer (raw ''release_attempt'')) (\<lambda>release_attempt.
     and_then (decode_provider (raw ''provider'')) (\<lambda>provider.
     and_then (decode_string (raw ''writer_id'')) (\<lambda>writer_id.
     and_then (decode_operation_id acquire_id_ok (raw ''acquisition_operation_id'')) (\<lambda>acquisition_operation_id.
     and_then (decode_receipt_id (raw ''acquisition_receipt_id'')) (\<lambda>acquisition_receipt_id.
     and_then (decode_digest (raw ''acquisition_receipt_digest'')) (\<lambda>acquisition_receipt_digest.
     and_then (decode_fence_token_digest (raw ''token_digest'')) (\<lambda>token_digest.
     and_then (decode_digest (raw ''scope_digest'')) (\<lambda>scope_digest.
     and_then (decode_nonnegative_integer (raw ''epoch'')) (\<lambda>epoch.
     and_then (decode_revision (raw ''expected_inventory_revision'')) (\<lambda>expected_inventory_revision.
     and_then (decode_timestamp (raw ''requested_at'')) (\<lambda>requested_at.
     let x = \<lparr>ri_operation_id = operation_id, ri_intent_digest = intent_digest, ri_plan_id =
       plan_id, ri_plan_digest = plan_digest, ri_manifest_digest = manifest_digest, ri_attempt = attempt,
       ri_release_attempt = release_attempt, ri_provider = provider, ri_writer_id = writer_id,
       ri_acquisition_operation_id = acquisition_operation_id, ri_acquisition_receipt_id =
       acquisition_receipt_id, ri_acquisition_receipt_digest = acquisition_receipt_digest, ri_token_digest
       = token_digest, ri_scope_digest = scope_digest, ri_epoch = epoch, ri_expected_inventory_revision =
       expected_inventory_revision, ri_requested_at = requested_at\<rparr> in
     and_then (construct (rel_intent_ok H x) x) (\<lambda>result. roundtrip value (encode_rel_intent H result) result)))))))))))))))))))"

definition rel_intent_times :: "rel_intent \<Rightarrow> time list" where
  "rel_intent_times x = [ri_requested_at x]"

lemma rel_intent_eta: "\<lparr>ri_operation_id = ri_operation_id x, ri_intent_digest = ri_intent_digest x, ri_plan_id =
    ri_plan_id x, ri_plan_digest = ri_plan_digest x, ri_manifest_digest = ri_manifest_digest x,
    ri_attempt = ri_attempt x, ri_release_attempt = ri_release_attempt x, ri_provider = ri_provider x,
    ri_writer_id = ri_writer_id x, ri_acquisition_operation_id = ri_acquisition_operation_id x,
    ri_acquisition_receipt_id = ri_acquisition_receipt_id x, ri_acquisition_receipt_digest =
    ri_acquisition_receipt_digest x, ri_token_digest = ri_token_digest x, ri_scope_digest =
    ri_scope_digest x, ri_epoch = ri_epoch x, ri_expected_inventory_revision =
    ri_expected_inventory_revision x, ri_requested_at = ri_requested_at x\<rparr> = x"
  by (cases x) simp

lemma rel_intent_roundtrip:
  assumes ok: "rel_intent_ok H x" and t: "list_all time_ok (rel_intent_times x)"
  obtains kvs where "encode_rel_intent H x = Inr (JObj kvs)" "decode_rel_intent H (JObj kvs) = Inr x"
proof -
  have f: "release_id_ok (ri_operation_id x)" "digest_ok (ri_intent_digest x)" "string_ok (ri_plan_id x)"
      "digest_ok (ri_plan_digest x)" "digest_ok (ri_manifest_digest x)" "positive_ok (ri_attempt x)"
      "positive_ok (ri_release_attempt x)" "provider_ok (ri_provider x)" "string_ok (ri_writer_id x)"
      "acquire_id_ok (ri_acquisition_operation_id x)" "receipt_id_ok (ri_acquisition_receipt_id x)"
      "digest_ok (ri_acquisition_receipt_digest x)" "token_ok (ri_token_digest x)" "digest_ok
      (ri_scope_digest x)" "nonnegative_ok (ri_epoch x)" "revision_ok (ri_expected_inventory_revision x)"
    using ok unfolding rel_intent_ok_def plan_binding_ok_def by blast+
  note ts = t[unfolded rel_intent_times_def, simplified]
  let ?kvs = "[(''operation_id'', JStr (ri_operation_id x)),
     (''intent_digest'', JStr (ri_intent_digest x)),
     (''plan_id'', JStr (ri_plan_id x)),
     (''plan_digest'', JStr (ri_plan_digest x)),
     (''manifest_digest'', JStr (ri_manifest_digest x)),
     (''attempt'', JInt (ri_attempt x)),
     (''release_attempt'', JInt (ri_release_attempt x)),
     (''provider'', JStr (ri_provider x)),
     (''writer_id'', JStr (ri_writer_id x)),
     (''acquisition_operation_id'', JStr (ri_acquisition_operation_id x)),
     (''acquisition_receipt_id'', JStr (ri_acquisition_receipt_id x)),
     (''acquisition_receipt_digest'', JStr (ri_acquisition_receipt_digest x)),
     (''token_digest'', JStr (token_value (ri_token_digest x))),
     (''scope_digest'', JStr (ri_scope_digest x)),
     (''epoch'', JInt (ri_epoch x)),
     (''expected_inventory_revision'', encode_revision (ri_expected_inventory_revision x)),
     (''requested_at'', JStr (encode_timestamp (ri_requested_at x)))]"
  have encode: "encode_rel_intent H x = Inr (JObj ?kvs)" by (simp add: encode_rel_intent_def ok)
  then have "decode_rel_intent H (JObj ?kvs) = Inr x"
    by (simp add: decode_rel_intent_def rel_intent_keys_def Let_def encode f codec_simps member_Cons ok rel_intent_eta
      ts)
  with encode show ?thesis by (rule that)
qed


section \<open>Release receipts\<close>

definition rel_receipt_keys :: "string list" where
  "rel_receipt_keys =
    [''operation_id'', ''intent_digest'', ''receipt_id'', ''release_attempt'', ''outcome'', ''provider'',
     ''writer_id'', ''acquisition_operation_id'', ''acquisition_receipt_id'',
     ''acquisition_receipt_digest'', ''token_digest'', ''scope_digest'', ''epoch'',
     ''expected_inventory_revision'', ''final_inventory_revision'', ''released_at'', ''acknowledged_at'',
     ''durable_at'', ''receipt_digest'']"

definition encode_rel_receipt :: "(string \<Rightarrow> string) \<Rightarrow> rel_receipt \<Rightarrow> txn_error + json" where
  "encode_rel_receipt H x = (if \<not> rel_receipt_ok H x then Inl CodecError else Inr (JObj
    [(''operation_id'', JStr (rr_operation_id x)),
     (''intent_digest'', JStr (rr_intent_digest x)),
     (''receipt_id'', JStr (rr_receipt_id x)),
     (''release_attempt'', JInt (rr_release_attempt x)),
     (''outcome'', JStr (outcome_text APPLIED)),
     (''provider'', JStr (rr_provider x)),
     (''writer_id'', JStr (rr_writer_id x)),
     (''acquisition_operation_id'', JStr (rr_acquisition_operation_id x)),
     (''acquisition_receipt_id'', JStr (rr_acquisition_receipt_id x)),
     (''acquisition_receipt_digest'', JStr (rr_acquisition_receipt_digest x)),
     (''token_digest'', JStr (token_value (rr_token_digest x))),
     (''scope_digest'', JStr (rr_scope_digest x)),
     (''epoch'', JInt (rr_epoch x)),
     (''expected_inventory_revision'', encode_revision (rr_expected_inventory_revision x)),
     (''final_inventory_revision'', encode_revision (rr_final_inventory_revision x)),
     (''released_at'', JStr (encode_timestamp (rr_released_at x))),
     (''acknowledged_at'', JStr (encode_timestamp (rr_acknowledged_at x))),
     (''durable_at'', JStr (encode_timestamp (rr_durable_at x))),
     (''receipt_digest'', JStr (rr_receipt_digest x))]))"

definition decode_rel_receipt :: "(string \<Rightarrow> string) \<Rightarrow> json \<Rightarrow> txn_error + rel_receipt" where
  "decode_rel_receipt H value =
    and_then (exact_dict rel_receipt_keys value) (\<lambda>raw.
     and_then (decode_enum outcome_text [APPLIED, NO_EFFECT] (raw ''outcome'')) (\<lambda>outcome. if outcome \<noteq> APPLIED then Inl CodecError else
     and_then (decode_operation_id release_id_ok (raw ''operation_id'')) (\<lambda>operation_id.
     and_then (decode_digest (raw ''intent_digest'')) (\<lambda>intent_digest.
     and_then (decode_receipt_id (raw ''receipt_id'')) (\<lambda>receipt_id.
     and_then (decode_positive_integer (raw ''release_attempt'')) (\<lambda>release_attempt.
     and_then (decode_provider (raw ''provider'')) (\<lambda>provider.
     and_then (decode_string (raw ''writer_id'')) (\<lambda>writer_id.
     and_then (decode_operation_id acquire_id_ok (raw ''acquisition_operation_id'')) (\<lambda>acquisition_operation_id.
     and_then (decode_receipt_id (raw ''acquisition_receipt_id'')) (\<lambda>acquisition_receipt_id.
     and_then (decode_digest (raw ''acquisition_receipt_digest'')) (\<lambda>acquisition_receipt_digest.
     and_then (decode_fence_token_digest (raw ''token_digest'')) (\<lambda>token_digest.
     and_then (decode_digest (raw ''scope_digest'')) (\<lambda>scope_digest.
     and_then (decode_nonnegative_integer (raw ''epoch'')) (\<lambda>epoch.
     and_then (decode_revision (raw ''expected_inventory_revision'')) (\<lambda>expected_inventory_revision.
     and_then (decode_revision (raw ''final_inventory_revision'')) (\<lambda>final_inventory_revision.
     and_then (decode_timestamp (raw ''released_at'')) (\<lambda>released_at.
     and_then (decode_timestamp (raw ''acknowledged_at'')) (\<lambda>acknowledged_at.
     and_then (decode_timestamp (raw ''durable_at'')) (\<lambda>durable_at.
     and_then (decode_digest (raw ''receipt_digest'')) (\<lambda>receipt_digest.
     let x = \<lparr>rr_operation_id = operation_id, rr_intent_digest = intent_digest, rr_receipt_id =
       receipt_id, rr_release_attempt = release_attempt, rr_provider = provider, rr_writer_id = writer_id,
       rr_acquisition_operation_id = acquisition_operation_id, rr_acquisition_receipt_id =
       acquisition_receipt_id, rr_acquisition_receipt_digest = acquisition_receipt_digest, rr_token_digest
       = token_digest, rr_scope_digest = scope_digest, rr_epoch = epoch, rr_expected_inventory_revision =
       expected_inventory_revision, rr_final_inventory_revision = final_inventory_revision, rr_released_at
       = released_at, rr_acknowledged_at = acknowledged_at, rr_durable_at = durable_at, rr_receipt_digest =
       receipt_digest\<rparr> in
     and_then (construct (rel_receipt_ok H x) x) (\<lambda>result. roundtrip value (encode_rel_receipt H result) result)))))))))))))))))))))"

definition rel_receipt_times :: "rel_receipt \<Rightarrow> time list" where
  "rel_receipt_times x = [rr_released_at x, rr_acknowledged_at x, rr_durable_at x]"

lemma rel_receipt_eta: "\<lparr>rr_operation_id = rr_operation_id x, rr_intent_digest = rr_intent_digest x, rr_receipt_id =
    rr_receipt_id x, rr_release_attempt = rr_release_attempt x, rr_provider = rr_provider x,
    rr_writer_id = rr_writer_id x, rr_acquisition_operation_id = rr_acquisition_operation_id x,
    rr_acquisition_receipt_id = rr_acquisition_receipt_id x, rr_acquisition_receipt_digest =
    rr_acquisition_receipt_digest x, rr_token_digest = rr_token_digest x, rr_scope_digest =
    rr_scope_digest x, rr_epoch = rr_epoch x, rr_expected_inventory_revision =
    rr_expected_inventory_revision x, rr_final_inventory_revision = rr_final_inventory_revision x,
    rr_released_at = rr_released_at x, rr_acknowledged_at = rr_acknowledged_at x, rr_durable_at =
    rr_durable_at x, rr_receipt_digest = rr_receipt_digest x\<rparr> = x"
  by (cases x) simp

lemma rel_receipt_roundtrip:
  assumes ok: "rel_receipt_ok H x" and t: "list_all time_ok (rel_receipt_times x)"
  obtains kvs where "encode_rel_receipt H x = Inr (JObj kvs)" "decode_rel_receipt H (JObj kvs) = Inr x"
proof -
  have f: "release_id_ok (rr_operation_id x)" "digest_ok (rr_intent_digest x)" "receipt_id_ok (rr_receipt_id
      x)" "positive_ok (rr_release_attempt x)" "provider_ok (rr_provider x)" "string_ok (rr_writer_id x)"
      "acquire_id_ok (rr_acquisition_operation_id x)" "receipt_id_ok (rr_acquisition_receipt_id x)"
      "digest_ok (rr_acquisition_receipt_digest x)" "token_ok (rr_token_digest x)" "digest_ok
      (rr_scope_digest x)" "nonnegative_ok (rr_epoch x)" "revision_ok (rr_expected_inventory_revision x)"
      "revision_ok (rr_final_inventory_revision x)" "digest_ok (rr_receipt_digest x)"
    using ok unfolding rel_receipt_ok_def plan_binding_ok_def by blast+
  note ts = t[unfolded rel_receipt_times_def, simplified]
  let ?kvs = "[(''operation_id'', JStr (rr_operation_id x)),
     (''intent_digest'', JStr (rr_intent_digest x)),
     (''receipt_id'', JStr (rr_receipt_id x)),
     (''release_attempt'', JInt (rr_release_attempt x)),
     (''outcome'', JStr (outcome_text APPLIED)),
     (''provider'', JStr (rr_provider x)),
     (''writer_id'', JStr (rr_writer_id x)),
     (''acquisition_operation_id'', JStr (rr_acquisition_operation_id x)),
     (''acquisition_receipt_id'', JStr (rr_acquisition_receipt_id x)),
     (''acquisition_receipt_digest'', JStr (rr_acquisition_receipt_digest x)),
     (''token_digest'', JStr (token_value (rr_token_digest x))),
     (''scope_digest'', JStr (rr_scope_digest x)),
     (''epoch'', JInt (rr_epoch x)),
     (''expected_inventory_revision'', encode_revision (rr_expected_inventory_revision x)),
     (''final_inventory_revision'', encode_revision (rr_final_inventory_revision x)),
     (''released_at'', JStr (encode_timestamp (rr_released_at x))),
     (''acknowledged_at'', JStr (encode_timestamp (rr_acknowledged_at x))),
     (''durable_at'', JStr (encode_timestamp (rr_durable_at x))),
     (''receipt_digest'', JStr (rr_receipt_digest x))]"
  have encode: "encode_rel_receipt H x = Inr (JObj ?kvs)" by (simp add: encode_rel_receipt_def ok)
  then have "decode_rel_receipt H (JObj ?kvs) = Inr x"
    by (simp add: decode_rel_receipt_def rel_receipt_keys_def Let_def encode f codec_simps member_Cons ok
      rel_receipt_eta ts)
  with encode show ?thesis by (rule that)
qed


section \<open>Release tombstones\<close>

definition rel_no_effect_keys :: "string list" where
  "rel_no_effect_keys =
    [''operation_id'', ''intent_digest'', ''receipt_id'', ''release_attempt'', ''provider'',
     ''writer_id'', ''acquisition_operation_id'', ''acquisition_receipt_id'',
     ''acquisition_receipt_digest'', ''token_digest'', ''scope_digest'', ''epoch'',
     ''expected_inventory_revision'', ''outcome'', ''evidence'', ''acknowledged_at'', ''durable_at'',
     ''durable'', ''receipt_digest'']"

definition encode_rel_no_effect :: "(string \<Rightarrow> string) \<Rightarrow> rel_no_effect \<Rightarrow> txn_error + json" where
  "encode_rel_no_effect H x = (if \<not> rel_no_effect_ok H x then Inl CodecError else Inr (JObj
    [(''operation_id'', JStr (rn_operation_id x)),
     (''intent_digest'', JStr (rn_intent_digest x)),
     (''receipt_id'', JStr (rn_receipt_id x)),
     (''release_attempt'', JInt (rn_release_attempt x)),
     (''provider'', JStr (rn_provider x)),
     (''writer_id'', JStr (rn_writer_id x)),
     (''acquisition_operation_id'', JStr (rn_acquisition_operation_id x)),
     (''acquisition_receipt_id'', JStr (rn_acquisition_receipt_id x)),
     (''acquisition_receipt_digest'', JStr (rn_acquisition_receipt_digest x)),
     (''token_digest'', JStr (token_value (rn_token_digest x))),
     (''scope_digest'', JStr (rn_scope_digest x)),
     (''epoch'', JInt (rn_epoch x)),
     (''expected_inventory_revision'', encode_revision (rn_expected_inventory_revision x)),
     (''outcome'', JStr (outcome_text (rn_outcome x))),
     (''evidence'', JStr (evidence_text (rn_evidence x))),
     (''acknowledged_at'', JStr (encode_timestamp (rn_acknowledged_at x))),
     (''durable_at'', JStr (encode_timestamp (rn_durable_at x))),
     (''durable'', JBool (rn_durable x)),
     (''receipt_digest'', JStr (rn_receipt_digest x))]))"

definition decode_rel_no_effect :: "(string \<Rightarrow> string) \<Rightarrow> json \<Rightarrow> txn_error + rel_no_effect" where
  "decode_rel_no_effect H value =
    and_then (exact_dict rel_no_effect_keys value) (\<lambda>raw.
     and_then (decode_operation_id release_id_ok (raw ''operation_id'')) (\<lambda>operation_id.
     and_then (decode_digest (raw ''intent_digest'')) (\<lambda>intent_digest.
     and_then (decode_receipt_id (raw ''receipt_id'')) (\<lambda>receipt_id.
     and_then (decode_positive_integer (raw ''release_attempt'')) (\<lambda>release_attempt.
     and_then (decode_provider (raw ''provider'')) (\<lambda>provider.
     and_then (decode_string (raw ''writer_id'')) (\<lambda>writer_id.
     and_then (decode_operation_id acquire_id_ok (raw ''acquisition_operation_id'')) (\<lambda>acquisition_operation_id.
     and_then (decode_receipt_id (raw ''acquisition_receipt_id'')) (\<lambda>acquisition_receipt_id.
     and_then (decode_digest (raw ''acquisition_receipt_digest'')) (\<lambda>acquisition_receipt_digest.
     and_then (decode_fence_token_digest (raw ''token_digest'')) (\<lambda>token_digest.
     and_then (decode_digest (raw ''scope_digest'')) (\<lambda>scope_digest.
     and_then (decode_nonnegative_integer (raw ''epoch'')) (\<lambda>epoch.
     and_then (decode_revision (raw ''expected_inventory_revision'')) (\<lambda>expected_inventory_revision.
     and_then (decode_enum outcome_text [APPLIED, NO_EFFECT] (raw ''outcome'')) (\<lambda>outcome.
     and_then (decode_enum evidence_text [DISPATCH_ACK, OPERATION_LEDGER] (raw ''evidence'')) (\<lambda>evidence.
     and_then (decode_timestamp (raw ''acknowledged_at'')) (\<lambda>acknowledged_at.
     and_then (decode_timestamp (raw ''durable_at'')) (\<lambda>durable_at.
     and_then (decode_boolean (raw ''durable'')) (\<lambda>durable.
     and_then (decode_digest (raw ''receipt_digest'')) (\<lambda>receipt_digest.
     let x = \<lparr>rn_operation_id = operation_id, rn_intent_digest = intent_digest, rn_receipt_id =
       receipt_id, rn_release_attempt = release_attempt, rn_provider = provider, rn_writer_id = writer_id,
       rn_acquisition_operation_id = acquisition_operation_id, rn_acquisition_receipt_id =
       acquisition_receipt_id, rn_acquisition_receipt_digest = acquisition_receipt_digest, rn_token_digest
       = token_digest, rn_scope_digest = scope_digest, rn_epoch = epoch, rn_expected_inventory_revision =
       expected_inventory_revision, rn_outcome = outcome, rn_evidence = evidence, rn_acknowledged_at =
       acknowledged_at, rn_durable_at = durable_at, rn_durable = durable, rn_receipt_digest =
       receipt_digest\<rparr> in
     and_then (construct (rel_no_effect_ok H x) x) (\<lambda>result. roundtrip value (encode_rel_no_effect H result) result)))))))))))))))))))))"

definition rel_no_effect_times :: "rel_no_effect \<Rightarrow> time list" where
  "rel_no_effect_times x = [rn_acknowledged_at x, rn_durable_at x]"

lemma rel_no_effect_eta: "\<lparr>rn_operation_id = rn_operation_id x, rn_intent_digest = rn_intent_digest x, rn_receipt_id =
    rn_receipt_id x, rn_release_attempt = rn_release_attempt x, rn_provider = rn_provider x,
    rn_writer_id = rn_writer_id x, rn_acquisition_operation_id = rn_acquisition_operation_id x,
    rn_acquisition_receipt_id = rn_acquisition_receipt_id x, rn_acquisition_receipt_digest =
    rn_acquisition_receipt_digest x, rn_token_digest = rn_token_digest x, rn_scope_digest =
    rn_scope_digest x, rn_epoch = rn_epoch x, rn_expected_inventory_revision =
    rn_expected_inventory_revision x, rn_outcome = rn_outcome x, rn_evidence = rn_evidence x,
    rn_acknowledged_at = rn_acknowledged_at x, rn_durable_at = rn_durable_at x, rn_durable = rn_durable
    x, rn_receipt_digest = rn_receipt_digest x\<rparr> = x"
  by (cases x) simp

lemma rel_no_effect_roundtrip:
  assumes ok: "rel_no_effect_ok H x" and t: "list_all time_ok (rel_no_effect_times x)"
  obtains kvs where "encode_rel_no_effect H x = Inr (JObj kvs)" "decode_rel_no_effect H (JObj kvs) = Inr x"
proof -
  have f: "release_id_ok (rn_operation_id x)" "digest_ok (rn_intent_digest x)" "receipt_id_ok (rn_receipt_id
      x)" "positive_ok (rn_release_attempt x)" "provider_ok (rn_provider x)" "string_ok (rn_writer_id x)"
      "acquire_id_ok (rn_acquisition_operation_id x)" "receipt_id_ok (rn_acquisition_receipt_id x)"
      "digest_ok (rn_acquisition_receipt_digest x)" "token_ok (rn_token_digest x)" "digest_ok
      (rn_scope_digest x)" "nonnegative_ok (rn_epoch x)" "revision_ok (rn_expected_inventory_revision x)"
      "digest_ok (rn_receipt_digest x)"
    using ok unfolding rel_no_effect_ok_def plan_binding_ok_def by blast+
  note ts = t[unfolded rel_no_effect_times_def, simplified]
  let ?kvs = "[(''operation_id'', JStr (rn_operation_id x)),
     (''intent_digest'', JStr (rn_intent_digest x)),
     (''receipt_id'', JStr (rn_receipt_id x)),
     (''release_attempt'', JInt (rn_release_attempt x)),
     (''provider'', JStr (rn_provider x)),
     (''writer_id'', JStr (rn_writer_id x)),
     (''acquisition_operation_id'', JStr (rn_acquisition_operation_id x)),
     (''acquisition_receipt_id'', JStr (rn_acquisition_receipt_id x)),
     (''acquisition_receipt_digest'', JStr (rn_acquisition_receipt_digest x)),
     (''token_digest'', JStr (token_value (rn_token_digest x))),
     (''scope_digest'', JStr (rn_scope_digest x)),
     (''epoch'', JInt (rn_epoch x)),
     (''expected_inventory_revision'', encode_revision (rn_expected_inventory_revision x)),
     (''outcome'', JStr (outcome_text (rn_outcome x))),
     (''evidence'', JStr (evidence_text (rn_evidence x))),
     (''acknowledged_at'', JStr (encode_timestamp (rn_acknowledged_at x))),
     (''durable_at'', JStr (encode_timestamp (rn_durable_at x))),
     (''durable'', JBool (rn_durable x)),
     (''receipt_digest'', JStr (rn_receipt_digest x))]"
  have encode: "encode_rel_no_effect H x = Inr (JObj ?kvs)" by (simp add: encode_rel_no_effect_def ok)
  then have "decode_rel_no_effect H (JObj ?kvs) = Inr x"
    by (simp add: decode_rel_no_effect_def rel_no_effect_keys_def Let_def encode f codec_simps member_Cons ok
      rel_no_effect_eta ts)
  with encode show ?thesis by (rule that)
qed


section \<open>Release records\<close>

fun encode_rel_evidence :: "(string \<Rightarrow> string) \<Rightarrow> rel_evidence \<Rightarrow> txn_error + json" where
  "encode_rel_evidence H (RelApplied r) = encode_rel_receipt H r"
| "encode_rel_evidence H (RelNoEffect r) = encode_rel_no_effect H r"

text \<open>The optional receipt: \<open>None\<close> is written as null.\<close>

definition encode_rel_lifecycle_receipt :: "(string \<Rightarrow> string) \<Rightarrow> rel_evidence option \<Rightarrow> txn_error + json" where
  "encode_rel_lifecycle_receipt H e = (case e of None \<Rightarrow> Inr JNull | Some r \<Rightarrow> encode_rel_evidence H r)"

text \<open>The receipt is chosen by the outcome it claims.\<close>

definition decode_rel_lifecycle_receipt :: "(string \<Rightarrow> string) \<Rightarrow> json \<Rightarrow> txn_error + rel_evidence option" where
  "decode_rel_lifecycle_receipt H value = (case value of
     JNull \<Rightarrow> Inr None
   | JObj kvs \<Rightarrow>
       if member kvs ''outcome'' = JStr ''applied''
       then and_then (decode_rel_receipt H value) (\<lambda>r. Inr (Some (RelApplied r)))
       else if member kvs ''outcome'' = JStr ''no_effect''
       then and_then (decode_rel_no_effect H value) (\<lambda>r. Inr (Some (RelNoEffect r)))
       else Inl CodecError
   | _ \<Rightarrow> Inl CodecError)"

definition rel_record_keys :: "string list" where
  "rel_record_keys = [''intent'', ''state'', ''receipt'', ''reason_code'', ''blocked_from'']"

definition encode_rel_record :: "(string \<Rightarrow> string) \<Rightarrow> rel_record \<Rightarrow> txn_error + json" where
  "encode_rel_record H x = (if \<not> rel_record_ok H x then Inl CodecError else
     and_then (encode_rel_intent H (rl_intent x)) (\<lambda>intent.
     and_then (encode_rel_lifecycle_receipt H (rl_receipt x)) (\<lambda>receipt.
     Inr (JObj
      [(''intent'', intent),
       (''state'', JStr (lifecycle_state_text (rl_state x))),
       (''receipt'', receipt),
       (''reason_code'', encode_optional (\<lambda>r. JStr (reason_text r)) (rl_reason_code x)),
       (''blocked_from'', encode_optional (\<lambda>s. JStr (lifecycle_state_text s)) (rl_blocked_from x))]))))"

definition decode_rel_record :: "(string \<Rightarrow> string) \<Rightarrow> json \<Rightarrow> txn_error + rel_record" where
  "decode_rel_record H value =
    and_then (exact_dict rel_record_keys value) (\<lambda>raw.
     and_then (decode_rel_lifecycle_receipt H (raw ''receipt'')) (\<lambda>receipt.
     and_then (decode_rel_intent H (raw ''intent'')) (\<lambda>intent.
     and_then (decode_enum lifecycle_state_text lifecycle_states (raw ''state'')) (\<lambda>state.
     and_then (decode_reason (raw ''reason_code'')) (\<lambda>reason_code.
     and_then (decode_optional (decode_enum lifecycle_state_text lifecycle_states) (raw ''blocked_from'')) (\<lambda>blocked_from.
     let x = \<lparr>rl_intent = intent, rl_state = state, rl_receipt = receipt, rl_reason_code = reason_code,
       rl_blocked_from = blocked_from\<rparr> in
     and_then (construct (rel_record_ok H x) x) (\<lambda>result. roundtrip value (encode_rel_record H result) result)))))))"

fun rel_evidence_times :: "rel_evidence \<Rightarrow> time list" where
  "rel_evidence_times (RelApplied r) = rel_receipt_times r"
| "rel_evidence_times (RelNoEffect r) = rel_no_effect_times r"

definition rel_record_times :: "rel_record \<Rightarrow> time list" where
  "rel_record_times x = rel_intent_times (rl_intent x) @
     (case rl_receipt x of None \<Rightarrow> [] | Some e \<Rightarrow> rel_evidence_times e)"

lemma rel_lifecycle_receipt_roundtrip:
  assumes ok: "case e of None \<Rightarrow> True | Some r \<Rightarrow> rel_evidence_ok H r"
    and t: "list_all time_ok (case e of None \<Rightarrow> [] | Some r \<Rightarrow> rel_evidence_times r)"
  obtains j where "encode_rel_lifecycle_receipt H e = Inr j" "decode_rel_lifecycle_receipt H j = Inr e"
proof (cases e)
  case None
  then show ?thesis
    by (intro that[of JNull]) (simp_all add: encode_rel_lifecycle_receipt_def decode_rel_lifecycle_receipt_def)
next
  case (Some r)
  show ?thesis
  proof (cases r)
    case (RelApplied a)
    then have "rel_receipt_ok H a" "list_all time_ok (rel_receipt_times a)" using ok t Some by simp_all
    then obtain kvs where kvs: "encode_rel_receipt H a = Inr (JObj kvs)" "decode_rel_receipt H (JObj kvs) = Inr a"
      by (rule rel_receipt_roundtrip)
    then have "member kvs ''outcome'' = JStr ''applied''"
      by (auto simp: encode_rel_receipt_def member_Cons split: if_splits)
    with kvs show ?thesis
      by (intro that[of "JObj kvs"])
        (simp_all add: encode_rel_lifecycle_receipt_def decode_rel_lifecycle_receipt_def Some RelApplied)
  next
    case (RelNoEffect a)
    then have a: "rel_no_effect_ok H a" "list_all time_ok (rel_no_effect_times a)" using ok t Some by simp_all
    then obtain kvs where kvs: "encode_rel_no_effect H a = Inr (JObj kvs)" "decode_rel_no_effect H (JObj kvs) = Inr a"
      by (rule rel_no_effect_roundtrip)
    then have "member kvs ''outcome'' = JStr ''no_effect''"
      using a(1) by (auto simp: encode_rel_no_effect_def member_Cons rel_no_effect_ok_def split: if_splits)
    with kvs show ?thesis
      by (intro that[of "JObj kvs"])
        (simp_all add: encode_rel_lifecycle_receipt_def decode_rel_lifecycle_receipt_def Some RelNoEffect)
  qed
qed

lemma rel_record_roundtrip:
  assumes ok: "rel_record_ok H x" and t: "list_all time_ok (rel_record_times x)"
  obtains j where "encode_rel_record H x = Inr j" "decode_rel_record H j = Inr x"
proof -
  have i: "rel_intent_ok H (rl_intent x)" "case rl_receipt x of None \<Rightarrow> True | Some r \<Rightarrow> rel_evidence_ok H r"
    using ok by (auto simp: rel_record_ok_def split: option.splits)
  have t': "list_all time_ok (rel_intent_times (rl_intent x))"
      "list_all time_ok (case rl_receipt x of None \<Rightarrow> [] | Some e \<Rightarrow> rel_evidence_times e)"
    using t by (simp_all add: rel_record_times_def)
  obtain kvs where k: "encode_rel_intent H (rl_intent x) = Inr (JObj kvs)" "decode_rel_intent H (JObj kvs) = Inr (rl_intent x)"
    using rel_intent_roundtrip[OF i(1) t'(1)] .
  obtain r where r: "encode_rel_lifecycle_receipt H (rl_receipt x) = Inr r" "decode_rel_lifecycle_receipt H r = Inr (rl_receipt x)"
    using rel_lifecycle_receipt_roundtrip[OF i(2) t'(2)] .
  have eta: "\<lparr>rl_intent = rl_intent x, rl_state = rl_state x, rl_receipt = rl_receipt x,
      rl_reason_code = rl_reason_code x, rl_blocked_from = rl_blocked_from x\<rparr> = x" by (cases x) simp
  let ?j = "JObj [(''intent'', JObj kvs), (''state'', JStr (lifecycle_state_text (rl_state x))), (''receipt'', r),
       (''reason_code'', encode_optional (\<lambda>r. JStr (reason_text r)) (rl_reason_code x)),
       (''blocked_from'', encode_optional (\<lambda>s. JStr (lifecycle_state_text s)) (rl_blocked_from x))]"
  have encode: "encode_rel_record H x = Inr ?j" by (simp add: encode_rel_record_def ok k r)
  then have "decode_rel_record H ?j = Inr x"
    by (simp add: decode_rel_record_def rel_record_keys_def Let_def ok k r codec_simps member_Cons eta)
  with encode show ?thesis by (rule that)
qed

end
