(* ===== verification/Codec_Object.thy ===== *)
theory Codec_Object
  imports Codec_Fence
begin

text \<open>
  The persisted form of object operations: intents, receipts, observations, authorizations and
  verifications.
\<close>

section \<open>Object intents\<close>

definition obj_intent_keys :: "string list" where
  "obj_intent_keys =
    [''operation_id'', ''intent_digest'', ''plan_id'', ''plan_digest'', ''manifest_digest'', ''attempt'',
     ''sequence'', ''kind'', ''provider'', ''object_key'', ''expected_revision'', ''pre_fingerprint'',
     ''post_fingerprint'', ''fence'', ''parent_operation_id'']"

definition encode_obj_intent :: "(string \<Rightarrow> string) \<Rightarrow> obj_intent \<Rightarrow> txn_error + json" where
  "encode_obj_intent H x = (if \<not> obj_intent_ok H x then Inl CodecError else 
   and_then (encode_fence_binding (oi_fence x)) (\<lambda>fence. Inr (JObj
    [(''operation_id'', JStr (oi_operation_id x)),
     (''intent_digest'', JStr (oi_intent_digest x)),
     (''plan_id'', JStr (oi_plan_id x)),
     (''plan_digest'', JStr (oi_plan_digest x)),
     (''manifest_digest'', JStr (oi_manifest_digest x)),
     (''attempt'', JInt (oi_attempt x)),
     (''sequence'', JInt (oi_sequence x)),
     (''kind'', JStr (kind_text (oi_kind x))),
     (''provider'', JStr (oi_provider x)),
     (''object_key'', JStr (oi_object_key x)),
     (''expected_revision'', encode_revision (oi_expected_revision x)),
     (''pre_fingerprint'', JStr (oi_pre_fingerprint x)),
     (''post_fingerprint'', JStr (oi_post_fingerprint x)),
     (''fence'', fence),
     (''parent_operation_id'', encode_optional JStr (oi_parent_operation_id x))])))"

definition decode_obj_intent :: "(string \<Rightarrow> string) \<Rightarrow> json \<Rightarrow> txn_error + obj_intent" where
  "decode_obj_intent H value =
    and_then (exact_dict obj_intent_keys value) (\<lambda>raw.
     and_then (decode_optional (decode_operation_id object_id_ok) (raw ''parent_operation_id'')) (\<lambda>parent_operation_id.
     and_then (decode_operation_id object_id_ok (raw ''operation_id'')) (\<lambda>operation_id.
     and_then (decode_digest (raw ''intent_digest'')) (\<lambda>intent_digest.
     and_then (decode_string (raw ''plan_id'')) (\<lambda>plan_id.
     and_then (decode_digest (raw ''plan_digest'')) (\<lambda>plan_digest.
     and_then (decode_digest (raw ''manifest_digest'')) (\<lambda>manifest_digest.
     and_then (decode_positive_integer (raw ''attempt'')) (\<lambda>attempt.
     and_then (decode_positive_integer (raw ''sequence'')) (\<lambda>sequence.
     and_then (decode_enum kind_text [WRITE, ROLLBACK] (raw ''kind'')) (\<lambda>kind.
     and_then (decode_provider (raw ''provider'')) (\<lambda>provider.
     and_then (decode_string (raw ''object_key'')) (\<lambda>object_key.
     and_then (decode_revision (raw ''expected_revision'')) (\<lambda>expected_revision.
     and_then (decode_digest (raw ''pre_fingerprint'')) (\<lambda>pre_fingerprint.
     and_then (decode_digest (raw ''post_fingerprint'')) (\<lambda>post_fingerprint.
     and_then (decode_fence_binding (raw ''fence'')) (\<lambda>fence.
     let x = \<lparr>oi_operation_id = operation_id, oi_intent_digest = intent_digest, oi_plan_id =
       plan_id, oi_plan_digest = plan_digest, oi_manifest_digest = manifest_digest, oi_attempt = attempt,
       oi_sequence = sequence, oi_kind = kind, oi_provider = provider, oi_object_key = object_key,
       oi_expected_revision = expected_revision, oi_pre_fingerprint = pre_fingerprint, oi_post_fingerprint
       = post_fingerprint, oi_fence = fence, oi_parent_operation_id = parent_operation_id\<rparr> in
     and_then (construct (obj_intent_ok H x) x) (\<lambda>result. roundtrip value (encode_obj_intent H result) result)))))))))))))))))"

definition obj_intent_times :: "obj_intent \<Rightarrow> time list" where
  "obj_intent_times x = fence_binding_times (oi_fence x)"

lemma obj_intent_eta: "\<lparr>oi_operation_id = oi_operation_id x, oi_intent_digest = oi_intent_digest x, oi_plan_id =
    oi_plan_id x, oi_plan_digest = oi_plan_digest x, oi_manifest_digest = oi_manifest_digest x,
    oi_attempt = oi_attempt x, oi_sequence = oi_sequence x, oi_kind = oi_kind x, oi_provider =
    oi_provider x, oi_object_key = oi_object_key x, oi_expected_revision = oi_expected_revision x,
    oi_pre_fingerprint = oi_pre_fingerprint x, oi_post_fingerprint = oi_post_fingerprint x, oi_fence =
    oi_fence x, oi_parent_operation_id = oi_parent_operation_id x\<rparr> = x"
  by (cases x) simp

lemma obj_intent_roundtrip:
  assumes ok: "obj_intent_ok H x" and t: "list_all time_ok (obj_intent_times x)"
  obtains kvs where "encode_obj_intent H x = Inr (JObj kvs)" "decode_obj_intent H (JObj kvs) = Inr x"
proof -
  have f: "object_id_ok (oi_operation_id x)" "digest_ok (oi_intent_digest x)" "string_ok (oi_plan_id x)"
      "digest_ok (oi_plan_digest x)" "digest_ok (oi_manifest_digest x)" "positive_ok (oi_attempt x)"
      "positive_ok (oi_sequence x)" "provider_ok (oi_provider x)" "string_ok (oi_object_key x)"
      "revision_ok (oi_expected_revision x)" "digest_ok (oi_pre_fingerprint x)" "digest_ok
      (oi_post_fingerprint x)"
    using ok unfolding obj_intent_ok_def obj_intent_fields_ok_def plan_binding_ok_def by blast+
  have parent: "case oi_parent_operation_id x of None \<Rightarrow> True | Some i \<Rightarrow> object_id_ok i"
    using ok by (auto simp: obj_intent_ok_def obj_intent_fields_ok_def split: option.splits operation_kind.splits)
  have fok: "fence_binding_ok (oi_fence x)" using ok by (simp add: obj_intent_ok_def obj_intent_fields_ok_def)
  obtain kvs where
    fence: "encode_fence_binding (oi_fence x) = Inr (JObj kvs)" "decode_fence_binding (JObj kvs) = Inr (oi_fence x)"
    using fence_binding_roundtrip[OF fok t[unfolded obj_intent_times_def]] .
  let ?kvs = "[(''operation_id'', JStr (oi_operation_id x)),
     (''intent_digest'', JStr (oi_intent_digest x)),
     (''plan_id'', JStr (oi_plan_id x)),
     (''plan_digest'', JStr (oi_plan_digest x)),
     (''manifest_digest'', JStr (oi_manifest_digest x)),
     (''attempt'', JInt (oi_attempt x)),
     (''sequence'', JInt (oi_sequence x)),
     (''kind'', JStr (kind_text (oi_kind x))),
     (''provider'', JStr (oi_provider x)),
     (''object_key'', JStr (oi_object_key x)),
     (''expected_revision'', encode_revision (oi_expected_revision x)),
     (''pre_fingerprint'', JStr (oi_pre_fingerprint x)),
     (''post_fingerprint'', JStr (oi_post_fingerprint x)),
     (''fence'', JObj kvs),
     (''parent_operation_id'', encode_optional JStr (oi_parent_operation_id x))]"
  have encode: "encode_obj_intent H x = Inr (JObj ?kvs)" by (simp add: encode_obj_intent_def ok fence)
  then have "decode_obj_intent H (JObj ?kvs) = Inr x"
    by (simp add: decode_obj_intent_def obj_intent_keys_def Let_def encode f codec_simps member_Cons ok obj_intent_eta
      parent fence)
  with encode show ?thesis by (rule that)
qed


section \<open>Object receipts\<close>

definition obj_receipt_keys :: "string list" where
  "obj_receipt_keys =
    [''operation_id'', ''intent_digest'', ''receipt_id'', ''kind'', ''provider'', ''object_key'',
     ''fence_token_digest'', ''fence_epoch'', ''fence_scope_digest'', ''fence_writer_id'',
     ''fence_acquisition_operation_id'', ''fence_acquisition_receipt_id'',
     ''fence_acquisition_receipt_digest'', ''authorization_digest'', ''authorization_observed_at'',
     ''authorized_at'', ''previous_revision'', ''result_revision'', ''pre_fingerprint'',
     ''post_fingerprint'', ''outcome'', ''evidence'', ''effect_at'', ''acknowledged_at'', ''durable_at'',
     ''durable'', ''receipt_digest'']"

definition encode_obj_receipt :: "(string \<Rightarrow> string) \<Rightarrow> obj_receipt \<Rightarrow> txn_error + json" where
  "encode_obj_receipt H x = (if \<not> obj_receipt_ok H x then Inl CodecError else Inr (JObj
    [(''operation_id'', JStr (oc_operation_id x)),
     (''intent_digest'', JStr (oc_intent_digest x)),
     (''receipt_id'', JStr (oc_receipt_id x)),
     (''kind'', JStr (kind_text (oc_kind x))),
     (''provider'', JStr (oc_provider x)),
     (''object_key'', JStr (oc_object_key x)),
     (''fence_token_digest'', JStr (token_value (oc_fence_token_digest x))),
     (''fence_epoch'', JInt (oc_fence_epoch x)),
     (''fence_scope_digest'', JStr (oc_fence_scope_digest x)),
     (''fence_writer_id'', JStr (oc_fence_writer_id x)),
     (''fence_acquisition_operation_id'', JStr (oc_fence_acquisition_operation_id x)),
     (''fence_acquisition_receipt_id'', JStr (oc_fence_acquisition_receipt_id x)),
     (''fence_acquisition_receipt_digest'', JStr (oc_fence_acquisition_receipt_digest x)),
     (''authorization_digest'', JStr (oc_authorization_digest x)),
     (''authorization_observed_at'', JStr (encode_timestamp (oc_authorization_observed_at x))),
     (''authorized_at'', JStr (encode_timestamp (oc_authorized_at x))),
     (''previous_revision'', encode_revision (oc_previous_revision x)),
     (''result_revision'', encode_revision (oc_result_revision x)),
     (''pre_fingerprint'', JStr (oc_pre_fingerprint x)),
     (''post_fingerprint'', JStr (oc_post_fingerprint x)),
     (''outcome'', JStr (outcome_text (oc_outcome x))),
     (''evidence'', JStr (evidence_text (oc_evidence x))),
     (''effect_at'', encode_optional (\<lambda>t. JStr (encode_timestamp t)) (oc_effect_at x)),
     (''acknowledged_at'', JStr (encode_timestamp (oc_acknowledged_at x))),
     (''durable_at'', JStr (encode_timestamp (oc_durable_at x))),
     (''durable'', JBool (oc_durable x)),
     (''receipt_digest'', JStr (oc_receipt_digest x))]))"

definition decode_obj_receipt :: "(string \<Rightarrow> string) \<Rightarrow> json \<Rightarrow> txn_error + obj_receipt" where
  "decode_obj_receipt H value =
    and_then (exact_dict obj_receipt_keys value) (\<lambda>raw.
     and_then (decode_optional decode_timestamp (raw ''effect_at'')) (\<lambda>effect_at.
     and_then (decode_operation_id object_id_ok (raw ''operation_id'')) (\<lambda>operation_id.
     and_then (decode_digest (raw ''intent_digest'')) (\<lambda>intent_digest.
     and_then (decode_receipt_id (raw ''receipt_id'')) (\<lambda>receipt_id.
     and_then (decode_enum kind_text [WRITE, ROLLBACK] (raw ''kind'')) (\<lambda>kind.
     and_then (decode_provider (raw ''provider'')) (\<lambda>provider.
     and_then (decode_string (raw ''object_key'')) (\<lambda>object_key.
     and_then (decode_fence_token_digest (raw ''fence_token_digest'')) (\<lambda>fence_token_digest.
     and_then (decode_nonnegative_integer (raw ''fence_epoch'')) (\<lambda>fence_epoch.
     and_then (decode_digest (raw ''fence_scope_digest'')) (\<lambda>fence_scope_digest.
     and_then (decode_string (raw ''fence_writer_id'')) (\<lambda>fence_writer_id.
     and_then (decode_operation_id acquire_id_ok (raw ''fence_acquisition_operation_id'')) (\<lambda>fence_acquisition_operation_id.
     and_then (decode_receipt_id (raw ''fence_acquisition_receipt_id'')) (\<lambda>fence_acquisition_receipt_id.
     and_then (decode_digest (raw ''fence_acquisition_receipt_digest'')) (\<lambda>fence_acquisition_receipt_digest.
     and_then (decode_digest (raw ''authorization_digest'')) (\<lambda>authorization_digest.
     and_then (decode_timestamp (raw ''authorization_observed_at'')) (\<lambda>authorization_observed_at.
     and_then (decode_timestamp (raw ''authorized_at'')) (\<lambda>authorized_at.
     and_then (decode_revision (raw ''previous_revision'')) (\<lambda>previous_revision.
     and_then (decode_revision (raw ''result_revision'')) (\<lambda>result_revision.
     and_then (decode_digest (raw ''pre_fingerprint'')) (\<lambda>pre_fingerprint.
     and_then (decode_digest (raw ''post_fingerprint'')) (\<lambda>post_fingerprint.
     and_then (decode_enum outcome_text [APPLIED, NO_EFFECT] (raw ''outcome'')) (\<lambda>outcome.
     and_then (decode_enum evidence_text [DISPATCH_ACK, OPERATION_LEDGER] (raw ''evidence'')) (\<lambda>evidence.
     and_then (decode_timestamp (raw ''acknowledged_at'')) (\<lambda>acknowledged_at.
     and_then (decode_timestamp (raw ''durable_at'')) (\<lambda>durable_at.
     and_then (decode_boolean (raw ''durable'')) (\<lambda>durable.
     and_then (decode_digest (raw ''receipt_digest'')) (\<lambda>receipt_digest.
     let x = \<lparr>oc_operation_id = operation_id, oc_intent_digest = intent_digest, oc_receipt_id =
       receipt_id, oc_kind = kind, oc_provider = provider, oc_object_key = object_key,
       oc_fence_token_digest = fence_token_digest, oc_fence_epoch = fence_epoch, oc_fence_scope_digest =
       fence_scope_digest, oc_fence_writer_id = fence_writer_id, oc_fence_acquisition_operation_id =
       fence_acquisition_operation_id, oc_fence_acquisition_receipt_id = fence_acquisition_receipt_id,
       oc_fence_acquisition_receipt_digest = fence_acquisition_receipt_digest, oc_authorization_digest =
       authorization_digest, oc_authorization_observed_at = authorization_observed_at, oc_authorized_at =
       authorized_at, oc_previous_revision = previous_revision, oc_result_revision = result_revision,
       oc_pre_fingerprint = pre_fingerprint, oc_post_fingerprint = post_fingerprint, oc_outcome = outcome,
       oc_evidence = evidence, oc_effect_at = effect_at, oc_acknowledged_at = acknowledged_at,
       oc_durable_at = durable_at, oc_durable = durable, oc_receipt_digest = receipt_digest\<rparr> in
     and_then (construct (obj_receipt_ok H x) x) (\<lambda>result. roundtrip value (encode_obj_receipt H result) result)))))))))))))))))))))))))))))"

definition obj_receipt_times :: "obj_receipt \<Rightarrow> time list" where
  "obj_receipt_times x = [oc_authorization_observed_at x, oc_authorized_at x, oc_acknowledged_at x, oc_durable_at x] @ (case
    oc_effect_at x of None \<Rightarrow> [] | Some t \<Rightarrow> [t])"

lemma obj_receipt_eta: "\<lparr>oc_operation_id = oc_operation_id x, oc_intent_digest = oc_intent_digest x, oc_receipt_id =
    oc_receipt_id x, oc_kind = oc_kind x, oc_provider = oc_provider x, oc_object_key = oc_object_key x,
    oc_fence_token_digest = oc_fence_token_digest x, oc_fence_epoch = oc_fence_epoch x,
    oc_fence_scope_digest = oc_fence_scope_digest x, oc_fence_writer_id = oc_fence_writer_id x,
    oc_fence_acquisition_operation_id = oc_fence_acquisition_operation_id x,
    oc_fence_acquisition_receipt_id = oc_fence_acquisition_receipt_id x,
    oc_fence_acquisition_receipt_digest = oc_fence_acquisition_receipt_digest x, oc_authorization_digest
    = oc_authorization_digest x, oc_authorization_observed_at = oc_authorization_observed_at x,
    oc_authorized_at = oc_authorized_at x, oc_previous_revision = oc_previous_revision x,
    oc_result_revision = oc_result_revision x, oc_pre_fingerprint = oc_pre_fingerprint x,
    oc_post_fingerprint = oc_post_fingerprint x, oc_outcome = oc_outcome x, oc_evidence = oc_evidence x,
    oc_effect_at = oc_effect_at x, oc_acknowledged_at = oc_acknowledged_at x, oc_durable_at =
    oc_durable_at x, oc_durable = oc_durable x, oc_receipt_digest = oc_receipt_digest x\<rparr> = x"
  by (cases x) simp

lemma obj_receipt_roundtrip:
  assumes ok: "obj_receipt_ok H x" and t: "list_all time_ok (obj_receipt_times x)"
  obtains kvs where "encode_obj_receipt H x = Inr (JObj kvs)" "decode_obj_receipt H (JObj kvs) = Inr x"
proof -
  have f: "object_id_ok (oc_operation_id x)" "digest_ok (oc_intent_digest x)" "receipt_id_ok (oc_receipt_id
      x)" "provider_ok (oc_provider x)" "string_ok (oc_object_key x)" "token_ok (oc_fence_token_digest x)"
      "nonnegative_ok (oc_fence_epoch x)" "digest_ok (oc_fence_scope_digest x)" "string_ok
      (oc_fence_writer_id x)" "acquire_id_ok (oc_fence_acquisition_operation_id x)" "receipt_id_ok
      (oc_fence_acquisition_receipt_id x)" "digest_ok (oc_fence_acquisition_receipt_digest x)" "digest_ok
      (oc_authorization_digest x)" "revision_ok (oc_previous_revision x)" "revision_ok (oc_result_revision
      x)" "digest_ok (oc_pre_fingerprint x)" "digest_ok (oc_post_fingerprint x)" "digest_ok
      (oc_receipt_digest x)"
    using ok unfolding obj_receipt_ok_def plan_binding_ok_def by blast+
  have opt: "case oc_effect_at x of None \<Rightarrow> True | Some y \<Rightarrow> time_ok y"
    using t by (auto simp: obj_receipt_times_def split: option.splits)
  have ts: "time_ok (oc_authorization_observed_at x)" "time_ok (oc_authorized_at x)" "time_ok
      (oc_acknowledged_at x)" "time_ok (oc_durable_at x)"
    using t by (auto simp: obj_receipt_times_def)
  let ?kvs = "[(''operation_id'', JStr (oc_operation_id x)),
     (''intent_digest'', JStr (oc_intent_digest x)),
     (''receipt_id'', JStr (oc_receipt_id x)),
     (''kind'', JStr (kind_text (oc_kind x))),
     (''provider'', JStr (oc_provider x)),
     (''object_key'', JStr (oc_object_key x)),
     (''fence_token_digest'', JStr (token_value (oc_fence_token_digest x))),
     (''fence_epoch'', JInt (oc_fence_epoch x)),
     (''fence_scope_digest'', JStr (oc_fence_scope_digest x)),
     (''fence_writer_id'', JStr (oc_fence_writer_id x)),
     (''fence_acquisition_operation_id'', JStr (oc_fence_acquisition_operation_id x)),
     (''fence_acquisition_receipt_id'', JStr (oc_fence_acquisition_receipt_id x)),
     (''fence_acquisition_receipt_digest'', JStr (oc_fence_acquisition_receipt_digest x)),
     (''authorization_digest'', JStr (oc_authorization_digest x)),
     (''authorization_observed_at'', JStr (encode_timestamp (oc_authorization_observed_at x))),
     (''authorized_at'', JStr (encode_timestamp (oc_authorized_at x))),
     (''previous_revision'', encode_revision (oc_previous_revision x)),
     (''result_revision'', encode_revision (oc_result_revision x)),
     (''pre_fingerprint'', JStr (oc_pre_fingerprint x)),
     (''post_fingerprint'', JStr (oc_post_fingerprint x)),
     (''outcome'', JStr (outcome_text (oc_outcome x))),
     (''evidence'', JStr (evidence_text (oc_evidence x))),
     (''effect_at'', encode_optional (\<lambda>t. JStr (encode_timestamp t)) (oc_effect_at x)),
     (''acknowledged_at'', JStr (encode_timestamp (oc_acknowledged_at x))),
     (''durable_at'', JStr (encode_timestamp (oc_durable_at x))),
     (''durable'', JBool (oc_durable x)),
     (''receipt_digest'', JStr (oc_receipt_digest x))]"
  have encode: "encode_obj_receipt H x = Inr (JObj ?kvs)" by (simp add: encode_obj_receipt_def ok)
  then have "decode_obj_receipt H (JObj ?kvs) = Inr x"
    by (simp add: decode_obj_receipt_def obj_receipt_keys_def Let_def encode f codec_simps member_Cons ok
      obj_receipt_eta opt ts)
  with encode show ?thesis by (rule that)
qed


section \<open>Observations\<close>

definition observation_keys :: "string list" where
  "observation_keys =
    [''provider'', ''object_key'', ''revision'', ''fingerprint'', ''observed_at'']"

definition encode_observation :: "observation \<Rightarrow> txn_error + json" where
  "encode_observation x = (if \<not> observation_ok x then Inl CodecError else Inr (JObj
    [(''provider'', JStr (ob_provider x)),
     (''object_key'', JStr (ob_object_key x)),
     (''revision'', encode_revision (ob_revision x)),
     (''fingerprint'', JStr (ob_fingerprint x)),
     (''observed_at'', JStr (encode_timestamp (ob_observed_at x)))]))"

definition decode_observation :: "json \<Rightarrow> txn_error + observation" where
  "decode_observation value =
    and_then (exact_dict observation_keys value) (\<lambda>raw.
     and_then (decode_provider (raw ''provider'')) (\<lambda>provider.
     and_then (decode_string (raw ''object_key'')) (\<lambda>object_key.
     and_then (decode_revision (raw ''revision'')) (\<lambda>revision.
     and_then (decode_digest (raw ''fingerprint'')) (\<lambda>fingerprint.
     and_then (decode_timestamp (raw ''observed_at'')) (\<lambda>observed_at.
     let x = \<lparr>ob_provider = provider, ob_object_key = object_key, ob_revision = revision,
       ob_fingerprint = fingerprint, ob_observed_at = observed_at\<rparr> in
     and_then (construct (observation_ok x) x) (\<lambda>result. roundtrip value (encode_observation result) result)))))))"

definition observation_times :: "observation \<Rightarrow> time list" where
  "observation_times x = [ob_observed_at x]"

lemma observation_eta: "\<lparr>ob_provider = ob_provider x, ob_object_key = ob_object_key x, ob_revision = ob_revision x,
    ob_fingerprint = ob_fingerprint x, ob_observed_at = ob_observed_at x\<rparr> = x"
  by (cases x) simp

lemma observation_roundtrip:
  assumes ok: "observation_ok x" and t: "list_all time_ok (observation_times x)"
  obtains kvs where "encode_observation x = Inr (JObj kvs)" "decode_observation (JObj kvs) = Inr x"
proof -
  have f: "provider_ok (ob_provider x)" "string_ok (ob_object_key x)" "revision_ok (ob_revision x)" "digest_ok
      (ob_fingerprint x)"
    using ok unfolding observation_ok_def plan_binding_ok_def by blast+
  note ts = t[unfolded observation_times_def, simplified]
  let ?kvs = "[(''provider'', JStr (ob_provider x)),
     (''object_key'', JStr (ob_object_key x)),
     (''revision'', encode_revision (ob_revision x)),
     (''fingerprint'', JStr (ob_fingerprint x)),
     (''observed_at'', JStr (encode_timestamp (ob_observed_at x)))]"
  have encode: "encode_observation x = Inr (JObj ?kvs)" by (simp add: encode_observation_def ok)
  then have "decode_observation (JObj ?kvs) = Inr x"
    by (simp add: decode_observation_def observation_keys_def Let_def encode f codec_simps member_Cons ok
      observation_eta ts)
  with encode show ?thesis by (rule that)
qed


section \<open>Authorizations\<close>

definition authorization_keys :: "string list" where
  "authorization_keys =
    [''operation_id'', ''intent_digest'', ''provider'', ''object_key'',
     ''fence_acquisition_operation_id'', ''fence_acquisition_receipt_id'',
     ''fence_acquisition_receipt_digest'', ''revision'', ''fingerprint'', ''observed_at'',
     ''authorized_at'', ''authorization_digest'']"

definition encode_authorization :: "(string \<Rightarrow> string) \<Rightarrow> authorization \<Rightarrow> txn_error + json" where
  "encode_authorization H x = (if \<not> authorization_ok H x then Inl CodecError else Inr (JObj
    [(''operation_id'', JStr (da_operation_id x)),
     (''intent_digest'', JStr (da_intent_digest x)),
     (''provider'', JStr (da_provider x)),
     (''object_key'', JStr (da_object_key x)),
     (''fence_acquisition_operation_id'', JStr (da_fence_acquisition_operation_id x)),
     (''fence_acquisition_receipt_id'', JStr (da_fence_acquisition_receipt_id x)),
     (''fence_acquisition_receipt_digest'', JStr (da_fence_acquisition_receipt_digest x)),
     (''revision'', encode_revision (da_revision x)),
     (''fingerprint'', JStr (da_fingerprint x)),
     (''observed_at'', JStr (encode_timestamp (da_observed_at x))),
     (''authorized_at'', JStr (encode_timestamp (da_authorized_at x))),
     (''authorization_digest'', JStr (da_authorization_digest x))]))"

definition decode_authorization :: "(string \<Rightarrow> string) \<Rightarrow> json \<Rightarrow> txn_error + authorization" where
  "decode_authorization H value =
    and_then (exact_dict authorization_keys value) (\<lambda>raw.
     and_then (decode_operation_id object_id_ok (raw ''operation_id'')) (\<lambda>operation_id.
     and_then (decode_digest (raw ''intent_digest'')) (\<lambda>intent_digest.
     and_then (decode_provider (raw ''provider'')) (\<lambda>provider.
     and_then (decode_string (raw ''object_key'')) (\<lambda>object_key.
     and_then (decode_operation_id acquire_id_ok (raw ''fence_acquisition_operation_id'')) (\<lambda>fence_acquisition_operation_id.
     and_then (decode_receipt_id (raw ''fence_acquisition_receipt_id'')) (\<lambda>fence_acquisition_receipt_id.
     and_then (decode_digest (raw ''fence_acquisition_receipt_digest'')) (\<lambda>fence_acquisition_receipt_digest.
     and_then (decode_revision (raw ''revision'')) (\<lambda>revision.
     and_then (decode_digest (raw ''fingerprint'')) (\<lambda>fingerprint.
     and_then (decode_timestamp (raw ''observed_at'')) (\<lambda>observed_at.
     and_then (decode_timestamp (raw ''authorized_at'')) (\<lambda>authorized_at.
     and_then (decode_digest (raw ''authorization_digest'')) (\<lambda>authorization_digest.
     let x = \<lparr>da_operation_id = operation_id, da_intent_digest = intent_digest, da_provider =
       provider, da_object_key = object_key, da_fence_acquisition_operation_id =
       fence_acquisition_operation_id, da_fence_acquisition_receipt_id = fence_acquisition_receipt_id,
       da_fence_acquisition_receipt_digest = fence_acquisition_receipt_digest, da_revision = revision,
       da_fingerprint = fingerprint, da_observed_at = observed_at, da_authorized_at = authorized_at,
       da_authorization_digest = authorization_digest\<rparr> in
     and_then (construct (authorization_ok H x) x) (\<lambda>result. roundtrip value (encode_authorization H result) result))))))))))))))"

definition authorization_times :: "authorization \<Rightarrow> time list" where
  "authorization_times x = [da_observed_at x, da_authorized_at x]"

lemma authorization_eta: "\<lparr>da_operation_id = da_operation_id x, da_intent_digest = da_intent_digest x, da_provider =
    da_provider x, da_object_key = da_object_key x, da_fence_acquisition_operation_id =
    da_fence_acquisition_operation_id x, da_fence_acquisition_receipt_id =
    da_fence_acquisition_receipt_id x, da_fence_acquisition_receipt_digest =
    da_fence_acquisition_receipt_digest x, da_revision = da_revision x, da_fingerprint = da_fingerprint
    x, da_observed_at = da_observed_at x, da_authorized_at = da_authorized_at x, da_authorization_digest
    = da_authorization_digest x\<rparr> = x"
  by (cases x) simp

lemma authorization_roundtrip:
  assumes ok: "authorization_ok H x" and t: "list_all time_ok (authorization_times x)"
  obtains kvs where "encode_authorization H x = Inr (JObj kvs)" "decode_authorization H (JObj kvs) = Inr x"
proof -
  have f: "object_id_ok (da_operation_id x)" "digest_ok (da_intent_digest x)" "provider_ok (da_provider x)"
      "string_ok (da_object_key x)" "acquire_id_ok (da_fence_acquisition_operation_id x)" "receipt_id_ok
      (da_fence_acquisition_receipt_id x)" "digest_ok (da_fence_acquisition_receipt_digest x)"
      "revision_ok (da_revision x)" "digest_ok (da_fingerprint x)" "digest_ok (da_authorization_digest x)"
    using ok unfolding authorization_ok_def plan_binding_ok_def by blast+
  note ts = t[unfolded authorization_times_def, simplified]
  let ?kvs = "[(''operation_id'', JStr (da_operation_id x)),
     (''intent_digest'', JStr (da_intent_digest x)),
     (''provider'', JStr (da_provider x)),
     (''object_key'', JStr (da_object_key x)),
     (''fence_acquisition_operation_id'', JStr (da_fence_acquisition_operation_id x)),
     (''fence_acquisition_receipt_id'', JStr (da_fence_acquisition_receipt_id x)),
     (''fence_acquisition_receipt_digest'', JStr (da_fence_acquisition_receipt_digest x)),
     (''revision'', encode_revision (da_revision x)),
     (''fingerprint'', JStr (da_fingerprint x)),
     (''observed_at'', JStr (encode_timestamp (da_observed_at x))),
     (''authorized_at'', JStr (encode_timestamp (da_authorized_at x))),
     (''authorization_digest'', JStr (da_authorization_digest x))]"
  have encode: "encode_authorization H x = Inr (JObj ?kvs)" by (simp add: encode_authorization_def ok)
  then have "decode_authorization H (JObj ?kvs) = Inr x"
    by (simp add: decode_authorization_def authorization_keys_def Let_def encode f codec_simps member_Cons ok
      authorization_eta ts)
  with encode show ?thesis by (rule that)
qed


section \<open>Verifications\<close>

definition verification_keys :: "string list" where
  "verification_keys =
    [''operation_id'', ''intent_digest'', ''receipt_id'', ''receipt_digest'', ''provider'',
     ''object_key'', ''revision'', ''fingerprint'', ''observed_at'', ''verified_at'']"

definition encode_verification :: "verification \<Rightarrow> txn_error + json" where
  "encode_verification x = (if \<not> verification_ok x then Inl CodecError else Inr (JObj
    [(''operation_id'', JStr (ve_operation_id x)),
     (''intent_digest'', JStr (ve_intent_digest x)),
     (''receipt_id'', JStr (ve_receipt_id x)),
     (''receipt_digest'', JStr (ve_receipt_digest x)),
     (''provider'', JStr (ve_provider x)),
     (''object_key'', JStr (ve_object_key x)),
     (''revision'', encode_revision (ve_revision x)),
     (''fingerprint'', JStr (ve_fingerprint x)),
     (''observed_at'', JStr (encode_timestamp (ve_observed_at x))),
     (''verified_at'', JStr (encode_timestamp (ve_verified_at x)))]))"

definition decode_verification :: "json \<Rightarrow> txn_error + verification" where
  "decode_verification value =
    and_then (exact_dict verification_keys value) (\<lambda>raw.
     and_then (decode_operation_id object_id_ok (raw ''operation_id'')) (\<lambda>operation_id.
     and_then (decode_digest (raw ''intent_digest'')) (\<lambda>intent_digest.
     and_then (decode_receipt_id (raw ''receipt_id'')) (\<lambda>receipt_id.
     and_then (decode_digest (raw ''receipt_digest'')) (\<lambda>receipt_digest.
     and_then (decode_provider (raw ''provider'')) (\<lambda>provider.
     and_then (decode_string (raw ''object_key'')) (\<lambda>object_key.
     and_then (decode_revision (raw ''revision'')) (\<lambda>revision.
     and_then (decode_digest (raw ''fingerprint'')) (\<lambda>fingerprint.
     and_then (decode_timestamp (raw ''observed_at'')) (\<lambda>observed_at.
     and_then (decode_timestamp (raw ''verified_at'')) (\<lambda>verified_at.
     let x = \<lparr>ve_operation_id = operation_id, ve_intent_digest = intent_digest, ve_receipt_id =
       receipt_id, ve_receipt_digest = receipt_digest, ve_provider = provider, ve_object_key = object_key,
       ve_revision = revision, ve_fingerprint = fingerprint, ve_observed_at = observed_at, ve_verified_at =
       verified_at\<rparr> in
     and_then (construct (verification_ok x) x) (\<lambda>result. roundtrip value (encode_verification result) result))))))))))))"

definition verification_times :: "verification \<Rightarrow> time list" where
  "verification_times x = [ve_observed_at x, ve_verified_at x]"

lemma verification_eta: "\<lparr>ve_operation_id = ve_operation_id x, ve_intent_digest = ve_intent_digest x, ve_receipt_id =
    ve_receipt_id x, ve_receipt_digest = ve_receipt_digest x, ve_provider = ve_provider x, ve_object_key
    = ve_object_key x, ve_revision = ve_revision x, ve_fingerprint = ve_fingerprint x, ve_observed_at =
    ve_observed_at x, ve_verified_at = ve_verified_at x\<rparr> = x"
  by (cases x) simp

lemma verification_roundtrip:
  assumes ok: "verification_ok x" and t: "list_all time_ok (verification_times x)"
  obtains kvs where "encode_verification x = Inr (JObj kvs)" "decode_verification (JObj kvs) = Inr x"
proof -
  have f: "object_id_ok (ve_operation_id x)" "digest_ok (ve_intent_digest x)" "receipt_id_ok (ve_receipt_id
      x)" "digest_ok (ve_receipt_digest x)" "provider_ok (ve_provider x)" "string_ok (ve_object_key x)"
      "revision_ok (ve_revision x)" "digest_ok (ve_fingerprint x)"
    using ok unfolding verification_ok_def plan_binding_ok_def by blast+
  note ts = t[unfolded verification_times_def, simplified]
  let ?kvs = "[(''operation_id'', JStr (ve_operation_id x)),
     (''intent_digest'', JStr (ve_intent_digest x)),
     (''receipt_id'', JStr (ve_receipt_id x)),
     (''receipt_digest'', JStr (ve_receipt_digest x)),
     (''provider'', JStr (ve_provider x)),
     (''object_key'', JStr (ve_object_key x)),
     (''revision'', encode_revision (ve_revision x)),
     (''fingerprint'', JStr (ve_fingerprint x)),
     (''observed_at'', JStr (encode_timestamp (ve_observed_at x))),
     (''verified_at'', JStr (encode_timestamp (ve_verified_at x)))]"
  have encode: "encode_verification x = Inr (JObj ?kvs)" by (simp add: encode_verification_def ok)
  then have "decode_verification (JObj ?kvs) = Inr x"
    by (simp add: decode_verification_def verification_keys_def Let_def encode f codec_simps member_Cons ok
      verification_eta ts)
  with encode show ?thesis by (rule that)
qed

end
