(* ===== verification/Codec_Attempt.thy ===== *)
theory Codec_Attempt
  imports Codec_Object
begin

text \<open>
  The persisted form of operation records and of whole attempts, the two decoders that put the others
  together, and their round trips.
\<close>

section \<open>Operation records\<close>

definition op_record_keys :: "string list" where
  "op_record_keys =
    [''intent'', ''state'', ''authorization'', ''receipt'', ''verifications'', ''reason_code'', ''blocked_from'']"

text \<open>\<open>None if value is None else encode(value)\<close>.\<close>

definition encode_nullable :: "('a \<Rightarrow> txn_error + json) \<Rightarrow> 'a option \<Rightarrow> txn_error + json" where
  "encode_nullable f x = (case x of None \<Rightarrow> Inr JNull | Some y \<Rightarrow> f y)"

definition encode_op_record :: "(string \<Rightarrow> string) \<Rightarrow> op_record \<Rightarrow> txn_error + json" where
  "encode_op_record H x = (if \<not> op_record_ok H x then Inl CodecError else
     and_then (encode_obj_intent H (op_intent x)) (\<lambda>intent.
     and_then (encode_nullable (encode_authorization H) (op_authorization x)) (\<lambda>authorization.
     and_then (encode_nullable (encode_obj_receipt H) (op_receipt x)) (\<lambda>receipt.
     and_then (map_result encode_verification (op_verifications x)) (\<lambda>verifications.
     Inr (JObj
      [(''intent'', intent),
       (''state'', JStr (operation_state_text (op_state x))),
       (''authorization'', authorization),
       (''receipt'', receipt),
       (''verifications'', JArr verifications),
       (''reason_code'', encode_optional (\<lambda>r. JStr (reason_text r)) (op_reason_code x)),
       (''blocked_from'', encode_optional (\<lambda>s. JStr (operation_state_text s)) (op_blocked_from x))]))))))"

definition decode_op_record :: "(string \<Rightarrow> string) \<Rightarrow> json \<Rightarrow> txn_error + op_record" where
  "decode_op_record H value =
    and_then (exact_dict op_record_keys value) (\<lambda>raw.
     and_then (decode_optional (decode_obj_receipt H) (raw ''receipt'')) (\<lambda>receipt.
     and_then (decode_optional (decode_authorization H) (raw ''authorization'')) (\<lambda>authorization.
     and_then (exact_list (raw ''verifications'')) (\<lambda>items.
     and_then (map_result decode_verification items) (\<lambda>verifications.
     and_then (decode_obj_intent H (raw ''intent'')) (\<lambda>intent.
     and_then (decode_enum operation_state_text operation_states (raw ''state'')) (\<lambda>state.
     and_then (decode_reason (raw ''reason_code'')) (\<lambda>reason_code.
     and_then (decode_optional (decode_enum operation_state_text operation_states) (raw ''blocked_from'')) (\<lambda>blocked_from.
     let x = \<lparr>op_intent = intent, op_state = state, op_authorization = authorization, op_receipt = receipt,
       op_verifications = verifications, op_reason_code = reason_code, op_blocked_from = blocked_from\<rparr> in
     and_then (construct (op_record_ok H x) x) (\<lambda>result. roundtrip value (encode_op_record H result) result))))))))))"

definition op_record_times :: "op_record \<Rightarrow> time list" where
  "op_record_times x = obj_intent_times (op_intent x) @
     (case op_authorization x of None \<Rightarrow> [] | Some a \<Rightarrow> authorization_times a) @
     (case op_receipt x of None \<Rightarrow> [] | Some r \<Rightarrow> obj_receipt_times r) @
     concat (map verification_times (op_verifications x))"

lemma nullable_roundtrip:
  assumes "\<And>y. x = Some y \<Longrightarrow> \<exists>kvs. f y = Inr (JObj kvs) \<and> g (JObj kvs) = Inr y"
  obtains j where "encode_nullable f x = Inr j" "decode_optional g j = Inr x"
proof (cases x)
  case None
  then show ?thesis by (intro that[of JNull]) (simp_all add: encode_nullable_def decode_optional_def)
next
  case (Some y)
  then obtain kvs where "f y = Inr (JObj kvs)" "g (JObj kvs) = Inr y" using assms by blast
  then show ?thesis using Some by (intro that[of "JObj kvs"]) (simp_all add: encode_nullable_def decode_optional_def)
qed

lemma op_record_roundtrip:
  assumes ok: "op_record_ok H x" and t: "list_all time_ok (op_record_times x)"
  obtains j where "encode_op_record H x = Inr j" "decode_op_record H j = Inr x"
proof -
  have p: "obj_intent_ok H (op_intent x)" "\<And>a. op_authorization x = Some a \<Longrightarrow> authorization_ok H a"
      "\<And>r. op_receipt x = Some r \<Longrightarrow> obj_receipt_ok H r" "\<And>v. v \<in> set (op_verifications x) \<Longrightarrow> verification_ok v"
    using ok by (auto simp: op_record_ok_def list_all_iff split: option.splits)
  have t': "list_all time_ok (obj_intent_times (op_intent x))"
      "\<And>a. op_authorization x = Some a \<Longrightarrow> list_all time_ok (authorization_times a)"
      "\<And>r. op_receipt x = Some r \<Longrightarrow> list_all time_ok (obj_receipt_times r)"
      "\<And>v. v \<in> set (op_verifications x) \<Longrightarrow> list_all time_ok (verification_times v)"
    using t by (auto simp: op_record_times_def list_all_iff)
  obtain i where i: "encode_obj_intent H (op_intent x) = Inr i" "decode_obj_intent H i = Inr (op_intent x)"
    using obj_intent_roundtrip[OF p(1) t'(1)] by metis
  obtain a where a: "encode_nullable (encode_authorization H) (op_authorization x) = Inr a"
      "decode_optional (decode_authorization H) a = Inr (op_authorization x)"
    by (rule nullable_roundtrip[of "op_authorization x" "encode_authorization H" "decode_authorization H"])
      (metis authorization_roundtrip p(2) t'(2), blast)
  obtain r where r: "encode_nullable (encode_obj_receipt H) (op_receipt x) = Inr r"
      "decode_optional (decode_obj_receipt H) r = Inr (op_receipt x)"
    by (rule nullable_roundtrip[of "op_receipt x" "encode_obj_receipt H" "decode_obj_receipt H"])
      (metis obj_receipt_roundtrip p(3) t'(3), blast)
  obtain vs where vs: "map_result encode_verification (op_verifications x) = Inr vs"
      "map_result decode_verification vs = Inr (op_verifications x)"
    using map_result_encoded[of "op_verifications x" encode_verification decode_verification]
    by (metis verification_roundtrip p(4) t'(4))
  have eta: "\<lparr>op_intent = op_intent x, op_state = op_state x, op_authorization = op_authorization x,
      op_receipt = op_receipt x, op_verifications = op_verifications x, op_reason_code = op_reason_code x,
      op_blocked_from = op_blocked_from x\<rparr> = x" by (cases x) simp
  let ?j = "JObj [(''intent'', i), (''state'', JStr (operation_state_text (op_state x))), (''authorization'', a),
       (''receipt'', r), (''verifications'', JArr vs),
       (''reason_code'', encode_optional (\<lambda>r. JStr (reason_text r)) (op_reason_code x)),
       (''blocked_from'', encode_optional (\<lambda>s. JStr (operation_state_text s)) (op_blocked_from x))]"
  have encode: "encode_op_record H x = Inr ?j" by (simp add: encode_op_record_def ok i a r vs)
  then have "decode_op_record H ?j = Inr x"
    by (simp add: decode_op_record_def op_record_keys_def Let_def ok i a r vs codec_simps member_Cons exact_list_def eta)
  with encode show ?thesis by (rule that)
qed

section \<open>Attempts\<close>

definition attempt_keys :: "string list" where
  "attempt_keys =
    [''plan_id'', ''plan_digest'', ''manifest_digest'', ''attempt'', ''state'', ''max_observation_age_seconds'',
     ''expected_write_coverage_digest'', ''expected_writes'', ''acquisitions'', ''operations'', ''releases'',
     ''release_phase_sequence'', ''reason_code'', ''terminal_at'']"

definition encode_attempt :: "(string \<Rightarrow> string) \<Rightarrow> attempt \<Rightarrow> txn_error + json" where
  "encode_attempt H x = (if \<not> attempt_ok H x then Inl CodecError else
     and_then (coverage_digest H (at_expected_writes x)) (\<lambda>coverage.
     and_then (map_result encode_expected_write (at_expected_writes x)) (\<lambda>expected_writes.
     and_then (map_result (encode_acq_record H) (at_acquisitions x)) (\<lambda>acquisitions.
     and_then (map_result (encode_op_record H) (at_operations x)) (\<lambda>operations.
     and_then (map_result (encode_rel_record H) (at_releases x)) (\<lambda>releases.
     Inr (JObj
      [(''plan_id'', JStr (at_plan_id x)),
       (''plan_digest'', JStr (at_plan_digest x)),
       (''manifest_digest'', JStr (at_manifest_digest x)),
       (''attempt'', JInt (at_attempt x)),
       (''state'', JStr (attempt_state_text (at_state x))),
       (''max_observation_age_seconds'', JInt (at_max_observation_age_seconds x)),
       (''expected_write_coverage_digest'', JStr coverage),
       (''expected_writes'', JArr expected_writes),
       (''acquisitions'', JArr acquisitions),
       (''operations'', JArr operations),
       (''releases'', JArr releases),
       (''release_phase_sequence'', encode_optional JInt (at_release_phase_sequence x)),
       (''reason_code'', encode_optional (\<lambda>r. JStr (reason_text r)) (at_reason_code x)),
       (''terminal_at'', encode_optional (\<lambda>t. JStr (encode_timestamp t)) (at_terminal_at x))])))))))"

definition decode_list :: "(json \<Rightarrow> txn_error + 'a) \<Rightarrow> json \<Rightarrow> txn_error + 'a list" where
  "decode_list f value = and_then (exact_list value) (map_result f)"

definition decode_attempt :: "(string \<Rightarrow> string) \<Rightarrow> json \<Rightarrow> txn_error + attempt" where
  "decode_attempt H value =
    and_then (exact_dict attempt_keys value) (\<lambda>raw.
     and_then (decode_optional decode_timestamp (raw ''terminal_at'')) (\<lambda>terminal_at.
     and_then (decode_digest (raw ''expected_write_coverage_digest'')) (\<lambda>coverage.
     and_then (decode_optional decode_nonnegative_integer (raw ''release_phase_sequence'')) (\<lambda>release_phase_sequence.
     and_then (decode_string (raw ''plan_id'')) (\<lambda>plan_id.
     and_then (decode_digest (raw ''plan_digest'')) (\<lambda>plan_digest.
     and_then (decode_digest (raw ''manifest_digest'')) (\<lambda>manifest_digest.
     and_then (decode_positive_integer (raw ''attempt'')) (\<lambda>attempt.
     and_then (decode_enum attempt_state_text attempt_states (raw ''state'')) (\<lambda>state.
     and_then (decode_positive_integer (raw ''max_observation_age_seconds'')) (\<lambda>max_age.
     and_then (decode_list decode_expected_write (raw ''expected_writes'')) (\<lambda>expected_writes.
     and_then (decode_list (decode_acq_record H) (raw ''acquisitions'')) (\<lambda>acquisitions.
     and_then (decode_list (decode_op_record H) (raw ''operations'')) (\<lambda>operations.
     and_then (decode_list (decode_rel_record H) (raw ''releases'')) (\<lambda>releases.
     and_then (decode_reason (raw ''reason_code'')) (\<lambda>reason_code.
     let x = \<lparr>at_plan_id = plan_id, at_plan_digest = plan_digest, at_manifest_digest = manifest_digest,
       at_attempt = attempt, at_state = state, at_max_observation_age_seconds = max_age,
       at_expected_writes = expected_writes, at_acquisitions = acquisitions, at_operations = operations,
       at_releases = releases, at_release_phase_sequence = release_phase_sequence,
       at_reason_code = reason_code, at_terminal_at = terminal_at\<rparr> in
     and_then (construct (attempt_ok H x) x) (\<lambda>result.
     and_then (coverage_digest H (at_expected_writes result)) (\<lambda>digest.
     if digest \<noteq> coverage then Inl CodecError
     else roundtrip value (encode_attempt H result) result)))))))))))))))))"

definition attempt_times :: "attempt \<Rightarrow> time list" where
  "attempt_times x = concat (map acq_record_times (at_acquisitions x)) @
     concat (map op_record_times (at_operations x)) @ concat (map rel_record_times (at_releases x)) @
     (case at_terminal_at x of None \<Rightarrow> [] | Some t \<Rightarrow> [t])"

end
