(* ===== verification/Codec_Safety.thy ===== *)
theory Codec_Safety
  imports Codec_Attempt Txn_Exclusion
begin

text \<open>
  What the persisted codec guarantees for whole attempts: writing and reading back is the identity,
  nothing invalid or non-canonical is accepted, and every refusal is a codec error.
\<close>

section \<open>Round trip of an attempt\<close>

lemma attempt_roundtrip:
  assumes H: "hex_digest H" and ok: "attempt_ok H x" and t: "list_all time_ok (attempt_times x)"
  obtains j where "encode_attempt H x = Inr j" "decode_attempt H j = Inr x"
proof -
  have header: "attempt_header_ok H x" using ok by (simp add: attempt_ok_def)
  then have f: "string_ok (at_plan_id x)" "digest_ok (at_plan_digest x)" "digest_ok (at_manifest_digest x)"
      "positive_ok (at_attempt x)" "positive_ok (at_max_observation_age_seconds x)"
      "case at_release_phase_sequence x of None \<Rightarrow> True | Some n \<Rightarrow> nonnegative_ok n"
      and ws: "expected_writes_ok (at_expected_writes x)"
    by (auto simp: attempt_header_ok_def plan_binding_ok_def freshness_ok_def positive_ok_def split: option.splits)
  have times: "\<And>c. c \<in> set (at_acquisitions x) \<Longrightarrow> list_all time_ok (acq_record_times c)"
      "\<And>p. p \<in> set (at_operations x) \<Longrightarrow> list_all time_ok (op_record_times p)"
      "\<And>c. c \<in> set (at_releases x) \<Longrightarrow> list_all time_ok (rel_record_times c)"
    using t by (auto simp: list_all_iff attempt_times_def)
  have fin: "case at_terminal_at x of None \<Rightarrow> True | Some y \<Rightarrow> time_ok y"
    using t by (auto simp: attempt_times_def split: option.splits)
  obtain wj where w: "map_result encode_expected_write (at_expected_writes x) = Inr wj"
      "map_result decode_expected_write wj = Inr (at_expected_writes x)"
    using map_result_encoded[of "at_expected_writes x" encode_expected_write decode_expected_write] ws
      expected_write_roundtrip unfolding expected_writes_ok_def list_all_iff by metis
  obtain aj where a: "map_result (encode_acq_record H) (at_acquisitions x) = Inr aj"
      "map_result (decode_acq_record H) aj = Inr (at_acquisitions x)"
    using map_result_encoded[of "at_acquisitions x" "encode_acq_record H" "decode_acq_record H"]
      acquisition_in[OF ok] times(1) acq_record_roundtrip by metis
  obtain oj where o: "map_result (encode_op_record H) (at_operations x) = Inr oj"
      "map_result (decode_op_record H) oj = Inr (at_operations x)"
    using map_result_encoded[of "at_operations x" "encode_op_record H" "decode_op_record H"]
      operation_in[OF ok] times(2) op_record_roundtrip by metis
  obtain rj where r: "map_result (encode_rel_record H) (at_releases x) = Inr rj"
      "map_result (decode_rel_record H) rj = Inr (at_releases x)"
    using map_result_encoded[of "at_releases x" "encode_rel_record H" "decode_rel_record H"]
      release_in[OF ok] times(3) rel_record_roundtrip by metis
  obtain cov where cov: "coverage_digest H (at_expected_writes x) = Inr cov" "digest_ok cov"
    using ws hex_digest.digest_ok_json[OF H] by (simp add: coverage_digest_def checked_def)
  have eta: "\<lparr>at_plan_id = at_plan_id x, at_plan_digest = at_plan_digest x, at_manifest_digest = at_manifest_digest x,
       at_attempt = at_attempt x, at_state = at_state x,
       at_max_observation_age_seconds = at_max_observation_age_seconds x,
       at_expected_writes = at_expected_writes x, at_acquisitions = at_acquisitions x,
       at_operations = at_operations x, at_releases = at_releases x,
       at_release_phase_sequence = at_release_phase_sequence x, at_reason_code = at_reason_code x,
       at_terminal_at = at_terminal_at x\<rparr> = x" by (cases x) simp
  let ?j = "JObj
      [(''plan_id'', JStr (at_plan_id x)), (''plan_digest'', JStr (at_plan_digest x)),
       (''manifest_digest'', JStr (at_manifest_digest x)), (''attempt'', JInt (at_attempt x)),
       (''state'', JStr (attempt_state_text (at_state x))),
       (''max_observation_age_seconds'', JInt (at_max_observation_age_seconds x)),
       (''expected_write_coverage_digest'', JStr cov), (''expected_writes'', JArr wj), (''acquisitions'', JArr aj),
       (''operations'', JArr oj), (''releases'', JArr rj),
       (''release_phase_sequence'', encode_optional JInt (at_release_phase_sequence x)),
       (''reason_code'', encode_optional (\<lambda>r. JStr (reason_text r)) (at_reason_code x)),
       (''terminal_at'', encode_optional (\<lambda>t. JStr (encode_timestamp t)) (at_terminal_at x))]"
  have encode: "encode_attempt H x = Inr ?j" by (simp add: encode_attempt_def ok cov w a o r)
  then have "decode_attempt H ?j = Inr x"
    by (simp add: decode_attempt_def attempt_keys_def Let_def ok f fin cov w a o r codec_simps member_Cons
        decode_list_def exact_list_def eta)
  with encode show ?thesis by (rule that)
qed

section \<open>Refusals are codec errors\<close>

definition codec_result :: "txn_error + 'a \<Rightarrow> bool" where
  "codec_result r \<longleftrightarrow> (\<forall>e. r = Inl e \<longrightarrow> e = CodecError)"

named_theorems codec_results
  \<comment> \<open>computations that raise nothing but a codec error\<close>

lemma codec_result_simps [simp, codec_results]: "codec_result (Inr x)" "codec_result (Inl CodecError)"
  by (simp_all add: codec_result_def)

lemma codec_result_and_then [codec_results]:
  "codec_result r \<Longrightarrow> (\<And>x. codec_result (f x)) \<Longrightarrow> codec_result (and_then r f)"
  by (cases r) (auto simp: codec_result_def)

lemma codec_result_if [codec_results]: "codec_result r \<Longrightarrow> codec_result s \<Longrightarrow> codec_result (if b then r else s)"
  by simp

lemma codec_result_let [codec_results]: "codec_result (f x) \<Longrightarrow> codec_result (let y = x in f y)"
  by (simp add: Let_def)

lemma codec_result_fields [codec_results]:
  "codec_result (exact_dict keys j)" "codec_result (exact_list j)" "codec_result (decode_string j)"
  "codec_result (decode_digest j)" "codec_result (decode_provider j)" "codec_result (decode_operation_id ok j)"
  "codec_result (decode_receipt_id j)" "codec_result (decode_fence_token_digest j)"
  "codec_result (decode_positive_integer j)" "codec_result (decode_nonnegative_integer j)"
  "codec_result (decode_boolean j)" "codec_result (decode_timestamp j)" "codec_result (decode_enum text members j)"
  "codec_result (construct b x)"
  by (simp_all add: codec_result_def exact_dict_def exact_list_def decode_string_def decode_digest_def
      decode_provider_def decode_operation_id_def decode_receipt_id_def decode_fence_token_digest_def
      decode_positive_integer_def decode_nonnegative_integer_def decode_boolean_def decode_timestamp_def
      decode_enum_def construct_def decode_text_def decode_integer_def split: json.splits option.splits)

lemma codec_result_revision [codec_results]: "codec_result (decode_revision j)"
  unfolding decode_revision_def
  by (rule codec_result_and_then) (simp_all add: codec_results split: json.splits)

lemma codec_result_optional [codec_results]: "(\<And>j. codec_result (f j)) \<Longrightarrow> codec_result (decode_optional f j)"
  by (simp add: decode_optional_def codec_result_and_then)

lemma codec_result_reason [codec_results]: "codec_result (decode_reason j)"
  by (simp add: decode_reason_def codec_results)

lemma codec_result_map [codec_results]: "(\<And>j. codec_result (f j)) \<Longrightarrow> codec_result (map_result f js)"
  by (induction js) (simp_all add: codec_result_and_then)

lemma codec_result_roundtrip [codec_results]: "codec_result e \<Longrightarrow> codec_result (roundtrip j e x)"
  unfolding roundtrip_def by (intro codec_result_and_then) simp_all

lemma codec_result_encode [codec_results]:
  "codec_result (encode_expected_write w)" "codec_result (encode_acq_intent H ai)" "codec_result (encode_acq_receipt H ar)"
  "codec_result (encode_acq_no_effect H an)" "codec_result (encode_fence_binding b)" "codec_result (encode_rel_intent H ri)"
  "codec_result (encode_rel_receipt H rr)" "codec_result (encode_rel_no_effect H rn)" "codec_result (encode_obj_receipt H oc)"
  "codec_result (encode_authorization H da)" "codec_result (encode_verification v)"
  by (simp_all add: encode_expected_write_def encode_acq_intent_def encode_acq_receipt_def encode_acq_no_effect_def
      encode_fence_binding_def encode_rel_intent_def encode_rel_receipt_def encode_rel_no_effect_def
      encode_obj_receipt_def encode_authorization_def encode_verification_def)

lemma codec_result_encode_nested [codec_results]:
  "codec_result (encode_obj_intent H i)" "codec_result (encode_acq_lifecycle_receipt H e)"
  "codec_result (encode_rel_lifecycle_receipt H e')"
  by (auto simp: encode_obj_intent_def encode_acq_lifecycle_receipt_def encode_rel_lifecycle_receipt_def codec_results
      split: option.splits acq_evidence.splits rel_evidence.splits)
    (metis acq_evidence.exhaust codec_results encode_acq_evidence.simps,
     metis rel_evidence.exhaust codec_results encode_rel_evidence.simps)

lemma codec_result_encode_records [codec_results]:
  "codec_result (encode_acq_record H c)" "codec_result (encode_rel_record H d)" "codec_result (encode_op_record H p)"
  by (simp_all add: encode_acq_record_def encode_rel_record_def encode_op_record_def encode_nullable_def codec_results
      split: option.splits)

lemma codec_result_coverage: "attempt_ok H x \<Longrightarrow> codec_result (coverage_digest H (at_expected_writes x))"
  by (simp add: attempt_ok_def attempt_header_ok_def coverage_digest_def checked_def)

lemma codec_result_encode_attempt: "codec_result (encode_attempt H x)"
  by (simp add: encode_attempt_def codec_results codec_result_coverage)

lemma codec_result_decode_parts [codec_results]:
  "codec_result (decode_expected_write j)" "codec_result (decode_acq_intent H j)" "codec_result (decode_acq_receipt H j)"
  "codec_result (decode_acq_no_effect H j)" "codec_result (decode_fence_binding j)" "codec_result (decode_rel_intent H j)"
  "codec_result (decode_rel_receipt H j)" "codec_result (decode_rel_no_effect H j)"
  "codec_result (decode_obj_receipt H j)" "codec_result (decode_authorization H j)" "codec_result (decode_verification j)"
  unfolding decode_expected_write_def decode_acq_intent_def decode_acq_receipt_def decode_acq_no_effect_def
    decode_fence_binding_def decode_rel_intent_def decode_rel_receipt_def decode_rel_no_effect_def
    decode_obj_receipt_def decode_authorization_def decode_verification_def
  by (intro codec_results)+

lemma codec_result_decode_intent [codec_results]: "codec_result (decode_obj_intent H j)"
  unfolding decode_obj_intent_def by (intro codec_results)

lemma codec_result_decode_receipts [codec_results]:
  "codec_result (decode_acq_lifecycle_receipt H j)" "codec_result (decode_rel_lifecycle_receipt H j)"
  by (simp_all add: decode_acq_lifecycle_receipt_def decode_rel_lifecycle_receipt_def codec_results split: json.splits)

lemma codec_result_decode_records [codec_results]:
  "codec_result (decode_acq_record H j)" "codec_result (decode_rel_record H j)" "codec_result (decode_op_record H j)"
  unfolding decode_acq_record_def decode_rel_record_def decode_op_record_def
  by (intro codec_results)+

lemma codec_result_list [codec_results]: "(\<And>j. codec_result (f j)) \<Longrightarrow> codec_result (decode_list f j)"
  unfolding decode_list_def by (intro codec_results)

lemma construct_Inr: "construct b x = Inr y \<longleftrightarrow> b \<and> y = x"
  by (auto simp: construct_def)

lemma codec_result_finish:
  "codec_result (and_then (construct (attempt_ok H x) x) (\<lambda>result.
     and_then (coverage_digest H (at_expected_writes result)) (\<lambda>digest.
     if digest \<noteq> c then Inl CodecError else roundtrip j (encode_attempt H result) result)))"
  by (cases "attempt_ok H x")
    (simp_all add: construct_def codec_results codec_result_coverage codec_result_encode_attempt)

section \<open>Properties\<close>

text \<open>C8. A valid attempt survives persistence: it is always encoded, and decoding what was written
  returns the same attempt. The times must be ones a \<open>datetime\<close> can hold, years 1 to 9999.\<close>
theorem attempt_codec_roundtrip:
  assumes "hex_digest H" "attempt_ok H a" "list_all time_ok (attempt_times a)"
  shows "\<exists>j. encode_attempt H a = Inr j \<and> decode_attempt H j = Inr a"
  using attempt_roundtrip[OF assms] by blast

lemma sample_times_ok: "list_all time_ok (attempt_times sample_restored)"
proof -
  have s: "time_ok (secs n)" if "0 \<le> n" "n \<le> 1000" for n
    using that by (simp add: time_ok_def secs_def)
  have a: "list_all time_ok (acq_record_times (sample_acq e t))" if "0 \<le> t" "t \<le> 200" for e t
    using that by (simp add: acq_record_times_def acq_intent_times_def acq_receipt_times_def sample_acq_fields s)
      (simp add: sample_acq_intent_def sample_acq_receipt_def s)
  have r: "list_all time_ok (rel_record_times (sample_rel e t0 t))" if "0 \<le> t" "t \<le> 200" for e t0 t
    using that by (simp add: rel_record_times_def rel_intent_times_def rel_receipt_times_def sample_rel_fields s)
      (simp add: sample_rel_receipt_def s)
  have f: "list_all time_ok (fence_binding_times (acq_receipt_binding (sample_acq_receipt e t)))" if "0 \<le> t" "t \<le> 200" for e t
    using that by (simp add: fence_binding_times_def acq_receipt_binding_def) (simp add: sample_acq_receipt_def s)
  have o: "list_all time_ok (authorization_times (sample_authorization i t))"
      "list_all time_ok (obj_receipt_times (sample_obj_receipt i v t))"
      "list_all time_ok (verification_times (sample_verification i v t))" if "0 \<le> t" "t \<le> 200" for i v t
    using that by (simp_all add: authorization_times_def obj_receipt_times_def verification_times_def sample_evidence_fields s)
      (simp add: sample_obj_receipt_def seal_obj_receipt_eq s)
  show ?thesis
    by (simp add: attempt_times_def sample_attempt_fields a r s op_record_times_def sample_op_fields o obj_intent_times_def)
      (simp add: sample_write_intent_def sample_rollback_intent_def sample_intent_fields f)
qed

theorem attempt_codec_roundtrip_witness:
  "\<exists>j. encode_attempt sample_hash sample_restored = Inr j \<and> decode_attempt sample_hash j = Inr sample_restored"
  by (rule attempt_codec_roundtrip[OF sample.hex_digest_axioms sample_attempts_ok(2) sample_times_ok])

text \<open>C9. Decoding fails closed: it either raises a codec error and nothing else, or returns an
  attempt that passed the complete validation and whose canonical text is the one that was read.\<close>
theorem decode_attempt_fails_closed:
  "case decode_attempt H j of
     Inl e \<Rightarrow> e = CodecError
   | Inr a \<Rightarrow> attempt_ok H a \<and> (\<exists>k. encode_attempt H a = Inr k \<and> dumps j = dumps k)"
proof -
  have "codec_result (decode_attempt H j)"
    unfolding decode_attempt_def
    by (intro codec_result_and_then codec_results codec_result_let codec_result_finish)
  moreover have "attempt_ok H a \<and> (\<exists>k. encode_attempt H a = Inr k \<and> dumps j = dumps k)"
    if "decode_attempt H j = Inr a" for a
    using that unfolding decode_attempt_def Let_def and_then_Inr construct_Inr
    by (auto simp: roundtrip_Inr split: if_splits)
  ultimately show ?thesis by (auto simp: codec_result_def split: sum.splits)
qed

text \<open>C27. A time has exactly one persisted text: the decoder returns the time for the text the encoder
  writes and for no other value, for every time a \<open>datetime\<close> can hold.\<close>
theorem timestamp_text_unique:
  assumes "time_ok t"
  shows "decode_timestamp j = Inr t \<longleftrightarrow> j = JStr (encode_timestamp t)"
proof
  assume "decode_timestamp j = Inr t"
  then show "j = JStr (encode_timestamp t)"
    by (auto simp: decode_timestamp_def split: json.splits option.splits if_splits)
next
  assume "j = JStr (encode_timestamp t)"
  then show "decode_timestamp j = Inr t" using assms by (simp add: decode_encode_timestamp)
qed

lemma pad_step: "pad_nat (Suc w) n = pad_nat w (n div 10) @ [digit_char (n mod 10)]"
  by simp

lemma pad_two: "pad_nat 2 n = [digit_char (n div 10 mod 10), digit_char (n mod 10)]"
  unfolding numeral_2_eq_2 by simp

lemma pad_four: "pad_nat 4 n = pad_nat 2 (n div 100) @ pad_nat 2 n"
proof -
  have "(4::nat) = Suc (Suc 2)" by simp
  then have "pad_nat 4 n = pad_nat (Suc (Suc 2)) n" by (rule arg_cong)
  then show ?thesis by (simp only: pad_step pad_two) (simp add: div_mult2_eq[symmetric])
qed

lemma pad_six: "pad_nat 6 n = pad_nat 2 (n div 10000) @ pad_nat 4 n"
proof -
  have "(6::nat) = Suc (Suc (Suc (Suc 2)))" by simp
  then have "pad_nat 6 n = pad_nat (Suc (Suc (Suc (Suc 2)))) n" by (rule arg_cong)
  then show ?thesis by (simp only: pad_step pad_two pad_four) (simp add: div_mult2_eq[symmetric])
qed

theorem timestamp_text_unique_witness:
  "decode_timestamp (JStr ''2024-02-29T12:30:45.000250Z'') = Inr 63844806645000250"
proof -
  have t: "time_ok 63844806645000250" by (simp add: time_ok_def)
  have "encode_timestamp 63844806645000250 = ''2024-02-29T12:30:45.000250Z''"
    by (simp add: encode_timestamp_def Let_def civil_date_def pad_two pad_four pad_six digit_char_def)
  with timestamp_text_unique[OF t] show ?thesis by simp
qed

end
