(* ===== verification/Actions.thy ===== *)
theory Actions
  imports Prelude
begin

text \<open>
  Stateful code that may raise: an action takes the state and returns an outcome, the exception or
  value together with the state it leaves. \<open>holds P m Q E\<close> says that from a state in \<open>P\<close> the action
  \<open>m\<close> ends in \<open>Q\<close> when it returns and in \<open>E\<close> when it raises; its rules follow the combinators.
\<close>

type_synonym ('s, 'e, 'a) action = "'s \<Rightarrow> ('e, 'a, 's) outcome"

definition ret :: "'a \<Rightarrow> ('s, 'e, 'a) action" where
  "ret x s = (Inr x, s)"

definition throw :: "'e \<Rightarrow> ('s, 'e, 'a) action" where
  "throw e s = (Inl e, s)"

definition andthen :: "('s, 'e, 'a) action \<Rightarrow> ('a \<Rightarrow> ('s, 'e, 'b) action) \<Rightarrow> ('s, 'e, 'b) action" where
  "andthen m f s = (case m s of (Inl e, s') \<Rightarrow> (Inl e, s') | (Inr x, s') \<Rightarrow> f x s')"

definition handle :: "('s, 'e, 'a) action \<Rightarrow> ('e \<Rightarrow> ('s, 'e, 'a) action) \<Rightarrow> ('s, 'e, 'a) action" where
  "handle m h s = (case m s of (Inl e, s') \<Rightarrow> h e s' | (Inr x, s') \<Rightarrow> (Inr x, s'))"

text \<open>\<open>try\<close> whose outcome, exception or value, is looked at afterwards.\<close>

definition attempt :: "('s, 'e, 'a) action \<Rightarrow> ('s, 'e, 'e + 'a) action" where
  "attempt m s = (case m s of (r, s') \<Rightarrow> (Inr r, s'))"

definition from_sum :: "'e + 'a \<Rightarrow> ('s, 'e, 'a) action" where
  "from_sum r s = (r, s)"

definition check :: "bool \<Rightarrow> 'e \<Rightarrow> ('s, 'e, unit) action" where
  "check b e = (if b then ret () else throw e)"

definition modify :: "('s \<Rightarrow> 's) \<Rightarrow> ('s, 'e, unit) action" where
  "modify f s = (Inr (), f s)"

definition reads :: "('s \<Rightarrow> 'a) \<Rightarrow> ('s, 'e, 'a) action" where
  "reads f s = (Inr (f s), s)"

text \<open>\<open>for x in xs: acc = f(x, acc)\<close>.\<close>

fun fold_action :: "('a \<Rightarrow> 'b \<Rightarrow> ('s, 'e, 'b) action) \<Rightarrow> 'a list \<Rightarrow> 'b \<Rightarrow> ('s, 'e, 'b) action" where
  "fold_action f [] b = ret b"
| "fold_action f (x # xs) b = andthen (f x b) (fold_action f xs)"

text \<open>The results of a loop that stops at its first exception.\<close>

fun sum_all :: "('e + 'a) list \<Rightarrow> 'e + 'a list" where
  "sum_all [] = Inr []"
| "sum_all (r # rs) = (case r of Inl e \<Rightarrow> Inl e
     | Inr x \<Rightarrow> (case sum_all rs of Inl e \<Rightarrow> Inl e | Inr xs \<Rightarrow> Inr (x # xs)))"

lemma sum_all_map [simp]: "sum_all (map Inr xs) = Inr xs"
  by (induction xs) auto

lemma sum_all_InrD: "sum_all rs = Inr xs \<Longrightarrow> rs = map Inr xs"
  by (induction rs arbitrary: xs) (auto split: sum.splits)

lemma sum_all_Inr: "sum_all rs = Inr xs \<longleftrightarrow> rs = map Inr xs"
  using sum_all_InrD by auto

lemma sum_all_defined: "(\<And>r. r \<in> set rs \<Longrightarrow> \<exists>x. r = Inr x) \<Longrightarrow> \<exists>xs. sum_all rs = Inr xs"
proof (induction rs)
  case (Cons r rs)
  obtain x where "r = Inr x" using Cons.prems [of r] by auto
  moreover obtain xs where "sum_all rs = Inr xs" using Cons.IH Cons.prems by auto
  ultimately show ?case by simp
qed simp

section \<open>Rules\<close>

definition holds :: "('s \<Rightarrow> bool) \<Rightarrow> ('s, 'e, 'a) action \<Rightarrow> ('a \<Rightarrow> 's \<Rightarrow> bool) \<Rightarrow> ('e \<Rightarrow> 's \<Rightarrow> bool) \<Rightarrow> bool" where
  "holds P m Q E \<longleftrightarrow> (\<forall>s. P s \<longrightarrow> (case m s of (Inr x, s') \<Rightarrow> Q x s' | (Inl e, s') \<Rightarrow> E e s'))"

named_theorems holds_rules
  \<comment> \<open>introduction rules that decompose an action\<close>

lemma holds_ret [holds_rules]: "(\<And>s. P s \<Longrightarrow> Q x s) \<Longrightarrow> holds P (ret x) Q E"
  by (simp add: holds_def ret_def)

lemma holds_throw [holds_rules]: "(\<And>s. P s \<Longrightarrow> E e s) \<Longrightarrow> holds P (throw e) Q E"
  by (simp add: holds_def throw_def)

lemma holds_modify: "(\<And>s. P s \<Longrightarrow> Q () (f s)) \<Longrightarrow> holds P (modify f) Q E"
  by (simp add: holds_def modify_def)

lemma holds_reads: "(\<And>s. P s \<Longrightarrow> Q (f s) s) \<Longrightarrow> holds P (reads f) Q E"
  by (simp add: holds_def reads_def)

lemma holds_from_sum:
  "(\<And>s x. P s \<Longrightarrow> r = Inr x \<Longrightarrow> Q x s) \<Longrightarrow> (\<And>s e. P s \<Longrightarrow> r = Inl e \<Longrightarrow> E e s) \<Longrightarrow> holds P (from_sum r) Q E"
  by (cases r) (simp_all add: holds_def from_sum_def)

lemma holds_check:
  "(\<And>s. P s \<Longrightarrow> b \<Longrightarrow> Q () s) \<Longrightarrow> (\<And>s. P s \<Longrightarrow> \<not> b \<Longrightarrow> E e s) \<Longrightarrow> holds P (check b e) Q E"
  by (simp add: check_def holds_ret holds_throw)

lemma holds_andthen [holds_rules]:
  "holds P m R E \<Longrightarrow> (\<And>x. holds (R x) (f x) Q E) \<Longrightarrow> holds P (andthen m f) Q E"
  unfolding holds_def andthen_def by (fastforce split: prod.splits sum.splits)

lemma holds_handle:
  "holds P m Q R \<Longrightarrow> (\<And>e. holds (R e) (h e) Q E) \<Longrightarrow> holds P (handle m h) Q E"
  unfolding holds_def handle_def by (fastforce split: prod.splits sum.splits)

lemma holds_iff:
  "holds P m Q E \<longleftrightarrow> (\<forall>s. P s \<longrightarrow>
     (\<forall>x s'. m s = (Inr x, s') \<longrightarrow> Q x s') \<and> (\<forall>e s'. m s = (Inl e, s') \<longrightarrow> E e s'))"
  by (auto simp: holds_def split: prod.splits sum.splits)

lemma holds_attempt:
  "holds P m Q R \<Longrightarrow> (\<And>x s. Q x s \<Longrightarrow> T (Inr x) s) \<Longrightarrow> (\<And>e s. R e s \<Longrightarrow> T (Inl e) s)
   \<Longrightarrow> holds P (attempt m) T E"
  by (auto simp: holds_iff attempt_def split: prod.splits) (metis sum.exhaust)

lemma holds_mono:
  "holds P m Q E \<Longrightarrow> (\<And>s. P' s \<Longrightarrow> P s) \<Longrightarrow> (\<And>x s. Q x s \<Longrightarrow> Q' x s) \<Longrightarrow> (\<And>e s. E e s \<Longrightarrow> E' e s)
   \<Longrightarrow> holds P' m Q' E'"
  unfolding holds_iff by meson

lemma holds_conj:
  "holds P m Q E \<Longrightarrow> holds P' m Q' E' \<Longrightarrow>
   holds (\<lambda>s. P s \<and> P' s) m (\<lambda>x s. Q x s \<and> Q' x s) (\<lambda>e s. E e s \<and> E' e s)"
  by (auto simp: holds_iff)

lemma holds_pre: "(\<And>s. P s \<Longrightarrow> holds (\<lambda>t. t = s) m Q E) \<Longrightarrow> holds P m Q E"
  by (auto simp: holds_iff)

lemma holds_state: "holds P m Q E \<Longrightarrow> P s \<Longrightarrow> holds (\<lambda>t. t = s) m Q E"
  by (simp add: holds_iff)

lemma holds_lift_pre: "(A \<Longrightarrow> holds P m Q E) \<Longrightarrow> holds (\<lambda>s. A \<and> P s) m Q E"
  by (auto simp: holds_iff)

lemma holds_if [holds_rules]:
  "(b \<Longrightarrow> holds P m Q E) \<Longrightarrow> (\<not> b \<Longrightarrow> holds P n Q E) \<Longrightarrow> holds P (if b then m else n) Q E"
  by simp

lemma holds_fold_action:
  assumes "\<And>x b. x \<in> set xs \<Longrightarrow> holds (I b) (f x b) I E"
  shows "holds (I b) (fold_action f xs b) I E"
  using assms
proof (induction xs arbitrary: b)
  case Nil
  show ?case by (simp add: holds_ret)
next
  case (Cons x xs)
  show ?case
    unfolding fold_action.simps by (rule holds_andthen [where R = I]) (use Cons in auto)
qed

text \<open>Facts that do not depend on the state move in front of the triple.\<close>

lemma holds_fact: "(B \<Longrightarrow> holds P m Q E) \<Longrightarrow> holds (\<lambda>s. P s \<and> B) m Q E"
  by (auto simp: holds_iff)

lemma holds_step:
  "holds P m (\<lambda>x s. R s \<and> B x) E \<Longrightarrow> (\<And>x. B x \<Longrightarrow> holds R (f x) Q E) \<Longrightarrow> holds P (andthen m f) Q E"
  by (rule holds_andthen [where R = "\<lambda>x s. R s \<and> B x"]) (auto intro: holds_fact)

lemma holds_sum_step:
  "(\<And>x. r = Inr x \<Longrightarrow> holds P (f x) Q E) \<Longrightarrow> (\<And>e s. r = Inl e \<Longrightarrow> P s \<Longrightarrow> E e s) \<Longrightarrow>
   holds P (andthen (from_sum r) f) Q E"
  by (cases r) (simp_all add: holds_def andthen_def from_sum_def)

lemma holds_fold_prefix:
  assumes "\<And>pre x post b. xs = pre @ x # post \<Longrightarrow> holds (I pre b) (f x b) (I (pre @ [x])) E"
  shows "holds (I [] b) (fold_action f xs b) (I xs) E"
proof -
  have "holds (I ys b) (fold_action f zs b) (I xs) E" if "xs = ys @ zs" for ys zs b
    using that
  proof (induction zs arbitrary: ys b)
    case Nil
    then show ?case by (simp add: holds_ret)
  next
    case (Cons z zs)
    show ?case
      unfolding fold_action.simps
      by (rule holds_andthen [OF assms [OF Cons.prems]]) (rule Cons.IH, simp add: Cons.prems)
  qed
  from this [of "[]" xs] show ?thesis by simp
qed

lemma holds_fold_facts:
  assumes "\<And>pre x post b. xs = pre @ x # post \<Longrightarrow> I pre b \<Longrightarrow>
      holds P (f x b) (\<lambda>b' s. P s \<and> I (pre @ [x]) b') E"
    and "I [] b"
  shows "holds P (fold_action f xs b) (\<lambda>b' s. P s \<and> I xs b') E"
proof -
  have "holds (\<lambda>s. P s \<and> I [] b) (fold_action f xs b) (\<lambda>b' s. P s \<and> I xs b') E"
    by (rule holds_fold_prefix [where I = "\<lambda>pre b s. P s \<and> I pre b"]) (rule holds_fact, rule assms(1))
  then show ?thesis by (rule holds_mono) (use assms(2) in auto)
qed

lemma andthen_from_sum [simp]: "andthen (from_sum (Inr x)) f = f x"
  by (rule ext) (simp add: andthen_def from_sum_def)

lemma check_True [simp]: "check True e = ret ()"
  by (simp add: check_def)

lemma holds_ex:
  "(\<And>u. W u \<Longrightarrow> holds (P u) m Q E) \<Longrightarrow> holds (\<lambda>s. \<exists>u. P u s \<and> W u) m Q E"
  by (auto simp: holds_iff)

lemma holds_D:
  "holds P m Q E \<Longrightarrow> P s \<Longrightarrow> (case m s of (Inr x, s') \<Rightarrow> Q x s' | (Inl e, s') \<Rightarrow> E e s')"
  by (simp add: holds_def)

end
