(* ===== verification/Ref_Projection.thy ===== *)
theory Ref_Projection
  imports Canonical_Json "HOL-Library.Product_Lexorder"
begin

text \<open>
  \<open>reference_projection.py\<close>: which occurrences of an entity identifier in a JSON document may be
  rewritten, and the rewriting. The template parser (Jinja) is not part of the program: it is the
  parameter \<open>parse\<close>, which returns the syntax tree of a template or \<open>None\<close> for a
  \<open>TemplateSyntaxError\<close>. The tree keeps the node classes the inspector has a method for; any other
  node is \<open>TOther\<close> with its children. Node identities, which the inspector uses to mark the nodes a
  call approves, become a flag handed to the child of a call.
\<close>

lemma size_indexed [termination_simp]:
  "(i, v) \<in> set (zip is vs) \<Longrightarrow> size v < Suc (size_list size vs)"
  using size_list_estimation' [of v vs "size v" size] by (auto dest: set_zip_rightD)

section \<open>Paths and results\<close>

datatype path_part = PKey string | PIndex nat

type_synonym ref_path = "path_part list"

record blocked_reference =
  br_path :: ref_path
  br_text :: string
  br_key :: bool

record semantic_scan =
  replaceable_paths :: "ref_path list"
  blocked_refs :: "blocked_reference list"

record template_analysis =
  replaceable_count :: nat
  ta_blocked :: bool

definition blocked_ref :: "ref_path \<Rightarrow> string \<Rightarrow> bool \<Rightarrow> blocked_reference" where
  "blocked_ref p s k = \<lparr>br_path = p, br_text = s, br_key = k\<rparr>"

section \<open>Fixed vocabularies\<close>

definition replaceable_jinja_helpers :: "string list" where
  "replaceable_jinja_helpers = [''states'', ''state_attr'', ''is_state'', ''is_state_attr'', ''has_value'']"

definition nonreplaceable_entity_helpers :: "string list" where
  "nonreplaceable_entity_helpers =
     [''area_devices'', ''area_entities'', ''area_id'', ''area_name'', ''closest'', ''config_entry_attr'',
      ''config_entry_id'', ''device_attr'', ''device_entities'', ''device_id'', ''device_name'',
      ''distance'', ''expand'', ''floor_areas'', ''floor_id'', ''floor_name'', ''integration_entities'',
      ''label_areas'', ''label_devices'', ''label_entities'', ''label_id'', ''label_name'']"

definition entity_jinja_helpers :: "string list" where
  "entity_jinja_helpers = replaceable_jinja_helpers @ nonreplaceable_entity_helpers"

definition safe_jinja_filters :: "string list" where
  "safe_jinja_filters = [''abs'', ''bool'', ''default'', ''float'', ''int'', ''round'']"

definition common_scalar_fields :: "string list" where
  "common_scalar_fields =
     [''climate_entity'', ''entities'', ''entity'', ''entity_id'', ''heater'', ''source_entity'',
      ''target'', ''target_sensor'', ''temperature_sensor'']"

definition scalar_fields_by_provider :: "string \<Rightarrow> string list" where
  "scalar_fields_by_provider provider =
     (if provider = ''active_yaml'' \<or> provider = ''config_entry'' then common_scalar_fields
      else if provider = ''external_writers'' \<or> provider = ''scheduler''
        then [''entities'', ''entity_id'', ''target'']
      else if provider = ''lovelace'' then common_scalar_fields @ [''camera_image'']
      else [])"

definition template_providers :: "string list" where
  "template_providers = [''active_yaml'', ''config_entry'', ''lovelace'']"

definition template_fields :: "string list" where
  "template_fields =
     [''availability_template'', ''condition'', ''entity_picture_template'', ''icon_template'',
      ''state'', ''state_template'', ''template'', ''value_template'']"

section \<open>Entity tokens\<close>

text \<open>
  The token pattern is a lookahead: it reports at every position that does not follow a word
  character the maximal \<open>word.word\<close> that starts there.
\<close>

definition entity_at :: "string \<Rightarrow> string option" where
  "entity_at s = (let w = takeWhile word_char s; r = dropWhile word_char s in
     case r of [] \<Rightarrow> None
     | c # r' \<Rightarrow> if w \<noteq> [] \<and> c = CHR ''.'' \<and> takeWhile word_char r' \<noteq> []
                then Some (w @ ''.'' @ takeWhile word_char r') else None)"

fun entity_tokens_from :: "bool \<Rightarrow> nat \<Rightarrow> string \<Rightarrow> (nat \<times> string) list" where
  "entity_tokens_from after_word i [] = []"
| "entity_tokens_from after_word i (c # s) =
     (if after_word then [] else case entity_at (c # s) of None \<Rightarrow> [] | Some e \<Rightarrow> [(i, e)])
     @ entity_tokens_from (word_char c) (Suc i) s"

definition entity_tokens :: "string \<Rightarrow> (nat \<times> string) list" where
  "entity_tokens s = entity_tokens_from False 0 s"

definition contains_complete_entity :: "string \<Rightarrow> string \<Rightarrow> bool" where
  "contains_complete_entity s old \<longleftrightarrow> list_ex (\<lambda>(i, e). e = old) (entity_tokens s)"

text \<open>\<open>old_entity_id.split(".", 1)\<close> unpacked into two names: \<open>None\<close> where the unpacking raises.\<close>

definition split_entity :: "string \<Rightarrow> (string \<times> string) option" where
  "split_entity old = (let d = takeWhile (\<lambda>c. c \<noteq> CHR ''.'') old in
     if length d < length old then Some (d, drop (Suc (length d)) old) else None)"

fun merge_spans :: "(nat \<times> nat) list \<Rightarrow> (nat \<times> nat) list \<Rightarrow> (nat \<times> nat) list" where
  "merge_spans merged [] = rev merged"
| "merge_spans [] ((a, b) # spans) = merge_spans [(a, b)] spans"
| "merge_spans ((a', b') # merged) ((a, b) # spans) =
     (if a \<le> b' then merge_spans ((a', max b' b) # merged) spans
      else merge_spans ((a, b) # (a', b') # merged) spans)"

fun cut_spans :: "string \<Rightarrow> nat \<Rightarrow> (nat \<times> nat) list \<Rightarrow> string" where
  "cut_spans s cursor [] = drop cursor s"
| "cut_spans s cursor ((a, b) # spans) = drop cursor (take a s) @ '' '' @ cut_spans s b spans"

definition without_spans :: "string \<Rightarrow> (nat \<times> nat) list \<Rightarrow> string" where
  "without_spans s spans = (if spans = [] then s else cut_spans s 0 (merge_spans [] (sort spans)))"

definition substring :: "string \<Rightarrow> string \<Rightarrow> bool" where
  "substring p s \<longleftrightarrow> list_ex (starts_with p) (map (\<lambda>i. drop i s) [0..<Suc (length s)])"

section \<open>Template syntax trees\<close>

datatype template =
    TName string
  | TConst json
  | TData string
  | TCall template "template list" "template list"
  | TGetattr template string
  | TGetitem template template
  | TFilter string "template list"
  | TMacro string "template list" "template list"
  | TAssign template template
  | TAssignBlock template "template list"
  | TFor template "template list"
  | TImport template string
  | TFromImport template "(string \<times> string option) list"
  | TWith "template list" "template list"
  | TCallBlock template "template list" "template list"
  | TTuple "template list"
  | TList "template list"
  | TOther "template list"

text \<open>The children of a node in the order of \<open>iter_child_nodes\<close>.\<close>

fun template_children :: "template \<Rightarrow> template list" where
  "template_children (TCall f args rest) = f # args @ rest"
| "template_children (TGetattr n a) = [n]"
| "template_children (TGetitem n a) = [n, a]"
| "template_children (TFilter name xs) = xs"
| "template_children (TMacro name args rest) = args @ rest"
| "template_children (TAssign t n) = [t, n]"
| "template_children (TAssignBlock t xs) = t # xs"
| "template_children (TFor t xs) = t # xs"
| "template_children (TImport n t) = [n]"
| "template_children (TFromImport n names) = [n]"
| "template_children (TWith ts xs) = ts @ xs"
| "template_children (TCallBlock c args xs) = c # args @ xs"
| "template_children (TTuple xs) = xs"
| "template_children (TList xs) = xs"
| "template_children (TOther xs) = xs"
| "template_children _ = []"

fun target_shadows_helper :: "template \<Rightarrow> bool" where
  "target_shadows_helper (TName n) = (n \<in> set entity_jinja_helpers)"
| "target_shadows_helper (TTuple xs) = list_ex target_shadows_helper xs"
| "target_shadows_helper (TList xs) = list_ex target_shadows_helper xs"
| "target_shadows_helper _ = False"

text \<open>
  \<open>_access_chain\<close> climbs from an attribute or item access to its root; \<open>None\<close> for an item that is
  not a literal string. The inspector only uses the segments.
\<close>

fun access_chain :: "template \<Rightarrow> string list option" where
  "access_chain (TGetattr n a) = (case access_chain n of None \<Rightarrow> None | Some c \<Rightarrow> Some (c @ [a]))"
| "access_chain (TGetitem n (TConst (JStr a))) =
     (case access_chain n of None \<Rightarrow> None | Some c \<Rightarrow> Some (c @ [a]))"
| "access_chain (TGetitem n a) = None"
| "access_chain n = Some []"

definition chain_matches_entity :: "string \<Rightarrow> string \<Rightarrow> string \<Rightarrow> string list \<Rightarrow> bool" where
  "chain_matches_entity old domain object chain \<longleftrightarrow>
     old \<in> set chain \<or> list_ex (\<lambda>(a, b). a = domain \<and> b = object) (zip chain (tl chain))"

text \<open>What \<open>visit_Call\<close> finds: the count it adds, whether it blocks, and which children it approves.\<close>

definition is_helper_name :: "template \<Rightarrow> bool" where
  "is_helper_name f = (case f of TName n \<Rightarrow> n \<in> set entity_jinja_helpers | _ \<Rightarrow> False)"

definition call_approves_constant :: "string \<Rightarrow> template \<Rightarrow> template list \<Rightarrow> bool" where
  "call_approves_constant old f args = (case f of
     TName n \<Rightarrow> n \<in> set replaceable_jinja_helpers \<and>
       (case args of TConst (JStr s) # _ \<Rightarrow> s = old | _ \<Rightarrow> False)
   | _ \<Rightarrow> False)"

definition call_blocked :: "string \<Rightarrow> template \<Rightarrow> template list \<Rightarrow> bool" where
  "call_blocked old f args = (case f of
     TName n \<Rightarrow>
       if n \<notin> set entity_jinja_helpers then True
       else if n \<notin> set replaceable_jinja_helpers then True
       else (case args of TConst (JStr s) # _ \<Rightarrow> s \<noteq> old \<and> contains_complete_entity s old | _ \<Rightarrow> True)
   | _ \<Rightarrow> True)"

definition children_with :: "(bool \<Rightarrow> template \<Rightarrow> 'a) \<Rightarrow> string \<Rightarrow> template \<Rightarrow> template list \<Rightarrow> 'a list" where
  "children_with f old n args = f (is_helper_name n) n #
     (case args of [] \<Rightarrow> [] | a # as \<Rightarrow> f (call_approves_constant old n args) a # map (f False) as)"

lemma children_with_cong [fundef_cong]:
  assumes "\<And>b t. t \<in> set (n # args) \<Longrightarrow> f b t = g b t" "old = old'" "n = n'" "args = args'"
  shows "children_with f old n args = children_with g old' n' args'"
  using assms by (auto simp: children_with_def split: list.split)

text \<open>The whole inspection of a tree: the number of replaceable calls and whether it is blocked.\<close>

definition gather :: "(nat \<times> bool) list \<Rightarrow> nat \<times> bool" where
  "gather rs = (sum_list (map fst rs), list_ex snd rs)"

fun inspect :: "string \<Rightarrow> string \<Rightarrow> string \<Rightarrow> bool \<Rightarrow> template \<Rightarrow> nat \<times> bool" where
  "inspect old d ob approved (TCall f args rest) =
     gather ((if call_approves_constant old f args then 1 else 0, call_blocked old f args)
       # children_with (inspect old d ob) old f args @ map (inspect old d ob False) rest)"
| "inspect old d ob approved (TName n) = (0, n \<in> set entity_jinja_helpers \<and> \<not> approved)"
| "inspect old d ob approved (TConst v) =
     (0, \<not> approved \<and> (case v of JStr s \<Rightarrow> contains_complete_entity s old | _ \<Rightarrow> False))"
| "inspect old d ob approved (TData s) = (0, contains_complete_entity s old)"
| "inspect old d ob approved (TGetattr n a) =
     gather [(0, case access_chain (TGetattr n a) of None \<Rightarrow> False
                 | Some c \<Rightarrow> chain_matches_entity old d ob c), inspect old d ob False n]"
| "inspect old d ob approved (TGetitem n a) =
     gather [(0, case access_chain (TGetitem n a) of None \<Rightarrow> True
                 | Some c \<Rightarrow> chain_matches_entity old d ob c),
             inspect old d ob False n, inspect old d ob False a]"
| "inspect old d ob approved (TFilter name xs) =
     gather ((0, name \<notin> set safe_jinja_filters) # map (inspect old d ob False) xs)"
| "inspect old d ob approved (TMacro name args rest) =
     gather ((0, name \<in> set entity_jinja_helpers \<or> list_ex target_shadows_helper args)
       # map (inspect old d ob False) args @ map (inspect old d ob False) rest)"
| "inspect old d ob approved (TAssign t n) =
     gather [(0, target_shadows_helper t), inspect old d ob False t, inspect old d ob False n]"
| "inspect old d ob approved (TAssignBlock t xs) =
     gather ((0, target_shadows_helper t) # inspect old d ob False t # map (inspect old d ob False) xs)"
| "inspect old d ob approved (TFor t xs) =
     gather ((0, target_shadows_helper t) # inspect old d ob False t # map (inspect old d ob False) xs)"
| "inspect old d ob approved (TImport n t) =
     gather [(0, t \<in> set entity_jinja_helpers), inspect old d ob False n]"
| "inspect old d ob approved (TFromImport n names) =
     gather [(0, list_ex (\<lambda>(a, b). (case b of Some b' \<Rightarrow> b' | None \<Rightarrow> a) \<in> set entity_jinja_helpers) names),
             inspect old d ob False n]"
| "inspect old d ob approved (TWith ts xs) =
     gather ((0, list_ex target_shadows_helper ts)
       # map (inspect old d ob False) ts @ map (inspect old d ob False) xs)"
| "inspect old d ob approved (TCallBlock c args xs) =
     gather ((0, list_ex target_shadows_helper args) # inspect old d ob False c
       # map (inspect old d ob False) args @ map (inspect old d ob False) xs)"
| "inspect old d ob approved (TTuple xs) = gather (map (inspect old d ob False) xs)"
| "inspect old d ob approved (TList xs) = gather (map (inspect old d ob False) xs)"
| "inspect old d ob approved (TOther xs) = gather (map (inspect old d ob False) xs)"

text \<open>
  \<open>_node_mentions_old_parts\<close>: the string constants the calls did not approve, in the order of
  \<open>_walk_nodes\<close>, must not spell the two parts of the identifier between them.
\<close>

fun free_constants :: "string \<Rightarrow> bool \<Rightarrow> template \<Rightarrow> string list" where
  "free_constants old approved (TCall f args rest) =
     concat (children_with (free_constants old) old f args) @ concat (map (free_constants old False) rest)"
| "free_constants old approved (TName n) = []"
| "free_constants old approved (TConst v) =
     (if approved then [] else case v of JStr s \<Rightarrow> [s] | _ \<Rightarrow> [])"
| "free_constants old approved (TData s) = []"
| "free_constants old approved (TGetattr n a) = free_constants old False n"
| "free_constants old approved (TGetitem n a) = free_constants old False n @ free_constants old False a"
| "free_constants old approved (TFilter name xs) = concat (map (free_constants old False) xs)"
| "free_constants old approved (TMacro name args rest) =
     concat (map (free_constants old False) args) @ concat (map (free_constants old False) rest)"
| "free_constants old approved (TAssign t n) = free_constants old False t @ free_constants old False n"
| "free_constants old approved (TAssignBlock t xs) =
     free_constants old False t @ concat (map (free_constants old False) xs)"
| "free_constants old approved (TFor t xs) =
     free_constants old False t @ concat (map (free_constants old False) xs)"
| "free_constants old approved (TImport n t) = free_constants old False n"
| "free_constants old approved (TFromImport n names) = free_constants old False n"
| "free_constants old approved (TWith ts xs) =
     concat (map (free_constants old False) ts) @ concat (map (free_constants old False) xs)"
| "free_constants old approved (TCallBlock c args xs) =
     free_constants old False c @ concat (map (free_constants old False) args)
     @ concat (map (free_constants old False) xs)"
| "free_constants old approved (TTuple xs) = concat (map (free_constants old False) xs)"
| "free_constants old approved (TList xs) = concat (map (free_constants old False) xs)"
| "free_constants old approved (TOther xs) = concat (map (free_constants old False) xs)"

definition ascii_lower :: "char \<Rightarrow> char" where
  "ascii_lower c = (let n = char_code c in if 65 \<le> n \<and> n \<le> 90 then char_of (n + 32) else c)"

definition compact_text :: "string \<Rightarrow> string" where
  "compact_text s = filter (\<lambda>c. word_char c \<or> c = CHR ''.'') (map ascii_lower s)"

definition node_mentions_old_parts :: "string \<Rightarrow> string \<Rightarrow> string list \<Rightarrow> bool" where
  "node_mentions_old_parts domain object constants \<longleftrightarrow>
     list_ex (\<lambda>s. contains_complete_entity s (domain @ ''.'' @ object)) constants
     \<or> (let compact = compact_text (concat (map (\<lambda>s.
           without_spans s (map (\<lambda>(i, e). (i, i + length e)) (entity_tokens s))) constants))
        in substring domain compact \<and> substring object compact)"

section \<open>Template source text\<close>

definition skip_space :: "string \<Rightarrow> string" where
  "skip_space s = dropWhile py_space s"

text \<open>
  One match of the source helper pattern at the start of \<open>s\<close>: the offset and text of the entity and
  the length of the match, which ends after the closing quote.
\<close>

definition helper_rest :: "string \<Rightarrow> string option" where
  "helper_rest s = (case List.find (\<lambda>h. starts_with h s \<and> starts_with ''('' (skip_space (drop (length h) s)))
       replaceable_jinja_helpers of
     None \<Rightarrow> None
   | Some h \<Rightarrow> Some (skip_space (drop 1 (skip_space (drop (length h) s)))))"

definition helper_match :: "string \<Rightarrow> (nat \<times> string \<times> nat) option" where
  "helper_match s = (case helper_rest s of
     Some (q # r) \<Rightarrow>
       if q = CHR 0x27 \<or> q = CHR 0x22 then
         (case entity_at r of None \<Rightarrow> None
          | Some e \<Rightarrow>
            (case drop (length e) r of
               [] \<Rightarrow> None
             | q' # r' \<Rightarrow>
               if q' = q \<and> (starts_with '','' (skip_space r') \<or> starts_with '')'' (skip_space r'))
               then Some (length s - length r, e, length s - length r') else None))
       else None
   | _ \<Rightarrow> None)"

text \<open>\<open>finditer\<close>: matches do not overlap and do not follow a word character or a dot.\<close>

fun helper_matches :: "nat \<Rightarrow> bool \<Rightarrow> nat \<Rightarrow> string \<Rightarrow> (nat \<times> nat \<times> nat \<times> string) list" where
  "helper_matches skip after i [] = []"
| "helper_matches (Suc n) after i (c # s) =
     helper_matches n (word_char c \<or> c = CHR ''.'') (Suc i) s"
| "helper_matches 0 after i (c # s) =
     (case (if after then None else helper_match (c # s)) of
        None \<Rightarrow> helper_matches 0 (word_char c \<or> c = CHR ''.'') (Suc i) s
      | Some (off, e, len) \<Rightarrow> (i, i + len, i + off, e)
          # helper_matches (len - 1) (word_char c \<or> c = CHR ''.'') (Suc i) s)"

text \<open>\<open>text.find(pattern, cursor)\<close>.\<close>

definition find_from :: "string \<Rightarrow> string \<Rightarrow> nat \<Rightarrow> nat option" where
  "find_from s p cursor = List.find (\<lambda>i. starts_with p (drop i s)) [cursor..<Suc (length s)]"

text \<open>\<open>_END_RAW_PATTERN.search(text, cursor)\<close>: the end of the first match.\<close>

definition drop_dash :: "string \<Rightarrow> string" where
  "drop_dash s = (if starts_with ''-'' s then drop 1 s else s)"

definition end_raw_at :: "string \<Rightarrow> string option" where
  "end_raw_at s =
     (if \<not> starts_with ''{%'' s then None
      else let r = skip_space (drop_dash (drop 2 s)) in
        if \<not> starts_with ''endraw'' r then None
        else let r' = drop_dash (skip_space (drop 6 r)) in
          if starts_with ''%}'' r' then Some (drop 2 r') else None)"

definition end_raw_search :: "string \<Rightarrow> nat \<Rightarrow> nat option" where
  "end_raw_search s cursor =
     (case List.find (\<lambda>i. end_raw_at (drop i s) \<noteq> None) [cursor..<Suc (length s)] of
        None \<Rightarrow> None
      | Some i \<Rightarrow> (case end_raw_at (drop i s) of None \<Rightarrow> None | Some r \<Rightarrow> Some (length s - length r)))"

text \<open>\<open>_find_jinja_closing\<close> on the suffix at \<open>index\<close>; the last character never starts a match.\<close>

fun find_jinja_closing :: "string \<Rightarrow> char option \<Rightarrow> bool \<Rightarrow> nat \<Rightarrow> string \<Rightarrow> nat option" where
  "find_jinja_closing closing quote escaped index (c # d # s) =
     (case quote of
        Some q \<Rightarrow>
          if escaped then find_jinja_closing closing quote False (Suc index) (d # s)
          else if c = CHR 0x5C then find_jinja_closing closing quote True (Suc index) (d # s)
          else if c = q then find_jinja_closing closing None escaped (Suc index) (d # s)
          else find_jinja_closing closing quote escaped (Suc index) (d # s)
      | None \<Rightarrow>
          if c = CHR 0x27 \<or> c = CHR 0x22
            then find_jinja_closing closing (Some c) escaped (Suc index) (d # s)
          else if starts_with closing (c # d # s) then Some index
          else find_jinja_closing closing quote escaped (Suc index) (d # s))"
| "find_jinja_closing closing quote escaped index _ = None"

text \<open>\<open>content.strip().strip("-").strip() == "raw"\<close>.\<close>

definition strip_dashes :: "string \<Rightarrow> string" where
  "strip_dashes s = rev (dropWhile (\<lambda>c. c = CHR ''-'') (rev (dropWhile (\<lambda>c. c = CHR ''-'') s)))"

definition is_raw_tag :: "string \<Rightarrow> bool" where
  "is_raw_tag content \<longleftrightarrow> py_strip (strip_dashes (py_strip content)) = ''raw''"

definition next_delimiter :: "string \<Rightarrow> nat \<Rightarrow> (nat \<times> string) option" where
  "next_delimiter s cursor =
     (let starts = List.map_filter (\<lambda>d. map_option (\<lambda>i. (i, d)) (find_from s d cursor)) [''{{'', ''{%'', ''{#'']
      in if starts = [] then None else Some (hd (sort_key fst starts)))"

text \<open>
  The \<open>while\<close> loop of \<open>_jinja_code_ranges\<close>. It is stated as a loop that might not return: that it
  always does is proved in \<open>Projection_Safety\<close>.
\<close>

partial_function (option) code_ranges_loop ::
  "string \<Rightarrow> nat \<Rightarrow> bool \<Rightarrow> (nat \<times> nat) list \<Rightarrow> (nat \<times> nat) list option" where
  "code_ranges_loop s cursor raw ranges =
     (if \<not> cursor < length s then Some ranges
      else if raw then
        (case end_raw_search s cursor of
           None \<Rightarrow> Some ranges
         | Some e \<Rightarrow> code_ranges_loop s e False ranges)
      else (case next_delimiter s cursor of
          None \<Rightarrow> Some ranges
        | Some (start, delimiter) \<Rightarrow>
          if delimiter = ''{#'' then
            (case find_from s ''#}'' (start + 2) of
               None \<Rightarrow> Some ranges
             | Some e \<Rightarrow> code_ranges_loop s (e + 2) raw ranges)
          else (case find_jinja_closing (if delimiter = ''{{'' then ''}}'' else ''%}'') None False
                       (start + 2) (drop (start + 2) s) of
               None \<Rightarrow> Some ranges
             | Some e \<Rightarrow>
               if delimiter = ''{%'' \<and> is_raw_tag (drop (start + 2) (take e s))
               then code_ranges_loop s (e + 2) True ranges
               else code_ranges_loop s (e + 2) raw (ranges @ [(start + 2, e)]))))"

declare code_ranges_loop.simps [code]

definition jinja_code_ranges :: "string \<Rightarrow> (nat \<times> nat) list" where
  "jinja_code_ranges s = (case code_ranges_loop s 0 False [] of Some r \<Rightarrow> r | None \<Rightarrow> [])"

definition source_literal_spans :: "string \<Rightarrow> string \<Rightarrow> (nat \<times> nat) list" where
  "source_literal_spans s old = (let code_ranges = jinja_code_ranges s in
     map (\<lambda>(a, b, i, e). (i, i + length e))
       (filter (\<lambda>(a, b, i, e). e = old \<and> list_ex (\<lambda>(x, y). x \<le> a \<and> b \<le> y) code_ranges)
          (helper_matches 0 False 0 s)))"

text \<open>\<open>_analyze_template\<close>; \<open>None\<close> where splitting the identifier raises \<open>ValueError\<close>.\<close>

definition analyze_template ::
  "(string \<Rightarrow> template option) \<Rightarrow> string \<Rightarrow> string \<Rightarrow> template_analysis option" where
  "analyze_template parse s old =
     (case parse s of
        None \<Rightarrow> Some \<lparr>replaceable_count = 0, ta_blocked = True\<rparr>
      | Some tree \<Rightarrow>
        (case split_entity old of
           None \<Rightarrow> None
         | Some (domain, object) \<Rightarrow>
           (case inspect old domain object False tree of (count, blocked) \<Rightarrow>
             Some \<lparr>replaceable_count = count,
               ta_blocked = blocked
                 \<or> node_mentions_old_parts domain object (free_constants old False tree)
                 \<or> (count \<noteq> 0 \<and> length (source_literal_spans s old) \<noteq> count)\<rparr>)))"

section \<open>Scanning a document\<close>

fun last_key :: "ref_path \<Rightarrow> string option" where
  "last_key [] = None"
| "last_key (p # ps) = (case last_key ps of Some k \<Rightarrow> Some k
     | None \<Rightarrow> (case p of PKey k \<Rightarrow> Some k | PIndex i \<Rightarrow> None))"

definition is_scalar_reference_path :: "ref_path \<Rightarrow> string option \<Rightarrow> bool" where
  "is_scalar_reference_path path provider =
     (case last_key path of
        None \<Rightarrow> False
      | Some field \<Rightarrow> field \<in> set (case provider of
          None \<Rightarrow> common_scalar_fields | Some p \<Rightarrow> scalar_fields_by_provider p))"

definition is_template_path :: "ref_path \<Rightarrow> bool" where
  "is_template_path path =
     (path \<noteq> [] \<and> (case last path of PKey k \<Rightarrow> k \<in> set template_fields | PIndex i \<Rightarrow> False))"

definition template_allowed :: "string option \<Rightarrow> bool" where
  "template_allowed provider =
     (case provider of None \<Rightarrow> True | Some p \<Rightarrow> p \<in> set template_providers)"

definition is_template_text :: "string \<Rightarrow> bool" where
  "is_template_text s \<longleftrightarrow> substring ''{{'' s \<or> substring ''{%'' s"

definition no_references :: semantic_scan where
  "no_references = \<lparr>replaceable_paths = [], blocked_refs = []\<rparr>"

definition replaceable_at :: "ref_path \<Rightarrow> semantic_scan" where
  "replaceable_at path = \<lparr>replaceable_paths = [path], blocked_refs = []\<rparr>"

definition blocked_at :: "ref_path \<Rightarrow> string \<Rightarrow> bool \<Rightarrow> semantic_scan" where
  "blocked_at path s key = \<lparr>replaceable_paths = [], blocked_refs = [blocked_ref path s key]\<rparr>"

definition scan_append :: "semantic_scan \<Rightarrow> semantic_scan \<Rightarrow> semantic_scan" where
  "scan_append a b = \<lparr>replaceable_paths = replaceable_paths a @ replaceable_paths b,
     blocked_refs = blocked_refs a @ blocked_refs b\<rparr>"

fun scan_concat :: "semantic_scan option list \<Rightarrow> semantic_scan option" where
  "scan_concat [] = Some no_references"
| "scan_concat (None # rs) = None"
| "scan_concat (Some a # rs) = (case scan_concat rs of None \<Rightarrow> None | Some b \<Rightarrow> Some (scan_append a b))"

definition scan_text ::
  "(string \<Rightarrow> template option) \<Rightarrow> string \<Rightarrow> string option \<Rightarrow> string \<Rightarrow> ref_path \<Rightarrow> semantic_scan option" where
  "scan_text parse old provider s path =
     (if s = old then
        Some (if is_scalar_reference_path path provider then replaceable_at path
              else blocked_at path s False)
      else if is_template_text s then
        (case analyze_template parse s old of
           None \<Rightarrow> None
         | Some analysis \<Rightarrow> Some
             (if is_scalar_reference_path path provider then blocked_at path s False
              else if \<not> is_template_path path \<or> \<not> template_allowed provider then
                (if ta_blocked analysis \<or> replaceable_count analysis \<noteq> 0
                 then blocked_at path s False else no_references)
              else if ta_blocked analysis \<or> 1 < replaceable_count analysis then blocked_at path s False
              else if replaceable_count analysis = 1 then replaceable_at path
              else no_references))
      else Some (if contains_complete_entity s old then blocked_at path s False else no_references))"

fun scan_walk ::
  "(string \<Rightarrow> template option) \<Rightarrow> string \<Rightarrow> string option \<Rightarrow> json \<Rightarrow> ref_path \<Rightarrow> semantic_scan option" where
  "scan_walk parse old provider (JObj kvs) path =
     scan_concat (map snd (sort_key fst (map (\<lambda>(key, v). (key,
       scan_concat
         [Some (if contains_complete_entity key old then blocked_at (path @ [PKey key]) key True
                else no_references),
          scan_walk parse old provider v (path @ [PKey key])])) kvs)))"
| "scan_walk parse old provider (JArr vs) path =
     scan_concat (map (\<lambda>(index, v). scan_walk parse old provider v (path @ [PIndex index]))
       (zip [0..<length vs] vs))"
| "scan_walk parse old provider (JStr s) path = scan_text parse old provider s path"
| "scan_walk parse old provider _ path = Some no_references"

definition scan_semantic_references ::
  "(string \<Rightarrow> template option) \<Rightarrow> json \<Rightarrow> string \<Rightarrow> string option \<Rightarrow> semantic_scan option" where
  "scan_semantic_references parse payload old provider =
     (if old = [] \<or> provider = Some [] then None else scan_walk parse old provider payload [])"

section \<open>Rewriting a document\<close>

definition replace_template_literal :: "string \<Rightarrow> string \<Rightarrow> string \<Rightarrow> string \<times> nat" where
  "replace_template_literal s old target =
     (case source_literal_spans s old of
        [(a, b)] \<Rightarrow> (take a s @ target @ drop b s, 1)
      | _ \<Rightarrow> (s, 0))"

text \<open>The rewritten text of one approved string; \<open>None\<close> where the code raises \<open>ValueError\<close>.\<close>

definition replace_text :: "string \<Rightarrow> string \<Rightarrow> string \<Rightarrow> string option" where
  "replace_text old target s =
     (if s = old then Some target
      else case replace_template_literal s old target of (s', n) \<Rightarrow> if n = 1 then Some s' else None)"

fun all_some :: "'a option list \<Rightarrow> 'a list option" where
  "all_some [] = Some []"
| "all_some (None # xs) = None"
| "all_some (Some x # xs) = map_option ((#) x) (all_some xs)"

fun replace_value ::
  "string \<Rightarrow> string \<Rightarrow> ref_path list \<Rightarrow> json \<Rightarrow> ref_path \<Rightarrow> (json \<times> nat) option" where
  "replace_value old target paths (JObj kvs) path =
     map_option (\<lambda>rs. (JObj (zip (map fst kvs) (map fst rs)), sum_list (map snd rs)))
       (all_some (map (\<lambda>(key, v). replace_value old target paths v (path @ [PKey key])) kvs))"
| "replace_value old target paths (JArr vs) path =
     map_option (\<lambda>rs. (JArr (map fst rs), sum_list (map snd rs)))
       (all_some (map (\<lambda>(index, v). replace_value old target paths v (path @ [PIndex index]))
         (zip [0..<length vs] vs)))"
| "replace_value old target paths (JStr s) path =
     (if path \<notin> set paths then Some (JStr s, 0)
      else map_option (\<lambda>s'. (JStr s', 1)) (replace_text old target s))"
| "replace_value old target paths v path = Some (v, 0)"

definition replace_semantic_references ::
  "(string \<Rightarrow> template option) \<Rightarrow> json \<Rightarrow> string \<Rightarrow> string \<Rightarrow> string option \<Rightarrow> (json \<times> nat) option" where
  "replace_semantic_references parse payload old target provider =
     (case scan_semantic_references parse payload old provider of
        None \<Rightarrow> None
      | Some scan \<Rightarrow> replace_value old target (replaceable_paths scan) payload [])"

end
