(* ===== verification/Ref_Migration.thy ===== *)
theory Ref_Migration
  imports Actions Ref_Projection Txn_Values
begin

text \<open>
  \<open>reference_migration.py\<close>: the coordinator that plans, applies, verifies and restores a migration of
  references, over a provider, a journal and an authority it only knows by their interfaces
  (\<open>ports\<close>). \<open>H\<close> is the hexadecimal SHA-256 and \<open>parse\<close> the template parser of \<open>Ref_Projection\<close>.

  The texts of errors are not modelled: a reason for a blocked plan is a constructor with what the
  text mentions, and the reason stored with a journal state is dropped. A payload is a JSON value, so
  the tests for foreign types and cyclic values are the types; the tests on values (root, depth,
  finite numbers) are kept.
\<close>

section \<open>Errors\<close>

datatype plan_reason =
    RoomIdRequired | OldEntityRequired | LogicalIdRequired | NegativeRoomRevision
  | NoRequiredProviders | EmptyProviderName | MissingProviders "string list" | OmittedProviders "string list"
  | OldEntityMalformed | LogicalIdMalformed | TargetMalformed | TargetSameAsOld | BothTargets
  | TargetsNotExact | ProviderTargetMalformed string | ProviderTargetUnsafe string
  | CoordinatorBlocked | TargetRequired | AuthorityUnavailable | SubjectMismatch
  | ProviderNotEnumerated string | WrongProvider string | DuplicateObject string string
  | MalformedDocument string string | NotWritable string string
  | EmbeddedReferences string string "ref_path list" | NoReferencesFound

datatype mig_error =
    MValueError | MTypeError | MKeyError
  | MMalformed | MPlanningBlocked "plan_reason list" | MUnknownPlan | MStalePlan | MMigrationError
  | MApplyFailed bool | MRestoreFailed "string list" | MProviderError

section \<open>Data\<close>

datatype migration_state = PLANNED | APPLYING | COMPLETE | FAILED | BLOCKED

record document =
  doc_provider :: string
  doc_object :: string
  doc_revision :: revision
  doc_payload :: json
  doc_writable :: bool

definition document_ok :: "document \<Rightarrow> bool" where
  "document_ok d \<longleftrightarrow> doc_provider d \<noteq> [] \<and> doc_object d \<noteq> [] \<and> doc_revision d \<noteq> RStr []"

record subject =
  su_room_id :: string
  su_room_revision :: int
  su_old_entity_id :: string
  su_logical_unique_id :: string
  su_provider_targets :: "(string \<times> string) list"

record reference_scan =
  exact_paths :: "ref_path list"
  embedded :: "blocked_reference list"

record planned_document =
  pd_provider :: string
  pd_object :: string
  pd_revision :: revision
  pd_writable :: bool
  pd_fingerprint :: string
  pd_post_fingerprint :: string
  pd_exact_paths :: "ref_path list"

record journaled_original =
  jo_document :: document
  jo_post_fingerprint :: string

record migration_plan =
  mp_plan_id :: string
  mp_digest :: string
  mp_room_id :: string
  mp_room_revision :: int
  mp_old_entity_id :: string
  mp_logical_unique_id :: string
  mp_target_entity_id :: "string option"
  mp_provider_targets :: "(string \<times> string) list"
  mp_providers :: "string list"
  mp_references_expected :: bool
  mp_documents :: "planned_document list"
  mp_exact_replacements :: int

record migration_result =
  mr_plan_id :: string
  mr_digest :: string
  mr_state :: migration_state
  mr_changed_documents :: int
  mr_exact_replacements :: int
  mr_idempotent :: bool

record document_snapshot =
  ds_provider :: string
  ds_object :: string
  ds_revision :: revision
  ds_writable :: bool
  ds_fingerprint :: string

record completion_record =
  cr_result :: migration_result
  cr_documents :: "document_snapshot list"

record journaled_completion =
  jc_plan :: migration_plan
  jc_result :: migration_result
  jc_documents :: "document_snapshot list"

section \<open>Payloads\<close>

definition finite_repr :: "string \<Rightarrow> bool" where
  "finite_repr s \<longleftrightarrow> s \<noteq> ''nan'' \<and> s \<noteq> ''inf'' \<and> s \<noteq> ''-inf''"

fun valid_value :: "nat \<Rightarrow> json \<Rightarrow> bool" where
  "valid_value depth (JObj kvs) = (depth \<le> 100 \<and> list_all (\<lambda>(k, v). valid_value (depth + 1) v) kvs)"
| "valid_value depth (JArr vs) = (depth \<le> 100 \<and> list_all (valid_value (depth + 1)) vs)"
| "valid_value depth (JFloat s) = (depth \<le> 100 \<and> finite_repr s)"
| "valid_value depth _ = (depth \<le> 100)"

definition valid_payload :: "json \<Rightarrow> bool" where
  "valid_payload v \<longleftrightarrow> (case v of JObj _ \<Rightarrow> True | JArr _ \<Rightarrow> True | _ \<Rightarrow> False) \<and> valid_value 0 v"

definition payload_fingerprint :: "(string \<Rightarrow> string) \<Rightarrow> json \<Rightarrow> mig_error + string" where
  "payload_fingerprint H v = (if valid_payload v then Inr (H (dumps v)) else Inl MMalformed)"

definition document_fingerprint :: "(string \<Rightarrow> string) \<Rightarrow> document \<Rightarrow> mig_error + string" where
  "document_fingerprint H d = payload_fingerprint H (doc_payload d)"

definition scan_references ::
  "(string \<Rightarrow> template option) \<Rightarrow> json \<Rightarrow> string \<Rightarrow> string option \<Rightarrow> mig_error + reference_scan" where
  "scan_references parse v old provider =
     (if old = [] then Inl MValueError
      else if \<not> valid_payload v then Inl MMalformed
      else case scan_semantic_references parse v old provider of
          None \<Rightarrow> Inl MValueError
        | Some r \<Rightarrow> Inr \<lparr>exact_paths = replaceable_paths r, embedded = blocked_refs r\<rparr>)"

definition replace_exact_scalars ::
  "(string \<Rightarrow> template option) \<Rightarrow> json \<Rightarrow> string \<Rightarrow> string \<Rightarrow> string option \<Rightarrow> mig_error + json \<times> nat" where
  "replace_exact_scalars parse v old target provider =
     (if \<not> valid_payload v then Inl MMalformed
      else case replace_semantic_references parse v old target provider of
          None \<Rightarrow> Inl MValueError | Some r \<Rightarrow> Inr r)"

section \<open>Interfaces\<close>

text \<open>The methods of \<open>ReferenceProvider\<close>, \<open>ReferenceJournal\<close> and \<open>MigrationAuthority\<close> on a world \<open>'w\<close>.\<close>

record 'w ports =
  list_documents :: "string \<Rightarrow> ('w, mig_error, document list) action"
  get_document :: "string \<Rightarrow> string \<Rightarrow> ('w, mig_error, document) action"
  write_document :: "string \<Rightarrow> string \<Rightarrow> revision \<Rightarrow> json \<Rightarrow> ('w, mig_error, document) action"
  record_original :: "string \<Rightarrow> document \<Rightarrow> string \<Rightarrow> ('w, mig_error, unit) action"
  set_state :: "string \<Rightarrow> migration_state \<Rightarrow> ('w, mig_error, unit) action"
  incomplete_plan_ids :: "('w, mig_error, string list) action"
  originals_for :: "string \<Rightarrow> ('w, mig_error, journaled_original list) action"
  record_completion :: "journaled_completion \<Rightarrow> ('w, mig_error, unit) action"
  completed_plan_ids :: "('w, mig_error, string list) action"
  completion_for :: "string \<Rightarrow> ('w, mig_error, journaled_completion) action"
  resolve_subject :: "string \<Rightarrow> ('w, mig_error, subject) action"

text \<open>The fields of \<open>ReferenceMigrationCoordinator\<close>; \<open>co_blocked\<close> is \<open>blocked_reason is not None\<close>.\<close>

record coordinator =
  co_providers :: "string list"
  co_plans :: "(string, migration_plan) dict"
  co_states :: "(string, migration_state) dict"
  co_completed :: "(string, completion_record) dict"
  co_blocked :: bool

type_synonym 'w system = "coordinator \<times> 'w"

definition on_world :: "('w, mig_error, 'a) action \<Rightarrow> ('w system, mig_error, 'a) action" where
  "on_world m s = (case m (snd s) of (r, w) \<Rightarrow> (r, (fst s, w)))"

definition on_coordinator :: "(coordinator \<Rightarrow> coordinator) \<Rightarrow> ('w system, mig_error, unit) action" where
  "on_coordinator f s = (Inr (), (f (fst s), snd s))"

definition coordinator_state :: "string \<Rightarrow> migration_state \<Rightarrow> ('w system, mig_error, unit) action" where
  "coordinator_state plan_id st =
     on_coordinator (\<lambda>c. c\<lparr>co_states := dict_put (co_states c) plan_id st\<rparr>)"

definition coordinator_blocked :: "bool \<Rightarrow> ('w system, mig_error, unit) action" where
  "coordinator_blocked b = on_coordinator (\<lambda>c. c\<lparr>co_blocked := b\<rparr>)"

section \<open>Plan digests\<close>

definition canonical_path :: "ref_path \<Rightarrow> json" where
  "canonical_path p = JArr (map (\<lambda>part. case part of
      PIndex i \<Rightarrow> JObj [(''type'', JStr ''index''), (''value'', JInt (int i))]
    | PKey k \<Rightarrow> JObj [(''type'', JStr ''key''), (''value'', JStr k)]) p)"

definition planned_document_json :: "planned_document \<Rightarrow> json" where
  "planned_document_json d = JObj
     [(''provider'', JStr (pd_provider d)), (''object_id'', JStr (pd_object d)),
      (''revision'', encode_revision (pd_revision d)), (''writable'', JBool (pd_writable d)),
      (''fingerprint'', JStr (pd_fingerprint d)), (''post_fingerprint'', JStr (pd_post_fingerprint d)),
      (''exact_paths'', JArr (map canonical_path (pd_exact_paths d)))]"

text \<open>The digested content of a plan; a dictionary keeps the last entry of a repeated key.\<close>

definition dict_of :: "(string \<times> string) list \<Rightarrow> (string \<times> string) list" where
  "dict_of ps = foldl (\<lambda>d (k, v). dict_put d k v) [] ps"

definition plan_digest_json ::
  "string \<Rightarrow> int \<Rightarrow> string \<Rightarrow> string \<Rightarrow> string option \<Rightarrow> (string \<times> string) list \<Rightarrow> string list \<Rightarrow> bool
   \<Rightarrow> planned_document list \<Rightarrow> json" where
  "plan_digest_json room_id room_revision old logical target targets providers expected documents = JObj
     [(''schema'', JInt 1), (''room_id'', JStr room_id), (''room_revision'', JInt room_revision),
      (''old_entity_id'', JStr old), (''logical_unique_id'', JStr logical),
      (''target_entity_id'', case target of None \<Rightarrow> JNull | Some t \<Rightarrow> JStr t),
      (''provider_targets'', JObj (map (\<lambda>(k, v). (k, JStr v)) targets)),
      (''providers'', JArr (map JStr providers)), (''references_expected'', JBool expected),
      (''documents'', JArr (map planned_document_json documents))]"

section \<open>Validation of a plan request\<close>

definition climate_entity :: "string \<Rightarrow> bool" where
  "climate_entity s \<longleftrightarrow> starts_with ''climate.'' s \<and> drop 8 s \<noteq> [] \<and> list_all word_char (drop 8 s)"

definition logical_id :: "string \<Rightarrow> bool" where
  "logical_id s \<longleftrightarrow> starts_with ''logical_valve_'' s \<and> drop 14 s \<noteq> [] \<and> list_all word_char (drop 14 s)"

record plan_request =
  rq_room_id :: string
  rq_room_revision :: int
  rq_old :: string
  rq_logical :: string
  rq_target :: "string option"
  rq_targets :: "(string \<times> string) list option"
  rq_required :: "string list"
  rq_expected :: bool

definition sorted_set :: "string list \<Rightarrow> string list" where
  "sorted_set xs = sort (remdups xs)"

definition reason_if :: "bool \<Rightarrow> plan_reason \<Rightarrow> plan_reason list" where
  "reason_if b r = (if b then [r] else [])"

definition target_reasons :: "plan_request \<Rightarrow> plan_reason list" where
  "target_reasons q = (case rq_targets q of
     None \<Rightarrow>
       (case rq_target q of None \<Rightarrow> [TargetMalformed]
        | Some t \<Rightarrow> if \<not> climate_entity t then [TargetMalformed]
                    else reason_if (rq_old q = t) TargetSameAsOld)
   | Some targets \<Rightarrow>
       reason_if (rq_target q \<noteq> None) BothTargets
       @ reason_if (set (map fst targets) \<noteq> set (rq_required q)) TargetsNotExact
       @ concat (map (\<lambda>(provider, target).
           if \<not> climate_entity target then [ProviderTargetMalformed provider]
           else reason_if (target = rq_old q) (ProviderTargetUnsafe provider)) targets))"

definition validate_plan_request :: "string list \<Rightarrow> plan_request \<Rightarrow> plan_reason list" where
  "validate_plan_request configured q =
     (let fields = reason_if (rq_room_id q = []) RoomIdRequired @ reason_if (rq_old q = []) OldEntityRequired
        @ reason_if (rq_logical q = []) LogicalIdRequired
        @ reason_if (rq_room_revision q < 0) NegativeRoomRevision
      in if rq_required q = [] then fields @ [NoRequiredProviders]
         else if list_ex (\<lambda>n. n = []) (rq_required q) then fields @ [EmptyProviderName]
         else
           (let missing = sorted_set (filter (\<lambda>n. n \<notin> set configured) (rq_required q));
                omitted = sorted_set (filter (\<lambda>n. n \<notin> set (rq_required q)) configured)
            in fields @ reason_if (missing \<noteq> []) (MissingProviders missing)
               @ reason_if (omitted \<noteq> []) (OmittedProviders omitted)
               @ reason_if (rq_old q \<noteq> [] \<and> \<not> climate_entity (rq_old q)) OldEntityMalformed
               @ reason_if (rq_logical q \<noteq> [] \<and> \<not> logical_id (rq_logical q)) LogicalIdMalformed
               @ target_reasons q))"

text \<open>\<open>_normalize_provider_targets\<close>: a dictionary in the order of the provider names.\<close>

definition normalize_provider_targets ::
  "string list \<Rightarrow> string option \<Rightarrow> (string \<times> string) list option \<Rightarrow> mig_error + (string \<times> string) list" where
  "normalize_provider_targets names target targets = (case targets of
     Some ts \<Rightarrow> if list_all (\<lambda>n. map_of ts n \<noteq> None) names
       then Inr (map (\<lambda>n. (n, the (map_of ts n))) names) else Inl MKeyError
   | None \<Rightarrow> (case target of None \<Rightarrow> Inl (MPlanningBlocked [TargetRequired])
       | Some t \<Rightarrow> Inr (map (\<lambda>n. (n, t)) names)))"

section \<open>Creating a plan\<close>

record plan_acc =
  pa_reasons :: "plan_reason list"
  pa_seen :: "(string \<times> string) list"
  pa_documents :: "planned_document list"
  pa_exact :: int

definition add_reason :: "plan_reason \<Rightarrow> plan_acc \<Rightarrow> plan_acc" where
  "add_reason r acc = acc\<lparr>pa_reasons := pa_reasons acc @ [r]\<rparr>"

text \<open>One listed document: the reasons it adds and its entry in the plan.\<close>

definition plan_document ::
  "(string \<Rightarrow> template option) \<Rightarrow> (string \<Rightarrow> string) \<Rightarrow> string \<Rightarrow> (string \<times> string) list \<Rightarrow> string
   \<Rightarrow> document \<Rightarrow> plan_acc \<Rightarrow> mig_error + plan_acc" where
  "plan_document parse H old targets provider d acc =
     (let object = doc_object d; key = (provider, object) in
      if doc_provider d \<noteq> provider then Inr (add_reason (WrongProvider object) acc)
      else if key \<in> set (pa_seen acc) then Inr (add_reason (DuplicateObject provider object) acc)
      else let acc = acc\<lparr>pa_seen := pa_seen acc @ [key]\<rparr> in
        (case document_fingerprint H d of
           Inl e \<Rightarrow> if e = MMalformed then Inr (add_reason (MalformedDocument provider object) acc) else Inl e
         | Inr fingerprint \<Rightarrow>
        (case scan_references parse (doc_payload d) old (Some provider) of
           Inl e \<Rightarrow> if e = MMalformed then Inr (add_reason (MalformedDocument provider object) acc) else Inl e
         | Inr scan \<Rightarrow>
           let reasons = reason_if (\<not> doc_writable d) (NotWritable provider object)
             @ reason_if (embedded scan \<noteq> []) (EmbeddedReferences provider object (map br_path (embedded scan)))
           in (case map_of targets provider of None \<Rightarrow> Inl MKeyError
             | Some target \<Rightarrow>
               (case replace_exact_scalars parse (doc_payload d) old target (Some provider) of
                  Inl e \<Rightarrow> Inl e
                | Inr (replaced, count) \<Rightarrow>
                  (case payload_fingerprint H replaced of
                     Inl e \<Rightarrow> Inl e
                   | Inr post \<Rightarrow> Inr (acc\<lparr>pa_reasons := pa_reasons acc @ reasons,
                       pa_exact := pa_exact acc + int count,
                       pa_documents := pa_documents acc @
                         [\<lparr>pd_provider = provider, pd_object = object, pd_revision = doc_revision d,
                           pd_writable = doc_writable d, pd_fingerprint = fingerprint,
                           pd_post_fingerprint = post, pd_exact_paths = exact_paths scan\<rparr>]\<rparr>)))))))"

definition plan_provider ::
  "'w ports \<Rightarrow> (string \<Rightarrow> template option) \<Rightarrow> (string \<Rightarrow> string) \<Rightarrow> string \<Rightarrow> (string \<times> string) list
   \<Rightarrow> string \<Rightarrow> plan_acc \<Rightarrow> ('w system, mig_error, plan_acc) action" where
  "plan_provider P parse H old targets provider acc =
     andthen (attempt (on_world (list_documents P provider))) (\<lambda>listed. case listed of
       Inl e \<Rightarrow> ret (add_reason (ProviderNotEnumerated provider) acc)
     | Inr documents \<Rightarrow> fold_action (\<lambda>d acc. from_sum (plan_document parse H old targets provider d acc))
         (sort_key doc_object documents) acc)"

definition build_plan ::
  "(string \<Rightarrow> string) \<Rightarrow> plan_request \<Rightarrow> (string \<times> string) list \<Rightarrow> string list \<Rightarrow> plan_acc \<Rightarrow> migration_plan" where
  "build_plan H q targets names acc =
     (let documents = sort_key (\<lambda>d. (pd_provider d, pd_object d)) (pa_documents acc);
          digest = H (dumps (plan_digest_json (rq_room_id q) (rq_room_revision q) (rq_old q) (rq_logical q)
            (rq_target q) targets names (rq_expected q) documents))
      in \<lparr>mp_plan_id = plan_id_of H digest, mp_digest = digest, mp_room_id = rq_room_id q,
          mp_room_revision = rq_room_revision q, mp_old_entity_id = rq_old q,
          mp_logical_unique_id = rq_logical q, mp_target_entity_id = rq_target q,
          mp_provider_targets = sort targets, mp_providers = names,
          mp_references_expected = rq_expected q, mp_documents = documents,
          mp_exact_replacements = pa_exact acc\<rparr>)"

definition issue_plan :: "'w ports \<Rightarrow> migration_plan \<Rightarrow> ('w system, mig_error, migration_plan) action" where
  "issue_plan P plan = andthen (reads fst) (\<lambda>c.
     let plan_id = mp_plan_id plan in
     case map_of (co_plans c) plan_id of
       Some existing \<Rightarrow> if existing \<noteq> plan then throw MMigrationError else ret existing
     | None \<Rightarrow>
         andthen (on_coordinator (\<lambda>c. c\<lparr>co_plans := dict_put (co_plans c) plan_id plan,
           co_states := (if map_of (co_states c) plan_id = None then dict_put (co_states c) plan_id PLANNED
                         else co_states c)\<rparr>)) (\<lambda>_.
         andthen (on_world (set_state P plan_id PLANNED)) (\<lambda>_. ret plan)))"

definition requested_subject :: "plan_request \<Rightarrow> (string \<times> string) list \<Rightarrow> subject" where
  "requested_subject q targets = \<lparr>su_room_id = rq_room_id q, su_room_revision = rq_room_revision q,
     su_old_entity_id = rq_old q, su_logical_unique_id = rq_logical q, su_provider_targets = sort targets\<rparr>"

definition create_plan ::
  "'w ports \<Rightarrow> (string \<Rightarrow> template option) \<Rightarrow> (string \<Rightarrow> string) \<Rightarrow> plan_request
   \<Rightarrow> ('w system, mig_error, migration_plan) action" where
  "create_plan P parse H q = andthen (reads fst) (\<lambda>c.
     if co_blocked c then throw (MPlanningBlocked [CoordinatorBlocked])
     else let reasons = validate_plan_request (co_providers c) q; names = sorted_set (rq_required q) in
     if reasons \<noteq> [] then throw (MPlanningBlocked reasons)
     else andthen (from_sum (normalize_provider_targets names (rq_target q) (rq_targets q))) (\<lambda>targets.
       andthen (handle (on_world (resolve_subject P (rq_room_id q)))
         (\<lambda>e. throw (MPlanningBlocked [AuthorityUnavailable]))) (\<lambda>current.
       if current \<noteq> requested_subject q targets then throw (MPlanningBlocked [SubjectMismatch])
       else andthen (fold_action (plan_provider P parse H (rq_old q) targets) names
         \<lparr>pa_reasons = [], pa_seen = [], pa_documents = [], pa_exact = 0\<rparr>) (\<lambda>acc.
       let reasons = pa_reasons acc @ reason_if (rq_expected q \<and> pa_exact acc = 0) NoReferencesFound in
       if reasons \<noteq> [] then throw (MPlanningBlocked reasons)
       else issue_plan P (build_plan H q targets names acc)))))"

section \<open>Reading the providers\<close>

type_synonym doc_key = "string \<times> string"
type_synonym inventory = "(doc_key, document) dict"

definition doc_key :: "document \<Rightarrow> doc_key" where
  "doc_key d = (doc_provider d, doc_object d)"

definition pd_key :: "planned_document \<Rightarrow> doc_key" where
  "pd_key d = (pd_provider d, pd_object d)"

definition fetch_document ::
  "'w ports \<Rightarrow> (string \<Rightarrow> string) \<Rightarrow> string \<Rightarrow> document \<Rightarrow> inventory \<Rightarrow> ('w system, mig_error, inventory) action" where
  "fetch_document P H provider listed inventory =
     andthen (on_world (get_document P provider (doc_object listed))) (\<lambda>d.
     if doc_provider d \<noteq> provider then throw MStalePlan
     else if map_of inventory (provider, doc_object d) \<noteq> None then throw MStalePlan
     else andthen (from_sum (document_fingerprint H d)) (\<lambda>_.
       ret (dict_put inventory (provider, doc_object d) d)))"

definition fetch_provider ::
  "'w ports \<Rightarrow> (string \<Rightarrow> string) \<Rightarrow> string \<Rightarrow> inventory \<Rightarrow> ('w system, mig_error, inventory) action" where
  "fetch_provider P H provider inventory = andthen (reads fst) (\<lambda>c.
     if provider \<notin> set (co_providers c) then throw MStalePlan
     else andthen (on_world (list_documents P provider)) (\<lambda>documents.
       fold_action (fetch_document P H provider) documents inventory))"

definition fetch_inventory ::
  "'w ports \<Rightarrow> (string \<Rightarrow> string) \<Rightarrow> string list \<Rightarrow> ('w system, mig_error, inventory) action" where
  "fetch_inventory P H names = fold_action (fetch_provider P H) names []"

definition assert_authority :: "'w ports \<Rightarrow> migration_plan \<Rightarrow> ('w system, mig_error, unit) action" where
  "assert_authority P plan =
     andthen (handle (on_world (resolve_subject P (mp_room_id plan))) (\<lambda>e. throw MStalePlan)) (\<lambda>current.
     check (current = \<lparr>su_room_id = mp_room_id plan, su_room_revision = mp_room_revision plan,
       su_old_entity_id = mp_old_entity_id plan, su_logical_unique_id = mp_logical_unique_id plan,
       su_provider_targets = mp_provider_targets plan\<rparr>) MStalePlan)"

text \<open>The dictionary \<open>planned\<close> of the planned documents by key.\<close>

definition planned_dict :: "migration_plan \<Rightarrow> (doc_key, planned_document) dict" where
  "planned_dict plan = foldl (\<lambda>d pd. dict_put d (pd_key pd) pd) [] (mp_documents plan)"

definition same_keys :: "inventory \<Rightarrow> (doc_key, 'a) dict \<Rightarrow> bool" where
  "same_keys inventory d \<longleftrightarrow> set (map fst inventory) = set (map fst d)"

section \<open>Preflight and verification\<close>

definition preflight_document ::
  "(string \<Rightarrow> template option) \<Rightarrow> (string \<Rightarrow> string) \<Rightarrow> migration_plan \<Rightarrow> inventory
   \<Rightarrow> doc_key \<times> planned_document \<Rightarrow> mig_error + int" where
  "preflight_document parse H plan inventory p = (case p of (key, pd) \<Rightarrow>
     (case map_of inventory key of None \<Rightarrow> Inl MKeyError
      | Some current \<Rightarrow>
        (case document_fingerprint H current of Inl e \<Rightarrow> Inl e
         | Inr fingerprint \<Rightarrow>
           if doc_revision current \<noteq> pd_revision pd then Inl MStalePlan
           else if fingerprint \<noteq> pd_fingerprint pd then Inl MStalePlan
           else if \<not> doc_writable current \<or> doc_writable current \<noteq> pd_writable pd then Inl MStalePlan
           else (case scan_references parse (doc_payload current) (mp_old_entity_id plan)
                   (Some (doc_provider current)) of
               Inl e \<Rightarrow> Inl e
             | Inr scan \<Rightarrow>
               if embedded scan \<noteq> [] then Inl MStalePlan
               else if exact_paths scan \<noteq> pd_exact_paths pd then Inl MStalePlan
               else Inr (int (length (exact_paths scan)))))))"

definition assert_preflight ::
  "(string \<Rightarrow> template option) \<Rightarrow> (string \<Rightarrow> string) \<Rightarrow> migration_plan \<Rightarrow> inventory \<Rightarrow> mig_error + unit" where
  "assert_preflight parse H plan inventory =
     (if \<not> same_keys inventory (planned_dict plan) then Inl MStalePlan
      else case sum_all (map (preflight_document parse H plan inventory) (planned_dict plan)) of
          Inl e \<Rightarrow> Inl e
        | Inr counts \<Rightarrow>
          if sum_list counts \<noteq> mp_exact_replacements plan then Inl MStalePlan
          else if mp_references_expected plan \<and> sum_list counts = 0 then Inl MStalePlan
          else Inr ())"

definition post_apply_document ::
  "(string \<Rightarrow> template option) \<Rightarrow> (string \<Rightarrow> string) \<Rightarrow> migration_plan \<Rightarrow> inventory
   \<Rightarrow> doc_key \<times> planned_document \<Rightarrow> mig_error + unit" where
  "post_apply_document parse H plan inventory p = (case p of (key, pd) \<Rightarrow>
     (case map_of inventory key of None \<Rightarrow> Inl MKeyError
      | Some current \<Rightarrow>
        if \<not> doc_writable current then Inl MMigrationError
        else (case document_fingerprint H current of Inl e \<Rightarrow> Inl e
         | Inr fingerprint \<Rightarrow>
           if fingerprint \<noteq> pd_post_fingerprint pd then Inl MMigrationError
           else (case scan_references parse (doc_payload current) (mp_old_entity_id plan)
                   (Some (doc_provider current)) of
               Inl e \<Rightarrow> Inl e
             | Inr scan \<Rightarrow> if exact_paths scan \<noteq> [] \<or> embedded scan \<noteq> [] then Inl MMigrationError
                           else Inr ()))))"

definition assert_post_apply ::
  "(string \<Rightarrow> template option) \<Rightarrow> (string \<Rightarrow> string) \<Rightarrow> migration_plan \<Rightarrow> inventory \<Rightarrow> mig_error + unit" where
  "assert_post_apply parse H plan inventory =
     (if \<not> same_keys inventory (planned_dict plan) then Inl MMigrationError
      else case sum_all (map (post_apply_document parse H plan inventory) (planned_dict plan)) of
          Inl e \<Rightarrow> Inl e | Inr _ \<Rightarrow> Inr ())"

definition snapshot :: "(string \<Rightarrow> string) \<Rightarrow> document \<Rightarrow> mig_error + document_snapshot" where
  "snapshot H d = (case document_fingerprint H d of Inl e \<Rightarrow> Inl e
     | Inr fingerprint \<Rightarrow> Inr \<lparr>ds_provider = doc_provider d, ds_object = doc_object d,
         ds_revision = doc_revision d, ds_writable = doc_writable d, ds_fingerprint = fingerprint\<rparr>)"

definition snapshots :: "(string \<Rightarrow> string) \<Rightarrow> inventory \<Rightarrow> mig_error + document_snapshot list" where
  "snapshots H inventory = sum_all (map (\<lambda>(key, d). snapshot H d) (sort_key fst inventory))"

section \<open>Restoring\<close>

type_synonym attempted = "(document \<times> string) list"

definition doc_label :: "doc_key \<Rightarrow> string" where
  "doc_label key = fst key @ ''/'' @ snd key"

text \<open>The body of the \<open>try\<close> for one attempted document.\<close>

definition restore_document ::
  "'w ports \<Rightarrow> (string \<Rightarrow> string) \<Rightarrow> document \<Rightarrow> string \<Rightarrow> ('w system, mig_error, unit) action" where
  "restore_document P H original post =
     (let provider = doc_provider original; object = doc_object original in
      andthen (on_world (get_document P provider object)) (\<lambda>current.
      andthen (from_sum (document_fingerprint H current)) (\<lambda>current_fingerprint.
      andthen (from_sum (document_fingerprint H original)) (\<lambda>original_fingerprint.
      andthen
        (if current_fingerprint = post
         then andthen (on_world (write_document P provider object (doc_revision current) (doc_payload original)))
           (\<lambda>_. ret ())
         else check (current_fingerprint = original_fingerprint) MMigrationError) (\<lambda>_.
      andthen (on_world (get_document P provider object)) (\<lambda>restored.
      andthen (from_sum (document_fingerprint H restored)) (\<lambda>restored_fingerprint.
      check (restored_fingerprint = original_fingerprint) MMigrationError)))))))"

text \<open>\<open>for ... in reversed(attempted)\<close>, collecting the labels of the documents that failed.\<close>

fun restore_attempted ::
  "'w ports \<Rightarrow> (string \<Rightarrow> string) \<Rightarrow> attempted \<Rightarrow> string list \<Rightarrow> ('w system, mig_error, string list) action" where
  "restore_attempted P H [] failures = ret failures"
| "restore_attempted P H ((original, post) # rest) failures = andthen (reads fst) (\<lambda>c.
     if doc_provider original \<notin> set (co_providers c) then throw MKeyError
     else andthen (attempt (restore_document P H original post)) (\<lambda>r.
       restore_attempted P H rest
         (failures @ (case r of Inl e \<Rightarrow> [doc_label (doc_key original)] | Inr _ \<Rightarrow> []))))"

definition differs ::
  "(string \<Rightarrow> string) \<Rightarrow> document \<Rightarrow> document \<Rightarrow> mig_error + bool" where
  "differs H current original =
     (case document_fingerprint H current of Inl e \<Rightarrow> Inl e
      | Inr a \<Rightarrow> (case document_fingerprint H original of Inl e \<Rightarrow> Inl e
        | Inr b \<Rightarrow> Inr (a \<noteq> b \<or> doc_writable current \<noteq> doc_writable original)))"

text \<open>
  The check of the whole inventory against the originals. An exception adds one more failure, after
  those the loop had already found; \<open>Inr\<close> is the list the loop built, \<open>Inl\<close> what it had when it raised.
\<close>

fun compare_inventory ::
  "(string \<Rightarrow> string) \<Rightarrow> inventory \<Rightarrow> (doc_key \<times> document) list \<Rightarrow> string list \<Rightarrow> string list" where
  "compare_inventory H current [] failures = failures"
| "compare_inventory H current ((key, original) # rest) failures =
     (case map_of current key of None \<Rightarrow> failures @ [''provider inventory'']
      | Some d \<Rightarrow> (case differs H d original of Inl e \<Rightarrow> failures @ [''provider inventory'']
        | Inr different \<Rightarrow> compare_inventory H current rest
            (failures @ (if different then [doc_label key] else []))))"

definition verify_inventory ::
  "'w ports \<Rightarrow> (string \<Rightarrow> string) \<Rightarrow> inventory \<Rightarrow> string list \<Rightarrow> ('w system, mig_error, string list) action" where
  "verify_inventory P H originals failures =
     andthen (attempt (fetch_inventory P H (sorted_set (map (\<lambda>(key, d). fst key) originals)))) (\<lambda>r.
     case r of Inl e \<Rightarrow> ret (failures @ [''provider inventory''])
     | Inr current \<Rightarrow>
       ret (if \<not> same_keys current originals then failures @ [''provider inventory'']
            else compare_inventory H current originals failures))"

fun verify_documents ::
  "'w ports \<Rightarrow> (string \<Rightarrow> string) \<Rightarrow> (doc_key \<times> document) list \<Rightarrow> string list
   \<Rightarrow> ('w system, mig_error, string list) action" where
  "verify_documents P H [] failures = ret failures"
| "verify_documents P H ((key, original) # rest) failures = andthen (reads fst) (\<lambda>c.
     andthen (attempt (andthen (check (fst key \<in> set (co_providers c)) MKeyError) (\<lambda>_.
       andthen (on_world (get_document P (fst key) (snd key))) (\<lambda>current.
       andthen (from_sum (differs H current original)) (\<lambda>different.
       check (\<not> different) MMigrationError))))) (\<lambda>r.
     verify_documents P H rest (failures @ (case r of Inl e \<Rightarrow> [doc_label key] | Inr _ \<Rightarrow> []))))"

text \<open>\<open>tuple(dict.fromkeys(failures))\<close>.\<close>

definition first_occurrences :: "'a list \<Rightarrow> 'a list" where
  "first_occurrences xs = rev (remdups (rev xs))"

definition restore_originals ::
  "'w ports \<Rightarrow> (string \<Rightarrow> string) \<Rightarrow> attempted \<Rightarrow> inventory \<Rightarrow> bool
   \<Rightarrow> ('w system, mig_error, string list) action" where
  "restore_originals P H attempted originals verify_full_inventory =
     andthen (restore_attempted P H (rev attempted) []) (\<lambda>failures.
     andthen (if verify_full_inventory then verify_inventory P H originals failures
              else verify_documents P H originals failures) (\<lambda>failures.
     ret (first_occurrences failures)))"

section \<open>Applying a plan\<close>

definition planned_post :: "migration_plan \<Rightarrow> document \<Rightarrow> planned_document option" where
  "planned_post plan original = List.find (\<lambda>pd. pd_key pd = doc_key original) (mp_documents plan)"

definition preflight ::
  "'w ports \<Rightarrow> (string \<Rightarrow> template option) \<Rightarrow> (string \<Rightarrow> string) \<Rightarrow> migration_plan
   \<Rightarrow> ('w system, mig_error, inventory) action" where
  "preflight P parse H plan =
     andthen (assert_authority P plan) (\<lambda>_.
     andthen (fetch_inventory P H (mp_providers plan)) (\<lambda>originals.
     andthen (from_sum (assert_preflight parse H plan originals)) (\<lambda>_. ret originals)))"

text \<open>The body of the loop that computes the replacement of one planned document.\<close>

definition planned_change ::
  "(string \<Rightarrow> template option) \<Rightarrow> migration_plan \<Rightarrow> inventory \<Rightarrow> planned_document
   \<Rightarrow> (document \<times> json) list \<Rightarrow> ('w system, mig_error, (document \<times> json) list) action" where
  "planned_change parse plan originals pd changes =
     (if pd_exact_paths pd = [] then ret changes
      else case map_of originals (pd_key pd) of None \<Rightarrow> throw MKeyError
      | Some original \<Rightarrow>
        (case map_of (rev (mp_provider_targets plan)) (pd_provider pd) of None \<Rightarrow> throw MKeyError
         | Some target \<Rightarrow>
           andthen (from_sum (replace_exact_scalars parse (doc_payload original) (mp_old_entity_id plan) target
               (Some (pd_provider pd)))) (\<lambda>(payload, count).
           if count \<noteq> length (pd_exact_paths pd)
           then andthen (coordinator_state (mp_plan_id plan) BLOCKED) (\<lambda>_. throw MStalePlan)
           else ret (changes @ [(original, payload)]))))"

definition planned_changes ::
  "(string \<Rightarrow> template option) \<Rightarrow> migration_plan \<Rightarrow> inventory
   \<Rightarrow> ('w system, mig_error, (document \<times> json) list) action" where
  "planned_changes parse plan originals = fold_action (planned_change parse plan originals) (mp_documents plan) []"

definition journal_original ::
  "'w ports \<Rightarrow> migration_plan \<Rightarrow> document \<times> json \<Rightarrow> unit \<Rightarrow> ('w system, mig_error, unit) action" where
  "journal_original P plan change _ = (case planned_post plan (fst change) of
     None \<Rightarrow> throw MProviderError
   | Some pd \<Rightarrow> on_world (record_original P (mp_plan_id plan) (fst change) (pd_post_fingerprint pd)))"

text \<open>
  One write. The result carries the exception, if any, and what the write adds to \<open>attempted\<close>: after
  a raising write the document counts as attempted when its current content is the postimage.
\<close>

definition read_fingerprint ::
  "'w ports \<Rightarrow> (string \<Rightarrow> string) \<Rightarrow> document \<Rightarrow> ('w system, mig_error, string) action" where
  "read_fingerprint P H original =
     andthen (on_world (get_document P (doc_provider original) (doc_object original))) (\<lambda>current.
     from_sum (document_fingerprint H current))"

definition write_change ::
  "'w ports \<Rightarrow> (string \<Rightarrow> string) \<Rightarrow> migration_plan \<Rightarrow> document \<times> json
   \<Rightarrow> ('w system, mig_error, (mig_error + unit) \<times> attempted) action" where
  "write_change P H plan change = (case change of (original, payload) \<Rightarrow>
     andthen (reads fst) (\<lambda>c.
     if doc_provider original \<notin> set (co_providers c) then ret (Inl MKeyError, [])
     else case planned_post plan original of None \<Rightarrow> ret (Inl MProviderError, [])
     | Some pd \<Rightarrow>
       andthen (attempt (on_world (write_document P (doc_provider original) (doc_object original)
           (doc_revision original) payload))) (\<lambda>written.
       andthen (attempt (read_fingerprint P H original)) (\<lambda>current.
       ret (case current of
           Inl e \<Rightarrow> (Inl e, [])
         | Inr fingerprint \<Rightarrow>
           let post = pd_post_fingerprint pd;
               extra = (if fingerprint = post then [(original, post)] else [])
           in (case written of
               Inl e \<Rightarrow> (Inl e, extra)
             | Inr _ \<Rightarrow> (if fingerprint \<noteq> post then Inl MMigrationError else Inr (), extra)))))))"

fun write_changes ::
  "'w ports \<Rightarrow> (string \<Rightarrow> string) \<Rightarrow> migration_plan \<Rightarrow> (document \<times> json) list \<Rightarrow> attempted
   \<Rightarrow> ('w system, mig_error, (mig_error + unit) \<times> attempted) action" where
  "write_changes P H plan [] attempted = ret (Inr (), attempted)"
| "write_changes P H plan (change # changes) attempted =
     andthen (write_change P H plan change) (\<lambda>(r, extra). case r of
       Inl e \<Rightarrow> ret (Inl e, attempted @ extra)
     | Inr _ \<Rightarrow> write_changes P H plan changes (attempted @ extra))"

definition verify_applied ::
  "'w ports \<Rightarrow> (string \<Rightarrow> template option) \<Rightarrow> (string \<Rightarrow> string) \<Rightarrow> migration_plan
   \<Rightarrow> ('w system, mig_error, inventory) action" where
  "verify_applied P parse H plan =
     andthen (fetch_inventory P H (mp_providers plan)) (\<lambda>final.
     andthen (from_sum (assert_post_apply parse H plan final)) (\<lambda>_.
     andthen (assert_authority P plan) (\<lambda>_. ret final)))"

text \<open>The handler of a failed application: restore, and block the coordinator where that fails.\<close>

definition undo_apply ::
  "'w ports \<Rightarrow> (string \<Rightarrow> string) \<Rightarrow> migration_plan \<Rightarrow> inventory \<Rightarrow> attempted \<Rightarrow> ('w system, mig_error, 'a) action" where
  "undo_apply P H plan originals attempted =
     andthen (restore_originals P H attempted originals True) (\<lambda>failures.
     if failures \<noteq> [] then
       andthen (coordinator_state (mp_plan_id plan) BLOCKED) (\<lambda>_.
       andthen (coordinator_blocked True) (\<lambda>_.
       andthen (on_world (set_state P (mp_plan_id plan) BLOCKED)) (\<lambda>_.
       throw (MRestoreFailed failures))))
     else
       andthen (coordinator_state (mp_plan_id plan) FAILED) (\<lambda>_.
       andthen (on_world (set_state P (mp_plan_id plan) FAILED)) (\<lambda>_.
       throw (MApplyFailed (attempted \<noteq> [])))))"

definition apply_result :: "migration_plan \<Rightarrow> (document \<times> json) list \<Rightarrow> migration_result" where
  "apply_result plan changes = \<lparr>mr_plan_id = mp_plan_id plan, mr_digest = mp_digest plan, mr_state = COMPLETE,
     mr_changed_documents = int (length changes), mr_exact_replacements = mp_exact_replacements plan,
     mr_idempotent = False\<rparr>"

definition complete_apply ::
  "'w ports \<Rightarrow> (string \<Rightarrow> string) \<Rightarrow> migration_plan \<Rightarrow> (document \<times> json) list \<Rightarrow> inventory
   \<Rightarrow> ('w system, mig_error, migration_result) action" where
  "complete_apply P H plan changes final =
     (let result = apply_result plan changes; plan_id = mp_plan_id plan in
      andthen (from_sum (snapshots H final)) (\<lambda>documents.
      andthen (handle
        (andthen (on_world (record_completion P
            \<lparr>jc_plan = plan, jc_result = result, jc_documents = documents\<rparr>)) (\<lambda>_.
          on_world (set_state P plan_id COMPLETE)))
        (\<lambda>e. andthen (coordinator_state plan_id BLOCKED) (\<lambda>_.
          andthen (coordinator_blocked True) (\<lambda>_.
          andthen (attempt (on_world (set_state P plan_id BLOCKED))) (\<lambda>_.
          throw (MRestoreFailed [])))))) (\<lambda>_.
      andthen (on_coordinator (\<lambda>c. c\<lparr>co_completed := dict_put (co_completed c) plan_id
          \<lparr>cr_result = result, cr_documents = documents\<rparr>\<rparr>)) (\<lambda>_.
      andthen (coordinator_state plan_id COMPLETE) (\<lambda>_. ret result)))))"

definition run_plan ::
  "'w ports \<Rightarrow> (string \<Rightarrow> template option) \<Rightarrow> (string \<Rightarrow> string) \<Rightarrow> migration_plan
   \<Rightarrow> ('w system, mig_error, migration_result) action" where
  "run_plan P parse H plan =
     (let plan_id = mp_plan_id plan in
      andthen (handle (preflight P parse H plan) (\<lambda>e.
        andthen (coordinator_state plan_id BLOCKED) (\<lambda>_.
        andthen (on_world (set_state P plan_id FAILED)) (\<lambda>_. throw MStalePlan)))) (\<lambda>originals.
      andthen (planned_changes parse plan originals) (\<lambda>changes.
      andthen (coordinator_state plan_id APPLYING) (\<lambda>_.
      andthen (on_world (set_state P plan_id APPLYING)) (\<lambda>_.
      andthen (handle (fold_action (journal_original P plan) changes ()) (\<lambda>e.
        andthen (coordinator_state plan_id FAILED) (\<lambda>_.
        andthen (on_world (set_state P plan_id FAILED)) (\<lambda>_. throw (MApplyFailed False))))) (\<lambda>_.
      andthen (write_changes P H plan changes []) (\<lambda>(r, attempted). case r of
        Inl e \<Rightarrow> undo_apply P H plan originals attempted
      | Inr _ \<Rightarrow>
        andthen (attempt (verify_applied P parse H plan)) (\<lambda>verified. case verified of
          Inl e \<Rightarrow> undo_apply P H plan originals attempted
        | Inr final \<Rightarrow> complete_apply P H plan changes final))))))))"

definition replay_completed ::
  "'w ports \<Rightarrow> (string \<Rightarrow> template option) \<Rightarrow> (string \<Rightarrow> string) \<Rightarrow> migration_plan
   \<Rightarrow> ('w system, mig_error, migration_result) action" where
  "replay_completed P parse H plan = andthen (reads fst) (\<lambda>c.
     case map_of (co_completed c) (mp_plan_id plan) of None \<Rightarrow> throw MKeyError
     | Some completion \<Rightarrow>
       andthen (handle
         (andthen (assert_authority P plan) (\<lambda>_.
          andthen (fetch_inventory P H (mp_providers plan)) (\<lambda>inventory.
          andthen (from_sum (snapshots H inventory)) (\<lambda>current.
          andthen (check (current = cr_documents completion) MStalePlan) (\<lambda>_.
          from_sum (assert_post_apply parse H plan inventory))))))
         (\<lambda>e. andthen (coordinator_state (mp_plan_id plan) BLOCKED) (\<lambda>_. throw MStalePlan))) (\<lambda>_.
       ret ((cr_result completion)\<lparr>mr_idempotent := True\<rparr>)))"

definition apply_plan ::
  "'w ports \<Rightarrow> (string \<Rightarrow> template option) \<Rightarrow> (string \<Rightarrow> string) \<Rightarrow> string \<Rightarrow> string
   \<Rightarrow> ('w system, mig_error, migration_result) action" where
  "apply_plan P parse H plan_id digest = andthen (reads fst) (\<lambda>c.
     case map_of (co_plans c) plan_id of None \<Rightarrow> throw MUnknownPlan
     | Some plan \<Rightarrow>
       if mp_digest plan \<noteq> digest then throw MUnknownPlan
       else if co_blocked c then throw (MRestoreFailed [])
       else case map_of (co_states c) plan_id of
           None \<Rightarrow> throw MKeyError
         | Some APPLYING \<Rightarrow> throw MMigrationError
         | Some BLOCKED \<Rightarrow> throw MStalePlan
         | Some COMPLETE \<Rightarrow> replay_completed P parse H plan
         | Some _ \<Rightarrow> run_plan P parse H plan)"

section \<open>Recovery\<close>

text \<open>The loop of \<open>recover_incomplete\<close> that reads the journaled originals.\<close>

definition load_original ::
  "(string \<Rightarrow> string) \<Rightarrow> journaled_original \<Rightarrow> inventory \<times> attempted
   \<Rightarrow> ('w system, mig_error, inventory \<times> attempted) action" where
  "load_original H entry acc = (case acc of (originals, attempted) \<Rightarrow>
     let d = jo_document entry; post = jo_post_fingerprint entry in
     andthen (reads fst) (\<lambda>c.
     if map_of originals (doc_key d) \<noteq> None \<or> doc_provider d \<notin> set (co_providers c) then throw (MRestoreFailed [])
     else andthen (from_sum (document_fingerprint H d)) (\<lambda>_.
       if post = [] then throw (MRestoreFailed [])
       else ret (dict_put originals (doc_key d) d, attempted @ [(d, post)]))))"

definition forget_completion :: "string \<Rightarrow> coordinator \<Rightarrow> coordinator" where
  "forget_completion plan_id c = c\<lparr>co_completed := dict_del (co_completed c) plan_id,
     co_states := (if map_of (co_states c) plan_id \<noteq> None then dict_put (co_states c) plan_id FAILED
                   else co_states c)\<rparr>"

definition recover_incomplete ::
  "'w ports \<Rightarrow> (string \<Rightarrow> string) \<Rightarrow> string \<Rightarrow> ('w system, mig_error, unit) action" where
  "recover_incomplete P H plan_id =
     andthen (on_world (incomplete_plan_ids P)) (\<lambda>ids.
     if plan_id \<notin> set ids then throw MUnknownPlan
     else andthen (on_world (originals_for P plan_id)) (\<lambda>entries.
     andthen (fold_action (load_original H) entries ([], [])) (\<lambda>(originals, attempted).
     andthen (restore_originals P H attempted originals False) (\<lambda>failures.
     if failures \<noteq> [] then
       andthen (on_world (set_state P plan_id BLOCKED)) (\<lambda>_.
       andthen (coordinator_blocked True) (\<lambda>_. throw (MRestoreFailed failures)))
     else
       andthen (on_world (set_state P plan_id FAILED)) (\<lambda>_.
       andthen (on_coordinator (forget_completion plan_id)) (\<lambda>_.
       andthen (on_world (incomplete_plan_ids P)) (\<lambda>incomplete.
       coordinator_blocked (incomplete \<noteq> []))))))))"

section \<open>Completions and the start of a coordinator\<close>

definition snapshot_matches :: "(doc_key, document_snapshot) dict \<Rightarrow> planned_document \<Rightarrow> bool" where
  "snapshot_matches snaps pd = (case map_of snaps (pd_key pd) of None \<Rightarrow> False
     | Some s \<Rightarrow> ds_fingerprint s = pd_post_fingerprint pd \<and> ds_writable s = pd_writable pd)"

definition completion_ok :: "(string \<Rightarrow> string) \<Rightarrow> journaled_completion \<Rightarrow> string \<Rightarrow> bool" where
  "completion_ok H completion plan_id =
     (let plan = jc_plan completion; result = jc_result completion;
          keys = map pd_key (mp_documents plan);
          digest = H (dumps (plan_digest_json (mp_room_id plan) (mp_room_revision plan) (mp_old_entity_id plan)
            (mp_logical_unique_id plan) (mp_target_entity_id plan) (dict_of (mp_provider_targets plan))
            (mp_providers plan) (mp_references_expected plan) (mp_documents plan)));
          snaps = foldl (\<lambda>d s. dict_put d (ds_provider s, ds_object s) s) [] (jc_documents completion)
      in mp_plan_id plan = plan_id \<and> mr_plan_id result = plan_id
       \<and> mp_providers plan = sort provider_manifest
       \<and> set (map fst (mp_provider_targets plan)) = set provider_manifest
       \<and> distinct keys
       \<and> list_all (\<lambda>pd. pd_provider pd \<in> set provider_manifest) (mp_documents plan)
       \<and> mp_digest plan = digest \<and> mp_plan_id plan = plan_id_of H digest
       \<and> mr_digest result = mp_digest plan \<and> mr_state result = COMPLETE
       \<and> mr_changed_documents result = int (length (filter (\<lambda>pd. pd_exact_paths pd \<noteq> []) (mp_documents plan)))
       \<and> mr_exact_replacements result = mp_exact_replacements plan \<and> \<not> mr_idempotent result
       \<and> mp_exact_replacements plan = sum_list (map (\<lambda>pd. int (length (pd_exact_paths pd))) (mp_documents plan))
       \<and> length snaps = length (jc_documents completion) \<and> set (map fst snaps) = set keys
       \<and> list_all (snapshot_matches snaps) (mp_documents plan))"

definition load_completion ::
  "'w ports \<Rightarrow> (string \<Rightarrow> string) \<Rightarrow> string \<Rightarrow> coordinator \<Rightarrow> ('w, mig_error, coordinator) action" where
  "load_completion P H plan_id c =
     andthen (completion_for P plan_id) (\<lambda>completion.
     if \<not> completion_ok H completion plan_id then throw MTypeError
     else ret (c\<lparr>co_plans := dict_put (co_plans c) plan_id (jc_plan completion),
       co_states := dict_put (co_states c) plan_id COMPLETE,
       co_completed := dict_put (co_completed c) plan_id
         \<lparr>cr_result = jc_result completion, cr_documents = jc_documents completion\<rparr>\<rparr>))"

text \<open>\<open>ReferenceMigrationCoordinator.__init__\<close> over providers with the given names.\<close>

definition coordinator_init ::
  "'w ports \<Rightarrow> (string \<Rightarrow> string) \<Rightarrow> string list \<Rightarrow> ('w, mig_error, coordinator) action" where
  "coordinator_init P H names =
     (if list_ex (\<lambda>n. n = []) names \<or> \<not> distinct names \<or> set names \<noteq> set provider_manifest then throw MValueError
      else andthen (completed_plan_ids P) (\<lambda>completed.
        andthen (fold_action (load_completion P H) completed
          \<lparr>co_providers = names, co_plans = [], co_states = [], co_completed = [], co_blocked = False\<rparr>) (\<lambda>c.
        andthen (incomplete_plan_ids P) (\<lambda>incomplete.
        ret (c\<lparr>co_blocked := (incomplete \<noteq> [])\<rparr>)))))"

end
