(* ===== verification/Migration_World.thy ===== *)
theory Migration_World
  imports Ref_Migration
begin

text \<open>
  What the coordinator may rely on. \<open>view\<close> abstracts a world to the documents its providers hold and
  to the states and originals its journal holds. The laws of \<open>reference_world\<close> allow every call to
  fail at any moment, and a call that changes the world to fail after its effect; they only say that
  reads report the view, that a call changes nothing but what it is for, and that a call that returns
  has had its effect. \<open>live_world\<close> adds that calls do return.
\<close>

record world_view =
  v_docs :: "doc_key \<Rightarrow> document option"
  v_states :: "string \<Rightarrow> migration_state option"
  v_originals :: "string \<Rightarrow> journaled_original list"

definition put_doc :: "world_view \<Rightarrow> document \<Rightarrow> world_view" where
  "put_doc v d = v\<lparr>v_docs := (v_docs v)(doc_key d \<mapsto> d)\<rparr>"

definition put_state :: "world_view \<Rightarrow> string \<Rightarrow> migration_state \<Rightarrow> world_view" where
  "put_state v plan_id st = v\<lparr>v_states := (v_states v)(plan_id \<mapsto> st)\<rparr>"

definition put_original :: "world_view \<Rightarrow> string \<Rightarrow> journaled_original \<Rightarrow> world_view" where
  "put_original v plan_id e = v\<lparr>v_originals := (v_originals v)(plan_id := v_originals v plan_id @ [e])\<rparr>"

lemma view_simps [simp]:
  "v_docs (put_doc v d) = (v_docs v)(doc_key d \<mapsto> d)" "v_states (put_doc v d) = v_states v"
  "v_originals (put_doc v d) = v_originals v" "v_docs (put_state v i st) = v_docs v"
  "v_states (put_state v i st) = (v_states v)(i \<mapsto> st)" "v_originals (put_state v i st) = v_originals v"
  "v_docs (put_original v i e) = v_docs v" "v_states (put_original v i e) = v_states v"
  "v_originals (put_original v i e) = (v_originals v)(i := v_originals v i @ [e])"
  by (simp_all add: put_doc_def put_state_def put_original_def)

definition unfinished :: "migration_state option \<Rightarrow> bool" where
  "unfinished st \<longleftrightarrow> st = Some APPLYING \<or> st = Some BLOCKED"

section \<open>Inventories and contents\<close>

definition inventory_is :: "(string \<Rightarrow> string) \<Rightarrow> world_view \<Rightarrow> string set \<Rightarrow> inventory \<Rightarrow> bool" where
  "inventory_is H v names items \<longleftrightarrow> dict_ok items
     \<and> (\<forall>key. map_of items key = (if fst key \<in> names then v_docs v key else None))
     \<and> (\<forall>key d. map_of items key = Some d \<longrightarrow> doc_key d = key \<and> (\<exists>f. document_fingerprint H d = Inr f))"

lemma inventory_isD:
  assumes "inventory_is H v names items"
  shows "fst key \<in> names \<Longrightarrow> map_of items key = v_docs v key" "fst key \<notin> names \<Longrightarrow> map_of items key = None"
    "map_of items key = Some d \<Longrightarrow> doc_key d = key \<and> v_docs v key = Some d \<and> fst key \<in> names
       \<and> (\<exists>f. document_fingerprint H d = Inr f)" "dict_ok items"
  using assms by (cases key; auto simp: inventory_is_def split: if_splits)+

definition partly ::
  "(string \<Rightarrow> string) \<Rightarrow> world_view \<Rightarrow> string set \<Rightarrow> string \<Rightarrow> string set \<Rightarrow> inventory \<Rightarrow> bool" where
  "partly H v names p objects items \<longleftrightarrow> dict_ok items
     \<and> (\<forall>key. map_of items key = (if fst key \<in> names \<or> fst key = p \<and> snd key \<in> objects then v_docs v key else None))
     \<and> (\<forall>key d. map_of items key = Some d \<longrightarrow> doc_key d = key \<and> (\<exists>f. document_fingerprint H d = Inr f))"

definition allowed :: "(doc_key \<Rightarrow> document \<Rightarrow> bool) \<Rightarrow> world_view \<Rightarrow> world_view \<Rightarrow> bool" where
  "allowed A v u \<longleftrightarrow> (\<forall>key. v_docs u key = v_docs v key
     \<or> (\<exists>d d0. v_docs v key = Some d0 \<and> v_docs u key = Some d \<and> doc_writable d = doc_writable d0 \<and> A key d))"

definition may_write :: "(doc_key \<Rightarrow> document \<Rightarrow> bool) \<Rightarrow> world_view \<Rightarrow> doc_key \<Rightarrow> json \<Rightarrow> bool" where
  "may_write A v key payload \<longleftrightarrow> (\<forall>d d0. v_docs v key = Some d0 \<longrightarrow> doc_key d = key \<longrightarrow>
     doc_payload d = payload \<longrightarrow> doc_writable d = doc_writable d0 \<longrightarrow> A key d)"

definition planned_attempts :: "migration_plan \<Rightarrow> (document \<times> json) list \<Rightarrow> (document \<times> string) set" where
  "planned_attempts plan changes = {(d, post). \<exists>pd. d \<in> fst ` set changes \<and> planned_post plan d = Some pd
     \<and> post = pd_post_fingerprint pd}"

definition content :: "(string \<Rightarrow> string) \<Rightarrow> document option \<Rightarrow> ((mig_error + string) \<times> bool) option" where
  "content H d = map_option (\<lambda>d. (document_fingerprint H d, doc_writable d)) d"

definition same_content :: "(string \<Rightarrow> string) \<Rightarrow> world_view \<Rightarrow> world_view \<Rightarrow> bool" where
  "same_content H v u \<longleftrightarrow> (\<forall>key. content H (v_docs u key) = content H (v_docs v key))"

lemma compare_inventory_Nil:
  "compare_inventory H current originals failures = [] \<Longrightarrow>
     failures = [] \<and> (\<forall>(key, d0) \<in> set originals. \<exists>d. map_of current key = Some d \<and> differs H d d0 = Inr False)"
proof (induction H current originals failures rule: compare_inventory.induct)
  case (2 H current key d0 rest failures)
  obtain d different where d: "map_of current key = Some d" "differs H d d0 = Inr different"
    and rest: "compare_inventory H current rest (failures @ (if different then [doc_label key] else [])) = []"
    using 2(2) by (auto split: option.splits sum.splits)
  show ?case using 2(1) [OF d rest] d by (cases different) auto
qed simp

lemma differs_content: "differs H d d0 = Inr False \<Longrightarrow> content H (Some d) = content H (Some d0)"
  by (auto simp: differs_def content_def split: sum.splits)

lemma restored_content:
  assumes orig: "inventory_is H v names originals" and cur: "inventory_is H u (fst ` fst ` set originals) current"
    and keys: "same_keys current originals" and cmp: "compare_inventory H current originals failures = []"
    and al: "allowed A v u" and A: "\<And>key d. A key d \<Longrightarrow> fst key \<in> names"
  shows "same_content H v u"
  unfolding same_content_def
proof
  fix key
  show "content H (v_docs u key) = content H (v_docs v key)"
  proof (cases "v_docs u key = v_docs v key")
    case False
    then obtain d d0 where d: "v_docs v key = Some d0" "v_docs u key = Some d" "A key d"
      using al unfolding allowed_def by blast
    have "fst key \<in> names" using A [OF d(3)] .
    then have "map_of originals key = Some d0" using inventory_isD(1) [OF orig] d(1) by simp
    then have mem: "(key, d0) \<in> set originals" by (rule map_of_SomeD)
    then obtain d' where d': "map_of current key = Some d'" "differs H d' d0 = Inr False"
      using compare_inventory_Nil [OF cmp] by blast
    have "fst key \<in> fst ` fst ` set originals" using mem by force
    then have "map_of current key = v_docs u key" by (rule inventory_isD(1) [OF cur])
    then show ?thesis using d d' differs_content by simp
  qed simp
qed

section \<open>The laws\<close>

locale reference_world =
  fixes P :: "'w ports" and good :: "'w \<Rightarrow> bool" and view :: "'w \<Rightarrow> world_view"
  assumes keyed: "good w \<Longrightarrow> v_docs (view w) k = Some d \<Longrightarrow> doc_key d = k"
    and reads_keep:
      "good w \<Longrightarrow> good (snd (list_documents P p w)) \<and> view (snd (list_documents P p w)) = view w"
      "good w \<Longrightarrow> good (snd (get_document P p ob w)) \<and> view (snd (get_document P p ob w)) = view w"
      "good w \<Longrightarrow> good (snd (resolve_subject P room w)) \<and> view (snd (resolve_subject P room w)) = view w"
      "good w \<Longrightarrow> good (snd (incomplete_plan_ids P w)) \<and> view (snd (incomplete_plan_ids P w)) = view w"
      "good w \<Longrightarrow> good (snd (originals_for P i w)) \<and> view (snd (originals_for P i w)) = view w"
      "good w \<Longrightarrow> good (snd (record_completion P jc w)) \<and> view (snd (record_completion P jc w)) = view w"
    and list_ok: "good w \<Longrightarrow> fst (list_documents P p w) = Inr ds \<Longrightarrow>
        doc_object ` set ds = {ob. v_docs (view w) (p, ob) \<noteq> None}"
    and get_ok: "good w \<Longrightarrow> fst (get_document P p ob w) = Inr d \<Longrightarrow> v_docs (view w) (p, ob) = Some d"
    and incomplete_ok: "good w \<Longrightarrow> fst (incomplete_plan_ids P w) = Inr ids \<Longrightarrow>
        set ids = {i. unfinished (v_states (view w) i)}"
    and originals_ok: "good w \<Longrightarrow> fst (originals_for P i w) = Inr es \<Longrightarrow> es = v_originals (view w) i"
    and write_good: "good w \<Longrightarrow> good (snd (write_document P p ob rv payload w))"
    and write_ok: "good w \<Longrightarrow> view (snd (write_document P p ob rv payload w)) = view w
        \<or> (\<exists>d d'. v_docs (view w) (p, ob) = Some d \<and> doc_key d' = (p, ob) \<and> doc_payload d' = payload
             \<and> doc_writable d' = doc_writable d
             \<and> view (snd (write_document P p ob rv payload w)) = put_doc (view w) d')"
    and state_good: "good w \<Longrightarrow> good (snd (set_state P i st w))"
    and state_ok: "good w \<Longrightarrow> view (snd (set_state P i st w)) = put_state (view w) i st
        \<or> view (snd (set_state P i st w)) = view w \<and> (\<exists>e. fst (set_state P i st w) = Inl e)"
    and original_good: "good w \<Longrightarrow> good (snd (record_original P i d post w))"
    and original_ok: "good w \<Longrightarrow> view (snd (record_original P i d post w)) = view w
        \<or> view (snd (record_original P i d post w)) = put_original (view w) i \<lparr>jo_document = d, jo_post_fingerprint = post\<rparr>
          \<and> post \<noteq> [] \<and> (\<forall>e \<in> set (v_originals (view w) i). doc_key (jo_document e) \<noteq> doc_key d)"
    and original_recorded: "good w \<Longrightarrow> fst (record_original P i d post w) = Inr u \<Longrightarrow>
        \<lparr>jo_document = d, jo_post_fingerprint = post\<rparr> \<in> set (v_originals (view (snd (record_original P i d post w))) i)"
begin

definition at :: "coordinator \<Rightarrow> world_view \<Rightarrow> 'w system \<Rightarrow> bool" where
  "at c v s \<longleftrightarrow> fst s = c \<and> good (snd s) \<and> view (snd s) = v"

lemma on_world_split: "on_world m s = (fst (m (snd s)), (fst s, snd (m (snd s))))"
  by (simp add: on_world_def split_beta)

lemma at_read:
  assumes "\<And>w. good w \<Longrightarrow> good (snd (m w)) \<and> view (snd (m w)) = view w"
    "\<And>w x. good w \<Longrightarrow> view w = v \<Longrightarrow> fst (m w) = Inr x \<Longrightarrow> Q x"
  shows "holds (at c v) (on_world m) (\<lambda>x s. at c v s \<and> Q x) (\<lambda>e. at c v)"
  using assms by (auto simp: holds_iff on_world_split at_def)

lemma at_list: "holds (at c v) (on_world (list_documents P p))
    (\<lambda>ds s. at c v s \<and> doc_object ` set ds = {ob. v_docs v (p, ob) \<noteq> None}) (\<lambda>e. at c v)"
  by (rule at_read) (use reads_keep list_ok in auto)

lemma at_get: "holds (at c v) (on_world (get_document P p ob))
    (\<lambda>d s. at c v s \<and> v_docs v (p, ob) = Some d \<and> doc_key d = (p, ob)) (\<lambda>e. at c v)"
  by (rule at_read) (use reads_keep get_ok keyed in auto)

lemma at_resolve: "holds (at c v) (on_world (resolve_subject P room)) (\<lambda>x. at c v) (\<lambda>e. at c v)"
  by (rule holds_mono [OF at_read [where Q = "\<lambda>_. True"]]) (use reads_keep in auto)

lemma at_record_completion: "holds (at c v) (on_world (record_completion P jc)) (\<lambda>x. at c v) (\<lambda>e. at c v)"
  by (rule holds_mono [OF at_read [where Q = "\<lambda>_. True"]]) (use reads_keep in auto)

lemma at_incomplete: "holds (at c v) (on_world (incomplete_plan_ids P))
    (\<lambda>ids s. at c v s \<and> set ids = {i. unfinished (v_states v i)}) (\<lambda>e. at c v)"
  by (rule at_read) (use reads_keep incomplete_ok in auto)

lemma at_set_state: "holds (at c v) (on_world (set_state P i st)) (\<lambda>u. at c (put_state v i st))
    (\<lambda>e s. at c v s \<or> at c (put_state v i st) s)"
  unfolding holds_iff on_world_split at_def
  using state_good [where i = i and st = st] state_ok [where i = i and st = st] by fastforce

lemma at_set_state_throw:
  assumes "\<And>e s. at c v s \<Longrightarrow> E e s" "\<And>e s. at c (put_state v i st) s \<Longrightarrow> E e s"
  shows "holds (at c v) (andthen (on_world (set_state P i st)) (\<lambda>_. throw x)) Q E"
proof (rule holds_andthen)
  show "holds (at c v) (on_world (set_state P i st)) (\<lambda>u. at c (put_state v i st)) E"
    by (rule holds_mono [OF at_set_state]) (use assms in auto)
  show "holds (at c (put_state v i st)) (throw x) Q E" by (rule holds_throw) (use assms in auto)
qed

lemma at_coordinator: "holds (at c v) (on_coordinator f) (\<lambda>u. at (f c) v) E"
  by (simp add: holds_def on_coordinator_def at_def)

lemma at_from_sum: "holds (at c v) (from_sum r) (\<lambda>x s. at c v s \<and> r = Inr x) (\<lambda>e s. at c v s \<and> r = Inl e)"
  by (rule holds_from_sum) auto

lemma at_reads: "holds (at c v) (reads fst) (\<lambda>x s. at c v s \<and> x = c) E"
  by (rule holds_reads) (simp add: at_def)

section \<open>Reading the whole inventory\<close>

lemma fetch_document_rule:
  assumes "partly H v names p objects items"
  shows "holds (at c v) (fetch_document P H p listed items)
     (\<lambda>items' s. at c v s \<and> partly H v names p (insert (doc_object listed) objects) items') (\<lambda>e. at c v)"
  unfolding fetch_document_def
proof (rule holds_step [OF at_get], intro holds_if)
  fix d
  assume d: "v_docs v (p, doc_object listed) = Some d \<and> doc_key d = (p, doc_object listed)"
    and new: "\<not> map_of items (p, doc_object d) \<noteq> None"
  have "partly H v names p (insert (doc_object listed) objects) (dict_put items (p, doc_object d) d)"
    if "document_fingerprint H d = Inr f" for f
    using assms d new that by (auto simp: partly_def doc_key_def split: if_splits)
  then show "holds (at c v) (andthen (from_sum (document_fingerprint H d))
      (\<lambda>_. ret (dict_put items (p, doc_object d) d)))
      (\<lambda>items' s. at c v s \<and> partly H v names p (insert (doc_object listed) objects) items') (\<lambda>e. at c v)"
    by (intro holds_step [OF holds_mono [OF at_from_sum]] holds_ret) auto
qed (auto intro: holds_throw)

lemma fetch_provider_rule:
  assumes "inventory_is H v names items" "p \<notin> names"
  shows "holds (at c v) (fetch_provider P H p items)
     (\<lambda>items' s. at c v s \<and> inventory_is H v (insert p names) items') (\<lambda>e. at c v)"
  unfolding fetch_provider_def
proof (rule holds_step [OF at_reads], intro holds_if holds_step [OF at_list])
  fix ds :: "document list"
  assume ds: "doc_object ` set ds = {ob. v_docs v (p, ob) \<noteq> None}"
  have start: "partly H v names p (doc_object ` set []) items"
    using assms by (auto simp: inventory_is_def partly_def)
  have all: "holds (at c v) (fold_action (fetch_document P H p) ds items)
      (\<lambda>items' s. at c v s \<and> partly H v names p (doc_object ` set ds) items') (\<lambda>e. at c v)"
    by (rule holds_fold_facts [where I = "\<lambda>pre. partly H v names p (doc_object ` set pre)", OF _ start])
       (auto dest: fetch_document_rule)
  have whole: "inventory_is H v (insert p names) items'" if "partly H v names p (doc_object ` set ds) items'" for items'
  proof -
    have "map_of items' key = (if fst key \<in> insert p names then v_docs v key else None)" for key
      using that ds by (cases key) (auto simp: partly_def)
    with that show ?thesis by (auto simp: inventory_is_def partly_def)
  qed
  show "holds (at c v) (fold_action (fetch_document P H p) ds items)
      (\<lambda>items' s. at c v s \<and> inventory_is H v (insert p names) items') (\<lambda>e. at c v)"
    by (rule holds_mono [OF all]) (use whole in auto)
qed (auto intro: holds_throw)

lemma fetch_inventory_rule:
  assumes "distinct names"
  shows "holds (at c v) (fetch_inventory P H names) (\<lambda>items s. at c v s \<and> inventory_is H v (set names) items) (\<lambda>e. at c v)"
  unfolding fetch_inventory_def
proof (rule holds_fold_facts [where I = "\<lambda>pre. inventory_is H v (set pre)"])
  fix pre p post items
  assume "names = pre @ p # post" "inventory_is H v (set pre) items"
  then show "holds (at c v) (fetch_provider P H p items)
      (\<lambda>items' s. at c v s \<and> inventory_is H v (set (pre @ [p])) items') (\<lambda>e. at c v)"
    using fetch_provider_rule [of H v "set pre" items p c] assms by simp
qed (simp add: inventory_is_def)

lemma assert_authority_rule:
  "holds (at c v) (assert_authority P plan) (\<lambda>u. at c v) (\<lambda>e. at c v)"
  unfolding assert_authority_def
  by (rule holds_andthen [OF holds_handle [OF at_resolve]]) (auto intro: holds_throw holds_check)

section \<open>Writing and restoring\<close>

text \<open>
  \<open>within c v A\<close>: the coordinator is \<open>c\<close> and the world differs from \<open>v\<close> at most in documents whose
  present content \<open>A\<close> allows.
\<close>

definition within :: "coordinator \<Rightarrow> world_view \<Rightarrow> (doc_key \<Rightarrow> document \<Rightarrow> bool) \<Rightarrow> 'w system \<Rightarrow> bool" where
  "within c v A s \<longleftrightarrow> (\<exists>u. at c u s \<and> v_states u = v_states v \<and> v_originals u = v_originals v \<and> allowed A v u)"

lemma at_within: "at c v s \<Longrightarrow> within c v A s"
  unfolding within_def allowed_def by blast

lemma within_pre:
  "(\<And>u. v_states u = v_states v \<Longrightarrow> v_originals u = v_originals v \<Longrightarrow> allowed A v u \<Longrightarrow> holds (at c u) m Q E)
   \<Longrightarrow> holds (within c v A) m Q E"
  unfolding holds_iff within_def by blast

lemma within_at_rule:
  assumes "\<And>u. holds (at c u) m (\<lambda>x s. at c u s \<and> B x) (\<lambda>e. at c u)"
  shows "holds (within c v A) m (\<lambda>x s. within c v A s \<and> B x) (\<lambda>e. within c v A)"
  by (rule within_pre, rule holds_mono [OF assms]) (auto simp: within_def)

lemma within_get: "holds (within c v A) (on_world (get_document P p ob)) (\<lambda>d. within c v A) (\<lambda>e. within c v A)"
  by (rule holds_mono [OF within_at_rule [where B = "\<lambda>_. True"]], rule holds_mono [OF at_get]) auto

lemma within_reads: "holds (within c v A) (reads fst) (\<lambda>x s. within c v A s \<and> x = c) E"
  by (rule holds_reads) (auto simp: within_def at_def)

lemma within_from_sum: "holds (within c v A) (from_sum r) (\<lambda>x. within c v A) (\<lambda>e. within c v A)"
  by (rule holds_from_sum) auto

lemma within_write:
  assumes "may_write A v (p, ob) payload"
  shows "holds (within c v A) (on_world (write_document P p ob rv payload)) (\<lambda>x. within c v A) (\<lambda>e. within c v A)"
proof -
  have "within c v A (c, snd (write_document P p ob rv payload w))" if w: "within c v A (c, w)" for w
  proof -
    obtain u where u: "at c u (c, w)" "v_states u = v_states v" "v_originals u = v_originals v" "allowed A v u"
      using w by (auto simp: within_def)
    let ?w' = "snd (write_document P p ob rv payload w)"
    have good: "good w" "view w = u" using u(1) by (auto simp: at_def)
    then have "view ?w' = u \<or> (\<exists>d d'. v_docs u (p, ob) = Some d \<and> doc_key d' = (p, ob) \<and> doc_payload d' = payload
        \<and> doc_writable d' = doc_writable d \<and> view ?w' = put_doc u d')"
      using write_ok by blast
    moreover have "allowed A v (put_doc u d')" if d: "v_docs u (p, ob) = Some d" "doc_key d' = (p, ob)"
      "doc_payload d' = payload" "doc_writable d' = doc_writable d" for d d'
    proof -
      obtain d0 where "v_docs v (p, ob) = Some d0" "doc_writable d = doc_writable d0"
        using u(4) d(1) unfolding allowed_def by (metis option.inject)
      then show ?thesis
        using u(4) d assms unfolding allowed_def may_write_def by auto
    qed
    ultimately obtain u' where "view ?w' = u'" "v_states u' = v_states v" "v_originals u' = v_originals v"
      "allowed A v u'" using u by auto
    then show ?thesis using write_good [OF good(1)] by (auto simp: within_def at_def)
  qed
  moreover have "fst s = c" if "within c v A s" for s using that by (auto simp: within_def at_def)
  ultimately show ?thesis unfolding holds_iff on_world_split by (metis prod.collapse prod.inject)
qed

lemma read_fingerprint_rule:
  "holds (within c v A) (read_fingerprint P H d) (\<lambda>x. within c v A) (\<lambda>e. within c v A)"
  unfolding read_fingerprint_def by (rule holds_andthen [OF within_get within_from_sum])

lemma write_change_rule:
  assumes "may_write A v (doc_key d) payload"
  shows "holds (within c v A) (write_change P H plan (d, payload))
    (\<lambda>r s. within c v A s \<and> set (snd r) \<subseteq> planned_attempts plan [(d, payload)]) (\<lambda>_ _. False)"
proof -
  have w: "holds (within c v A) (attempt (on_world (write_document P (doc_provider d) (doc_object d) rv payload)))
      (\<lambda>x. within c v A) E" for E rv
    by (rule holds_attempt [OF within_write]) (use assms in \<open>auto simp: doc_key_def\<close>)
  have r: "holds (within c v A) (attempt (read_fingerprint P H d)) (\<lambda>x. within c v A) E" for E
    by (rule holds_attempt [OF read_fingerprint_rule]) auto
  show ?thesis
    unfolding write_change_def prod.case
    by (rule holds_step [OF within_reads])
       (auto intro!: holds_ret holds_andthen [OF w] holds_andthen [OF r] simp: planned_attempts_def Let_def
         split: option.splits sum.splits if_splits)
qed

lemma write_changes_rule:
  assumes "\<And>d payload. (d, payload) \<in> set changes \<Longrightarrow> may_write A v (doc_key d) payload"
  shows "holds (within c v A) (write_changes P H plan changes att)
    (\<lambda>r s. within c v A s \<and> set (snd r) \<subseteq> set att \<union> planned_attempts plan changes) (\<lambda>_ _. False)"
  using assms
proof (induction changes arbitrary: att)
  case Nil
  show ?case by (auto intro: holds_ret)
next
  case (Cons ch changes)
  obtain d payload where ch: "ch = (d, payload)" by force
  have one: "holds (within c v A) (write_change P H plan ch)
      (\<lambda>r s. within c v A s \<and> set (snd r) \<subseteq> planned_attempts plan [(d, payload)]) (\<lambda>_ _. False)"
    unfolding ch by (rule write_change_rule) (use Cons.prems ch in auto)
  have rest: "holds (within c v A) (write_changes P H plan changes (att @ extra))
      (\<lambda>r s. within c v A s \<and> set (snd r) \<subseteq> set att \<union> planned_attempts plan (ch # changes)) (\<lambda>_ _. False)"
    if "set extra \<subseteq> planned_attempts plan [(d, payload)]" for extra
    by (rule holds_mono [OF Cons.IH]) (use that Cons.prems ch in \<open>auto simp: planned_attempts_def\<close>)
  show ?case
    unfolding write_changes.simps
  proof (rule holds_step [OF one])
    fix r :: "(mig_error + unit) \<times> attempted"
    assume r: "set (snd r) \<subseteq> planned_attempts plan [(d, payload)]"
    show "holds (within c v A) (case r of (r, extra) \<Rightarrow> (case r of Inl e \<Rightarrow> ret (Inl e, att @ extra)
          | Inr x \<Rightarrow> write_changes P H plan changes (att @ extra)))
        (\<lambda>r s. within c v A s \<and> set (snd r) \<subseteq> set att \<union> planned_attempts plan (ch # changes)) (\<lambda>_ _. False)"
    proof (cases r)
      case (Pair res extra)
      then show ?thesis
        using r rest [of extra] ch
        by (cases res) (auto intro!: holds_ret simp: planned_attempts_def)
    qed
  qed
qed

lemma restore_document_rule:
  assumes "may_write A v (doc_key d) (doc_payload d)"
  shows "holds (within c v A) (restore_document P H d post) (\<lambda>x. within c v A) (\<lambda>e. within c v A)"
proof -
  have w: "holds (within c v A) (on_world (write_document P (doc_provider d) (doc_object d) rv (doc_payload d)))
      (\<lambda>x. within c v A) (\<lambda>e. within c v A)" for rv
    by (rule within_write) (use assms in \<open>simp add: doc_key_def\<close>)
  show ?thesis
    unfolding restore_document_def Let_def
    by (intro holds_andthen [OF within_get] holds_andthen [OF within_from_sum]
          holds_andthen [where R = "\<lambda>_. within c v A"] holds_if holds_check)
       (auto intro: holds_ret w)
qed

lemma restore_attempted_rule:
  assumes "\<And>d post. (d, post) \<in> set att \<Longrightarrow> may_write A v (doc_key d) (doc_payload d) \<and> doc_provider d \<in> set (co_providers c)"
  shows "holds (within c v A) (restore_attempted P H att failures) (\<lambda>x. within c v A) (\<lambda>_ _. False)"
  using assms
proof (induction att arbitrary: failures)
  case Nil
  show ?case by (auto intro: holds_ret)
next
  case (Cons a att)
  obtain d post where a: "a = (d, post)" by force
  have one: "holds (within c v A) (attempt (restore_document P H d post)) (\<lambda>x. within c v A) E" for E
    by (rule holds_attempt [OF restore_document_rule]) (use Cons.prems a in auto)
  have "doc_provider d \<in> set (co_providers c)" using Cons.prems a by auto
  then show ?case
    unfolding a restore_attempted.simps
    using Cons.prems by (intro holds_step [OF within_reads]) (auto intro!: holds_andthen [OF one] Cons.IH)
qed

lemma restore_originals_rule:
  assumes orig: "inventory_is H v names originals"
    and att: "\<And>d post. (d, post) \<in> set att \<Longrightarrow> may_write A v (doc_key d) (doc_payload d) \<and> doc_provider d \<in> set (co_providers c)"
    and A: "\<And>key d. A key d \<Longrightarrow> fst key \<in> names"
  shows "holds (within c v A) (restore_originals P H att originals True)
    (\<lambda>failures s. \<exists>u. at c u s \<and> v_states u = v_states v \<and> v_originals u = v_originals v \<and> allowed A v u
       \<and> (failures = [] \<longrightarrow> same_content H v u)) (\<lambda>_ _. False)"
  unfolding restore_originals_def if_True
proof (rule holds_andthen [OF restore_attempted_rule], goal_cases)
  case (2 failures)
  show ?case
  proof (rule within_pre)
    fix u
    assume u: "v_states u = v_states v" "v_originals u = v_originals v" "allowed A v u"
    let ?names = "sorted_set (map (\<lambda>(key, d). fst key) originals)"
    have names: "distinct ?names" "set ?names = fst ` fst ` set originals"
      by (auto simp: sorted_set_def image_image split_beta)
    have fetched: "holds (at c u) (attempt (fetch_inventory P H ?names))
        (\<lambda>r s. at c u s \<and> (\<forall>current. r = Inr current \<longrightarrow> inventory_is H u (fst ` fst ` set originals) current)) (\<lambda>_ _. False)"
      by (rule holds_attempt [OF fetch_inventory_rule [OF names(1)]]) (auto simp: names(2))
    have "holds (at c u) (verify_inventory P H originals failures)
        (\<lambda>failures s. at c u s \<and> (failures = [] \<longrightarrow> same_content H v u)) (\<lambda>_ _. False)"
      unfolding verify_inventory_def
      by (rule holds_step [OF fetched])
         (auto intro!: holds_ret dest: restored_content [OF orig _ _ _ u(3) A] split: sum.split if_splits)
    then show "holds (at c u) (andthen (verify_inventory P H originals failures) (\<lambda>failures. ret (first_occurrences failures)))
      (\<lambda>failures s. \<exists>u. at c u s \<and> v_states u = v_states v \<and> v_originals u = v_originals v \<and> allowed A v u
        \<and> (failures = [] \<longrightarrow> same_content H v u)) (\<lambda>_ _. False)"
      by (rule holds_step) (use u in \<open>auto intro!: holds_ret simp: first_occurrences_def\<close>)
  qed
qed (use att in auto)

end

end
