(* ===== verification/Migration_Run.thy ===== *)
theory Migration_Run
  imports Migration_World
begin

text \<open>
  One application of a plan, followed through every call and every exception: whatever fails, the
  journal and the providers end in a state from which recovery can proceed, and unless the
  coordinator is blocked either every document of the plan is at its postimage or every document
  has the content it had before.
\<close>

definition changed :: "migration_plan \<Rightarrow> planned_document \<Rightarrow> bool" where
  "changed plan pd \<longleftrightarrow> pd \<in> set (mp_documents plan) \<and> pd_exact_paths pd \<noteq> []"

definition post_document ::
  "(string \<Rightarrow> template option) \<Rightarrow> (string \<Rightarrow> string) \<Rightarrow> migration_plan \<Rightarrow> planned_document \<Rightarrow> document \<Rightarrow> bool" where
  "post_document parse H plan pd d \<longleftrightarrow> doc_writable d \<and> document_fingerprint H d = Inr (pd_post_fingerprint pd)
     \<and> (\<exists>scan. scan_references parse (doc_payload d) (mp_old_entity_id plan) (Some (doc_provider d)) = Inr scan
          \<and> exact_paths scan = [] \<and> embedded scan = [])"

text \<open>Every planned document is at its verified postimage, and the providers hold no other document.\<close>

definition applied_view ::
  "(string \<Rightarrow> template option) \<Rightarrow> (string \<Rightarrow> string) \<Rightarrow> migration_plan \<Rightarrow> world_view \<Rightarrow> bool" where
  "applied_view parse H plan u \<longleftrightarrow>
     (\<forall>pd \<in> set (mp_documents plan). \<exists>d. v_docs u (pd_key pd) = Some d \<and> post_document parse H plan pd d)
     \<and> (\<forall>key. fst key \<in> set (mp_providers plan) \<longrightarrow> (v_docs u key \<noteq> None \<longleftrightarrow> key \<in> pd_key ` set (mp_documents plan)))"

definition plan_shape :: "coordinator \<Rightarrow> migration_plan \<Rightarrow> bool" where
  "plan_shape c plan \<longleftrightarrow> distinct (map pd_key (mp_documents plan)) \<and> distinct (mp_providers plan)
     \<and> pd_provider ` set (mp_documents plan) \<subseteq> set (mp_providers plan) \<and> set (mp_providers plan) \<subseteq> set (co_providers c)"

text \<open>An entry of the journal holds a document as it was before, with the postimage planned for it.\<close>

definition journal_entry_ok :: "(string \<Rightarrow> string) \<Rightarrow> migration_plan \<Rightarrow> world_view \<Rightarrow> journaled_original \<Rightarrow> bool" where
  "journal_entry_ok H plan v e \<longleftrightarrow> (let d = jo_document e in
     v_docs v (doc_key d) = Some d \<and> doc_writable d \<and> (\<exists>f. document_fingerprint H d = Inr f)
     \<and> jo_post_fingerprint e \<noteq> []
     \<and> (\<exists>pd. changed plan pd \<and> pd_key pd = doc_key d \<and> jo_post_fingerprint e = pd_post_fingerprint pd))"

definition entry_key :: "journaled_original \<Rightarrow> doc_key" where
  "entry_key e = doc_key (jo_document e)"

definition journal_sound :: "(string \<Rightarrow> string) \<Rightarrow> migration_plan \<Rightarrow> world_view \<Rightarrow> world_view \<Rightarrow> bool" where
  "journal_sound H plan v u \<longleftrightarrow> distinct (map entry_key (v_originals u (mp_plan_id plan)))
     \<and> (\<forall>e \<in> set (v_originals u (mp_plan_id plan)). journal_entry_ok H plan v e)"

definition journal_covers :: "migration_plan \<Rightarrow> world_view \<Rightarrow> bool" where
  "journal_covers plan u \<longleftrightarrow> (\<forall>pd. changed plan pd \<longrightarrow> pd_key pd \<in> entry_key ` set (v_originals u (mp_plan_id plan)))"

definition journal_ready :: "(string \<Rightarrow> string) \<Rightarrow> migration_plan \<Rightarrow> world_view \<Rightarrow> world_view \<Rightarrow> bool" where
  "journal_ready H plan v u \<longleftrightarrow> journal_sound H plan v u \<and> (v_docs u = v_docs v \<or> journal_covers plan u)"

definition state_settled ::
  "(string \<Rightarrow> template option) \<Rightarrow> (string \<Rightarrow> string) \<Rightarrow> migration_plan \<Rightarrow> world_view \<Rightarrow> world_view \<Rightarrow> bool" where
  "state_settled parse H plan v u \<longleftrightarrow> unfinished (v_states u (mp_plan_id plan))
     \<or> v_states u (mp_plan_id plan) \<noteq> Some COMPLETE \<and> same_content H v u
     \<or> v_states u (mp_plan_id plan) = Some COMPLETE \<and> applied_view parse H plan u"

text \<open>The world before the first application of a plan.\<close>

definition untouched :: "migration_plan \<Rightarrow> world_view \<Rightarrow> world_view \<Rightarrow> bool" where
  "untouched plan v u \<longleftrightarrow> v_docs u = v_docs v \<and> v_originals u (mp_plan_id plan) = []
     \<and> v_states u (mp_plan_id plan) \<noteq> Some COMPLETE"

text \<open>What the documents of a plan may contain while it is applied: \<open>A\<close> must allow the postimages.\<close>

definition admits ::
  "(string \<Rightarrow> template option) \<Rightarrow> migration_plan \<Rightarrow> world_view \<Rightarrow> (doc_key \<Rightarrow> document \<Rightarrow> bool) \<Rightarrow> bool" where
  "admits parse plan v A \<longleftrightarrow> (\<forall>key d. A key d \<longrightarrow> (\<exists>pd. changed plan pd \<and> pd_key pd = key))
     \<and> (\<forall>pd d0. changed plan pd \<longrightarrow> v_docs v (pd_key pd) = Some d0 \<longrightarrow>
          may_write A v (pd_key pd) (doc_payload d0)
          \<and> (\<forall>target payload n. replace_exact_scalars parse (doc_payload d0) (mp_old_entity_id plan) target
               (Some (pd_provider pd)) = Inr (payload, n) \<longrightarrow>
               map_of (rev (mp_provider_targets plan)) (pd_provider pd) = Some target \<longrightarrow>
               may_write A v (pd_key pd) payload))"

lemma same_content_refl [simp]: "same_content H v v"
  by (simp add: same_content_def)

lemma same_content_docs: "v_docs u = v_docs v \<Longrightarrow> same_content H v u"
  by (simp add: same_content_def)

lemma allowed_docs: "v_docs u = v_docs v \<Longrightarrow> allowed A v u"
  by (simp add: allowed_def)

lemma allowed_cong:
  "v_docs v = v_docs v' \<Longrightarrow> v_docs u = v_docs u' \<Longrightarrow> allowed A v u \<Longrightarrow> allowed A v' u'"
  by (simp add: allowed_def)

lemma same_content_cong:
  "v_docs v = v_docs v' \<Longrightarrow> v_docs u = v_docs u' \<Longrightarrow> same_content H v u \<Longrightarrow> same_content H v' u'"
  by (simp add: same_content_def)

lemma applied_view_cong: "v_docs u = v_docs u' \<Longrightarrow> applied_view parse H plan u \<Longrightarrow> applied_view parse H plan u'"
  by (simp add: applied_view_def)

lemma unfinished_simps [simp]:
  "unfinished (Some APPLYING)" "unfinished (Some BLOCKED)" "\<not> unfinished (Some FAILED)" "\<not> unfinished (Some COMPLETE)"
  "\<not> unfinished (Some PLANNED)" "\<not> unfinished None"
  by (simp_all add: unfinished_def)

section \<open>The planned documents\<close>

lemma planned_dict_distinct:
  "distinct (map pd_key pds) \<Longrightarrow> fst ` set d \<inter> pd_key ` set pds = {} \<Longrightarrow>
     foldl (\<lambda>d pd. dict_put d (pd_key pd) pd) d pds = d @ map (\<lambda>pd. (pd_key pd, pd)) pds"
proof (induction pds arbitrary: d)
  case (Cons pd pds)
  then have "dict_put d (pd_key pd) pd = d @ [(pd_key pd, pd)]"
    by (intro length_dict_put_notin) auto
  then show ?case using Cons by auto
qed simp

lemma planned_dict_eq:
  "distinct (map pd_key (mp_documents plan)) \<Longrightarrow> planned_dict plan = map (\<lambda>pd. (pd_key pd, pd)) (mp_documents plan)"
  using planned_dict_distinct [of "mp_documents plan" "[]"] by (simp add: planned_dict_def)

lemma planned_post_eq:
  assumes "distinct (map pd_key (mp_documents plan))" "pd \<in> set (mp_documents plan)" "doc_key d = pd_key pd"
  shows "planned_post plan d = Some pd"
proof -
  have "planned_post plan d \<noteq> None"
    unfolding planned_post_def find_None_all using assms(2,3) by auto
  then obtain pd' where pd': "planned_post plan d = Some pd'" by blast
  then have "pd' \<in> set (mp_documents plan)" "pd_key pd' = pd_key pd"
    using find_Some_in assms(3) unfolding planned_post_def by fastforce+
  then show ?thesis using assms(1,2) pd' by (simp add: distinct_map inj_on_def)
qed

lemma assert_post_apply_view:
  assumes "assert_post_apply parse H plan items = Inr ()" "inventory_is H u (set (mp_providers plan)) items"
    "distinct (map pd_key (mp_documents plan))"
  shows "applied_view parse H plan u"
  unfolding applied_view_def
proof (intro conjI ballI allI impI)
  have keys: "set (map fst items) = pd_key ` set (mp_documents plan)"
    and checks: "\<exists>us. map (post_apply_document parse H plan items) (planned_dict plan) = map Inr us"
    using assms(1) by (auto simp: assert_post_apply_def same_keys_def planned_dict_eq [OF assms(3)] image_image
        sum_all_Inr split: if_splits sum.splits)
  fix pd
  assume pd: "pd \<in> set (mp_documents plan)"
  obtain us where us: "map (post_apply_document parse H plan items) (planned_dict plan) = map Inr us"
    using checks by blast
  have "post_apply_document parse H plan items (pd_key pd, pd) \<in> set (map Inr us)"
    unfolding us [symmetric] using pd by (auto simp: planned_dict_eq [OF assms(3)] image_image)
  then have ok: "post_apply_document parse H plan items (pd_key pd, pd) = Inr ()" by auto
  then obtain d where d: "map_of items (pd_key pd) = Some d"
    by (auto simp: post_apply_document_def split: option.splits)
  with ok have "post_document parse H plan pd d"
    by (auto simp: post_apply_document_def post_document_def split: if_splits sum.splits)
  with d inventory_isD(3) [OF assms(2) d] show "\<exists>d. v_docs u (pd_key pd) = Some d \<and> post_document parse H plan pd d"
    by blast
next
  fix key :: doc_key
  assume key: "fst key \<in> set (mp_providers plan)"
  have keys: "fst ` set items = pd_key ` set (mp_documents plan)"
    using assms(1) by (auto simp: assert_post_apply_def same_keys_def planned_dict_eq [OF assms(3)] image_image
        split: if_splits)
  show "v_docs u key \<noteq> None \<longleftrightarrow> key \<in> pd_key ` set (mp_documents plan)"
    using inventory_isD(1) [OF assms(2) key] keys map_of_eq_None_iff [of items key] by simp
qed

lemma assert_preflight_view:
  assumes "assert_preflight parse H plan items = Inr ()" "inventory_is H v (set (mp_providers plan)) items"
    "distinct (map pd_key (mp_documents plan))" "pd \<in> set (mp_documents plan)"
  shows "\<exists>d. map_of items (pd_key pd) = Some d \<and> v_docs v (pd_key pd) = Some d \<and> doc_key d = pd_key pd \<and> doc_writable d
    \<and> document_fingerprint H d = Inr (pd_fingerprint pd)"
proof -
  obtain us where us: "map (preflight_document parse H plan items) (planned_dict plan) = map Inr us"
    using assms(1) by (auto simp: assert_preflight_def sum_all_Inr split: if_splits sum.splits)
  have "preflight_document parse H plan items (pd_key pd, pd) \<in> set (map Inr us)"
    unfolding us [symmetric] using assms(4) by (force simp: planned_dict_eq [OF assms(3)])
  then obtain n where ok: "preflight_document parse H plan items (pd_key pd, pd) = Inr n" by auto
  then obtain d where d: "map_of items (pd_key pd) = Some d"
    by (auto simp: preflight_document_def split: option.splits)
  with ok have "doc_writable d" "document_fingerprint H d = Inr (pd_fingerprint pd)"
    by (auto simp: preflight_document_def split: if_splits sum.splits)
  with d inventory_isD(3) [OF assms(2) d] show ?thesis by blast
qed

section \<open>The steps of a run\<close>

definition change_ok ::
  "(string \<Rightarrow> template option) \<Rightarrow> migration_plan \<Rightarrow> inventory \<Rightarrow> document \<times> json \<Rightarrow> bool" where
  "change_ok parse plan items ch \<longleftrightarrow> (\<exists>pd target n. changed plan pd \<and> map_of items (pd_key pd) = Some (fst ch)
     \<and> map_of (rev (mp_provider_targets plan)) (pd_provider pd) = Some target
     \<and> replace_exact_scalars parse (doc_payload (fst ch)) (mp_old_entity_id plan) target (Some (pd_provider pd))
         = Inr (snd ch, n))"

definition entry_for :: "document \<Rightarrow> planned_document \<Rightarrow> journaled_original" where
  "entry_for d pd = \<lparr>jo_document = d, jo_post_fingerprint = pd_post_fingerprint pd\<rparr>"

context reference_world
begin

text \<open>What every outcome satisfies; an exception leaves a blocked coordinator or the content as before.\<close>

definition run_state ::
  "(string \<Rightarrow> template option) \<Rightarrow> (string \<Rightarrow> string) \<Rightarrow> migration_plan \<Rightarrow> world_view \<Rightarrow> (doc_key \<Rightarrow> document \<Rightarrow> bool)
   \<Rightarrow> coordinator \<Rightarrow> world_view \<Rightarrow> bool" where
  "run_state parse H plan v A c u \<longleftrightarrow> allowed A v u \<and> state_settled parse H plan v u \<and> journal_ready H plan v u"

definition run_raised where
  "run_raised parse H plan v A (e :: mig_error) s \<longleftrightarrow> (\<exists>c u. at c u s \<and> run_state parse H plan v A c u
     \<and> (co_blocked c \<or> same_content H v u))"

definition run_returned where
  "run_returned parse H plan v A (r :: migration_result) s \<longleftrightarrow> (\<exists>c u. at c u s \<and> run_state parse H plan v A c u
     \<and> applied_view parse H plan u \<and> v_states u (mp_plan_id plan) = Some COMPLETE)"

lemma untouched_raised: "at c u s \<Longrightarrow> untouched plan v u \<Longrightarrow> run_raised parse H plan v A e s"
  unfolding run_raised_def run_state_def untouched_def
  by (auto intro!: exI [of _ c] exI [of _ u] simp: allowed_docs same_content_docs state_settled_def journal_ready_def
      journal_sound_def)

lemma preflight_rule:
  assumes "distinct (mp_providers plan)"
  shows "holds (at c v) (preflight P parse H plan)
    (\<lambda>items s. at c v s \<and> inventory_is H v (set (mp_providers plan)) items \<and> assert_preflight parse H plan items = Inr ())
    (\<lambda>e. at c v)"
  unfolding preflight_def
proof (rule holds_andthen [OF assert_authority_rule], rule holds_step [OF fetch_inventory_rule [OF assms]])
  fix items
  assume items: "inventory_is H v (set (mp_providers plan)) items"
  show "holds (at c v) (andthen (from_sum (assert_preflight parse H plan items)) (\<lambda>_. ret items))
    (\<lambda>items s. at c v s \<and> inventory_is H v (set (mp_providers plan)) items \<and> assert_preflight parse H plan items = Inr ())
    (\<lambda>e. at c v)"
    by (rule holds_sum_step) (use items in \<open>auto intro!: holds_ret\<close>)
qed

lemma planned_changes_rule:
  "holds (at c v) (planned_changes parse plan items)
    (\<lambda>changes s. at c v s \<and> (\<forall>ch \<in> set changes. change_ok parse plan items ch)
       \<and> (\<forall>pd. changed plan pd \<longrightarrow> (\<exists>ch \<in> set changes. map_of items (pd_key pd) = Some (fst ch))))
    (\<lambda>e s. \<exists>c'. at c' v s)"
proof -
  let ?I = "\<lambda>pds changes. (\<forall>ch \<in> set changes. change_ok parse plan items ch)
       \<and> (\<forall>pd \<in> set pds. pd_exact_paths pd \<noteq> [] \<longrightarrow> (\<exists>ch \<in> set changes. map_of items (pd_key pd) = Some (fst ch)))"
  have "holds (at c v) (planned_changes parse plan items)
      (\<lambda>changes s. at c v s \<and> ?I (mp_documents plan) changes) (\<lambda>e s. \<exists>c'. at c' v s)"
    unfolding planned_changes_def
  proof (rule holds_fold_facts [where I = ?I])
    fix pre pd post changes
    assume docs: "mp_documents plan = pre @ pd # post" and I: "?I pre changes"
    show "holds (at c v) (planned_change parse plan items pd changes)
        (\<lambda>changes s. at c v s \<and> ?I (pre @ [pd]) changes) (\<lambda>e s. \<exists>c'. at c' v s)"
    proof (cases "pd_exact_paths pd = []")
      case True
      then show ?thesis using I by (auto simp: planned_change_def intro!: holds_ret)
    next
      case False
      then have ch: "changed plan pd" using docs by (simp add: changed_def)
      show ?thesis
      proof (cases "map_of items (pd_key pd)")
        case None
        then show ?thesis using False by (auto simp: planned_change_def intro!: holds_throw)
      next
        case (Some d)
        show ?thesis
        proof (cases "map_of (rev (mp_provider_targets plan)) (pd_provider pd)")
          case None
          then show ?thesis using False Some by (auto simp: planned_change_def intro!: holds_throw)
        next
          case target: (Some target)
          have ok: "change_ok parse plan items (d, payload)"
            if "replace_exact_scalars parse (doc_payload d) (mp_old_entity_id plan) target (Some (pd_provider pd))
              = Inr (payload, n)" for payload n
            using that ch Some target by (auto simp: change_ok_def)
          show ?thesis
            unfolding planned_change_def Some target option.case if_not_P [OF False]
          proof (intro holds_sum_step, goal_cases)
            case (1 x)
            obtain payload n where x: "x = (payload, n)" by force
            show ?case
              unfolding x prod.case
            proof (rule holds_if)
              show "holds (at c v) (andthen (coordinator_state (mp_plan_id plan) BLOCKED) (\<lambda>_. throw MStalePlan))
                (\<lambda>changes s. at c v s \<and> ?I (pre @ [pd]) changes) (\<lambda>e s. \<exists>c'. at c' v s)"
                unfolding coordinator_state_def
                by (rule holds_andthen [OF at_coordinator]) (auto intro: holds_throw)
              show "holds (at c v) (ret (changes @ [(d, payload)]))
                (\<lambda>changes s. at c v s \<and> ?I (pre @ [pd]) changes) (\<lambda>e s. \<exists>c'. at c' v s)"
                by (rule holds_ret) (use I ok [of payload n] 1 x Some in auto)
            qed
          qed auto
        qed
      qed
    qed
  qed simp
  then show ?thesis by (rule holds_mono) (auto simp: changed_def)
qed

definition journaling where
  "journaling H plan v c v1 K s \<longleftrightarrow> (\<exists>u. at c u s \<and> v_docs u = v_docs v1 \<and> v_states u = v_states v1
     \<and> journal_sound H plan v u \<and> K \<subseteq> entry_key ` set (v_originals u (mp_plan_id plan)))"

lemma journal_sound_put:
  assumes "journal_sound H plan v u" "journal_entry_ok H plan v e"
    "\<forall>x \<in> set (v_originals u (mp_plan_id plan)). doc_key (jo_document x) \<noteq> doc_key (jo_document e)"
  shows "journal_sound H plan v (put_original u (mp_plan_id plan) e)"
  using assms by (auto simp: journal_sound_def entry_key_def image_iff)

lemma journal_original_rule:
  assumes pd: "changed plan pd" "v_docs v (pd_key pd) = Some d" "doc_key d = pd_key pd" "doc_writable d"
      "document_fingerprint H d = Inr f" and shape: "distinct (map pd_key (mp_documents plan))"
  shows "holds (journaling H plan v c v1 K) (journal_original P plan (d, payload) x)
    (\<lambda>u. journaling H plan v c v1 (insert (doc_key d) K)) (\<lambda>e. journaling H plan v c v1 {})"
proof -
  have post: "planned_post plan d = Some pd"
    using planned_post_eq [OF shape] pd by (simp add: changed_def)
  let ?e = "entry_for d pd"
  define m where "m = record_original P (mp_plan_id plan) d (pd_post_fingerprint pd)"
  have step: "journaling H plan v c v1 {} (c, snd (m w))
      \<and> (\<forall>r. fst (m w) = Inr r \<longrightarrow> journaling H plan v c v1 (insert (doc_key d) K) (c, snd (m w)))"
    if J: "journaling H plan v c v1 K (c, w)" for w
  proof -
    obtain u where u: "good w" "view w = u" "v_docs u = v_docs v1" "v_states u = v_states v1"
      "journal_sound H plan v u" "K \<subseteq> entry_key ` set (v_originals u (mp_plan_id plan))"
      using J by (auto simp: journaling_def at_def)
    let ?u' = "view (snd (m w))"
    have good: "good (snd (m w))" using original_good u(1) by (simp add: m_def)
    have or: "?u' = u \<or> ?u' = put_original u (mp_plan_id plan) ?e \<and> pd_post_fingerprint pd \<noteq> []
        \<and> (\<forall>e \<in> set (v_originals u (mp_plan_id plan)). doc_key (jo_document e) \<noteq> doc_key d)"
      using original_ok [OF u(1), of "mp_plan_id plan" d "pd_post_fingerprint pd"] u(2)
      by (simp add: m_def entry_for_def)
    have entry: "journal_entry_ok H plan v ?e" if "pd_post_fingerprint pd \<noteq> []"
      using that pd by (auto simp: journal_entry_ok_def entry_for_def)
    have sound: "journal_sound H plan v ?u'" "v_docs ?u' = v_docs v1" "v_states ?u' = v_states v1"
        "K \<subseteq> entry_key ` set (v_originals ?u' (mp_plan_id plan))"
      using or u journal_sound_put [OF u(5) entry] by (auto simp: entry_for_def)
    have "doc_key d \<in> entry_key ` set (v_originals ?u' (mp_plan_id plan))" if "fst (m w) = Inr r" for r
      using original_recorded [OF u(1), of "mp_plan_id plan" d "pd_post_fingerprint pd"] that
      by (force simp: m_def entry_key_def)
    with sound good show ?thesis by (auto simp: journaling_def at_def)
  qed
  have c: "fst s = c" if "journaling H plan v c v1 K s" for s
    using that by (auto simp: journaling_def at_def)
  show ?thesis
    using step c unfolding holds_iff journal_original_def fst_conv post option.case on_world_split m_def [symmetric]
    by (metis prod.collapse prod.inject)
qed

lemma journal_originals_rule:
  assumes "\<And>ch. ch \<in> set changes \<Longrightarrow> \<exists>pd f. changed plan pd \<and> v_docs v (pd_key pd) = Some (fst ch)
      \<and> doc_key (fst ch) = pd_key pd \<and> doc_writable (fst ch) \<and> document_fingerprint H (fst ch) = Inr f"
    and shape: "distinct (map pd_key (mp_documents plan))"
  shows "holds (journaling H plan v c v1 {}) (fold_action (journal_original P plan) changes ())
    (\<lambda>u. journaling H plan v c v1 (doc_key ` fst ` set changes)) (\<lambda>e. journaling H plan v c v1 {})"
proof -
  have "holds (journaling H plan v c v1 (doc_key ` fst ` set ([] :: (document \<times> json) list))) (fold_action (journal_original P plan) changes ())
    (\<lambda>u. journaling H plan v c v1 (doc_key ` fst ` set changes)) (\<lambda>e. journaling H plan v c v1 {})"
  proof (rule holds_fold_prefix [where I = "\<lambda>(pre :: (document \<times> json) list) (u :: unit). journaling H plan v c v1 (doc_key ` fst ` set pre)"])
    fix pre ch post u
    assume split: "changes = pre @ ch # post"
    obtain d payload where ch: "ch = (d, payload)" by force
    obtain pd f where pd: "changed plan pd" "v_docs v (pd_key pd) = Some d" "doc_key d = pd_key pd" "doc_writable d"
      "document_fingerprint H d = Inr f" using assms(1) [of ch] split ch by auto
    show "holds (journaling H plan v c v1 (doc_key ` fst ` set pre)) (journal_original P plan ch u)
      (\<lambda>u. journaling H plan v c v1 (doc_key ` fst ` set (pre @ [ch]))) (\<lambda>e. journaling H plan v c v1 {})"
      using journal_original_rule [OF pd shape] ch by simp
  qed
  then show ?thesis by simp
qed

section \<open>The end of a run\<close>

text \<open>The state of a run once its journal is complete: the writes stay within \<open>A\<close>.\<close>

definition armed where
  "armed H plan v A v1 \<longleftrightarrow> v_docs v1 = v_docs v \<and> v_states v1 (mp_plan_id plan) = Some APPLYING
     \<and> journal_sound H plan v v1 \<and> journal_covers plan v1"

lemma armed_run_state:
  assumes "armed H plan v A v1" "allowed A v1 u" "v_originals u = v_originals v1"
    "state_settled parse H plan v u"
  shows "run_state parse H plan v A c u"
  using assms allowed_cong [of v1 v u u A]
  by (auto simp: run_state_def armed_def journal_ready_def journal_sound_def journal_covers_def)

lemma armed_unfinished:
  assumes "armed H plan v A v1" "v_states u = v_states v1"
  shows "state_settled parse H plan v u"
  using assms by (simp add: armed_def state_settled_def)

lemma undo_apply_rule:
  assumes armed: "armed H plan v A v1" and orig: "inventory_is H v1 names originals"
    and att: "\<And>d post. (d, post) \<in> set att \<Longrightarrow> may_write A v1 (doc_key d) (doc_payload d) \<and> doc_provider d \<in> set (co_providers c)"
    and A: "\<And>key d. A key d \<Longrightarrow> fst key \<in> names"
  shows "holds (within c v1 A) (undo_apply P H plan originals att) Q (run_raised parse H plan v A)"
proof -
  let ?restored = "\<lambda>failures s. \<exists>u. at c u s \<and> v_states u = v_states v1 \<and> v_originals u = v_originals v1 \<and> allowed A v1 u
       \<and> (failures = [] \<longrightarrow> same_content H v1 u)"
  have restore: "holds (within c v1 A) (restore_originals P H att originals True) ?restored (run_raised parse H plan v A)"
    by (rule holds_mono [OF restore_originals_rule [OF orig att A]]) auto
  show ?thesis
    unfolding undo_apply_def
proof (rule holds_andthen [OF restore])
  fix failures
  let ?id = "mp_plan_id plan"
  let ?R = "run_raised parse H plan v A"
  let ?m = "if failures \<noteq> [] then
       andthen (coordinator_state ?id BLOCKED) (\<lambda>_. andthen (coordinator_blocked True) (\<lambda>_.
       andthen (on_world (set_state P ?id BLOCKED)) (\<lambda>_. throw (MRestoreFailed failures))))
     else andthen (coordinator_state ?id FAILED) (\<lambda>_. andthen (on_world (set_state P ?id FAILED)) (\<lambda>_.
       throw (MApplyFailed (att \<noteq> []))))"
  show "holds (\<lambda>s. \<exists>u. at c u s \<and> v_states u = v_states v1 \<and> v_originals u = v_originals v1 \<and> allowed A v1 u
       \<and> (failures = [] \<longrightarrow> same_content H v1 u)) ?m Q ?R"
  proof (rule holds_pre)
    fix s
    assume "\<exists>u. at c u s \<and> v_states u = v_states v1 \<and> v_originals u = v_originals v1 \<and> allowed A v1 u
       \<and> (failures = [] \<longrightarrow> same_content H v1 u)"
    then obtain u where u: "at c u s" "v_states u = v_states v1" "v_originals u = v_originals v1" "allowed A v1 u"
      "failures = [] \<longrightarrow> same_content H v1 u" by blast
    have docs: "v_docs v1 = v_docs v" using armed by (simp add: armed_def)
    have raised: "run_raised parse H plan v A e t" if "at c' u' t" "v_docs u' = v_docs u" "v_originals u' = v_originals u"
      "state_settled parse H plan v u'" "co_blocked c' \<or> failures = []" for c' u' e t
    proof -
      have "allowed A v1 u'" by (rule allowed_cong [OF refl that(2) [symmetric] u(4)])
      then have "run_state parse H plan v A c' u'" using armed_run_state [OF armed] that u(3) by simp
      moreover have "co_blocked c' \<or> same_content H v u'"
        using that(2,5) u(5) same_content_cong [OF docs, of u u'] by auto
      ultimately show ?thesis using that(1) unfolding run_raised_def by blast
    qed
    have unf: "state_settled parse H plan v u"  "state_settled parse H plan v (put_state u ?id BLOCKED)"
      using armed_unfinished [OF armed u(2)] by (simp_all add: state_settled_def)
    have failed: "state_settled parse H plan v (put_state u ?id FAILED)" if "failures = []"
      using u(5) that same_content_cong [OF docs, of u "put_state u ?id FAILED"] by (simp add: state_settled_def)
    show "holds (\<lambda>t. t = s) ?m Q ?R"
    proof (cases "failures = []")
      case True
      have "holds (at c u) (andthen (coordinator_state ?id FAILED) (\<lambda>_. andthen (on_world (set_state P ?id FAILED)) (\<lambda>_.
          throw (MApplyFailed (att \<noteq> []))))) Q ?R"
        unfolding coordinator_state_def
        by (rule holds_andthen [OF at_coordinator], rule at_set_state_throw; erule raised)
           (simp_all add: unf failed True)
      from holds_state [OF this u(1)] show ?thesis using True by simp
    next
      case False
      have "holds (at c u) (andthen (coordinator_state ?id BLOCKED) (\<lambda>_. andthen (coordinator_blocked True) (\<lambda>_.
         andthen (on_world (set_state P ?id BLOCKED)) (\<lambda>_. throw (MRestoreFailed failures))))) Q ?R"
        unfolding coordinator_state_def coordinator_blocked_def
        by (rule holds_andthen [OF at_coordinator], rule holds_andthen [OF at_coordinator],
            rule at_set_state_throw; erule raised) (simp_all add: unf)
      from holds_state [OF this u(1)] show ?thesis using False by simp
    qed
  qed
qed
qed

lemma complete_apply_rule:
  assumes armed: "armed H plan v A v1" and u: "v_states u = v_states v1" "v_originals u = v_originals v1"
      "allowed A v1 u" and applied: "applied_view parse H plan u" and final: "\<exists>ds. snapshots H final = Inr ds"
  shows "holds (at c u) (complete_apply P H plan changes final) (run_returned parse H plan v A) (run_raised parse H plan v A)"
proof -
  let ?id = "mp_plan_id plan"
  have state: "run_state parse H plan v A c' u'" if "v_docs u' = v_docs u" "v_originals u' = v_originals u"
    "state_settled parse H plan v u'" for c' u'
    using armed_run_state [OF armed allowed_cong [OF refl that(1) [symmetric] u(3)]] that u(2) by simp
  have unf: "state_settled parse H plan v u" using armed_unfinished [OF armed u(1)] .
  have put: "state_settled parse H plan v (put_state u ?id COMPLETE)" "state_settled parse H plan v (put_state u' ?id BLOCKED)"
    for u' using applied by (auto simp: state_settled_def intro: applied_view_cong [of u])
  have raised: "run_raised parse H plan v A e s" if "at c' u' s" "v_docs u' = v_docs u" "v_originals u' = v_originals u"
    "state_settled parse H plan v u'" "co_blocked c'" for c' u' e s
    using that state unfolding run_raised_def by blast
  let ?bad = "\<lambda>s. at c u s \<or> at c (put_state u ?id COMPLETE) s"
  let ?block = "andthen (coordinator_state ?id BLOCKED) (\<lambda>_. andthen (coordinator_blocked True) (\<lambda>_.
     andthen (attempt (on_world (set_state P ?id BLOCKED))) (\<lambda>_. throw (MRestoreFailed []))))"
  have block: "holds (at c u') ?block Q (run_raised parse H plan v A)"
    if "v_docs u' = v_docs u" "v_originals u' = v_originals u" "state_settled parse H plan v u'" for u' Q
  proof -
    let ?c = "coordinator_blocked True"
    have a: "holds (at c' u') (attempt (on_world (set_state P ?id BLOCKED)))
        (\<lambda>_ s. at c' u' s \<or> at c' (put_state u' ?id BLOCKED) s) E" for c' E
      by (rule holds_attempt [OF at_set_state]) auto
    show ?thesis
      unfolding coordinator_state_def coordinator_blocked_def
      by (rule holds_andthen [OF at_coordinator], rule holds_andthen [OF at_coordinator], rule holds_andthen [OF a],
          rule holds_throw, elim disjE; erule raised) (simp_all add: that put)
  qed
  have handler: "holds ?bad ?block Q (run_raised parse H plan v A)" for Q
    using block [of u Q, OF refl refl unf] block [of "put_state u ?id COMPLETE" Q] put by (simp add: holds_iff)
  have persist: "holds (at c u) (handle (andthen (on_world (record_completion P x)) (\<lambda>_. on_world (set_state P ?id COMPLETE)))
      (\<lambda>e. ?block)) (\<lambda>_. at c (put_state u ?id COMPLETE)) (run_raised parse H plan v A)" for x
  proof (rule holds_handle)
    show "holds (at c u) (andthen (on_world (record_completion P x)) (\<lambda>_. on_world (set_state P ?id COMPLETE)))
        (\<lambda>_. at c (put_state u ?id COMPLETE)) (\<lambda>_. ?bad)"
    proof (rule holds_andthen)
      show "holds (at c u) (on_world (record_completion P x)) (\<lambda>_. at c u) (\<lambda>_. ?bad)"
        by (rule holds_mono [OF at_record_completion]) auto
    qed (rule at_set_state)
    show "holds ?bad ?block (\<lambda>_. at c (put_state u ?id COMPLETE)) (run_raised parse H plan v A)" by (rule handler)
  qed
  have finished: "run_returned parse H plan v A r s" if "at c' (put_state u ?id COMPLETE) s" for c' r s
    using that state [of "put_state u ?id COMPLETE"] put applied_view_cong [OF _ applied]
    unfolding run_returned_def by (auto intro!: exI [of _ c'] exI [of _ "put_state u ?id COMPLETE"])
  show ?thesis
    unfolding complete_apply_def Let_def coordinator_state_def
    by (rule holds_sum_step, rule holds_andthen [OF persist [unfolded coordinator_state_def]], rule holds_andthen [OF at_coordinator],
        rule holds_andthen [OF at_coordinator], rule holds_ret, erule finished) (use final in auto)
qed

lemma snapshots_defined:
  assumes "inventory_is H u names items"
  shows "\<exists>ds. snapshots H items = Inr ds"
proof -
  have "\<exists>x. snapshot H d = Inr x" if "(key, d) \<in> set items" for key d
  proof -
    have "map_of items key = Some d" using that assms by (simp add: inventory_is_def map_of_dict_ok)
    from inventory_isD(3) [OF assms this] show ?thesis by (auto simp: snapshot_def)
  qed
  then show ?thesis
    unfolding snapshots_def by (intro sum_all_defined) auto
qed

lemma inventory_is_cong: "v_docs v = v_docs v' \<Longrightarrow> inventory_is H v names items \<Longrightarrow> inventory_is H v' names items"
  by (simp add: inventory_is_def)

lemma verify_applied_rule:
  assumes "distinct (mp_providers plan)"
  shows "holds (at c u) (verify_applied P parse H plan)
    (\<lambda>final s. at c u s \<and> inventory_is H u (set (mp_providers plan)) final \<and> assert_post_apply parse H plan final = Inr ())
    (\<lambda>e. at c u)"
  unfolding verify_applied_def
proof (rule holds_step [OF fetch_inventory_rule [OF assms]])
  fix items
  assume items: "inventory_is H u (set (mp_providers plan)) items"
  show "holds (at c u) (andthen (from_sum (assert_post_apply parse H plan items)) (\<lambda>_.
      andthen (assert_authority P plan) (\<lambda>_. ret items)))
    (\<lambda>final s. at c u s \<and> inventory_is H u (set (mp_providers plan)) final \<and> assert_post_apply parse H plan final = Inr ())
    (\<lambda>e. at c u)"
    by (rule holds_sum_step, rule holds_andthen [OF assert_authority_rule])
       (use items in \<open>auto intro!: holds_ret\<close>)
qed

text \<open>Writing, verifying and completing or undoing, once the originals are journaled.\<close>

definition changes_ready where
  "changes_ready parse H plan v items changes \<longleftrightarrow> inventory_is H v (set (mp_providers plan)) items
     \<and> (\<forall>ch \<in> set changes. change_ok parse plan items ch)"

lemma change_ready:
  assumes "changes_ready parse H plan v items changes" "(d, payload) \<in> set changes" "admits parse plan v A"
  shows "may_write A v (doc_key d) payload \<and> may_write A v (doc_key d) (doc_payload d) \<and> doc_provider d \<in> set (mp_providers plan)"
proof -
  obtain pd target n where pd: "changed plan pd" "map_of items (pd_key pd) = Some d"
    "map_of (rev (mp_provider_targets plan)) (pd_provider pd) = Some target"
    "replace_exact_scalars parse (doc_payload d) (mp_old_entity_id plan) target (Some (pd_provider pd)) = Inr (payload, n)"
    using assms(1,2) by (auto simp: changes_ready_def change_ok_def)
  have "inventory_is H v (set (mp_providers plan)) items" using assms(1) by (simp add: changes_ready_def)
  from inventory_isD(3) [OF this pd(2)]
  have d: "doc_key d = pd_key pd" "v_docs v (pd_key pd) = Some d" "fst (pd_key pd) \<in> set (mp_providers plan)" by auto
  then have "doc_provider d \<in> set (mp_providers plan)" by (metis doc_key_def fst_conv)
  then show ?thesis using assms(3) pd d unfolding admits_def by metis
qed

lemma writes_rule:
  assumes shape: "plan_shape c plan" and A: "admits parse plan v A" and ready: "changes_ready parse H plan v items changes"
    and armed: "armed H plan v A v1"
  shows "holds (at c v1)
    (andthen (write_changes P H plan changes []) (\<lambda>(r, attempted). case r of
        Inl e \<Rightarrow> undo_apply P H plan items attempted
      | Inr _ \<Rightarrow> andthen (attempt (verify_applied P parse H plan)) (\<lambda>verified. case verified of
          Inl e \<Rightarrow> undo_apply P H plan items attempted
        | Inr final \<Rightarrow> complete_apply P H plan changes final)))
    (run_returned parse H plan v A) (run_raised parse H plan v A)"
    (is "holds _ _ ?Q ?E")
proof -
  have docs: "v_docs v1 = v_docs v" using armed by (simp add: armed_def)
  have may: "may_write A v1 key payload" if "may_write A v key payload" for key payload
    using that docs by (simp add: may_write_def)
  have ready': "may_write A v1 (doc_key d) payload \<and> may_write A v1 (doc_key d) (doc_payload d)
      \<and> doc_provider d \<in> set (co_providers c)" if "(d, payload) \<in> set changes" for d payload
    using change_ready [OF ready that A] may shape by (auto simp: plan_shape_def)
  have attempts: "may_write A v1 (doc_key d) (doc_payload d) \<and> doc_provider d \<in> set (co_providers c)"
    if "(d, post) \<in> set att" "set att \<subseteq> planned_attempts plan changes" for d post att
    using that ready' by (force simp: planned_attempts_def)
  have items: "inventory_is H v1 (set (mp_providers plan)) items"
    using ready inventory_is_cong [OF docs [symmetric]] by (simp add: changes_ready_def)
  have inA: "fst key \<in> set (mp_providers plan)" if Akd: "A key d" for key d
  proof -
    obtain pd where "changed plan pd" "pd_key pd = key" using A Akd unfolding admits_def by blast
    then show ?thesis using shape by (auto simp: plan_shape_def changed_def pd_key_def)
  qed
  have undo: "holds (within c v1 A) (undo_apply P H plan items att) ?Q ?E"
    if "set att \<subseteq> planned_attempts plan changes" for att
    by (rule undo_apply_rule [OF armed items]) (use attempts that inA in auto)
  have "holds (within c v1 A)
      (andthen (attempt (verify_applied P parse H plan)) (\<lambda>verified. case verified of
          Inl e \<Rightarrow> undo_apply P H plan items att
        | Inr final \<Rightarrow> complete_apply P H plan changes final)) ?Q ?E"
    if att: "set att \<subseteq> planned_attempts plan changes" for att
  proof (rule within_pre)
    fix u
    assume u: "v_states u = v_states v1" "v_originals u = v_originals v1" "allowed A v1 u"
    have pr: "distinct (mp_providers plan)" "distinct (map pd_key (mp_documents plan))" using shape by (auto simp: plan_shape_def)
    have ver: "holds (at c u) (attempt (verify_applied P parse H plan))
        (\<lambda>r s. at c u s \<and> (\<forall>final. r = Inr final \<longrightarrow> inventory_is H u (set (mp_providers plan)) final
           \<and> assert_post_apply parse H plan final = Inr ())) E" for E
      by (rule holds_attempt [OF verify_applied_rule [OF pr(1)]]) auto
    show "holds (at c u) (andthen (attempt (verify_applied P parse H plan)) (\<lambda>verified. case verified of
          Inl e \<Rightarrow> undo_apply P H plan items att
        | Inr final \<Rightarrow> complete_apply P H plan changes final)) ?Q ?E"
    proof (rule holds_step [OF ver])
      fix r :: "mig_error + inventory"
      assume r: "\<forall>final. r = Inr final \<longrightarrow> inventory_is H u (set (mp_providers plan)) final
           \<and> assert_post_apply parse H plan final = Inr ()"
      show "holds (at c u) (case r of Inl e \<Rightarrow> undo_apply P H plan items att
          | Inr final \<Rightarrow> complete_apply P H plan changes final) ?Q ?E"
      proof (cases r)
        case (Inl e)
        have "within c v1 A s" if "at c u s" for s using that u unfolding within_def by blast
        then show ?thesis unfolding Inl sum.case by (intro holds_mono [OF undo [OF att]]) auto
      next
        case (Inr final)
        have final: "inventory_is H u (set (mp_providers plan)) final" "assert_post_apply parse H plan final = Inr ()"
          using r Inr by auto
        show ?thesis unfolding Inr sum.case
          by (rule complete_apply_rule [OF armed u assert_post_apply_view [OF final(2,1) pr(2)] snapshots_defined [OF final(1)]])
      qed
    qed
  qed
  note verified = this
  have "holds (within c v1 A) (write_changes P H plan changes [])
      (\<lambda>r s. within c v1 A s \<and> set (snd r) \<subseteq> planned_attempts plan changes) ?E"
    by (rule holds_mono [OF write_changes_rule]) (use ready' in auto)
  then have "holds (within c v1 A) (andthen (write_changes P H plan changes []) (\<lambda>(r, attempted). case r of
        Inl e \<Rightarrow> undo_apply P H plan items attempted
      | Inr _ \<Rightarrow> andthen (attempt (verify_applied P parse H plan)) (\<lambda>verified. case verified of
          Inl e \<Rightarrow> undo_apply P H plan items attempted
        | Inr final \<Rightarrow> complete_apply P H plan changes final))) ?Q ?E"
  proof (rule holds_step)
    fix r :: "(mig_error + unit) \<times> attempted"
    assume r: "set (snd r) \<subseteq> planned_attempts plan changes"
    obtain x att where x: "r = (x, att)" by force
    with r have att: "set att \<subseteq> planned_attempts plan changes" by simp
    show "holds (within c v1 A) (case r of (r, attempted) \<Rightarrow> (case r of
        Inl e \<Rightarrow> undo_apply P H plan items attempted
      | Inr _ \<Rightarrow> andthen (attempt (verify_applied P parse H plan)) (\<lambda>verified. case verified of
          Inl e \<Rightarrow> undo_apply P H plan items attempted
        | Inr final \<Rightarrow> complete_apply P H plan changes final))) ?Q ?E"
      unfolding x prod.case using undo [OF att] verified [OF att] by (cases x) simp_all
  qed
  then show ?thesis by (rule holds_mono) (auto intro: at_within)
qed

section \<open>A whole run\<close>

lemma journaling_raised:
  assumes "at c u s" "v_docs u = v_docs v" "journal_sound H plan v u" "v_states u (mp_plan_id plan) \<noteq> Some COMPLETE"
  shows "run_raised parse H plan v A e s"
  unfolding run_raised_def run_state_def
  using assms by (auto intro!: exI [of _ c] exI [of _ u] simp: allowed_docs same_content_docs state_settled_def journal_ready_def)

lemma run_plan_rule:
  assumes shape: "plan_shape c plan" and A: "admits parse plan v A" and fresh: "untouched plan v v"
  shows "holds (at c v) (run_plan P parse H plan) (run_returned parse H plan v A) (run_raised parse H plan v A)"
    (is "holds _ _ ?Q ?E")
proof -
  let ?id = "mp_plan_id plan"
  have pr: "distinct (mp_providers plan)" "distinct (map pd_key (mp_documents plan))" using shape by (auto simp: plan_shape_def)
  have still: "?E e s" if "at c' u s" "v_docs u = v_docs v" "v_originals u = v_originals v"
    "v_states u ?id \<noteq> Some COMPLETE" for c' u e s
    using untouched_raised that fresh by (simp add: untouched_def)
  have notyet: "v_states v ?id \<noteq> Some COMPLETE" using fresh by (simp add: untouched_def)
  have pre: "holds (at c v) (handle (preflight P parse H plan) (\<lambda>e. andthen (coordinator_state ?id BLOCKED) (\<lambda>_.
        andthen (on_world (set_state P ?id FAILED)) (\<lambda>_. throw MStalePlan))))
      (\<lambda>items s. at c v s \<and> inventory_is H v (set (mp_providers plan)) items
         \<and> assert_preflight parse H plan items = Inr ()) ?E"
    unfolding coordinator_state_def
    by (rule holds_handle [OF preflight_rule [OF pr(1)]], rule holds_andthen [OF at_coordinator],
        rule at_set_state_throw; erule still) (simp_all add: notyet)
  define c1 where "c1 = c\<lparr>co_states := dict_put (co_states c) ?id APPLYING\<rparr>"
  define v1 where "v1 = put_state v ?id APPLYING"
  have start: "journaling H plan v c1 v1 {} s" if "at c1 v1 s" for s
    using that fresh unfolding journaling_def untouched_def
    by (intro exI [of _ v1]) (simp add: v1_def journal_sound_def)
  have "holds (at c1 v) (on_world (set_state P ?id APPLYING)) (\<lambda>_. at c1 v1) (\<lambda>e s. at c1 v s \<or> at c1 v1 s)"
    unfolding v1_def by (rule at_set_state)
  then have applying: "holds (at c1 v) (on_world (set_state P ?id APPLYING)) (\<lambda>_. journaling H plan v c1 v1 {}) ?E"
    by (rule holds_mono) (use start still [of c1 v] still [of c1 v1] notyet in \<open>auto simp: v1_def\<close>)
  have recorded: "holds (journaling H plan v c1 v1 {}) (handle (fold_action (journal_original P plan) changes ()) (\<lambda>e.
        andthen (coordinator_state ?id FAILED) (\<lambda>_. andthen (on_world (set_state P ?id FAILED)) (\<lambda>_. throw (MApplyFailed False)))))
      (\<lambda>u. journaling H plan v c1 v1 (doc_key ` fst ` set changes)) ?E"
    if "\<And>ch. ch \<in> set changes \<Longrightarrow> \<exists>pd f. changed plan pd \<and> v_docs v (pd_key pd) = Some (fst ch)
      \<and> doc_key (fst ch) = pd_key pd \<and> doc_writable (fst ch) \<and> document_fingerprint H (fst ch) = Inr f" for changes
  proof (rule holds_handle [OF journal_originals_rule [OF that pr(2)]])
    show "holds (journaling H plan v c1 v1 {}) (andthen (coordinator_state ?id FAILED) (\<lambda>_.
        andthen (on_world (set_state P ?id FAILED)) (\<lambda>_. throw (MApplyFailed False)))) Q ?E" for Q
    proof (rule holds_pre)
      fix s
      assume "journaling H plan v c1 v1 {} s"
      then obtain u where u: "at c1 u s" "v_docs u = v_docs v" "v_states u ?id = Some APPLYING" "journal_sound H plan v u"
        by (auto simp: journaling_def v1_def)
      have "holds (at c1 u) (andthen (coordinator_state ?id FAILED) (\<lambda>_.
          andthen (on_world (set_state P ?id FAILED)) (\<lambda>_. throw (MApplyFailed False)))) Q ?E"
        unfolding coordinator_state_def
        by (rule holds_andthen [OF at_coordinator], rule at_set_state_throw; erule journaling_raised)
           (use u in \<open>auto simp: journal_sound_def\<close>)
      from holds_state [OF this u(1)] show "holds (\<lambda>t. t = s) (andthen (coordinator_state ?id FAILED) (\<lambda>_.
          andthen (on_world (set_state P ?id FAILED)) (\<lambda>_. throw (MApplyFailed False)))) Q ?E" .
    qed
  qed
  show ?thesis
    unfolding run_plan_def Let_def
  proof (rule holds_step [OF pre], rule holds_step [OF holds_mono [OF planned_changes_rule]])
    fix items changes
    assume items: "inventory_is H v (set (mp_providers plan)) items \<and> assert_preflight parse H plan items = Inr ()"
      and changes: "(\<forall>ch \<in> set changes. change_ok parse plan items ch)
       \<and> (\<forall>pd. changed plan pd \<longrightarrow> (\<exists>ch \<in> set changes. map_of items (pd_key pd) = Some (fst ch)))"
    have ready: "changes_ready parse H plan v items changes" using items changes by (simp add: changes_ready_def)
    have known: "\<exists>pd f. changed plan pd \<and> v_docs v (pd_key pd) = Some (fst ch)
      \<and> doc_key (fst ch) = pd_key pd \<and> doc_writable (fst ch) \<and> document_fingerprint H (fst ch) = Inr f"
      if ch: "ch \<in> set changes" for ch
    proof -
      obtain pd where pd: "changed plan pd" "map_of items (pd_key pd) = Some (fst ch)"
        using ch changes unfolding change_ok_def by blast
      then show ?thesis
        using assert_preflight_view [OF conjunct2 [OF items] conjunct1 [OF items] pr(2), of pd] by (auto simp: changed_def)
    qed
    have covers: "pd_key pd \<in> doc_key ` fst ` set changes" if pd: "changed plan pd" for pd
    proof -
      obtain ch where ch: "ch \<in> set changes" "map_of items (pd_key pd) = Some (fst ch)"
        using pd changes by blast
      then show ?thesis using inventory_isD(3) [OF conjunct1 [OF items] ch(2)] by (metis image_eqI)
    qed
    have armed: "\<exists>v2. at c1 v2 s \<and> armed H plan v A v2"
      if J: "journaling H plan v c1 v1 (doc_key ` fst ` set changes) s" for s
    proof -
      obtain u where u: "at c1 u s" "v_docs u = v_docs v1" "v_states u = v_states v1" "journal_sound H plan v u"
        "doc_key ` fst ` set changes \<subseteq> entry_key ` set (v_originals u ?id)"
        using J unfolding journaling_def by blast
      have "journal_covers plan u" unfolding journal_covers_def using covers u(5) by (meson subsetD)
      then have "armed H plan v A u" using u by (simp add: armed_def v1_def)
      with u(1) show ?thesis by blast
    qed
    have shape1: "plan_shape c1 plan" using shape by (simp add: plan_shape_def c1_def)
    let ?rest = "andthen (write_changes P H plan changes []) (\<lambda>(r, attempted). case r of
        Inl e \<Rightarrow> undo_apply P H plan items attempted
      | Inr _ \<Rightarrow> andthen (attempt (verify_applied P parse H plan)) (\<lambda>verified. case verified of
          Inl e \<Rightarrow> undo_apply P H plan items attempted
        | Inr final \<Rightarrow> complete_apply P H plan changes final))"
    have rest: "holds (journaling H plan v c1 v1 (doc_key ` fst ` set changes)) ?rest ?Q ?E"
    proof (rule holds_pre)
      fix s
      assume "journaling H plan v c1 v1 (doc_key ` fst ` set changes) s"
      then obtain v2 where v2: "at c1 v2 s" "armed H plan v A v2" using armed by blast
      show "holds (\<lambda>t. t = s) ?rest ?Q ?E"
        by (rule holds_state [OF writes_rule [OF shape1 A ready v2(2)] v2(1)])
    qed
    show "holds (at c v) (andthen (coordinator_state ?id APPLYING) (\<lambda>_. andthen (on_world (set_state P ?id APPLYING)) (\<lambda>_.
        andthen (handle (fold_action (journal_original P plan) changes ()) (\<lambda>e.
          andthen (coordinator_state ?id FAILED) (\<lambda>_. andthen (on_world (set_state P ?id FAILED)) (\<lambda>_.
            throw (MApplyFailed False))))) (\<lambda>_. ?rest)))) ?Q ?E"
      unfolding coordinator_state_def
      by (rule holds_andthen [OF at_coordinator], fold c1_def, rule holds_andthen [OF applying],
          rule holds_andthen [OF recorded [unfolded coordinator_state_def, OF known]], assumption, rule rest)
  qed (auto intro: still [OF _ refl refl notyet])
qed

end

end
