(* ===== verification/Migration_Types.thy ===== *)
theory Migration_Types
  imports Migration_Run
begin

text \<open>
  The invariant of a coordinator, whatever its providers, journal and authority do: every issued plan
  is well formed, is filed under its own identifier and has a state, and a plan whose state is
  \<open>COMPLETE\<close> has the completion a replay returns.
\<close>

definition completion_record_ok :: "string \<Rightarrow> completion_record \<Rightarrow> bool" where
  "completion_record_ok plan_id cr \<longleftrightarrow> mr_plan_id (cr_result cr) = plan_id \<and> mr_state (cr_result cr) = COMPLETE
     \<and> \<not> mr_idempotent (cr_result cr)"

definition coordinator_ok :: "coordinator \<Rightarrow> bool" where
  "coordinator_ok c \<longleftrightarrow> dict_ok (co_plans c) \<and> dict_ok (co_states c) \<and> dict_ok (co_completed c)
     \<and> list_all (\<lambda>(i, plan). mp_plan_id plan = i \<and> i \<noteq> [] \<and> plan_shape c plan \<and> map_of (co_states c) i \<noteq> None) (co_plans c)
     \<and> list_all (\<lambda>(i, st). st = COMPLETE \<longrightarrow> map_of (co_completed c) i \<noteq> None) (co_states c)
     \<and> list_all (\<lambda>(i, cr). completion_record_ok i cr) (co_completed c)"

lemma coordinator_ok_iff:
  "coordinator_ok c \<longleftrightarrow> dict_ok (co_plans c) \<and> dict_ok (co_states c) \<and> dict_ok (co_completed c)
     \<and> (\<forall>i plan. map_of (co_plans c) i = Some plan \<longrightarrow>
          mp_plan_id plan = i \<and> i \<noteq> [] \<and> plan_shape c plan \<and> map_of (co_states c) i \<noteq> None)
     \<and> (\<forall>i. map_of (co_states c) i = Some COMPLETE \<longrightarrow> map_of (co_completed c) i \<noteq> None)
     \<and> (\<forall>i cr. map_of (co_completed c) i = Some cr \<longrightarrow> completion_record_ok i cr)"
proof -
  have all: "list_all (\<lambda>(k, v). Q k v) d \<longleftrightarrow> (\<forall>k v. map_of d k = Some v \<longrightarrow> Q k v)"
    if "dict_ok d" for d :: "(string, 'x) dict" and Q
    using that by (auto simp: list_all_iff map_of_dict_ok)
  show ?thesis
    unfolding coordinator_ok_def
    by (cases "dict_ok (co_plans c) \<and> dict_ok (co_states c) \<and> dict_ok (co_completed c)", simp only: all, blast, blast)
qed

lemma coordinator_okD:
  assumes "coordinator_ok c"
  shows "map_of (co_plans c) i = Some plan \<Longrightarrow>
      mp_plan_id plan = i \<and> i \<noteq> [] \<and> plan_shape c plan \<and> map_of (co_states c) i \<noteq> None"
    "map_of (co_states c) i = Some COMPLETE \<Longrightarrow> map_of (co_completed c) i \<noteq> None"
    "map_of (co_completed c) i = Some cr \<Longrightarrow> completion_record_ok i cr"
  using assms unfolding coordinator_ok_iff by blast+

lemma plan_shape_cong: "co_providers c = co_providers c' \<Longrightarrow> plan_shape c plan = plan_shape c' plan"
  by (simp add: plan_shape_def)

section \<open>Changes of a coordinator\<close>

text \<open>Every operation preserves it, and never changes the providers.\<close>

definition sane :: "string list \<Rightarrow> 'w system \<Rightarrow> bool" where
  "sane ps s \<longleftrightarrow> coordinator_ok (fst s) \<and> co_providers (fst s) = ps"

definition preserves :: "string list \<Rightarrow> ('w system, mig_error, 'a) action \<Rightarrow> bool" where
  "preserves ps m \<longleftrightarrow> holds (sane ps) m (\<lambda>_. sane ps) (\<lambda>_. sane ps)"

named_theorems preserves_intros

lemma preserves_basic [preserves_intros]:
  "preserves ps (ret x)" "preserves ps (throw e)" "preserves ps (from_sum r)" "preserves ps (check b e)"
  "preserves ps (reads f)" "preserves ps (on_world w)"
  by (auto simp: preserves_def holds_def ret_def throw_def from_sum_def check_def reads_def on_world_def sane_def
      split: sum.splits prod.splits)

lemma preserves_andthen [preserves_intros]:
  "preserves ps m \<Longrightarrow> (\<And>x. preserves ps (f x)) \<Longrightarrow> preserves ps (andthen m f)"
  unfolding preserves_def by (rule holds_andthen)

lemma preserves_handle [preserves_intros]:
  "preserves ps m \<Longrightarrow> (\<And>e. preserves ps (h e)) \<Longrightarrow> preserves ps (handle m h)"
  unfolding preserves_def by (rule holds_handle)

lemma preserves_attempt [preserves_intros]: "preserves ps m \<Longrightarrow> preserves ps (attempt m)"
  unfolding preserves_def by (rule holds_attempt) auto

lemma preserves_splits [preserves_intros]:
  "(b \<Longrightarrow> preserves ps m) \<Longrightarrow> (\<not> b \<Longrightarrow> preserves ps n) \<Longrightarrow> preserves ps (if b then m else n)"
  "(x = None \<Longrightarrow> preserves ps m) \<Longrightarrow> (\<And>y. x = Some y \<Longrightarrow> preserves ps (f y)) \<Longrightarrow>
     preserves ps (case x of None \<Rightarrow> m | Some y \<Rightarrow> f y)"
  "(\<And>e. preserves ps (g e)) \<Longrightarrow> (\<And>y. preserves ps (h y)) \<Longrightarrow> preserves ps (case r of Inl e \<Rightarrow> g e | Inr y \<Rightarrow> h y)"
  "(\<And>a b. preserves ps (k a b)) \<Longrightarrow> preserves ps (case p of (a, b) \<Rightarrow> k a b)"
  by (auto split: option.split sum.split prod.split)

lemma preserves_fold [preserves_intros]:
  "(\<And>x acc. preserves ps (f x acc)) \<Longrightarrow> preserves ps (fold_action f xs acc)"
  unfolding preserves_def by (rule holds_fold_action)

lemma preserves_coordinator:
  "(\<And>c. coordinator_ok c \<Longrightarrow> co_providers c = ps \<Longrightarrow> coordinator_ok (f c) \<and> co_providers (f c) = ps)
   \<Longrightarrow> preserves ps (on_coordinator f)"
  by (auto simp: preserves_def holds_def on_coordinator_def sane_def)

lemma coordinator_ok_state:
  assumes "coordinator_ok c" "st = COMPLETE \<Longrightarrow> map_of (co_completed c) i \<noteq> None"
  shows "coordinator_ok (c\<lparr>co_states := dict_put (co_states c) i st\<rparr>)"
  using assms unfolding coordinator_ok_iff by (auto simp: plan_shape_def)

lemma preserves_state [preserves_intros]: "st \<noteq> COMPLETE \<Longrightarrow> preserves ps (coordinator_state i st)"
  unfolding coordinator_state_def by (rule preserves_coordinator, intro conjI coordinator_ok_state) simp_all

lemma preserves_blocked [preserves_intros]: "preserves ps (coordinator_blocked b)"
  unfolding coordinator_blocked_def
  by (rule preserves_coordinator) (auto simp: coordinator_ok_def plan_shape_def list_all_iff)

lemma coordinator_ok_forget: "coordinator_ok c \<Longrightarrow> coordinator_ok (forget_completion i c)"
  unfolding coordinator_ok_iff forget_completion_def by (auto simp: plan_shape_def)

section \<open>The operations\<close>

lemma preserves_fetch [preserves_intros]: "preserves ps (fetch_inventory P H names)"
  unfolding fetch_inventory_def fetch_provider_def fetch_document_def by (intro preserves_intros)

lemma preserves_authority [preserves_intros]: "preserves ps (assert_authority P plan)"
  unfolding assert_authority_def by (intro preserves_intros)

lemma preserves_restore_attempted [preserves_intros]: "preserves ps (restore_attempted P H att failures)"
  by (induction att arbitrary: failures)
     (auto simp: restore_attempted.simps restore_document_def Let_def split_paired_all intro!: preserves_intros)

lemma preserves_verify_documents [preserves_intros]: "preserves ps (verify_documents P H originals failures)"
  by (induction originals arbitrary: failures) (auto simp: verify_documents.simps split_paired_all intro!: preserves_intros)

lemma preserves_restore [preserves_intros]: "preserves ps (restore_originals P H att originals full)"
  unfolding restore_originals_def verify_inventory_def by (intro preserves_intros)

lemma preserves_write_changes [preserves_intros]: "preserves ps (write_changes P H plan changes att)"
  by (induction changes arbitrary: att)
     (auto simp: write_changes.simps write_change_def read_fingerprint_def Let_def split_paired_all intro!: preserves_intros)

lemma preserves_undo [preserves_intros]: "preserves ps (undo_apply P H plan originals att)"
  unfolding undo_apply_def by (intro preserves_intros) auto

lemma preserves_complete [preserves_intros]: "preserves ps (complete_apply P H plan changes final)"
proof -
  have put: "coordinator_ok (c\<lparr>co_completed := dict_put (co_completed c) (mp_plan_id plan)
      \<lparr>cr_result = apply_result plan changes, cr_documents = documents\<rparr>\<rparr>)" if "coordinator_ok c" for c documents
    using that unfolding coordinator_ok_iff by (auto simp: plan_shape_def completion_record_ok_def apply_result_def)
  have filed: "preserves ps (andthen (on_coordinator (\<lambda>c. c\<lparr>co_completed := dict_put (co_completed c) (mp_plan_id plan)
          \<lparr>cr_result = apply_result plan changes, cr_documents = documents\<rparr>\<rparr>)) (\<lambda>_.
      andthen (coordinator_state (mp_plan_id plan) COMPLETE) (\<lambda>_. ret (apply_result plan changes))))" for documents
    using coordinator_ok_state [OF put, where st = COMPLETE and i = "mp_plan_id plan"]
    by (simp add: preserves_def holds_def andthen_def on_coordinator_def coordinator_state_def ret_def sane_def)
  show ?thesis
    unfolding complete_apply_def Let_def by (intro preserves_intros filed) auto
qed

lemma preserves_run [preserves_intros]: "preserves ps (run_plan P parse H plan)"
  unfolding run_plan_def Let_def preflight_def verify_applied_def planned_changes_def planned_change_def journal_original_def
  by (intro preserves_intros) auto

lemma preserves_replay [preserves_intros]: "preserves ps (replay_completed P parse H plan)"
  unfolding replay_completed_def by (intro preserves_intros) auto

lemma preserves_apply: "preserves ps (apply_plan P parse H plan_id digest)"
  unfolding apply_plan_def
  by (intro preserves_intros) (auto intro: preserves_intros split: migration_state.split)

lemma preserves_recover: "preserves ps (recover_incomplete P H plan_id)"
proof -
  have "preserves ps (on_coordinator (forget_completion plan_id))"
    by (rule preserves_coordinator) (auto simp: coordinator_ok_forget, simp add: forget_completion_def)
  then show ?thesis
    unfolding recover_incomplete_def load_original_def Let_def by (intro preserves_intros)
qed

end
