(* ===== verification/Migration_Memory.thy ===== *)
theory Migration_Memory
  imports Migration_Run
begin

text \<open>
  \<open>InMemoryReferenceProvider\<close>, \<open>InMemoryMigrationAuthority\<close> and \<open>InMemoryReferenceJournal\<close>, and the
  ports they make. \<open>faulty_ports\<close> drives them with a script of faults, one entry per call: a call
  may pass, be refused before it has an effect, raise after its effect, or find the process dead from
  here on. Equality of journaled payloads is equality of JSON values; Python also identifies equal
  numbers of different types.
\<close>

record mem_provider =
  me_documents :: "(string, document) dict"
  me_counts :: "(string, nat) dict"

record memory =
  mw_providers :: "(string, mem_provider) dict"
  mw_subjects :: "(string, subject) dict"
  mw_states :: "(string, migration_state) dict"
  mw_originals :: "(string, journaled_original list) dict"
  mw_completions :: "(string, journaled_completion) dict"

section \<open>The provider\<close>

definition put_document :: "string \<Rightarrow> document \<Rightarrow> (mem_provider, mig_error, unit) action" where
  "put_document name d m =
     (if doc_provider d \<noteq> name then (Inl MValueError, m)
      else (Inr (), m\<lparr>me_documents := dict_put (me_documents m) (doc_object d) d\<rparr>))"

definition mem_list :: "mem_provider \<Rightarrow> document list" where
  "mem_list m = map snd (sort_key fst (me_documents m))"

definition mem_get :: "string \<Rightarrow> mem_provider \<Rightarrow> mig_error + document" where
  "mem_get ob m = (case map_of (me_documents m) ob of None \<Rightarrow> Inl MKeyError | Some d \<Rightarrow> Inr d)"

definition next_revision :: "revision \<Rightarrow> nat \<Rightarrow> revision" where
  "next_revision r count = (case r of RInt n \<Rightarrow> RInt (n + 1) | RStr s \<Rightarrow> RStr (s @ ''@'' @ show_nat count))"

definition mem_write :: "string \<Rightarrow> string \<Rightarrow> revision \<Rightarrow> json \<Rightarrow> (mem_provider, mig_error, document) action" where
  "mem_write name ob expected payload m =
     (case mem_get ob m of Inl e \<Rightarrow> (Inl e, m)
      | Inr current \<Rightarrow>
        if doc_revision current \<noteq> expected then (Inl MStalePlan, m)
        else if \<not> doc_writable current then (Inl MMigrationError, m)
        else if \<not> valid_payload payload then (Inl MMalformed, m)
        else
          (let count = (case map_of (me_counts m) ob of None \<Rightarrow> 0 | Some n \<Rightarrow> n) + 1;
               updated = \<lparr>doc_provider = name, doc_object = ob, doc_revision = next_revision (doc_revision current) count,
                 doc_payload = payload, doc_writable = doc_writable current\<rparr>
           in (Inr updated, m\<lparr>me_counts := dict_put (me_counts m) ob count,
                 me_documents := dict_put (me_documents m) ob updated\<rparr>)))"

section \<open>The authority and the journal\<close>

definition put_subject :: "subject \<Rightarrow> memory \<Rightarrow> memory" where
  "put_subject su w = w\<lparr>mw_subjects := dict_put (mw_subjects w) (su_room_id su) su\<rparr>"

definition mem_resolve :: "string \<Rightarrow> (memory, mig_error, subject) action" where
  "mem_resolve room w = (case map_of (mw_subjects w) room of None \<Rightarrow> Inl MKeyError | Some su \<Rightarrow> Inr su, w)"

definition originals_of :: "memory \<Rightarrow> string \<Rightarrow> journaled_original list" where
  "originals_of w plan_id = (case map_of (mw_originals w) plan_id of None \<Rightarrow> [] | Some es \<Rightarrow> es)"

definition mem_record_original :: "string \<Rightarrow> document \<Rightarrow> string \<Rightarrow> (memory, mig_error, unit) action" where
  "mem_record_original plan_id d post w =
     (if plan_id = [] then (Inl MValueError, w)
      else if post = [] then (Inl MValueError, w)
      else
        (let entry = \<lparr>jo_document = d, jo_post_fingerprint = post\<rparr>; es = originals_of w plan_id;
             w' = w\<lparr>mw_originals := dict_put (mw_originals w) plan_id es\<rparr>
         in case List.find (\<lambda>e. doc_key (jo_document e) = doc_key d) es of
              Some existing \<Rightarrow> if existing = entry then (Inr (), w') else (Inl MValueError, w')
            | None \<Rightarrow> (Inr (), w\<lparr>mw_originals := dict_put (mw_originals w) plan_id (es @ [entry])\<rparr>)))"

definition mem_set_state :: "string \<Rightarrow> migration_state \<Rightarrow> (memory, mig_error, unit) action" where
  "mem_set_state plan_id st w =
     (if plan_id = [] then (Inl MValueError, w)
      else (Inr (), w\<lparr>mw_states := dict_put (mw_states w) plan_id st\<rparr>))"

definition mem_incomplete :: "memory \<Rightarrow> string list" where
  "mem_incomplete w = sort (map fst (filter (\<lambda>(i, st). st = APPLYING \<or> st = BLOCKED) (mw_states w)))"

definition mem_record_completion ::
  "(string \<Rightarrow> string) \<Rightarrow> journaled_completion \<Rightarrow> (memory, mig_error, unit) action" where
  "mem_record_completion H completion w =
     (let plan_id = mp_plan_id (jc_plan completion) in
      if \<not> completion_ok H completion plan_id then (Inl MTypeError, w)
      else case map_of (mw_completions w) plan_id of
          Some existing \<Rightarrow> if existing \<noteq> completion then (Inl MValueError, w) else (Inr (), w)
        | None \<Rightarrow> (Inr (), w\<lparr>mw_completions := dict_put (mw_completions w) plan_id completion\<rparr>))"

definition mem_completed :: "memory \<Rightarrow> string list" where
  "mem_completed w = sort (map fst (filter (\<lambda>(i, st). st = COMPLETE \<and> map_of (mw_completions w) i \<noteq> None) (mw_states w)))"

definition mem_completion_for :: "string \<Rightarrow> (memory, mig_error, journaled_completion) action" where
  "mem_completion_for plan_id w =
     (case map_of (mw_completions w) plan_id of None \<Rightarrow> Inl MKeyError | Some jc \<Rightarrow> Inr jc, w)"

section \<open>The ports\<close>

definition at_provider ::
  "string \<Rightarrow> (mem_provider, mig_error, 'a) action \<Rightarrow> (memory, mig_error, 'a) action" where
  "at_provider name m w = (case map_of (mw_providers w) name of None \<Rightarrow> (Inl MKeyError, w)
     | Some p \<Rightarrow> (case m p of (r, p') \<Rightarrow> (r, w\<lparr>mw_providers := dict_put (mw_providers w) name p'\<rparr>)))"

definition mem_ports :: "(string \<Rightarrow> string) \<Rightarrow> memory ports" where
  "mem_ports H = \<lparr>
     list_documents = (\<lambda>name. at_provider name (reads mem_list)),
     get_document = (\<lambda>name ob. at_provider name (\<lambda>m. (mem_get ob m, m))),
     write_document = (\<lambda>name ob expected payload. at_provider name (mem_write name ob expected payload)),
     record_original = mem_record_original,
     set_state = mem_set_state,
     incomplete_plan_ids = reads mem_incomplete,
     originals_for = (\<lambda>plan_id. reads (\<lambda>w. originals_of w plan_id)),
     record_completion = mem_record_completion H,
     completed_plan_ids = reads mem_completed,
     completion_for = mem_completion_for,
     resolve_subject = mem_resolve\<rparr>"

datatype fault = Pass | Refuse | Lose | Crashed

definition with_faults :: "('w, mig_error, 'a) action \<Rightarrow> ('w \<times> fault list, mig_error, 'a) action" where
  "with_faults m s = (case s of (w, script) \<Rightarrow> (case script of
       [] \<Rightarrow> (case m w of (r, w') \<Rightarrow> (r, (w', [])))
     | Pass # rest \<Rightarrow> (case m w of (r, w') \<Rightarrow> (r, (w', rest)))
     | Refuse # rest \<Rightarrow> (Inl MProviderError, (w, rest))
     | Lose # rest \<Rightarrow> (Inl MProviderError, (snd (m w), rest))
     | Crashed # rest \<Rightarrow> (Inl MProviderError, (w, script))))"

definition faulty_ports :: "'w ports \<Rightarrow> ('w \<times> fault list) ports" where
  "faulty_ports P = \<lparr>
     list_documents = (\<lambda>name. with_faults (list_documents P name)),
     get_document = (\<lambda>name ob. with_faults (get_document P name ob)),
     write_document = (\<lambda>name ob expected payload. with_faults (write_document P name ob expected payload)),
     record_original = (\<lambda>i d post. with_faults (record_original P i d post)),
     set_state = (\<lambda>i st. with_faults (set_state P i st)),
     incomplete_plan_ids = with_faults (incomplete_plan_ids P),
     originals_for = (\<lambda>i. with_faults (originals_for P i)),
     record_completion = (\<lambda>jc. with_faults (record_completion P jc)),
     completed_plan_ids = with_faults (completed_plan_ids P),
     completion_for = (\<lambda>i. with_faults (completion_for P i)),
     resolve_subject = (\<lambda>room. with_faults (resolve_subject P room))\<rparr>"

section \<open>The laws hold\<close>

text \<open>A provider files every document under its own name and the identifier of the document.\<close>

definition memory_ok :: "memory \<Rightarrow> bool" where
  "memory_ok w \<longleftrightarrow> dict_ok (mw_states w)
     \<and> (\<forall>name p. map_of (mw_providers w) name = Some p \<longrightarrow>
          (\<forall>ob d. map_of (me_documents p) ob = Some d \<longrightarrow> doc_key d = (name, ob)) \<and> dict_ok (me_documents p))"

definition mem_document :: "memory \<Rightarrow> doc_key \<Rightarrow> document option" where
  "mem_document w key = (case map_of (mw_providers w) (fst key) of None \<Rightarrow> None
     | Some p \<Rightarrow> map_of (me_documents p) (snd key))"

definition mem_view :: "memory \<Rightarrow> world_view" where
  "mem_view w = \<lparr>v_docs = mem_document w, v_states = map_of (mw_states w), v_originals = originals_of w\<rparr>"

lemma at_provider_reads [simp]:
  "at_provider name (\<lambda>m. (f m, m)) w = (case map_of (mw_providers w) name of None \<Rightarrow> Inl MKeyError | Some p \<Rightarrow> f p, w)"
  by (auto simp: at_provider_def split: option.split)

lemma at_provider_reads' [simp]:
  "at_provider name (reads f) w = (case map_of (mw_providers w) name of None \<Rightarrow> Inl MKeyError | Some p \<Rightarrow> Inr (f p), w)"
  by (auto simp: at_provider_def reads_def split: option.split)

lemma mem_list_objects:
  assumes "memory_ok w" "map_of (mw_providers w) name = Some p"
  shows "doc_object ` set (mem_list p) = {ob. mem_document w (name, ob) \<noteq> None}"
proof -
  have key: "doc_key d = (name, ob)" if "(ob, d) \<in> set (me_documents p)" for ob d
    using assms that by (metis map_of_dict_ok memory_ok_def)
  have "doc_object ` snd ` set (me_documents p) = fst ` set (me_documents p)"
    using key by (force simp: doc_key_def image_iff)
  moreover have "{ob. mem_document w (name, ob) \<noteq> None} = fst ` set (me_documents p)"
    using assms(2) by (simp add: mem_document_def dom_map_of_conv_image_fst [symmetric] dom_def)
  ultimately show ?thesis by (simp add: mem_list_def)
qed

lemma mem_write_effect:
  assumes "memory_ok w"
  shows "memory_ok (snd (at_provider p (mem_write p ob rv payload) w))
    \<and> (mem_view (snd (at_provider p (mem_write p ob rv payload) w)) = mem_view w
       \<or> (\<exists>d d'. mem_document w (p, ob) = Some d \<and> doc_key d' = (p, ob) \<and> doc_payload d' = payload
            \<and> doc_writable d' = doc_writable d
            \<and> mem_view (snd (at_provider p (mem_write p ob rv payload) w)) = put_doc (mem_view w) d'))"
proof (cases "map_of (mw_providers w) p")
  case None
  then show ?thesis using assms by (simp add: at_provider_def)
next
  case (Some m)
  show ?thesis
  proof (cases "fst (mem_write p ob rv payload m)")
    case (Inl e)
    then have "snd (mem_write p ob rv payload m) = m"
      by (auto simp: mem_write_def Let_def split: sum.splits if_splits)
    then show ?thesis using assms Some by (simp add: at_provider_def split_beta)
  next
    case (Inr d')
    then obtain d count where d: "mem_get ob m = Inr d" "doc_key d' = (p, ob)" "doc_payload d' = payload"
        "doc_writable d' = doc_writable d"
        "snd (mem_write p ob rv payload m) = m\<lparr>me_counts := dict_put (me_counts m) ob count,
           me_documents := dict_put (me_documents m) ob d'\<rparr>"
      by (auto simp: mem_write_def Let_def doc_key_def split: sum.splits if_splits)
    let ?w = "snd (at_provider p (mem_write p ob rv payload) w)"
    have w: "?w = w\<lparr>mw_providers := dict_put (mw_providers w) p (snd (mem_write p ob rv payload m))\<rparr>"
      using Some by (simp add: at_provider_def split_beta)
    have "mem_document w (p, ob) = Some d"
      using Some d(1) by (auto simp: mem_document_def mem_get_def split: option.splits)
    moreover have "mem_view ?w = put_doc (mem_view w) d'"
      using Some d by (auto simp: w mem_view_def put_doc_def mem_document_def originals_of_def fun_eq_iff)
    moreover have "memory_ok ?w"
      using assms Some d by (auto simp: w memory_ok_def)
    ultimately show ?thesis using d by blast
  qed
qed

lemma mem_record_original_effect:
  "mem_view (snd (mem_record_original i d post w)) = mem_view w
     \<or> mem_view (snd (mem_record_original i d post w)) = put_original (mem_view w) i \<lparr>jo_document = d, jo_post_fingerprint = post\<rparr>
       \<and> post \<noteq> [] \<and> (\<forall>e \<in> set (originals_of w i). doc_key (jo_document e) \<noteq> doc_key d)"
  by (auto simp: mem_record_original_def Let_def mem_view_def put_original_def mem_document_def originals_of_def
      fun_eq_iff find_None_all split: option.splits)

lemma mem_record_original_recorded:
  "fst (mem_record_original i d post w) = Inr u \<Longrightarrow>
     \<lparr>jo_document = d, jo_post_fingerprint = post\<rparr> \<in> set (originals_of (snd (mem_record_original i d post w)) i)"
  by (auto simp: mem_record_original_def Let_def originals_of_def split: if_splits option.splits dest: find_Some_in)

lemma memory_ok_journal:
  "memory_ok w \<Longrightarrow> memory_ok (snd (mem_record_original i d post w))"
  "memory_ok w \<Longrightarrow> memory_ok (snd (mem_set_state i st w))"
  "memory_ok w \<Longrightarrow> memory_ok (snd (mem_record_completion H jc w))"
  by (auto simp: memory_ok_def mem_record_original_def mem_set_state_def mem_record_completion_def Let_def
      split: option.splits)

lemma mem_set_state_effect:
  "mem_view (snd (mem_set_state i st w)) = put_state (mem_view w) i st
     \<or> mem_view (snd (mem_set_state i st w)) = mem_view w \<and> (\<exists>e. fst (mem_set_state i st w) = Inl e)"
  by (auto simp: mem_set_state_def mem_view_def put_state_def mem_document_def originals_of_def fun_eq_iff)

lemma mem_record_completion_view: "mem_view (snd (mem_record_completion H jc w)) = mem_view w"
  by (auto simp: mem_record_completion_def Let_def mem_view_def mem_document_def originals_of_def fun_eq_iff
      split: option.splits)

lemma mem_incomplete_set:
  assumes "memory_ok w"
  shows "set (mem_incomplete w) = {i. unfinished (map_of (mw_states w) i)}"
  using assms by (auto simp: mem_incomplete_def unfinished_def memory_ok_def map_of_dict_ok image_iff)

lemma mem_view_simps [simp]:
  "v_docs (mem_view w) = mem_document w" "v_states (mem_view w) = map_of (mw_states w)"
  "v_originals (mem_view w) = originals_of w"
  by (simp_all add: mem_view_def)

lemmas ports_simps = mem_ports_def faulty_ports_def

interpretation mem: reference_world "mem_ports H" memory_ok mem_view
proof
  fix w k d
  assume "memory_ok w" "v_docs (mem_view w) k = Some d"
  then show "doc_key d = k"
    by (cases k) (auto simp: mem_document_def memory_ok_def split: option.splits)
next
  fix w ds p
  assume "memory_ok w" "fst (list_documents (mem_ports H) p w) = Inr ds"
  then show "doc_object ` set ds = {ob. v_docs (mem_view w) (p, ob) \<noteq> None}"
    using mem_list_objects [of w p] by (auto simp: ports_simps split: option.splits)
next
  fix w d p ob
  assume "memory_ok w" "fst (get_document (mem_ports H) p ob w) = Inr d"
  then show "v_docs (mem_view w) (p, ob) = Some d"
    by (auto simp: ports_simps mem_document_def mem_get_def split: option.splits)
next
  fix w ids
  assume "memory_ok w" "fst (incomplete_plan_ids (mem_ports H) w) = Inr ids"
  then show "set ids = {i. unfinished (v_states (mem_view w) i)}"
    using mem_incomplete_set by (auto simp: ports_simps reads_def)
qed (use mem_write_effect mem_record_original_effect mem_record_original_recorded memory_ok_journal mem_set_state_effect
    mem_record_completion_view in \<open>simp_all add: ports_simps reads_def mem_resolve_def\<close>)

text \<open>A fault is a law-abiding failure: it has no effect, or exactly the effect of the call.\<close>

lemma with_faults_cases:
  obtains rest where "with_faults m (w, script) = (fst (m w), (snd (m w), rest))"
  | e rest where "with_faults m (w, script) = (Inl e, (w, rest))"
  | e rest where "with_faults m (w, script) = (Inl e, (snd (m w), rest))"
proof (cases script)
  case Nil
  then show thesis using that(1) [where rest = "[]"] by (simp add: with_faults_def split_beta)
next
  case (Cons f rest)
  then show thesis using that by (cases f) (auto simp: with_faults_def split_beta)
qed

lemma with_faults_fst:
  "fst (with_faults m s) = Inr x \<Longrightarrow> fst (m (fst s)) = Inr x \<and> fst (snd (with_faults m s)) = snd (m (fst s))"
  by (cases s; rule with_faults_cases [of m "fst s" "snd s"]) auto

lemma with_faults_snd:
  "fst (snd (with_faults m s)) = fst s \<and> (\<exists>e. fst (with_faults m s) = Inl e)
     \<or> fst (snd (with_faults m s)) = snd (m (fst s))
       \<and> (fst (with_faults m s) = fst (m (fst s)) \<or> (\<exists>e. fst (with_faults m s) = Inl e))"
  by (cases s; rule with_faults_cases [of m "fst s" "snd s"]) auto

lemma with_faults_keep:
  assumes "good (fst s)" "\<And>w. good w \<Longrightarrow> good (snd (m w)) \<and> view (snd (m w)) = view w"
  shows "good (fst (snd (with_faults m s))) \<and> view (fst (snd (with_faults m s))) = view (fst s)"
  using with_faults_snd [of m s] assms by (metis (no_types))

context reference_world
begin

lemma faulty_world: "reference_world (faulty_ports P) (\<lambda>s. good (fst s)) (\<lambda>s. view (fst s))"
proof (unfold_locales, unfold faulty_ports_def ports.simps)
  fix s :: "'w \<times> fault list" and p ob rv payload
  let ?m = "write_document P p ob rv payload"
  assume good: "good (fst s)"
  show "good (fst (snd (with_faults ?m s)))"
    using with_faults_snd [of ?m s] write_good [OF good] good by (metis (no_types))
  show "view (fst (snd (with_faults ?m s))) = view (fst s)
      \<or> (\<exists>d d'. v_docs (view (fst s)) (p, ob) = Some d \<and> doc_key d' = (p, ob) \<and> doc_payload d' = payload
           \<and> doc_writable d' = doc_writable d \<and> view (fst (snd (with_faults ?m s))) = put_doc (view (fst s)) d')"
    using with_faults_snd [of ?m s] write_ok [OF good, of p ob rv payload] by (metis (no_types, lifting))
next
  fix s :: "'w \<times> fault list" and i st
  let ?m = "set_state P i st"
  assume good: "good (fst s)"
  show "good (fst (snd (with_faults ?m s)))"
    using with_faults_snd [of ?m s] state_good [OF good] good by (metis (no_types))
  show "view (fst (snd (with_faults ?m s))) = put_state (view (fst s)) i st
      \<or> view (fst (snd (with_faults ?m s))) = view (fst s) \<and> (\<exists>e. fst (with_faults ?m s) = Inl e)"
    using with_faults_snd [of ?m s] state_ok [OF good, of i st] by (metis (no_types, lifting))
next
  fix s :: "'w \<times> fault list" and i d post
  let ?m = "record_original P i d post"
  assume good: "good (fst s)"
  show "good (fst (snd (with_faults ?m s)))"
    using with_faults_snd [of ?m s] original_good [OF good] good by (metis (no_types))
  show "view (fst (snd (with_faults ?m s))) = view (fst s)
      \<or> view (fst (snd (with_faults ?m s))) = put_original (view (fst s)) i \<lparr>jo_document = d, jo_post_fingerprint = post\<rparr>
        \<and> post \<noteq> [] \<and> (\<forall>e \<in> set (v_originals (view (fst s)) i). doc_key (jo_document e) \<noteq> doc_key d)"
    using with_faults_snd [of ?m s] original_ok [OF good, of i d post] by (metis (no_types, lifting))
  show "\<lparr>jo_document = d, jo_post_fingerprint = post\<rparr> \<in> set (v_originals (view (fst (snd (with_faults ?m s)))) i)"
    if "fst (with_faults ?m s) = Inr u" for u
    using with_faults_fst [OF that] original_recorded [OF good, of i d post u] by simp
next
  fix s :: "'w \<times> fault list" and p ob i
  assume good: "good (fst s)"
  show "doc_object ` set ds = {ob. v_docs (view (fst s)) (p, ob) \<noteq> None}"
    if "fst (with_faults (list_documents P p) s) = Inr ds" for ds
    using list_ok [OF good] with_faults_fst [OF that] by blast
  show "v_docs (view (fst s)) (p, ob) = Some d" if "fst (with_faults (get_document P p ob) s) = Inr d" for d
    using get_ok [OF good] with_faults_fst [OF that] by blast
  show "set ids = {i. unfinished (v_states (view (fst s)) i)}"
    if "fst (with_faults (incomplete_plan_ids P) s) = Inr ids" for ids
    using incomplete_ok [OF good] with_faults_fst [OF that] by blast
  show "es = v_originals (view (fst s)) i" if "fst (with_faults (originals_for P i) s) = Inr es" for es
    using originals_ok [OF good] with_faults_fst [OF that] by blast
  show "doc_key d = k" if "v_docs (view (fst s)) k = Some d" for k d
    using keyed [OF good that] .
qed (rule with_faults_keep, assumption, erule reads_keep)+

end

text \<open>The in-memory world under any script of faults.\<close>

interpretation faulty: reference_world "faulty_ports (mem_ports H)" "\<lambda>s. memory_ok (fst s)" "\<lambda>s. mem_view (fst s)"
  by (rule mem.faulty_world)

end
