(* ===== verification/Projection_Safety.thy ===== *)
theory Projection_Safety
  imports Ref_Projection "HOL-Library.Multiset"
begin

text \<open>
  What the projection of references guarantees: the token test is a test for a delimited
  occurrence, the loop over the code ranges of a template returns with ranges inside the text,
  rewriting changes the approved strings and nothing else, and a rewritten document has no
  reference left to rewrite.
\<close>

section \<open>Entity tokens\<close>

text \<open>Identifiers of the form \<open>word.word\<close>, as the coordinator requires of both its entities.\<close>

definition entity_id :: "string \<Rightarrow> bool" where
  "entity_id s \<longleftrightarrow> (\<exists>d ob. s = d @ ''.'' @ ob \<and> d \<noteq> [] \<and> ob \<noteq> [] \<and> list_all word_char (d @ ob))"

lemma word_char_dot [simp]: "\<not> word_char (CHR ''.'')"
  by (simp add: word_char_def)

lemma takeWhile_all: "list_all P xs \<Longrightarrow> takeWhile P (xs @ ys) = xs @ takeWhile P ys"
  by (induction xs) auto

lemma dropWhile_all: "list_all P xs \<Longrightarrow> dropWhile P (xs @ ys) = dropWhile P ys"
  by (induction xs) auto

lemma takeWhile_Nil_iff: "takeWhile P ys = [] \<longleftrightarrow> (ys \<noteq> [] \<longrightarrow> \<not> P (hd ys))"
  by (cases ys) auto

definition delimited :: "string \<Rightarrow> string \<Rightarrow> string \<Rightarrow> bool" where
  "delimited old a b \<longleftrightarrow> (a \<noteq> [] \<longrightarrow> \<not> word_char (last a)) \<and> (b \<noteq> [] \<longrightarrow> \<not> word_char (hd b))"

lemma entity_at_sound:
  assumes "entity_at s = Some e"
  shows "\<exists>b. s = e @ b \<and> (b \<noteq> [] \<longrightarrow> \<not> word_char (hd b)) \<and> entity_id e"
proof -
  obtain c r where r: "dropWhile word_char s = c # r" "c = CHR ''.''" "takeWhile word_char s \<noteq> []"
    "takeWhile word_char r \<noteq> []" "e = takeWhile word_char s @ ''.'' @ takeWhile word_char r"
    using assms by (auto simp: entity_at_def Let_def split: list.splits if_splits)
  have "s = takeWhile word_char s @ c # r"
    using r(1) by (metis takeWhile_dropWhile_id)
  then have "s = e @ dropWhile word_char r"
    using r by (metis append.assoc append_Cons append_Nil takeWhile_dropWhile_id)
  moreover have "entity_id e"
    using r unfolding entity_id_def
    by (intro exI [of _ "takeWhile word_char s"] exI [of _ "takeWhile word_char r"])
       (auto simp: list_all_iff dest: set_takeWhileD)
  moreover have "dropWhile word_char r \<noteq> [] \<longrightarrow> \<not> word_char (hd (dropWhile word_char r))"
    using hd_dropWhile by blast
  ultimately show ?thesis by blast
qed

lemma entity_at_complete:
  assumes "entity_id e" "b \<noteq> [] \<longrightarrow> \<not> word_char (hd b)"
  shows "entity_at (e @ b) = Some e"
proof -
  obtain d ob where e: "e = d @ ''.'' @ ob" "d \<noteq> []" "ob \<noteq> []" "list_all word_char d"
    "list_all word_char ob"
    using assms(1) by (auto simp: entity_id_def)
  have "takeWhile word_char b = []" using assms(2) by (simp add: takeWhile_Nil_iff)
  with e show ?thesis
    by (simp add: entity_at_def Let_def takeWhile_all dropWhile_all)
qed

lemma entity_tokens_from_iff:
  "(j, e) \<in> set (entity_tokens_from after i s) \<longleftrightarrow>
     (\<exists>a r. s = a @ r \<and> j = i + length a \<and> entity_at r = Some e
        \<and> (if a = [] then \<not> after else \<not> word_char (last a)))"
proof (induction after i s rule: entity_tokens_from.induct)
  case (1 after i)
  show ?case by (auto simp: entity_at_def)
next
  case (2 after i c s)
  have split: "(\<exists>a r. c # s = a @ r \<and> j = i + length a \<and> entity_at r = Some e
        \<and> (if a = [] then \<not> after else \<not> word_char (last a))) \<longleftrightarrow>
      (\<not> after \<and> j = i \<and> entity_at (c # s) = Some e)
      \<or> (\<exists>a r. s = a @ r \<and> j = Suc i + length a \<and> entity_at r = Some e
        \<and> (if a = [] then \<not> word_char c else \<not> word_char (last a)))" (is "?L \<longleftrightarrow> ?R1 \<or> ?R2")
  proof
    assume ?L
    then obtain a r where a: "c # s = a @ r" "j = i + length a" "entity_at r = Some e"
      "if a = [] then \<not> after else \<not> word_char (last a)" by blast
    show "?R1 \<or> ?R2"
    proof (cases a)
      case Nil
      with a show ?thesis by simp
    next
      case (Cons x xs)
      with a show ?thesis by (intro disjI2 exI [of _ xs] exI [of _ r]) (auto split: if_splits)
    qed
  next
    assume "?R1 \<or> ?R2"
    then show ?L
    proof
      assume ?R1
      then show ?L by (intro exI [of _ "[]"] exI [of _ "c # s"]) auto
    next
      assume ?R2
      then obtain a r where "s = a @ r" "j = Suc i + length a" "entity_at r = Some e"
        "if a = [] then \<not> word_char c else \<not> word_char (last a)" by blast
      then show ?L by (intro exI [of _ "c # a"] exI [of _ r]) auto
    qed
  qed
  have here: "(j, e) \<in> set (if after then [] else case entity_at (c # s) of None \<Rightarrow> [] | Some e \<Rightarrow> [(i, e)])
      \<longleftrightarrow> \<not> after \<and> j = i \<and> entity_at (c # s) = Some e"
    by (cases "entity_at (c # s)") auto
  show ?case
    by (simp only: entity_tokens_from.simps set_append Un_iff here 2 split)
qed

lemma contains_complete_entity_iff:
  assumes "entity_id old"
  shows "contains_complete_entity s old \<longleftrightarrow> (\<exists>a b. s = a @ old @ b \<and> delimited old a b)"
proof
  assume "contains_complete_entity s old"
  then obtain j where "(j, old) \<in> set (entity_tokens s)"
    by (auto simp: contains_complete_entity_def list_ex_iff)
  then obtain a r where a: "s = a @ r" "entity_at r = Some old" "a = [] \<or> \<not> word_char (last a)"
    by (auto simp: entity_tokens_def entity_tokens_from_iff split: if_splits)
  obtain b where "r = old @ b" "b \<noteq> [] \<longrightarrow> \<not> word_char (hd b)"
    using entity_at_sound [OF a(2)] by blast
  with a show "\<exists>a b. s = a @ old @ b \<and> delimited old a b" by (auto simp: delimited_def)
next
  assume "\<exists>a b. s = a @ old @ b \<and> delimited old a b"
  then obtain a b where s: "s = a @ old @ b" "a \<noteq> [] \<longrightarrow> \<not> word_char (last a)"
    "b \<noteq> [] \<longrightarrow> \<not> word_char (hd b)" by (auto simp: delimited_def)
  have "(length a, old) \<in> set (entity_tokens s)"
    unfolding entity_tokens_def entity_tokens_from_iff
    using s entity_at_complete [OF assms s(3)] by (intro exI [of _ a] exI [of _ "old @ b"]) auto
  then show "contains_complete_entity s old"
    by (force simp: contains_complete_entity_def list_ex_iff)
qed

text \<open>Two different identifiers do not contain each other.\<close>

lemma entity_id_dots: "entity_id e \<Longrightarrow> length (filter (\<lambda>c. c = CHR ''.'') e) = 1"
proof -
  have "filter (\<lambda>c. c = CHR ''.'') w = []" if "list_all word_char w" for w
    using that word_char_dot by (auto simp: filter_empty_conv list_all_iff simp del: word_char_dot)
  then show "entity_id e \<Longrightarrow> length (filter (\<lambda>c. c = CHR ''.'') e) = 1"
    by (auto simp: entity_id_def)
qed

lemma entity_id_chars: "entity_id e \<Longrightarrow> c \<in> set e \<Longrightarrow> word_char c \<or> c = CHR ''.''"
  by (auto simp: entity_id_def list_all_iff)

lemma other_entity_not_contained:
  assumes "entity_id old" "entity_id target" "target \<noteq> old"
  shows "\<not> contains_complete_entity target old"
proof
  assume "contains_complete_entity target old"
  then obtain a b where t: "target = a @ old @ b" and d: "delimited old a b"
    using assms(1) by (auto simp: contains_complete_entity_iff)
  have "length (filter (\<lambda>c. c = CHR ''.'') a) = 0" "length (filter (\<lambda>c. c = CHR ''.'') b) = 0"
    using entity_id_dots [OF assms(2)] entity_id_dots [OF assms(1)] unfolding t by simp_all
  then have nodot: "\<forall>c \<in> set a. c \<noteq> CHR ''.''" "\<forall>c \<in> set b. c \<noteq> CHR ''.''"
    by (simp_all add: filter_empty_conv)
  have chars: "\<forall>c \<in> set a \<union> set b. word_char c"
    using entity_id_chars [OF assms(2)] nodot unfolding t by auto
  have "a = []" using chars d by (metis UnI1 delimited_def last_in_set)
  moreover have "b = []" using chars d by (metis UnI2 delimited_def list.set_sel(1))
  ultimately show False using t assms(3) by simp
qed

lemma substring_iff: "substring p s \<longleftrightarrow> (\<exists>a b. s = a @ p @ b)"
proof
  assume "substring p s"
  then have "\<exists>i. starts_with p (drop i s)" unfolding substring_def list_ex_iff set_map by blast
  then obtain i where "starts_with p (drop i s)" ..
  then show "\<exists>a b. s = a @ p @ b" by (metis append_take_drop_id starts_with_ex)
next
  assume "\<exists>a b. s = a @ p @ b"
  then obtain a b where "s = a @ p @ b" by blast
  then show "substring p s"
    by (auto simp: substring_def starts_with_ex list_ex_iff intro!: bexI [of _ "length a"])
qed

lemma entity_id_not_template: "entity_id e \<Longrightarrow> \<not> is_template_text e"
  using entity_id_chars [of e "CHR ''{''"]
  by (auto simp: is_template_text_def substring_iff word_char_def)

section \<open>The code ranges of a template\<close>

lemma find_from_bounds: "find_from s p c = Some i \<Longrightarrow> c \<le> i \<and> i + length p \<le> length s"
  unfolding find_from_def
  by (drule find_Some_in) (auto simp: starts_with_ex dest: arg_cong [of _ _ length])

lemma next_delimiter_bounds:
  assumes "next_delimiter s c = Some (i, d)"
  shows "c \<le> i \<and> i + 2 \<le> length s"
proof -
  define starts where "starts = List.map_filter (\<lambda>d. map_option (\<lambda>i. (i, d)) (find_from s d c)) [''{{'', ''{%'', ''{#'']"
  have ne: "starts \<noteq> []" and hd: "hd (sort_key fst starts) = (i, d)"
    using assms by (auto simp: next_delimiter_def Let_def starts_def split: if_splits)
  have "sort_key fst starts \<noteq> []" using ne set_sort [of fst starts] by (metis set_empty)
  then have "(i, d) \<in> set starts" using hd by (metis hd_in_set set_sort)
  then have "find_from s d c = Some i \<and> length d = 2"
    by (auto simp: starts_def List.map_filter_def split: if_splits)
  then show ?thesis using find_from_bounds [of s d c i] by auto
qed

lemma find_jinja_closing_bounds:
  "find_jinja_closing closing q e i s = Some j \<Longrightarrow> length closing = 2
     \<Longrightarrow> i \<le> j \<and> j + 2 \<le> i + length s"
  by (induction closing q e i s rule: find_jinja_closing.induct)
     (auto split: option.splits if_splits)

lemma end_raw_at_shorter: "end_raw_at s = Some r \<Longrightarrow> length r + 10 \<le> length s"
proof -
  assume a: "end_raw_at s = Some r"
  let ?r = "skip_space (drop_dash (drop 2 s))"
  let ?r' = "drop_dash (skip_space (drop 6 ?r))"
  have p: "starts_with ''{%'' s" "starts_with ''endraw'' ?r" "starts_with ''%}'' ?r'" "r = drop 2 ?r'"
    using a by (auto simp: end_raw_at_def Let_def split: if_splits)
  have l: "\<And>x. length (skip_space x) \<le> length x" "\<And>x. length (drop_dash x) \<le> length x"
    by (auto simp: skip_space_def drop_dash_def length_dropWhile_le)
  have ln: "\<And>p x. starts_with p x \<Longrightarrow> length p \<le> length x"
    by (auto simp: starts_with_ex)
  have "length s \<ge> 2" "length ?r \<ge> 6" "length ?r' \<ge> 2" using ln [OF p(1)] ln [OF p(2)] ln [OF p(3)] by auto
  moreover have "length ?r \<le> length s - 2" using l [of "drop_dash (drop 2 s)"] l(2) [of "drop 2 s"] by simp
  moreover have "length ?r' \<le> length ?r - 6"
    using l(2) [of "skip_space (drop 6 ?r)"] l(1) [of "drop 6 ?r"] by simp
  ultimately show ?thesis using p(4) by simp
qed

lemma end_raw_search_bounds:
  "end_raw_search s c = Some e \<Longrightarrow> c < e \<and> e \<le> length s"
proof -
  assume "end_raw_search s c = Some e"
  then obtain i r where i: "List.find (\<lambda>i. end_raw_at (drop i s) \<noteq> None) [c..<Suc (length s)] = Some i"
    "end_raw_at (drop i s) = Some r" "e = length s - length r"
    by (auto simp: end_raw_search_def split: option.splits)
  then have "c \<le> i" using find_Some_in [OF i(1)] by auto
  moreover have "length r + 10 \<le> length s - i" using end_raw_at_shorter [OF i(2)] by simp
  ultimately show ?thesis using i(3) by linarith
qed

text \<open>The ranges found so far lie inside the text before the cursor, in order, without overlap.\<close>

definition ranges_before :: "nat \<Rightarrow> (nat \<times> nat) list \<Rightarrow> bool" where
  "ranges_before n rs \<longleftrightarrow> (\<forall>(a, b) \<in> set rs. 2 \<le> a \<and> a \<le> b \<and> b + 2 \<le> n)
     \<and> successive (\<lambda>(a, b) (a', b'). b + 2 \<le> a' - 2) rs"

lemma ranges_before_mono: "ranges_before m rs \<Longrightarrow> m \<le> n \<Longrightarrow> ranges_before n rs"
  by (fastforce simp: ranges_before_def)

lemma ranges_before_snoc:
  assumes "ranges_before m rs" "m + 2 \<le> a" "a \<le> b"
  shows "ranges_before (b + 2) (rs @ [(a, b)])"
proof -
  have last: "rs \<noteq> [] \<Longrightarrow> snd (last rs) + 2 \<le> m"
    using assms(1) last_in_set [of rs] by (auto simp: ranges_before_def split_beta)
  have "\<forall>(x, y) \<in> set (rs @ [(a, b)]). 2 \<le> x \<and> x \<le> y \<and> y + 2 \<le> b + 2"
    using assms by (auto simp: ranges_before_def)
  moreover have "successive (\<lambda>(a, b) (a', b'). b + 2 \<le> a' - 2) (rs @ [(a, b)])"
    using assms last by (auto simp: ranges_before_def successive_snoc split: prod.splits)
  ultimately show ?thesis by (simp add: ranges_before_def)
qed

lemma code_ranges_loop_total:
  assumes "ranges_before c rs" "c \<le> length s"
  shows "\<exists>rs'. code_ranges_loop s c raw rs = Some rs' \<and> ranges_before (length s) rs'"
  using assms
proof (induction "length s - c" arbitrary: c raw rs rule: less_induct)
  case less
  note unfold = code_ranges_loop.simps [of s c raw rs]
  have stop: "ranges_before (length s) rs" using less.prems ranges_before_mono by blast
  show ?case
  proof (cases "c < length s \<and> raw")
    case True
    show ?thesis
    proof (cases "end_raw_search s c")
      case None
      then show ?thesis using True stop by (subst unfold) simp
    next
      case (Some e)
      have e: "c < e" "e \<le> length s" using end_raw_search_bounds [OF Some] by auto
      have "\<exists>rs'. code_ranges_loop s e False rs = Some rs' \<and> ranges_before (length s) rs'"
        using e less.prems ranges_before_mono [of c rs e] True by (intro less.hyps) auto
      then show ?thesis using True Some by (subst unfold) simp
    qed
  next
    case False
    show ?thesis
    proof (cases "c < length s")
      case False
      then show ?thesis using stop by (subst unfold) simp
    next
      case c: True
      have nraw: "\<not> raw" using c False by simp
      show ?thesis
      proof (cases "next_delimiter s c")
        case None
        then show ?thesis using c nraw stop by (subst unfold) simp
      next
        case (Some p)
        obtain i d where p: "p = (i, d)" by force
        have i: "c \<le> i" "i + 2 \<le> length s" using next_delimiter_bounds Some p by blast+
        have go: "\<exists>rs'. code_ranges_loop s (e + 2) raw' rs = Some rs' \<and> ranges_before (length s) rs'"
          if "i + 2 \<le> e" "e + 2 \<le> length s" for e raw'
          using that i less.prems ranges_before_mono [of c rs "e + 2"] by (intro less.hyps) auto
        have snoc: "\<exists>rs'. code_ranges_loop s (e + 2) raw (rs @ [(i + 2, e)]) = Some rs'
            \<and> ranges_before (length s) rs'" if "i + 2 \<le> e" "e + 2 \<le> length s" for e
          using that i less.prems(1) ranges_before_snoc [of i rs "i + 2" e] ranges_before_mono [of c rs i]
          by (intro less.hyps) auto
        show ?thesis
        proof (cases "d = ''{#''")
          case True
          show ?thesis
          proof (cases "find_from s ''#}'' (i + 2)")
            case None
            then show ?thesis using c nraw Some p True stop by (subst unfold) simp
          next
            case e: (Some e)
            have "i + 2 \<le> e" "e + 2 \<le> length s" using find_from_bounds [OF e] by auto
            then show ?thesis using c nraw Some p True e go by (subst unfold) simp
          qed
        next
          case nd: False
          let ?close = "find_jinja_closing (if d = ''{{'' then ''}}'' else ''%}'') None False (i + 2)
             (drop (i + 2) s)"
          show ?thesis
          proof (cases ?close)
            case None
            then show ?thesis using c nraw Some p nd stop by (subst unfold) simp
          next
            case e: (Some e)
            have "length (if d = ''{{'' then ''}}'' else ''%}'') = 2" by simp
            then have "i + 2 \<le> e" "e + 2 \<le> length s"
              using find_jinja_closing_bounds [OF e] i by auto
            then show ?thesis using c nraw Some p nd e go [of e True] snoc [of e] by (subst unfold) simp
          qed
        qed
      qed
    qed
  qed
qed

section \<open>The strings of a document\<close>

text \<open>A JSON object built by the program has every key once.\<close>

fun json_dicts :: "json \<Rightarrow> bool" where
  "json_dicts (JObj kvs) = (distinct (map fst kvs) \<and> list_all (\<lambda>(k, v). json_dicts v) kvs)"
| "json_dicts (JArr vs) = list_all json_dicts vs"
| "json_dicts _ = True"

fun string_leaves :: "json \<Rightarrow> ref_path \<Rightarrow> (ref_path \<times> string) list" where
  "string_leaves (JObj kvs) path = concat (map (\<lambda>(k, v). string_leaves v (path @ [PKey k])) kvs)"
| "string_leaves (JArr vs) path =
     concat (map (\<lambda>(i, v). string_leaves v (path @ [PIndex i])) (zip [0..<length vs] vs))"
| "string_leaves (JStr s) path = [(path, s)]"
| "string_leaves _ path = []"

lemma string_leaves_prefix:
  "(q, s) \<in> set (string_leaves v path) \<Longrightarrow> \<exists>r. q = path @ r"
proof (induction v path rule: string_leaves.induct)
  case (1 kvs path)
  then obtain k v where "(k, v) \<in> set kvs" "(q, s) \<in> set (string_leaves v (path @ [PKey k]))" by auto
  with 1(1) show ?case by fastforce
next
  case (2 vs path)
  then obtain i v where "(i, v) \<in> set (zip [0..<length vs] vs)"
    "(q, s) \<in> set (string_leaves v (path @ [PIndex i]))" by auto
  with 2(1) show ?case by fastforce
qed auto

lemma string_leaves_disjoint:
  assumes "(q, s) \<in> set (string_leaves v (path @ [x]))" "(q, s') \<in> set (string_leaves w (path @ [y]))"
  shows "x = y"
  using string_leaves_prefix [OF assms(1)] string_leaves_prefix [OF assms(2)] by auto

lemma distinct_concat_map:
  assumes "distinct xs" "\<And>x. x \<in> set xs \<Longrightarrow> distinct (f x)"
    "\<And>x y z. x \<in> set xs \<Longrightarrow> y \<in> set xs \<Longrightarrow> z \<in> set (f x) \<Longrightarrow> z \<in> set (f y) \<Longrightarrow> x = y"
  shows "distinct (concat (map f xs))"
  using assms
proof (induction xs)
  case (Cons x xs)
  have "distinct (concat (map f xs))"
    by (rule Cons.IH) (use Cons.prems in \<open>auto intro: Cons.prems(3)\<close>)
  moreover have "set (f x) \<inter> \<Union> (set ` set (map f xs)) = {}"
    using Cons.prems(1) Cons.prems(3) [of x] by fastforce
  ultimately show ?case using Cons.prems(2) by simp
qed simp

lemma string_leaves_distinct: "json_dicts v \<Longrightarrow> distinct (map fst (string_leaves v path))"
proof (induction v path rule: string_leaves.induct)
  case (1 kvs path)
  have d: "distinct kvs" using 1(2) by (simp add: distinct_map)
  have same: "v = w" if "(k, v) \<in> set kvs" "(k, w) \<in> set kvs" for k v w
    using that 1(2) by (metis eq_key_imp_eq_value json_dicts.simps(1))
  show ?case
    unfolding string_leaves.simps map_concat map_map
  proof (rule distinct_concat_map [OF d])
    show "distinct ((map fst \<circ> (\<lambda>(k, v). string_leaves v (path @ [PKey k]))) x)" if "x \<in> set kvs" for x
      using 1 that by (cases x) (auto simp: list_all_iff)
  next
    fix x y z
    assume mem: "x \<in> set kvs" "y \<in> set kvs"
      and "z \<in> set ((map fst \<circ> (\<lambda>(k, v). string_leaves v (path @ [PKey k]))) x)"
        "z \<in> set ((map fst \<circ> (\<lambda>(k, v). string_leaves v (path @ [PKey k]))) y)"
    then obtain s s' where "(z, s) \<in> set (string_leaves (snd x) (path @ [PKey (fst x)]))"
      "(z, s') \<in> set (string_leaves (snd y) (path @ [PKey (fst y)]))"
      by (auto simp: split_beta)
    then have "fst x = fst y" using string_leaves_disjoint by blast
    then show "x = y" using mem same by (metis prod.collapse)
  qed
next
  case (2 vs path)
  have d: "distinct (zip [0..<length vs] vs)" by (simp add: distinct_zipI1)
  have same: "v = w" if "(i, v) \<in> set (zip [0..<length vs] vs)" "(i, w) \<in> set (zip [0..<length vs] vs)" for i v w
    using that by (auto simp: in_set_zip)
  show ?case
    unfolding string_leaves.simps map_concat map_map
  proof (rule distinct_concat_map [OF d])
    show "distinct ((map fst \<circ> (\<lambda>(i, v). string_leaves v (path @ [PIndex i]))) x)"
      if x: "x \<in> set (zip [0..<length vs] vs)" for x
    proof -
      have "json_dicts (snd x)" using x 2(2) set_zip_rightD [of "fst x" "snd x"] by (simp add: list_all_iff)
      then show ?thesis using 2(1) [OF x, of "fst x" "snd x"] by (simp add: split_beta)
    qed
  next
    fix x y z
    assume mem: "x \<in> set (zip [0..<length vs] vs)" "y \<in> set (zip [0..<length vs] vs)"
      and "z \<in> set ((map fst \<circ> (\<lambda>(i, v). string_leaves v (path @ [PIndex i]))) x)"
        "z \<in> set ((map fst \<circ> (\<lambda>(i, v). string_leaves v (path @ [PIndex i]))) y)"
    then obtain s s' where "(z, s) \<in> set (string_leaves (snd x) (path @ [PIndex (fst x)]))"
      "(z, s') \<in> set (string_leaves (snd y) (path @ [PIndex (fst y)]))"
      by (auto simp: split_beta)
    then have "fst x = fst y" using string_leaves_disjoint by blast
    then show "x = y" using mem same by (metis prod.collapse)
  qed
qed simp_all

section \<open>What a scan reports\<close>

definition approved ::
  "(string \<Rightarrow> template option) \<Rightarrow> string \<Rightarrow> string option \<Rightarrow> ref_path \<times> string \<Rightarrow> bool" where
  "approved parse old provider l \<longleftrightarrow>
     scan_text parse old provider (snd l) (fst l) = Some (replaceable_at (fst l))"

lemma replaceable_at_simps [simp]:
  "replaceable_paths (replaceable_at p) = [p]" "blocked_refs (replaceable_at p) = []"
  "replaceable_paths (blocked_at p s k) = []" "replaceable_paths no_references = []"
  "blocked_refs no_references = []" "blocked_at p s k \<noteq> replaceable_at q" "no_references \<noteq> replaceable_at q"
  "blocked_refs (blocked_at p s k) = [blocked_ref p s k]"
  by (simp_all add: replaceable_at_def blocked_at_def no_references_def)

lemma scan_append_simps [simp]:
  "replaceable_paths (scan_append a b) = replaceable_paths a @ replaceable_paths b"
  "blocked_refs (scan_append a b) = blocked_refs a @ blocked_refs b"
  "scan_append no_references a = a" "scan_append a no_references = a"
  by (simp_all add: scan_append_def no_references_def)

lemma scan_text_cases:
  assumes "scan_text parse old provider s path = Some r"
  shows "r = replaceable_at path \<or> r = blocked_at path s False \<or> r = no_references"
  using assms by (auto simp: scan_text_def split: if_splits option.splits)

lemma scan_text_paths:
  assumes "scan_text parse old provider s path = Some r"
  shows "replaceable_paths r = (if approved parse old provider (path, s) then [path] else [])"
  using scan_text_cases [OF assms] assms by (auto simp: approved_def)

lemma scan_concat_eq:
  "scan_concat rs = (if None \<in> set rs then None else Some (foldr scan_append (map the rs) no_references))"
  by (induction rs rule: scan_concat.induct) auto

lemma scan_concat_Some:
  "scan_concat rs = Some r \<longleftrightarrow> None \<notin> set rs \<and> r = foldr scan_append (map the rs) no_references"
  by (auto simp: scan_concat_eq)

lemma foldr_scan_append:
  "replaceable_paths (foldr scan_append rs no_references) = concat (map replaceable_paths rs)"
  by (induction rs) auto

lemma mset_concat_perm: "mset xs = mset ys \<Longrightarrow> mset (concat (map f xs)) = mset (concat (map f ys))"
  unfolding mset_concat sum_mset_sum_list [symmetric] by (simp add: mset_map [symmetric] del: mset_map) (simp add: mset_map)

lemma mset_concat_cong:
  "(\<And>x. x \<in> set xs \<Longrightarrow> mset (f x) = mset (g x)) \<Longrightarrow> mset (concat (map f xs)) = mset (concat (map g xs))"
  by (induction xs) auto

text \<open>The paths a scan approves are those of the approved strings, in some order.\<close>

lemma scan_walk_paths:
  "scan_walk parse old provider v path = Some r \<Longrightarrow>
     mset (replaceable_paths r) = mset (map fst (filter (approved parse old provider) (string_leaves v path)))"
proof (induction v path arbitrary: r rule: string_leaves.induct)
  case (1 kvs path)
  define inner where "inner = (\<lambda>(key, v). scan_concat
         [Some (if contains_complete_entity key old then blocked_at (path @ [PKey key]) key True
                else no_references), scan_walk parse old provider v (path @ [PKey key])])"
  have scan: "scan_concat (map snd (sort_key fst (map (\<lambda>(k, v). (k, inner (k, v))) kvs))) = Some r"
    using 1(2) by (simp add: inner_def)
  let ?sorted = "sort_key fst (map (\<lambda>(k, v). (k, inner (k, v))) kvs)"
  have some: "None \<notin> snd ` set ?sorted" and r: "replaceable_paths r = concat (map (replaceable_paths \<circ> the \<circ> snd) ?sorted)"
    using scan unfolding scan_concat_Some by (auto simp: foldr_scan_append comp_assoc)
  have "mset (replaceable_paths r)
      = mset (concat (map (replaceable_paths \<circ> the \<circ> snd) (map (\<lambda>(k, v). (k, inner (k, v))) kvs)))"
    unfolding r by (rule mset_concat_perm) simp
  also have "\<dots> = mset (concat (map (\<lambda>x. replaceable_paths (the (inner x))) kvs))"
    by (simp add: comp_def split_beta)
  also have "\<dots> = mset (concat (map (\<lambda>(k, v). map fst (filter (approved parse old provider)
      (string_leaves v (path @ [PKey k])))) kvs))"
  proof (rule mset_concat_cong)
    fix x
    assume x: "x \<in> set kvs"
    obtain k v where kv: "x = (k, v)" by force
    have "inner (k, v) \<noteq> None" using some x kv by force
    then have "scan_walk parse old provider v (path @ [PKey k]) \<noteq> None"
      by (cases "scan_walk parse old provider v (path @ [PKey k])") (simp_all add: inner_def)
    then obtain r' where r': "scan_walk parse old provider v (path @ [PKey k]) = Some r'" by blast
    have "replaceable_paths (the (inner (k, v))) = replaceable_paths r'"
      by (simp add: inner_def r')
    then show "mset (replaceable_paths (the (inner x)))
      = mset (case x of (k, v) \<Rightarrow> map fst (filter (approved parse old provider) (string_leaves v (path @ [PKey k]))))"
      using 1(1) [of x k v, OF x _ r'] kv by simp
  qed
  finally show ?case by (simp add: filter_concat map_concat comp_def case_prod_unfold)
next
  case (2 vs path)
  let ?z = "zip [0..<length vs] vs"
  let ?f = "\<lambda>(i, v). scan_walk parse old provider v (path @ [PIndex i])"
  have some: "None \<notin> ?f ` set ?z" and r: "replaceable_paths r = concat (map (replaceable_paths \<circ> the \<circ> ?f) ?z)"
    using 2(2) by (auto simp: scan_concat_Some foldr_scan_append comp_assoc)
  have "mset (replaceable_paths r) = mset (concat (map (\<lambda>(i, v). map fst (filter (approved parse old provider)
      (string_leaves v (path @ [PIndex i])))) ?z))"
    unfolding r
  proof (rule mset_concat_cong)
    fix x
    assume x: "x \<in> set ?z"
    obtain i v where iv: "x = (i, v)" by force
    obtain r' where r': "scan_walk parse old provider v (path @ [PIndex i]) = Some r'"
      using some x iv by force
    show "mset ((replaceable_paths \<circ> the \<circ> ?f) x) = mset (case x of (i, v) \<Rightarrow> map fst
        (filter (approved parse old provider) (string_leaves v (path @ [PIndex i]))))"
      using 2(1) [of x i v, OF x _ r'] iv r' by simp
  qed
  then show ?case by (simp add: filter_concat map_concat comp_def case_prod_unfold)
next
  case (3 s path)
  then show ?case using scan_text_paths [of parse old provider s path r] by simp
qed auto

corollary scan_paths_set:
  assumes "scan_walk parse old provider v path = Some r"
  shows "set (replaceable_paths r) = fst ` {l \<in> set (string_leaves v path). approved parse old provider l}"
  using arg_cong [OF scan_walk_paths [OF assms], of set_mset] by simp

corollary scan_paths_distinct:
  assumes "scan_walk parse old provider v path = Some r" "json_dicts v"
  shows "distinct (replaceable_paths r)"
  using mset_eq_imp_distinct_iff [OF scan_walk_paths [OF assms(1)]]
    distinct_map_filter [OF string_leaves_distinct [OF assms(2), of path]] by blast

section \<open>What rewriting does\<close>

lemma all_some_iff: "all_some xs = Some ys \<longleftrightarrow> xs = map Some ys"
  by (induction xs arbitrary: ys rule: all_some.induct) auto

text \<open>A document without the content of its strings.\<close>

fun skeleton :: "json \<Rightarrow> json" where
  "skeleton (JObj kvs) = JObj (map (\<lambda>(k, v). (k, skeleton v)) kvs)"
| "skeleton (JArr vs) = JArr (map skeleton vs)"
| "skeleton (JStr s) = JStr []"
| "skeleton v = v"

definition rewritten :: "string \<Rightarrow> string \<Rightarrow> ref_path list \<Rightarrow> ref_path \<times> string \<Rightarrow> ref_path \<times> string" where
  "rewritten old target paths l =
     (if fst l \<in> set paths then (fst l, the (replace_text old target (snd l))) else l)"

text \<open>The members of a rewritten object or array are the rewritten members.\<close>

lemma replace_value_obj:
  assumes "replace_value old target paths (JObj kvs) path = Some (v', n)"
  obtains rs where "length rs = length kvs"
    "\<And>i. i < length kvs \<Longrightarrow> replace_value old target paths (snd (kvs ! i)) (path @ [PKey (fst (kvs ! i))])
       = Some (rs ! i)"
    "v' = JObj (zip (map fst kvs) (map fst rs))" "n = sum_list (map snd rs)"
proof -
  obtain rs where rs: "map (\<lambda>(key, v). replace_value old target paths v (path @ [PKey key])) kvs = map Some rs"
    "v' = JObj (zip (map fst kvs) (map fst rs))" "n = sum_list (map snd rs)"
    using assms by (auto simp: all_some_iff)
  have len: "length rs = length kvs" using arg_cong [OF rs(1), of length] by simp
  have "replace_value old target paths (snd (kvs ! i)) (path @ [PKey (fst (kvs ! i))]) = Some (rs ! i)"
    if "i < length kvs" for i
    using arg_cong [OF rs(1), of "\<lambda>xs. xs ! i"] that len by (simp add: split_beta)
  with rs len that show thesis by blast
qed

lemma replace_value_arr:
  assumes "replace_value old target paths (JArr vs) path = Some (v', n)"
  obtains rs where "length rs = length vs"
    "\<And>i. i < length vs \<Longrightarrow> replace_value old target paths (vs ! i) (path @ [PIndex i]) = Some (rs ! i)"
    "v' = JArr (map fst rs)" "n = sum_list (map snd rs)"
proof -
  obtain rs where rs: "map (\<lambda>(i, v). replace_value old target paths v (path @ [PIndex i])) (zip [0..<length vs] vs)
      = map Some rs" "v' = JArr (map fst rs)" "n = sum_list (map snd rs)"
    using assms by (auto simp: all_some_iff)
  have len: "length rs = length vs" using arg_cong [OF rs(1), of length] by simp
  have "replace_value old target paths (vs ! i) (path @ [PIndex i]) = Some (rs ! i)"
    if "i < length vs" for i
    using arg_cong [OF rs(1), of "\<lambda>xs. xs ! i"] that len by simp
  with rs len that show thesis by blast
qed

lemma concat_cong_nth:
  assumes "length xs = length ys" "\<And>i. i < length xs \<Longrightarrow> f (xs ! i) = g (ys ! i)"
  shows "concat (map f xs) = concat (map g ys)"
  using assms by (intro arg_cong [of _ _ concat] nth_equalityI) auto

lemma zip_upt_nth: "map f (zip [0..<length vs] vs) = map (\<lambda>i. f (i, vs ! i)) [0..<length vs]"
  by (rule nth_equalityI) auto

lemma obj_nth: "map f kvs = map (\<lambda>i. f (kvs ! i)) [0..<length kvs]"
  by (rule nth_equalityI) auto

lemma sum_list_length_concat: "sum_list (map (\<lambda>x. length (f x)) xs) = length (concat (map f xs))"
  by (induction xs) auto

definition touched :: "ref_path list \<Rightarrow> ref_path \<times> string \<Rightarrow> bool" where
  "touched paths l \<longleftrightarrow> fst l \<in> set paths"

lemma replace_value_leaves:
  "replace_value old target paths v path = Some (v', n) \<Longrightarrow>
     string_leaves v' path = map (rewritten old target paths) (string_leaves v path)
     \<and> skeleton v' = skeleton v \<and> n = length (filter (touched paths) (string_leaves v path))"
proof (induction v path arbitrary: v' n rule: string_leaves.induct)
  case (1 kvs path)
  obtain rs where len: "length rs = length kvs"
    and each: "\<And>i. i < length kvs \<Longrightarrow> replace_value old target paths (snd (kvs ! i)) (path @ [PKey (fst (kvs ! i))])
       = Some (rs ! i)"
    and v': "v' = JObj (zip (map fst kvs) (map fst rs))" and n: "n = sum_list (map snd rs)"
    using replace_value_obj [OF 1(2)] by metis
  have ih: "string_leaves (fst (rs ! i)) (path @ [PKey (fst (kvs ! i))])
        = map (rewritten old target paths) (string_leaves (snd (kvs ! i)) (path @ [PKey (fst (kvs ! i))]))
      \<and> skeleton (fst (rs ! i)) = skeleton (snd (kvs ! i))
      \<and> snd (rs ! i) = length (filter (touched paths)
          (string_leaves (snd (kvs ! i)) (path @ [PKey (fst (kvs ! i))])))" if "i < length kvs" for i
    using 1(1) [of "kvs ! i" "fst (kvs ! i)" "snd (kvs ! i)" "fst (rs ! i)" "snd (rs ! i)"] that each [OF that]
    by simp
  have "string_leaves v' path = map (rewritten old target paths) (string_leaves (JObj kvs) path)"
    unfolding v' string_leaves.simps map_concat map_map
    by (rule concat_cong_nth) (use len ih in \<open>auto simp: split_beta\<close>)
  moreover have "skeleton v' = skeleton (JObj kvs)"
    unfolding v' by (auto intro!: nth_equalityI simp: len ih split_beta)
  moreover have "n = length (filter (touched paths) (string_leaves (JObj kvs) path))"
  proof -
    have "map snd rs = map (\<lambda>(k, v). length (filter (touched paths) (string_leaves v (path @ [PKey k])))) kvs"
      by (rule nth_equalityI) (use len ih in \<open>auto simp: split_beta\<close>)
    then show ?thesis
      by (simp add: n filter_concat comp_def case_prod_unfold sum_list_length_concat [symmetric])
  qed
  ultimately show ?case by blast
next
  case (2 vs path)
  obtain rs where len: "length rs = length vs"
    and each: "\<And>i. i < length vs \<Longrightarrow> replace_value old target paths (vs ! i) (path @ [PIndex i]) = Some (rs ! i)"
    and v': "v' = JArr (map fst rs)" and n: "n = sum_list (map snd rs)"
    using replace_value_arr [OF 2(2)] by metis
  have ih: "string_leaves (fst (rs ! i)) (path @ [PIndex i])
        = map (rewritten old target paths) (string_leaves (vs ! i) (path @ [PIndex i]))
      \<and> skeleton (fst (rs ! i)) = skeleton (vs ! i)
      \<and> snd (rs ! i) = length (filter (touched paths) (string_leaves (vs ! i) (path @ [PIndex i])))"
    if "i < length vs" for i
  proof -
    have "(i, vs ! i) \<in> set (zip [0..<length vs] vs)" using that by (auto simp: in_set_zip intro!: exI [of _ i])
    then show ?thesis
      using 2(1) [of "(i, vs ! i)" i "vs ! i" "fst (rs ! i)" "snd (rs ! i)"] that each [OF that] by simp
  qed
  have "string_leaves v' path = map (rewritten old target paths) (string_leaves (JArr vs) path)"
    unfolding v' string_leaves.simps map_concat map_map
    by (rule concat_cong_nth) (use len ih in auto)
  moreover have "skeleton v' = skeleton (JArr vs)"
    unfolding v' by (auto intro!: nth_equalityI simp: len ih)
  moreover have "n = length (filter (touched paths) (string_leaves (JArr vs) path))"
  proof -
    have "map snd rs = map (\<lambda>(i, v). length (filter (touched paths) (string_leaves v (path @ [PIndex i]))))
        (zip [0..<length vs] vs)"
      by (rule nth_equalityI) (use len ih in auto)
    then show ?thesis
      by (simp add: n filter_concat comp_def case_prod_unfold sum_list_length_concat [symmetric])
  qed
  ultimately show ?case by blast
qed (auto simp: rewritten_def touched_def split: if_splits)

lemma touched_is_approved:
  assumes "scan_walk parse old provider v path = Some r" "json_dicts v" "l \<in> set (string_leaves v path)"
  shows "touched (replaceable_paths r) l \<longleftrightarrow> approved parse old provider l"
proof -
  have "inj_on fst (set (string_leaves v path))"
    using string_leaves_distinct [OF assms(2), of path] by (simp add: distinct_map)
  then show ?thesis
    using assms(3) unfolding touched_def scan_paths_set [OF assms(1)] inj_on_def by auto
qed

lemma touched_count:
  assumes "scan_walk parse old provider v path = Some r" "json_dicts v"
  shows "length (filter (touched (replaceable_paths r)) (string_leaves v path)) = length (replaceable_paths r)"
proof -
  have "filter (touched (replaceable_paths r)) (string_leaves v path)
      = filter (approved parse old provider) (string_leaves v path)"
    by (rule filter_cong) (use touched_is_approved assms in auto)
  then show ?thesis
    using arg_cong [OF scan_walk_paths [OF assms(1)], of size] by (metis length_map size_mset)
qed

section \<open>A rewritten document has nothing left to rewrite\<close>

definition settled :: "semantic_scan \<Rightarrow> semantic_scan" where
  "settled r = r\<lparr>replaceable_paths := []\<rparr>"

lemma settled_simps [simp]:
  "settled no_references = no_references" "settled (blocked_at p s k) = blocked_at p s k"
  "settled (replaceable_at p) = no_references"
  "settled (scan_append a b) = scan_append (settled a) (settled b)"
  by (simp_all add: settled_def no_references_def blocked_at_def replaceable_at_def scan_append_def)

lemma settled_foldr: "settled (foldr scan_append rs no_references) = foldr scan_append (map settled rs) no_references"
  by (induction rs) auto

lemma scan_concat_settled: "scan_concat (map (map_option settled) rs) = map_option settled (scan_concat rs)"
proof -
  have "the (map_option settled x) = settled (the x)" if "x \<in> set rs" "None \<notin> set rs" for x
    using that by (metis option.map_sel)
  then have m: "map (the \<circ> map_option settled) rs = map (settled \<circ> the) rs" if "None \<notin> set rs"
    using that by simp
  have "foldr scan_append (map (the \<circ> map_option settled) rs) no_references
      = foldr scan_append (map (settled \<circ> the) rs) no_references" if "None \<notin> set rs"
    by (rule arg_cong [OF m [OF that], of "\<lambda>xs. foldr scan_append xs no_references"])
  then show ?thesis
    by (cases "None \<in> set rs") (simp_all add: scan_concat_eq settled_foldr image_iff)
qed

lemma insort_key_map:
  "\<lbrakk>\<And>x. f (g x) = f x\<rbrakk> \<Longrightarrow> insort_key f (g x) (map g xs) = map g (insort_key f x xs)"
  by (induction xs) auto

lemma sort_key_map: "\<lbrakk>\<And>x. f (g x) = f x\<rbrakk> \<Longrightarrow> sort_key f (map g xs) = map g (sort_key f xs)"
  by (induction xs) (auto simp: insort_key_map)

lemma scan_rewritten:
  "\<lbrakk>replace_value old target paths v path = Some (v', n); scan_walk parse old provider v path = Some r;
    \<And>q s. (q, s) \<in> set (string_leaves v path) \<Longrightarrow> q \<notin> set paths \<Longrightarrow> \<not> approved parse old provider (q, s);
    \<And>q s. (q, s) \<in> set (string_leaves v path) \<Longrightarrow> q \<in> set paths \<Longrightarrow>
      approved parse old provider (q, s) \<and>
      scan_text parse old provider (the (replace_text old target s)) q = Some no_references\<rbrakk>
   \<Longrightarrow> scan_walk parse old provider v' path = Some (settled r)"
proof (induction v path arbitrary: v' n r rule: string_leaves.induct)
  case (1 kvs path)
  obtain rs where len: "length rs = length kvs"
    and each: "\<And>i. i < length kvs \<Longrightarrow> replace_value old target paths (snd (kvs ! i)) (path @ [PKey (fst (kvs ! i))])
       = Some (rs ! i)"
    and v': "v' = JObj (zip (map fst kvs) (map fst rs))"
    using replace_value_obj [OF 1(2)] by metis
  define inner where "inner = (\<lambda>(key, v). scan_concat
         [Some (if contains_complete_entity key old then blocked_at (path @ [PKey key]) key True
                else no_references), scan_walk parse old provider v (path @ [PKey key])])"
  define pairs where "pairs = map (\<lambda>(k, v). (k, inner (k, v))) kvs"
  define settle where "settle = (\<lambda>(k, s). (k, map_option settled s) :: string \<times> semantic_scan option)"
  have scan: "scan_concat (map snd (sort_key fst pairs)) = Some r"
    using 1(3) by (simp add: inner_def pairs_def)
  then have some: "None \<notin> snd ` set pairs"
    unfolding scan_concat_Some by auto
  have member: "inner (fst (kvs ! i), fst (rs ! i)) = map_option settled (inner (kvs ! i))"
    if i: "i < length kvs" for i
  proof -
    let ?k = "fst (kvs ! i)" and ?v = "snd (kvs ! i)"
    have "pairs ! i \<in> set pairs" "snd (pairs ! i) = inner (kvs ! i)"
      using i by (auto simp: pairs_def split_beta)
    then have "inner (kvs ! i) \<noteq> None" using some by (metis imageI)
    then have "scan_walk parse old provider ?v (path @ [PKey ?k]) \<noteq> None"
      by (cases "scan_walk parse old provider ?v (path @ [PKey ?k])") (simp_all add: inner_def split_beta)
    then obtain r' where r': "scan_walk parse old provider ?v (path @ [PKey ?k]) = Some r'" by blast
    have "(q, s) \<in> set (string_leaves (JObj kvs) path)" if "(q, s) \<in> set (string_leaves ?v (path @ [PKey ?k]))" for q s
      using that i by (auto simp: split_beta intro!: bexI [of _ "kvs ! i"])
    then have "scan_walk parse old provider (fst (rs ! i)) (path @ [PKey ?k]) = Some (settled r')"
      using 1(1) [of "kvs ! i" ?k ?v "fst (rs ! i)" "snd (rs ! i)" r'] 1(4,5) i each [OF i] r' by simp
    with r' show ?thesis by (simp add: inner_def split_beta)
  qed
  have "map (\<lambda>(k, v). (k, inner (k, v))) (zip (map fst kvs) (map fst rs)) = map settle pairs"
    by (rule nth_equalityI) (use len member in \<open>auto simp: pairs_def settle_def split_beta\<close>)
  then have "scan_walk parse old provider v' path = scan_concat (map snd (sort_key fst (map settle pairs)))"
    by (simp add: v' inner_def)
  also have "\<dots> = scan_concat (map (map_option settled) (map snd (sort_key fst pairs)))"
    by (subst sort_key_map) (auto simp: settle_def comp_def split_beta)
  also have "\<dots> = Some (settled r)" unfolding scan_concat_settled scan by simp
  finally show ?case .
next
  case (2 vs path)
  obtain rs where len: "length rs = length vs"
    and each: "\<And>i. i < length vs \<Longrightarrow> replace_value old target paths (vs ! i) (path @ [PIndex i]) = Some (rs ! i)"
    and v': "v' = JArr (map fst rs)"
    using replace_value_arr [OF 2(2)] by metis
  let ?scan = "\<lambda>i v. scan_walk parse old provider v (path @ [PIndex i])"
  have scan: "scan_concat (map (\<lambda>(i, v). ?scan i v) (zip [0..<length vs] vs)) = Some r"
    using 2(3) by simp
  then have some: "None \<notin> (\<lambda>(i, v). ?scan i v) ` set (zip [0..<length vs] vs)"
    unfolding scan_concat_Some by auto
  have member: "?scan i (fst (rs ! i)) = map_option settled (?scan i (vs ! i))" if i: "i < length vs" for i
  proof -
    have mem: "(i, vs ! i) \<in> set (zip [0..<length vs] vs)" using i by (auto simp: in_set_zip intro!: exI [of _ i])
    then obtain r' where r': "?scan i (vs ! i) = Some r'" using some by force
    have "(q, s) \<in> set (string_leaves (JArr vs) path)" if "(q, s) \<in> set (string_leaves (vs ! i) (path @ [PIndex i]))" for q s
      using that mem by force
    then have "?scan i (fst (rs ! i)) = Some (settled r')"
      using 2(1) [of "(i, vs ! i)" i "vs ! i" "fst (rs ! i)" "snd (rs ! i)" r'] 2(4,5) mem each [OF i] r' by simp
    with r' show ?thesis by simp
  qed
  have "map (\<lambda>(i, v). ?scan i v) (zip [0..<length (map fst rs)] (map fst rs))
      = map (map_option settled) (map (\<lambda>(i, v). ?scan i v) (zip [0..<length vs] vs))"
    by (rule nth_equalityI) (use len member in auto)
  then have "scan_walk parse old provider v' path
      = scan_concat (map (map_option settled) (map (\<lambda>(i, v). ?scan i v) (zip [0..<length vs] vs)))"
    by (simp add: v')
  also have "\<dots> = Some (settled r)" unfolding scan_concat_settled scan by simp
  finally show ?case .
next
  case (3 s path)
  show ?case
  proof (cases "path \<in> set paths")
    case True
    have ok: "approved parse old provider (path, s)"
      "scan_text parse old provider (the (replace_text old target s)) path = Some no_references"
      using 3(4) [of path s] True by auto
    then have "r = replaceable_at path" using 3(2) by (simp add: approved_def)
    moreover have "v' = JStr (the (replace_text old target s))" using 3(1) True by auto
    ultimately show ?thesis using ok by simp
  next
    case False
    then have "r \<noteq> replaceable_at path" using 3(2,3) by (auto simp: approved_def)
    then have "settled r = r" using scan_text_cases [of parse old provider s path r] 3(2) by auto
    then show ?thesis using 3(1,2) False by auto
  qed
qed auto

text \<open>
  The rewriting of a plain identifier leaves nothing to rewrite. For a template this depends on the
  template parser, and is what \<open>rewrites_settle\<close> asks of the strings of a document.
\<close>

definition rewrites_settle ::
  "(string \<Rightarrow> template option) \<Rightarrow> string \<Rightarrow> string \<Rightarrow> string option \<Rightarrow> json \<Rightarrow> bool" where
  "rewrites_settle parse old target provider v \<longleftrightarrow> list_all (\<lambda>(q, s).
     s \<noteq> old \<longrightarrow> approved parse old provider (q, s) \<longrightarrow>
     scan_text parse old provider (the (replace_text old target s)) q = Some no_references) (string_leaves v [])"

lemma identifier_settles:
  assumes "entity_id old" "entity_id target" "target \<noteq> old"
  shows "scan_text parse old provider target q = Some no_references"
  using assms entity_id_not_template other_entity_not_contained by (auto simp: scan_text_def)

lemma template_free_settles:
  assumes "list_all (\<lambda>(q, s). \<not> is_template_text s) (string_leaves v [])"
  shows "rewrites_settle parse old target provider v"
  using assms unfolding rewrites_settle_def list_all_iff approved_def scan_text_def
  by (auto split: if_splits)

theorem scan_after_replace:
  assumes "replace_semantic_references parse v old target provider = Some (v', n)" "json_dicts v"
    "scan_semantic_references parse v old provider = Some r" "entity_id old" "entity_id target" "target \<noteq> old"
    "rewrites_settle parse old target provider v"
  shows "scan_semantic_references parse v' old provider = Some (settled r)"
proof -
  have scan: "scan_walk parse old provider v [] = Some r" and args: "old \<noteq> []" "provider \<noteq> Some []"
    using assms(3) by (auto simp: scan_semantic_references_def split: if_splits)
  have rep: "replace_value old target (replaceable_paths r) v [] = Some (v', n)"
    using assms(1,3) by (simp add: replace_semantic_references_def)
  have same: "q \<in> set (replaceable_paths r) \<longleftrightarrow> approved parse old provider (q, s)"
    if "(q, s) \<in> set (string_leaves v [])" for q s
    using touched_is_approved [OF scan assms(2) that] by (simp add: touched_def)
  have "scan_walk parse old provider v' [] = Some (settled r)"
  proof (rule scan_rewritten [OF rep scan])
    fix q s
    assume l: "(q, s) \<in> set (string_leaves v [])"
    show "\<not> approved parse old provider (q, s)" if "q \<notin> set (replaceable_paths r)"
      using same [OF l] that by simp
    show "approved parse old provider (q, s) \<and>
        scan_text parse old provider (the (replace_text old target s)) q = Some no_references"
      if "q \<in> set (replaceable_paths r)"
    proof (cases "s = old")
      case True
      then show ?thesis
        using same [OF l] that identifier_settles [OF assms(4,5,6)] by (simp add: replace_text_def)
    next
      case False
      then show ?thesis
        using same [OF l] that assms(7) l by (auto simp: rewrites_settle_def list_all_iff)
    qed
  qed
  with args show ?thesis by (simp add: scan_semantic_references_def)
qed

section \<open>Properties\<close>

text \<open>
  C30. Test for an entity token. For an identifier of the form \<open>word.word\<close> the lookahead pattern finds it
  in a text exactly where it occurs with no word character next to it on either side.
\<close>

theorem token_test_is_delimited_occurrence:
  assumes "entity_id old"
  shows "contains_complete_entity s old \<longleftrightarrow>
    (\<exists>a b. s = a @ old @ b \<and> (a \<noteq> [] \<longrightarrow> \<not> word_char (last a)) \<and> (b \<noteq> [] \<longrightarrow> \<not> word_char (hd b)))"
  using contains_complete_entity_iff [OF assms] by (simp add: delimited_def)

lemma entity_id_sample: "entity_id ''climate.old''" "entity_id ''climate.new''"
  unfolding entity_id_def
  by (rule exI [of _ "''climate''"], rule exI [of _ "''old''"], code_simp)
     (rule exI [of _ "''climate''"], rule exI [of _ "''new''"], code_simp)

theorem token_test_is_delimited_occurrence_witness:
  "entity_id ''climate.old'' \<and> contains_complete_entity ''x climate.old.y'' ''climate.old''"
proof -
  have "''x climate.old.y'' = ''x '' @ ''climate.old'' @ ''.y''" by simp
  moreover have "\<not> word_char (last ''x '') \<and> \<not> word_char (hd ''.y'')" by (simp add: word_char_def)
  ultimately show ?thesis
    using token_test_is_delimited_occurrence [OF entity_id_sample(1), of "''x climate.old.y''"]
      entity_id_sample(1) by blast
qed

text \<open>
  C31. The loop that collects the code ranges of a template returns on every text, and its ranges lie
  inside the text between their delimiters, in order and without overlap.
\<close>

theorem jinja_code_ranges_total:
  "\<exists>rs. code_ranges_loop s 0 False [] = Some rs \<and> jinja_code_ranges s = rs
    \<and> list_all (\<lambda>(a, b). 2 \<le> a \<and> a \<le> b \<and> b + 2 \<le> length s) rs
    \<and> successive (\<lambda>(a, b) (a', b'). b + 2 \<le> a' - 2) rs"
  using code_ranges_loop_total [of 0 "[]" s False]
  by (auto simp: jinja_code_ranges_def ranges_before_def list_all_iff)

text \<open>
  C29. What rewriting changes. When \<open>replace_semantic_references\<close> returns, the result has the same
  structure, keys and other scalars; the strings at the paths the scan approved are rewritten, every
  other string is unchanged, and the count it reports is the number of those paths, which are distinct.
\<close>

theorem replace_changes_approved_strings_only:
  assumes "replace_semantic_references parse v old target provider = Some (v', n)" "json_dicts v"
  shows "\<exists>r. scan_semantic_references parse v old provider = Some r
    \<and> distinct (replaceable_paths r) \<and> n = length (replaceable_paths r) \<and> skeleton v' = skeleton v
    \<and> string_leaves v' [] = map (rewritten old target (replaceable_paths r)) (string_leaves v [])"
proof -
  obtain r where r: "scan_semantic_references parse v old provider = Some r"
    and rep: "replace_value old target (replaceable_paths r) v [] = Some (v', n)"
    using assms(1) by (auto simp: replace_semantic_references_def split: option.splits)
  have scan: "scan_walk parse old provider v [] = Some r"
    using r by (auto simp: scan_semantic_references_def split: if_splits)
  show ?thesis
    using r replace_value_leaves [OF rep] touched_count [OF scan assms(2)]
      scan_paths_distinct [OF scan assms(2)] by auto
qed

text \<open>A small document with one plain and one template reference, and a parser that knows the template.\<close>

definition sample_template :: string where
  "sample_template = ''{{ states('' @ [CHR 0x27] @ ''climate.old'' @ [CHR 0x27] @ '') }}''"

definition sample_parse :: "string \<Rightarrow> template option" where
  "sample_parse s =
     (if s = sample_template then Some (TOther [TCall (TName ''states'') [TConst (JStr ''climate.old'')] []])
      else Some (TOther []))"

definition sample_document :: json where
  "sample_document = JObj [(''entity_id'', JArr [JStr ''climate.old'', JStr ''climate.other'']),
     (''state'', JStr sample_template), (''name'', JStr ''Old valve'')]"

lemma sample_replaced:
  "replace_semantic_references sample_parse sample_document ''climate.old'' ''climate.new'' (Some ''lovelace'')
     = Some (JObj [(''entity_id'', JArr [JStr ''climate.new'', JStr ''climate.other'']),
         (''state'', JStr (''{{ states('' @ [CHR 0x27] @ ''climate.new'' @ [CHR 0x27] @ '') }}'')),
         (''name'', JStr ''Old valve'')], 2)"
  by code_simp

theorem replace_changes_approved_strings_only_witness:
  "\<exists>v' r. replace_semantic_references sample_parse sample_document ''climate.old'' ''climate.new'' (Some ''lovelace'')
      = Some (v', 2)
    \<and> scan_semantic_references sample_parse sample_document ''climate.old'' (Some ''lovelace'') = Some r
    \<and> length (replaceable_paths r) = 2"
  using replace_changes_approved_strings_only [OF sample_replaced] sample_replaced
  by (force simp: sample_document_def)


lemma sample_scanned:
  "scan_semantic_references sample_parse sample_document ''climate.old'' (Some ''lovelace'') =
     Some \<lparr>replaceable_paths = [[PKey ''entity_id'', PIndex 0], [PKey ''state'']], blocked_refs = []\<rparr>"
  by code_simp

lemma sample_settles:
  "json_dicts sample_document"
  "rewrites_settle sample_parse ''climate.old'' ''climate.new'' (Some ''lovelace'') sample_document"
  by code_simp+


end
