(* ===== verification/Migration_Plan.thy ===== *)
theory Migration_Plan
  imports Migration_Types Migration_Memory Projection_Safety
begin

text \<open>
  What a plan that was created says: its documents are all the documents of the providers as they
  are, each writable and free of embedded references, with the paths to rewrite and the fingerprint
  the rewritten document will have.
\<close>

definition planned_for ::
  "(string \<Rightarrow> template option) \<Rightarrow> (string \<Rightarrow> string) \<Rightarrow> string \<Rightarrow> (string \<times> string) list \<Rightarrow> document
   \<Rightarrow> planned_document \<Rightarrow> bool" where
  "planned_for parse H old targets d pd \<longleftrightarrow> pd_key pd = doc_key d \<and> pd_revision pd = doc_revision d
     \<and> doc_writable d \<and> pd_writable pd \<and> document_fingerprint H d = Inr (pd_fingerprint pd)
     \<and> scan_references parse (doc_payload d) old (Some (pd_provider pd))
         = Inr \<lparr>exact_paths = pd_exact_paths pd, embedded = []\<rparr>
     \<and> (\<exists>target replaced count. map_of targets (pd_provider pd) = Some target
          \<and> replace_exact_scalars parse (doc_payload d) old target (Some (pd_provider pd)) = Inr (replaced, count)
          \<and> payload_fingerprint H replaced = Inr (pd_post_fingerprint pd))"

definition acc_shape :: "string list \<Rightarrow> plan_acc \<Rightarrow> bool" where
  "acc_shape names acc \<longleftrightarrow> distinct (map pd_key (pa_documents acc)) \<and> pd_key ` set (pa_documents acc) \<subseteq> set (pa_seen acc)
     \<and> pd_provider ` set (pa_documents acc) \<subseteq> set names"

lemma plan_document_effect:
  assumes "plan_document parse H old targets provider d acc = Inr acc'"
  obtains "pa_documents acc' = pa_documents acc" "set (pa_seen acc) \<subseteq> set (pa_seen acc')"
  | pd where "pa_documents acc' = pa_documents acc @ [pd]" "pd_key pd \<notin> set (pa_seen acc)"
      "set (pa_seen acc') = insert (pd_key pd) (set (pa_seen acc))" "pd_provider pd = provider"
  using assms by (fastforce simp: plan_document_def add_reason_def Let_def pd_key_def
      split: if_splits sum.splits option.splits)

lemma plan_document_shape:
  assumes "plan_document parse H old targets provider d acc = Inr acc'" "acc_shape names acc" "provider \<in> set names"
  shows "acc_shape names acc'"
  using assms(2,3) by (cases rule: plan_document_effect [OF assms(1)]) (auto simp: acc_shape_def image_subset_iff)

definition exact_sum :: "planned_document list \<Rightarrow> int" where
  "exact_sum pds = sum_list (map (\<lambda>pd. int (length (pd_exact_paths pd))) pds)"

text \<open>The accumulator after the documents with keys \<open>K\<close>, as long as nothing blocks the plan.\<close>

definition acc_planned ::
  "(string \<Rightarrow> template option) \<Rightarrow> (string \<Rightarrow> string) \<Rightarrow> string \<Rightarrow> (string \<times> string) list \<Rightarrow> (doc_key \<Rightarrow> document option)
   \<Rightarrow> doc_key set \<Rightarrow> plan_acc \<Rightarrow> bool" where
  "acc_planned parse H old targets docs K acc \<longleftrightarrow> (pa_reasons acc = [] \<longrightarrow>
     set (pa_seen acc) = K \<and> pd_key ` set (pa_documents acc) = K
     \<and> (\<forall>pd \<in> set (pa_documents acc). \<exists>d. docs (pd_key pd) = Some d \<and> planned_for parse H old targets d pd)
     \<and> ((\<forall>key \<in> K. \<forall>d. docs key = Some d \<longrightarrow> json_dicts (doc_payload d)) \<longrightarrow>
          pa_exact acc = exact_sum (pa_documents acc)))"

lemma reason_if_Nil [simp]: "reason_if b r = [] \<longleftrightarrow> \<not> b"
  by (simp add: reason_if_def)

lemma replace_scan_count:
  assumes "scan_references parse v old provider = Inr scan" "replace_exact_scalars parse v old target provider = Inr (v', n)"
    "json_dicts v"
  shows "n = length (exact_paths scan)"
proof -
  obtain r where r: "scan_semantic_references parse v old provider = Some r" "exact_paths scan = replaceable_paths r"
    using assms(1) by (auto simp: scan_references_def split: if_splits option.splits)
  have rep: "replace_semantic_references parse v old target provider = Some (v', n)"
    using assms(2) by (auto simp: replace_exact_scalars_def split: if_splits option.splits)
  then have rv: "replace_value old target (replaceable_paths r) v [] = Some (v', n)"
    using r(1) by (simp add: replace_semantic_references_def)
  have "scan_walk parse old provider v [] = Some r"
    using r(1) by (auto simp: scan_semantic_references_def split: if_splits)
  from touched_count [OF this assms(3)] replace_value_leaves [OF rv] show ?thesis using r(2) by simp
qed

lemma plan_document_planned:
  assumes step: "plan_document parse H old targets provider d acc = Inr acc'"
    and d: "docs (provider, doc_object d) = Some d" "doc_key d = (provider, doc_object d)"
    and acc: "acc_planned parse H old targets docs K acc"
  shows "acc_planned parse H old targets docs (insert (provider, doc_object d) K) acc'"
proof (cases "pa_reasons acc' = []")
  case True
  have prov: "doc_provider d = provider" using d(2) by (simp add: doc_key_def)
  let ?key = "(provider, doc_object d)"
  note unfold = plan_document_def add_reason_def Let_def prov
  have fresh: "?key \<notin> set (pa_seen acc)" using step True by (auto simp: unfold)
  obtain f where f: "document_fingerprint H d = Inr f"
    using step True fresh by (cases "document_fingerprint H d") (auto simp: unfold split: if_splits)
  obtain scan where scan: "scan_references parse (doc_payload d) old (Some provider) = Inr scan"
    using step True fresh f by (cases "scan_references parse (doc_payload d) old (Some provider)") (auto simp: unfold split: if_splits)
  obtain target where target: "map_of targets provider = Some target"
    using step True fresh f scan by (cases "map_of targets provider") (auto simp: unfold)
  obtain replaced count where replaced:
    "replace_exact_scalars parse (doc_payload d) old target (Some provider) = Inr (replaced, count)"
    using step True fresh f scan target
    by (cases "replace_exact_scalars parse (doc_payload d) old target (Some provider)") (auto simp: unfold)
  obtain post where post: "payload_fingerprint H replaced = Inr post"
    using step True fresh f scan target replaced by (cases "payload_fingerprint H replaced") (auto simp: unfold)
  have eq: "acc' = acc\<lparr>pa_seen := pa_seen acc @ [?key], pa_reasons := pa_reasons acc
         @ reason_if (\<not> doc_writable d) (NotWritable provider (doc_object d))
         @ reason_if (embedded scan \<noteq> []) (EmbeddedReferences provider (doc_object d) (map br_path (embedded scan))),
       pa_exact := pa_exact acc + int count,
       pa_documents := pa_documents acc @ [\<lparr>pd_provider = provider, pd_object = doc_object d,
         pd_revision = doc_revision d, pd_writable = doc_writable d, pd_fingerprint = f,
         pd_post_fingerprint = post, pd_exact_paths = exact_paths scan\<rparr>]\<rparr>"
    using step fresh f scan target replaced post by (simp add: unfold)
  from True have "pa_reasons acc = []" "doc_writable d" "embedded scan = []" unfolding eq by simp_all
  with eq have *: "doc_writable d" "(provider, doc_object d) \<notin> set (pa_seen acc)"
    "document_fingerprint H d = Inr f" "scan_references parse (doc_payload d) old (Some provider) = Inr scan"
    "embedded scan = []" "map_of targets provider = Some target"
    "replace_exact_scalars parse (doc_payload d) old target (Some provider) = Inr (replaced, count)"
    "payload_fingerprint H replaced = Inr post" "pa_reasons acc = []"
    "acc' = acc\<lparr>pa_seen := pa_seen acc @ [?key], pa_reasons := [],
       pa_exact := pa_exact acc + int count,
       pa_documents := pa_documents acc @ [\<lparr>pd_provider = provider, pd_object = doc_object d,
         pd_revision = doc_revision d, pd_writable = doc_writable d, pd_fingerprint = f,
         pd_post_fingerprint = post, pd_exact_paths = exact_paths scan\<rparr>]\<rparr>"
    using fresh f scan target replaced post by simp_all
  define pd where "pd = \<lparr>pd_provider = provider, pd_object = doc_object d, pd_revision = doc_revision d,
     pd_writable = doc_writable d, pd_fingerprint = f, pd_post_fingerprint = post, pd_exact_paths = exact_paths scan\<rparr>"
  have acc': "pa_seen acc' = pa_seen acc @ [?key]" "pa_exact acc' = pa_exact acc + int count"
    "pa_documents acc' = pa_documents acc @ [pd]" unfolding *(10) by (simp_all add: pd_def)
  have old: "set (pa_seen acc) = K" "pd_key ` set (pa_documents acc) = K"
    "\<forall>pd \<in> set (pa_documents acc). \<exists>d. docs (pd_key pd) = Some d \<and> planned_for parse H old targets d pd"
    "(\<forall>key \<in> K. \<forall>d. docs key = Some d \<longrightarrow> json_dicts (doc_payload d)) \<longrightarrow> pa_exact acc = exact_sum (pa_documents acc)"
    using acc *(9) unfolding acc_planned_def by blast+
  have pd: "pd_key pd = ?key" "pd_provider pd = provider" "pd_revision pd = doc_revision d" "pd_writable pd = doc_writable d"
    "pd_fingerprint pd = f" "pd_post_fingerprint pd = post" "pd_exact_paths pd = exact_paths scan"
    by (simp_all add: pd_key_def pd_def)
  have new: "planned_for parse H old targets d pd"
  proof -
    have "scan_references parse (doc_payload d) old (Some provider) = Inr \<lparr>exact_paths = exact_paths scan, embedded = []\<rparr>"
      using *(4,5) by (cases scan) simp
    then show ?thesis unfolding planned_for_def pd using *(1,3,6,7,8) d(2) by auto
  qed
  have count: "int count = int (length (exact_paths scan))" if "json_dicts (doc_payload d)"
    using replace_scan_count [OF *(4,7) that] by simp
  have planned: "\<forall>pd \<in> set (pa_documents acc'). \<exists>d. docs (pd_key pd) = Some d \<and> planned_for parse H old targets d pd"
    using old(3) new d(1) pd(1) unfolding acc' by auto
  have "pa_exact acc' = exact_sum (pa_documents acc')"
    if "\<forall>key \<in> insert ?key K. \<forall>d. docs key = Some d \<longrightarrow> json_dicts (doc_payload d)"
    using that old(4) count d(1) unfolding acc' by (simp add: exact_sum_def pd)
  moreover have "set (pa_seen acc') = insert ?key K" "pd_key ` set (pa_documents acc') = insert ?key K"
    using old(1,2) pd(1) unfolding acc' by auto
  ultimately show ?thesis unfolding acc_planned_def using planned by blast
qed (simp add: acc_planned_def)

lemma sort_mapping:
  assumes "dict_ok d"
  shows "map_of (sort d) = map_of d" "map_of (rev (sort d)) = map_of d" "dict_ok (sort d)"
proof -
  have "distinct (map fst (sort d))"
    using assms unfolding dict_ok_def by (metis distinct_map inj_on_def mset_sort mset_eq_imp_distinct_iff set_sort set_map)
  then have ok: "dict_ok (sort d)" "dict_ok (rev (sort d))" by (simp_all add: dict_ok_def rev_map [symmetric])
  show "map_of (sort d) = map_of d" "map_of (rev (sort d)) = map_of d"
    by (rule ext, metis map_of_dict_ok ok assms set_sort set_rev option.exhaust)+
  show "dict_ok (sort d)" by (rule ok(1))
qed

section \<open>The plan that is built\<close>

lemma validate_plan_request_NilD:
  assumes "validate_plan_request configured q = []"
  shows "set (rq_required q) = set configured" "climate_entity (rq_old q)" "rq_room_id q \<noteq> []" "rq_room_revision q \<ge> 0"
    "logical_id (rq_logical q)" "target_reasons q = []"
proof -
  have "rq_required q \<noteq> [] \<and> \<not> list_ex (\<lambda>n. n = []) (rq_required q)"
    using assms by (auto simp: validate_plan_request_def Let_def split: if_splits)
  with assms have *: "sorted_set (filter (\<lambda>n. n \<notin> set configured) (rq_required q)) = []"
    "sorted_set (filter (\<lambda>n. n \<notin> set (rq_required q)) configured) = []" "rq_old q \<noteq> []" "climate_entity (rq_old q)"
    "rq_room_id q \<noteq> []" "rq_room_revision q \<ge> 0" "logical_id (rq_logical q)" "target_reasons q = []"
    by (auto simp: validate_plan_request_def Let_def)
  from *(1,2) have "set (filter (\<lambda>n. n \<notin> set configured) (rq_required q)) = {}"
    "set (filter (\<lambda>n. n \<notin> set (rq_required q)) configured) = {}"
    unfolding sorted_set_def by (metis set_sort set_remdups set_empty)+
  then show "set (rq_required q) = set configured" by (auto simp: filter_empty_conv)
  show "climate_entity (rq_old q)" "rq_room_id q \<noteq> []" "rq_room_revision q \<ge> 0" "logical_id (rq_logical q)"
    "target_reasons q = []" by (fact *)+
qed

lemma sorted_set_simps [simp]: "distinct (sorted_set xs)" "set (sorted_set xs) = set xs"
  by (simp_all add: sorted_set_def)

lemma normalize_targets_keys:
  "normalize_provider_targets names target targets = Inr ts \<Longrightarrow> map fst ts = names"
  by (auto simp: normalize_provider_targets_def comp_def split: option.splits if_splits)

lemma build_plan_simps:
  "mp_provider_targets (build_plan H q targets names acc) = sort targets" "mp_providers (build_plan H q targets names acc) = names"
  "mp_documents (build_plan H q targets names acc) = sort_key (\<lambda>d. (pd_provider d, pd_object d)) (pa_documents acc)"
  "mp_old_entity_id (build_plan H q targets names acc) = rq_old q" "mp_room_id (build_plan H q targets names acc) = rq_room_id q"
  "mp_room_revision (build_plan H q targets names acc) = rq_room_revision q"
  "mp_logical_unique_id (build_plan H q targets names acc) = rq_logical q"
  "mp_references_expected (build_plan H q targets names acc) = rq_expected q"
  "mp_exact_replacements (build_plan H q targets names acc) = pa_exact acc"
  "mp_plan_id (build_plan H q targets names acc) = plan_id_of H (mp_digest (build_plan H q targets names acc))"
  by (simp_all add: build_plan_def Let_def)

lemma plan_id_of_nonempty [simp]: "plan_id_of H digest \<noteq> []"
  by (simp add: plan_id_of_def)

lemma build_plan_shape:
  assumes "acc_shape names acc" "distinct names" "set names \<subseteq> set (co_providers c)"
  shows "plan_shape c (build_plan H q targets names acc)"
proof -
  have "distinct (map pd_key (sort_key (\<lambda>d. (pd_provider d, pd_object d)) (pa_documents acc)))"
    using assms(1) mset_sort [of "\<lambda>d. (pd_provider d, pd_object d)" "pa_documents acc"]
    unfolding acc_shape_def by (metis mset_map mset_eq_imp_distinct_iff)
  then show ?thesis using assms by (auto simp: plan_shape_def build_plan_simps acc_shape_def)
qed

lemma coordinator_ok_issue:
  assumes "coordinator_ok c" "plan_shape c plan" "mp_plan_id plan \<noteq> []"
  shows "coordinator_ok (c\<lparr>co_plans := dict_put (co_plans c) (mp_plan_id plan) plan,
    co_states := (if map_of (co_states c) (mp_plan_id plan) = None then dict_put (co_states c) (mp_plan_id plan) PLANNED
      else co_states c)\<rparr>)" (is "coordinator_ok ?c")
proof -
  have shape: "plan_shape ?c p = plan_shape c p" for p by (rule plan_shape_cong) simp
  show ?thesis
    unfolding coordinator_ok_iff shape
    using assms(2,3) coordinator_okD [OF assms(1)] assms(1) [unfolded coordinator_ok_def] by (auto split: if_splits)
qed

lemma preserves_issue:
  assumes "\<And>c. co_providers c = ps \<Longrightarrow> plan_shape c plan" "mp_plan_id plan \<noteq> []"
  shows "preserves ps (issue_plan P plan)"
proof -
  have "preserves ps (on_coordinator (\<lambda>c. c\<lparr>co_plans := dict_put (co_plans c) (mp_plan_id plan) plan,
    co_states := (if map_of (co_states c) (mp_plan_id plan) = None then dict_put (co_states c) (mp_plan_id plan) PLANNED
      else co_states c)\<rparr>))"
    by (rule preserves_coordinator, intro conjI coordinator_ok_issue assms) simp_all
  then show ?thesis unfolding issue_plan_def Let_def by (intro preserves_intros)
qed

lemma acc_shape_add [simp]: "acc_shape names (add_reason r acc) = acc_shape names acc"
  by (simp add: acc_shape_def add_reason_def)

lemma plan_provider_shape:
  assumes "provider \<in> set names" "acc_shape names acc"
  shows "holds (sane ps) (plan_provider P parse H old targets provider acc)
    (\<lambda>acc s. sane ps s \<and> acc_shape names acc) (\<lambda>_. sane ps)"
proof -
  have list: "holds (sane ps) (attempt (on_world (list_documents P provider))) (\<lambda>_. sane ps) (\<lambda>_. sane ps)"
    unfolding preserves_def [symmetric] by (intro preserves_intros)
  have loop: "holds (sane ps) (fold_action (\<lambda>d acc. from_sum (plan_document parse H old targets provider d acc)) ds acc)
      (\<lambda>acc s. sane ps s \<and> acc_shape names acc) (\<lambda>_. sane ps)" for ds
  proof (rule holds_fold_facts [where I = "\<lambda>_. acc_shape names"])
    fix d and b :: plan_acc
    assume b: "acc_shape names b"
    show "holds (sane ps) (from_sum (plan_document parse H old targets provider d b))
        (\<lambda>acc s. sane ps s \<and> acc_shape names acc) (\<lambda>_. sane ps)"
      by (rule holds_from_sum) (simp_all add: plan_document_shape [OF _ b assms(1)])
  qed (rule assms(2))
  show ?thesis
    unfolding plan_provider_def by (rule holds_andthen [OF list]) (use loop assms in \<open>auto intro!: holds_ret split: sum.split\<close>)
qed

lemma preserves_create: "preserves ps (create_plan P parse H q)"
proof -
  have issue: "preserves ps (issue_plan P (build_plan H q targets names acc))"
    if "acc_shape names acc" "distinct names" "set names = set ps" for targets names acc
    by (rule preserves_issue) (use that build_plan_shape in \<open>auto simp: build_plan_simps\<close>)
  have loop: "holds (sane ps) (fold_action (plan_provider P parse H (rq_old q) targets) names
         \<lparr>pa_reasons = [], pa_seen = [], pa_documents = [], pa_exact = 0\<rparr>)
      (\<lambda>acc s. sane ps s \<and> acc_shape names acc) (\<lambda>_. sane ps)" for targets names
    by (rule holds_fold_facts [where I = "\<lambda>_. acc_shape names"]) (auto intro: plan_provider_shape, simp add: acc_shape_def)
  have body: "preserves ps (andthen (fold_action (plan_provider P parse H (rq_old q) targets) names
         \<lparr>pa_reasons = [], pa_seen = [], pa_documents = [], pa_exact = 0\<rparr>) (\<lambda>acc.
       if pa_reasons acc @ reason_if (rq_expected q \<and> pa_exact acc = 0) NoReferencesFound \<noteq> []
       then throw (MPlanningBlocked (pa_reasons acc @ reason_if (rq_expected q \<and> pa_exact acc = 0) NoReferencesFound))
       else issue_plan P (build_plan H q targets names acc)))"
    if "distinct names" "set names = set ps" for targets names
    unfolding preserves_def
    by (rule holds_step [OF loop], fold preserves_def) (intro preserves_intros issue that)
  have start: "holds (sane ps) (reads fst) (\<lambda>c s. sane ps s \<and> co_providers c = ps) (\<lambda>_. sane ps)"
    by (rule holds_reads) (simp add: sane_def)
  show ?thesis
    unfolding create_plan_def preserves_def Let_def
  proof (rule holds_step [OF start], goal_cases)
    case (1 c)
    then have "set (sorted_set (rq_required q)) = set ps" if "validate_plan_request (co_providers c) q = []"
      using validate_plan_request_NilD(1) [OF that] by simp
    then show ?case unfolding preserves_def [symmetric] by (intro preserves_intros body) auto
  qed
qed

section \<open>What it says of the documents\<close>

definition plan_sound ::
  "(string \<Rightarrow> template option) \<Rightarrow> (string \<Rightarrow> string) \<Rightarrow> plan_request \<Rightarrow> (doc_key \<Rightarrow> document option) \<Rightarrow> migration_plan \<Rightarrow> bool" where
  "plan_sound parse H q docs plan \<longleftrightarrow> mp_room_id plan = rq_room_id q \<and> mp_room_revision plan = rq_room_revision q
     \<and> mp_old_entity_id plan = rq_old q \<and> mp_logical_unique_id plan = rq_logical q
     \<and> mp_references_expected plan = rq_expected q
     \<and> set (mp_providers plan) = set (rq_required q)
     \<and> map fst (mp_provider_targets plan) = mp_providers plan
     \<and> pd_key ` set (mp_documents plan) = {key. fst key \<in> set (mp_providers plan) \<and> docs key \<noteq> None}
     \<and> (\<forall>pd \<in> set (mp_documents plan). \<exists>d. docs (pd_key pd) = Some d
          \<and> planned_for parse H (mp_old_entity_id plan) (mp_provider_targets plan) d pd)"

lemma planned_for_cong: "map_of targets = map_of targets' \<Longrightarrow> planned_for parse H old targets = planned_for parse H old targets'"
  by (simp add: planned_for_def fun_eq_iff)

lemma acc_planned_blocked [simp]: "acc_planned parse H old targets docs K (add_reason r acc)"
  by (simp add: acc_planned_def add_reason_def)

lemma sorted_key_pairs:
  fixes ts :: "(string \<times> string) list"
  assumes "sorted (map fst ts)" "distinct (map fst ts)"
  shows "sort ts = ts"
proof -
  have "sorted ts" using assms
  proof (induction ts)
    case (Cons t ts)
    have "t \<le> u" if "u \<in> set ts" for u
      using Cons.prems that by (cases t; cases u) (force simp: less_eq_prod_def order.strict_iff_order)
    then show ?case using Cons by simp
  qed simp
  then show ?thesis by (rule sorted_sort_id)
qed

lemma build_plan_sound:
  assumes "acc_planned parse H (rq_old q) targets docs {key. fst key \<in> set names \<and> docs key \<noteq> None} acc"
    "pa_reasons acc = []" "map fst targets = names" "names = sorted_set (rq_required q)"
  shows "plan_sound parse H q docs (build_plan H q targets names acc)"
proof -
  have "sort targets = targets" by (rule sorted_key_pairs) (use assms(3,4) in \<open>simp_all add: sorted_set_def\<close>)
  then show ?thesis
    using assms unfolding plan_sound_def build_plan_simps acc_planned_def by simp
qed

text \<open>The keys of the documents of some providers.\<close>

definition keys_of :: "world_view \<Rightarrow> string set \<Rightarrow> doc_key set" where
  "keys_of v names = {key. fst key \<in> names \<and> v_docs v key \<noteq> None}"

locale listing_world = reference_world +
  assumes list_docs: "good w \<Longrightarrow> fst (list_documents P p w) = Inr ds \<Longrightarrow>
      distinct (map doc_object ds) \<and> (\<forall>d \<in> set ds. v_docs (view w) (p, doc_object d) = Some d)"

context listing_world
begin

lemma at_list_docs: "holds (at c v) (attempt (on_world (list_documents P p)))
    (\<lambda>r s. at c v s \<and> (\<forall>ds. r = Inr ds \<longrightarrow> doc_object ` set ds = {ob. v_docs v (p, ob) \<noteq> None}
       \<and> (\<forall>d \<in> set ds. v_docs v (p, doc_object d) = Some d \<and> doc_key d = (p, doc_object d)))) E"
  by (rule holds_attempt [OF at_read [where Q = "\<lambda>ds. doc_object ` set ds = {ob. v_docs v (p, ob) \<noteq> None}
       \<and> (\<forall>d \<in> set ds. v_docs v (p, doc_object d) = Some d \<and> doc_key d = (p, doc_object d))"]])
     (use reads_keep list_ok list_docs keyed in auto)

lemma plan_provider_rule:
  assumes "acc_planned parse H old targets (v_docs v) (keys_of v names) acc"
  shows "holds (at c v) (plan_provider P parse H old targets p acc)
    (\<lambda>acc s. at c v s \<and> acc_planned parse H old targets (v_docs v) (keys_of v (insert p names)) acc) (\<lambda>_. at c v)"
  unfolding plan_provider_def
proof (rule holds_step [OF at_list_docs])
  fix r :: "mig_error + document list"
  assume r: "\<forall>ds. r = Inr ds \<longrightarrow> doc_object ` set ds = {ob. v_docs v (p, ob) \<noteq> None}
       \<and> (\<forall>d \<in> set ds. v_docs v (p, doc_object d) = Some d \<and> doc_key d = (p, doc_object d))"
  show "holds (at c v) (case r of Inl e \<Rightarrow> ret (add_reason (ProviderNotEnumerated p) acc)
     | Inr documents \<Rightarrow> fold_action (\<lambda>d acc. from_sum (plan_document parse H old targets p d acc))
         (sort_key doc_object documents) acc)
    (\<lambda>acc s. at c v s \<and> acc_planned parse H old targets (v_docs v) (keys_of v (insert p names)) acc) (\<lambda>_. at c v)"
  proof (cases r)
    case (Inl e)
    then show ?thesis by (auto intro!: holds_ret)
  next
    case (Inr ds)
    let ?ds = "sort_key doc_object ds"
    let ?K = "\<lambda>pre. keys_of v names \<union> (\<lambda>d. (p, doc_object d)) ` set pre"
    have ds: "doc_object ` set ?ds = {ob. v_docs v (p, ob) \<noteq> None}"
      "\<forall>d \<in> set ?ds. v_docs v (p, doc_object d) = Some d \<and> doc_key d = (p, doc_object d)" using r Inr by auto
    have all: "?K ?ds = keys_of v (insert p names)"
    proof -
      have "(\<lambda>d. (p, doc_object d)) ` set ?ds = Pair p ` {ob. v_docs v (p, ob) \<noteq> None}"
        unfolding ds(1) [symmetric] by (simp add: image_image)
      then show ?thesis by (auto simp: keys_of_def)
    qed
    have loop: "holds (at c v) (fold_action (\<lambda>d acc. from_sum (plan_document parse H old targets p d acc)) ?ds acc)
        (\<lambda>acc s. at c v s \<and> acc_planned parse H old targets (v_docs v) (?K ?ds) acc) (\<lambda>_. at c v)"
    proof (rule holds_fold_facts [where I = "\<lambda>pre. acc_planned parse H old targets (v_docs v) (?K pre)"])
      fix pre d post b
      assume d: "?ds = pre @ d # post" and b: "acc_planned parse H old targets (v_docs v) (?K pre) b"
      have d': "v_docs v (p, doc_object d) = Some d" "doc_key d = (p, doc_object d)" using ds(2) d by auto
      show "holds (at c v) (from_sum (plan_document parse H old targets p d b))
          (\<lambda>acc s. at c v s \<and> acc_planned parse H old targets (v_docs v) (?K (pre @ [d])) acc) (\<lambda>_. at c v)"
        by (rule holds_from_sum) (use plan_document_planned [where docs = "v_docs v", OF _ d' b] in simp_all)
    qed (use assms in simp)
    show ?thesis unfolding Inr sum.case by (rule holds_mono [OF loop]) (simp_all only: all)
  qed
qed

definition planned_quietly where
  "planned_quietly v s \<longleftrightarrow> (\<exists>c u. at c u s \<and> v_docs u = v_docs v \<and> v_originals u = v_originals v)"

lemma issue_plan_rule:
  "holds (at c v) (issue_plan P plan)
    (\<lambda>r s. r = plan \<and> planned_quietly v s \<and> map_of (co_plans (fst s)) (mp_plan_id plan) = Some plan)
    (\<lambda>_. planned_quietly v)" (is "holds _ _ ?Q _")
proof -
  have quiet: "planned_quietly v s" if "at c' v s \<or> at c' (put_state v i st) s" for c' i st s
    using that unfolding planned_quietly_def by (metis view_simps(4,6))
  have co: "fst s = c'" if "at c' u s" for c' u s using that by (simp add: at_def)
  let ?c = "c\<lparr>co_plans := dict_put (co_plans c) (mp_plan_id plan) plan,
           co_states := (if map_of (co_states c) (mp_plan_id plan) = None then dict_put (co_states c) (mp_plan_id plan) PLANNED
                         else co_states c)\<rparr>"
  show ?thesis
    unfolding issue_plan_def Let_def
  proof (rule holds_step [OF at_reads], simp only:, cases "map_of (co_plans c) (mp_plan_id plan)", goal_cases)
    case (1 c')
    have "holds (at ?c v) (andthen (on_world (set_state P (mp_plan_id plan) PLANNED)) (\<lambda>_. ret plan))
        (\<lambda>r s. r = plan \<and> planned_quietly v s \<and> map_of (co_plans (fst s)) (mp_plan_id plan) = Some plan)
        (\<lambda>_. planned_quietly v)"
    proof (rule holds_andthen)
      show "holds (at ?c v) (on_world (set_state P (mp_plan_id plan) PLANNED))
          (\<lambda>_. at ?c (put_state v (mp_plan_id plan) PLANNED)) (\<lambda>_. planned_quietly v)"
        by (rule holds_mono [OF at_set_state]) (auto intro: quiet)
      show "holds (at ?c (put_state v (mp_plan_id plan) PLANNED)) (ret plan)
          (\<lambda>r s. r = plan \<and> planned_quietly v s \<and> map_of (co_plans (fst s)) (mp_plan_id plan) = Some plan)
          (\<lambda>_. planned_quietly v)"
      proof (rule holds_ret)
        fix s
        assume s: "at ?c (put_state v (mp_plan_id plan) PLANNED) s"
        have "planned_quietly v s" by (rule quiet) (rule disjI2, rule s)
        then show "plan = plan \<and> planned_quietly v s \<and> map_of (co_plans (fst s)) (mp_plan_id plan) = Some plan"
          using co [OF s] by simp
      qed
    qed
    then show ?case unfolding 1(2) option.case by (rule holds_andthen [OF at_coordinator])
  next
    case (2 c' existing)
    show ?case unfolding 2(2) option.case
    proof (rule holds_if)
      show "holds (at c v) (throw MMigrationError) ?Q (\<lambda>_. planned_quietly v)"
        by (rule holds_throw) (erule quiet [OF disjI1])
      show "holds (at c v) (ret existing) ?Q (\<lambda>_. planned_quietly v)" if "\<not> existing \<noteq> plan"
        by (rule holds_ret) (use that 2(2) co quiet [OF disjI1] in auto)
    qed
  qed
qed

lemma create_plan_rule:
  "holds (at c v) (create_plan P parse H q)
    (\<lambda>plan s. plan_sound parse H q (v_docs v) plan \<and> planned_quietly v s
       \<and> map_of (co_plans (fst s)) (mp_plan_id plan) = Some plan) (\<lambda>_. planned_quietly v)"
proof -
  have quiet: "planned_quietly v s" if "at c' v s" for c' s using that by (auto simp: planned_quietly_def)
  have loop: "holds (at c v) (fold_action (plan_provider P parse H (rq_old q) targets) names
         \<lparr>pa_reasons = [], pa_seen = [], pa_documents = [], pa_exact = 0\<rparr>)
      (\<lambda>acc s. at c v s \<and> acc_planned parse H (rq_old q) targets (v_docs v) (keys_of v (set names)) acc) (\<lambda>_. at c v)"
    for targets names
    by (rule holds_fold_facts [where I = "\<lambda>pre. acc_planned parse H (rq_old q) targets (v_docs v) (keys_of v (set pre))"])
       (use plan_provider_rule in \<open>auto simp: acc_planned_def keys_of_def exact_sum_def\<close>)
  let ?names = "sorted_set (rq_required q)"
  let ?Q = "\<lambda>plan s. plan_sound parse H q (v_docs v) plan \<and> planned_quietly v s
       \<and> map_of (co_plans (fst s)) (mp_plan_id plan) = Some plan"
  have body: "holds (at c v) (andthen (fold_action (plan_provider P parse H (rq_old q) targets) ?names
         \<lparr>pa_reasons = [], pa_seen = [], pa_documents = [], pa_exact = 0\<rparr>) (\<lambda>acc.
       if pa_reasons acc @ reason_if (rq_expected q \<and> pa_exact acc = 0) NoReferencesFound \<noteq> []
       then throw (MPlanningBlocked (pa_reasons acc @ reason_if (rq_expected q \<and> pa_exact acc = 0) NoReferencesFound))
       else issue_plan P (build_plan H q targets ?names acc))) ?Q (\<lambda>_. planned_quietly v)"
    if norm: "normalize_provider_targets ?names (rq_target q) (rq_targets q) = Inr targets" for targets
  proof (rule holds_step [OF holds_mono [OF loop]], assumption, assumption, erule quiet, rule holds_if)
    fix acc
    assume acc: "acc_planned parse H (rq_old q) targets (v_docs v) (keys_of v (set ?names)) acc"
      and no: "\<not> pa_reasons acc @ reason_if (rq_expected q \<and> pa_exact acc = 0) NoReferencesFound \<noteq> []"
    have "plan_sound parse H q (v_docs v) (build_plan H q targets ?names acc)"
      by (rule build_plan_sound) (use acc no normalize_targets_keys [OF norm] in \<open>simp_all add: keys_of_def\<close>)
    then show "holds (at c v) (issue_plan P (build_plan H q targets ?names acc)) ?Q (\<lambda>_. planned_quietly v)"
      by (intro holds_mono [OF issue_plan_rule]) auto
  qed (auto intro: holds_throw quiet)
  have resolve: "holds (at c v) (handle (on_world (resolve_subject P (rq_room_id q)))
      (\<lambda>e. throw (MPlanningBlocked [AuthorityUnavailable]))) (\<lambda>_. at c v) (\<lambda>_. planned_quietly v)"
    by (rule holds_handle [OF at_resolve]) (auto intro: holds_throw quiet)
  have block: "holds (at c v) (throw e) ?Q (\<lambda>_. planned_quietly v)" for e by (rule holds_throw) (erule quiet)
  show ?thesis
    unfolding create_plan_def Let_def
  proof (rule holds_step [OF at_reads], goal_cases)
    case (1 c')
    show ?case
      by (intro holds_if block holds_sum_step holds_andthen [OF resolve] body) (auto intro: quiet)
  qed
qed

end

section \<open>The in-memory provider lists its documents\<close>

lemma mem_list_documents:
  assumes "memory_ok w" "map_of (mw_providers w) name = Some p"
  shows "distinct (map doc_object (mem_list p)) \<and> (\<forall>d \<in> set (mem_list p). mem_document w (name, doc_object d) = Some d)"
proof -
  let ?ds = "sort_key fst (me_documents p)"
  have ok: "dict_ok (me_documents p)" and key: "\<And>ob d. map_of (me_documents p) ob = Some d \<Longrightarrow> doc_key d = (name, ob)"
    using assms by (auto simp: memory_ok_def)
  have object: "doc_object (snd x) = fst x \<and> map_of (me_documents p) (fst x) = Some (snd x)" if "x \<in> set ?ds" for x
    using that key [of "fst x" "snd x"] ok by (auto simp: doc_key_def map_of_dict_ok)
  have "map doc_object (mem_list p) = map fst ?ds"
    unfolding mem_list_def map_map by (rule map_cong) (use object in auto)
  moreover have "distinct (map fst ?ds)"
    using ok mset_sort [of fst "me_documents p"] unfolding dict_ok_def by (metis mset_map mset_eq_imp_distinct_iff)
  moreover have "mem_document w (name, doc_object d) = Some d" if d: "d \<in> set (mem_list p)" for d
  proof -
    obtain x where "x \<in> set ?ds" "d = snd x" using d unfolding mem_list_def by auto
    then show ?thesis using object [of x] assms(2) by (simp add: mem_document_def)
  qed
  ultimately show ?thesis by simp
qed

interpretation mem_listing: listing_world "mem_ports H" memory_ok mem_view
proof
  fix w ds p
  assume "memory_ok w" "fst (list_documents (mem_ports H) p w) = Inr ds"
  then show "distinct (map doc_object ds) \<and> (\<forall>d \<in> set ds. v_docs (mem_view w) (p, doc_object d) = Some d)"
    using mem_list_documents [of w p] by (auto simp: ports_simps split: option.splits)
qed

context listing_world
begin

lemma faulty_listing: "listing_world (faulty_ports P) (\<lambda>s. good (fst s)) (\<lambda>s. view (fst s))"
proof (intro listing_world.intro faulty_world listing_world_axioms.intro)
  fix s ds p
  assume "good (fst s)" "fst (list_documents (faulty_ports P) p s) = Inr ds"
  then show "distinct (map doc_object ds) \<and> (\<forall>d \<in> set ds. v_docs (view (fst s)) (p, doc_object d) = Some d)"
    using list_docs [of "fst s" p ds] with_faults_fst [of "list_documents P p" s ds] by (simp add: faulty_ports_def)
qed

end

interpretation faulty_listing: listing_world "faulty_ports (mem_ports H)" "\<lambda>s. memory_ok (fst s)" "\<lambda>s. mem_view (fst s)"
  by (rule mem_listing.faulty_listing)

section \<open>A coordinator at work\<close>

datatype mig_op = CreateOp plan_request | ApplyOp string string | RecoverOp string

fun serve_one ::
  "'w ports \<Rightarrow> (string \<Rightarrow> template option) \<Rightarrow> (string \<Rightarrow> string) \<Rightarrow> mig_op \<Rightarrow> 'w system \<Rightarrow> 'w system" where
  "serve_one P parse H (CreateOp q) s = snd (create_plan P parse H q s)"
| "serve_one P parse H (ApplyOp i digest) s = snd (apply_plan P parse H i digest s)"
| "serve_one P parse H (RecoverOp i) s = snd (recover_incomplete P H i s)"

definition serve ::
  "'w ports \<Rightarrow> (string \<Rightarrow> template option) \<Rightarrow> (string \<Rightarrow> string) \<Rightarrow> mig_op list \<Rightarrow> 'w system \<Rightarrow> 'w system" where
  "serve P parse H ops s = foldl (\<lambda>s op. serve_one P parse H op s) s ops"

lemma preserves_sane: "preserves ps m \<Longrightarrow> sane ps s \<Longrightarrow> sane ps (snd (m s))"
  unfolding preserves_def by (drule holds_D) (auto split: prod.splits sum.splits)

lemma serve_sane: "sane ps s \<Longrightarrow> sane ps (serve P parse H ops s)"
proof (induction ops arbitrary: s)
  case (Cons op ops)
  have "sane ps (serve_one P parse H op s)"
    using preserves_sane [OF preserves_create Cons.prems] preserves_sane [OF preserves_apply Cons.prems]
      preserves_sane [OF preserves_recover Cons.prems] by (cases op) simp_all
  then show ?case using Cons.IH by (simp add: serve_def)
qed (simp add: serve_def)

lemma completion_plan_shape:
  assumes "completion_ok H jc i" "set (co_providers c) = set provider_manifest"
  shows "plan_shape c (jc_plan jc) \<and> mp_plan_id (jc_plan jc) = i \<and> i \<noteq> [] \<and> mr_plan_id (jc_result jc) = i
    \<and> mr_state (jc_result jc) = COMPLETE \<and> \<not> mr_idempotent (jc_result jc)"
proof -
  have "distinct (sort provider_manifest)" by (simp add: provider_manifest_def)
  moreover have "i \<noteq> []" using assms(1) plan_id_of_nonempty unfolding completion_ok_def Let_def by metis
  ultimately show ?thesis
    using assms unfolding completion_ok_def Let_def plan_shape_def list_all_iff by auto
qed

lemma coordinator_init_ok:
  assumes "coordinator_init P H names w = (Inr c, w')"
  shows "coordinator_ok c \<and> co_providers c = names \<and> set names = set provider_manifest"
proof -
  have names: "distinct names" "set names = set provider_manifest"
    using assms by (auto simp: coordinator_init_def throw_def split: if_splits)
  have load: "holds (\<lambda>_. coordinator_ok c \<and> co_providers c = names) (load_completion P H i c)
      (\<lambda>c _. coordinator_ok c \<and> co_providers c = names) (\<lambda>_ _. True)" for i c
    unfolding load_completion_def
  proof (rule holds_andthen [where R = "\<lambda>_ _. coordinator_ok c \<and> co_providers c = names"])
    show "holds (\<lambda>_. coordinator_ok c \<and> co_providers c = names) (completion_for P i)
        (\<lambda>_ _. coordinator_ok c \<and> co_providers c = names) (\<lambda>_ _. True)"
      by (auto simp: holds_def split: sum.splits prod.splits)
    fix jc :: journaled_completion
    let ?c = "c\<lparr>co_plans := dict_put (co_plans c) i (jc_plan jc), co_states := dict_put (co_states c) i COMPLETE,
       co_completed := dict_put (co_completed c) i \<lparr>cr_result = jc_result jc, cr_documents = jc_documents jc\<rparr>\<rparr>"
    have ok: "coordinator_ok ?c" if c: "coordinator_ok c" "co_providers c = names" and jc: "completion_ok H jc i"
    proof -
      have shape: "plan_shape ?c p = plan_shape c p" for p by (rule plan_shape_cong) simp
      show ?thesis
        unfolding coordinator_ok_iff shape
        using coordinator_okD [OF c(1)] c(1) [unfolded coordinator_ok_def] completion_plan_shape [OF jc, of c] c(2) names(2)
        by (auto simp: completion_record_ok_def split: if_splits)
    qed
    show "holds (\<lambda>_. coordinator_ok c \<and> co_providers c = names) (if \<not> completion_ok H jc i then throw MTypeError else ret ?c)
        (\<lambda>c _. coordinator_ok c \<and> co_providers c = names) (\<lambda>_ _. True)"
      by (rule holds_if) (use ok in \<open>auto intro!: holds_throw holds_ret\<close>)
  qed
  let ?c0 = "\<lparr>co_providers = names, co_plans = [], co_states = [], co_completed = [], co_blocked = False\<rparr>"
  let ?body = "andthen (completed_plan_ids P) (\<lambda>completed. andthen (fold_action (load_completion P H) completed ?c0) (\<lambda>c.
        andthen (incomplete_plan_ids P) (\<lambda>incomplete. ret (c\<lparr>co_blocked := (incomplete \<noteq> [])\<rparr>))))"
  have any: "holds (\<lambda>_. True) m (\<lambda>_ _. True) (\<lambda>_ _. True)" for m :: "('w, mig_error, 'x) action"
    by (auto simp: holds_def split: sum.splits prod.splits)
  have fold: "holds (\<lambda>_. True) (fold_action (load_completion P H) completed ?c0)
      (\<lambda>c _. coordinator_ok c \<and> co_providers c = names) (\<lambda>_ _. True)" for completed
    by (rule holds_mono [OF holds_fold_action [where I = "\<lambda>c _. coordinator_ok c \<and> co_providers c = names"]])
       (auto intro: load, simp add: coordinator_ok_def)
  have "holds (\<lambda>_. True) ?body (\<lambda>c _. coordinator_ok c \<and> co_providers c = names) (\<lambda>_ _. True)"
  proof (rule holds_andthen [OF any], rule holds_andthen [OF fold])
    fix c
    show "holds (\<lambda>_. coordinator_ok c \<and> co_providers c = names)
        (andthen (incomplete_plan_ids P) (\<lambda>incomplete. ret (c\<lparr>co_blocked := (incomplete \<noteq> [])\<rparr>)))
        (\<lambda>c _. coordinator_ok c \<and> co_providers c = names) (\<lambda>_ _. True)"
      by (auto simp: holds_def andthen_def ret_def coordinator_ok_def plan_shape_def list_all_iff split: sum.splits prod.splits)
  qed
  moreover have "?body w = (Inr c, w')"
    using assms by (auto simp: coordinator_init_def throw_def split: if_splits)
  ultimately show ?thesis using names by (auto dest!: holds_D [of _ _ _ _ w])
qed

end
