(* ===== verification/Migration_Recovery.thy ===== *)
theory Migration_Recovery
  imports Migration_Run Migration_Memory
begin

text \<open>
  Recovery after an interrupted application. Where calls return (\<open>live_world\<close>), recovering a plan
  whose journal and documents are as a run may leave them always succeeds and gives every document
  the content it had before the run.
\<close>

locale live_world = reference_world +
  assumes get_live: "good w \<Longrightarrow> v_docs (view w) (p, ob) = Some d \<Longrightarrow> fst (get_document P p ob w) = Inr d"
    and write_live: "good w \<Longrightarrow> v_docs (view w) (p, ob) = Some d \<Longrightarrow> doc_writable d \<Longrightarrow> valid_payload payload \<Longrightarrow>
      (\<exists>d'. fst (write_document P p ob (doc_revision d) payload w) = Inr d' \<and> doc_key d' = (p, ob)
         \<and> doc_payload d' = payload \<and> doc_writable d' = doc_writable d
         \<and> view (snd (write_document P p ob (doc_revision d) payload w)) = put_doc (view w) d')"
    and state_live: "good w \<Longrightarrow> i \<noteq> [] \<Longrightarrow> fst (set_state P i st w) = Inr ()"
    and incomplete_live: "good w \<Longrightarrow> \<exists>ids. fst (incomplete_plan_ids P w) = Inr ids"
    and originals_live: "good w \<Longrightarrow> \<exists>es. fst (originals_for P i w) = Inr es"

text \<open>What the documents of a plan contain when its application is interrupted.\<close>

definition restorable :: "(string \<Rightarrow> string) \<Rightarrow> migration_plan \<Rightarrow> world_view \<Rightarrow> doc_key \<Rightarrow> document \<Rightarrow> bool" where
  "restorable H plan v key d \<longleftrightarrow> (\<exists>pd d0. changed plan pd \<and> pd_key pd = key \<and> v_docs v key = Some d0
     \<and> (document_fingerprint H d = Inr (pd_post_fingerprint pd) \<or> document_fingerprint H d = document_fingerprint H d0))"

definition interrupted ::
  "(string \<Rightarrow> string) \<Rightarrow> migration_plan \<Rightarrow> world_view \<Rightarrow> world_view \<Rightarrow> bool" where
  "interrupted H plan v u \<longleftrightarrow> allowed (restorable H plan v) v u \<and> journal_ready H plan v u"

lemma fingerprint_valid: "document_fingerprint H d = Inr f \<Longrightarrow> valid_payload (doc_payload d)"
  by (auto simp: document_fingerprint_def payload_fingerprint_def split: if_splits)

lemma fingerprint_payload: "doc_payload d = doc_payload d' \<Longrightarrow> document_fingerprint H d = document_fingerprint H d'"
  by (simp add: document_fingerprint_def)

definition attempt_ok where
  "attempt_ok H v u c d post \<longleftrightarrow> v_docs v (doc_key d) = Some d \<and> doc_writable d \<and> doc_provider d \<in> set (co_providers c)
     \<and> (\<exists>f. document_fingerprint H d = Inr f)
     \<and> (\<exists>x. v_docs u (doc_key d) = Some x \<and> doc_writable x
          \<and> (document_fingerprint H x = Inr post \<or> document_fingerprint H x = document_fingerprint H d))"

context live_world
begin

lemma at_get_live:
  assumes "v_docs u (p, ob) = Some d"
  shows "holds (at c u) (on_world (get_document P p ob)) (\<lambda>x s. at c u s \<and> x = d) (\<lambda>_ _. False)"
  using assms get_live reads_keep(2) by (auto simp: holds_iff on_world_split at_def)

lemma at_write_live:
  assumes "v_docs u (p, ob) = Some d" "doc_writable d" "valid_payload payload"
  shows "holds (at c u) (on_world (write_document P p ob (doc_revision d) payload))
    (\<lambda>x s. \<exists>d'. doc_key d' = (p, ob) \<and> doc_payload d' = payload \<and> doc_writable d' = doc_writable d \<and> at c (put_doc u d') s)
    (\<lambda>_ _. False)"
  using assms write_live write_good by (auto simp: holds_iff on_world_split at_def) fastforce+

lemma at_state_live:
  assumes "i \<noteq> []"
  shows "holds (at c u) (on_world (set_state P i st)) (\<lambda>x. at c (put_state u i st)) (\<lambda>_ _. False)"
  using assms state_live state_good state_ok by (auto simp: holds_iff on_world_split at_def) fastforce+

lemma at_incomplete_live:
  "holds (at c u) (on_world (incomplete_plan_ids P)) (\<lambda>ids s. at c u s \<and> set ids = {i. unfinished (v_states u i)}) (\<lambda>_ _. False)"
  using at_incomplete [of c u] incomplete_live by (auto simp: holds_iff on_world_split at_def) (metis sum.distinct(1))+

lemma at_originals_live:
  "holds (at c u) (on_world (originals_for P i)) (\<lambda>es s. at c u s \<and> es = v_originals u i) (\<lambda>_ _. False)"
  using originals_live originals_ok reads_keep(5) by (auto simp: holds_iff on_world_split at_def) (metis sum.distinct(1))+

text \<open>Restoring one document from either image of it.\<close>

lemma restore_document_live:
  assumes cur: "v_docs u (doc_key d) = Some x" "doc_writable x" "document_fingerprint H x = Inr post \<or>
      document_fingerprint H x = document_fingerprint H d"
    and orig: "document_fingerprint H d = Inr f"
  shows "holds (at c u) (restore_document P H d post)
    (\<lambda>_ s. \<exists>u'. at c u' s \<and> v_states u' = v_states u \<and> v_originals u' = v_originals u
       \<and> (\<forall>key. key \<noteq> doc_key d \<longrightarrow> v_docs u' key = v_docs u key)
       \<and> (\<exists>y. v_docs u' (doc_key d) = Some y \<and> doc_writable y = doc_writable x \<and> document_fingerprint H y = Inr f))
    (\<lambda>_ _. False)"
proof -
  let ?Q = "\<lambda>s. \<exists>u'. at c u' s \<and> v_states u' = v_states u \<and> v_originals u' = v_originals u
       \<and> (\<forall>key. key \<noteq> doc_key d \<longrightarrow> v_docs u' key = v_docs u key)
       \<and> (\<exists>y. v_docs u' (doc_key d) = Some y \<and> doc_writable y = doc_writable x \<and> document_fingerprint H y = Inr f)"
  have key: "doc_key d = (doc_provider d, doc_object d)" by (simp add: doc_key_def)
  obtain g where g: "document_fingerprint H x = Inr g" "g = post \<or> g = f" using cur(3) orig by auto
  have wr: "holds (at c u) (if g = post       then andthen (on_world (write_document P (doc_provider d) (doc_object d) (doc_revision x) (doc_payload d))) (\<lambda>_. ret ())
      else check (g = f) MMigrationError) (\<lambda>_. ?Q) (\<lambda>_ _. False)"
  proof (rule holds_if)
    show "holds (at c u) (andthen (on_world (write_document P (doc_provider d) (doc_object d) (doc_revision x)
        (doc_payload d))) (\<lambda>_. ret ())) (\<lambda>_. ?Q) (\<lambda>_ _. False)"
    proof (rule holds_andthen [OF at_write_live [OF cur(1) [unfolded key] cur(2) fingerprint_valid [OF orig]]], rule holds_ret)
      fix s
      assume "\<exists>d'. doc_key d' = (doc_provider d, doc_object d) \<and> doc_payload d' = doc_payload d
        \<and> doc_writable d' = doc_writable x \<and> at c (put_doc u d') s"
      then obtain d' where d': "doc_key d' = doc_key d" "doc_payload d' = doc_payload d" "doc_writable d' = doc_writable x"
        "at c (put_doc u d') s" by (auto simp: key)
      then show "?Q s"
        using fingerprint_payload [OF d'(2), of H] orig by (intro exI [of _ "put_doc u d'"]) auto
    qed
    show "g \<noteq> post \<Longrightarrow> holds (at c u) (check (g = f) MMigrationError) (\<lambda>_. ?Q) (\<lambda>_ _. False)"
      using g cur by (intro holds_check) (auto intro!: exI [of _ u])
  qed
  have reread: "holds ?Q (andthen (on_world (get_document P (doc_provider d) (doc_object d))) (\<lambda>restored.
      andthen (from_sum (document_fingerprint H restored)) (\<lambda>h. check (h = f) MMigrationError))) (\<lambda>_. ?Q) (\<lambda>_ _. False)"
  proof (rule holds_ex)
    fix u' :: world_view
    assume W: "v_states u' = v_states u \<and> v_originals u' = v_originals u \<and> (\<forall>key. key \<noteq> doc_key d \<longrightarrow> v_docs u' key = v_docs u key)
       \<and> (\<exists>y. v_docs u' (doc_key d) = Some y \<and> doc_writable y = doc_writable x \<and> document_fingerprint H y = Inr f)"
    then obtain y where y: "v_docs u' (doc_provider d, doc_object d) = Some y" "document_fingerprint H y = Inr f"
      by (auto simp: key)
    show "holds (at c u') (andthen (on_world (get_document P (doc_provider d) (doc_object d))) (\<lambda>restored.
        andthen (from_sum (document_fingerprint H restored)) (\<lambda>h. check (h = f) MMigrationError))) (\<lambda>_. ?Q) (\<lambda>_ _. False)"
      by (rule holds_step [OF at_get_live [OF y(1)]]) (use W in \<open>auto simp: y(2) intro!: holds_ret exI [of _ u']\<close>)
  qed
  show ?thesis
    unfolding restore_document_def Let_def
    by (rule holds_step [OF at_get_live [OF cur(1) [unfolded key]]]) (simp only: g(1) orig andthen_from_sum, rule holds_andthen [OF wr reread])
qed

text \<open>The loop over the attempted documents restores each and records no failure.\<close>

definition restoring where
  "restoring H v u c K s \<longleftrightarrow> (\<exists>u'. at c u' s \<and> v_states u' = v_states u \<and> v_originals u' = v_originals u
     \<and> (\<forall>key. key \<in> K \<longrightarrow> content H (v_docs u' key) = content H (v_docs v key))
     \<and> (\<forall>key. key \<notin> K \<longrightarrow> v_docs u' key = v_docs u key))"

lemma restore_attempted_live:
  "\<lbrakk>\<forall>(d, post) \<in> set att. attempt_ok H v u c d post; distinct (map (doc_key \<circ> fst) att);
    K \<inter> doc_key ` fst ` set att = {}\<rbrakk> \<Longrightarrow>
   holds (restoring H v u c K) (restore_attempted P H att [])
     (\<lambda>failures s. restoring H v u c (K \<union> doc_key ` fst ` set att) s \<and> failures = []) (\<lambda>_ _. False)"
proof (induction att arbitrary: K)
  case Nil
  show ?case by (auto intro: holds_ret)
next
  case (Cons a att)
  obtain d post where a: "a = (d, post)" by force
  obtain f x where ok: "v_docs v (doc_key d) = Some d" "doc_writable d" "doc_provider d \<in> set (co_providers c)"
    "document_fingerprint H d = Inr f" "v_docs u (doc_key d) = Some x" "doc_writable x"
    "document_fingerprint H x = Inr post \<or> document_fingerprint H x = document_fingerprint H d"
    using Cons.prems(1) a by (auto simp: attempt_ok_def)
  have new: "doc_key d \<notin> K" using Cons.prems(3) a by auto
  have one: "holds (restoring H v u c K) (restore_document P H d post)
      (\<lambda>_. restoring H v u c (insert (doc_key d) K)) (\<lambda>_ _. False)"
  proof (rule holds_pre)
    fix s
    assume "restoring H v u c K s"
    then obtain u' where u': "at c u' s" "v_states u' = v_states u" "v_originals u' = v_originals u"
      "\<forall>key. key \<in> K \<longrightarrow> content H (v_docs u' key) = content H (v_docs v key)"
      "\<forall>key. key \<notin> K \<longrightarrow> v_docs u' key = v_docs u key" by (auto simp: restoring_def)
    then have cur: "v_docs u' (doc_key d) = Some x" using ok(5) new by metis
    have "holds (at c u') (restore_document P H d post) (\<lambda>_. restoring H v u c (insert (doc_key d) K)) (\<lambda>_ _. False)"
    proof (rule holds_mono [OF restore_document_live [OF cur ok(6,7,4)]])
      fix r t
      assume "\<exists>w. at c w t \<and> v_states w = v_states u' \<and> v_originals w = v_originals u'
         \<and> (\<forall>key. key \<noteq> doc_key d \<longrightarrow> v_docs w key = v_docs u' key)
         \<and> (\<exists>y. v_docs w (doc_key d) = Some y \<and> doc_writable y = doc_writable x \<and> document_fingerprint H y = Inr f)"
      then obtain w where w: "at c w t" "v_states w = v_states u'" "v_originals w = v_originals u'"
        "\<forall>key. key \<noteq> doc_key d \<longrightarrow> v_docs w key = v_docs u' key"
        "content H (v_docs w (doc_key d)) = content H (v_docs v (doc_key d))"
        using ok by (auto simp: content_def)
      have "content H (v_docs w key) = content H (v_docs v key)" if "key \<in> insert (doc_key d) K" for key
        using that w(4,5) u'(4) by (metis insert_iff)
      then show "restoring H v u c (insert (doc_key d) K) t"
        unfolding restoring_def using w u' by (intro exI [of _ w]) auto
    qed auto
    from holds_state [OF this u'(1)]
    show "holds (\<lambda>t. t = s) (restore_document P H d post) (\<lambda>_. restoring H v u c (insert (doc_key d) K)) (\<lambda>_ _. False)" .
  qed
  have attempt: "holds (restoring H v u c K) (attempt (restore_document P H d post))
      (\<lambda>r s. restoring H v u c (insert (doc_key d) K) s \<and> (\<exists>x. r = Inr x)) (\<lambda>_ _. False)"
    by (rule holds_attempt [OF one]) auto
  have reads: "holds (restoring H v u c K) (reads fst) (\<lambda>c' s. restoring H v u c K s \<and> c' = c) (\<lambda>_ _. False)"
    by (rule holds_reads) (auto simp: restoring_def at_def)
  have rest: "holds (restoring H v u c (insert (doc_key d) K)) (restore_attempted P H att [])
      (\<lambda>failures s. restoring H v u c (K \<union> doc_key ` fst ` set (a # att)) s \<and> failures = []) (\<lambda>_ _. False)"
    using Cons.IH [of "insert (doc_key d) K"] Cons.prems a by (simp add: insert_commute image_image comp_def)
  show ?case
    unfolding a restore_attempted.simps
  proof (rule holds_step [OF reads])
    fix c'
    assume c': "c' = c"
    show "holds (restoring H v u c K) (if doc_provider d \<notin> set (co_providers c') then throw MKeyError
        else andthen (attempt (restore_document P H d post)) (\<lambda>r. restore_attempted P H att
          ([] @ (case r of Inl e \<Rightarrow> [doc_label (doc_key d)] | Inr x \<Rightarrow> []))))
      (\<lambda>failures s. restoring H v u c (K \<union> doc_key ` fst ` set ((d, post) # att)) s \<and> failures = []) (\<lambda>_ _. False)"
      using ok(3) c' rest [unfolded a] by (auto intro!: holds_step [OF attempt])
  qed
qed

text \<open>Reading the journal back.\<close>

definition entry_document :: "journaled_original \<Rightarrow> doc_key \<times> document" where
  "entry_document e = (entry_key e, jo_document e)"

definition entry_attempt :: "journaled_original \<Rightarrow> document \<times> string" where
  "entry_attempt e = (jo_document e, jo_post_fingerprint e)"

definition loadable :: "(string \<Rightarrow> string) \<Rightarrow> coordinator \<Rightarrow> journaled_original \<Rightarrow> bool" where
  "loadable H c e \<longleftrightarrow> doc_provider (jo_document e) \<in> set (co_providers c)
     \<and> (\<exists>f. document_fingerprint H (jo_document e) = Inr f) \<and> jo_post_fingerprint e \<noteq> []"

lemma load_originals_rule:
  assumes "\<forall>e \<in> set es. loadable H c e" "distinct (map entry_key es)"
  shows "holds (at c u) (fold_action (load_original H) es ([], []))
    (\<lambda>acc s. at c u s \<and> acc = (map entry_document es, map entry_attempt es)) (\<lambda>_ _. False)"
proof (rule holds_fold_facts [where I = "\<lambda>pre acc. acc = (map entry_document pre, map entry_attempt pre)"])
  fix pre e post acc
  assume es: "es = pre @ e # post" and acc: "acc = (map entry_document pre, map entry_attempt pre)"
  have ok: "loadable H c e" and new: "map_of (map entry_document pre) (doc_key (jo_document e)) = None"
    using assms es by (auto simp: map_of_eq_None_iff entry_document_def entry_key_def image_image)
  have put: "dict_put (map entry_document pre) (doc_key (jo_document e)) (jo_document e) = map entry_document pre @ [entry_document e]"
    using assms es by (subst length_dict_put_notin) (auto simp: entry_document_def entry_key_def image_image)
  show "holds (at c u) (load_original H e acc)
      (\<lambda>acc s. at c u s \<and> acc = (map entry_document (pre @ [e]), map entry_attempt (pre @ [e]))) (\<lambda>_ _. False)"
    unfolding acc load_original_def prod.case Let_def
    by (rule holds_step [OF at_reads]) (use ok new in \<open>auto simp: loadable_def put entry_attempt_def intro!: holds_ret\<close>)
qed simp

lemma verify_documents_live:
  "\<forall>(key, d) \<in> set originals. fst key \<in> set (co_providers c)
      \<and> (\<exists>x. v_docs u key = Some x \<and> differs H x d = Inr False) \<Longrightarrow>
   holds (at c u) (verify_documents P H originals []) (\<lambda>failures s. at c u s \<and> failures = []) (\<lambda>_ _. False)"
proof (induction originals)
  case Nil
  show ?case by (auto intro: holds_ret)
next
  case (Cons a originals)
  obtain p ob d where a: "a = ((p, ob), d)" by (metis prod.collapse)
  obtain x where x: "p \<in> set (co_providers c)" "v_docs u (p, ob) = Some x" "differs H x d = Inr False"
    using Cons.prems a by auto
  have one: "holds (at c u) (attempt (andthen (check (p \<in> set (co_providers c)) MKeyError) (\<lambda>_.
       andthen (on_world (get_document P p ob)) (\<lambda>current.
       andthen (from_sum (differs H current d)) (\<lambda>different. check (\<not> different) MMigrationError)))))
       (\<lambda>r s. at c u s \<and> r = Inr ()) (\<lambda>_ _. False)"
  proof (rule holds_attempt [where Q = "\<lambda>_. at c u" and R = "\<lambda>_ _. False"])
    show "holds (at c u) (andthen (check (p \<in> set (co_providers c)) MKeyError) (\<lambda>_.
       andthen (on_world (get_document P p ob)) (\<lambda>current.
       andthen (from_sum (differs H current d)) (\<lambda>different. check (\<not> different) MMigrationError))))
       (\<lambda>_. at c u) (\<lambda>_ _. False)"
      by (rule holds_andthen [OF holds_check [where Q = "\<lambda>_. at c u"]], use x(1) in auto)
         (rule holds_step [OF at_get_live [OF x(2)]], auto simp: x(3) intro!: holds_ret)
  qed auto
  have IH: "holds (at c u) (verify_documents P H originals []) (\<lambda>failures s. at c u s \<and> failures = []) (\<lambda>_ _. False)"
    using Cons by auto
  show ?case
    unfolding a verify_documents.simps fst_conv snd_conv
    by (rule holds_step [OF at_reads]) (use IH in \<open>auto intro!: holds_step [OF one]\<close>)
qed

text \<open>The whole recovery.\<close>

definition recovered where
  "recovered H plan v u s \<longleftrightarrow> (\<exists>c' u'. at c' u' s \<and> same_content H v u'
     \<and> v_states u' = (v_states u)(mp_plan_id plan \<mapsto> FAILED) \<and> v_originals u' = v_originals u
     \<and> co_blocked c' = (\<exists>i. unfinished (v_states u' i)))"

lemma journal_attempt_ok:
  assumes int: "interrupted H plan v u" and shape: "plan_shape c plan" and e: "e \<in> set (v_originals u (mp_plan_id plan))"
  shows "attempt_ok H v u c (jo_document e) (jo_post_fingerprint e)" "loadable H c e"
proof -
  let ?d = "jo_document e"
  have "journal_entry_ok H plan v e"
    using int e by (auto simp: interrupted_def journal_ready_def journal_sound_def)
  then obtain pd f where d: "v_docs v (doc_key ?d) = Some ?d" "doc_writable ?d" "document_fingerprint H ?d = Inr f"
    "jo_post_fingerprint e \<noteq> []" "changed plan pd" "pd_key pd = doc_key ?d" "jo_post_fingerprint e = pd_post_fingerprint pd"
    by (auto simp: journal_entry_ok_def Let_def)
  have prov: "doc_provider ?d \<in> set (co_providers c)"
  proof -
    have "pd_provider pd = doc_provider ?d" using d(6) by (simp add: pd_key_def doc_key_def)
    then show ?thesis using d(5) shape unfolding plan_shape_def changed_def by (metis image_eqI subsetD)
  qed
  have same: "pd' = pd" if "changed plan pd'" "pd_key pd' = doc_key ?d" for pd'
    using that d(5,6) shape by (auto simp: plan_shape_def changed_def distinct_map inj_on_def)
  have "v_docs u (doc_key ?d) = v_docs v (doc_key ?d) \<or> (\<exists>x d0. v_docs v (doc_key ?d) = Some d0
      \<and> v_docs u (doc_key ?d) = Some x \<and> doc_writable x = doc_writable d0 \<and> restorable H plan v (doc_key ?d) x)"
    using int unfolding interrupted_def allowed_def by blast
  then have "\<exists>x. v_docs u (doc_key ?d) = Some x \<and> doc_writable x
      \<and> (document_fingerprint H x = Inr (jo_post_fingerprint e) \<or> document_fingerprint H x = document_fingerprint H ?d)"
  proof (elim disjE exE conjE)
    assume "v_docs u (doc_key ?d) = v_docs v (doc_key ?d)"
    then show ?thesis using d(1,2) by auto
  next
    fix x d0
    assume x: "v_docs v (doc_key ?d) = Some d0" "v_docs u (doc_key ?d) = Some x" "doc_writable x = doc_writable d0"
      "restorable H plan v (doc_key ?d) x"
    have d0: "d0 = ?d" using x(1) d(1) by simp
    obtain pd' where pd': "changed plan pd'" "pd_key pd' = doc_key ?d"
      "document_fingerprint H x = Inr (pd_post_fingerprint pd') \<or> document_fingerprint H x = document_fingerprint H ?d"
      using x(4) d(1) unfolding restorable_def by (metis option.inject)
    have "pd' = pd" by (rule same [OF pd'(1,2)])
    then show ?thesis using pd'(3) x(2,3) d0 d(2,7) by auto
  qed
  then show "attempt_ok H v u c ?d (jo_post_fingerprint e)" unfolding attempt_ok_def using d prov by blast
  show "loadable H c e" unfolding loadable_def using d prov by blast
qed

lemma interrupted_same_content:
  assumes int: "interrupted H plan v u"
    and settled: "\<forall>key. key \<in> entry_key ` set (v_originals u (mp_plan_id plan)) \<longrightarrow> content H (v_docs u' key) = content H (v_docs v key)"
      "\<forall>key. key \<notin> entry_key ` set (v_originals u (mp_plan_id plan)) \<longrightarrow> v_docs u' key = v_docs u key"
  shows "same_content H v u'"
  unfolding same_content_def
proof
  fix key
  show "content H (v_docs u' key) = content H (v_docs v key)"
  proof (cases "key \<in> entry_key ` set (v_originals u (mp_plan_id plan))")
    case True
    then show ?thesis using settled(1) by blast
  next
    case False
    then have u': "v_docs u' key = v_docs u key" using settled(2) by blast
    show ?thesis
    proof (cases "v_docs u key = v_docs v key")
      case changed: False
      then obtain d where "restorable H plan v key d"
        using int unfolding interrupted_def allowed_def by blast
      moreover have "journal_covers plan u"
        using int changed unfolding interrupted_def journal_ready_def by metis
      ultimately show ?thesis using False unfolding restorable_def journal_covers_def by metis
    qed (simp add: u')
  qed
qed

lemma restore_interrupted:
  assumes int: "interrupted H plan v u" and shape: "plan_shape c plan"
  shows "holds (at c u)
    (restore_originals P H (map entry_attempt (v_originals u (mp_plan_id plan)))
       (map entry_document (v_originals u (mp_plan_id plan))) False)
    (\<lambda>failures s. (\<exists>u'. at c u' s \<and> same_content H v u' \<and> v_states u' = v_states u \<and> v_originals u' = v_originals u)
       \<and> failures = []) (\<lambda>_ _. False)"
proof -
  let ?es = "v_originals u (mp_plan_id plan)"
  let ?K = "entry_key ` set ?es"
  let ?Q = "\<lambda>failures s. (\<exists>u'. at c u' s \<and> same_content H v u' \<and> v_states u' = v_states u \<and> v_originals u' = v_originals u)
     \<and> failures = []"
  have keys: "doc_key ` fst ` set (rev (map entry_attempt ?es)) = ?K" "map (doc_key \<circ> fst) (rev (map entry_attempt ?es)) = rev (map entry_key ?es)"
    by (auto simp: entry_attempt_def entry_key_def image_image rev_map comp_def)
  have start: "holds (at c u) (restore_attempted P H (rev (map entry_attempt ?es)) [])
      (\<lambda>failures s. restoring H v u c ?K s \<and> failures = []) (\<lambda>_ _. False)"
  proof (rule holds_mono [OF restore_attempted_live [where K = "{}"]])
    show "\<forall>(d, post) \<in> set (rev (map entry_attempt ?es)). attempt_ok H v u c d post"
      using journal_attempt_ok(1) [OF int shape] by (auto simp: entry_attempt_def)
    show "distinct (map (doc_key \<circ> fst) (rev (map entry_attempt ?es)))"
      unfolding keys using int by (auto simp: interrupted_def journal_ready_def journal_sound_def)
    show "restoring H v u c {} s" if "at c u s" for s using that by (auto simp: restoring_def)
  qed (use keys in auto)
  have verify: "holds (restoring H v u c ?K) (verify_documents P H (map entry_document ?es) []) ?Q (\<lambda>_ _. False)"
  proof (rule holds_pre)
    fix s
    assume "restoring H v u c ?K s"
    then obtain u' where u': "at c u' s" "v_states u' = v_states u" "v_originals u' = v_originals u"
      "\<forall>key. key \<in> ?K \<longrightarrow> content H (v_docs u' key) = content H (v_docs v key)"
      "\<forall>key. key \<notin> ?K \<longrightarrow> v_docs u' key = v_docs u key" unfolding restoring_def by blast
    have same: "same_content H v u'" by (rule interrupted_same_content [OF int u'(4,5)])
    have "fst (entry_key e) \<in> set (co_providers c) \<and> (\<exists>x. v_docs u' (entry_key e) = Some x \<and> differs H x (jo_document e) = Inr False)"
      if e: "e \<in> set ?es" for e
    proof -
      obtain f where f: "v_docs v (entry_key e) = Some (jo_document e)" "doc_provider (jo_document e) \<in> set (co_providers c)"
        "document_fingerprint H (jo_document e) = Inr f"
        using journal_attempt_ok(1) [OF int shape e] unfolding attempt_ok_def entry_key_def by blast
      moreover have "content H (v_docs u' (entry_key e)) = content H (Some (jo_document e))"
        using u'(4) e f(1) by (metis image_eqI)
      ultimately show ?thesis by (auto simp: content_def differs_def entry_key_def doc_key_def)
    qed
    then have all: "\<forall>(key, d) \<in> set (map entry_document ?es). fst key \<in> set (co_providers c)
        \<and> (\<exists>x. v_docs u' key = Some x \<and> differs H x d = Inr False)"
      unfolding set_map ball_simps(9) entry_document_def prod.case by blast
    have "holds (at c u') (verify_documents P H (map entry_document ?es) []) ?Q (\<lambda>_ _. False)"
      by (rule holds_mono [OF verify_documents_live [OF all]]) (use same u' in auto)
    from holds_state [OF this u'(1)]
    show "holds (\<lambda>t. t = s) (verify_documents P H (map entry_document ?es) []) ?Q (\<lambda>_ _. False)" .
  qed
  show ?thesis
    unfolding restore_originals_def if_False
    by (rule holds_step [OF start], simp only:, rule holds_step [OF verify])
       (auto simp: first_occurrences_def intro!: holds_ret)
qed

lemma recover_incomplete_rule:
  assumes int: "interrupted H plan v u" and shape: "plan_shape c plan"
    and unfin: "unfinished (v_states u (mp_plan_id plan))" and named: "mp_plan_id plan \<noteq> []"
  shows "holds (at c u) (recover_incomplete P H (mp_plan_id plan)) (\<lambda>_. recovered H plan v u) (\<lambda>_ _. False)"
proof -
  let ?id = "mp_plan_id plan"
  let ?es = "v_originals u ?id"
  have loaded: "holds (at c u) (fold_action (load_original H) ?es ([], []))
      (\<lambda>acc s. at c u s \<and> acc = (map entry_document ?es, map entry_attempt ?es)) (\<lambda>_ _. False)"
    by (rule load_originals_rule)
       (use int journal_attempt_ok(2) [OF int shape] in \<open>auto simp: interrupted_def journal_ready_def journal_sound_def\<close>)
  have finish: "holds (at c u') (andthen (on_world (set_state P ?id FAILED)) (\<lambda>_.
       andthen (on_coordinator (forget_completion ?id)) (\<lambda>_.
       andthen (on_world (incomplete_plan_ids P)) (\<lambda>incomplete. coordinator_blocked (incomplete \<noteq> [])))))
      (\<lambda>_. recovered H plan v u) (\<lambda>_ _. False)"
    if u': "same_content H v u'" "v_states u' = v_states u" "v_originals u' = v_originals u" for u'
  proof (rule holds_andthen [OF at_state_live [OF named]], rule holds_andthen [OF at_coordinator],
      rule holds_step [OF at_incomplete_live])
    fix ids
    assume "set ids = {i. unfinished (v_states (put_state u' ?id FAILED) i)}"
    then have ids: "(ids \<noteq> []) = (\<exists>i. unfinished (v_states (put_state u' ?id FAILED) i))" by (metis set_empty empty_Collect_eq)
    have sc: "same_content H v (put_state u' ?id FAILED)" using u'(1) by (simp add: same_content_def)
    show "holds (at (forget_completion ?id c) (put_state u' ?id FAILED)) (coordinator_blocked (ids \<noteq> []))
        (\<lambda>_. recovered H plan v u) (\<lambda>_ _. False)"
      unfolding coordinator_blocked_def
    proof (rule holds_mono [OF at_coordinator])
      fix s
      assume s: "at ((forget_completion ?id c)\<lparr>co_blocked := (ids \<noteq> [])\<rparr>) (put_state u' ?id FAILED) s"
      have b: "co_blocked ((forget_completion ?id c)\<lparr>co_blocked := (ids \<noteq> [])\<rparr>)
        = (\<exists>i. unfinished (v_states (put_state u' ?id FAILED) i))" unfolding ids [symmetric] by simp
      have st: "v_states (put_state u' ?id FAILED) = (v_states u)(?id \<mapsto> FAILED)"
        "v_originals (put_state u' ?id FAILED) = v_originals u" using u'(2,3) by simp_all
      show "recovered H plan v u s" unfolding recovered_def using s sc b st by blast
    qed auto
  qed
  show ?thesis
    unfolding recover_incomplete_def
  proof (rule holds_step [OF at_incomplete_live], rule holds_if)
    fix ids
    assume ids: "set ids = {i. unfinished (v_states u i)}"
    then show "?id \<notin> set ids \<Longrightarrow> holds (at c u) (throw MUnknownPlan) (\<lambda>_. recovered H plan v u) (\<lambda>_ _. False)"
      using unfin by simp
    show "holds (at c u) (andthen (on_world (originals_for P ?id)) (\<lambda>entries.
        andthen (fold_action (load_original H) entries ([], [])) (\<lambda>(originals, attempted).
        andthen (restore_originals P H attempted originals False) (\<lambda>failures.
        if failures \<noteq> [] then andthen (on_world (set_state P ?id BLOCKED)) (\<lambda>_.
          andthen (coordinator_blocked True) (\<lambda>_. throw (MRestoreFailed failures)))
        else andthen (on_world (set_state P ?id FAILED)) (\<lambda>_.
          andthen (on_coordinator (forget_completion ?id)) (\<lambda>_.
          andthen (on_world (incomplete_plan_ids P)) (\<lambda>incomplete. coordinator_blocked (incomplete \<noteq> []))))))))
        (\<lambda>_. recovered H plan v u) (\<lambda>_ _. False)"
      by (rule holds_step [OF at_originals_live], simp only:, rule holds_step [OF loaded], simp only: prod.case,
          rule holds_step [OF restore_interrupted [OF int shape]], simp only: simp_thms if_False, rule holds_ex)
         (auto intro: finish)
  qed
qed

end

section \<open>The in-memory world is live\<close>

lemma mem_write_live:
  assumes ok: "memory_ok w" and d: "mem_document w (p, ob) = Some d" "doc_writable d" "valid_payload payload"
  shows "\<exists>d'. fst (at_provider p (mem_write p ob (doc_revision d) payload) w) = Inr d' \<and> doc_key d' = (p, ob)
    \<and> doc_payload d' = payload \<and> doc_writable d' = doc_writable d
    \<and> mem_view (snd (at_provider p (mem_write p ob (doc_revision d) payload) w)) = put_doc (mem_view w) d'"
proof -
  obtain m where m: "map_of (mw_providers w) p = Some m" "map_of (me_documents m) ob = Some d"
    using d(1) by (auto simp: mem_document_def split: option.splits)
  then obtain d' count where d': "fst (mem_write p ob (doc_revision d) payload m) = Inr d'" "doc_key d' = (p, ob)"
      "doc_payload d' = payload" "doc_writable d' = doc_writable d"
      "snd (mem_write p ob (doc_revision d) payload m) = m\<lparr>me_counts := dict_put (me_counts m) ob count,
         me_documents := dict_put (me_documents m) ob d'\<rparr>"
    using d by (simp add: mem_write_def mem_get_def Let_def doc_key_def)
  let ?w = "snd (at_provider p (mem_write p ob (doc_revision d) payload) w)"
  have w: "?w = w\<lparr>mw_providers := dict_put (mw_providers w) p (snd (mem_write p ob (doc_revision d) payload m))\<rparr>"
    using m by (simp add: at_provider_def split_beta)
  have "mem_view ?w = put_doc (mem_view w) d'"
    using m d' by (auto simp: w mem_view_def put_doc_def mem_document_def originals_of_def fun_eq_iff)
  moreover have "fst (at_provider p (mem_write p ob (doc_revision d) payload) w) = Inr d'"
    using m d'(1) by (simp add: at_provider_def split_beta)
  ultimately show ?thesis using d' by blast
qed

interpretation mem_live: live_world "mem_ports H" memory_ok mem_view
proof
  fix w p ob d
  assume "memory_ok w" "v_docs (mem_view w) (p, ob) = Some d"
  then show "fst (get_document (mem_ports H) p ob w) = Inr d"
    by (auto simp: ports_simps mem_document_def mem_get_def split: option.splits)
qed (use mem_write_live in \<open>simp_all add: ports_simps reads_def mem_set_state_def\<close>)

end
