(* ===== verification/Migration_Safety.thy ===== *)
theory Migration_Safety
  imports Migration_Plan Migration_Recovery
begin

text \<open>
  What the migration coordinator guarantees over the in-memory providers and journal, with any script
  of faults: its plans describe the documents, an application is all or nothing unless it reports
  that the coordinator is blocked, and a recovery after an interruption restores every document.
\<close>

section \<open>Applying a plan for the first time\<close>

definition ready_to_apply :: "coordinator \<Rightarrow> memory \<Rightarrow> migration_plan \<Rightarrow> bool" where
  "ready_to_apply c w plan \<longleftrightarrow> memory_ok w \<and> coordinator_ok c \<and> \<not> co_blocked c
     \<and> map_of (co_plans c) (mp_plan_id plan) = Some plan
     \<and> (map_of (co_states c) (mp_plan_id plan) = Some PLANNED \<or> map_of (co_states c) (mp_plan_id plan) = Some FAILED)
     \<and> originals_of w (mp_plan_id plan) = [] \<and> map_of (mw_states w) (mp_plan_id plan) \<noteq> Some COMPLETE"

lemma apply_plan_run:
  assumes "ready_to_apply c w plan"
  shows "apply_plan P parse H (mp_plan_id plan) (mp_digest plan) (c, x) = run_plan P parse H plan (c, x)"
  using assms by (auto simp: ready_to_apply_def apply_plan_def andthen_def reads_def)

lemma ready_shape: "ready_to_apply c w plan \<Longrightarrow> plan_shape c plan \<and> mp_plan_id plan \<noteq> []"
  using coordinator_okD(1) unfolding ready_to_apply_def by blast

lemma faulty_run:
  assumes ready: "ready_to_apply c w plan" and A: "admits parse plan (mem_view w) A"
    and step: "apply_plan (faulty_ports (mem_ports H)) parse H (mp_plan_id plan) (mp_digest plan) (c, (w, script))
      = (r, (c', (w', script')))"
  shows "memory_ok w' \<and> allowed A (mem_view w) (mem_view w') \<and> state_settled parse H plan (mem_view w) (mem_view w')
    \<and> journal_ready H plan (mem_view w) (mem_view w')
    \<and> (case r of Inr _ \<Rightarrow> applied_view parse H plan (mem_view w') \<and> map_of (mw_states w') (mp_plan_id plan) = Some COMPLETE
       | Inl _ \<Rightarrow> co_blocked c' \<or> same_content H (mem_view w) (mem_view w'))"
proof -
  have "faulty.at c (mem_view w) (c, (w, script))"
    using ready by (simp add: faulty.at_def ready_to_apply_def)
  moreover have "untouched plan (mem_view w) (mem_view w)"
    using ready by (simp add: untouched_def ready_to_apply_def)
  ultimately have "case (r, (c', (w', script'))) of
      (Inr x, s) \<Rightarrow> faulty.run_returned parse H plan (mem_view w) A x s
    | (Inl e, s) \<Rightarrow> faulty.run_raised parse H plan (mem_view w) A e s"
    using holds_D [OF faulty.run_plan_rule [where H = H and parse = parse, OF conjunct1 [OF ready_shape [OF ready]] A]]
      step unfolding apply_plan_run [OF ready] by (metis (no_types, lifting))
  then show ?thesis
    by (cases r) (auto simp: faulty.run_returned_def faulty.run_raised_def faulty.run_state_def faulty.at_def)
qed

lemma admits_changed: "admits parse plan v (\<lambda>key d. \<exists>pd. changed plan pd \<and> pd_key pd = key)"
  unfolding admits_def may_write_def by blast

text \<open>The fingerprints of a plan are those of the documents it rewrites.\<close>

definition plan_predicts ::
  "(string \<Rightarrow> template option) \<Rightarrow> (string \<Rightarrow> string) \<Rightarrow> migration_plan \<Rightarrow> (doc_key \<Rightarrow> document option) \<Rightarrow> bool" where
  "plan_predicts parse H plan docs \<longleftrightarrow> (\<forall>pd d target payload n. changed plan pd \<longrightarrow> docs (pd_key pd) = Some d \<longrightarrow>
     replace_exact_scalars parse (doc_payload d) (mp_old_entity_id plan) target (Some (pd_provider pd)) = Inr (payload, n) \<longrightarrow>
     map_of (rev (mp_provider_targets plan)) (pd_provider pd) = Some target \<longrightarrow>
     payload_fingerprint H payload = Inr (pd_post_fingerprint pd))"

lemma admits_restorable:
  assumes "plan_predicts parse H plan (v_docs v)"
  shows "admits parse plan v (restorable H plan v)"
  unfolding admits_def
proof (intro conjI allI impI)
  fix pd d0
  assume pd: "changed plan pd" "v_docs v (pd_key pd) = Some d0"
  show "may_write (restorable H plan v) v (pd_key pd) (doc_payload d0)"
    using pd fingerprint_payload unfolding may_write_def restorable_def by blast
  fix target payload n
  assume "replace_exact_scalars parse (doc_payload d0) (mp_old_entity_id plan) target (Some (pd_provider pd)) = Inr (payload, n)"
    "map_of (rev (mp_provider_targets plan)) (pd_provider pd) = Some target"
  then have "payload_fingerprint H payload = Inr (pd_post_fingerprint pd)"
    using assms pd unfolding plan_predicts_def by blast
  then show "may_write (restorable H plan v) v (pd_key pd) payload"
    using pd unfolding may_write_def restorable_def document_fingerprint_def by metis
qed (auto simp: restorable_def)

lemma plan_sound_predicts:
  assumes sound: "plan_sound parse H q docs plan" and "distinct (mp_providers plan)"
  shows "plan_predicts parse H plan docs"
  unfolding plan_predicts_def
proof (intro allI impI)
  fix pd d target payload n
  assume pd: "changed plan pd" "docs (pd_key pd) = Some d"
    and rep: "replace_exact_scalars parse (doc_payload d) (mp_old_entity_id plan) target (Some (pd_provider pd)) = Inr (payload, n)"
      "map_of (rev (mp_provider_targets plan)) (pd_provider pd) = Some target"
  have targets: "map_of (rev (mp_provider_targets plan)) = map_of (mp_provider_targets plan)"
    by (rule map_of_inject_set [THEN iffD2]) (use assms in \<open>auto simp: plan_sound_def rev_map [symmetric]\<close>)
  obtain d' where "docs (pd_key pd) = Some d'"
      "planned_for parse H (mp_old_entity_id plan) (mp_provider_targets plan) d' pd"
    using sound pd(1) unfolding plan_sound_def changed_def by blast
  then show "payload_fingerprint H payload = Inr (pd_post_fingerprint pd)"
    using pd(2) rep targets unfolding planned_for_def by auto
qed

section \<open>A small world\<close>

text \<open>Five providers, one dashboard that refers to the old entity, and the request to migrate it.\<close>

definition demo_hash :: "string \<Rightarrow> string" where
  "demo_hash s = take 6 (filter word_char (rev s))"

definition demo_parse :: "string \<Rightarrow> template option" where
  "demo_parse s = None"

definition demo_document :: document where
  "demo_document = \<lparr>doc_provider = ''lovelace'', doc_object = ''main'', doc_revision = RInt 1,
     doc_payload = JObj [(''entity_id'', JStr ''climate.old'')], doc_writable = True\<rparr>"

definition demo_memory :: memory where
  "demo_memory = \<lparr>mw_providers = map (\<lambda>n. (n, \<lparr>me_documents = (if n = ''lovelace'' then [(''main'', demo_document)] else []),
       me_counts = []\<rparr>)) provider_manifest,
     mw_subjects = [(''room'', \<lparr>su_room_id = ''room'', su_room_revision = 1, su_old_entity_id = ''climate.old'',
       su_logical_unique_id = ''logical_valve_a'', su_provider_targets = map (\<lambda>n. (n, ''climate.new'')) provider_manifest\<rparr>)],
     mw_states = [], mw_originals = [], mw_completions = []\<rparr>"

definition demo_request :: plan_request where
  "demo_request = \<lparr>rq_room_id = ''room'', rq_room_revision = 1, rq_old = ''climate.old'', rq_logical = ''logical_valve_a'',
    rq_target = Some ''climate.new'', rq_targets = None, rq_required = provider_manifest, rq_expected = True\<rparr>"

definition demo_coordinator :: coordinator where
  "demo_coordinator = \<lparr>co_providers = provider_manifest, co_plans = [], co_states = [], co_completed = [], co_blocked = False\<rparr>"

definition demo_plan :: migration_plan where
  "demo_plan = \<lparr>mp_plan_id = ''tf-reference-atenew'', mp_digest = ''weneta'', mp_room_id = ''room'', mp_room_revision = 1,
     mp_old_entity_id = ''climate.old'', mp_logical_unique_id = ''logical_valve_a'', mp_target_entity_id = Some ''climate.new'',
     mp_provider_targets = map (\<lambda>n. (n, ''climate.new'')) provider_manifest, mp_providers = provider_manifest,
     mp_references_expected = True,
     mp_documents = [\<lparr>pd_provider = ''lovelace'', pd_object = ''main'', pd_revision = RInt 1, pd_writable = True,
       pd_fingerprint = ''dloeta'', pd_post_fingerprint = ''weneta'', pd_exact_paths = [[PKey ''entity_id'']]\<rparr>],
     mp_exact_replacements = 1\<rparr>"

definition demo_planned :: coordinator where
  "demo_planned = demo_coordinator\<lparr>co_plans := [(''tf-reference-atenew'', demo_plan)],
     co_states := [(''tf-reference-atenew'', PLANNED)]\<rparr>"

definition demo_world :: memory where
  "demo_world = demo_memory\<lparr>mw_states := [(''tf-reference-atenew'', PLANNED)]\<rparr>"

lemma demo_created: "create_plan (mem_ports demo_hash) demo_parse demo_hash demo_request (demo_coordinator, demo_memory)
    = (Inr demo_plan, (demo_planned, demo_world))"
  by code_simp

definition demo_apply :: "fault list \<Rightarrow> (mig_error + migration_result) \<times> (memory \<times> fault list) system" where
  "demo_apply script = apply_plan (faulty_ports (mem_ports demo_hash)) demo_parse demo_hash (mp_plan_id demo_plan)
     (mp_digest demo_plan) (demo_planned, (demo_world, script))"

lemma demo_apply_split:
  "apply_plan (faulty_ports (mem_ports demo_hash)) demo_parse demo_hash (mp_plan_id demo_plan)
     (mp_digest demo_plan) (demo_planned, (demo_world, script)) =
   (fst (demo_apply script), (fst (snd (demo_apply script)),
     (fst (snd (snd (demo_apply script))), snd (snd (snd (demo_apply script))))))"
  by (simp add: demo_apply_def)

lemma memory_ok_check:
  assumes "dict_ok (mw_states w)" "list_all (\<lambda>(name, p). dict_ok (me_documents p)
    \<and> list_all (\<lambda>(ob, d). doc_key d = (name, ob)) (me_documents p)) (mw_providers w)"
  shows "memory_ok w"
  using assms unfolding memory_ok_def list_all_iff by (fastforce dest: map_of_SomeD)

lemma demo_memory_ok: "memory_ok demo_memory" "memory_ok demo_world"
  by (rule memory_ok_check; code_simp)+

lemma demo_ready: "ready_to_apply demo_planned demo_world demo_plan"
  unfolding ready_to_apply_def by (rule conjI [OF demo_memory_ok(2)], intro conjI disjI1; code_simp)

lemma demo_sound: "plan_sound demo_parse demo_hash demo_request (mem_document demo_world) demo_plan"
proof -
  have "mem.at demo_coordinator (mem_view demo_memory) (demo_coordinator, demo_memory)"
    using demo_memory_ok(1) by (simp add: mem.at_def)
  from holds_D [OF mem_listing.create_plan_rule [where H = demo_hash and Ha = demo_hash and parse = demo_parse
      and q = demo_request] this]
  show ?thesis
    unfolding demo_created by (auto simp: mem_listing.planned_quietly_def mem.at_def)
qed

section \<open>Properties\<close>

text \<open>
  C35. The invariant of the coordinator. Whatever the providers, the journal and the authority do, a
  coordinator that was constructed keeps its invariant over every sequence of plans, applications and
  recoveries: plans are filed under their own identifier with a state, their documents are distinct and
  belong to configured providers, a \<open>COMPLETE\<close> plan has the completion that a replay returns.
\<close>

theorem coordinator_keeps_invariant:
  assumes "coordinator_init P H names w = (Inr c, w')"
  shows "coordinator_ok (fst (serve P parse H ops (c, w'))) \<and> co_providers (fst (serve P parse H ops (c, w'))) = names"
  using coordinator_init_ok [OF assms] serve_sane [where ps = names and s = "(c, w')"] by (simp add: sane_def)

theorem coordinator_keeps_invariant_witness:
  "\<exists>c. coordinator_init (mem_ports demo_hash) demo_hash provider_manifest demo_memory = (Inr c, demo_memory)
     \<and> coordinator_ok (fst (serve (mem_ports demo_hash) demo_parse demo_hash
         [CreateOp demo_request, ApplyOp ''unknown'' ''digest''] (c, demo_memory)))"
proof -
  have "coordinator_init (mem_ports demo_hash) demo_hash provider_manifest demo_memory = (Inr demo_coordinator, demo_memory)"
    by code_simp
  from this coordinator_keeps_invariant [OF this, where parse = demo_parse] show ?thesis by blast
qed

text \<open>
  C34. A created plan. Over any faults, creating a plan changes no document and no journaled original;
  a plan that is returned is registered and lists exactly the documents of the required providers, each
  writable, without embedded references, with its revision, its fingerprint, the paths of its references
  and the fingerprint of its rewriting.
\<close>

theorem created_plan_describes_documents:
  assumes "memory_ok w" "create_plan (faulty_ports (mem_ports H)) parse H q (c, (w, script)) = (r, (c', (w', script')))"
  shows "mem_document w' = mem_document w \<and> originals_of w' = originals_of w
    \<and> (case r of Inl _ \<Rightarrow> True
       | Inr plan \<Rightarrow> plan_sound parse H q (mem_document w) plan \<and> map_of (co_plans c') (mp_plan_id plan) = Some plan)"
proof -
  have "faulty.at c (mem_view w) (c, (w, script))" using assms(1) by (simp add: faulty.at_def)
  from holds_D [OF faulty_listing.create_plan_rule [where Ha = H and H = H and parse = parse and q = q] this]
  show ?thesis unfolding assms(2)
    by (cases r) (auto simp: faulty_listing.planned_quietly_def faulty.at_def)
qed

theorem created_plan_describes_documents_witness:
  "\<exists>r c' w' script'. create_plan (faulty_ports (mem_ports demo_hash)) demo_parse demo_hash demo_request
      (demo_coordinator, (demo_memory, [Pass, Pass, Lose])) = (r, (c', (w', script')))
    \<and> mem_document w' = mem_document demo_memory"
  using created_plan_describes_documents [OF demo_memory_ok(1)] by (metis prod.collapse)

text \<open>
  C32. All or nothing. Whatever call fails while a plan is applied, before or after its effect: if the
  application returns, every document of the plan is at its verified postimage and the journal says
  \<open>COMPLETE\<close>; if it raises, the coordinator is blocked or every document has the content it had before.
  Documents the plan does not change are untouched, and the journal says \<open>COMPLETE\<close> only of an applied plan.
\<close>

theorem apply_all_or_nothing:
  assumes "ready_to_apply c w plan"
    "apply_plan (faulty_ports (mem_ports H)) parse H (mp_plan_id plan) (mp_digest plan) (c, (w, script))
      = (r, (c', (w', script')))"
  shows "(case r of
      Inr _ \<Rightarrow> applied_view parse H plan (mem_view w') \<and> map_of (mw_states w') (mp_plan_id plan) = Some COMPLETE
    | Inl _ \<Rightarrow> co_blocked c' \<or> same_content H (mem_view w) (mem_view w'))
    \<and> (\<forall>key. (\<forall>pd. changed plan pd \<longrightarrow> pd_key pd \<noteq> key) \<longrightarrow> mem_document w' key = mem_document w key)
    \<and> (map_of (mw_states w') (mp_plan_id plan) = Some COMPLETE \<longrightarrow> applied_view parse H plan (mem_view w'))"
proof -
  note run = faulty_run [OF assms(1) admits_changed assms(2)]
  have "mem_document w' key = mem_document w key" if "\<forall>pd. changed plan pd \<longrightarrow> pd_key pd \<noteq> key" for key
  proof -
    have "allowed (\<lambda>key d. \<exists>pd. changed plan pd \<and> pd_key pd = key) (mem_view w) (mem_view w')" using run by blast
    then show ?thesis using that unfolding allowed_def mem_view_simps by blast
  qed
  moreover have "applied_view parse H plan (mem_view w')" if "map_of (mw_states w') (mp_plan_id plan) = Some COMPLETE"
    using run that by (simp add: state_settled_def)
  ultimately show ?thesis using run by blast
qed

text \<open>Here the write of the dashboard has its effect and then raises; the coordinator restores it.\<close>

theorem apply_all_or_nothing_witness:
  "isl (fst (demo_apply (replicate 9 Pass @ [Lose]))) \<and> \<not> co_blocked (fst (snd (demo_apply (replicate 9 Pass @ [Lose]))))
    \<and> same_content demo_hash (mem_view demo_world) (mem_view (fst (snd (snd (demo_apply (replicate 9 Pass @ [Lose]))))))"
proof -
  have *: "isl (fst (demo_apply (replicate 9 Pass @ [Lose])))" "\<not> co_blocked (fst (snd (demo_apply (replicate 9 Pass @ [Lose]))))"
    by code_simp+
  with apply_all_or_nothing [OF demo_ready, OF demo_apply_split, of "replicate 9 Pass @ [Lose]"]
  show ?thesis by (auto simp: isl_def)
qed

text \<open>
  C33. Recovery after a crash. Let a plan that describes the documents be applied for the first time
  under any faults, the death of the process included. Then the journal says that it is complete, and it
  is applied, or that it is unfinished, and a recovery by a coordinator of the same providers returns and
  gives every document the content it had before; otherwise every document has that content already.
\<close>

theorem crash_recovery_restores:
  assumes "ready_to_apply c w plan" "plan_sound parse H q (mem_document w) plan"
    "apply_plan (faulty_ports (mem_ports H)) parse H (mp_plan_id plan) (mp_digest plan) (c, (w, script))
      = (r, (c', (w', script')))"
    "co_providers c2 = co_providers c"
  shows "if map_of (mw_states w') (mp_plan_id plan) = Some COMPLETE then applied_view parse H plan (mem_view w')
    else if unfinished (map_of (mw_states w') (mp_plan_id plan)) then
      (\<exists>c3 w3. recover_incomplete (mem_ports H) H (mp_plan_id plan) (c2, w') = (Inr (), (c3, w3))
         \<and> same_content H (mem_view w) (mem_view w3) \<and> map_of (mw_states w3) (mp_plan_id plan) = Some FAILED)
    else same_content H (mem_view w) (mem_view w')"
proof -
  let ?id = "mp_plan_id plan"
  have shape: "plan_shape c2 plan" "?id \<noteq> []" using ready_shape [OF assms(1)] assms(4) by (auto simp: plan_shape_def)
  have "plan_predicts parse H plan (v_docs (mem_view w))"
    using plan_sound_predicts [OF assms(2)] shape(1) by (simp add: plan_shape_def)
  note run = faulty_run [OF assms(1) admits_restorable [OF this] assms(3)]
  have recover: "\<exists>c3 w3. recover_incomplete (mem_ports H) H ?id (c2, w') = (Inr (), (c3, w3))
         \<and> same_content H (mem_view w) (mem_view w3) \<and> map_of (mw_states w3) ?id = Some FAILED"
    if "unfinished (map_of (mw_states w') ?id)"
  proof -
    have int: "interrupted H plan (mem_view w) (mem_view w')" using run by (simp add: interrupted_def)
    have unfin: "unfinished (v_states (mem_view w') ?id)" using that by simp
    have at: "mem.at c2 (mem_view w') (c2, w')" using run by (simp add: mem.at_def)
    from holds_D [OF mem_live.recover_incomplete_rule [where Ha = H and H = H, OF int shape(1) unfin shape(2)] at]
    show ?thesis by (auto simp: mem_live.recovered_def mem.at_def split: prod.splits sum.splits)
  qed
  show ?thesis using run recover by (auto simp: state_settled_def)
qed

text \<open>Here the process dies right after the dashboard was written: the journal is unfinished, the document changed.\<close>

definition demo_crash :: memory where
  "demo_crash = fst (snd (snd (demo_apply (replicate 9 Pass @ [Lose, Crashed]))))"

theorem crash_recovery_restores_witness:
  "unfinished (map_of (mw_states demo_crash) (mp_plan_id demo_plan))
    \<and> map_option doc_payload (mem_document demo_crash (''lovelace'', ''main'')) = Some (JObj [(''entity_id'', JStr ''climate.new'')])
    \<and> (\<exists>c3 w3. recover_incomplete (mem_ports demo_hash) demo_hash (mp_plan_id demo_plan) (demo_coordinator, demo_crash)
          = (Inr (), (c3, w3))
        \<and> same_content demo_hash (mem_view demo_world) (mem_view w3))"
proof -
  have *: "map_of (mw_states demo_crash) (mp_plan_id demo_plan) = Some APPLYING"
    "map_option doc_payload (mem_document demo_crash (''lovelace'', ''main'')) = Some (JObj [(''entity_id'', JStr ''climate.new'')])"
    "co_providers demo_coordinator = co_providers demo_planned"
    by code_simp+
  from crash_recovery_restores [OF demo_ready demo_sound
      demo_apply_split *(3), of "replicate 9 Pass @ [Lose, Crashed]"]
  show ?thesis using * unfolding demo_crash_def by auto
qed

end
