(* ===== verification/Room_Models.thy ===== *)
theory Room_Models
  imports Canonical_Json
begin

text \<open>
  \<open>models.py\<close>: the bindings of physical valves, the permanent rooms they are bound to, and the form
  in which the rooms are persisted. Persisted data is JSON; a list of members with a repeated key
  is not a Python \<open>dict\<close> and is refused like any value that is not a mapping. Every failure of this
  file is a \<open>ValueError\<close>.
\<close>

datatype room_error = RoomValueError

section \<open>Bindings\<close>

record room_binding =
  rb_registry_id :: string
  rb_climate_id :: string
  rb_mqtt_id :: string
  rb_device_id :: string
  rb_ieee :: string
  rb_model :: string
  rb_manufacturer :: string
  rb_name :: string

text \<open>\<open>isinstance(value, str) and value and value == value.strip()\<close>.\<close>

definition canonical_text :: "string \<Rightarrow> bool" where
  "canonical_text s \<longleftrightarrow> s \<noteq> [] \<and> s = py_strip s"

definition ieee_ok :: "string \<Rightarrow> bool" where
  "ieee_ok s \<longleftrightarrow> hex_suffixed ''0x'' 16 s"

definition binding_ok :: "room_binding \<Rightarrow> bool" where
  "binding_ok b \<longleftrightarrow>
     list_all canonical_text [rb_registry_id b, rb_climate_id b, rb_mqtt_id b, rb_device_id b, rb_ieee b,
       rb_model b, rb_manufacturer b, rb_name b]
     \<and> starts_with ''climate.'' (rb_climate_id b) \<and> \<not> starts_with ''climate.true_family_'' (rb_climate_id b)
     \<and> ieee_ok (rb_ieee b)
     \<and> rb_mqtt_id b = rb_ieee b @ ''_climate_zigbee2mqtt''
     \<and> rb_device_id b = ''zigbee2mqtt_'' @ rb_ieee b"

definition make_binding :: "room_binding \<Rightarrow> room_error + room_binding" where
  "make_binding b = (if binding_ok b then Inr b else Inl RoomValueError)"

definition room_binding_fields :: "string list" where
  "room_binding_fields = [''registry_entry_id'', ''climate_entity_id'', ''mqtt_unique_id'', ''device_identifier'',
     ''ieee_address'', ''model'', ''manufacturer'', ''z2m_friendly_name'']"

definition binding_json :: "room_binding \<Rightarrow> json" where
  "binding_json b = JObj [(''registry_entry_id'', JStr (rb_registry_id b)), (''climate_entity_id'', JStr (rb_climate_id b)),
     (''mqtt_unique_id'', JStr (rb_mqtt_id b)), (''device_identifier'', JStr (rb_device_id b)),
     (''ieee_address'', JStr (rb_ieee b)), (''model'', JStr (rb_model b)), (''manufacturer'', JStr (rb_manufacturer b)),
     (''z2m_friendly_name'', JStr (rb_name b))]"

text \<open>A mapping with exactly the expected keys, as the function that reads a member.\<close>

definition exact_fields :: "string list \<Rightarrow> json \<Rightarrow> room_error + (string \<Rightarrow> json)" where
  "exact_fields keys v = (case v of
     JObj kvs \<Rightarrow> if distinct (map fst kvs) \<and> set (map fst kvs) = set keys then Inr (\<lambda>k. obj_get kvs k JNull)
       else Inl RoomValueError
   | _ \<Rightarrow> Inl RoomValueError)"

definition text_of :: "json \<Rightarrow> string option" where
  "text_of v = (case v of JStr s \<Rightarrow> Some s | _ \<Rightarrow> None)"

definition binding_from_json :: "json \<Rightarrow> room_error + room_binding" where
  "binding_from_json v = (case exact_fields room_binding_fields v of Inl e \<Rightarrow> Inl e
   | Inr f \<Rightarrow>
     if list_all (\<lambda>k. text_of (f k) \<noteq> None) room_binding_fields then
       (let t = \<lambda>k. the (text_of (f k)) in
        make_binding \<lparr>rb_registry_id = t ''registry_entry_id'', rb_climate_id = t ''climate_entity_id'',
          rb_mqtt_id = t ''mqtt_unique_id'', rb_device_id = t ''device_identifier'', rb_ieee = t ''ieee_address'',
          rb_model = t ''model'', rb_manufacturer = t ''manufacturer'', rb_name = t ''z2m_friendly_name''\<rparr>)
     else Inl RoomValueError)"

section \<open>Rooms\<close>

record room_slot_state =
  rs_room_id :: string
  rs_display_name :: string
  rs_models :: "string list"
  rs_manufacturers :: "string list"
  rs_binding :: "room_binding option"
  rs_previous :: "room_binding option"
  rs_bootstrap :: "room_binding option"
  rs_revision :: int

definition slot_ok :: "room_slot_state \<Rightarrow> bool" where
  "slot_ok r \<longleftrightarrow> rs_room_id r \<noteq> [] \<and> rs_display_name r \<noteq> []
     \<and> rs_models r \<noteq> [] \<and> list_all (\<lambda>m. m \<noteq> []) (rs_models r)
     \<and> rs_manufacturers r \<noteq> [] \<and> list_all (\<lambda>m. m \<noteq> []) (rs_manufacturers r) \<and> 0 \<le> rs_revision r"

definition make_slot :: "room_slot_state \<Rightarrow> room_error + room_slot_state" where
  "make_slot r = (if slot_ok r then Inr r else Inl RoomValueError)"

definition optional_binding_json :: "room_binding option \<Rightarrow> json" where
  "optional_binding_json b = (case b of None \<Rightarrow> JNull | Some b \<Rightarrow> binding_json b)"

definition slot_fields :: "string list" where
  "slot_fields = [''room_id'', ''display_name'', ''allowed_models'', ''allowed_manufacturers'', ''binding'',
     ''previous_binding'', ''bootstrap_binding'', ''revision'']"

definition slot_json :: "room_slot_state \<Rightarrow> json" where
  "slot_json r = JObj [(''room_id'', JStr (rs_room_id r)), (''display_name'', JStr (rs_display_name r)),
     (''allowed_models'', JArr (map JStr (rs_models r))), (''allowed_manufacturers'', JArr (map JStr (rs_manufacturers r))),
     (''binding'', optional_binding_json (rs_binding r)), (''previous_binding'', optional_binding_json (rs_previous r)),
     (''bootstrap_binding'', optional_binding_json (rs_bootstrap r)), (''revision'', JInt (rs_revision r))]"

definition optional_binding :: "json \<Rightarrow> room_error + room_binding option" where
  "optional_binding v = (if v = JNull then Inr None
     else case binding_from_json v of Inl e \<Rightarrow> Inl e | Inr b \<Rightarrow> Inr (Some b))"

definition text_list :: "json \<Rightarrow> string list option" where
  "text_list v = (case v of
     JArr vs \<Rightarrow> if list_all (\<lambda>v. case v of JStr s \<Rightarrow> s \<noteq> [] | _ \<Rightarrow> False) vs then Some (map (\<lambda>v. the (text_of v)) vs) else None
   | _ \<Rightarrow> None)"

definition slot_from_json :: "json \<Rightarrow> room_error + room_slot_state" where
  "slot_from_json v = (case exact_fields slot_fields v of Inl e \<Rightarrow> Inl e
   | Inr f \<Rightarrow>
     (case (f ''revision'', text_of (f ''room_id''), text_of (f ''display_name''),
            text_list (f ''allowed_models''), text_list (f ''allowed_manufacturers'')) of
        (JInt n, Some room_id, Some name, Some models, Some manufacturers) \<Rightarrow>
          if room_id = [] \<or> name = [] then Inl RoomValueError
          else (case optional_binding (f ''binding'') of Inl e \<Rightarrow> Inl e | Inr b \<Rightarrow>
            (case optional_binding (f ''previous_binding'') of Inl e \<Rightarrow> Inl e | Inr p \<Rightarrow>
              (case optional_binding (f ''bootstrap_binding'') of Inl e \<Rightarrow> Inl e | Inr t \<Rightarrow>
                make_slot \<lparr>rs_room_id = room_id, rs_display_name = name, rs_models = models,
                  rs_manufacturers = manufacturers, rs_binding = b, rs_previous = p, rs_bootstrap = t,
                  rs_revision = n\<rparr>)))
      | _ \<Rightarrow> Inl RoomValueError))"

section \<open>All rooms\<close>

type_synonym rooms = "(string, room_slot_state) dict"

definition default_room_names :: "(string \<times> string) list" where
  "default_room_names = [(''living_room'', ''Living Room''), (''kitchen'', ''Kitchen''),
     (''downstairs_bathroom'', ''Downstairs Bathroom''), (''guest_room'', ''Guest Room''),
     (''our_bedroom'', ''Our Bedroom''), (''clarks_room'', ''Clark'' @ [CHR 0x27] @ ''s Room''),
     (''upstairs_bathroom'', ''Upstairs Bathroom'')]"

definition default_rooms :: rooms where
  "default_rooms = map (\<lambda>(i, name). (i, \<lparr>rs_room_id = i, rs_display_name = name, rs_models = [''BRT-100-TRV''],
     rs_manufacturers = [''Moes''], rs_binding = None, rs_previous = None, rs_bootstrap = None, rs_revision = 0\<rparr>))
     default_room_names"

definition rooms_json :: "rooms \<Rightarrow> (string \<times> json) list" where
  "rooms_json rooms = map (\<lambda>(i, r). (i, slot_json r)) rooms"

definition slot_bindings :: "room_slot_state \<Rightarrow> room_binding list" where
  "slot_bindings r = List.map_filter (\<lambda>b. b) [rs_binding r, rs_previous r, rs_bootstrap r]"

definition allocations :: "rooms \<Rightarrow> (string \<times> room_binding) list" where
  "allocations rooms = concat (map (\<lambda>(i, r). map (Pair (rs_room_id r)) (slot_bindings r)) rooms)"

text \<open>\<open>owners.setdefault(key, room)\<close>: the owner afterwards, and the dictionary.\<close>

definition set_default :: "(string, string) dict \<Rightarrow> string \<Rightarrow> string \<Rightarrow> string \<times> (string, string) dict" where
  "set_default d k v = (case map_of d k of Some owner \<Rightarrow> (owner, d) | None \<Rightarrow> (v, dict_put d k v))"

text \<open>The loop over the bindings of all rooms that finds a valve allocated twice.\<close>

fun allocated_once :: "(string \<times> room_binding) list \<Rightarrow> (string, string) dict \<Rightarrow> (string, string) dict \<Rightarrow> bool" where
  "allocated_once [] registry ieee = True"
| "allocated_once ((room, b) # rest) registry ieee =
     (let (registry_owner, registry') = set_default registry (rb_registry_id b) room;
          (ieee_owner, ieee') = set_default ieee (rb_ieee b) room
      in registry_owner = room \<and> ieee_owner = room \<and> allocated_once rest registry' ieee')"

fun load_rooms :: "(string \<times> json) list \<Rightarrow> rooms \<Rightarrow> room_error + rooms" where
  "load_rooms [] rooms = Inr rooms"
| "load_rooms ((stored, v) # rest) rooms = (case slot_from_json v of Inl e \<Rightarrow> Inl e
   | Inr room \<Rightarrow>
     if rs_room_id room \<noteq> stored then Inl RoomValueError
     else if map_of rooms (rs_room_id room) \<noteq> None then Inl RoomValueError
     else load_rooms rest (dict_put rooms (rs_room_id room) room))"

definition rooms_from_json :: "(string \<times> json) list \<Rightarrow> room_error + rooms" where
  "rooms_from_json data =
     (if set (map fst data) \<noteq> set (map fst default_room_names) then Inl RoomValueError
      else case load_rooms data [] of Inl e \<Rightarrow> Inl e
      | Inr rooms \<Rightarrow> if allocated_once (allocations rooms) [] [] then Inr rooms else Inl RoomValueError)"

section \<open>Round trips\<close>

lemma exact_fields_obj:
  assumes "map fst kvs = keys" "distinct keys"
  shows "exact_fields keys (JObj kvs) = Inr (\<lambda>k. obj_get kvs k JNull)"
  using assms by (auto simp: exact_fields_def)

lemma text_of_JStr [simp]: "text_of (JStr s) = Some s"
  by (simp add: text_of_def)

lemma text_of_Some [simp]: "text_of v = Some s \<longleftrightarrow> v = JStr s"
  by (cases v) (auto simp: text_of_def)

lemma binding_round: "binding_ok b \<Longrightarrow> binding_from_json (binding_json b) = Inr b"
  unfolding binding_from_json_def binding_json_def
  by (subst exact_fields_obj) (simp_all add: room_binding_fields_def obj_get_def make_binding_def, cases b, simp)

lemma binding_from_json_ok: "binding_from_json v = Inr b \<Longrightarrow> binding_ok b"
  by (auto simp: binding_from_json_def make_binding_def Let_def split: sum.splits if_splits)

lemma optional_round: "(\<And>x. b = Some x \<Longrightarrow> binding_ok x) \<Longrightarrow> optional_binding (optional_binding_json b) = Inr b"
  by (cases b) (auto simp: optional_binding_def optional_binding_json_def binding_round, simp add: binding_json_def)

lemma text_list_round: "list_all (\<lambda>s. s \<noteq> []) ss \<Longrightarrow> text_list (JArr (map JStr ss)) = Some ss"
  by (auto simp: text_list_def list_all_iff comp_def)

text \<open>A room with well-formed bindings.\<close>

definition room_ok :: "room_slot_state \<Rightarrow> bool" where
  "room_ok r \<longleftrightarrow> slot_ok r \<and> list_all binding_ok (slot_bindings r)"

lemma slot_bindings_simps: "set (slot_bindings r) = {b. rs_binding r = Some b \<or> rs_previous r = Some b \<or> rs_bootstrap r = Some b}"
  by (auto simp: slot_bindings_def List.map_filter_def split: if_splits)

lemma slot_round: "room_ok r \<Longrightarrow> slot_from_json (slot_json r) = Inr r"
  unfolding slot_from_json_def slot_json_def
  by (subst exact_fields_obj)
     (auto simp: slot_fields_def obj_get_def room_ok_def slot_ok_def list_all_iff slot_bindings_simps make_slot_def
        text_list_round optional_round)

lemma optional_binding_ok: "optional_binding v = Inr b \<Longrightarrow> b = Some x \<Longrightarrow> binding_ok x"
  by (auto simp: optional_binding_def binding_from_json_ok split: if_splits sum.splits)

lemma slot_from_json_ok: "slot_from_json v = Inr r \<Longrightarrow> room_ok r"
  by (auto simp: slot_from_json_def make_slot_def room_ok_def list_all_iff slot_bindings_simps
      intro: optional_binding_ok split: sum.splits json.splits option.splits if_splits)

section \<open>One room for every valve\<close>

definition rooms_disjoint :: "rooms \<Rightarrow> bool" where
  "rooms_disjoint rooms \<longleftrightarrow> (\<forall>(r1, b1) \<in> set (allocations rooms). \<forall>(r2, b2) \<in> set (allocations rooms).
     r1 \<noteq> r2 \<longrightarrow> rb_registry_id b1 \<noteq> rb_registry_id b2 \<and> rb_ieee b1 \<noteq> rb_ieee b2)"

definition owners_agree :: "(string \<times> room_binding) list \<Rightarrow> (room_binding \<Rightarrow> string) \<Rightarrow> (string, string) dict \<Rightarrow> bool" where
  "owners_agree as key d \<longleftrightarrow> (\<forall>(r, b) \<in> set as. \<forall>owner. map_of d (key b) = Some owner \<longrightarrow> owner = r)"

definition agreeing :: "(string \<times> room_binding) list \<Rightarrow> (room_binding \<Rightarrow> string) \<Rightarrow> bool" where
  "agreeing as key \<longleftrightarrow> (\<forall>(r1, b1) \<in> set as. \<forall>(r2, b2) \<in> set as. key b1 = key b2 \<longrightarrow> r1 = r2)"

lemma owners_agree_step:
  "set_default d (key b) r = (owner, d') \<Longrightarrow>
     owner = r \<and> owners_agree as key d' \<and> agreeing as key
     \<longleftrightarrow> owners_agree ((r, b) # as) key d \<and> agreeing ((r, b) # as) key"
  by (cases "map_of d (key b)") (force simp: set_default_def owners_agree_def agreeing_def split: if_splits)+

lemma allocated_once_iff:
  "allocated_once as registry ieee \<longleftrightarrow>
     owners_agree as rb_registry_id registry \<and> agreeing as rb_registry_id
     \<and> owners_agree as rb_ieee ieee \<and> agreeing as rb_ieee"
proof (induction as registry ieee rule: allocated_once.induct)
  case 1
  show ?case by (simp add: owners_agree_def agreeing_def)
next
  case (2 room b rest registry ieee)
  obtain o1 d1 where 1: "set_default registry (rb_registry_id b) room = (o1, d1)" by force
  obtain o2 d2 where 2: "set_default ieee (rb_ieee b) room = (o2, d2)" by force
  show ?case
    using "2.IH" [OF 1 [symmetric] refl 2 [symmetric] refl] owners_agree_step [of _ rb_registry_id, OF 1, of rest]
      owners_agree_step [of _ rb_ieee, OF 2, of rest]
    by (simp only: allocated_once.simps 1 2 Let_def prod.case) argo
qed

lemma allocated_once_disjoint: "allocated_once (allocations rooms) [] [] \<longleftrightarrow> rooms_disjoint rooms"
proof -
  have none: "owners_agree as key []" for as key by (simp add: owners_agree_def split_beta)
  show ?thesis
    unfolding allocated_once_iff agreeing_def rooms_disjoint_def split_beta using none by blast
qed

section \<open>Loading what was stored\<close>

text \<open>Rooms as the program keeps them: the canonical rooms under their own identifiers.\<close>

definition rooms_ok :: "rooms \<Rightarrow> bool" where
  "rooms_ok rooms \<longleftrightarrow> dict_ok rooms \<and> set (map fst rooms) = set (map fst default_room_names)
     \<and> list_all (\<lambda>(i, r). rs_room_id r = i \<and> room_ok r) rooms \<and> rooms_disjoint rooms"

lemma load_rooms_round:
  "\<lbrakk>dict_ok (acc @ rooms); list_all (\<lambda>(i, r). rs_room_id r = i \<and> room_ok r) rooms\<rbrakk> \<Longrightarrow>
     load_rooms (rooms_json rooms) acc = Inr (acc @ rooms)"
proof (induction rooms arbitrary: acc)
  case (Cons p rooms)
  obtain i r where p: "p = (i, r)" by force
  have new: "map_of acc i = None" "i \<notin> fst ` set acc" using Cons.prems p by (auto simp: dict_ok_def map_of_eq_None_iff)
  then show ?case
    using Cons p by (auto simp: rooms_json_def slot_round length_dict_put_notin)
qed (simp add: rooms_json_def)

lemma rooms_round: "rooms_ok rooms \<Longrightarrow> rooms_from_json (rooms_json rooms) = Inr rooms"
  using load_rooms_round [of "[]" rooms]
  by (simp add: rooms_from_json_def rooms_ok_def rooms_json_def allocated_once_disjoint comp_def split_beta)

lemma load_rooms_ok:
  "\<lbrakk>load_rooms data acc = Inr rooms; dict_ok acc; list_all (\<lambda>(i, r). rs_room_id r = i \<and> room_ok r) acc\<rbrakk> \<Longrightarrow>
     dict_ok rooms \<and> list_all (\<lambda>(i, r). rs_room_id r = i \<and> room_ok r) rooms
     \<and> fst ` set rooms = fst ` set acc \<union> fst ` set data"
proof (induction data acc rule: load_rooms.induct)
  case (2 stored v rest acc)
  obtain room where room: "slot_from_json v = Inr room" "rs_room_id room = stored" "map_of acc stored = None"
    "load_rooms rest (dict_put acc stored room) = Inr rooms"
    using "2.prems"(1) by (auto split: sum.splits if_splits)
  have "list_all (\<lambda>(i, r). rs_room_id r = i \<and> room_ok r) (dict_put acc stored room)"
    using "2.prems"(2,3) room slot_from_json_ok [OF room(1)] by (auto simp: list_all_iff set_dict_put)
  then show ?case using "2.IH" [OF room(1)] room "2.prems"(2) by auto
qed auto

lemma rooms_from_json_ok: "rooms_from_json data = Inr rooms \<Longrightarrow> rooms_ok rooms"
  using load_rooms_ok [of data "[]" rooms]
  by (auto simp: rooms_from_json_def rooms_ok_def allocated_once_disjoint split: sum.splits if_splits)

end
