(* ===== verification/Replacement_Runtime.thy ===== *)
theory Replacement_Runtime
  imports Room_Models Actions Py_Float
begin

text \<open>
  \<open>replacement.py\<close>: \<open>TrueFamilyRuntime\<close>, the replacement of valves in a running Home Assistant.

  A coroutine is cut where it gives up the mutation lock: every locked section is one action, and
  the actions interleave in any order. What happens while a section waits for the bridge is part of
  the answer of that wait (\<open>answer\<close>): the permit notices the callback
  \<open>_handle_bridge_permit_state\<close> handles meanwhile, the start of an unload, and the result. The
  registries and states of Home Assistant are an argument (\<open>home\<close>) of the steps that read them. Texts
  of messages and errors, the audit, the notifications of listeners and the sleeping of the time-out
  tasks are not modelled.
\<close>

section \<open>Sessions\<close>

datatype replacement_phase =
    AWAITING_PAIRING | INTERVIEWING | VERIFYING | READY_TO_COMMIT | TESTING | COMPLETE | FAILED | CANCELLED | ROLLED_BACK

definition terminal_phase :: "replacement_phase \<Rightarrow> bool" where
  "terminal_phase ph \<longleftrightarrow> ph \<in> {COMPLETE, FAILED, CANCELLED, ROLLED_BACK}"

text \<open>\<open>model\<close>, \<open>manufacturer\<close> and \<open>supported\<close> hold whatever the event carried; \<open>None\<close> is \<open>JNull\<close>.\<close>

record candidate =
  cd_ieee :: string
  cd_name :: string
  cd_model :: json
  cd_manufacturer :: json
  cd_supported :: json

definition make_candidate :: "candidate \<Rightarrow> room_error + candidate" where
  "make_candidate c = (if ieee_ok (cd_ieee c) \<and> cd_name c \<noteq> [] then Inr c else Inl RoomValueError)"

type_synonym utc_time = int

record replacement_session =
  ss_id :: string
  ss_room :: string
  ss_expected_revision :: int
  ss_deadline :: utc_time
  ss_old_binding :: "room_binding option"
  ss_operation :: string
  ss_phase :: replacement_phase
  ss_candidate :: "candidate option"
  ss_candidate_binding :: "room_binding option"
  ss_join_closed :: bool
  ss_join_acknowledged :: bool
  ss_join_opened_at :: "utc_time option"
  ss_join_closed_at :: "utc_time option"
  ss_joined :: "string list"
  ss_remediation :: bool
  ss_committed_revision :: "int option"

definition new_session :: "string \<Rightarrow> room_slot_state \<Rightarrow> string \<Rightarrow> utc_time \<Rightarrow> replacement_session" where
  "new_session i room operation now = \<lparr>ss_id = i, ss_room = rs_room_id room, ss_expected_revision = rs_revision room,
     ss_deadline = now + 60000000, ss_old_binding = rs_binding room, ss_operation = operation,
     ss_phase = AWAITING_PAIRING, ss_candidate = None, ss_candidate_binding = None, ss_join_closed = False,
     ss_join_acknowledged = False, ss_join_opened_at = None, ss_join_closed_at = None, ss_joined = [],
     ss_remediation = False, ss_committed_revision = None\<rparr>"

section \<open>Home Assistant\<close>

record device_info =
  di_id :: string
  di_identifiers :: "(string \<times> string) list"
  di_model :: "string option"
  di_manufacturer :: "string option"
  di_name :: "string option"

record entity_info =
  ei_id :: string
  ei_entity_id :: string
  ei_domain :: string
  ei_platform :: string
  ei_disabled :: bool
  ei_device :: "string option"
  ei_unique_id :: string

text \<open>
  A climate state: \<open>cs_attributes\<close> holds \<open>float(attributes[name])\<close> of every attribute, \<open>None\<close> where it
  raises; \<open>cs_features\<close> and \<open>cs_modes\<close> are the integer and the collection read from the attributes.
\<close>

record climate_state =
  cs_state :: string
  cs_attributes :: "(string \<times> py_float option) list"
  cs_features :: "int option"
  cs_modes :: "string list option"

record home =
  ho_devices :: "device_info list"
  ho_entities :: "entity_info list"
  ho_states :: "(string, climate_state) dict"
  ho_default_target :: py_float

definition state_missing :: "climate_state option \<Rightarrow> bool" where
  "state_missing st = (case st of None \<Rightarrow> True | Some s \<Rightarrow> cs_state s = ''unknown'' \<or> cs_state s = ''unavailable'')"

text \<open>\<open>float(attributes[name])\<close>, where it does not raise.\<close>

definition attribute :: "climate_state \<Rightarrow> string \<Rightarrow> py_float option" where
  "attribute st name = (case map_of (cs_attributes st) name of Some v \<Rightarrow> v | None \<Rightarrow> None)"

definition temperature_limits :: "climate_state \<Rightarrow> (py_float \<times> py_float) option" where
  "temperature_limits st =
     (case (attribute st ''min_temp'', attribute st ''max_temp'', attribute st ''target_temp_step'') of
        (Some lo, Some hi, Some step) \<Rightarrow>
          if \<not> (is_finite lo \<and> is_finite hi \<and> is_finite step) \<or> float_le hi lo \<or> float_le step (Fin 0) then None
          else Some (lo, hi)
      | _ \<Rightarrow> None)"

definition within_limits :: "py_float \<times> py_float \<Rightarrow> py_float \<Rightarrow> bool" where
  "within_limits l t \<longleftrightarrow> float_le (fst l) t \<and> float_le t (snd l)"

definition meets_contract :: "climate_state option \<Rightarrow> bool" where
  "meets_contract st \<longleftrightarrow> \<not> state_missing st \<and> (case st of None \<Rightarrow> False | Some s \<Rightarrow>
     (case cs_features s of None \<Rightarrow> False | Some features \<Rightarrow> temperature_limits s \<noteq> None \<and> odd features
        \<and> (case cs_modes s of None \<Rightarrow> False | Some modes \<Rightarrow> ''heat'' \<in> set modes)))"

definition mqtt_identifiers :: "device_info \<Rightarrow> string list" where
  "mqtt_identifiers d = sort (map snd (filter (\<lambda>p. fst p = ''mqtt'') (di_identifiers d)))"

definition device_with :: "home \<Rightarrow> string \<Rightarrow> device_info option" where
  "device_with h identifier = List.find (\<lambda>d. (''mqtt'', identifier) \<in> set (di_identifiers d)) (ho_devices h)"

text \<open>\<open>_resolve_candidate_binding\<close>: nothing, the binding, or the \<open>ValueError\<close> of its constructor.\<close>

definition json_text :: "string option \<Rightarrow> json" where
  "json_text t = (case t of None \<Rightarrow> JNull | Some s \<Rightarrow> JStr s)"

definition resolve_candidate :: "home \<Rightarrow> replacement_session \<Rightarrow> room_error + room_binding option" where
  "resolve_candidate h s = (case ss_candidate s of None \<Rightarrow> Inr None | Some c \<Rightarrow>
     let identifier = ''zigbee2mqtt_'' @ cd_ieee c in
     (case (if cd_model c = JNull then None else device_with h identifier) of None \<Rightarrow> Inr None | Some d \<Rightarrow>
       if mqtt_identifiers d \<noteq> [identifier] \<or> json_text (di_model d) \<noteq> cd_model c
          \<or> json_text (di_manufacturer d) \<noteq> cd_manufacturer c \<or> di_name d \<noteq> Some (cd_name c) then Inr None
       else (case filter (\<lambda>e. ei_device e = Some (di_id d) \<and> ei_domain e = ''climate'' \<and> ei_platform e = ''mqtt''
               \<and> \<not> ei_disabled e) (ho_entities h) of
           [e] \<Rightarrow>
             let mqtt_id = cd_ieee c @ ''_climate_zigbee2mqtt'' in
             if ei_unique_id e \<noteq> mqtt_id \<or> \<not> meets_contract (map_of (ho_states h) (ei_entity_id e)) then Inr None
             else (case make_binding \<lparr>rb_registry_id = ei_id e, rb_climate_id = ei_entity_id e, rb_mqtt_id = mqtt_id,
                 rb_device_id = identifier, rb_ieee = cd_ieee c, rb_model = the (di_model d),
                 rb_manufacturer = (case di_manufacturer d of Some m \<Rightarrow> if m = [] then ''Unknown'' else m | None \<Rightarrow> ''Unknown''),
                 rb_name = cd_name c\<rparr> of Inl e \<Rightarrow> Inl e | Inr b \<Rightarrow> Inr (Some b))
         | _ \<Rightarrow> Inr None)))"

text \<open>\<open>_resolve_binding_entity_id\<close>; \<open>None\<close> is \<open>ReplacementError\<close>.\<close>

definition resolve_entity :: "home \<Rightarrow> room_binding \<Rightarrow> string option" where
  "resolve_entity h b = (case List.find (\<lambda>e. ei_id e = rb_registry_id b) (ho_entities h) of None \<Rightarrow> None
   | Some e \<Rightarrow>
     if ei_domain e \<noteq> ''climate'' \<or> ei_platform e \<noteq> ''mqtt'' \<or> ei_disabled e
        \<or> starts_with ''climate.true_family_'' (ei_entity_id e) \<or> ei_unique_id e \<noteq> rb_mqtt_id b then None
     else (case ei_device e of None \<Rightarrow> None | Some device \<Rightarrow>
       (case List.find (\<lambda>d. di_id d = device) (ho_devices h) of None \<Rightarrow> None | Some d \<Rightarrow>
         if mqtt_identifiers d \<noteq> [rb_device_id b] \<or> di_model d \<noteq> Some (rb_model b)
            \<or> di_manufacturer d \<noteq> Some (rb_manufacturer b) \<or> di_name d \<noteq> Some (rb_name b) then None
         else Some (ei_entity_id e))))"

definition binding_target :: "home \<Rightarrow> room_binding \<Rightarrow> py_float" where
  "binding_target h b = (case resolve_entity h b of None \<Rightarrow> ho_default_target h
   | Some e \<Rightarrow> (case map_of (ho_states h) e of None \<Rightarrow> ho_default_target h
     | Some st \<Rightarrow> (case attribute st ''temperature'' of None \<Rightarrow> ho_default_target h | Some t \<Rightarrow> t)))"

definition intended_target :: "home \<Rightarrow> room_binding option \<Rightarrow> py_float" where
  "intended_target h b = (case b of None \<Rightarrow> ho_default_target h | Some b \<Rightarrow> binding_target h b)"

section \<open>The runtime\<close>

text \<open>
  The tasks that test a valve: those of \<open>_async_test_and_commit\<close>, for a session, and of
  \<open>_async_test_and_rollback\<close>, with the revision and the bindings it was started for. A task waits for
  the lock of its room, tests the binding at a target, and then waits for the mutation lock.
\<close>

datatype operation =
    TestAndCommit string
  | TestAndRollback int room_binding room_binding

datatype test_result = Passed | Failed | Stopped

datatype stage =
    Queued
  | Testing room_binding string py_float py_float
  | Tested room_binding test_result

record task =
  tk_room :: string
  tk_operation :: operation
  tk_stage :: stage

type_synonym command = "string \<times> py_float"

record runtime =
  rt_rooms :: rooms
  rt_persisted :: "(string \<times> json) list"
  rt_sessions :: "(string, replacement_session) dict"
  rt_targets :: "(string, py_float) dict"
  rt_active :: "string option"
  rt_owner :: "string option"
  rt_tasks :: "(nat, task) dict"
  rt_operation :: "nat option"
  rt_next :: nat
  rt_commands :: "command list"
  rt_closing :: bool
  rt_started :: bool
  rt_needs_closure :: bool

text \<open>\<open>RBlocked\<close> is not an exception: the step waits for a lock or its task is in another stage.\<close>

datatype runtime_error = RReplacement | RSetupSafety | RBridge | RKeyError | RValue | RService | RCancelled | RBlocked

text \<open>A notice: the online and permit flags of the bridge state, if known, and the attributed transaction.\<close>

type_synonym notice = "(bool \<times> bool) option \<times> string option"

datatype interim = Notice notice | Unloading

datatype proof_result = Proved utc_time | Refused | Cancelled

text \<open>
  An answer of the bridge client: a join request with what happened while it was awaited and the
  time it was proved, its failure or the cancellation of the waiting task; or whether
  \<open>current_closed_baseline\<close> is not \<open>None\<close>.
\<close>

datatype answer = Call "interim list" proof_result | Baseline bool

type_synonym rt_state = "runtime \<times> answer list"

definition on_runtime :: "(runtime \<Rightarrow> runtime) \<Rightarrow> (rt_state, runtime_error, unit) action" where
  "on_runtime f = modify (\<lambda>(rt, script). (f rt, script))"

definition get_runtime :: "(rt_state, runtime_error, runtime) action" where
  "get_runtime = reads fst"

definition runtime_session :: "runtime \<Rightarrow> replacement_session option" where
  "runtime_session rt = (case rt_active rt of None \<Rightarrow> None | Some i \<Rightarrow> map_of (rt_sessions rt) i)"

definition store_session :: "replacement_session \<Rightarrow> runtime \<Rightarrow> runtime" where
  "store_session s rt = rt\<lparr>rt_sessions := dict_put (rt_sessions rt) (ss_id s) s\<rparr>"

text \<open>Sessions are shared objects: a change is a change of the stored session.\<close>

definition update_session :: "string \<Rightarrow> (replacement_session \<Rightarrow> replacement_session) \<Rightarrow> runtime \<Rightarrow> runtime" where
  "update_session i f rt = (case map_of (rt_sessions rt) i of None \<Rightarrow> rt
     | Some s \<Rightarrow> rt\<lparr>rt_sessions := dict_put (rt_sessions rt) i (f s)\<rparr>)"

definition set_terminal :: "string \<Rightarrow> replacement_phase \<Rightarrow> runtime \<Rightarrow> runtime" where
  "set_terminal i ph rt = (let rt = update_session i (\<lambda>s. s\<lparr>ss_phase := ph\<rparr>) rt in
     if rt_active rt = Some i then rt\<lparr>rt_active := None\<rparr> else rt)"

text \<open>\<open>_handle_bridge_permit_state\<close>.\<close>

definition handle_notice :: "notice \<Rightarrow> runtime \<Rightarrow> runtime" where
  "handle_notice n rt = (case n of (st, transaction) \<Rightarrow>
     if st = Some (True, True) \<and> transaction = rt_owner rt then rt
     else if (\<exists>p. st = Some (True, p) \<and> \<not> p) then rt
     else
       let rt = rt\<lparr>rt_needs_closure := True\<rparr>;
           session = (case runtime_session rt of
               None \<Rightarrow> (case rt_owner rt of None \<Rightarrow> None | Some i \<Rightarrow> map_of (rt_sessions rt) i)
             | Some s \<Rightarrow> Some s)
       in (case session of None \<Rightarrow> rt
           | Some s \<Rightarrow> if terminal_phase (ss_phase s) then rt
               else set_terminal (ss_id s) FAILED (update_session (ss_id s) (\<lambda>s. s\<lparr>ss_remediation := True\<rparr>) rt)))"

definition handle_interim :: "interim \<Rightarrow> runtime \<Rightarrow> runtime" where
  "handle_interim x rt = (case x of Notice n \<Rightarrow> handle_notice n rt | Unloading \<Rightarrow> rt\<lparr>rt_closing := True\<rparr>)"

definition handle_all :: "interim list \<Rightarrow> runtime \<Rightarrow> runtime" where
  "handle_all xs rt = foldl (\<lambda>rt x. handle_interim x rt) rt xs"

text \<open>The next answer of the bridge; without one, a call fails and there is no baseline.\<close>

definition bridge_call :: "(rt_state, runtime_error, utc_time) action" where
  "bridge_call st = (case st of (rt, script) \<Rightarrow> (case script of
      Call xs r # rest \<Rightarrow> (case r of Proved t \<Rightarrow> Inr t | Refused \<Rightarrow> Inl RBridge | Cancelled \<Rightarrow> Inl RCancelled,
        (handle_all xs rt, rest))
    | _ \<Rightarrow> (Inl RBridge, (rt, script))))"

text \<open>\<open>except Exception\<close>, which lets a cancellation pass.\<close>

definition catching :: "(rt_state, runtime_error, 'a) action \<Rightarrow> (rt_state, runtime_error, 'a) action \<Rightarrow> (rt_state, runtime_error, 'a) action" where
  "catching m h = handle m (\<lambda>e. if e = RCancelled then throw e else h)"

definition closed_baseline :: "(rt_state, runtime_error, bool) action" where
  "closed_baseline st = (case st of (rt, script) \<Rightarrow> (case script of
      Baseline b # rest \<Rightarrow> (Inr b, (rt, rest)) | _ \<Rightarrow> (Inr False, (rt, script))))"

section \<open>Closing the join window\<close>

text \<open>\<open>_mark_global_join_closed\<close>.\<close>

definition mark_join_closed :: "utc_time \<Rightarrow> runtime \<Rightarrow> runtime" where
  "mark_join_closed t rt = rt\<lparr>
     rt_sessions := map (\<lambda>(i, s). (i, if ss_join_closed s then s
        else s\<lparr>ss_join_closed_at := Some t, ss_join_closed := True\<rparr>)) (rt_sessions rt),
     rt_owner := None, rt_needs_closure := False\<rparr>"

definition reconcile_closed :: "(rt_state, runtime_error, utc_time) action" where
  "reconcile_closed = andthen bridge_call (\<lambda>t. andthen (on_runtime (mark_join_closed t)) (\<lambda>_. ret t))"

definition require_closure :: "(rt_state, runtime_error, 'a) action \<Rightarrow> (rt_state, runtime_error, 'a) action" where
  "require_closure m = catching m (andthen (on_runtime (\<lambda>rt. rt\<lparr>rt_needs_closure := True\<rparr>)) (\<lambda>_. throw RReplacement))"

definition reconcile_if_required :: "(rt_state, runtime_error, unit) action" where
  "reconcile_if_required = andthen get_runtime (\<lambda>rt.
     if \<not> rt_needs_closure rt then ret ()
     else require_closure (andthen reconcile_closed (\<lambda>_. ret ())))"

definition prepare_baseline :: "(rt_state, runtime_error, unit) action" where
  "prepare_baseline = andthen reconcile_if_required (\<lambda>_.
     andthen closed_baseline (\<lambda>b.
     andthen (if b then ret () else require_closure (andthen reconcile_closed (\<lambda>_. ret ()))) (\<lambda>_.
     andthen closed_baseline (\<lambda>b. check b RReplacement))))"

definition the_session :: "string \<Rightarrow> (rt_state, runtime_error, replacement_session) action" where
  "the_session i = andthen get_runtime (\<lambda>rt. case map_of (rt_sessions rt) i of
     None \<Rightarrow> throw RReplacement | Some s \<Rightarrow> ret s)"

text \<open>The test shared by \<open>_async_attempt_close\<close> and \<open>_async_close_join_confirmed\<close>.\<close>

definition already_closed :: "string \<Rightarrow> (rt_state, runtime_error, bool) action" where
  "already_closed i = andthen get_runtime (\<lambda>rt. case map_of (rt_sessions rt) i of None \<Rightarrow> ret False
     | Some s \<Rightarrow> if ss_join_closed s \<and> \<not> rt_needs_closure rt then closed_baseline else ret False)"

definition close_confirmed :: "string \<Rightarrow> (rt_state, runtime_error, unit) action" where
  "close_confirmed i = andthen (already_closed i) (\<lambda>closed.
     if closed then ret () else andthen reconcile_closed (\<lambda>_. ret ()))"

definition attempt_close :: "string \<Rightarrow> bool \<Rightarrow> (rt_state, runtime_error, bool) action" where
  "attempt_close i force = andthen (already_closed i) (\<lambda>closed.
     if closed then ret True
     else andthen (the_session i) (\<lambda>s.
       if \<not> ss_join_acknowledged s \<and> \<not> force then ret (ss_join_closed s)
       else catching (andthen (close_confirmed i) (\<lambda>_. ret True))
         (andthen (on_runtime (\<lambda>rt. rt\<lparr>rt_needs_closure := True\<rparr>)) (\<lambda>_. ret False))))"

text \<open>\<open>_async_fail\<close>; the flag is \<open>requires_remediation\<close>, which most callers set first.\<close>

definition async_fail :: "string \<Rightarrow> bool \<Rightarrow> (rt_state, runtime_error, unit) action" where
  "async_fail i remediation =
     andthen (if remediation then on_runtime (update_session i (\<lambda>s. s\<lparr>ss_remediation := True\<rparr>)) else ret ()) (\<lambda>_.
     andthen (attempt_close i False) (\<lambda>_. on_runtime (set_terminal i FAILED)))"

section \<open>Which valve belongs to which room\<close>

text \<open>\<open>_identity_reserved\<close>: the loop over the rooms stops at the selected room's own valve.\<close>

fun identity_reserved :: "rooms \<Rightarrow> string \<Rightarrow> string \<Rightarrow> bool \<Rightarrow> bool" where
  "identity_reserved [] ieee selected allow = False"
| "identity_reserved ((i, r) # rest) ieee selected allow =
     (if allow \<and> rs_room_id r = selected \<and> (case rs_binding r of None \<Rightarrow> False | Some b \<Rightarrow> rb_ieee b = ieee) then False
      else list_ex (\<lambda>b. rb_ieee b = ieee) (slot_bindings r) \<or> identity_reserved rest ieee selected allow)"

text \<open>\<open>_assert_binding_available\<close>.\<close>

definition binding_available :: "rooms \<Rightarrow> room_binding \<Rightarrow> string \<Rightarrow> bool" where
  "binding_available rooms b room = list_all (\<lambda>(_, r). rs_room_id r = room
     \<or> list_all (\<lambda>a. rb_registry_id a \<noteq> rb_registry_id b \<and> rb_ieee a \<noteq> rb_ieee b) (slot_bindings r)) rooms"

text \<open>\<open>_validate_plan\<close>.\<close>

definition plan_valid :: "room_slot_state \<Rightarrow> replacement_session \<Rightarrow> bool" where
  "plan_valid r s \<longleftrightarrow> rs_revision r = ss_expected_revision s \<and> rs_binding r = ss_old_binding s"

definition operation_running :: "runtime \<Rightarrow> bool" where
  "operation_running rt = (case rt_operation rt of None \<Rightarrow> False | Some n \<Rightarrow> map_of (rt_tasks rt) n \<noteq> None)"

definition ensure_open :: "(rt_state, runtime_error, unit) action" where
  "ensure_open = andthen get_runtime (\<lambda>rt. check (rt_started rt \<and> \<not> rt_closing rt) RReplacement)"

definition the_room :: "string \<Rightarrow> runtime_error \<Rightarrow> (rt_state, runtime_error, room_slot_state) action" where
  "the_room i e = andthen get_runtime (\<lambda>rt. case map_of (rt_rooms rt) i of None \<Rightarrow> throw e | Some r \<Rightarrow> ret r)"

section \<open>Start and stop\<close>

text \<open>\<open>async_setup\<close>, after the subscriptions are installed.\<close>

definition setup_runtime :: "(rt_state, runtime_error, unit) action" where
  "setup_runtime = catching (andthen reconcile_closed (\<lambda>_. on_runtime (\<lambda>rt. rt\<lparr>rt_started := True\<rparr>))) (throw RSetupSafety)"

text \<open>\<open>async_shutdown\<close>: its start, and the closing of the window after the tasks were cancelled.\<close>

definition begin_unload :: "(rt_state, runtime_error, unit) action" where
  "begin_unload = on_runtime (\<lambda>rt. rt\<lparr>rt_closing := True\<rparr>)"

definition finish_unload :: "bool \<Rightarrow> (rt_state, runtime_error, unit) action" where
  "finish_unload coverage = andthen get_runtime (\<lambda>rt.
     if \<not> rt_closing rt then throw RBlocked
     else if \<not> rt_started rt then ret ()
     else if \<not> coverage then andthen (on_runtime (\<lambda>rt. rt\<lparr>rt_needs_closure := True\<rparr>)) (\<lambda>_. throw RReplacement)
     else require_closure (andthen reconcile_closed (\<lambda>_. ret ())))"

section \<open>Pairing\<close>

text \<open>\<open>_async_start_pairing\<close>, with the new session's identifier and its start.\<close>

definition opening_refused :: "string \<Rightarrow> (rt_state, runtime_error, unit) action" where
  "opening_refused i = andthen (attempt_close i True) (\<lambda>_.
     andthen (on_runtime (set_terminal i FAILED)) (\<lambda>_. throw RReplacement))"

definition start_pairing :: "string \<Rightarrow> string \<Rightarrow> string \<Rightarrow> utc_time \<Rightarrow> (rt_state, runtime_error, unit) action" where
  "start_pairing room_id operation i now =
     andthen ensure_open (\<lambda>_.
     andthen get_runtime (\<lambda>rt.
     andthen (check (runtime_session rt = None \<and> \<not> operation_running rt) RReplacement) (\<lambda>_.
     andthen (if rt_owner rt \<noteq> None \<and> rt_needs_closure rt then reconcile_if_required else ret ()) (\<lambda>_.
     andthen get_runtime (\<lambda>rt.
     andthen (check (rt_owner rt = None) RReplacement) (\<lambda>_.
     andthen (the_room room_id RReplacement) (\<lambda>room.
     andthen (check (operation = ''replace'' \<or> operation = ''repair'') RReplacement) (\<lambda>_.
     andthen (check (\<not> (operation = ''repair'' \<and> rs_binding room = None)) RReplacement) (\<lambda>_.
     andthen (catching prepare_baseline (throw RReplacement)) (\<lambda>_.
     andthen (on_runtime (\<lambda>rt. (store_session (new_session i room operation now) rt)\<lparr>rt_active := Some i, rt_owner := Some i\<rparr>)) (\<lambda>_.
     andthen (catching (andthen bridge_call (\<lambda>t. ret (Some t))) (andthen (opening_refused i) (\<lambda>_. ret None))) (\<lambda>opened.
     andthen get_runtime (\<lambda>rt.
     andthen (the_session i) (\<lambda>s.
       if rt_needs_closure rt \<or> ss_phase s = FAILED then opening_refused i
       else if rt_closing rt then opening_refused i
       else on_runtime (update_session i (\<lambda>s. s\<lparr>ss_join_acknowledged := True, ss_join_opened_at := opened\<rparr>))))))))))))))))"

text \<open>A bridge event, as \<open>parse_bridge_event\<close> leaves it.\<close>

record mqtt_event =
  be_type :: string
  be_ieee :: string
  be_name :: string
  be_status :: json
  be_supported :: json
  be_model :: json
  be_manufacturer :: json
  be_received :: "utc_time option"

definition ieee_of :: "room_binding option \<Rightarrow> string option" where
  "ieee_of b = map_option rb_ieee b"

definition device_joined :: "string \<Rightarrow> mqtt_event \<Rightarrow> (rt_state, runtime_error, unit) action" where
  "device_joined i ev =
     andthen (on_runtime (update_session i (\<lambda>s. s\<lparr>ss_joined := List.insert (be_ieee ev) (ss_joined s)\<rparr>))) (\<lambda>_.
     andthen (the_session i) (\<lambda>s.
     andthen get_runtime (\<lambda>rt.
       if map_option cd_ieee (ss_candidate s) = Some (be_ieee ev) then ret ()
       else if ss_operation s = ''repair'' \<and> ieee_of (ss_old_binding s) \<noteq> Some (be_ieee ev) then async_fail i True
       else if identity_reserved (rt_rooms rt) (be_ieee ev) (ss_room s) (ss_operation s = ''repair'') then async_fail i True
       else if ss_candidate s \<noteq> None then async_fail i True
       else (case make_candidate \<lparr>cd_ieee = be_ieee ev, cd_name = be_name ev, cd_model = JNull, cd_manufacturer = JNull,
                 cd_supported = JNull\<rparr> of
           Inl _ \<Rightarrow> async_fail i True
         | Inr c \<Rightarrow> on_runtime (update_session i (\<lambda>s. s\<lparr>ss_candidate := Some c, ss_phase := INTERVIEWING\<rparr>))))))"

text \<open>Closing the window before the phase advances; a failure of the closure fails the session.\<close>

definition close_then :: "string \<Rightarrow> replacement_phase \<Rightarrow> (rt_state, runtime_error, unit) action" where
  "close_then i ph = andthen (catching (andthen (close_confirmed i) (\<lambda>_. ret True))
       (andthen (async_fail i False) (\<lambda>_. ret False))) (\<lambda>closed.
     if closed then on_runtime (update_session i (\<lambda>s. s\<lparr>ss_phase := ph\<rparr>)) else ret ())"

definition device_announced :: "string \<Rightarrow> mqtt_event \<Rightarrow> (rt_state, runtime_error, unit) action" where
  "device_announced i ev =
     andthen (the_session i) (\<lambda>s.
     andthen (the_room (ss_room s) RKeyError) (\<lambda>room.
     (case rs_binding room of
        None \<Rightarrow> ret ()
      | Some current \<Rightarrow>
          if ss_phase s \<notin> {AWAITING_PAIRING, INTERVIEWING} \<or> rb_ieee current \<noteq> be_ieee ev \<or> ss_operation s \<noteq> ''repair'' then ret ()
          else (case make_candidate \<lparr>cd_ieee = rb_ieee current, cd_name = rb_name current, cd_model = JStr (rb_model current),
                    cd_manufacturer = JStr (rb_manufacturer current), cd_supported = JBool True\<rparr> of
              Inl _ \<Rightarrow> throw RValue
            | Inr c \<Rightarrow> andthen (on_runtime (update_session i (\<lambda>s. s\<lparr>ss_candidate := Some c, ss_candidate_binding := Some current\<rparr>)))
                (\<lambda>_. close_then i READY_TO_COMMIT)))))"

definition text_in :: "json \<Rightarrow> string list \<Rightarrow> bool" where
  "text_in v ss = (case v of JStr s \<Rightarrow> s \<in> set ss | _ \<Rightarrow> False)"

definition device_interviewed :: "string \<Rightarrow> mqtt_event \<Rightarrow> (rt_state, runtime_error, unit) action" where
  "device_interviewed i ev =
     andthen (the_session i) (\<lambda>s.
     andthen (the_room (ss_room s) RKeyError) (\<lambda>room.
       if ss_phase s \<notin> {AWAITING_PAIRING, INTERVIEWING} then ret ()
       else if be_type ev \<noteq> ''device_interview'' \<or> map_option cd_ieee (ss_candidate s) \<noteq> Some (be_ieee ev) then ret ()
       else if be_status ev = JStr ''started'' then ret ()
       else if be_status ev \<noteq> JStr ''successful'' then async_fail i True
       else (case make_candidate \<lparr>cd_ieee = be_ieee ev, cd_name = be_name ev, cd_model = be_model ev,
                 cd_manufacturer = be_manufacturer ev, cd_supported = be_supported ev\<rparr> of
           Inl _ \<Rightarrow> throw RValue
         | Inr c \<Rightarrow> andthen (on_runtime (update_session i (\<lambda>s. s\<lparr>ss_candidate := Some c\<rparr>))) (\<lambda>_.
             if be_supported ev \<noteq> JBool True then async_fail i True
             else if \<not> text_in (be_model ev) (rs_models room) then async_fail i True
             else if \<not> text_in (be_manufacturer ev) (rs_manufacturers room) then async_fail i True
             else close_then i VERIFYING))))"

text \<open>\<open>async_handle_bridge_event\<close>, its locked section.\<close>

definition async_handle_bridge_event :: "mqtt_event \<Rightarrow> utc_time \<Rightarrow> (rt_state, runtime_error, unit) action" where
  "async_handle_bridge_event ev now = andthen get_runtime (\<lambda>rt.
     if rt_closing rt then ret ()
     else andthen (catching (andthen reconcile_if_required (\<lambda>_. ret True)) (ret False)) (\<lambda>safe.
     if \<not> safe then ret ()
     else andthen get_runtime (\<lambda>rt. case runtime_session rt of
         None \<Rightarrow> ret ()
       | Some s \<Rightarrow> (case (ss_join_opened_at s, be_received ev) of
           (Some opened, Some received) \<Rightarrow>
             if \<not> ss_join_acknowledged s \<or> received < opened then ret ()
             else if (case ss_join_closed_at s of None \<Rightarrow> False | Some t \<Rightarrow> received > t) then ret ()
             else if now \<ge> ss_deadline s then async_fail (ss_id s) False
             else if be_type ev = ''device_joined'' then device_joined (ss_id s) ev
             else if be_type ev = ''device_announce'' then device_announced (ss_id s) ev
             else device_interviewed (ss_id s) ev
         | _ \<Rightarrow> ret ()))))"

text \<open>One round of \<open>_async_wait_for_candidate_binding\<close>, and its end after the last round.\<close>

definition discover :: "string \<Rightarrow> home \<Rightarrow> (rt_state, runtime_error, unit) action" where
  "discover i h = andthen get_runtime (\<lambda>rt.
     if rt_closing rt then ret ()
     else (case map_of (rt_sessions rt) i of None \<Rightarrow> ret () | Some s \<Rightarrow>
       if ss_phase s \<noteq> VERIFYING then ret ()
       else (case resolve_candidate h s of
           Inl _ \<Rightarrow> throw RValue
         | Inr None \<Rightarrow> ret ()
         | Inr (Some b) \<Rightarrow>
             if \<not> binding_available (rt_rooms rt) b (ss_room s) then async_fail i False
             else on_runtime (update_session i (\<lambda>s. s\<lparr>ss_candidate_binding := Some b, ss_phase := READY_TO_COMMIT\<rparr>)))))"

definition discovery_timeout :: "string \<Rightarrow> (rt_state, runtime_error, unit) action" where
  "discovery_timeout i = andthen get_runtime (\<lambda>rt. case map_of (rt_sessions rt) i of None \<Rightarrow> ret () | Some s \<Rightarrow>
     if ss_phase s = VERIFYING then async_fail i True else ret ())"

definition pairing_timeout :: "string \<Rightarrow> (rt_state, runtime_error, unit) action" where
  "pairing_timeout i = andthen get_runtime (\<lambda>rt. case map_of (rt_sessions rt) i of None \<Rightarrow> ret () | Some s \<Rightarrow>
     if ss_phase s \<in> {AWAITING_PAIRING, INTERVIEWING} then async_fail i False else ret ())"

text \<open>\<open>_async_cancel\<close>.\<close>

definition cancel_session :: "string \<Rightarrow> (rt_state, runtime_error, unit) action" where
  "cancel_session i = andthen reconcile_if_required (\<lambda>_.
     andthen (the_session i) (\<lambda>s.
     andthen (check (ss_phase s \<notin> {TESTING, COMPLETE, FAILED, CANCELLED, ROLLED_BACK}) RReplacement) (\<lambda>_.
     andthen (attempt_close i False) (\<lambda>closed.
     andthen (the_session i) (\<lambda>s.
       on_runtime (set_terminal i (if \<not> closed \<and> ss_join_acknowledged s then FAILED else CANCELLED)))))))"

end
