(* ===== verification/Mqtt_Client.thy ===== *)
theory Mqtt_Client
  imports Replacement_Runtime
begin

text \<open>
  \<open>mqtt.py\<close>: the messages of the Zigbee2MQTT bridge and the client that proves whether joining is
  open. A payload is what \<open>json.loads\<close> makes of it, \<open>None\<close> where it fails; \<open>retain\<close> is \<open>None\<close> where the
  message does not carry a \<open>bool\<close>. A handler returns the client and the notices it gives to the
  permit-state handler. Times are microseconds, of the wall clock and of the loop's own clock.
\<close>

section \<open>Messages\<close>

datatype mqtt_error = MqttValueError | BridgeEventError | MqttTypeError

definition base_topic_char :: "char \<Rightarrow> bool" where
  "base_topic_char c \<longleftrightarrow> (let n = char_code c in 32 \<le> n \<and> \<not> (127 \<le> n \<and> n \<le> 159))"

definition strip_slashes :: "string \<Rightarrow> string" where
  "strip_slashes s = rev (dropWhile (\<lambda>c. c = CHR ''/'') (rev (dropWhile (\<lambda>c. c = CHR ''/'') s)))"

definition encoded_length :: "string \<Rightarrow> nat" where
  "encoded_length s = sum_list (map (\<lambda>c. if char_code c < 128 then 1 else 2) s)"

definition validate_base_topic :: "json \<Rightarrow> mqtt_error + string" where
  "validate_base_topic v = (case v of
     JStr s \<Rightarrow> (let topic = strip_slashes (py_strip s) in
       if topic = [] \<or> encoded_length topic + length ''/bridge/response/permit_join'' > 65535 then Inl MqttValueError
       else if CHR ''+'' \<in> set topic \<or> CHR ''#'' \<in> set topic then Inl MqttValueError
       else if \<not> list_all base_topic_char topic then Inl MqttValueError
       else Inr topic)
   | _ \<Rightarrow> Inl MqttValueError)"

text \<open>\<open>_decode_object\<close>; the members of an object are distinct.\<close>

definition decode_object :: "json option \<Rightarrow> mqtt_error + (string \<times> json) list" where
  "decode_object payload = (case payload of Some (JObj kvs) \<Rightarrow> Inr kvs | _ \<Rightarrow> Inl BridgeEventError)"

definition lower_char :: "char \<Rightarrow> char" where
  "lower_char c = (let n = char_code c in if 65 \<le> n \<and> n \<le> 90 then char_of (n + 32) else c)"

text \<open>\<open>str.lower\<close> on what can still match the pattern; other characters are kept, and refused.\<close>

definition lower_text :: "string \<Rightarrow> string" where
  "lower_text s = map lower_char s"

text \<open>
  \<open>parse_bridge_event\<close>, with the time of receipt \<open>bridge_event_received\<close> adds. An event type that
  cannot be hashed makes the set membership test raise \<open>TypeError\<close>.
\<close>

definition parse_mqtt_event :: "json option \<Rightarrow> utc_time \<Rightarrow> mqtt_error + mqtt_event" where
  "parse_mqtt_event payload now = (case decode_object payload of Inl e \<Rightarrow> Inl e | Inr decoded \<Rightarrow>
     (case obj_get decoded ''type'' JNull of
        JArr _ \<Rightarrow> Inl MqttTypeError
      | JObj _ \<Rightarrow> Inl MqttTypeError
      | JStr kind \<Rightarrow>
          if kind \<notin> {''device_joined'', ''device_interview'', ''device_announce''} then Inl BridgeEventError
          else (case obj_get decoded ''data'' JNull of
            JObj data \<Rightarrow>
              let address = obj_get data ''ieee_address'' JNull in
              (case (address, obj_get data ''friendly_name'' address) of
                 (JStr ieee, name) \<Rightarrow>
                   if \<not> ieee_ok (lower_text ieee) then Inl BridgeEventError
                   else (case name of
                      JStr n \<Rightarrow>
                        if n = [] then Inl BridgeEventError
                        else let definition = obj_get data ''definition'' JNull;
                                 make = (\<lambda>model vendor. Inr \<lparr>be_type = kind, be_ieee = lower_text ieee, be_name = n,
                                   be_status = obj_get data ''status'' JNull, be_supported = obj_get data ''supported'' JNull,
                                   be_model = model, be_manufacturer = vendor, be_received = Some now\<rparr>) in
                          if \<not> json_truthy definition then make JNull JNull
                          else (case definition of
                             JObj d \<Rightarrow> make (obj_get d ''model'' JNull) (obj_get d ''vendor'' JNull)
                           | _ \<Rightarrow> Inl BridgeEventError)
                    | _ \<Rightarrow> Inl BridgeEventError)
               | _ \<Rightarrow> Inl BridgeEventError)
          | _ \<Rightarrow> Inl BridgeEventError)
      | _ \<Rightarrow> Inl BridgeEventError))"

definition parse_bridge_state :: "json option \<Rightarrow> mqtt_error + bool" where
  "parse_bridge_state payload = (case decode_object payload of Inl e \<Rightarrow> Inl e | Inr decoded \<Rightarrow>
     if set (map fst decoded) \<noteq> {''state''} then Inl BridgeEventError
     else (case obj_get decoded ''state'' JNull of
        JStr s \<Rightarrow> if s = ''online'' then Inr True else if s = ''offline'' then Inr False else Inl BridgeEventError
      | _ \<Rightarrow> Inl BridgeEventError))"

text \<open>What \<open>parse_bridge_info\<close> reads: the permit flag and the end of the window, at a time.\<close>

definition seconds :: "int \<Rightarrow> int" where
  "seconds n = n * 1000000"

definition permit_end :: "int \<Rightarrow> utc_time option" where
  "permit_end raw =
     (if 0 \<le> raw \<and> raw \<le> 253402300799 then Some (raw * 1000000)
      else if 1000000000000 \<le> raw \<and> raw \<le> 253402300799 * 1000 + 999 then Some (raw * 1000)
      else None)"

definition parse_bridge_info :: "json option \<Rightarrow> utc_time \<Rightarrow> mqtt_error + bool \<times> utc_time option" where
  "parse_bridge_info payload observed = (case decode_object payload of Inl e \<Rightarrow> Inl e | Inr decoded \<Rightarrow>
     (case obj_get decoded ''permit_join'' JNull of
        JBool permit \<Rightarrow>
          (case map_of decoded ''permit_join_end'' of
             None \<Rightarrow> Inr (permit, None)
           | Some (JInt raw) \<Rightarrow>
               if \<not> permit then Inl BridgeEventError
               else (case permit_end raw of None \<Rightarrow> Inl BridgeEventError | Some t \<Rightarrow>
                 if - seconds 5 \<le> t - observed \<and> t - observed \<le> seconds (254 + 5) then Inr (permit, Some t)
                 else Inl BridgeEventError)
           | Some _ \<Rightarrow> Inl BridgeEventError)
      | _ \<Rightarrow> Inl BridgeEventError))"

definition transaction_char :: "char \<Rightarrow> bool" where
  "transaction_char c \<longleftrightarrow> c \<in> set ''ABCDEFGHIJKLMNOPQRSTUVWXYZabcdefghijklmnopqrstuvwxyz0123456789._:-''"

definition transaction_ok :: "string \<Rightarrow> bool" where
  "transaction_ok t \<longleftrightarrow> 1 \<le> length t \<and> length t \<le> 128 \<and> list_all transaction_char t"

section \<open>The client\<close>

record permit_state =
  ps_online :: bool
  ps_online_generation :: int
  ps_generation :: int
  ps_observed :: utc_time
  ps_permit :: bool
  ps_end :: "utc_time option"
  ps_retained :: bool
  ps_initial :: bool

datatype acknowledgement = Waiting | Acked utc_time | Rejected

text \<open>
  The request in flight: the coroutine of \<open>async_reconcile_join_closed\<close> or \<open>async_open_join\<close>, by the
  wait it is in, with its transaction, the generation of its request and its acknowledgement.
\<close>

datatype client_call =
    NoCall
  | CloseWaitOnline string
  | CloseWaitAck string int
  | CloseWaitProof string int
  | OpenWaitAck string int
  | OpenWaitProof string int utc_time

record client =
  cl_roles :: "string list"
  cl_pending :: "(string, int \<times> acknowledgement) dict"
  cl_subscribed :: bool
  cl_generation :: int
  cl_setup_generation :: int
  cl_unsafe_generation :: int
  cl_unattributed_generation :: int
  cl_online :: "bool option"
  cl_online_generation :: int
  cl_state_invalid :: bool
  cl_permit :: "bool option"
  cl_permit_end :: "utc_time option"
  cl_retained :: bool
  cl_initial_retained :: bool
  cl_info_seen :: bool
  cl_permit_generation :: int
  cl_permit_observed :: "utc_time option"
  cl_permit_mono :: "int option"
  cl_closed_proof :: int
  cl_active_close :: "int option"
  cl_open_transaction :: "string option"
  cl_open_request :: int
  cl_open_started :: "utc_time option"
  cl_open_started_mono :: int
  cl_open_acknowledged :: bool
  cl_open_acknowledged_at :: "utc_time option"
  cl_open_expected_end :: "utc_time option"
  cl_open_attribution_deadline :: int
  cl_open_window_deadline :: int
  cl_open_info_generation :: int
  cl_open_provisional :: "permit_state option"
  cl_call :: client_call

record clocks =
  ck_now :: utc_time
  ck_mono :: int

definition clear_open_attribution :: "client \<Rightarrow> client" where
  "clear_open_attribution c = c\<lparr>cl_open_transaction := None, cl_open_request := 0, cl_open_started := None,
     cl_open_started_mono := 0, cl_open_acknowledged := False, cl_open_acknowledged_at := None,
     cl_open_expected_end := None, cl_open_attribution_deadline := 0, cl_open_window_deadline := 0,
     cl_open_info_generation := 0, cl_open_provisional := None\<rparr>"

definition reset_observations :: "client \<Rightarrow> client" where
  "reset_observations c = clear_open_attribution (c\<lparr>cl_generation := 0, cl_setup_generation := 0, cl_unsafe_generation := 0,
     cl_unattributed_generation := 0, cl_online := None, cl_online_generation := 0, cl_state_invalid := False,
     cl_permit := None, cl_permit_end := None, cl_retained := False, cl_initial_retained := False, cl_info_seen := False,
     cl_permit_generation := 0, cl_permit_observed := None, cl_permit_mono := None, cl_closed_proof := 0,
     cl_active_close := None\<rparr>)"

definition new_client :: client where
  "new_client = \<lparr>cl_roles = [], cl_pending = [], cl_subscribed = False, cl_generation = 0, cl_setup_generation = 0,
     cl_unsafe_generation = 0, cl_unattributed_generation = 0, cl_online = None, cl_online_generation = 0,
     cl_state_invalid = False, cl_permit = None, cl_permit_end = None, cl_retained = False, cl_initial_retained = False,
     cl_info_seen = False, cl_permit_generation = 0, cl_permit_observed = None, cl_permit_mono = None, cl_closed_proof = 0,
     cl_active_close = None, cl_open_transaction = None, cl_open_request = 0, cl_open_started = None,
     cl_open_started_mono = 0, cl_open_acknowledged = False, cl_open_acknowledged_at = None, cl_open_expected_end = None,
     cl_open_attribution_deadline = 0, cl_open_window_deadline = 0, cl_open_info_generation = 0,
     cl_open_provisional = None, cl_call = NoCall\<rparr>"

definition mark_unsafe :: "int \<Rightarrow> client \<Rightarrow> client" where
  "mark_unsafe g c = clear_open_attribution (c\<lparr>cl_unsafe_generation := g, cl_closed_proof := 0\<rparr>)"

definition safety_coverage :: "client \<Rightarrow> bool" where
  "safety_coverage c \<longleftrightarrow> cl_subscribed c \<and> {''state'', ''info'', ''response''} \<subseteq> set (cl_roles c)"

text \<open>\<open>_current_permit_state\<close>.\<close>

definition current_permit :: "client \<Rightarrow> permit_state option" where
  "current_permit c = (case (cl_online c, cl_permit c, cl_permit_observed c) of
     (Some online, Some permit, Some observed) \<Rightarrow> Some \<lparr>ps_online = online, ps_online_generation = cl_online_generation c,
       ps_generation = cl_permit_generation c, ps_observed = observed, ps_permit = permit, ps_end = cl_permit_end c,
       ps_retained = cl_retained c, ps_initial = cl_initial_retained c\<rparr>
   | _ \<Rightarrow> None)"

definition current_closed_baseline :: "int \<Rightarrow> client \<Rightarrow> permit_state option" where
  "current_closed_baseline tick c =
     (if \<not> safety_coverage c \<or> cl_closed_proof c \<le> cl_setup_generation c then None
      else (case (current_permit c, cl_permit_mono c) of
        (Some st, Some observed) \<Rightarrow>
          if \<not> ps_online st \<or> ps_permit st \<or> ps_retained st \<or> ps_generation st < cl_closed_proof c
             \<or> tick - observed > seconds 15 then None
          else Some st
      | _ \<Rightarrow> None))"

section \<open>Whose window is open\<close>

definition notify :: "permit_state option \<Rightarrow> string option \<Rightarrow> notice" where
  "notify st transaction = (map_option (\<lambda>s. (ps_online s, ps_permit s)) st, transaction)"

definition reject_open_state :: "permit_state \<Rightarrow> client \<Rightarrow> client \<times> notice list" where
  "reject_open_state st c = (c\<lparr>cl_unattributed_generation := max (cl_unattributed_generation c) (ps_generation st),
     cl_open_provisional := None\<rparr>, [notify None None])"

definition provisional_candidate :: "int \<Rightarrow> permit_state \<Rightarrow> client \<Rightarrow> bool" where
  "provisional_candidate tick st c \<longleftrightarrow> (case cl_open_started c of None \<Rightarrow> False | Some started \<Rightarrow>
     ps_generation st > cl_open_request c \<and> \<not> ps_retained st \<and> ps_observed st \<ge> started
     \<and> tick \<le> cl_open_attribution_deadline c \<and> tick \<le> cl_open_window_deadline c)"

definition valid_candidate :: "int \<Rightarrow> permit_state \<Rightarrow> client \<Rightarrow> bool" where
  "valid_candidate tick st c \<longleftrightarrow> provisional_candidate tick st c
     \<and> (case (cl_open_expected_end c, ps_end st) of
          (Some expected, Some t) \<Rightarrow> \<bar>t - expected\<bar> \<le> seconds 5 | _ \<Rightarrow> False)"

text \<open>\<open>_classify_open_state\<close> with \<open>_notify_classified_permit_state\<close>.\<close>

definition notify_classified :: "int \<Rightarrow> permit_state option \<Rightarrow> client \<Rightarrow> client \<times> notice list" where
  "notify_classified tick st c = (case st of None \<Rightarrow> (c, [notify None None]) | Some s \<Rightarrow>
     if \<not> ps_online s \<or> \<not> ps_permit s then
       (case cl_open_provisional c of
          Some provisional \<Rightarrow> if ps_generation s > ps_generation provisional then reject_open_state s c else (c, [notify st None])
        | None \<Rightarrow> (c, [notify st None]))
     else (case cl_open_transaction c of
        None \<Rightarrow> (c\<lparr>cl_unattributed_generation := max (cl_unattributed_generation c) (ps_generation s)\<rparr>, [notify st None])
      | Some transaction \<Rightarrow>
          if \<not> cl_open_acknowledged c then
            if \<not> provisional_candidate tick s c then reject_open_state s c
            else (case cl_open_provisional c of
               None \<Rightarrow> (c\<lparr>cl_open_provisional := Some s\<rparr>, [])
             | Some provisional \<Rightarrow>
                 if ps_generation provisional = ps_generation s then (c, []) else reject_open_state s c)
          else if \<not> valid_candidate tick s c then reject_open_state s c
          else (c\<lparr>cl_open_info_generation := ps_generation s\<rparr>, [notify st (Some transaction)])))"

definition commit_provisional_open :: "int \<Rightarrow> string \<Rightarrow> client \<Rightarrow> client \<times> notice list" where
  "commit_provisional_open tick transaction c = (case cl_open_provisional c of None \<Rightarrow> (c, []) | Some s \<Rightarrow>
     let c = c\<lparr>cl_open_provisional := None\<rparr> in
     if cl_open_transaction c \<noteq> Some transaction \<or> \<not> valid_candidate tick s c then reject_open_state s c
     else (c\<lparr>cl_open_info_generation := ps_generation s\<rparr>, [notify (Some s) (Some transaction)]))"

text \<open>\<open>_reject_provisional_open\<close>, which may also fail the open requests in flight.\<close>

definition fail_open_requests :: "(string, int \<times> acknowledgement) dict \<Rightarrow> (string, int \<times> acknowledgement) dict" where
  "fail_open_requests d = map (\<lambda>(t, (n, a)). (t, (n, if n > 0 \<and> a = Waiting then Rejected else a))) d"

definition reject_provisional_open :: "bool \<Rightarrow> client \<Rightarrow> client \<times> notice list" where
  "reject_provisional_open fail_pending c = (case cl_open_provisional c of None \<Rightarrow> (c, []) | Some s \<Rightarrow>
     (case reject_open_state s c of (c, ns) \<Rightarrow>
       (if fail_pending then c\<lparr>cl_pending := fail_open_requests (cl_pending c)\<rparr> else c, ns)))"

section \<open>Received messages\<close>

definition state_received :: "clocks \<Rightarrow> bool option \<Rightarrow> json option \<Rightarrow> client \<Rightarrow> client \<times> notice list" where
  "state_received ck retain payload c =
     (let g = cl_generation c + 1; c = c\<lparr>cl_generation := g\<rparr> in
      case (retain, parse_bridge_state payload) of
        (Some _, Inr online) \<Rightarrow>
          let was_online = (cl_online c = Some True);
              c = c\<lparr>cl_online := Some online, cl_online_generation := g, cl_state_invalid := False\<rparr> in
          if online \<and> was_online then (mark_unsafe g c, [notify None None])
          else let c = (if online then c else mark_unsafe g c) in notify_classified (ck_mono ck) (current_permit c) c
      | _ \<Rightarrow> (mark_unsafe g (c\<lparr>cl_online := None, cl_state_invalid := True\<rparr>), [notify None None]))"

definition info_received :: "clocks \<Rightarrow> bool option \<Rightarrow> json option \<Rightarrow> client \<Rightarrow> client \<times> notice list" where
  "info_received ck retain payload c =
     (let g = cl_generation c + 1; c = c\<lparr>cl_generation := g\<rparr> in
      case (retain, parse_bridge_info payload (ck_now ck)) of
        (Some retained, Inr (permit, t)) \<Rightarrow>
          let initial = retained \<and> \<not> cl_info_seen c;
              c = c\<lparr>cl_info_seen := True, cl_permit := Some permit, cl_permit_end := t, cl_retained := retained,
                cl_initial_retained := initial, cl_permit_generation := g, cl_permit_observed := Some (ck_now ck),
                cl_permit_mono := Some (ck_mono ck), cl_closed_proof := (if permit then 0 else cl_closed_proof c)\<rparr> in
          if retained \<and> (\<not> initial \<or> cl_active_close c \<noteq> None) then (mark_unsafe g c, [notify None None])
          else notify_classified (ck_mono ck) (current_permit c) c
      | _ \<Rightarrow> (mark_unsafe g (c\<lparr>cl_info_seen := True, cl_permit := None, cl_permit_end := None, cl_retained := False,
          cl_initial_retained := False, cl_permit_generation := g, cl_permit_observed := None, cl_permit_mono := None\<rparr>),
          [notify None None]))"

text \<open>\<open>join_response_received\<close>.\<close>

definition settle :: "string \<Rightarrow> int \<Rightarrow> acknowledgement \<Rightarrow> client \<Rightarrow> client" where
  "settle transaction n a c = c\<lparr>cl_pending := dict_put (cl_pending c) transaction (n, a)\<rparr>"

definition response_received :: "clocks \<Rightarrow> bool option \<Rightarrow> json option \<Rightarrow> client \<Rightarrow> client \<times> notice list" where
  "response_received ck retain payload c = (case decode_object payload of
     Inl _ \<Rightarrow> reject_provisional_open True c
   | Inr response \<Rightarrow>
       (case obj_get response ''transaction'' JNull of
          JStr transaction \<Rightarrow>
            (case map_of (cl_pending c) transaction of
               None \<Rightarrow> reject_provisional_open True c
             | Some (expected, a) \<Rightarrow>
                 if a \<noteq> Waiting then (c, [])
                 else
                   let acknowledged = (case obj_get response ''data'' JNull of JObj d \<Rightarrow> obj_get d ''time'' JNull | _ \<Rightarrow> JNull) in
                   if obj_get response ''status'' JNull \<noteq> JStr ''ok'' \<or> retain \<noteq> Some False \<or> acknowledged \<noteq> JInt expected then
                     (case (if expected > 0 then reject_provisional_open False c else (c, [])) of
                        (c, ns) \<Rightarrow> (settle transaction expected Rejected c, ns))
                   else if expected > 0 then
                     if cl_open_transaction c \<noteq> Some transaction then
                       (case reject_provisional_open False c of (c, ns) \<Rightarrow> (settle transaction expected Rejected c, ns))
                     else
                       (case commit_provisional_open (ck_mono ck) transaction
                           (c\<lparr>cl_open_acknowledged := True, cl_open_acknowledged_at := Some (ck_now ck)\<rparr>) of
                          (c, ns) \<Rightarrow> (settle transaction expected (Acked (ck_now ck)) c, ns))
                   else (settle transaction expected (Acked (ck_now ck)) c, []))
        | _ \<Rightarrow> reject_provisional_open True c))"

section \<open>Requests\<close>

text \<open>The end of a call: the \<open>finally\<close> clauses forget its request.\<close>

definition call_transaction :: "client_call \<Rightarrow> string option" where
  "call_transaction call = (case call of NoCall \<Rightarrow> None | CloseWaitOnline t \<Rightarrow> None | CloseWaitAck t g \<Rightarrow> Some t
     | CloseWaitProof t g \<Rightarrow> None | OpenWaitAck t g \<Rightarrow> Some t | OpenWaitProof t g a \<Rightarrow> None)"

definition end_call :: "client \<Rightarrow> client" where
  "end_call c = c\<lparr>cl_call := NoCall,
     cl_pending := (case call_transaction (cl_call c) of None \<Rightarrow> cl_pending c | Some t \<Rightarrow> dict_del (cl_pending c) t),
     cl_active_close := (case cl_call c of CloseWaitAck t g \<Rightarrow> None | CloseWaitProof t g \<Rightarrow> None | _ \<Rightarrow> cl_active_close c)\<rparr>"

definition refuse :: "client \<Rightarrow> client \<times> proof_result option" where
  "refuse c = (end_call c, Some Refused)"

text \<open>The loop that waits for the proof of a closure; no result means waiting.\<close>

definition check_close :: "int \<Rightarrow> client \<Rightarrow> client \<times> proof_result option" where
  "check_close g c =
     (if cl_unsafe_generation c > g \<or> cl_online c \<noteq> Some True then refuse c
      else (case current_permit c of
         Some st \<Rightarrow>
           if ps_online st \<and> ps_generation st > g \<and> \<not> ps_permit st \<and> \<not> ps_retained st then
             (clear_open_attribution ((end_call c)\<lparr>cl_closed_proof := ps_generation st\<rparr>), Some (Proved (ps_observed st)))
           else (c, None)
       | None \<Rightarrow> (c, None)))"

text \<open>No step of the program separates the generation \<open>async_open_join\<close> reads from the request's.\<close>

definition check_open :: "int \<Rightarrow> utc_time \<Rightarrow> client \<Rightarrow> client \<times> proof_result option" where
  "check_open g acknowledged_at c =
     (if cl_unsafe_generation c > g \<or> cl_unattributed_generation c > g \<or> cl_online c \<noteq> Some True then refuse c
      else if cl_open_acknowledged c \<and> cl_open_info_generation c > g then (end_call c, Some (Proved acknowledged_at))
      else (c, None))"

definition poll_call :: "client \<Rightarrow> client \<times> proof_result option" where
  "poll_call c = (case cl_call c of
     NoCall \<Rightarrow> (c, None)
   | CloseWaitOnline t \<Rightarrow>
       (case cl_online c of
          None \<Rightarrow> if cl_state_invalid c then refuse c else (c, None)
        | Some False \<Rightarrow> refuse c
        | Some True \<Rightarrow>
            if map_of (cl_pending c) t \<noteq> None then refuse (c\<lparr>cl_active_close := None\<rparr>)
            else (c\<lparr>cl_active_close := Some (cl_generation c), cl_pending := dict_put (cl_pending c) t (0, Waiting),
              cl_call := CloseWaitAck t (cl_generation c)\<rparr>, None))
   | CloseWaitAck t g \<Rightarrow>
       (case map_of (cl_pending c) t of
          Some (n, Acked acked) \<Rightarrow> check_close g (c\<lparr>cl_pending := dict_del (cl_pending c) t, cl_call := CloseWaitProof t g\<rparr>)
        | Some (n, Waiting) \<Rightarrow> (c, None)
        | Some (n, Rejected) \<Rightarrow> refuse c
        | _ \<Rightarrow> (end_call c, Some Cancelled))
   | CloseWaitProof t g \<Rightarrow> check_close g c
   | OpenWaitAck t g \<Rightarrow>
       (case map_of (cl_pending c) t of
          Some (n, Acked acked) \<Rightarrow> check_open g acked (c\<lparr>cl_pending := dict_del (cl_pending c) t, cl_call := OpenWaitProof t g acked\<rparr>)
        | Some (n, Waiting) \<Rightarrow> (c, None)
        | Some (n, Rejected) \<Rightarrow> refuse c
        | _ \<Rightarrow> (end_call c, Some Cancelled))
   | OpenWaitProof t g acked \<Rightarrow> check_open g acked c)"

text \<open>\<open>async_reconcile_join_closed\<close> and \<open>async_open_join\<close>, to their first wait. One call runs at a time.\<close>

definition begin_close :: "string \<Rightarrow> client \<Rightarrow> client \<times> proof_result option" where
  "begin_close t c =
     (if cl_call c \<noteq> NoCall then (c, None)
      else if \<not> safety_coverage c \<or> \<not> transaction_ok t then (c, Some Refused)
      else poll_call (c\<lparr>cl_call := CloseWaitOnline t\<rparr>))"

definition begin_open :: "clocks \<Rightarrow> int \<Rightarrow> string \<Rightarrow> client \<Rightarrow> client \<times> proof_result option" where
  "begin_open ck n t c =
     (if cl_call c \<noteq> NoCall then (c, None)
      else if n < 15 \<or> n > 60 \<or> current_closed_baseline (ck_mono ck) c = None \<or> \<not> transaction_ok t then (c, Some Refused)
      else
        let c = c\<lparr>cl_closed_proof := 0, cl_open_transaction := Some t, cl_open_request := cl_generation c,
              cl_open_started := Some (ck_now ck), cl_open_started_mono := ck_mono ck, cl_open_acknowledged := False,
              cl_open_acknowledged_at := None, cl_open_expected_end := Some (ck_now ck + seconds n),
              cl_open_attribution_deadline := ck_mono ck + seconds 10 + seconds 10,
              cl_open_window_deadline := ck_mono ck + seconds n + seconds 5,
              cl_open_info_generation := 0, cl_open_provisional := None\<rparr> in
        if map_of (cl_pending c) t \<noteq> None then (c, Some Refused)
        else (c\<lparr>cl_pending := dict_put (cl_pending c) t (n, Waiting), cl_call := OpenWaitAck t (cl_generation c)\<rparr>, None))"

text \<open>A time-out, a failed publication or the cancellation of the waiting task.\<close>

definition abort_call :: "proof_result \<Rightarrow> client \<Rightarrow> client \<times> proof_result option" where
  "abort_call r c = (if cl_call c = NoCall then (c, None) else (end_call c, Some r))"

section \<open>Subscriptions\<close>

definition setup_done :: "client \<Rightarrow> client" where
  "setup_done c = (if cl_subscribed c \<or> cl_roles c \<noteq> [] then c
     else c\<lparr>cl_roles := [''state'', ''info'', ''response'', ''event''], cl_subscribed := True,
       cl_setup_generation := cl_generation c\<rparr>)"

text \<open>
  \<open>async_shutdown\<close> when \<open>n\<close> subscriptions, from the last one on, can be removed. The runtime calls it
  when no request is in flight.
\<close>

definition shutdown_client :: "nat \<Rightarrow> client \<Rightarrow> client" where
  "shutdown_client n c =
     (if cl_call c \<noteq> NoCall then c
      else let left = take (length (cl_roles c) - n) (cl_roles c); c = c\<lparr>cl_pending := [], cl_roles := left\<rparr> in
        if left \<noteq> [] then c else reset_observations (c\<lparr>cl_subscribed := False\<rparr>))"

section \<open>Steps\<close>

datatype client_event =
    SetupDone
  | StateMessage clocks "bool option" "json option"
  | InfoMessage clocks "bool option" "json option"
  | ResponseMessage clocks "bool option" "json option"
  | BeginClose string
  | BeginOpen clocks int string
  | Poll
  | Abort bool
  | Shutdown nat

definition client_step :: "client_event \<Rightarrow> client \<Rightarrow> client \<times> notice list \<times> proof_result option" where
  "client_step ev c = (case ev of
     SetupDone \<Rightarrow> (setup_done c, [], None)
   | StateMessage ck retain payload \<Rightarrow> (case state_received ck retain payload c of (c, ns) \<Rightarrow> (c, ns, None))
   | InfoMessage ck retain payload \<Rightarrow> (case info_received ck retain payload c of (c, ns) \<Rightarrow> (c, ns, None))
   | ResponseMessage ck retain payload \<Rightarrow> (case response_received ck retain payload c of (c, ns) \<Rightarrow> (c, ns, None))
   | BeginClose t \<Rightarrow> (case begin_close t c of (c, r) \<Rightarrow> (c, [], r))
   | BeginOpen ck n t \<Rightarrow> (case begin_open ck n t c of (c, r) \<Rightarrow> (c, [], r))
   | Poll \<Rightarrow> (case poll_call c of (c, r) \<Rightarrow> (c, [], r))
   | Abort cancelled \<Rightarrow> (case abort_call (if cancelled then Cancelled else Refused) c of (c, r) \<Rightarrow> (c, [], r))
   | Shutdown n \<Rightarrow> (shutdown_client n c, [], None))"

definition after_client :: "client_event list \<Rightarrow> client \<Rightarrow> client" where
  "after_client evs c = foldl (\<lambda>c ev. fst (client_step ev c)) c evs"

end
