(* ===== verification/Mqtt_Safety.thy ===== *)
theory Mqtt_Safety
  imports Mqtt_Client
begin

text \<open>
  What the client's answers mean for the messages it received: a proved closure and a closed
  baseline are facts about the bridge, not about the client's own bookkeeping.
\<close>

section \<open>What the handlers leave alone\<close>

text \<open>The part of the client a proof of closure rests on.\<close>

definition core :: "client \<Rightarrow> (int \<times> int \<times> int \<times> bool option \<times> bool option \<times> bool)
    \<times> (bool \<times> int \<times> utc_time option \<times> int option) \<times> (int \<times> int option \<times> client_call)" where
  "core c = ((cl_generation c, cl_setup_generation c, cl_unsafe_generation c, cl_online c, cl_permit c, cl_retained c),
     (cl_info_seen c, cl_permit_generation c, cl_permit_observed c, cl_permit_mono c),
     (cl_closed_proof c, cl_active_close c, cl_call c))"

lemma core_eq: "core c = core d \<longleftrightarrow>
    cl_generation c = cl_generation d \<and> cl_setup_generation c = cl_setup_generation d
    \<and> cl_unsafe_generation c = cl_unsafe_generation d \<and> cl_online c = cl_online d \<and> cl_permit c = cl_permit d
    \<and> cl_retained c = cl_retained d \<and> cl_info_seen c = cl_info_seen d \<and> cl_permit_generation c = cl_permit_generation d
    \<and> cl_permit_observed c = cl_permit_observed d \<and> cl_permit_mono c = cl_permit_mono d
    \<and> cl_closed_proof c = cl_closed_proof d \<and> cl_active_close c = cl_active_close d \<and> cl_call c = cl_call d"
  by (auto simp: core_def)

lemma clear_open_core [simp]: "core (clear_open_attribution c) = core c"
  by (simp add: clear_open_attribution_def core_def)

lemma reject_open_core [simp]: "core (fst (reject_open_state s c)) = core c"
  by (simp add: reject_open_state_def core_def)

lemma notify_classified_core [simp]: "core (fst (notify_classified k st c)) = core c"
  using reject_open_core
  by (auto simp: notify_classified_def core_def split: option.splits)

lemma commit_provisional_core [simp]: "core (fst (commit_provisional_open k t c)) = core c"
  using reject_open_core [of _ "c\<lparr>cl_open_provisional := None\<rparr>"]
  by (auto simp: commit_provisional_open_def core_def Let_def split: option.splits)

lemma reject_provisional_core [simp]: "core (fst (reject_provisional_open b c)) = core c"
  using reject_open_core [of _ c]
  by (auto simp: reject_provisional_open_def core_def split_beta split: option.splits)

lemma settle_core [simp]: "core (settle t n a c) = core c"
  by (simp add: settle_def core_def)

lemma acknowledged_core [simp]: "core (c\<lparr>cl_open_acknowledged := b, cl_open_acknowledged_at := t\<rparr>) = core c"
  by (simp add: core_def)

lemma response_core [simp]: "core (fst (response_received ck retain payload c)) = core c"
  by (simp add: response_received_def Let_def split_beta split: sum.split json.split option.split)

section \<open>What a message changes\<close>

lemma mark_unsafe_fields [simp]:
  "core (mark_unsafe g c) = core (c\<lparr>cl_unsafe_generation := g, cl_closed_proof := 0\<rparr>)"
  by (simp add: mark_unsafe_def)

definition same_requests :: "client \<Rightarrow> client \<Rightarrow> bool" where
  "same_requests c c' \<longleftrightarrow> cl_call c' = cl_call c \<and> cl_active_close c' = cl_active_close c \<and> cl_setup_generation c' = cl_setup_generation c"

definition went_unsafe :: "client \<Rightarrow> client \<Rightarrow> bool" where
  "went_unsafe c c' \<longleftrightarrow> cl_unsafe_generation c' = cl_generation c + 1 \<and> cl_closed_proof c' = 0"

lemma state_effect:
  fixes c ck retain payload
  defines "c' \<equiv> fst (state_received ck retain payload c)"
  shows "cl_generation c' = cl_generation c + 1 \<and> same_requests c c' \<and> cl_permit c' = cl_permit c
      \<and> cl_retained c' = cl_retained c \<and> cl_info_seen c' = cl_info_seen c \<and> cl_permit_generation c' = cl_permit_generation c"
    and "went_unsafe c c' \<or> cl_online c \<noteq> Some True \<and> cl_online c' = Some True
      \<and> cl_unsafe_generation c' = cl_unsafe_generation c \<and> cl_closed_proof c' = cl_closed_proof c"
proof -
  define g where "g = cl_generation c + 1"
  define d where "d = c\<lparr>cl_generation := g\<rparr>"
  have "\<exists>online. core c' = core (d\<lparr>cl_online := online\<rparr>) \<and> cl_online c \<noteq> Some True \<and> online = Some True
      \<or> core c' = core (d\<lparr>cl_online := online, cl_unsafe_generation := g, cl_closed_proof := 0\<rparr>)"
  proof (cases "retain = None \<or> (\<exists>e. parse_bridge_state payload = Inl e)")
    case True
    then have "core c' = core (d\<lparr>cl_online := None, cl_unsafe_generation := g, cl_closed_proof := 0\<rparr>)"
      unfolding c'_def state_received_def d_def g_def Let_def by (auto split: option.split sum.split) (simp_all add: core_def)
    then show ?thesis by blast
  next
    case False
    then obtain r online where r: "retain = Some r" "parse_bridge_state payload = Inr online" by (cases "parse_bridge_state payload") auto
    show ?thesis
    proof (cases "online \<and> cl_online c \<noteq> Some True")
      case True
      then have "core c' = core (d\<lparr>cl_online := Some True\<rparr>)"
        using r unfolding c'_def state_received_def d_def g_def Let_def by simp (simp add: core_def)
      then show ?thesis using True by blast
    next
      case False
      then have "core c' = core (d\<lparr>cl_online := Some online, cl_unsafe_generation := g, cl_closed_proof := 0\<rparr>)"
        using r unfolding c'_def state_received_def d_def g_def Let_def by auto (simp_all add: core_def)
      then show ?thesis by blast
    qed
  qed
  then show "cl_generation c' = cl_generation c + 1 \<and> same_requests c c' \<and> cl_permit c' = cl_permit c
      \<and> cl_retained c' = cl_retained c \<and> cl_info_seen c' = cl_info_seen c \<and> cl_permit_generation c' = cl_permit_generation c"
    and "went_unsafe c c' \<or> cl_online c \<noteq> Some True \<and> cl_online c' = Some True
      \<and> cl_unsafe_generation c' = cl_unsafe_generation c \<and> cl_closed_proof c' = cl_closed_proof c"
    unfolding core_eq d_def g_def same_requests_def went_unsafe_def by auto
qed

lemma info_effect:
  fixes c ck retain payload
  defines "c' \<equiv> fst (info_received ck retain payload c)"
  shows "cl_generation c' = cl_generation c + 1 \<and> same_requests c c' \<and> cl_online c' = cl_online c \<and> cl_info_seen c'
      \<and> cl_permit_generation c' = cl_generation c + 1"
    and "went_unsafe c c' \<or> (\<exists>permit t r. retain = Some r \<and> parse_bridge_info payload (ck_now ck) = Inr (permit, t)
        \<and> cl_permit c' = Some permit \<and> cl_retained c' = r \<and> cl_unsafe_generation c' = cl_unsafe_generation c
        \<and> cl_closed_proof c' = (if permit then 0 else cl_closed_proof c)
        \<and> (r \<longrightarrow> \<not> cl_info_seen c \<and> cl_active_close c = None))"
proof -
  define g where "g = cl_generation c + 1"
  have "core c' = core (c\<lparr>cl_generation := g, cl_info_seen := True, cl_permit := None, cl_retained := False, cl_permit_generation := g,
      cl_permit_observed := None, cl_permit_mono := None, cl_unsafe_generation := g, cl_closed_proof := 0\<rparr>)"
    if "retain = None \<or> (\<exists>e. parse_bridge_info payload (ck_now ck) = Inl e)"
    using that unfolding c'_def info_received_def g_def Let_def by (auto split: option.split sum.split) (simp_all add: core_def)
  moreover have "core c' = (let d = c\<lparr>cl_generation := g, cl_info_seen := True, cl_permit := Some permit, cl_retained := r,
      cl_permit_generation := g, cl_permit_observed := Some (ck_now ck), cl_permit_mono := Some (ck_mono ck),
      cl_closed_proof := (if permit then 0 else cl_closed_proof c)\<rparr> in
      if r \<and> (\<not> (r \<and> \<not> cl_info_seen c) \<or> cl_active_close c \<noteq> None)
      then core (d\<lparr>cl_unsafe_generation := g, cl_closed_proof := 0\<rparr>) else core d)"
    if "retain = Some r" "parse_bridge_info payload (ck_now ck) = Inr (permit, t)" for r permit t
    using that unfolding c'_def info_received_def g_def Let_def by simp (simp add: core_def)
  moreover have "(retain = None \<or> (\<exists>e. parse_bridge_info payload (ck_now ck) = Inl e))
      \<or> (\<exists>r permit t. retain = Some r \<and> parse_bridge_info payload (ck_now ck) = Inr (permit, t))"
    by (cases retain; cases "parse_bridge_info payload (ck_now ck)") auto
  ultimately have "core c' = core (c\<lparr>cl_generation := g, cl_info_seen := True, cl_permit := None, cl_retained := False, cl_permit_generation := g,
      cl_permit_observed := None, cl_permit_mono := None, cl_unsafe_generation := g, cl_closed_proof := 0\<rparr>)
    \<or> (\<exists>r permit t. retain = Some r \<and> parse_bridge_info payload (ck_now ck) = Inr (permit, t) \<and>
      core c' = (let d = c\<lparr>cl_generation := g, cl_info_seen := True, cl_permit := Some permit, cl_retained := r,
      cl_permit_generation := g, cl_permit_observed := Some (ck_now ck), cl_permit_mono := Some (ck_mono ck),
      cl_closed_proof := (if permit then 0 else cl_closed_proof c)\<rparr> in
      if r \<and> (\<not> (r \<and> \<not> cl_info_seen c) \<or> cl_active_close c \<noteq> None)
      then core (d\<lparr>cl_unsafe_generation := g, cl_closed_proof := 0\<rparr>) else core d))"
    by metis
  then show "cl_generation c' = cl_generation c + 1 \<and> same_requests c c' \<and> cl_online c' = cl_online c \<and> cl_info_seen c'
      \<and> cl_permit_generation c' = cl_generation c + 1"
    and "went_unsafe c c' \<or> (\<exists>permit t r. retain = Some r \<and> parse_bridge_info payload (ck_now ck) = Inr (permit, t)
        \<and> cl_permit c' = Some permit \<and> cl_retained c' = r \<and> cl_unsafe_generation c' = cl_unsafe_generation c
        \<and> cl_closed_proof c' = (if permit then 0 else cl_closed_proof c)
        \<and> (r \<longrightarrow> \<not> cl_info_seen c \<and> cl_active_close c = None))"
    by (elim disjE exE conjE; simp add: core_eq g_def same_requests_def went_unsafe_def Let_def split: if_splits; force)+
qed


section \<open>What a call changes\<close>

definition closing :: "client \<Rightarrow> bool" where
  "closing c \<longleftrightarrow> (case cl_call c of CloseWaitAck t g \<Rightarrow> True | CloseWaitProof t g \<Rightarrow> True | _ \<Rightarrow> False)"

definition call_generation :: "client \<Rightarrow> int" where
  "call_generation c = (case cl_call c of CloseWaitAck t g \<Rightarrow> g | CloseWaitProof t g \<Rightarrow> g | _ \<Rightarrow> 0)"

definition same_messages :: "client \<Rightarrow> client \<Rightarrow> bool" where
  "same_messages c c' \<longleftrightarrow> cl_generation c' = cl_generation c \<and> cl_setup_generation c' = cl_setup_generation c
     \<and> cl_unsafe_generation c' = cl_unsafe_generation c \<and> cl_online c' = cl_online c \<and> cl_permit c' = cl_permit c
     \<and> cl_retained c' = cl_retained c \<and> cl_info_seen c' = cl_info_seen c \<and> cl_permit_generation c' = cl_permit_generation c"

text \<open>The state in which \<open>check_close\<close> accepts: nothing unsafe since the request, and a newer closed state.\<close>

definition closed_since :: "int \<Rightarrow> client \<Rightarrow> bool" where
  "closed_since g c \<longleftrightarrow> cl_unsafe_generation c \<le> g \<and> cl_online c = Some True \<and> cl_permit c = Some False
     \<and> \<not> cl_retained c \<and> cl_permit_generation c > g"

lemma end_call_same [simp]: "same_messages c (end_call c)" "cl_closed_proof (end_call c) = cl_closed_proof c" "cl_call (end_call c) = NoCall"
  by (simp_all add: end_call_def same_messages_def)

lemma current_permit_SomeD:
  "current_permit c = Some st \<Longrightarrow> cl_online c = Some (ps_online st) \<and> cl_permit c = Some (ps_permit st)
     \<and> ps_retained st = cl_retained c \<and> ps_generation st = cl_permit_generation c"
  by (auto simp: current_permit_def split: option.splits)

lemma check_close_effect:
  assumes "check_close g c = (c', r)"
  shows "same_messages c c'" and "r = None \<Longrightarrow> c' = c"
    and "r \<noteq> None \<Longrightarrow> cl_call c' = NoCall"
    and "r = Some (Proved t) \<Longrightarrow> closed_since g c"
    and "cl_closed_proof c' = cl_closed_proof c \<or> (\<exists>t. r = Some (Proved t))"
  using assms current_permit_SomeD [of c]
  by (auto simp: check_close_def refuse_def closed_since_def same_messages_def end_call_def clear_open_attribution_def
      split: if_splits option.splits)

lemma check_open_effect:
  assumes "check_open g a c = (c', r)"
  shows "same_messages c c'" and "r = None \<Longrightarrow> c' = c" and "r \<noteq> None \<Longrightarrow> cl_call c' = NoCall"
    and "cl_closed_proof c' = cl_closed_proof c"
  using assms
  by (auto simp: check_open_def refuse_def same_messages_def end_call_def split: if_splits)

lemma poll_effect:
  assumes "poll_call c = (c', r)"
  shows "same_messages c c'"
    and "cl_closed_proof c' = cl_closed_proof c \<or> closing c \<and> (\<exists>t. r = Some (Proved t))"
    and "closing c \<Longrightarrow> r = Some (Proved t) \<Longrightarrow> closed_since (call_generation c) c"
proof -
  show "same_messages c c'"
    using assms by (auto simp: poll_call_def refuse_def same_messages_def end_call_def
        dest!: check_close_effect(1) check_open_effect(1)
        split: client_call.splits option.splits bool.splits if_splits acknowledgement.splits prod.splits)
  show "cl_closed_proof c' = cl_closed_proof c \<or> closing c \<and> (\<exists>t. r = Some (Proved t))"
    using assms by (auto simp: poll_call_def refuse_def end_call_def closing_def
        dest!: check_close_effect(5) check_open_effect(4)
        split: client_call.splits option.splits bool.splits if_splits acknowledgement.splits prod.splits)
  show "closing c \<Longrightarrow> r = Some (Proved t) \<Longrightarrow> closed_since (call_generation c) c"
    using assms by (auto simp: poll_call_def refuse_def closing_def call_generation_def closed_since_def
        dest!: check_close_effect(4)
        split: client_call.splits option.splits bool.splits if_splits acknowledgement.splits prod.splits)
qed

section \<open>Well-formed clients\<close>

definition client_ok :: "client \<Rightarrow> bool" where
  "client_ok c \<longleftrightarrow> 0 \<le> cl_setup_generation c \<and> 0 \<le> cl_generation c \<and> cl_unsafe_generation c \<le> cl_generation c
     \<and> cl_permit_generation c \<le> cl_generation c
     \<and> (cl_closed_proof c \<noteq> 0 \<longrightarrow> cl_online c = Some True \<and> cl_info_seen c)
     \<and> (cl_permit c \<noteq> None \<longrightarrow> cl_info_seen c)
     \<and> (closing c \<longrightarrow> cl_active_close c \<noteq> None)"

text \<open>A step that cannot end a proof of closure.\<close>

definition accepts_open :: "clocks \<Rightarrow> int \<Rightarrow> string \<Rightarrow> client \<Rightarrow> bool" where
  "accepts_open ck n t c \<longleftrightarrow> cl_call c = NoCall \<and> 15 \<le> n \<and> n \<le> 60 \<and> transaction_ok t
     \<and> current_closed_baseline (ck_mono ck) c \<noteq> None"

definition closed_info :: "clocks \<Rightarrow> bool option \<Rightarrow> json option \<Rightarrow> bool" where
  "closed_info ck retain payload \<longleftrightarrow> retain = Some False
     \<and> (case parse_bridge_info payload (ck_now ck) of Inr (permit, _) \<Rightarrow> \<not> permit | Inl _ \<Rightarrow> False)"

definition quiet :: "client_event \<Rightarrow> client \<Rightarrow> bool" where
  "quiet ev c = (case ev of StateMessage ck retain payload \<Rightarrow> False
     | InfoMessage ck retain payload \<Rightarrow> closed_info ck retain payload
     | BeginOpen ck n t \<Rightarrow> \<not> accepts_open ck n t c
     | _ \<Rightarrow> True)"

fun all_quiet :: "client_event list \<Rightarrow> client \<Rightarrow> bool" where
  "all_quiet [] c = True"
| "all_quiet (ev # evs) c = (quiet ev c \<and> all_quiet evs (fst (client_step ev c)))"

definition proves_closed :: "client_event \<Rightarrow> client \<Rightarrow> bool" where
  "proves_closed ev c \<longleftrightarrow> closing c \<and> (case snd (snd (client_step ev c)) of Some (Proved t) \<Rightarrow> True | _ \<Rightarrow> False)"

lemma begin_close_effect:
  "same_messages c (fst (begin_close t c)) \<and> cl_closed_proof (fst (begin_close t c)) = cl_closed_proof c"
  using poll_effect(1,2) [of "c\<lparr>cl_call := CloseWaitOnline t\<rparr>"]
  by (cases "poll_call (c\<lparr>cl_call := CloseWaitOnline t\<rparr>)")
    (auto simp: begin_close_def same_messages_def closing_def)

lemma begin_open_refused: "\<not> accepts_open ck n t c \<Longrightarrow> fst (begin_open ck n t c) = c"
  unfolding begin_open_def accepts_open_def by (cases "cl_call c = NoCall") (auto split: if_splits)

lemma begin_open_accepted:
  assumes "accepts_open ck n t c"
  shows "same_messages c (fst (begin_open ck n t c))" "cl_closed_proof (fst (begin_open ck n t c)) = 0"
    "\<not> closing (fst (begin_open ck n t c))"
proof -
  have guards: "cl_call c = NoCall" "\<not> (n < 15 \<or> n > 60 \<or> current_closed_baseline (ck_mono ck) c = None \<or> \<not> transaction_ok t)"
    using assms by (auto simp: accepts_open_def)
  show "same_messages c (fst (begin_open ck n t c))" "cl_closed_proof (fst (begin_open ck n t c)) = 0"
    "\<not> closing (fst (begin_open ck n t c))"
    unfolding begin_open_def Let_def by (simp_all only: guards if_False if_True not_True_eq_False simp_thms split: if_split)
      (simp_all add: same_messages_def closing_def guards)
qed

lemma abort_effect: "same_messages c (fst (abort_call r c)) \<and> cl_closed_proof (fst (abort_call r c)) = cl_closed_proof c"
  by (auto simp: abort_call_def same_messages_def end_call_def)

definition close_active :: "client \<Rightarrow> bool" where
  "close_active c \<longleftrightarrow> (closing c \<longrightarrow> cl_active_close c \<noteq> None)"

lemma close_active_NoCall: "cl_call c = NoCall \<Longrightarrow> close_active c"
  by (simp add: close_active_def closing_def)

lemma check_close_active:
  assumes "close_active c"
  shows "close_active (fst (check_close g c))"
proof -
  obtain d r where d: "check_close g c = (d, r)" by force
  then show ?thesis
    using assms check_close_effect(2,3) [OF d] close_active_NoCall by (cases r) auto
qed

lemma check_open_active:
  assumes "close_active c"
  shows "close_active (fst (check_open g a c))"
proof -
  obtain d r where d: "check_open g a c = (d, r)" by force
  then show ?thesis
    using assms check_open_effect(2,3) [OF d] close_active_NoCall by (cases r) auto
qed

lemma poll_active:
  assumes "close_active c"
  shows "close_active (fst (poll_call c))"
proof (cases "cl_call c")
  case (CloseWaitOnline t)
  then show ?thesis using assms
    by (auto simp: poll_call_def refuse_def close_active_def closing_def split: option.split bool.split)
next
  case (CloseWaitAck t g)
  then have "close_active (c\<lparr>cl_pending := dict_del (cl_pending c) t, cl_call := CloseWaitProof t g\<rparr>)"
    using assms by (simp add: close_active_def closing_def)
  then show ?thesis using CloseWaitAck assms check_close_active close_active_NoCall
    by (auto simp: poll_call_def refuse_def split: option.split acknowledgement.split)
next
  case (OpenWaitAck t g)
  have "close_active (c\<lparr>cl_pending := dict_del (cl_pending c) t, cl_call := OpenWaitProof t g a\<rparr>)" for a
    by (simp add: close_active_def closing_def)
  then show ?thesis using OpenWaitAck assms check_open_active close_active_NoCall
    by (auto simp: poll_call_def refuse_def split: option.split acknowledgement.split)
qed (use assms check_close_active check_open_active in \<open>simp_all add: poll_call_def\<close>)

lemma begin_close_active: "close_active c \<Longrightarrow> close_active (fst (begin_close t c))"
  using poll_active [of "c\<lparr>cl_call := CloseWaitOnline t\<rparr>"]
  by (simp add: begin_close_def) (simp add: close_active_def closing_def)

lemma abort_active: "close_active c \<Longrightarrow> close_active (fst (abort_call r c))"
  using close_active_NoCall by (simp add: abort_call_def)

lemma active_close:
  assumes "client_ok c"
  shows "closing (fst (begin_close t c)) \<Longrightarrow> cl_active_close (fst (begin_close t c)) \<noteq> None"
    and "closing (fst (abort_call r c)) \<Longrightarrow> cl_active_close (fst (abort_call r c)) \<noteq> None"
    and "closing (fst (poll_call c)) \<Longrightarrow> cl_active_close (fst (poll_call c)) \<noteq> None"
  using assms begin_close_active [of c t] abort_active [of c r] poll_active [of c]
  by (simp_all add: client_ok_def close_active_def)

lemma client_ok_same:
  "\<lbrakk>client_ok c; same_messages c c'; cl_closed_proof c' = cl_closed_proof c \<or> cl_closed_proof c' = 0;
    closing c' \<longrightarrow> cl_active_close c' \<noteq> None\<rbrakk> \<Longrightarrow> client_ok c'"
  by (auto simp: client_ok_def same_messages_def)

lemma client_ok_step:
  assumes "client_ok c"
  shows "client_ok (fst (client_step ev c))"
    and "cl_closed_proof (fst (client_step ev c)) = 0 \<or> proves_closed ev c
      \<or> cl_closed_proof (fst (client_step ev c)) = cl_closed_proof c \<and> quiet ev c"
proof -
  have "client_ok (fst (client_step ev c)) \<and> (cl_closed_proof (fst (client_step ev c)) = 0 \<or> proves_closed ev c
      \<or> cl_closed_proof (fst (client_step ev c)) = cl_closed_proof c \<and> quiet ev c)"
  proof (cases ev)
    case SetupDone
    then show ?thesis using assms by (auto simp: client_step_def setup_done_def quiet_def client_ok_def closing_def)
  next
    case (StateMessage ck r p)
    then show ?thesis using assms state_effect [where ck = ck and retain = r and payload = p and c = c]
      by (auto simp: client_step_def split_beta client_ok_def closing_def same_requests_def went_unsafe_def)
  next
    case (InfoMessage ck r p)
    then show ?thesis using assms info_effect [where ck = ck and retain = r and payload = p and c = c]
      by (auto simp: client_step_def split_beta client_ok_def closing_def same_requests_def went_unsafe_def quiet_def closed_info_def split: if_splits)
  next
    case (ResponseMessage ck r p)
    then show ?thesis using assms response_core [of ck r p c, unfolded core_eq]
      by (auto simp: client_step_def split_beta client_ok_def closing_def quiet_def)
  next
    case (BeginClose t)
    then show ?thesis using client_ok_same [OF assms] active_close(1) [OF assms] begin_close_effect [of c t]
      by (auto simp: client_step_def split_beta quiet_def)
  next
    case (BeginOpen ck n t)
    then show ?thesis
      using client_ok_same [OF assms, of "fst (begin_open ck n t c)"] begin_open_accepted [of ck n t c] begin_open_refused [of ck n t c] assms
      by (cases "accepts_open ck n t c") (auto simp: client_step_def split_beta quiet_def)
  next
    case Poll
    obtain c' r where p: "poll_call c = (c', r)" by force
    show ?thesis
    proof (cases "closing c \<and> (\<exists>t. r = Some (Proved t))")
      case True
      then show ?thesis using Poll p poll_effect [OF p] active_close(3) [OF assms] assms
        by (auto simp: client_step_def proves_closed_def client_ok_def same_messages_def closed_since_def)
    next
      case False
      then show ?thesis using Poll p poll_effect(1,2) [OF p] active_close(3) [OF assms] client_ok_same [OF assms, of c']
        by (auto simp: client_step_def quiet_def)
    qed
  next
    case (Abort cancelled)
    then show ?thesis using client_ok_same [OF assms] active_close(2) [OF assms] abort_effect [of c]
      by (auto simp: client_step_def split_beta quiet_def)
  next
    case (Shutdown n)
    then show ?thesis using assms
      by (auto simp: client_step_def shutdown_client_def Let_def quiet_def client_ok_def closing_def reset_observations_def clear_open_attribution_def)
  qed
  then show "client_ok (fst (client_step ev c))"
    and "cl_closed_proof (fst (client_step ev c)) = 0 \<or> proves_closed ev c
      \<or> cl_closed_proof (fst (client_step ev c)) = cl_closed_proof c \<and> quiet ev c" by blast+
qed

lemma after_client_simps [simp]:
  "after_client [] c = c" "after_client (ev # evs) c = after_client evs (fst (client_step ev c))"
  "after_client (evs @ evs') c = after_client evs' (after_client evs c)"
  by (simp_all add: after_client_def)

lemma new_client_ok: "client_ok new_client"
  by (simp add: client_ok_def new_client_def closing_def)

lemma after_client_ok: "client_ok c \<Longrightarrow> client_ok (after_client evs c)"
  by (induction evs arbitrary: c) (simp_all add: client_ok_step(1))

lemma all_quiet_append [simp]: "all_quiet (evs @ evs') c \<longleftrightarrow> all_quiet evs c \<and> all_quiet evs' (after_client evs c)"
  by (induction evs arbitrary: c) auto

lemma closed_proof_history:
  assumes "cl_closed_proof (after_client evs new_client) \<noteq> 0"
  shows "\<exists>pre ev post. evs = pre @ ev # post \<and> proves_closed ev (after_client pre new_client)
    \<and> all_quiet post (after_client (pre @ [ev]) new_client)"
  using assms
proof (induction evs rule: rev_induct)
  case Nil
  then show ?case by (simp add: new_client_def)
next
  case (snoc ev evs)
  let ?c = "after_client evs new_client"
  show ?case
  proof (cases "proves_closed ev ?c")
    case True
    then show ?thesis by (intro exI [of _ evs] exI [of _ ev] exI [of _ "[]"]) simp
  next
    case False
    then have *: "cl_closed_proof ?c \<noteq> 0" "quiet ev ?c"
      using client_ok_step(2) [OF after_client_ok [OF new_client_ok], of ev evs] snoc.prems by auto
    obtain pre ev' post where "evs = pre @ ev' # post" "proves_closed ev' (after_client pre new_client)"
        "all_quiet post (after_client (pre @ [ev']) new_client)"
      using snoc.IH [OF *(1)] by blast
    then show ?thesis using *(2) by (intro exI [of _ pre] exI [of _ ev'] exI [of _ "post @ [ev]"]) simp
  qed
qed

section \<open>A proved closure\<close>

text \<open>What a \<open>bridge/info\<close> message reports, and the messages of a history that do.\<close>

definition reported :: "client_event \<Rightarrow> bool option" where
  "reported ev = (case ev of InfoMessage ck retain payload \<Rightarrow>
       (case parse_bridge_info payload (ck_now ck) of Inr (permit, _) \<Rightarrow> Some permit | Inl _ \<Rightarrow> None)
     | _ \<Rightarrow> None)"

definition reports :: "client_event list \<Rightarrow> bool list" where
  "reports evs = List.map_filter reported evs"

text \<open>No bridge state and no malformed or retained information.\<close>

definition undisturbed :: "client_event \<Rightarrow> bool" where
  "undisturbed ev = (case ev of StateMessage ck retain payload \<Rightarrow> False
     | InfoMessage ck retain payload \<Rightarrow> retain = Some False \<and> reported ev \<noteq> None
     | _ \<Rightarrow> True)"

text \<open>A positive response to the close request of a transaction.\<close>

definition acknowledges :: "string \<Rightarrow> client_event \<Rightarrow> bool" where
  "acknowledges t ev = (case ev of ResponseMessage ck retain payload \<Rightarrow> retain = Some False \<and>
       (case decode_object payload of Inl _ \<Rightarrow> False | Inr r \<Rightarrow>
          obj_get r ''transaction'' JNull = JStr t \<and> obj_get r ''status'' JNull = JStr ''ok''
          \<and> (case obj_get r ''data'' JNull of JObj d \<Rightarrow> obj_get d ''time'' JNull = JInt 0 | _ \<Rightarrow> False))
     | _ \<Rightarrow> False)"

text \<open>A request just published: its generation is the client's, and it waits for its response.\<close>

definition close_requested :: "string \<Rightarrow> client \<Rightarrow> bool" where
  "close_requested t c \<longleftrightarrow> cl_call c = CloseWaitAck t (cl_generation c) \<and> map_of (cl_pending c) t = Some (0, Waiting)
     \<and> cl_online c = Some True"

text \<open>What the client knows of the messages since the generation \<open>g\<close>.\<close>

definition tracks :: "int \<Rightarrow> client_event list \<Rightarrow> client \<Rightarrow> bool" where
  "tracks g mid c \<longleftrightarrow> g \<le> cl_generation c \<and> (cl_unsafe_generation c \<le> g \<longrightarrow>
     list_all undisturbed mid \<and> cl_online c = Some True \<and>
     (if reports mid = [] then cl_permit_generation c \<le> g
      else cl_permit c = Some (last (reports mid)) \<and> \<not> cl_retained c))"

definition answered :: "string \<Rightarrow> client_event list \<Rightarrow> client \<Rightarrow> bool" where
  "answered t mid c = (case cl_call c of
     CloseWaitAck u g \<Rightarrow> (\<exists>a. map_of (cl_pending c) t = Some (0, a) \<and> (\<forall>x. a = Acked x \<longrightarrow> list_ex (acknowledges t) mid))
   | _ \<Rightarrow> list_ex (acknowledges t) mid)"

definition since_request :: "string \<Rightarrow> int \<Rightarrow> client_event list \<Rightarrow> client \<Rightarrow> bool" where
  "since_request t g evs c \<longleftrightarrow> (\<exists>pre mid. evs = pre @ mid \<and> close_requested t (after_client pre new_client)
     \<and> cl_generation (after_client pre new_client) = g \<and> tracks g mid c \<and> answered t mid c)"

definition call_traced :: "client_event list \<Rightarrow> client \<Rightarrow> bool" where
  "call_traced evs c \<longleftrightarrow> (case cl_call c of CloseWaitAck t g \<Rightarrow> since_request t g evs c
     | CloseWaitProof t g \<Rightarrow> since_request t g evs c | _ \<Rightarrow> True)"

lemma reports_append [simp]: "reports (evs @ [ev]) = reports evs @ (case reported ev of None \<Rightarrow> [] | Some b \<Rightarrow> [b])"
  by (simp add: reports_def List.map_filter_def split: option.split)

lemma tracks_same:
  assumes "tracks g mid c" "same_messages c c'" "undisturbed ev" "reported ev = None"
  shows "tracks g (mid @ [ev]) c'"
  using assms by (auto simp: tracks_def same_messages_def)

lemma tracks_state:
  assumes "tracks g mid c"
  shows "tracks g (mid @ [StateMessage ck r p]) (fst (state_received ck r p c))"
  using assms state_effect [where ck = ck and retain = r and payload = p and c = c]
  by (auto simp: tracks_def went_unsafe_def)

lemma tracks_info:
  assumes "tracks g mid c" "cl_active_close c \<noteq> None"
  shows "tracks g (mid @ [InfoMessage ck r p]) (fst (info_received ck r p c))"
  using assms info_effect [where ck = ck and retain = r and payload = p and c = c]
  by (auto simp: tracks_def went_unsafe_def undisturbed_def reported_def)

lemma map_of_fail_open: "map_of (fail_open_requests d) t = map_option (\<lambda>(n, a). (n, if n > 0 \<and> a = Waiting then Rejected else a)) (map_of d t)"
  by (induction d) (auto simp: fail_open_requests_def)

lemma reject_provisional_pending:
  "map_of (cl_pending c) t = Some (0, a) \<Longrightarrow> map_of (cl_pending (fst (reject_provisional_open b c))) t = Some (0, a)"
  by (auto simp: reject_provisional_open_def reject_open_state_def map_of_fail_open split_beta split: option.split)

lemma commit_provisional_pending [simp]: "cl_pending (fst (commit_provisional_open k u c)) = cl_pending c"
  by (simp add: commit_provisional_open_def reject_open_state_def Let_def split: option.split)

lemma response_pending:
  assumes "map_of (cl_pending c) t = Some (0, a)"
  shows "\<exists>a'. map_of (cl_pending (fst (response_received ck r p c))) t = Some (0, a')
     \<and> (a' = a \<or> a' = Rejected \<or> acknowledges t (ResponseMessage ck r p))"
proof -
  consider (bad) "fst (response_received ck r p c) = fst (reject_provisional_open True c)"
    | (known) resp u n b where "decode_object p = Inr resp" "obj_get resp ''transaction'' JNull = JStr u"
        "map_of (cl_pending c) u = Some (n, b)"
    by (cases "decode_object p"; cases "obj_get (projr (decode_object p)) ''transaction'' JNull";
        cases "map_of (cl_pending c) (case obj_get (projr (decode_object p)) ''transaction'' JNull of JStr u \<Rightarrow> u | _ \<Rightarrow> [])")
      (auto simp: response_received_def)
  then show ?thesis
  proof cases
    case bad
    then show ?thesis using reject_provisional_pending [OF assms] by auto
  next
    case known
    show ?thesis
    proof (cases "u = t")
      case False
      then show ?thesis using known assms reject_provisional_pending [OF assms]
        by (auto simp: response_received_def Let_def settle_def split_beta split: if_splits)
    next
      case True
      then show ?thesis using known assms
        by (auto simp: response_received_def Let_def settle_def split_beta acknowledges_def split: json.splits)
    qed
  qed
qed


lemma since_request_step:
  assumes "since_request t g evs c" "\<And>mid. tracks g mid c \<Longrightarrow> tracks g (mid @ [ev]) c'"
    and "\<And>mid. answered t mid c \<Longrightarrow> answered t (mid @ [ev]) c'"
  shows "since_request t g (evs @ [ev]) c'"
  using assms unfolding since_request_def by (metis append.assoc)

lemma call_traced_step:
  assumes "call_traced evs c" "cl_call c' = cl_call c"
    and "\<And>g mid. closing c \<Longrightarrow> tracks g mid c \<Longrightarrow> tracks g (mid @ [ev]) c'"
    and "\<And>t mid. closing c \<Longrightarrow> answered t mid c \<Longrightarrow> answered t (mid @ [ev]) c'"
  shows "call_traced (evs @ [ev]) c'"
  using assms(1,2) since_request_step [OF _ assms(3,4)]
  by (auto simp: call_traced_def closing_def split: client_call.splits)

lemma notify_classified_pending [simp]: "cl_pending (fst (notify_classified k st c)) = cl_pending c"
  by (simp add: notify_classified_def reject_open_state_def split: option.split)

lemma mark_unsafe_pending [simp]: "cl_pending (mark_unsafe g c) = cl_pending c"
  by (simp add: mark_unsafe_def clear_open_attribution_def)

lemma message_pending [simp]:
  shows "cl_pending (fst (state_received ck r p c)) = cl_pending c"
    and "cl_pending (fst (info_received ck r p c)) = cl_pending c"
  by (simp_all add: state_received_def info_received_def Let_def split_beta split: option.split sum.split)

lemma answered_same:
  "\<lbrakk>answered t mid c; cl_call c' = cl_call c; cl_pending c' = cl_pending c\<rbrakk> \<Longrightarrow> answered t (mid @ [ev]) c'"
  by (auto simp: answered_def split: client_call.splits)

lemma tracks_start: "client_ok c \<Longrightarrow> tracks (cl_generation c) [] c \<longleftrightarrow> (cl_unsafe_generation c \<le> cl_generation c \<longrightarrow> cl_online c = Some True)"
  by (auto simp: tracks_def reports_def List.map_filter_def client_ok_def)

lemma traced_start:
  assumes "close_requested t (after_client evs new_client)"
  shows "call_traced evs (after_client evs new_client)"
proof -
  let ?c = "after_client evs new_client"
  have "tracks (cl_generation ?c) [] ?c"
    using tracks_start [OF after_client_ok [OF new_client_ok]] assms by (simp add: close_requested_def)
  then have "since_request t (cl_generation ?c) evs ?c"
    unfolding since_request_def using assms
    by (intro exI [of _ evs] exI [of _ "[]"]) (simp add: answered_def close_requested_def)
  then show ?thesis using assms by (simp add: call_traced_def close_requested_def)
qed

lemma not_closing_traced: "\<not> closing c \<Longrightarrow> call_traced evs c"
  by (simp add: closing_def call_traced_def split: client_call.splits)

lemma check_open_not_closing: "check_open g a c = (c', r) \<Longrightarrow> \<not> closing c \<Longrightarrow> \<not> closing c'"
  by (auto simp: check_open_def refuse_def closing_def split: if_splits)

lemma poll_traced:
  assumes "poll_call c = (c', r)" "call_traced evs c" "undisturbed ev" "reported ev = None"
  shows "(\<exists>t. close_requested t c') \<or> call_traced (evs @ [ev]) c'"
proof -
  have same: "tracks g mid c \<Longrightarrow> tracks g (mid @ [ev]) c'" for g mid
    using tracks_same [OF _ poll_effect(1) [OF assms(1)] assms(3,4)] .
  show ?thesis
  proof (cases "cl_call c")
    case (CloseWaitOnline t)
    then show ?thesis using assms(1)
      by (auto simp: poll_call_def refuse_def end_call_def call_traced_def close_requested_def split: option.splits bool.splits if_splits)
  next
    case (CloseWaitAck t g)
    then have since: "since_request t g evs c" using assms(2) by (simp add: call_traced_def)
    then obtain a where a: "map_of (cl_pending c) t = Some (0, a)" using CloseWaitAck by (auto simp: since_request_def answered_def)
    show ?thesis
    proof (cases a)
      case (Acked x)
      let ?d = "c\<lparr>cl_pending := dict_del (cl_pending c) t, cl_call := CloseWaitProof t g\<rparr>"
      have chk: "check_close g ?d = (c', r)" using assms(1) CloseWaitAck a Acked by (simp add: poll_call_def)
      show ?thesis
      proof (cases r)
        case None
        then have "c' = ?d" using check_close_effect(2) [OF chk] by simp
        then have "since_request t g (evs @ [ev]) c'"
          using since_request_step [OF since same] CloseWaitAck a Acked by (auto simp: answered_def)
        then show ?thesis using \<open>c' = ?d\<close> by (simp add: call_traced_def)
      next
        case (Some p)
        then show ?thesis using check_close_effect(3) [OF chk] by (simp add: call_traced_def)
      qed
    next
      case Waiting
      then have "c' = c" using assms(1) CloseWaitAck a by (simp add: poll_call_def)
      then show ?thesis using call_traced_step [OF assms(2), of c' ev] same answered_same by auto
    next
      case Rejected
      then show ?thesis using assms(1) CloseWaitAck a by (auto simp: poll_call_def refuse_def call_traced_def)
    qed
  next
    case (CloseWaitProof t g)
    then have chk: "check_close g c = (c', r)" using assms(1) by (simp add: poll_call_def)
    show ?thesis
    proof (cases r)
      case None
      then have "c' = c" using check_close_effect(2) [OF chk] by simp
      then show ?thesis using call_traced_step [OF assms(2), of c' ev] same answered_same by auto
    next
      case (Some p)
      then show ?thesis using check_close_effect(3) [OF chk] by (simp add: call_traced_def)
    qed
  next
    case (OpenWaitAck t g)
    then have "\<not> closing c'" using assms(1) check_open_not_closing
      by (auto simp: poll_call_def refuse_def split: option.splits prod.splits acknowledgement.splits) (auto simp: closing_def)
    then show ?thesis using not_closing_traced by blast
  next
    case (OpenWaitProof t g a)
    then show ?thesis using assms(1) check_open_effect(2,3) [of g a c c' r]
      by (cases r) (auto simp: poll_call_def call_traced_def)
  next
    case NoCall
    then show ?thesis using assms(1) by (simp add: poll_call_def call_traced_def)
  qed
qed

lemma call_traced_next:
  fixes evs ev
  defines "c \<equiv> after_client evs new_client"
  assumes "call_traced evs c"
  shows "call_traced (evs @ [ev]) (fst (client_step ev c))"
proof -
  have ok: "client_ok c" unfolding c_def by (rule after_client_ok [OF new_client_ok])
  have started: "call_traced (evs @ [ev]) (fst (client_step ev c))" if "close_requested t (fst (client_step ev c))" for t
    using traced_start [of t "evs @ [ev]"] that by (simp add: c_def)
  show ?thesis
  proof (cases ev)
    case SetupDone
    show ?thesis
      by (rule call_traced_step [OF assms(2)])
        (simp_all add: SetupDone client_step_def setup_done_def tracks_def undisturbed_def reported_def answered_same)
  next
    case (StateMessage ck r p)
    show ?thesis
      by (rule call_traced_step [OF assms(2)])
        (use state_effect(1) [where ck = ck and retain = r and payload = p and c = c] tracks_state answered_same
          in \<open>auto simp: StateMessage client_step_def split_beta same_requests_def\<close>)
  next
    case (InfoMessage ck r p)
    show ?thesis
      by (rule call_traced_step [OF assms(2)])
        (use info_effect(1) [where ck = ck and retain = r and payload = p and c = c] tracks_info answered_same ok
          in \<open>auto simp: InfoMessage client_step_def split_beta same_requests_def client_ok_def\<close>)
  next
    case (ResponseMessage ck r p)
    have same: "same_messages c (fst (response_received ck r p c)) \<and> cl_call (fst (response_received ck r p c)) = cl_call c"
      using response_core [of ck r p c, unfolded core_eq] by (simp add: same_messages_def)
    have "answered t (mid @ [ev]) (fst (response_received ck r p c))" if ans: "answered t mid c" for t mid
    proof (cases "\<exists>u g. cl_call c = CloseWaitAck u g")
      case True
      then obtain a where a: "map_of (cl_pending c) t = Some (0, a)" "\<forall>x. a = Acked x \<longrightarrow> list_ex (acknowledges t) mid"
        using ans by (auto simp: answered_def)
      obtain a' where "map_of (cl_pending (fst (response_received ck r p c))) t = Some (0, a')"
        "a' = a \<or> a' = Rejected \<or> acknowledges t (ResponseMessage ck r p)"
        using response_pending [OF a(1)] by blast
      then show ?thesis using True a(2) same by (auto simp: answered_def ResponseMessage)
    next
      case False
      then show ?thesis using ans same by (auto simp: answered_def split: client_call.splits)
    qed
    then show ?thesis
      using call_traced_step [OF assms(2), of "fst (response_received ck r p c)" ev] same tracks_same
      by (auto simp: ResponseMessage client_step_def split_beta undisturbed_def reported_def)
  next
    case (BeginClose t)
    show ?thesis
    proof (cases "cl_call c = NoCall \<and> safety_coverage c \<and> transaction_ok t")
      case True
      then have "begin_close t c = poll_call (c\<lparr>cl_call := CloseWaitOnline t\<rparr>)" by (simp add: begin_close_def)
      moreover obtain c' r where p: "poll_call (c\<lparr>cl_call := CloseWaitOnline t\<rparr>) = (c', r)" by force
      ultimately have step: "fst (client_step ev c) = c'" by (simp add: BeginClose client_step_def)
      have "call_traced evs (c\<lparr>cl_call := CloseWaitOnline t\<rparr>)" by (simp add: call_traced_def)
      then show ?thesis using poll_traced [OF p, of evs ev] started unfolding step by (auto simp: BeginClose undisturbed_def reported_def)
    next
      case False
      then have "fst (client_step ev c) = c" by (auto simp: BeginClose client_step_def begin_close_def)
      then show ?thesis
        using call_traced_step [OF assms(2), of c ev] tracks_same [of _ _ c c ev] answered_same
        by (auto simp: BeginClose undisturbed_def reported_def same_messages_def)
    qed
  next
    case (BeginOpen ck n t)
    show ?thesis
    proof (cases "accepts_open ck n t c")
      case True
      then show ?thesis using begin_open_accepted(3) [OF True] not_closing_traced by (simp add: BeginOpen client_step_def split_beta)
    next
      case False
      then have "fst (client_step ev c) = c" using begin_open_refused [OF False] by (simp add: BeginOpen client_step_def split_beta)
      then show ?thesis
        using call_traced_step [OF assms(2), of c ev] tracks_same [of _ _ c c ev] answered_same
        by (auto simp: BeginOpen undisturbed_def reported_def same_messages_def)
    qed
  next
    case Poll
    obtain c' r where p: "poll_call c = (c', r)" by force
    have "fst (client_step ev c) = c'" by (simp add: Poll client_step_def p)
    then show ?thesis using poll_traced [OF p assms(2), of ev] started by (auto simp: Poll undisturbed_def reported_def)
  next
    case (Abort cancelled)
    then have "\<not> closing (fst (client_step ev c))" by (auto simp: client_step_def abort_call_def closing_def)
    then show ?thesis by (rule not_closing_traced)
  next
    case (Shutdown n)
    show ?thesis
    proof (cases "cl_call c = NoCall")
      case True
      then have "\<not> closing (fst (client_step ev c))"
        by (auto simp: Shutdown client_step_def shutdown_client_def Let_def closing_def reset_observations_def clear_open_attribution_def)
      then show ?thesis by (rule not_closing_traced)
    next
      case False
      then have "fst (client_step ev c) = c" by (simp add: Shutdown client_step_def shutdown_client_def)
      then show ?thesis
        using call_traced_step [OF assms(2), of c ev] tracks_same [of _ _ c c ev] answered_same
        by (auto simp: Shutdown undisturbed_def reported_def same_messages_def)
    qed
  qed
qed

lemma every_call_traced: "call_traced evs (after_client evs new_client)"
proof (induction evs rule: rev_induct)
  case Nil
  show ?case by (simp add: call_traced_def new_client_def)
next
  case (snoc ev evs)
  then show ?case using call_traced_next [of evs ev] by simp
qed

lemma proved_closure:
  assumes "proves_closed ev (after_client evs new_client)"
  shows "\<exists>pre mid t. evs = pre @ mid \<and> close_requested t (after_client pre new_client)
     \<and> list_ex (acknowledges t) mid \<and> list_all undisturbed mid \<and> reports mid \<noteq> [] \<and> \<not> last (reports mid)"
proof -
  let ?c = "after_client evs new_client"
  obtain t where step: "closing ?c" "snd (snd (client_step ev ?c)) = Some (Proved t)"
    using assms by (auto simp: proves_closed_def split: option.splits proof_result.splits)
  then have "ev = Poll"
    by (cases ev) (auto simp: client_step_def split_beta closing_def begin_close_def begin_open_def abort_call_def split: if_splits)
  then obtain c' where p: "poll_call ?c = (c', Some (Proved t))"
    using step(2) by (cases "poll_call ?c") (simp add: client_step_def)
  have since: "closed_since (call_generation ?c) ?c" using poll_effect(3) [OF p step(1) refl] .
  obtain u g where u: "since_request u g evs ?c" "call_generation ?c = g" "cl_call ?c = CloseWaitAck u g \<or> cl_call ?c = CloseWaitProof u g"
    using every_call_traced [of evs] step(1) by (auto simp: call_traced_def closing_def call_generation_def split: client_call.splits)
  then obtain pre mid where h: "evs = pre @ mid" "close_requested u (after_client pre new_client)" "tracks g mid ?c" "answered u mid ?c"
    unfolding since_request_def by blast
  have "list_ex (acknowledges u) mid"
    using u(3)
  proof
    assume call: "cl_call ?c = CloseWaitAck u g"
    then obtain n x where "map_of (cl_pending ?c) u = Some (n, Acked x)"
      using p by (auto simp: poll_call_def refuse_def split: option.splits prod.splits acknowledgement.splits)
    then show ?thesis using h(4) call by (auto simp: answered_def)
  qed (use h(4) in \<open>simp add: answered_def\<close>)
  moreover have "list_all undisturbed mid \<and> reports mid \<noteq> [] \<and> \<not> last (reports mid)"
    using h(3) since u(2) by (auto simp: tracks_def closed_since_def split: if_splits)
  ultimately show ?thesis using h(1,2) by blast
qed

end
