(* ===== verification/Valve_Test.thy ===== *)
theory Valve_Test
  imports Replacement_Runtime
begin

text \<open>
  \<open>replacement.py\<close>, continued: the test of a valve, which commands a challenge and then restores the
  target, and the tasks that change the binding of a room after it.
\<close>

section \<open>Testing one valve\<close>

definition tolerance :: py_float where
  "tolerance = Fin (1 / 10)"

definition float_close :: "py_float \<Rightarrow> py_float \<Rightarrow> bool" where
  "float_close x y \<longleftrightarrow> float_le (float_abs (float_sub x y)) tolerance"

text \<open>\<open>_challenge_target\<close>: \<open>None\<close> is an exception.\<close>

definition challenge_target :: "climate_state \<Rightarrow> py_float \<Rightarrow> py_float option" where
  "challenge_target st intended =
     (case (case map_of (cs_attributes st) ''min_temp'' of None \<Rightarrow> Some (Fin 0) | Some v \<Rightarrow> v) of None \<Rightarrow> None | Some lo \<Rightarrow>
     (case (case map_of (cs_attributes st) ''max_temp'' of None \<Rightarrow> Some (Fin 35) | Some v \<Rightarrow> v) of None \<Rightarrow> None | Some hi \<Rightarrow>
     (case (case map_of (cs_attributes st) ''temperature'' of None \<Rightarrow> Some intended | Some v \<Rightarrow> v) of None \<Rightarrow> None | Some current \<Rightarrow>
       List.find (\<lambda>c. within_limits (lo, hi) c \<and> float_gt (float_abs (float_sub c intended)) tolerance
           \<and> float_gt (float_abs (float_sub c current)) tolerance)
         [float_shift intended 1, float_shift intended (- 1), float_shift intended 2])))"

text \<open>
  What \<open>_async_wait_for_fresh_readback\<close> sees in a round: a state updated after the command, with its
  temperature where it is a number, or the cancellation of the task. A round without a state, or
  with an older one, is \<open>Seen False None\<close>; so is every round after the recorded ones.
\<close>

datatype sample = Seen bool "py_float option" | Interrupted

fun fresh_readback :: "nat \<Rightarrow> sample list \<Rightarrow> py_float \<Rightarrow> bool option" where
  "fresh_readback 0 samples target = Some False"
| "fresh_readback (Suc n) [] target = Some False"
| "fresh_readback (Suc n) (Interrupted # samples) target = None"
| "fresh_readback (Suc n) (Seen fresh t # samples) target =
     (if fresh \<and> (case t of None \<Rightarrow> False | Some x \<Rightarrow> float_close x target) then Some True
      else fresh_readback n samples target)"

datatype call_result = Accepted | Raised | CallCancelled

type_synonym exchange = "call_result \<times> sample list"

text \<open>\<open>_async_call_physical\<close> and the wait for its effect.\<close>

definition command_and_wait :: "exchange \<Rightarrow> py_float \<Rightarrow> test_result" where
  "command_and_wait x target = (case fst x of
     Raised \<Rightarrow> Failed
   | CallCancelled \<Rightarrow> Stopped
   | Accepted \<Rightarrow> (case fresh_readback 25 (snd x) target of None \<Rightarrow> Stopped | Some True \<Rightarrow> Passed | Some False \<Rightarrow> Failed))"

text \<open>
  \<open>_async_test_binding\<close> after its guards, with the exchanges of the challenge, the restoration and
  the recovery in the \<open>finally\<close> clause: the result and the commands sent.
\<close>

definition recovery :: "string \<Rightarrow> py_float \<Rightarrow> exchange \<Rightarrow> test_result \<times> command list \<Rightarrow> test_result \<times> command list" where
  "recovery entity intended x outcome = (case outcome of (r, sent) \<Rightarrow>
     (if command_and_wait x intended = Stopped then Stopped else r, sent @ [(entity, intended)]))"

definition run_test :: "string \<Rightarrow> py_float \<Rightarrow> py_float \<Rightarrow> exchange \<times> exchange \<times> exchange \<Rightarrow> test_result \<times> command list" where
  "run_test entity intended challenge xs = (case xs of (x1, x2, x3) \<Rightarrow>
     (case command_and_wait x1 challenge of
        Passed \<Rightarrow> (case command_and_wait x2 intended of
            Passed \<Rightarrow> (Passed, [(entity, challenge), (entity, intended)])
          | r \<Rightarrow> recovery entity intended x3 (r, [(entity, challenge), (entity, intended)]))
      | r \<Rightarrow> recovery entity intended x3 (r, [(entity, challenge)])))"

text \<open>The guards of \<open>_async_test_binding\<close>: the entity and the challenge.\<close>

definition test_guards :: "home \<Rightarrow> room_binding \<Rightarrow> py_float \<Rightarrow> (string \<times> py_float) option" where
  "test_guards h b intended = (case resolve_entity h b of None \<Rightarrow> None | Some entity \<Rightarrow>
     (let state = map_of (ho_states h) entity in
      if state_missing state then None
      else (case temperature_limits (the state) of None \<Rightarrow> None | Some limits \<Rightarrow>
        if \<not> within_limits limits intended then None
        else (case challenge_target (the state) intended of None \<Rightarrow> None | Some c \<Rightarrow> Some (entity, c)))))"

section \<open>Tasks\<close>

definition start_task :: "string \<Rightarrow> operation \<Rightarrow> runtime \<Rightarrow> runtime" where
  "start_task room op rt = rt\<lparr>rt_tasks := dict_put (rt_tasks rt) (rt_next rt) \<lparr>tk_room = room, tk_operation = op, tk_stage = Queued\<rparr>,
     rt_operation := Some (rt_next rt), rt_next := Suc (rt_next rt)\<rparr>"

text \<open>A task is over: it releases its room, and \<open>_operation_finished\<close> runs.\<close>

definition end_task :: "nat \<Rightarrow> runtime \<Rightarrow> runtime" where
  "end_task n rt = rt\<lparr>rt_tasks := dict_del (rt_tasks rt) n,
     rt_operation := (if rt_operation rt = Some n then None else rt_operation rt)\<rparr>"

definition set_stage :: "nat \<Rightarrow> stage \<Rightarrow> runtime \<Rightarrow> runtime" where
  "set_stage n st rt = (case map_of (rt_tasks rt) n of None \<Rightarrow> rt
     | Some t \<Rightarrow> rt\<lparr>rt_tasks := dict_put (rt_tasks rt) n (t\<lparr>tk_stage := st\<rparr>)\<rparr>)"

definition room_locked :: "runtime \<Rightarrow> string \<Rightarrow> bool" where
  "room_locked rt room = list_ex (\<lambda>(_, t). tk_room t = room \<and> tk_stage t \<noteq> Queued) (rt_tasks rt)"

text \<open>\<open>async_commit\<close>.\<close>

definition async_commit :: "string \<Rightarrow> (rt_state, runtime_error, unit) action" where
  "async_commit i = andthen ensure_open (\<lambda>_.
     andthen reconcile_if_required (\<lambda>_.
     andthen (the_session i) (\<lambda>s.
     andthen (check (ss_phase s = READY_TO_COMMIT) RReplacement) (\<lambda>_.
     andthen (the_room (ss_room s) RKeyError) (\<lambda>room.
     andthen (check (plan_valid room s) RReplacement) (\<lambda>_.
     andthen get_runtime (\<lambda>rt. case ss_candidate_binding s of
        None \<Rightarrow> throw RReplacement
      | Some b \<Rightarrow> andthen (check (binding_available (rt_rooms rt) b (rs_room_id room)) RReplacement) (\<lambda>_.
          on_runtime (\<lambda>rt. start_task (rs_room_id room) (TestAndCommit i)
            (update_session i (\<lambda>s. s\<lparr>ss_phase := TESTING\<rparr>) rt))))))))))"

text \<open>\<open>async_rollback_room\<close>.\<close>

definition rollback_room :: "string \<Rightarrow> int \<Rightarrow> (rt_state, runtime_error, unit) action" where
  "rollback_room room_id revision = andthen ensure_open (\<lambda>_.
     andthen reconcile_if_required (\<lambda>_.
     andthen get_runtime (\<lambda>rt.
     andthen (check (runtime_session rt = None \<and> \<not> operation_running rt) RReplacement) (\<lambda>_.
     andthen (the_room room_id RReplacement) (\<lambda>room.
     andthen (check (rs_revision room = revision) RReplacement) (\<lambda>_.
     (case (rs_binding room, rs_previous room) of
        (Some current, Some previous) \<Rightarrow>
          andthen (check (binding_available (rt_rooms rt) previous room_id) RReplacement) (\<lambda>_.
            on_runtime (start_task room_id (TestAndRollback revision current previous)))
      | _ \<Rightarrow> throw RReplacement)))))))"

text \<open>
  A task takes the lock of its room and reads the target its valve has to keep. Its session's
  candidate binding has not changed since the task was created, as the session is being tested.
\<close>

definition test_plan :: "home \<Rightarrow> runtime \<Rightarrow> task \<Rightarrow> (room_binding \<times> py_float) option" where
  "test_plan h rt t = (case tk_operation t of
     TestAndCommit i \<Rightarrow> (case map_of (rt_sessions rt) i of None \<Rightarrow> None | Some s \<Rightarrow>
       (case ss_candidate_binding s of None \<Rightarrow> None | Some b \<Rightarrow>
         Some (b, case map_of (rt_targets rt) (tk_room t) of Some x \<Rightarrow> x | None \<Rightarrow> intended_target h (ss_old_binding s))))
   | TestAndRollback revision current previous \<Rightarrow>
       Some (previous, case map_of (rt_targets rt) (tk_room t) of Some x \<Rightarrow> x | None \<Rightarrow> binding_target h current))"

definition begin_test :: "nat \<Rightarrow> home \<Rightarrow> (rt_state, runtime_error, unit) action" where
  "begin_test n h = andthen get_runtime (\<lambda>rt. case map_of (rt_tasks rt) n of
     None \<Rightarrow> throw RBlocked
   | Some t \<Rightarrow>
       if tk_stage t \<noteq> Queued \<or> room_locked rt (tk_room t) then throw RBlocked
       else (case test_plan h rt t of
          None \<Rightarrow> on_runtime (end_task n)
        | Some (b, intended) \<Rightarrow> on_runtime (set_stage n (case test_guards h b intended of
              None \<Rightarrow> Tested b Failed
            | Some (entity, c) \<Rightarrow> Testing b entity intended c))))"

text \<open>The test itself: a cancelled one ends its task.\<close>

definition finish_test :: "nat \<Rightarrow> exchange \<times> exchange \<times> exchange \<Rightarrow> (rt_state, runtime_error, unit) action" where
  "finish_test n xs = andthen get_runtime (\<lambda>rt. case map_of (rt_tasks rt) n of
     None \<Rightarrow> throw RBlocked
   | Some t \<Rightarrow> (case tk_stage t of
       Testing b entity intended c \<Rightarrow> (case run_test entity intended c xs of (r, sent) \<Rightarrow>
         andthen (on_runtime (\<lambda>rt. rt\<lparr>rt_commands := rt_commands rt @ sent\<rparr>)) (\<lambda>_.
           on_runtime (if r = Stopped then end_task n else set_stage n (Tested b r))))
     | _ \<Rightarrow> throw RBlocked))"

text \<open>A cancelled task that waits for a lock.\<close>

definition cancel_task :: "nat \<Rightarrow> (rt_state, runtime_error, unit) action" where
  "cancel_task n = andthen get_runtime (\<lambda>rt. case map_of (rt_tasks rt) n of
     None \<Rightarrow> throw RBlocked
   | Some t \<Rightarrow> (case tk_stage t of Testing b e i c \<Rightarrow> throw RBlocked | _ \<Rightarrow> on_runtime (end_task n)))"

text \<open>\<open>_persist_rooms\<close>: whether Home Assistant accepts the new data is an argument.\<close>

definition set_room :: "string \<Rightarrow> room_slot_state \<Rightarrow> runtime \<Rightarrow> runtime" where
  "set_room i r rt = rt\<lparr>rt_rooms := dict_put (rt_rooms rt) i r\<rparr>"

definition persist_rooms :: "bool \<Rightarrow> (rt_state, runtime_error, unit) action" where
  "persist_rooms accepted = (if accepted then on_runtime (\<lambda>rt. rt\<lparr>rt_persisted := rooms_json (rt_rooms rt)\<rparr>) else throw RService)"

text \<open>The locked end of \<open>_async_test_and_commit\<close>: the body of its \<open>try\<close>, and what surrounds it.\<close>

definition same_identity :: "room_binding \<Rightarrow> room_binding \<Rightarrow> bool" where
  "same_identity a b \<longleftrightarrow> rb_registry_id a = rb_registry_id b \<and> rb_ieee a = rb_ieee b"

definition commit_verified :: "string \<Rightarrow> string \<Rightarrow> room_slot_state \<Rightarrow> room_binding \<Rightarrow> home \<Rightarrow> bool \<Rightarrow> (rt_state, runtime_error, unit) action" where
  "commit_verified i room_id room tested h accepted =
     andthen (the_session i) (\<lambda>s.
     andthen (check (plan_valid room s) RReplacement) (\<lambda>_.
     (case resolve_candidate h s of
        Inl _ \<Rightarrow> throw RValue
      | Inr None \<Rightarrow> throw RReplacement
      | Inr (Some b) \<Rightarrow>
          andthen (check (same_identity b tested) RReplacement) (\<lambda>_.
          andthen (on_runtime (update_session i (\<lambda>s. s\<lparr>ss_candidate_binding := Some b\<rparr>))) (\<lambda>_.
          andthen get_runtime (\<lambda>rt.
          andthen (check (binding_available (rt_rooms rt) b (rs_room_id room)) RReplacement) (\<lambda>_.
            if map_option rb_registry_id (rs_binding room) = Some (rb_registry_id b)
            then on_runtime (\<lambda>rt. set_terminal i COMPLETE (update_session i (\<lambda>s. s\<lparr>ss_committed_revision := Some (rs_revision room)\<rparr>) rt))
            else
              andthen (on_runtime (set_room room_id
                (room\<lparr>rs_previous := rs_binding room, rs_binding := Some b, rs_revision := rs_revision room + 1\<rparr>))) (\<lambda>_.
              andthen (persist_rooms accepted) (\<lambda>_.
                on_runtime (\<lambda>rt. set_terminal i COMPLETE
                  (update_session i (\<lambda>s. s\<lparr>ss_committed_revision := Some (rs_revision room + 1)\<rparr>) rt)))))))))))"

definition finish_commit :: "string \<Rightarrow> room_binding \<Rightarrow> test_result \<Rightarrow> home \<Rightarrow> bool \<Rightarrow> (rt_state, runtime_error, unit) action" where
  "finish_commit i tested r h accepted =
     (if r \<noteq> Passed then
        andthen (on_runtime (\<lambda>rt. set_terminal i FAILED (update_session i (\<lambda>s. s\<lparr>ss_remediation := True\<rparr>) rt))) (\<lambda>_. throw RReplacement)
      else
        andthen (the_session i) (\<lambda>s.
        andthen (the_room (ss_room s) RKeyError) (\<lambda>room.
        andthen (check (ss_phase s = TESTING) RReplacement) (\<lambda>_.
          catching (commit_verified i (ss_room s) room tested h accepted)
            (andthen (on_runtime (\<lambda>rt. set_terminal i FAILED (set_room (ss_room s) room rt))) (\<lambda>_. throw RReplacement))))))"

text \<open>The locked end of \<open>_async_test_and_rollback\<close>.\<close>

definition finish_rollback :: "string \<Rightarrow> int \<Rightarrow> room_binding \<Rightarrow> room_binding \<Rightarrow> test_result \<Rightarrow> home \<Rightarrow> bool \<Rightarrow> (rt_state, runtime_error, unit) action" where
  "finish_rollback room_id revision current previous r h accepted =
     andthen (check (r = Passed) RReplacement) (\<lambda>_.
     andthen (the_room room_id RKeyError) (\<lambda>room.
     andthen (check (rs_revision room = revision \<and> rs_binding room = Some current \<and> rs_previous room = Some previous) RReplacement) (\<lambda>_.
     andthen (check (resolve_entity h previous \<noteq> None) RReplacement) (\<lambda>_.
     andthen get_runtime (\<lambda>rt.
     andthen (check (binding_available (rt_rooms rt) previous room_id) RReplacement) (\<lambda>_.
     andthen (on_runtime (set_room room_id
       (room\<lparr>rs_binding := Some previous, rs_previous := Some current, rs_revision := rs_revision room + 1\<rparr>))) (\<lambda>_.
       catching (persist_rooms accepted) (andthen (on_runtime (set_room room_id room)) (\<lambda>_. throw RReplacement)))))))))"

text \<open>The task's end, whatever its outcome.\<close>

definition finish_task :: "nat \<Rightarrow> home \<Rightarrow> bool \<Rightarrow> (rt_state, runtime_error, unit) action" where
  "finish_task n h accepted = andthen get_runtime (\<lambda>rt. case map_of (rt_tasks rt) n of
     None \<Rightarrow> throw RBlocked
   | Some t \<Rightarrow> (case tk_stage t of
       Tested b r \<Rightarrow>
         andthen (attempt (case tk_operation t of
             TestAndCommit i \<Rightarrow> finish_commit i b r h accepted
           | TestAndRollback revision current previous \<Rightarrow> finish_rollback (tk_room t) revision current previous r h accepted)) (\<lambda>result.
         andthen (on_runtime (end_task n)) (\<lambda>_. from_sum result))
     | _ \<Rightarrow> throw RBlocked))"

section \<open>Setting a target\<close>

text \<open>\<open>source_entity_id\<close> of a room.\<close>

definition source_entity :: "home \<Rightarrow> room_slot_state \<Rightarrow> string option" where
  "source_entity h r = (case rs_binding r of None \<Rightarrow> None | Some b \<Rightarrow> resolve_entity h b)"

text \<open>\<open>async_set_temperature\<close>; whether the service call returns is an argument.\<close>

definition set_temperature :: "string \<Rightarrow> py_float \<Rightarrow> home \<Rightarrow> call_result \<Rightarrow> (rt_state, runtime_error, unit) action" where
  "set_temperature room_id t h result = andthen ensure_open (\<lambda>_.
     andthen (the_room room_id RKeyError) (\<lambda>room.
     andthen get_runtime (\<lambda>rt.
     andthen (check (\<not> room_locked rt room_id) RBlocked) (\<lambda>_.
     (case source_entity h room of
        None \<Rightarrow> throw RReplacement
      | Some entity \<Rightarrow>
          let state = map_of (ho_states h) entity in
          andthen (check (\<not> state_missing state \<and> is_finite t) RReplacement) (\<lambda>_.
          (case temperature_limits (the state) of
             None \<Rightarrow> throw RReplacement
           | Some limits \<Rightarrow>
               andthen (check (within_limits limits t) RReplacement) (\<lambda>_.
               andthen (on_runtime (\<lambda>rt. rt\<lparr>rt_commands := rt_commands rt @ [(entity, t)]\<rparr>)) (\<lambda>_.
               (case result of
                  Raised \<Rightarrow> throw RService
                | CallCancelled \<Rightarrow> throw RCancelled
                | Accepted \<Rightarrow> on_runtime (\<lambda>rt. rt\<lparr>rt_targets := dict_put (rt_targets rt) room_id t\<rparr>)))))))))))"

section \<open>Steps\<close>

text \<open>What may happen next, with the answers of the bridge and of Home Assistant it meets.\<close>

datatype rt_event =
    SetUp "answer list"
  | BridgeNotice notice
  | StartPairing string string string utc_time "answer list"
  | ReceiveEvent mqtt_event utc_time "answer list"
  | Discover string home "answer list"
  | DiscoveryTimeout string "answer list"
  | PairingTimeout string "answer list"
  | CancelPairing string "answer list"
  | Commit string "answer list"
  | Rollback string int "answer list"
  | BeginTest nat home
  | FinishTest nat "exchange \<times> exchange \<times> exchange"
  | CancelTask nat
  | FinishTask nat home bool
  | SetTemperature string py_float home call_result
  | BeginUnload
  | FinishUnload bool "answer list"

definition event_action :: "rt_event \<Rightarrow> (rt_state, runtime_error, unit) action" where
  "event_action ev = (case ev of
     SetUp _ \<Rightarrow> setup_runtime
   | BridgeNotice n \<Rightarrow> on_runtime (handle_notice n)
   | StartPairing room op i now _ \<Rightarrow> start_pairing room op i now
   | ReceiveEvent e now _ \<Rightarrow> async_handle_bridge_event e now
   | Discover i h _ \<Rightarrow> discover i h
   | DiscoveryTimeout i _ \<Rightarrow> discovery_timeout i
   | PairingTimeout i _ \<Rightarrow> pairing_timeout i
   | CancelPairing i _ \<Rightarrow> cancel_session i
   | Commit i _ \<Rightarrow> async_commit i
   | Rollback room revision _ \<Rightarrow> rollback_room room revision
   | BeginTest n h \<Rightarrow> begin_test n h
   | FinishTest n xs \<Rightarrow> finish_test n xs
   | CancelTask n \<Rightarrow> cancel_task n
   | FinishTask n h accepted \<Rightarrow> finish_task n h accepted
   | SetTemperature room t h result \<Rightarrow> set_temperature room t h result
   | BeginUnload \<Rightarrow> begin_unload
   | FinishUnload coverage _ \<Rightarrow> finish_unload coverage)"

definition event_script :: "rt_event \<Rightarrow> answer list" where
  "event_script ev = (case ev of
     SetUp script \<Rightarrow> script
   | StartPairing room op i now script \<Rightarrow> script
   | ReceiveEvent e now script \<Rightarrow> script
   | Discover i h script \<Rightarrow> script
   | DiscoveryTimeout i script \<Rightarrow> script
   | PairingTimeout i script \<Rightarrow> script
   | CancelPairing i script \<Rightarrow> script
   | Commit i script \<Rightarrow> script
   | Rollback room revision script \<Rightarrow> script
   | FinishUnload coverage script \<Rightarrow> script
   | _ \<Rightarrow> [])"

definition rt_step :: "rt_event \<Rightarrow> runtime \<Rightarrow> (runtime_error + unit) \<times> runtime" where
  "rt_step ev rt = (case event_action ev (rt, event_script ev) of (r, (rt', _)) \<Rightarrow> (r, rt'))"

definition after_events :: "rt_event list \<Rightarrow> runtime \<Rightarrow> runtime" where
  "after_events evs rt = foldl (\<lambda>rt ev. snd (rt_step ev rt)) rt evs"

text \<open>The runtime of a config entry whose persisted rooms could be loaded.\<close>

definition new_runtime :: "(string \<times> json) list \<Rightarrow> runtime option" where
  "new_runtime data = (case rooms_from_json data of Inl _ \<Rightarrow> None
     | Inr rooms \<Rightarrow> Some \<lparr>rt_rooms = rooms, rt_persisted = data, rt_sessions = [], rt_targets = [], rt_active = None,
         rt_owner = None, rt_tasks = [], rt_operation = None, rt_next = 0, rt_commands = [], rt_closing = False,
         rt_started = False, rt_needs_closure = True\<rparr>)"

end
