(* ===== verification/Runtime_Safety.thy ===== *)
theory Runtime_Safety
  imports Valve_Test
begin

text \<open>
  What the replacement runtime keeps over every interleaving: the rooms in memory are the persisted
  ones, no valve belongs to two rooms, and a room changes its valve only after that valve passed
  its test.
\<close>

section \<open>Steps that leave a part of the runtime alone\<close>

definition keeps :: "(runtime \<Rightarrow> 'p) \<Rightarrow> (rt_state, runtime_error, 'a) action \<Rightarrow> bool" where
  "keeps f m \<longleftrightarrow> (\<forall>st. f (fst (snd (m st))) = f (fst st))"

named_theorems keeps_rules
  \<comment> \<open>actions that leave a part of the runtime alone\<close>

lemma keeps_ret [keeps_rules]: "keeps f (ret x)"
  by (simp add: keeps_def ret_def)

lemma keeps_throw [keeps_rules]: "keeps f (throw e)"
  by (simp add: keeps_def throw_def)

lemma keeps_check [keeps_rules]: "keeps f (check b e)"
  by (simp add: check_def keeps_ret keeps_throw)

lemma keeps_from_sum [keeps_rules]: "keeps f (from_sum r)"
  by (simp add: keeps_def from_sum_def)

lemma keeps_get [keeps_rules]: "keeps f get_runtime"
  by (simp add: keeps_def get_runtime_def reads_def)

lemma keeps_on: "(\<And>rt. f (g rt) = f rt) \<Longrightarrow> keeps f (on_runtime g)"
  by (simp add: keeps_def on_runtime_def modify_def)

lemma keeps_andthen [keeps_rules]: "keeps f m \<Longrightarrow> (\<And>x. keeps f (g x)) \<Longrightarrow> keeps f (andthen m g)"
  unfolding keeps_def andthen_def by (simp split: prod.splits sum.splits) (metis fst_conv snd_conv)

lemma keeps_handle: "keeps f m \<Longrightarrow> (\<And>e. keeps f (h e)) \<Longrightarrow> keeps f (handle m h)"
  unfolding keeps_def handle_def by (simp split: prod.splits sum.splits) (metis fst_conv snd_conv)

lemma keeps_catching [keeps_rules]: "keeps f m \<Longrightarrow> keeps f h \<Longrightarrow> keeps f (catching m h)"
  unfolding catching_def by (rule keeps_handle) (simp_all add: keeps_throw)

lemma keeps_attempt [keeps_rules]: "keeps f m \<Longrightarrow> keeps f (attempt m)"
  by (simp add: keeps_def attempt_def split_beta)

lemma keeps_if [keeps_rules]: "(b \<Longrightarrow> keeps f m) \<Longrightarrow> (\<not> b \<Longrightarrow> keeps f n) \<Longrightarrow> keeps f (if b then m else n)"
  by simp

lemma keeps_option [keeps_rules]:
  "(x = None \<Longrightarrow> keeps f m) \<Longrightarrow> (\<And>y. x = Some y \<Longrightarrow> keeps f (n y)) \<Longrightarrow> keeps f (case x of None \<Rightarrow> m | Some y \<Rightarrow> n y)"
  by (cases x) simp_all

lemma keeps_sum [keeps_rules]:
  "(\<And>e. x = Inl e \<Longrightarrow> keeps f (m e)) \<Longrightarrow> (\<And>y. x = Inr y \<Longrightarrow> keeps f (n y)) \<Longrightarrow> keeps f (case x of Inl e \<Rightarrow> m e | Inr y \<Rightarrow> n y)"
  by (cases x) simp_all

lemma keeps_prod [keeps_rules]: "(\<And>a b. x = (a, b) \<Longrightarrow> keeps f (m a b)) \<Longrightarrow> keeps f (case x of (a, b) \<Rightarrow> m a b)"
  by (cases x) simp

lemma keeps_stage [keeps_rules]:
  "keeps f m \<Longrightarrow> (\<And>b e i c. x = Testing b e i c \<Longrightarrow> keeps f (n b e i c)) \<Longrightarrow> (\<And>b r. keeps f (k b r)) \<Longrightarrow>
   keeps f (case x of Queued \<Rightarrow> m | Testing b e i c \<Rightarrow> n b e i c | Tested b r \<Rightarrow> k b r)"
  by (cases x) simp_all

lemma keeps_call [keeps_rules]:
  "keeps f a \<Longrightarrow> keeps f b \<Longrightarrow> keeps f c \<Longrightarrow> keeps f (case x of Accepted \<Rightarrow> a | Raised \<Rightarrow> b | CallCancelled \<Rightarrow> c)"
  by (cases x) simp_all

lemma keeps_let [keeps_rules]: "keeps f (m x) \<Longrightarrow> keeps f (let y = x in m y)"
  by simp

lemma keepsD: "keeps f m \<Longrightarrow> m (rt, script) = (r, (rt', script')) \<Longrightarrow> f rt' = f rt"
  unfolding keeps_def by (metis fst_conv snd_conv)

section \<open>What only changes sessions\<close>

text \<open>The parts of the runtime that no session operation touches.\<close>

definition bound :: "runtime \<Rightarrow> rooms \<times> (string \<times> json) list" where
  "bound rt = (rt_rooms rt, rt_persisted rt)"

definition bound_and_tasks :: "runtime \<Rightarrow> (rooms \<times> (string \<times> json) list) \<times> (nat, task) dict" where
  "bound_and_tasks rt = (bound rt, rt_tasks rt)"

lemmas bound_defs = bound_and_tasks_def bound_def

lemma update_session_bound [simp]:
  "rt_rooms (update_session i f rt) = rt_rooms rt" "rt_persisted (update_session i f rt) = rt_persisted rt"
  "rt_tasks (update_session i f rt) = rt_tasks rt"
  by (simp_all add: update_session_def split: option.splits)

lemma put_session_bound [simp]:
  "rt_rooms (store_session s rt) = rt_rooms rt" "rt_persisted (store_session s rt) = rt_persisted rt"
  "rt_tasks (store_session s rt) = rt_tasks rt"
  by (simp_all add: store_session_def)

lemma set_terminal_bound [simp]:
  "rt_rooms (set_terminal i ph rt) = rt_rooms rt" "rt_persisted (set_terminal i ph rt) = rt_persisted rt"
  "rt_tasks (set_terminal i ph rt) = rt_tasks rt"
  by (simp_all add: set_terminal_def Let_def)

lemma mark_join_closed_bound [simp]:
  "rt_rooms (mark_join_closed t rt) = rt_rooms rt" "rt_persisted (mark_join_closed t rt) = rt_persisted rt"
  "rt_tasks (mark_join_closed t rt) = rt_tasks rt"
  by (simp_all add: mark_join_closed_def)

lemma handle_notice_bound [simp]: "bound_and_tasks (handle_notice n rt) = bound_and_tasks rt"
  by (cases n) (auto simp: handle_notice_def bound_defs Let_def split: option.splits)

lemma handle_all_bound [simp]: "bound_and_tasks (handle_all xs rt) = bound_and_tasks rt"
proof (induction xs arbitrary: rt)
  case (Cons x xs)
  have "handle_all (x # xs) rt = handle_all xs (handle_interim x rt)" by (simp add: handle_all_def)
  then show ?case using Cons by (cases x) (simp_all add: handle_interim_def, simp add: bound_defs)
qed (simp add: handle_all_def)

lemma keeps_bridge_call [keeps_rules]: "keeps bound_and_tasks bridge_call"
  by (auto simp: keeps_def bridge_call_def split: list.splits answer.splits)

lemma keeps_closed_baseline [keeps_rules]: "keeps f closed_baseline"
  by (auto simp: keeps_def closed_baseline_def split: list.splits answer.splits)

lemma keeps_on_bound [keeps_rules]: "(\<And>rt. bound_and_tasks (g rt) = bound_and_tasks rt) \<Longrightarrow> keeps bound_and_tasks (on_runtime g)"
  by (rule keeps_on)

lemma keeps_join [keeps_rules]:
  shows keeps_reconcile_closed: "keeps bound_and_tasks reconcile_closed"
    and keeps_reconcile_if_required: "keeps bound_and_tasks reconcile_if_required"
    and keeps_prepare_baseline: "keeps bound_and_tasks prepare_baseline"
    and keeps_the_session: "keeps bound_and_tasks (the_session i)"
    and keeps_already_closed: "keeps bound_and_tasks (already_closed i)"
    and keeps_close_confirmed: "keeps bound_and_tasks (close_confirmed i)"
    and keeps_attempt_close: "keeps bound_and_tasks (attempt_close i force)"
    and keeps_fail_session: "keeps bound_and_tasks (async_fail i remediation)"
  unfolding async_fail_def attempt_close_def close_confirmed_def already_closed_def the_session_def prepare_baseline_def
    reconcile_if_required_def require_closure_def reconcile_closed_def
  by (intro keeps_rules; simp add: bound_defs)+

lemma keeps_pairing [keeps_rules]:
  shows "keeps bound_and_tasks setup_runtime"
    and "keeps bound_and_tasks begin_unload"
    and "keeps bound_and_tasks (finish_unload coverage)"
    and "keeps bound_and_tasks ensure_open"
    and "keeps bound_and_tasks (the_room i e)"
    and "keeps bound_and_tasks (opening_refused i)"
    and "keeps bound_and_tasks (close_then i ph)"
    and "keeps bound_and_tasks (discover i h)"
    and "keeps bound_and_tasks (discovery_timeout i)"
    and "keeps bound_and_tasks (pairing_timeout i)"
    and "keeps bound_and_tasks (cancel_session i)"
  unfolding setup_runtime_def begin_unload_def finish_unload_def require_closure_def ensure_open_def the_room_def
    opening_refused_def close_then_def discover_def discovery_timeout_def pairing_timeout_def cancel_session_def
  by (intro keeps_rules; simp add: bound_defs)+

lemma keeps_device [keeps_rules]:
  shows "keeps bound_and_tasks (device_joined i ev)"
    and "keeps bound_and_tasks (device_announced i ev)"
    and "keeps bound_and_tasks (device_interviewed i ev)"
  unfolding device_joined_def device_announced_def device_interviewed_def
  by (intro keeps_rules; simp add: bound_defs)+

lemma keeps_start_pairing [keeps_rules]: "keeps bound_and_tasks (start_pairing room op i now)"
  unfolding start_pairing_def by (intro keeps_rules; simp add: bound_defs)

lemma keeps_handle_bridge_event [keeps_rules]: "keeps bound_and_tasks (async_handle_bridge_event ev now)"
  unfolding async_handle_bridge_event_def by (intro keeps_rules; simp add: bound_defs)

lemma keeps_set_temperature [keeps_rules]: "keeps bound_and_tasks (set_temperature room t h r)"
  unfolding set_temperature_def by (intro keeps_rules; simp add: bound_defs)

section \<open>Giving a room another valve\<close>

definition rebound :: "room_slot_state \<Rightarrow> room_binding \<Rightarrow> room_slot_state" where
  "rebound r b = r\<lparr>rs_previous := rs_binding r, rs_binding := Some b, rs_revision := rs_revision r + 1\<rparr>"

lemma in_allocations: "(k, a) \<in> set (allocations rooms) \<longleftrightarrow> (\<exists>(j, r) \<in> set rooms. rs_room_id r = k \<and> a \<in> set (slot_bindings r))"
  by (force simp: allocations_def)

lemma rebound_bindings: "a \<in> set (slot_bindings (rebound r b)) \<Longrightarrow> a = b \<or> a \<in> set (slot_bindings r)"
  by (auto simp: slot_bindings_simps rebound_def)

lemma rebound_allocations:
  assumes "dict_ok rooms" "map_of rooms i = Some r" "(k, a) \<in> set (allocations (dict_put rooms i (rebound r b)))"
  shows "(k, a) \<in> set (allocations rooms) \<or> k = rs_room_id r \<and> a = b"
proof -
  have r: "(i, r) \<in> set rooms" using assms by (simp add: map_of_dict_ok)
  from assms(3) obtain j x where x: "(j, x) \<in> set (dict_put rooms i (rebound r b))" "rs_room_id x = k" "a \<in> set (slot_bindings x)"
    by (auto simp: in_allocations)
  show ?thesis
  proof (cases "(j, x) \<in> set rooms")
    case True
    then show ?thesis using x by (force simp: in_allocations)
  next
    case False
    then have "x = rebound r b" using x assms(1) by (auto simp: set_dict_put)
    then have "a = b \<or> a \<in> set (slot_bindings r)" "k = rs_room_id r"
      using x rebound_bindings by (auto, simp add: rebound_def)
    then show ?thesis using r by (force simp: in_allocations)
  qed
qed

lemma available_apart:
  "\<lbrakk>binding_available rooms b i; (k, a) \<in> set (allocations rooms); k \<noteq> i\<rbrakk> \<Longrightarrow>
     rb_registry_id a \<noteq> rb_registry_id b \<and> rb_ieee a \<noteq> rb_ieee b"
  unfolding binding_available_def in_allocations list_all_iff split_beta by (metis snd_conv)

lemma rebound_ok:
  assumes "rooms_ok rooms" "map_of rooms i = Some r" "binding_ok b" "binding_available rooms b i"
  shows "rooms_ok (dict_put rooms i (rebound r b))"
proof -
  have d: "dict_ok rooms" and r: "(i, r) \<in> set rooms" "rs_room_id r = i" "room_ok r"
    using assms by (auto simp: rooms_ok_def map_of_dict_ok list_all_iff)
  have "room_ok (rebound r b)" "rs_room_id (rebound r b) = i"
    using r assms(3) rebound_bindings by (auto simp: room_ok_def list_all_iff) (auto simp: slot_ok_def rebound_def)
  then have "list_all (\<lambda>(i, r). rs_room_id r = i \<and> room_ok r) (dict_put rooms i (rebound r b))"
    using assms(1) d by (auto simp: rooms_ok_def list_all_iff set_dict_put)
  moreover have "rooms_disjoint (dict_put rooms i (rebound r b))"
    unfolding rooms_disjoint_def
  proof (clarify)
    fix k1 a1 k2 a2
    assume "(k1, a1) \<in> set (allocations (dict_put rooms i (rebound r b)))" "(k2, a2) \<in> set (allocations (dict_put rooms i (rebound r b)))"
      and ne: "k1 \<noteq> k2"
    then have "(k1, a1) \<in> set (allocations rooms) \<or> k1 = i \<and> a1 = b" "(k2, a2) \<in> set (allocations rooms) \<or> k2 = i \<and> a2 = b"
      using rebound_allocations [OF d assms(2)] r(2) by blast+
    moreover have "(k1, a1) \<in> set (allocations rooms) \<Longrightarrow> (k2, a2) \<in> set (allocations rooms) \<Longrightarrow>
        rb_registry_id a1 \<noteq> rb_registry_id a2 \<and> rb_ieee a1 \<noteq> rb_ieee a2"
      using assms(1) ne by (force simp: rooms_ok_def rooms_disjoint_def)
    ultimately show "rb_registry_id a1 \<noteq> rb_registry_id a2 \<and> rb_ieee a1 \<noteq> rb_ieee a2"
      using available_apart [OF assms(4)] ne by fastforce
  qed
  moreover have "i \<in> set (map fst rooms)" using r by force
  ultimately show ?thesis using assms(1) d by (simp add: rooms_ok_def keys_dict_put)
qed

lemma resolve_candidate_ok: "resolve_candidate h s = Inr (Some b) \<Longrightarrow> binding_ok b"
  by (auto simp: resolve_candidate_def make_binding_def Let_def split: option.splits if_splits list.splits sum.splits)

section \<open>The end of a task\<close>

lemmas run_defs = andthen_def ret_def throw_def check_def on_runtime_def modify_def get_runtime_def reads_def
  the_session_def the_room_def handle_def catching_def persist_rooms_def set_room_def

lemma dict_put_twice [simp]: "dict_put (dict_put d k v) k w = dict_put d k w"
  by (induction d) auto

lemma set_room_bound [simp]:
  "rt_rooms (set_room k r rt) = dict_put (rt_rooms rt) k r" "rt_persisted (set_room k r rt) = rt_persisted rt"
  "rt_tasks (set_room k r rt) = rt_tasks rt"
  by (simp_all add: set_room_def)

text \<open>A room got the valve \<open>b\<close>, in memory and in the persisted data.\<close>

definition gave_room :: "string \<Rightarrow> room_binding \<Rightarrow> runtime \<Rightarrow> runtime \<Rightarrow> bool" where
  "gave_room k b rt rt' \<longleftrightarrow> (\<exists>room. map_of (rt_rooms rt) k = Some room \<and> binding_available (rt_rooms rt) b (rs_room_id room)
     \<and> rt_rooms rt' = dict_put (rt_rooms rt) k (rebound room b) \<and> rt_persisted rt' = rooms_json (rt_rooms rt'))"

lemma gave_room_bound: "bound rt1 = bound rt2 \<Longrightarrow> gave_room k b rt rt1 = gave_room k b rt rt2"
  by (simp add: gave_room_def bound_def)

lemma commit_verified_effect:
  assumes "commit_verified i k room tested h accepted (rt, sc) = (r, (rt', sc'))" "map_of (rt_rooms rt) k = Some room"
  shows "rt_tasks rt' = rt_tasks rt"
    and "r = Inr () \<Longrightarrow> bound rt' = bound rt \<or> (\<exists>b. gave_room k b rt rt' \<and> binding_ok b \<and> same_identity b tested)"
    and "r = Inl e \<Longrightarrow> e \<noteq> RCancelled \<and> bound (set_room k room rt') = bound rt"
  using assms unfolding commit_verified_def
  by (auto simp: run_defs bound_def rebound_def gave_room_def intro: resolve_candidate_ok split: option.splits sum.splits if_splits)

lemma finish_commit_effect:
  assumes "finish_commit i tested r h accepted (rt, sc) = (out, (rt', sc'))"
  shows "rt_tasks rt' = rt_tasks rt \<and>
     (bound rt' = bound rt \<or> r = Passed \<and> (\<exists>k b. gave_room k b rt rt' \<and> binding_ok b \<and> same_identity b tested))"
proof (cases "r = Passed \<and> (\<exists>s room. map_of (rt_sessions rt) i = Some s \<and> map_of (rt_rooms rt) (ss_room s) = Some room
    \<and> ss_phase s = TESTING)")
  case False
  then show ?thesis using assms
    by (auto simp: finish_commit_def run_defs bound_def split: option.splits if_splits)
next
  case True
  then obtain s room where s: "r = Passed" "map_of (rt_sessions rt) i = Some s" "map_of (rt_rooms rt) (ss_room s) = Some room"
    "ss_phase s = TESTING" by blast
  obtain res rt1 sc1 where m: "commit_verified i (ss_room s) room tested h accepted (rt, sc) = (res, (rt1, sc1))"
    by (metis prod.exhaust)
  note eff = commit_verified_effect [OF m s(3)]
  show ?thesis
  proof (cases res)
    case (Inr u)
    then have "rt' = rt1" using assms s m by (simp add: finish_commit_def run_defs)
    then show ?thesis using eff Inr s(1) by (metis unit.exhaust)
  next
    case (Inl e)
    then have "bound rt' = bound (set_room (ss_room s) room rt1)" "rt_tasks rt' = rt_tasks rt1"
      using assms s m eff(3) by (auto simp: finish_commit_def run_defs bound_def)
    then show ?thesis using eff Inl by metis
  qed
qed

lemma finish_rollback_effect:
  assumes "finish_rollback k revision current previous r h accepted (rt, sc) = (out, (rt', sc'))"
    and "rooms_ok (rt_rooms rt)"
  shows "rt_tasks rt' = rt_tasks rt \<and>
     (bound rt' = bound rt \<or> r = Passed \<and> gave_room k previous rt rt' \<and> binding_ok previous)"
proof -
  have ok: "binding_ok previous \<and> rs_room_id room = k" if "map_of (rt_rooms rt) k = Some room" "rs_previous room = Some previous" for room
    using assms(2) that map_of_SomeD [OF that(1)]
    by (auto simp: rooms_ok_def list_all_iff room_ok_def slot_bindings_simps)
  have swap: "x\<lparr>rs_binding := Some previous, rs_previous := Some current, rs_revision := rs_revision x + 1\<rparr> = rebound x previous"
    if "rs_binding x = Some current" for x
    using that by (cases x) (simp add: rebound_def)
  show ?thesis using assms(1) ok
    by (auto simp: finish_rollback_def run_defs bound_def gave_room_def swap split: option.splits if_splits)
qed

lemma end_task_bound [simp]: "rt_rooms (end_task n rt) = rt_rooms rt" "rt_persisted (end_task n rt) = rt_persisted rt"
  "rt_tasks (end_task n rt) = dict_del (rt_tasks rt) n"
  by (simp_all add: end_task_def)

lemma set_stage_bound [simp]: "rt_rooms (set_stage n st rt) = rt_rooms rt" "rt_persisted (set_stage n st rt) = rt_persisted rt"
  by (simp_all add: set_stage_def split: option.splits)

lemma start_task_bound [simp]: "rt_rooms (start_task k op rt) = rt_rooms rt" "rt_persisted (start_task k op rt) = rt_persisted rt"
  by (simp_all add: start_task_def)

text \<open>A rollback tests the binding it restores.\<close>

definition stage_binding :: "stage \<Rightarrow> room_binding option" where
  "stage_binding st = (case st of Queued \<Rightarrow> None | Testing b e i c \<Rightarrow> Some b | Tested b r \<Rightarrow> Some b)"

definition task_ok :: "task \<Rightarrow> bool" where
  "task_ok t \<longleftrightarrow> (case tk_operation t of TestAndCommit i \<Rightarrow> True
     | TestAndRollback revision current previous \<Rightarrow> stage_binding (tk_stage t) \<in> {None, Some previous})"

lemma same_identity_refl [simp]: "same_identity b b"
  by (simp add: same_identity_def)

lemma finish_task_effect:
  assumes "finish_task n h accepted (rt, sc) = (out, (rt', sc'))" "rooms_ok (rt_rooms rt)"
    and "\<And>t. map_of (rt_tasks rt) n = Some t \<Longrightarrow> task_ok t"
  shows "(rt_tasks rt' = rt_tasks rt \<or> rt_tasks rt' = dict_del (rt_tasks rt) n) \<and> (bound rt' = bound rt \<or>
     (\<exists>t tested k b. map_of (rt_tasks rt) n = Some t \<and> tk_stage t = Tested tested Passed
        \<and> gave_room k b rt rt' \<and> binding_ok b \<and> same_identity b tested))"
proof (cases "\<exists>t b r. map_of (rt_tasks rt) n = Some t \<and> tk_stage t = Tested b r")
  case False
  then show ?thesis using assms(1)
    by (auto simp: finish_task_def run_defs bound_def split: option.splits stage.splits)
next
  case True
  then obtain t b r where t: "map_of (rt_tasks rt) n = Some t" "tk_stage t = Tested b r" by blast
  show ?thesis
  proof (cases "tk_operation t")
    case (TestAndCommit i)
    obtain res rt1 sc1 where m: "finish_commit i b r h accepted (rt, sc) = (res, (rt1, sc1))" by (metis prod.exhaust)
    have end1: "rt' = end_task n rt1" using assms(1) t TestAndCommit m by (simp add: finish_task_def run_defs attempt_def from_sum_def)
    then have "bound rt' = bound rt1" by (simp add: bound_def)
    then show ?thesis using t finish_commit_effect [OF m] gave_room_bound [of rt' rt1] end1 by simp
  next
    case (TestAndRollback revision current previous)
    obtain res rt1 sc1 where m: "finish_rollback (tk_room t) revision current previous r h accepted (rt, sc) = (res, (rt1, sc1))"
      by (metis prod.exhaust)
    have end1: "rt' = end_task n rt1" using assms(1) t TestAndRollback m by (simp add: finish_task_def run_defs attempt_def from_sum_def)
    then have "bound rt' = bound rt1" by (simp add: bound_def)
    moreover have "b = previous" using assms(3) [OF t(1)] t(2) TestAndRollback by (simp add: task_ok_def stage_binding_def)
    ultimately show ?thesis
      using t finish_rollback_effect [OF m assms(2)] gave_room_bound [of rt' rt1] end1 by (auto intro!: exI [of _ "tk_room t"] exI [of _ previous])
  qed
qed

section \<open>Steps\<close>

lemma keeps_bound_of: "keeps bound_and_tasks m \<Longrightarrow> keeps bound m"
  by (simp add: keeps_def bound_and_tasks_def)

lemma keeps_task_steps:
  shows "keeps bound (async_commit i)"
    and "keeps bound (rollback_room room revision)"
    and "keeps bound (begin_test n h)"
    and "keeps bound (finish_test n xs)"
    and "keeps bound (cancel_task n)"
  unfolding async_commit_def rollback_room_def begin_test_def finish_test_def cancel_task_def
  by (intro keeps_rules keeps_on keeps_rules [THEN keeps_bound_of]; simp add: bound_def)+

definition finishes :: "rt_event \<Rightarrow> bool" where
  "finishes ev = (case ev of FinishTask n h accepted \<Rightarrow> True | _ \<Rightarrow> False)"

lemma step_bound: "\<not> finishes ev \<Longrightarrow> bound (snd (rt_step ev rt)) = bound rt"
proof -
  assume "\<not> finishes ev"
  then have "keeps bound (event_action ev)"
    by (cases ev) (simp_all add: event_action_def finishes_def keeps_task_steps keeps_rules [THEN keeps_bound_of] keeps_bound_of [OF keeps_on])
  then show ?thesis by (simp add: rt_step_def keeps_def split_beta)
qed

definition queues_one :: "runtime \<Rightarrow> runtime \<Rightarrow> bool" where
  "queues_one rt rt' \<longleftrightarrow> rt_tasks rt' = rt_tasks rt
     \<or> (\<exists>n k op. rt_tasks rt' = dict_put (rt_tasks rt) n \<lparr>tk_room = k, tk_operation = op, tk_stage = Queued\<rparr>)"

lemma queueing_steps:
  shows "queues_one rt (fst (snd (async_commit i (rt, sc))))"
    and "queues_one rt (fst (snd (rollback_room room revision (rt, sc))))"
proof -
  obtain res rt1 sc1 where m: "reconcile_if_required (rt, sc) = (res, (rt1, sc1))" by (metis prod.exhaust)
  have "rt_tasks rt1 = rt_tasks rt" using keepsD [OF keeps_reconcile_if_required m] by (simp add: bound_and_tasks_def)
  then show "queues_one rt (fst (snd (async_commit i (rt, sc))))" "queues_one rt (fst (snd (rollback_room room revision (rt, sc))))"
    using m by (auto simp: queues_one_def async_commit_def rollback_room_def ensure_open_def run_defs start_task_def split: option.splits sum.splits)
qed

section \<open>Passed tests\<close>

text \<open>The tests a step, or a sequence of steps, saw pass: binding, entity, target and challenge.\<close>

type_synonym passed_test = "room_binding \<times> string \<times> py_float \<times> py_float"

definition test_passed :: "rt_event \<Rightarrow> runtime \<Rightarrow> passed_test list" where
  "test_passed ev rt = (case ev of
     FinishTest n xs \<Rightarrow> (case map_of (rt_tasks rt) n of None \<Rightarrow> [] | Some t \<Rightarrow> (case tk_stage t of
        Testing b entity intended c \<Rightarrow> if fst (run_test entity intended c xs) = Passed then [(b, entity, intended, c)] else []
      | _ \<Rightarrow> []))
   | _ \<Rightarrow> [])"

fun passed_tests :: "rt_event list \<Rightarrow> runtime \<Rightarrow> passed_test list" where
  "passed_tests [] rt = []"
| "passed_tests (ev # evs) rt = test_passed ev rt @ passed_tests evs (snd (rt_step ev rt))"

definition task_sound :: "passed_test list \<Rightarrow> task \<Rightarrow> bool" where
  "task_sound tests t \<longleftrightarrow> task_ok t \<and> (\<forall>b. tk_stage t = Tested b Passed \<longrightarrow> b \<in> fst ` set tests)"

definition tasks_sound :: "passed_test list \<Rightarrow> runtime \<Rightarrow> bool" where
  "tasks_sound tests rt \<longleftrightarrow> (\<forall>(n, t) \<in> set (rt_tasks rt). task_sound tests t)"

lemma set_dict_put_subset: "set (dict_put d k v) \<subseteq> insert (k, v) (set d)"
  by (induction d) auto

lemma tasks_sound_put:
  "\<lbrakk>tasks_sound tests rt; task_sound tests t; rt_tasks rt' = dict_put (rt_tasks rt) n t\<rbrakk> \<Longrightarrow> tasks_sound tests rt'"
  using set_dict_put_subset [of "rt_tasks rt" n t] by (fastforce simp: tasks_sound_def)

lemma tasks_sound_subset: "tasks_sound tests rt \<Longrightarrow> set (rt_tasks rt') \<subseteq> set (rt_tasks rt) \<Longrightarrow> tasks_sound tests rt'"
  by (auto simp: tasks_sound_def)

lemma task_sound_Queued: "task_sound tests \<lparr>tk_room = k, tk_operation = op, tk_stage = Queued\<rparr>"
  by (simp add: task_sound_def task_ok_def stage_binding_def split: operation.splits)

lemma set_dict_del: "set (dict_del d k) \<subseteq> set d"
  by (auto simp: dict_del_def)

lemma tasks_sound_end: "tasks_sound tests rt \<Longrightarrow> tasks_sound tests (end_task n rt)"
  by (erule tasks_sound_subset) (simp add: set_dict_del)

lemma tasks_sound_weaken: "tasks_sound tests rt \<Longrightarrow> tasks_sound (tests @ later) rt"
  by (fastforce simp: tasks_sound_def task_sound_def)

lemma tasks_sound_of: "tasks_sound tests rt \<Longrightarrow> map_of (rt_tasks rt) n = Some t \<Longrightarrow> task_sound tests t"
  using map_of_SomeD by (fastforce simp: tasks_sound_def)

lemma begin_test_sound:
  assumes "tasks_sound tests rt"
  shows "tasks_sound tests (fst (snd (begin_test n h (rt, sc))))"
proof (cases "\<exists>t. map_of (rt_tasks rt) n = Some t \<and> tk_stage t = Queued \<and> \<not> room_locked rt (tk_room t)")
  case False
  then show ?thesis using assms by (auto simp: begin_test_def run_defs split: option.splits)
next
  case True
  then obtain t where t: "map_of (rt_tasks rt) n = Some t" "tk_stage t = Queued" "\<not> room_locked rt (tk_room t)" by blast
  show ?thesis
  proof (cases "test_plan h rt t")
    case None
    then show ?thesis
      using assms t by (simp add: begin_test_def run_defs tasks_sound_end)
  next
    case (Some p)
    then obtain b intended where p: "test_plan h rt t = Some (b, intended)" by (cases p) auto
    define st where "st = (case test_guards h b intended of None \<Rightarrow> Tested b Failed | Some (entity, c) \<Rightarrow> Testing b entity intended c)"
    have "task_sound tests (t\<lparr>tk_stage := st\<rparr>)"
      using p by (auto simp: task_sound_def task_ok_def stage_binding_def st_def test_plan_def split: operation.splits option.splits)
    moreover have "rt_tasks (fst (snd (begin_test n h (rt, sc)))) = dict_put (rt_tasks rt) n (t\<lparr>tk_stage := st\<rparr>)"
      using t p by (simp add: begin_test_def run_defs set_stage_def st_def [symmetric])
    ultimately show ?thesis by (rule tasks_sound_put [OF assms])
  qed
qed

lemma finish_test_sound:
  assumes "tasks_sound tests rt"
  shows "tasks_sound (tests @ test_passed (FinishTest n xs) rt) (fst (snd (finish_test n xs (rt, sc))))"
proof (cases "\<exists>t b e i c. map_of (rt_tasks rt) n = Some t \<and> tk_stage t = Testing b e i c")
  case False
  then show ?thesis using assms tasks_sound_weaken
    by (auto simp: finish_test_def run_defs split: option.splits stage.splits)
next
  case True
  then obtain t b e i c where t: "map_of (rt_tasks rt) n = Some t" "tk_stage t = Testing b e i c" by blast
  obtain r sent where r: "run_test e i c xs = (r, sent)" by force
  have "task_sound (tests @ test_passed (FinishTest n xs) rt) (t\<lparr>tk_stage := Tested b r\<rparr>)"
    using tasks_sound_of [OF assms t(1)] t r
    by (auto simp: task_sound_def task_ok_def stage_binding_def test_passed_def split: operation.splits)
  then have "tasks_sound (tests @ test_passed (FinishTest n xs) rt) rt'"
    if "rt_tasks rt' = dict_put (rt_tasks rt) n (t\<lparr>tk_stage := Tested b r\<rparr>)" for rt'
    using tasks_sound_put [OF tasks_sound_weaken [OF assms]] that by blast
  moreover have "tasks_sound (tests @ test_passed (FinishTest n xs) rt) rt'" if "rt_tasks rt' = dict_del (rt_tasks rt) n" for rt'
    using tasks_sound_subset [OF tasks_sound_weaken [OF assms]] that set_dict_del by metis
  moreover have "rt_tasks (fst (snd (finish_test n xs (rt, sc)))) =
      (if r = Stopped then dict_del (rt_tasks rt) n else dict_put (rt_tasks rt) n (t\<lparr>tk_stage := Tested b r\<rparr>))"
    using t r by (simp add: finish_test_def run_defs set_stage_def)
  ultimately show ?thesis by (cases "r = Stopped") simp_all
qed

text \<open>The rooms in memory are sound and are the persisted ones.\<close>

definition rooms_stored :: "runtime \<Rightarrow> bool" where
  "rooms_stored rt \<longleftrightarrow> rooms_ok (rt_rooms rt) \<and> rooms_from_json (rt_persisted rt) = Inr (rt_rooms rt)"

lemma rooms_stored_bound: "bound rt' = bound rt \<Longrightarrow> rooms_stored rt' = rooms_stored rt"
  by (simp add: rooms_stored_def bound_def)

lemma gave_room_stored:
  assumes "gave_room k b rt rt'" "binding_ok b" "rooms_stored rt"
  shows "rooms_stored rt'"
proof -
  obtain room where r: "map_of (rt_rooms rt) k = Some room" "binding_available (rt_rooms rt) b (rs_room_id room)"
    "rt_rooms rt' = dict_put (rt_rooms rt) k (rebound room b)" "rt_persisted rt' = rooms_json (rt_rooms rt')"
    using assms(1) by (auto simp: gave_room_def)
  moreover have "rs_room_id room = k"
    using map_of_SomeD [OF r(1)] assms(3) by (auto simp: rooms_stored_def rooms_ok_def list_all_iff)
  ultimately have "rooms_ok (rt_rooms rt')"
    using rebound_ok [of "rt_rooms rt" k room b] assms(2,3) by (simp add: rooms_stored_def)
  then show ?thesis using r(4) by (simp add: rooms_stored_def rooms_round)
qed

lemma step_finish:
  assumes "rooms_stored rt" "tasks_sound tests rt"
  shows "bound (snd (rt_step (FinishTask n h accepted) rt)) = bound rt \<or>
     (\<exists>k b tested. gave_room k b rt (snd (rt_step (FinishTask n h accepted) rt)) \<and> binding_ok b
        \<and> same_identity b tested \<and> tested \<in> fst ` set tests)"
    and "tasks_sound tests (snd (rt_step (FinishTask n h accepted) rt))"
proof -
  obtain out rt' sc' where m: "finish_task n h accepted (rt, []) = (out, (rt', sc'))" by (metis prod.exhaust)
  have step: "snd (rt_step (FinishTask n h accepted) rt) = rt'" by (simp add: rt_step_def event_action_def event_script_def m)
  have ok: "task_ok t" if "map_of (rt_tasks rt) n = Some t" for t
    using tasks_sound_of [OF assms(2) that] by (simp add: task_sound_def)
  note eff = finish_task_effect [OF m _ ok] assms(1) [unfolded rooms_stored_def]
  show "bound (snd (rt_step (FinishTask n h accepted) rt)) = bound rt \<or>
     (\<exists>k b tested. gave_room k b rt (snd (rt_step (FinishTask n h accepted) rt)) \<and> binding_ok b
        \<and> same_identity b tested \<and> tested \<in> fst ` set tests)"
    unfolding step using eff tasks_sound_of [OF assms(2)] unfolding task_sound_def by metis
  show "tasks_sound tests (snd (rt_step (FinishTask n h accepted) rt))"
    unfolding step using eff tasks_sound_subset [OF assms(2)] set_dict_del by (metis order_refl)
qed

lemma step_tasks_sound:
  assumes "rooms_stored rt" "tasks_sound tests rt"
  shows "tasks_sound (tests @ test_passed ev rt) (snd (rt_step ev rt))"
proof -
  have step: "snd (rt_step ev rt) = fst (snd (event_action ev (rt, event_script ev)))"
    by (simp add: rt_step_def split_beta)
  have same: "tasks_sound (tests @ test_passed ev rt) (snd (rt_step ev rt))" if "keeps bound_and_tasks (event_action ev)"
    using that tasks_sound_subset [OF tasks_sound_weaken [OF assms(2)]] unfolding step keeps_def bound_and_tasks_def
    by simp
  have queue: "tasks_sound tests rt'" if "queues_one rt rt'" for rt'
    using that tasks_sound_put [OF assms(2)] tasks_sound_subset [OF assms(2)] task_sound_Queued unfolding queues_one_def
    by (metis order_refl)
  show ?thesis
  proof (cases ev)
    case (FinishTask n h accepted)
    then show ?thesis using step_finish(2) [OF assms] by (simp add: test_passed_def)
  next
    case (FinishTest n xs)
    show ?thesis unfolding step unfolding FinishTest using finish_test_sound [OF assms(2)] by (simp add: event_action_def)
  next
    case (BeginTest n h)
    show ?thesis unfolding step unfolding BeginTest using begin_test_sound [OF assms(2)] by (simp add: event_action_def test_passed_def)
  next
    case (CancelTask n)
    show ?thesis unfolding step unfolding CancelTask using assms(2) tasks_sound_end
      by (auto simp: event_action_def test_passed_def cancel_task_def run_defs split: option.splits stage.splits)
  next
    case (Commit i script)
    show ?thesis unfolding step unfolding Commit using queue queueing_steps by (simp add: event_action_def test_passed_def)
  next
    case (Rollback room revision script)
    show ?thesis unfolding step unfolding Rollback using queue queueing_steps by (simp add: event_action_def test_passed_def)
  qed (rule same, simp add: event_action_def keeps_rules)+
qed

lemma step_rooms_stored:
  assumes "rooms_stored rt" "tasks_sound tests rt"
  shows "rooms_stored (snd (rt_step ev rt))"
proof (cases "finishes ev")
  case False
  then show ?thesis using step_bound rooms_stored_bound assms(1) by blast
next
  case True
  then obtain n h accepted where ev: "ev = FinishTask n h accepted" by (cases ev) (simp_all add: finishes_def)
  from step_finish(1) [OF assms, of n h accepted] show ?thesis
    unfolding ev using gave_room_stored [OF _ _ assms(1)] rooms_stored_bound assms(1) by metis
qed

lemma after_events_simps [simp]:
  "after_events [] rt = rt" "after_events (ev # evs) rt = after_events evs (snd (rt_step ev rt))"
  "after_events (evs @ evs') rt = after_events evs' (after_events evs rt)"
  by (simp_all add: after_events_def)

lemma events_sound:
  "\<lbrakk>rooms_stored rt; tasks_sound tests rt\<rbrakk> \<Longrightarrow>
     rooms_stored (after_events evs rt) \<and> tasks_sound (tests @ passed_tests evs rt) (after_events evs rt)"
proof (induction evs arbitrary: rt tests)
  case (Cons ev evs)
  show ?case
    using Cons.IH [OF step_rooms_stored [OF Cons.prems] step_tasks_sound [OF Cons.prems]] by simp
qed simp

lemma new_runtime_sound: "new_runtime data = Some rt \<Longrightarrow> rooms_stored rt \<and> tasks_sound [] rt"
  by (auto simp: new_runtime_def rooms_stored_def tasks_sound_def rooms_from_json_ok split: sum.splits)

lemma reached_sound:
  "new_runtime data = Some rt \<Longrightarrow>
     rooms_stored (after_events evs rt) \<and> tasks_sound (passed_tests evs rt) (after_events evs rt)"
  using events_sound [of rt "[]" evs] new_runtime_sound by simp

end
