(* ===== verification/Runtime_Properties.thy ===== *)
theory Runtime_Properties
  imports Runtime_Safety
begin

text \<open>
  The properties of the replacement runtime, with the pairing of one valve as their instance.
\<close>

section \<open>A pairing session\<close>

text \<open>A valve that reports its target; its home; and the events of pairing it with the kitchen.\<close>

definition sample_ieee :: string where
  "sample_ieee = ''0x0011223344556677''"

definition sample_climate :: climate_state where
  "sample_climate = \<lparr>cs_state = ''heat'', cs_attributes = [(''min_temp'', Some (Fin 5)), (''max_temp'', Some (Fin 30)),
     (''target_temp_step'', Some (Fin 1)), (''temperature'', Some (Fin 20))], cs_features = Some 1, cs_modes = Some [''heat'']\<rparr>"

definition sample_home :: home where
  "sample_home = \<lparr>
     ho_devices = [\<lparr>di_id = ''d'', di_identifiers = [(''mqtt'', ''zigbee2mqtt_'' @ sample_ieee)], di_model = Some ''BRT-100-TRV'',
       di_manufacturer = Some ''Moes'', di_name = Some ''valve''\<rparr>],
     ho_entities = [\<lparr>ei_id = ''e'', ei_entity_id = ''climate.valve'', ei_domain = ''climate'', ei_platform = ''mqtt'',
       ei_disabled = False, ei_device = Some ''d'', ei_unique_id = sample_ieee @ ''_climate_zigbee2mqtt''\<rparr>],
     ho_states = [(''climate.valve'', sample_climate)], ho_default_target = Fin 12\<rparr>"

definition sample_mqtt_event :: "string \<Rightarrow> utc_time \<Rightarrow> mqtt_event" where
  "sample_mqtt_event type received = \<lparr>be_type = type, be_ieee = sample_ieee, be_name = ''valve'', be_status = JStr ''successful'',
     be_supported = JBool True, be_model = JStr ''BRT-100-TRV'', be_manufacturer = JStr ''Moes'', be_received = Some received\<rparr>"

definition sample_exchange :: "py_float \<Rightarrow> exchange" where
  "sample_exchange t = (Accepted, [Seen False None, Seen True (Some t)])"

text \<open>The notices in the argument arrive while joining is being closed after the interview.\<close>

definition pairing_events :: "notice list \<Rightarrow> rt_event list" where
  "pairing_events ns = [SetUp [Call [] (Proved 0)],
     StartPairing ''kitchen'' ''replace'' ''s'' 1 [Baseline True, Baseline True, Call [] (Proved 10)],
     ReceiveEvent (sample_mqtt_event ''device_joined'' 20) 20 [],
     ReceiveEvent (sample_mqtt_event ''device_interview'' 30) 30 [Call (map Notice ns) (Proved 40)]]"

definition commit_events :: "rt_event list" where
  "commit_events = [Discover ''s'' sample_home [], Commit ''s'' [], BeginTest 0 sample_home,
     FinishTest 0 (sample_exchange (Fin 13), sample_exchange (Fin 12), sample_exchange (Fin 12))]"

definition sample_data :: "(string \<times> json) list" where
  "sample_data = rooms_json default_rooms"

definition sample_runtime :: runtime where
  "sample_runtime = the (new_runtime sample_data)"

text \<open>The same pairing, tested and committed.\<close>

definition tested_events :: "rt_event list" where
  "tested_events = pairing_events [] @ commit_events"

lemma sample_runtime: "new_runtime sample_data = Some sample_runtime"
  by code_simp

section \<open>Properties\<close>

text \<open>
  C36. The rooms of the running integration are the rooms its config entry would load: after any
  sequence of pairing, bridge, commit, rollback, time-out and unload steps, in any interleaving and
  whatever the bridge and Home Assistant answer, the persisted data still parses, to exactly the
  rooms in memory, and no valve is allocated to two rooms, neither by registry entry nor by IEEE
  address.
\<close>

theorem runtime_rooms_consistent:
  assumes "new_runtime data = Some rt"
  shows "rooms_from_json (rt_persisted (after_events evs rt)) = Inr (rt_rooms (after_events evs rt))
    \<and> rooms_disjoint (rt_rooms (after_events evs rt))"
  using reached_sound [OF assms, of evs] by (simp add: rooms_stored_def rooms_ok_def)

theorem runtime_rooms_consistent_witness:
  "rooms_from_json (rt_persisted (after_events (tested_events @ [FinishTask 0 sample_home True]) sample_runtime)) =
     Inr (rt_rooms (after_events (tested_events @ [FinishTask 0 sample_home True]) sample_runtime))"
  using runtime_rooms_consistent [OF sample_runtime, of "tested_events @ [FinishTask 0 sample_home True]"] by blast

text \<open>
  C37. A room changes its valve only after that valve passed its test: a step that changes a room is
  the end of a test task; it gives the room one new binding, keeps the old one as the previous
  binding, adds one to the revision and changes no other room; the new binding is allocated to no
  other room; and an earlier step of the history saw the test of a binding with the same registry
  entry and IEEE address pass.
\<close>

theorem binding_changes_after_test:
  assumes "new_runtime data = Some rt"
    and "map_of (rt_rooms (after_events evs rt)) k = Some r"
    and "map_of (rt_rooms (snd (rt_step ev (after_events evs rt)))) k = Some r'" and "r' \<noteq> r"
  shows "\<exists>b tested. finishes ev \<and> r' = rebound r b \<and> binding_available (rt_rooms (after_events evs rt)) b k
     \<and> same_identity b tested \<and> tested \<in> fst ` set (passed_tests evs rt)
     \<and> rt_rooms (snd (rt_step ev (after_events evs rt))) = dict_put (rt_rooms (after_events evs rt)) k r'"
proof -
  let ?rt = "after_events evs rt"
  have sound: "rooms_stored ?rt" "tasks_sound (passed_tests evs rt) ?rt" using reached_sound [OF assms(1)] by auto
  have "finishes ev"
  proof (rule ccontr)
    assume "\<not> finishes ev"
    from step_bound [OF this, of ?rt] show False using assms(2-4) by (simp add: bound_def)
  qed
  then obtain n h accepted where ev: "ev = FinishTask n h accepted" by (cases ev) (simp_all add: finishes_def)
  have "bound (snd (rt_step ev ?rt)) \<noteq> bound ?rt" using assms(2-4) by (auto simp: bound_def)
  then obtain j b tested where j: "gave_room j b ?rt (snd (rt_step ev ?rt))" "same_identity b tested"
      "tested \<in> fst ` set (passed_tests evs rt)"
    using step_finish(1) [OF sound, of n h accepted] ev by metis
  then have jk: "j = k" using assms(2-4) by (auto simp: gave_room_def split: if_splits)
  have "rs_room_id r = k"
    using map_of_SomeD [OF assms(2)] sound(1) by (auto simp: rooms_stored_def rooms_ok_def list_all_iff)
  then show ?thesis using j assms(2,3) \<open>finishes ev\<close> unfolding jk by (auto simp: gave_room_def)
qed

lemma sample_rooms:
  "map_option rs_revision (map_of (rt_rooms (after_events tested_events sample_runtime)) ''kitchen'') = Some 0
   \<and> map_option rs_revision (map_of (rt_rooms (snd (rt_step (FinishTask 0 sample_home True)
        (after_events tested_events sample_runtime)))) ''kitchen'') = Some 1"
  by code_simp

theorem binding_changes_after_test_witness: "passed_tests tested_events sample_runtime \<noteq> []"
proof -
  obtain r r' where r: "map_of (rt_rooms (after_events tested_events sample_runtime)) ''kitchen'' = Some r"
      "map_of (rt_rooms (snd (rt_step (FinishTask 0 sample_home True) (after_events tested_events sample_runtime)))) ''kitchen'' = Some r'"
      "rs_revision r = 0" "rs_revision r' = 1"
    using sample_rooms by auto
  then have "r' \<noteq> r" by auto
  from binding_changes_after_test [OF sample_runtime r(1,2) this] show ?thesis by auto
qed

lemma find_SomeD: "List.find P xs = Some x \<Longrightarrow> P x"
  by (induction xs) (auto split: if_splits)

lemma test_guardsD:
  assumes "test_guards h b intended = Some (entity, c)"
  obtains limits where "temperature_limits (the (map_of (ho_states h) entity)) = Some limits" "within_limits limits intended"
    "within_limits limits c" "float_gt (float_abs (float_sub c intended)) tolerance"
proof -
  define st where "st = the (map_of (ho_states h) entity)"
  obtain limits where l: "temperature_limits st = Some limits" "within_limits limits intended" "challenge_target st intended = Some c"
    using assms by (auto simp: test_guards_def Let_def st_def split: option.splits if_splits)
  obtain lo hi where lh: "attribute st ''min_temp'' = Some lo" "attribute st ''max_temp'' = Some hi" "limits = (lo, hi)"
    using l(1) by (auto simp: temperature_limits_def split: option.splits if_splits)
  have "within_limits limits c \<and> float_gt (float_abs (float_sub c intended)) tolerance"
    using l(3) lh by (auto simp: challenge_target_def attribute_def simp del: find.simps dest!: find_SomeD split: option.splits)
  then show ?thesis using that l(1,2) unfolding st_def by blast
qed

lemma fresh_readback_True:
  "fresh_readback n samples target = Some True \<Longrightarrow> \<exists>t. Seen True (Some t) \<in> set (take n samples) \<and> float_close t target"
  by (induction n samples target rule: fresh_readback.induct) (auto split: if_splits option.splits)

lemma command_passed:
  "command_and_wait x target = Passed \<Longrightarrow> \<exists>t. Seen True (Some t) \<in> set (take 25 (snd x)) \<and> float_close t target"
  by (auto simp: command_and_wait_def fresh_readback_True split: call_result.splits option.splits bool.splits)

lemma run_test_shape:
  assumes "run_test entity intended c (x1, x2, x3) = (result, sent)"
  shows "sent \<noteq> [] \<and> last sent = (entity, intended) \<and> set sent \<subseteq> {(entity, c), (entity, intended)}"
    and "result = Passed \<Longrightarrow> command_and_wait x1 c = Passed \<and> command_and_wait x2 intended = Passed"
  using assms by (auto simp: run_test_def recovery_def split: test_result.splits if_splits)

text \<open>
  C38. A test leaves the valve at the target it had to keep: whatever happens during it (a refused
  command, a missing or wrong reading, a cancellation), the last command is the intended target,
  sent to the entity the test started with, and no command leaves the limits the valve reported. A
  test passes only when the challenge, which differs from the target by more than the tolerance,
  and then the target were both reported within the tolerance, by states newer than the command.
\<close>

theorem valve_test_restores:
  assumes "test_guards h b intended = Some (entity, c)" and "run_test entity intended c (x1, x2, x3) = (result, sent)"
  shows "sent \<noteq> [] \<and> last sent = (entity, intended) \<and> float_gt (float_abs (float_sub c intended)) tolerance
    \<and> (\<exists>limits. temperature_limits (the (map_of (ho_states h) entity)) = Some limits
         \<and> (\<forall>(e, t) \<in> set sent. e = entity \<and> within_limits limits t))
    \<and> (result = Passed \<longrightarrow>
         (\<exists>t. Seen True (Some t) \<in> set (take 25 (snd x1)) \<and> float_close t c)
         \<and> (\<exists>t. Seen True (Some t) \<in> set (take 25 (snd x2)) \<and> float_close t intended))"
proof (intro conjI impI)
  obtain limits where l: "temperature_limits (the (map_of (ho_states h) entity)) = Some limits" "within_limits limits intended"
    "within_limits limits c" "float_gt (float_abs (float_sub c intended)) tolerance"
    using test_guardsD [OF assms(1)] by blast
  show "sent \<noteq> []" "last sent = (entity, intended)" using run_test_shape(1) [OF assms(2)] by simp_all
  show "float_gt (float_abs (float_sub c intended)) tolerance" using l(4) .
  have "\<forall>(e, t) \<in> set sent. e = entity \<and> within_limits limits t"
    using run_test_shape(1) [OF assms(2)] l(2,3) by auto
  then show "\<exists>limits. temperature_limits (the (map_of (ho_states h) entity)) = Some limits
      \<and> (\<forall>(e, t) \<in> set sent. e = entity \<and> within_limits limits t)" using l(1) by blast
qed (use run_test_shape(2) [OF assms(2)] command_passed in blast)+

definition sample_room_binding :: room_binding where
  "sample_room_binding = \<lparr>rb_registry_id = ''e'', rb_climate_id = ''climate.valve'', rb_mqtt_id = sample_ieee @ ''_climate_zigbee2mqtt'',
     rb_device_id = ''zigbee2mqtt_'' @ sample_ieee, rb_ieee = sample_ieee, rb_model = ''BRT-100-TRV'',
     rb_manufacturer = ''Moes'', rb_name = ''valve''\<rparr>"

lemma sample_guards: "test_guards sample_home sample_room_binding (Fin 12) = Some (''climate.valve'', Fin 13)"
  by code_simp

lemma sample_test: "run_test ''climate.valve'' (Fin 12) (Fin 13) ((Raised, []), sample_exchange (Fin 12), sample_exchange (Fin 12)) =
    (Failed, [(''climate.valve'', Fin 13), (''climate.valve'', Fin 12)])"
  by code_simp

theorem valve_test_restores_witness: "float_gt (float_abs (float_sub (Fin 13) (Fin 12))) tolerance"
  using valve_test_restores [OF sample_guards sample_test] by blast

end
