(* ===== verification/Mqtt_Properties.thy ===== *)
theory Mqtt_Properties
  imports Mqtt_Safety Runtime_Properties
begin

text \<open>
  The closed baseline the runtime relies on, and the client and the runtime together: a message
  history in which a session is failed while its window is closed and goes on all the same.
\<close>

section \<open>One window, opened and closed\<close>

definition clocks_at :: "int \<Rightarrow> clocks" where
  "clocks_at t = \<lparr>ck_now = t, ck_mono = t\<rparr>"

definition bridge_online :: client_event where
  "bridge_online = StateMessage (clocks_at 0) (Some True) (Some (JObj [(''state'', JStr ''online'')]))"

definition bridge_info :: "int \<Rightarrow> bool \<Rightarrow> int option \<Rightarrow> client_event" where
  "bridge_info t permit window = InfoMessage (clocks_at t) (Some False)
     (Some (JObj ((''permit_join'', JBool permit) # (case window of None \<Rightarrow> [] | Some n \<Rightarrow> [(''permit_join_end'', JInt n)]))))"

definition bridge_response :: "int \<Rightarrow> string \<Rightarrow> int \<Rightarrow> client_event" where
  "bridge_response t transaction n = ResponseMessage (clocks_at t) (Some False)
     (Some (JObj [(''status'', JStr ''ok''), (''transaction'', JStr transaction), (''data'', JObj [(''time'', JInt n)])]))"

definition startup_messages :: "client_event list" where
  "startup_messages = [SetupDone, bridge_online, BeginClose ''startup'', bridge_response 1 ''startup'' 0, bridge_info 2 False None, Poll]"

definition opening_messages :: "client_event list" where
  "opening_messages = [BeginOpen (clocks_at 5) 60 ''s'', bridge_response 10 ''s'' 60, bridge_info 11 True (Some 60), Poll]"

text \<open>While the window is being closed, the bridge publishes its information once more, without an end.\<close>

definition closing_messages :: "client_event list" where
  "closing_messages = [BeginClose ''close'', bridge_info 35 True None, bridge_response 36 ''close'' 0, bridge_info 40 False None, Poll]"

text \<open>The notices and the last result of a history.\<close>

fun client_trace :: "client_event list \<Rightarrow> client \<Rightarrow> notice list \<times> proof_result option" where
  "client_trace [] c = ([], None)"
| "client_trace (ev # evs) c = (case client_step ev c of (c', ns, r) \<Rightarrow>
     (case client_trace evs c' of (later, result) \<Rightarrow> (ns @ later, case result of None \<Rightarrow> r | Some _ \<Rightarrow> result)))"

text \<open>
  C40. A closed baseline comes from a proof: whenever the client reports one, an earlier close
  request was published while the bridge was online and was acknowledged, the last bridge
  information after it said that joining is closed, nothing retained or malformed and no state
  message came in between, and after the proof no message and no request of the client's own
  opened joining again; the report itself is at most fifteen seconds old.
\<close>

theorem closed_baseline_is_proved:
  assumes "current_closed_baseline now (after_client evs new_client) = Some st"
  shows "\<exists>pre mid ev post t. evs = pre @ mid @ ev # post \<and> close_requested t (after_client pre new_client)
     \<and> list_ex (acknowledges t) mid \<and> list_all undisturbed mid \<and> reports mid \<noteq> [] \<and> \<not> last (reports mid)
     \<and> proves_closed ev (after_client (pre @ mid) new_client)
     \<and> all_quiet post (after_client (pre @ mid @ [ev]) new_client)
     \<and> ps_online st \<and> \<not> ps_permit st \<and> \<not> ps_retained st
     \<and> (\<exists>observed. cl_permit_mono (after_client evs new_client) = Some observed \<and> now - observed \<le> seconds 15)"
proof -
  let ?c = "after_client evs new_client"
  have base: "cl_closed_proof ?c > cl_setup_generation ?c" "ps_online st" "\<not> ps_permit st" "\<not> ps_retained st"
    "\<exists>observed. cl_permit_mono ?c = Some observed \<and> now - observed \<le> seconds 15"
    using assms by (auto simp: current_closed_baseline_def split: if_splits option.splits)
  have "cl_closed_proof ?c \<noteq> 0"
    using base(1) after_client_ok [OF new_client_ok, of evs] by (simp add: client_ok_def)
  then obtain history ev post where h: "evs = history @ ev # post" "proves_closed ev (after_client history new_client)"
    "all_quiet post (after_client (history @ [ev]) new_client)"
    using closed_proof_history by blast
  obtain pre mid t where p: "history = pre @ mid" "close_requested t (after_client pre new_client)"
    "list_ex (acknowledges t) mid" "list_all undisturbed mid" "reports mid \<noteq> []" "\<not> last (reports mid)"
    using proved_closure [OF h(2)] by blast
  show ?thesis
    by (intro exI [of _ pre] exI [of _ mid] exI [of _ ev] exI [of _ post] exI [of _ t]) (use h p base in auto)
qed

lemma startup_baseline: "current_closed_baseline 3 (after_client startup_messages new_client) =
    Some \<lparr>ps_online = True, ps_online_generation = 1, ps_generation = 2, ps_observed = 2, ps_permit = False, ps_end = None,
      ps_retained = False, ps_initial = False\<rparr>"
  by code_simp

theorem closed_baseline_is_proved_witness:
  "\<exists>t mid. list_ex (acknowledges t) mid \<and> list_all undisturbed mid \<and> set mid \<subseteq> set startup_messages"
proof -
  from closed_baseline_is_proved [OF startup_baseline] obtain pre mid ev post t
    where h: "startup_messages = pre @ mid @ ev # post" "list_ex (acknowledges t) mid" "list_all undisturbed mid" by blast
  have "set mid \<subseteq> set startup_messages" unfolding h(1) by auto
  then show ?thesis using h(2,3) by blast
qed

text \<open>An event type that is a list or an object is not refused with the parser's own error.\<close>

lemma unhashable_event_type: "parse_mqtt_event (Some (JObj [(''type'', JArr [])])) now = Inl MqttTypeError"
  by (simp add: parse_mqtt_event_def decode_object_def obj_get_def)

section \<open>A failed session that goes on\<close>

definition closing_notices :: "notice list" where
  "closing_notices = fst (client_trace closing_messages (after_client (startup_messages @ opening_messages) new_client))"


end
