(* ===== verification/Spec2Isabelle.thy ===== *)
theory Spec2Isabelle
  imports Prototype_Safety Sha256 Recorder_Properties Codec_Safety Migration_Safety Mqtt_Properties
begin

text \<open>
  A verification development for True Family, a Home Assistant integration that replaces radiator
  valves room by room and moves the references to them in one guarded transaction.

  The program has two cores. The replacement engine swaps the physical device bound to a room
  after pairing, interview, approval and a set-point read-back. The reference bridge rewrites the
  objects that name the old device (dashboards, automations, configuration entries) as an exact
  list of expected writes, under a fence per provider, with journaled intents, receipts and
  verifications, so that the transaction either commits every write or restores every object.

  Theories, in dependency order:

  \<^item> \<open>Prelude\<close>: outcomes, insertion-ordered dictionaries, text tests, loops that remember what they
    have seen (\<open>each_after\<close>, \<open>successive\<close>).
  \<^item> \<open>Canonical_Json\<close>: JSON values and the canonical text the program digests
    (\<open>_canonical_json\<close>).
  \<^item> \<open>Prototype_Engine\<close>, \<open>Prototype_Safety\<close>: \<open>src/backend\<close>. Sessions, rooms, the event parser and
    every operation of \<open>ReplacementEngine\<close>; the invariant of its runs, what commit and read-back
    do, and the two runs in which a device ends up wrongly bound.
  \<^item> \<open>Txn_Values\<close>: scalar validation, revisions, times, digests and identities of
    \<open>reference_transaction.py\<close>. Every definition that digests takes the hash \<open>H\<close> as its first
    argument; the locale \<open>hex_digest\<close> states the one law the records need of it.
  \<^item> \<open>Sha256\<close>: SHA-256 (FIPS 180-4) on machine words, the instance of that locale the program uses.
  \<^item> \<open>Txn_Fence\<close>, \<open>Txn_Object\<close>: one record, one validity predicate (\<open>__post_init__\<close>) and one
    constructor per data class, and the transitions of the three lifecycle records. A constructor
    returns \<open>Inl ValueError\<close> where the class raises it.
  \<^item> \<open>Txn_Attempt\<close>: \<open>BridgeOperationAttempt\<close> and \<open>_validate_attempt\<close>, cut into the loops and state
    checks it consists of, the coverage digest, and the coverage of a retry.
  \<^item> \<open>Txn_Sample\<close>: a committed and a restored attempt, proved valid, as witnesses.
  \<^item> \<open>Txn_Replay\<close>: an abstract provider store on which receipts are conditional writes. Every valid
    attempt replays on it without conflict; a committed attempt installs all postimages, a
    restored one leaves all preimages, and a retry expects exactly the revisions left behind.
  \<^item> \<open>Txn_Exclusion\<close>: effects lie inside their lease, successive fences of a provider do not
    overlap, and a terminal attempt has given every fence back.
  \<^item> \<open>Write_Once\<close>: the locale of a ledger whose entries, once decided, stay (used by the authority's
    three decision tables).
  \<^item> \<open>Txn_Authority\<close>, \<open>Authority_Safety\<close>: \<open>InMemoryFenceAuthority\<close>, the offline host ledger that
    puts, acquires, tombstones and releases fences; decisions are final, and a fence is held or was
    released exactly once.
  \<^item> \<open>Txn_Journal\<close>: every reader and mutator of \<open>InMemoryBridgeOperationJournal\<close> with its indexes.
    \<open>Journal_View\<close> relates the stored records to what they may become, \<open>Journal_Steps\<close> shows that
    every mutator keeps the stored attempts valid, \<open>Journal_Growth\<close> that records only grow,
    \<open>Journal_Append\<close> that a new attempt continues the retry chain and the epochs, and
    \<open>Journal_Safety\<close> collects what holds in every reachable journal.
  \<^item> \<open>Txn_Recorder\<close>: \<open>BridgeTransactionRecorder\<close> over the journal and the authority.
    \<open>Dispatch_Once\<close> is the interface of a thing that is fired at most once; \<open>Recorder_Safety\<close> and
    \<open>Recorder_Properties\<close> interpret it on arbitrary interleavings of recorder calls and host
    operations and show what a \<open>DISPATCH\<close> answer guarantees.
  \<^item> \<open>Codec_Time\<close>, \<open>Codec_Fields\<close>, \<open>Codec_Fence\<close>, \<open>Codec_Object\<close>, \<open>Codec_Attempt\<close>,
    \<open>Codec_Safety\<close>: the persisted form of the records (every \<open>encode_\<close> and \<open>decode_\<close> function), the
    calendar arithmetic behind its timestamps, and the round trip of each record.
  \<^item> \<open>Ref_Projection\<close>, \<open>Projection_Safety\<close>: \<open>reference_projection.py\<close>. Entity tokens, the inspection of
    template syntax trees (the Jinja parser is the parameter \<open>parse\<close>), the code ranges of a template,
    the scan of a document and its rewriting; rewriting changes the approved strings only, and a
    rewritten document has nothing left to rewrite.
  \<^item> \<open>Actions\<close>: actions that may raise, with triples for them.
  \<^item> \<open>Ref_Migration\<close>: \<open>ReferenceMigrationCoordinator\<close> of \<open>reference_migration.py\<close>, every operation, over
    the methods of \<open>ReferenceProvider\<close>, \<open>ReferenceJournal\<close> and \<open>MigrationAuthority\<close> as a record of
    actions (\<open>ports\<close>). \<open>Migration_World\<close> states in the locale \<open>reference_world\<close> what the coordinator may
    rely on when calls can fail at any moment; \<open>Migration_Run\<close> follows one application through every
    failure; \<open>Migration_Memory\<close> models the in-memory provider, authority and journal and a script of
    faults over them, and interprets the locale on both; \<open>Migration_Recovery\<close> adds that calls return
    (\<open>live_world\<close>) and shows that a recovery then succeeds; \<open>Migration_Types\<close> is the invariant of a
    coordinator, \<open>Migration_Plan\<close> what a created plan says, \<open>Migration_Safety\<close> the properties.
  \<^item> \<open>Room_Models\<close>: \<open>models.py\<close>, the bindings and rooms of the integration, their persisted form and
    its loading, which accepts exactly rooms in which no valve is allocated twice. \<open>Py_Float\<close>: the
    floats of targets and readings.
  \<^item> \<open>Replacement_Runtime\<close>, \<open>Valve_Test\<close>: \<open>TrueFamilyRuntime\<close> of \<open>replacement.py\<close>, the production
    counterpart of the prototype: pairing sessions, the closing of the join window, bridge events and
    notices, discovery, time-outs, the test of a valve, commit, rollback, set-point commands, set-up
    and unload. A locked section of a coroutine is one action; a list of \<open>rt_event\<close> is an interleaving
    of them with the answers they meet. \<open>Runtime_Safety\<close> is their invariant (rooms in memory, persisted
    rooms, test tasks), \<open>Runtime_Properties\<close> what follows: rooms stay consistent, a valve is bound
    only after its test passed, and a test restores the target.
  \<^item> \<open>Mqtt_Client\<close>: \<open>mqtt.py\<close>, the parsers of bridge messages and \<open>Zigbee2MqttClient\<close>, its message
    handlers and the requests that open and close joining, as steps on messages (\<open>client_event\<close>).
    \<open>Mqtt_Safety\<close> follows a close request through every message, \<open>Mqtt_Properties\<close> shows that a closed
    baseline comes from a proved closure and that nothing opened joining since, and runs client and
    runtime together: a session that fails while its window is closed goes on all the same.

  Modelling decisions. \<open>type(...) is\<close> and \<open>isinstance\<close> tests are the HOL types; text covers code
  points below 256; a UTC time is an integer number of microseconds; a Python integer is an
  \<open>int\<close>. Dictionaries a validation loop fills while it walks a history are lookups in the prefix
  already seen. No fuel is used: functions are structurally recursive, and the one \<open>while\<close> loop whose cursor
  jumps (\<open>code_ranges_loop\<close>) is a partial function proved to return.

  Not modelled: the file journal and the companion server (operating-system and HTTP calls around
  the codec), the Home Assistant side of the migration, of its providers and of the set-up, the
  physical probe, which nothing in the program calls, and the JavaScript parts.
\<close>

end
